(* ===== verification/Prelude.thy ===== *)
theory Prelude
  imports Main "HOL-Library.Word" "HOL-Library.Char_ord"
begin

text \<open>
  Shared by every theory of the development: the types of identifiers and of
  time, Go's 64-bit signed arithmetic, Go's \<open>strconv.Atoi\<close> and
  \<open>%d\<close>, \<open>strings.SplitN(s, sep, 2)\<close>, the named theorem collections,
  and lemmas on lists and maps.  A Go string is a byte string, hence a
  \<^typ>\<open>string\<close> (8-bit characters).  A ULID is an opaque text; the service
  that produces one is outside the model, so fresh identifiers and the clock
  are arguments of the operations that use them.
\<close>

named_theorems repo_simps \<open>lookup laws of the repositories\<close>
named_theorems op_defs \<open>the definitions of a group of operations\<close>
named_theorems inv_intros \<open>preservation of an invariant by an operation\<close>

type_synonym ulid = string
type_synonym project_id = int
type_synonym time = int

section \<open>64-bit signed integers\<close>

definition i64 :: "int \<Rightarrow> int" where
  "i64 x = signed_take_bit 63 x"

definition in64 :: "int \<Rightarrow> bool" where
  "in64 x \<longleftrightarrow> - (2 ^ 63) \<le> x \<and> x < 2 ^ 63"

lemma i64_id [simp]: "in64 x \<Longrightarrow> i64 x = x"
  by (simp add: i64_def in64_def signed_take_bit_int_eq_self)

lemma in64_i64 [simp]: "in64 (i64 x)"
  using signed_take_bit_int_greater_eq_minus_exp [of 63 x]
    signed_take_bit_int_less_exp [of 63 x]
  by (simp add: i64_def in64_def)

text \<open>Go's integer division truncates toward zero (here for a positive divisor).\<close>

definition go_quot :: "int \<Rightarrow> int \<Rightarrow> int" where
  "go_quot a b = (if a < 0 then - ((- a) div b) else a div b)"

section \<open>Decimal numerals\<close>

definition digit_char :: "nat \<Rightarrow> char" where
  "digit_char d = char_of (48 + d)"

definition digit_val :: "char \<Rightarrow> nat option" where
  "digit_val c = (let n = (of_char c :: nat) in if 48 \<le> n \<and> n \<le> 57 then Some (n - 48) else None)"

fun dec_nat :: "nat \<Rightarrow> string" where
  "dec_nat n = (if n < 10 then [digit_char n] else dec_nat (n div 10) @ [digit_char (n mod 10)])"

declare dec_nat.simps [simp del]

text \<open>The verb \<open>%d\<close> of \<open>fmt.Sprintf\<close>.\<close>

definition show_int :: "int \<Rightarrow> string" where
  "show_int i = (if i < 0 then CHR ''-'' # dec_nat (nat (- i)) else dec_nat (nat i))"

fun parse_digits :: "nat \<Rightarrow> string \<Rightarrow> nat option" where
  "parse_digits acc [] = Some acc"
| "parse_digits acc (c # cs) =
     (case digit_val c of None \<Rightarrow> None | Some d \<Rightarrow> parse_digits (acc * 10 + d) cs)"

text \<open>\<open>strconv.Atoi\<close>: an optional sign, at least one digit, within 64 bits.\<close>

definition parse_unsigned :: "string \<Rightarrow> int option" where
  "parse_unsigned s = (if s = [] then None else map_option int (parse_digits 0 s))"

definition atoi :: "string \<Rightarrow> int option" where
  "atoi s = (let v = (case s of [] \<Rightarrow> None
                      | c # cs \<Rightarrow> if c = CHR ''-'' then map_option uminus (parse_unsigned cs)
                                 else if c = CHR ''+'' then parse_unsigned cs
                                 else parse_unsigned (c # cs))
             in case v of None \<Rightarrow> None | Some i \<Rightarrow> if in64 i then Some i else None)"

lemma digit_val_char [simp]: "d < 10 \<Longrightarrow> digit_val (digit_char d) = Some d"
  by (simp add: digit_val_def digit_char_def Let_def)

lemma digit_char_neq [simp]:
  "d < 10 \<Longrightarrow> digit_char d \<noteq> CHR ''-''"
  "d < 10 \<Longrightarrow> digit_char d \<noteq> CHR ''+''"
  "d < 10 \<Longrightarrow> digit_char d \<noteq> CHR ''.''"
  using digit_val_char [of d] by (auto simp: digit_val_def Let_def)

lemma parse_digits_append:
  "parse_digits a (xs @ ys) = (case parse_digits a xs of None \<Rightarrow> None | Some b \<Rightarrow> parse_digits b ys)"
  by (induction xs arbitrary: a) (auto split: option.splits)

lemma dec_nat_not_empty [simp]: "dec_nat n \<noteq> []"
  by (subst dec_nat.simps) simp

lemma parse_dec_nat: "parse_digits 0 (dec_nat n) = Some n"
proof (induction n rule: dec_nat.induct)
  case (1 n)
  show ?case
    by (subst dec_nat.simps) (use 1 in \<open>auto simp: parse_digits_append\<close>)
qed

lemma dec_nat_set: "c \<in> set (dec_nat n) \<Longrightarrow> \<exists>d < 10. c = digit_char d"
proof (induction n rule: dec_nat.induct)
  case (1 n)
  then show ?case
    by (subst (asm) dec_nat.simps) (auto split: if_splits intro: exI [of _ "n mod 10"])
qed

lemma dec_nat_no_sign:
  "CHR ''-'' \<notin> set (dec_nat n)" "CHR ''+'' \<notin> set (dec_nat n)" "CHR ''.'' \<notin> set (dec_nat n)"
  using dec_nat_set digit_char_neq by metis+

lemma atoi_show_int: "in64 i \<Longrightarrow> atoi (show_int i) = Some i"
proof -
  assume i: "in64 i"
  show ?thesis
  proof (cases "i < 0")
    case True
    then show ?thesis using i
      by (simp add: atoi_def show_int_def parse_unsigned_def parse_dec_nat)
  next
    case False
    obtain c cs where c: "dec_nat (nat i) = c # cs" by (cases "dec_nat (nat i)") auto
    then have "c \<noteq> CHR ''-''" "c \<noteq> CHR ''+''"
      using dec_nat_no_sign [of "nat i"] by auto
    moreover have "parse_unsigned (c # cs) = Some i"
      using False parse_dec_nat [of "nat i"] c by (simp add: parse_unsigned_def)
    ultimately show ?thesis using i c False
      by (simp add: atoi_def show_int_def)
  qed
qed

lemma show_int_no_dot [simp]: "CHR ''.'' \<notin> set (show_int i)"
  by (simp add: show_int_def dec_nat_no_sign)

section \<open>Splitting\<close>

text \<open>\<open>strings.SplitN(s, sep, 2)\<close> for a one-byte separator: \<^const>\<open>None\<close> when
  the separator does not occur (one part), otherwise the two parts.\<close>

fun split_at :: "char \<Rightarrow> string \<Rightarrow> (string \<times> string) option" where
  "split_at sep [] = None"
| "split_at sep (c # cs) =
     (if c = sep then Some ([], cs)
      else case split_at sep cs of None \<Rightarrow> None | Some (a, b) \<Rightarrow> Some (c # a, b))"

lemma split_at_append [simp]: "sep \<notin> set xs \<Longrightarrow> split_at sep (xs @ sep # ys) = Some (xs, ys)"
  by (induction xs) auto

lemma split_at_Some: "split_at sep s = Some (a, b) \<Longrightarrow> s = a @ sep # b \<and> sep \<notin> set a"
  by (induction s arbitrary: a b) (auto split: if_splits option.splits)

lemma split_at_None: "split_at sep s = None \<longleftrightarrow> sep \<notin> set s"
  by (induction s) (auto split: option.splits)

text \<open>\<open>strings.Split(s, sep)\<close>: never empty.\<close>

fun split_on :: "char \<Rightarrow> string \<Rightarrow> string list" where
  "split_on sep [] = [[]]"
| "split_on sep (c # cs) =
     (if c = sep then [] # split_on sep cs
      else case split_on sep cs of [] \<Rightarrow> [[c]] | p # ps \<Rightarrow> (c # p) # ps)"

section \<open>White space\<close>

text \<open>\<open>strings.TrimSpace\<close> on UTF-8 text: the byte sequences of the code points for which
  \<open>unicode.IsSpace\<close> holds.\<close>

definition space_bytes :: "nat list list" where
  "space_bytes = ([[9], [10], [11], [12], [13], [32], [0xC2, 0x85], [0xC2, 0xA0], [0xE1, 0x9A, 0x80],
       [0xE2, 0x80, 0xA8], [0xE2, 0x80, 0xA9], [0xE2, 0x80, 0xAF], [0xE2, 0x81, 0x9F], [0xE3, 0x80, 0x80],
       [0xE2, 0x80, 0x80], [0xE2, 0x80, 0x81], [0xE2, 0x80, 0x82], [0xE2, 0x80, 0x83], [0xE2, 0x80, 0x84],
       [0xE2, 0x80, 0x85], [0xE2, 0x80, 0x86], [0xE2, 0x80, 0x87], [0xE2, 0x80, 0x88], [0xE2, 0x80, 0x89],
       [0xE2, 0x80, 0x8A]])"

definition space_seqs :: "string list" where
  "space_seqs = List.map (List.map char_of) space_bytes"

function trim_seqs :: "string list \<Rightarrow> string \<Rightarrow> string" where
  "trim_seqs ps s =
     (case List.find (\<lambda>p. p \<noteq> [] \<and> take (length p) s = p) ps of
        None \<Rightarrow> s
      | Some p \<Rightarrow> trim_seqs ps (drop (length p) s))"
  by auto
termination
proof (relation "measure (\<lambda>(_, s). length s)")
  fix ps :: "string list" and s p :: string
  assume "List.find (\<lambda>p. p \<noteq> [] \<and> take (length p) s = p) ps = Some p"
  then have p: "p \<noteq> []" "take (length p) s = p" by (auto simp: find_Some_iff)
  then have "s \<noteq> []" by (metis take_Nil)
  with p show "((ps, drop (length p) s), (ps, s)) \<in> measure (\<lambda>(_, s). length s)" by auto
qed simp

declare trim_seqs.simps [simp del]

definition TrimSpace :: "string \<Rightarrow> string" where
  "TrimSpace s = rev (trim_seqs (List.map rev space_seqs) (rev (trim_seqs space_seqs s)))"

lemma TrimSpace_empty [simp]: "TrimSpace [] = []"
proof -
  have "List.find (\<lambda>p. p \<noteq> [] \<and> take (length p) [] = p) ps = None" for ps :: "string list"
    by (auto simp: find_None_iff)
  then show ?thesis by (simp add: TrimSpace_def trim_seqs.simps)
qed

text \<open>A text whose first and last bytes are visible ASCII characters is not changed.\<close>

definition graphic :: "char \<Rightarrow> bool" where
  "graphic c \<longleftrightarrow> 33 \<le> (of_char c :: nat) \<and> (of_char c :: nat) < 128"

lemma space_not_graphic: "p \<in> set space_seqs \<Longrightarrow> c \<in> set p \<Longrightarrow> \<not> graphic c"
proof -
  assume p: "p \<in> set space_seqs" "c \<in> set p"
  then obtain q n where q: "q \<in> set space_bytes" "n \<in> set q" "c = char_of n" by (auto simp: space_seqs_def)
  have "\<forall>q\<in>set space_bytes. \<forall>n\<in>set q. n \<le> 32 \<or> (128 \<le> n \<and> n < 256)" by (simp add: space_bytes_def)
  then have "n \<le> 32 \<or> (128 \<le> n \<and> n < 256)" using q by blast
  then show ?thesis using q(3) by (auto simp: graphic_def)
qed

lemma trim_seqs_id: "(\<forall>p\<in>set ps. p \<noteq> [] \<longrightarrow> take (length p) s \<noteq> p) \<Longrightarrow> trim_seqs ps s = s"
proof -
  assume "\<forall>p\<in>set ps. p \<noteq> [] \<longrightarrow> take (length p) s \<noteq> p"
  then have "List.find (\<lambda>p. p \<noteq> [] \<and> take (length p) s = p) ps = None" by (auto simp: find_None_iff)
  then show ?thesis by (simp add: trim_seqs.simps)
qed

lemma trim_head:
  assumes "s \<noteq> []" "\<forall>p\<in>set ps. hd s \<notin> set p"
  shows "trim_seqs ps s = s"
proof (rule trim_seqs_id, intro ballI impI)
  fix p assume p: "p \<in> set ps" "p \<noteq> []"
  have "hd s \<in> set (take (length p) s)" using assms(1) p(2) by (cases s; cases p) auto
  then show "take (length p) s \<noteq> p" using assms(2) p(1) by metis
qed

lemma TrimSpace_graphic:
  assumes "s \<noteq> []" "graphic (hd s)" "graphic (last s)"
  shows "TrimSpace s = s"
proof -
  have "trim_seqs space_seqs s = s"
    using assms space_not_graphic by (intro trim_head) auto
  moreover have "trim_seqs (List.map rev space_seqs) (rev s) = rev s"
    using assms space_not_graphic by (intro trim_head) (auto simp: hd_rev)
  ultimately show ?thesis by (simp add: TrimSpace_def)
qed

section \<open>Lists used as tables\<close>

text \<open>A table of the database is the list of its rows.  Rows are selected, replaced by key
  and removed by the operations of the repositories.\<close>

definition update_where :: "('a \<Rightarrow> bool) \<Rightarrow> ('a \<Rightarrow> 'a) \<Rightarrow> 'a list \<Rightarrow> 'a list" where
  "update_where P f rows = List.map (\<lambda>r. if P r then f r else r) rows"

text \<open>gorm's \<open>Save\<close>: every column of the row with the same key is written, and the row is
  inserted when no row has that key.\<close>

definition save_row :: "('a \<Rightarrow> 'k) \<Rightarrow> 'a \<Rightarrow> 'a list \<Rightarrow> 'a list" where
  "save_row key r rows =
     (if key r \<in> key ` set rows then update_where (\<lambda>x. key x = key r) (\<lambda>_. r) rows else rows @ [r])"

text \<open>\<open>LIMIT\<close> and \<open>OFFSET\<close> with Go integers.\<close>

definition page_rows :: "int \<Rightarrow> int \<Rightarrow> 'a list \<Rightarrow> 'a list" where
  "page_rows limit offset rows = take (nat limit) (drop (nat offset) rows)"

lemma update_where_map [simp]:
  "(\<And>r. r \<in> set rows \<Longrightarrow> P r \<Longrightarrow> key (f r) = key r) \<Longrightarrow>
   List.map key (update_where P f rows) = List.map key rows"
  by (auto simp: update_where_def)

lemma set_update_where: "set (update_where P f rows) = (\<lambda>r. if P r then f r else r) ` set rows"
  by (simp add: update_where_def)

lemma length_update_where [simp]: "length (update_where P f rows) = length rows"
  by (simp add: update_where_def)

lemma update_where_all:
  "(\<And>r. r \<in> set rows \<Longrightarrow> Q r) \<Longrightarrow> (\<And>r. P r \<Longrightarrow> Q r \<Longrightarrow> Q (f r)) \<Longrightarrow>
   r \<in> set (update_where P f rows) \<Longrightarrow> Q r"
  by (auto simp: set_update_where)

lemma save_row_present:
  assumes "key r \<in> key ` set rows"
  shows "List.map key (save_row key r rows) = List.map key rows"
  using assms update_where_map [where P = "\<lambda>x. key x = key r" and key = key and f = "\<lambda>_. r" and rows = rows] by (simp add: save_row_def)

lemma save_row_keys:
  assumes "distinct (List.map key rows)"
  shows "distinct (List.map key (save_row key r rows))"
proof (cases "key r \<in> key ` set rows")
  case True
  then show ?thesis using assms save_row_present [OF True] by simp
qed (use assms in \<open>simp add: save_row_def\<close>)

lemma set_save_row:
  "x \<in> set (save_row key r rows) \<Longrightarrow> x = r \<or> (x \<in> set rows \<and> key x \<noteq> key r)"
  by (auto simp: save_row_def set_update_where split: if_splits intro: rev_image_eqI)

lemma in_save_row [simp]: "r \<in> set (save_row key r rows)"
  by (auto simp: save_row_def set_update_where)

lemma other_save_row: "x \<in> set rows \<Longrightarrow> key x \<noteq> key r \<Longrightarrow> x \<in> set (save_row key r rows)"
  by (auto simp: save_row_def set_update_where)

lemma save_row_all:
  "(\<And>x. x \<in> set rows \<Longrightarrow> Q x) \<Longrightarrow> Q r \<Longrightarrow> x \<in> set (save_row key r rows) \<Longrightarrow> Q x"
  by (auto dest: set_save_row)

lemma key_unique:
  "distinct (List.map key rows) \<Longrightarrow> x \<in> set rows \<Longrightarrow> y \<in> set rows \<Longrightarrow> key x = key y \<Longrightarrow> x = y"
  by (auto simp: distinct_map inj_on_def)

lemma find_SomeD: "List.find P xs = Some x \<Longrightarrow> x \<in> set xs \<and> P x"
  by (auto simp: find_Some_iff)

lemma find_SomeI: "x \<in> set xs \<Longrightarrow> P x \<Longrightarrow> \<exists>y. List.find P xs = Some y"
  by (cases "List.find P xs") (auto simp: find_None_iff)

lemma find_key:
  "distinct (List.map key rows) \<Longrightarrow> x \<in> set rows \<Longrightarrow> P x \<Longrightarrow> (\<And>y. P y \<Longrightarrow> key y = key x) \<Longrightarrow>
   List.find P rows = Some x"
  by (metis find_SomeD find_SomeI key_unique)

section \<open>Functional refinement\<close>

text \<open>A data structure implements an abstract one: every operation keeps the invariant and commutes
  with the abstraction.  Then so does every sequence of operations.\<close>

locale refinement =
  fixes inv :: "'s \<Rightarrow> bool"
    and abs :: "'s \<Rightarrow> 'a"
    and ok :: "'op \<Rightarrow> bool"
    and step :: "'op \<Rightarrow> 's \<Rightarrow> 's"
    and astep :: "'op \<Rightarrow> 'a \<Rightarrow> 'a"
  assumes step_inv: "ok c \<Longrightarrow> inv s \<Longrightarrow> inv (step c s)"
    and step_abs: "ok c \<Longrightarrow> inv s \<Longrightarrow> abs (step c s) = astep c (abs s)"
begin

lemma run: "list_all ok cs \<Longrightarrow> inv s \<Longrightarrow> inv (fold step cs s) \<and> abs (fold step cs s) = fold astep cs (abs s)"
proof (induction cs arbitrary: s)
  case (Cons c cs)
  then have "inv (fold step cs (step c s)) \<and> abs (fold step cs (step c s)) = fold astep cs (abs (step c s))"
    using step_inv by simp
  then show ?case using Cons.prems step_abs by simp
qed simp

end

end
