(* ===== verification/Ids.thy ===== *)
theory Ids
  imports Prelude
begin

text \<open>
  \<open>internal/shared/id/generator.go\<close>: the fixed-length base-62 public
  identifiers (\<open>HashID\<close>, \<open>ParseHashID\<close>).  Integers are Go's 64-bit
  \<open>int\<close>; the decoder's multiplications wrap around as they do in Go.
\<close>

datatype id_error = ErrInvalidHash

definition base62Alphabet :: string where
  "base62Alphabet = ''0123456789ABCDEFGHIJKLMNOPQRSTUVWXYZabcdefghijklmnopqrstuvwxyz''"

text \<open>The loop \<open>for n > 0\<close> that prepends the digit \<open>n % 62\<close>.\<close>

function base62_digits :: "int \<Rightarrow> string \<Rightarrow> string" where
  "base62_digits n result =
     (if n > 0 then base62_digits (n div 62) (base62Alphabet ! nat (n mod 62) # result) else result)"
  by auto
termination by (relation "measure (\<lambda>(n, _). nat n)") auto

declare base62_digits.simps [simp del]

definition encodeBase62Fixed :: "int \<Rightarrow> nat \<Rightarrow> string" where
  "encodeBase62Fixed num len =
     (if num < 0 then []
      else let result = (if num = 0 then [base62Alphabet ! 0] else base62_digits num []);
               padded = replicate (len - length result) (base62Alphabet ! 0) @ result
           in if length padded > len then drop (length padded - len) padded else padded)"

text \<open>The scan for the index of a character; \<^const>\<open>None\<close> stands for \<open>index == -1\<close>.\<close>

fun find_index :: "char \<Rightarrow> string \<Rightarrow> nat option" where
  "find_index c [] = None"
| "find_index c (a # as) = (if a = c then Some 0 else map_option Suc (find_index c as))"

fun decode_loop :: "int \<Rightarrow> string \<Rightarrow> id_error + int" where
  "decode_loop result [] = Inr result"
| "decode_loop result (c # cs) =
     (case find_index c base62Alphabet of
        None \<Rightarrow> Inl ErrInvalidHash
      | Some index \<Rightarrow> decode_loop (i64 (result * int (length base62Alphabet) + int index)) cs)"

definition decodeBase62 :: "string \<Rightarrow> id_error + int" where
  "decodeBase62 encoded = decode_loop 0 encoded"

definition HashID :: "nat \<Rightarrow> int \<Rightarrow> string" where
  "HashID hashLength intID = encodeBase62Fixed intID hashLength"

definition ParseHashID :: "nat \<Rightarrow> string \<Rightarrow> id_error + int" where
  "ParseHashID hashLength hash =
     (if length hash \<noteq> hashLength then Inl ErrInvalidHash else decodeBase62 hash)"

subsection \<open>Digits\<close>

lemma alphabet_length [simp]: "length base62Alphabet = 62"
  by (simp add: base62Alphabet_def)

lemma alphabet_distinct: "distinct base62Alphabet"
  by (simp add: base62Alphabet_def)

lemma find_index_nth: "distinct xs \<Longrightarrow> i < length xs \<Longrightarrow> find_index (xs ! i) xs = Some i"
proof (induction xs arbitrary: i)
  case (Cons a xs)
  then show ?case by (cases i) auto
qed simp

lemma find_index_Some: "find_index c xs = Some i \<Longrightarrow> i < length xs \<and> xs ! i = c"
  by (induction xs arbitrary: i) (auto split: if_splits)

lemma find_index_alphabet [simp]:
  "i < 62 \<Longrightarrow> find_index (base62Alphabet ! i) base62Alphabet = Some i"
  by (simp add: find_index_nth alphabet_distinct)

text \<open>The value of a digit string without wrap-around, the reference of the decoder.\<close>

fun value62 :: "int \<Rightarrow> string \<Rightarrow> int option" where
  "value62 acc [] = Some acc"
| "value62 acc (c # cs) =
     (case find_index c base62Alphabet of None \<Rightarrow> None | Some i \<Rightarrow> value62 (acc * 62 + int i) cs)"

lemma value62_append:
  "value62 a (xs @ ys) = (case value62 a xs of None \<Rightarrow> None | Some b \<Rightarrow> value62 b ys)"
  by (induction xs arbitrary: a) (auto split: option.splits)

lemma base62_digits_acc: "base62_digits n acc = base62_digits n [] @ acc"
proof (induction "nat n" arbitrary: n acc rule: less_induct)
  case less
  show ?case
  proof (cases "n > 0")
    case True
    then have lt: "nat (n div 62) < nat n" by simp
    show ?thesis
      using True less [OF lt, of "base62Alphabet ! nat (n mod 62) # acc"]
        less [OF lt, of "[base62Alphabet ! nat (n mod 62)]"]
      by (simp add: base62_digits.simps [of n])
  qed (simp add: base62_digits.simps)
qed

lemma base62_digits_step:
  "n > 0 \<Longrightarrow> base62_digits n [] = base62_digits (n div 62) [] @ [base62Alphabet ! nat (n mod 62)]"
  using base62_digits_acc [of "n div 62" "[base62Alphabet ! nat (n mod 62)]"]
  by (simp add: base62_digits.simps [of n])

lemma value62_digits: "n \<ge> 0 \<Longrightarrow> value62 0 (base62_digits n []) = Some n"
proof (induction "nat n" arbitrary: n rule: less_induct)
  case less
  show ?case
  proof (cases "n > 0")
    case True
    then have "value62 0 (base62_digits (n div 62) []) = Some (n div 62)"
      by (intro less) (auto simp: pos_imp_zdiv_nonneg_iff)
    moreover have "nat (n mod 62) < 62"
      using pos_mod_bound [of 62 n] by linarith
    ultimately show ?thesis using True
      by (simp add: base62_digits_step value62_append)
  qed (use less in \<open>simp add: base62_digits.simps\<close>)
qed

lemma base62_digits_length: "n < 62 ^ k \<Longrightarrow> length (base62_digits n []) \<le> k"
proof (induction k arbitrary: n)
  case (Suc k)
  show ?case
  proof (cases "n > 0")
    case True
    have "n div 62 < 62 ^ k" using Suc.prems by (simp add: div_less_iff_less_mult)
    then show ?thesis using True Suc.IH [of "n div 62"] by (simp add: base62_digits_step)
  qed (simp add: base62_digits.simps)
qed (simp add: base62_digits.simps)

lemma value62_zeros: "value62 0 (replicate k (base62Alphabet ! 0) @ xs) = value62 0 xs"
  by (induction k) auto

lemma value62_encode:
  assumes "0 \<le> n" "n < 62 ^ len" "0 < len"
  shows "value62 0 (encodeBase62Fixed n len) = Some n \<and> length (encodeBase62Fixed n len) = len"
proof (cases "n = 0")
  case True
  then show ?thesis using assms value62_zeros [of "len - 1" "[base62Alphabet ! 0]"]
    by (auto simp: encodeBase62Fixed_def Let_def)
next
  case False
  then show ?thesis
    using assms base62_digits_length [of n len] value62_digits [of n]
    by (auto simp: encodeBase62Fixed_def Let_def value62_zeros)
qed

subsection \<open>The decoder against the reference value\<close>

lemma value62_mono: "value62 a xs = Some v \<Longrightarrow> 0 \<le> a \<Longrightarrow> a \<le> v"
proof (induction xs arbitrary: a)
  case (Cons c xs)
  then obtain i where "find_index c base62Alphabet = Some i" "value62 (a * 62 + int i) xs = Some v"
    by (auto split: option.splits)
  with Cons.IH [of "a * 62 + int i"] Cons.prems show ?case by auto
qed simp

lemma decode_loop_value:
  "value62 a xs = Some v \<Longrightarrow> 0 \<le> a \<Longrightarrow> in64 v \<Longrightarrow> decode_loop a xs = Inr v"
proof (induction xs arbitrary: a)
  case (Cons c xs)
  from Cons.prems obtain i where i: "find_index c base62Alphabet = Some i"
    "value62 (a * 62 + int i) xs = Some v" by (auto split: option.splits)
  moreover have "in64 (a * 62 + int i)"
    using value62_mono [OF i(2)] Cons.prems by (auto simp: in64_def)
  ultimately show ?case using Cons.IH [of "a * 62 + int i"] Cons.prems by simp
qed simp

lemma value62_bound:
  "value62 a xs = Some v \<Longrightarrow> 0 \<le> a \<Longrightarrow> v < (a + 1) * 62 ^ length xs"
proof (induction xs arbitrary: a)
  case (Cons c xs)
  then obtain i where i: "find_index c base62Alphabet = Some i"
    "value62 (a * 62 + int i) xs = Some v" by (auto split: option.splits)
  then have "i < 62" using find_index_Some [of c base62Alphabet i] by simp
  have "v < (a * 62 + int i + 1) * 62 ^ length xs" using Cons.IH [OF i(2)] Cons.prems by simp
  also have "\<dots> \<le> ((a + 1) * 62) * 62 ^ length xs"
    using \<open>i < 62\<close> by (intro mult_right_mono) auto
  finally show ?case by (simp add: algebra_simps)
qed simp

lemma value62_inj:
  "value62 a xs = Some v \<Longrightarrow> value62 b ys = Some v \<Longrightarrow> length xs = length ys \<Longrightarrow>
   0 \<le> a \<Longrightarrow> 0 \<le> b \<Longrightarrow> a = b \<and> xs = ys"
proof (induction xs arbitrary: a b ys)
  case (Cons c xs)
  from Cons.prems obtain d zs where ys: "ys = d # zs" "length xs = length zs" by (cases ys) auto
  from Cons.prems(1) obtain i where i: "find_index c base62Alphabet = Some i"
    "value62 (a * 62 + int i) xs = Some v" by (auto split: option.splits)
  from Cons.prems(2) ys obtain j where j: "find_index d base62Alphabet = Some j"
    "value62 (b * 62 + int j) zs = Some v" by (auto split: option.splits)
  have eq: "a * 62 + int i = b * 62 + int j \<and> xs = zs"
    using Cons.IH [OF i(2) j(2) ys(2)] Cons.prems by simp
  have bounds: "i < 62" "j < 62" and "base62Alphabet ! i = c" "base62Alphabet ! j = d"
    using find_index_Some [OF i(1)] find_index_Some [OF j(1)] by auto
  moreover have "a = b"
  proof -
    have "(a * 62 + int i) div 62 = a" "(b * 62 + int j) div 62 = b" using bounds by auto
    then show ?thesis using eq by metis
  qed
  ultimately show ?case using ys eq i(1) j(1) by auto
qed auto

lemma decode_loop_Inr: "decode_loop r xs = Inr k \<Longrightarrow> \<exists>v. value62 a xs = Some v"
  by (induction xs arbitrary: a r) (auto split: option.splits)

lemma pow62_in64: "len \<le> 10 \<Longrightarrow> (62::int) ^ len < 2 ^ 63"
  using power_increasing [of len 10 "62::int"] by simp

subsection \<open>Properties\<close>

text \<open>Every non-negative 64-bit id that fits in the configured number of base-62
  digits is recovered from its public identifier.\<close>

lemma parse_hash_roundtrip:
  assumes "0 < hashLength" "0 \<le> n" "n < 62 ^ hashLength" "in64 n"
  shows "ParseHashID hashLength (HashID hashLength n) = Inr n"
  using value62_encode [OF assms(2,3,1)] decode_loop_value [OF _ order.refl assms(4)]
  by (simp add: ParseHashID_def HashID_def decodeBase62_def)

text \<open>Up to ten digits the public identifiers are canonical: a text that parses
  is the identifier of the number it parses to, so no two texts name one object.\<close>

lemma parse_hash_canonical:
  assumes "0 < hashLength" "hashLength \<le> 10" "ParseHashID hashLength hash = Inr k"
  shows "HashID hashLength k = hash \<and> 0 \<le> k \<and> k < 62 ^ hashLength"
proof -
  have len: "length hash = hashLength" and dec: "decode_loop 0 hash = Inr k"
    using assms by (auto simp: ParseHashID_def decodeBase62_def split: if_splits)
  obtain v where v: "value62 0 hash = Some v" using decode_loop_Inr [OF dec] by blast
  have b: "0 \<le> v" "v < 62 ^ hashLength"
    using value62_mono [OF v] value62_bound [OF v] len by auto
  then have "in64 v" using pow62_in64 [OF assms(2)] by (simp add: in64_def)
  then have "v = k" using decode_loop_value [OF v] dec by simp
  moreover have "encodeBase62Fixed v hashLength = hash"
    using value62_inj [OF conjunct1 [OF value62_encode [OF b assms(1)]] v]
      value62_encode [OF b assms(1)] len by simp
  ultimately show ?thesis using b by (simp add: HashID_def)
qed

text \<open>With the default of eleven digits the decoder wraps around: two different
  texts are accepted as the identifier of the same object.\<close>

lemma parse_hash_alias:
  "ParseHashID 11 ''LygHa16AHYG'' = ParseHashID 11 ''00000000000''
   \<and> ParseHashID 11 ''00000000000'' = Inr 0"
  by (simp add: ParseHashID_def decodeBase62_def base62Alphabet_def i64_def)

end
