(* ===== verification/Names.thy ===== *)
theory Names
  imports Prelude
begin

text \<open>
  \<open>internal/domain/messaging/channel/name.go\<close>, \<open>internal/domain/queue/queue/name.go\<close>
  and the stream and consumer names of \<open>internal/infrastructure/repository/queue/broker/repository.go\<close>.
  Both \<open>Name\<close> value objects have the same two fields and the same \<open>Full\<close> and
  \<open>FromFull\<close>; the queue name has the JetStream subjects in addition.
\<close>

datatype name_error = InvalidName string

record name =
  name_raw :: string
  name_project :: project_id

definition NewName :: "string \<Rightarrow> project_id \<Rightarrow> name" where
  "NewName rawName projID = \<lparr>name_raw = rawName, name_project = projID\<rparr>"

definition Full :: "name \<Rightarrow> string" where
  "Full n = show_int (name_project n) @ ''.'' @ name_raw n"

definition FromFull :: "string \<Rightarrow> name_error + name" where
  "FromFull fullName =
     (case split_at (CHR ''.'') fullName of
        None \<Rightarrow> Inl (InvalidName fullName)
      | Some (p, r) \<Rightarrow>
          (case atoi p of None \<Rightarrow> Inl (InvalidName fullName)
           | Some projID \<Rightarrow> Inr \<lparr>name_raw = r, name_project = projID\<rparr>))"

definition QNewName :: "string \<Rightarrow> project_id \<Rightarrow> name" where
  "QNewName rawName projID = \<lparr>name_raw = rawName, name_project = projID\<rparr>"

definition QFull :: "name \<Rightarrow> string" where
  "QFull n = show_int (name_project n) @ ''.'' @ name_raw n"

definition QFromFull :: "string \<Rightarrow> name_error + name" where
  "QFromFull fullName =
     (case split_at (CHR ''.'') fullName of
        None \<Rightarrow> Inl (InvalidName fullName)
      | Some (p, r) \<Rightarrow>
          (case atoi p of None \<Rightarrow> Inl (InvalidName fullName)
           | Some projID \<Rightarrow> Inr \<lparr>name_raw = r, name_project = projID\<rparr>))"

definition Subject :: "name \<Rightarrow> string" where
  "Subject n = ''qpub.jobs.'' @ show_int (name_project n) @ ''.'' @ name_raw n"

definition DLQSubject :: "name \<Rightarrow> string" where
  "DLQSubject n = ''qpub.dlq.'' @ show_int (name_project n) @ ''.'' @ name_raw n"

text \<open>\<open>strings.ReplaceAll(s, [c], r)\<close> for a one-byte pattern.\<close>

definition replace_char :: "char \<Rightarrow> string \<Rightarrow> string \<Rightarrow> string" where
  "replace_char c r s = concat (List.map (\<lambda>x. if x = c then r else [x]) s)"

definition streamNameForSubject :: "string \<Rightarrow> string" where
  "streamNameForSubject subject =
     (let safe = replace_char (CHR ''*'') ''all'' (replace_char (CHR ''.'') ''_'' subject);
          safe = (if length safe > 64 then take 64 safe else safe)
      in ''QPUB_'' @ safe)"

definition subjectWild :: "string \<Rightarrow> string" where
  "subjectWild subject = (if CHR ''*'' \<in> set subject then subject else subject)"

definition consumerNameForSubject :: "string \<Rightarrow> string" where
  "consumerNameForSubject subject =
     (let n = replace_char (CHR ''.'') ''_'' subject;
          n = (if length n > 64 then drop (length n - 64) n else n)
      in ''cons_'' @ n)"

subsection \<open>Properties\<close>

text \<open>A fully qualified channel name parses back to the channel name and project it was
  built from, whatever dots the client-facing name holds.\<close>

lemma channel_name_roundtrip:
  assumes "in64 (name_project n)"
  shows "FromFull (Full n) = Inr n"
  using assms by (simp add: FromFull_def Full_def atoi_show_int)

lemma QFromFull_Full: "in64 (name_project n) \<Longrightarrow> QFromFull (QFull n) = Inr n"
  by (simp add: QFromFull_def QFull_def atoi_show_int)

lemma QFull_inj:
  "in64 (name_project m) \<Longrightarrow> in64 (name_project n) \<Longrightarrow> QFull m = QFull n \<longleftrightarrow> m = n"
  by (metis QFromFull_Full sum.inject(2))

text \<open>JetStream subjects isolate projects and queues: two queues share a job subject, or a
  dead-letter subject, only when project and name agree, and no job subject is a dead-letter
  subject.\<close>

lemma queue_subject_isolated:
  assumes "in64 (name_project m)" "in64 (name_project n)"
  shows "(Subject m = Subject n \<longleftrightarrow> m = n) \<and> (DLQSubject m = DLQSubject n \<longleftrightarrow> m = n)
         \<and> Subject m \<noteq> DLQSubject n"
  using QFull_inj [OF assms] by (simp add: Subject_def DLQSubject_def QFull_def)

text \<open>The stream name does not keep that isolation: two queues of one project whose names
  differ only in a dot and an underscore have different subjects and one stream name, so that
  deleting the stream of the one deletes the stream of the other.\<close>

lemma stream_name_collision:
  "Subject (QNewName ''a.b'' 7) \<noteq> Subject (QNewName ''a_b'' 7)
   \<and> streamNameForSubject (Subject (QNewName ''a.b'' 7)) = streamNameForSubject (Subject (QNewName ''a_b'' 7))"
  by (simp add: Subject_def QNewName_def streamNameForSubject_def replace_char_def show_int_def Let_def)

end
