(* ===== verification/QueueModel.thy ===== *)
theory QueueModel
  imports Prelude Names
begin

text \<open>
  \<open>internal/domain/queue/queue/model.go\<close>, \<open>validation.go\<close>, \<open>status.go\<close>,
  \<open>internal/domain/queue/execution/model.go\<close> and \<open>internal/domain/tenant\<close>: the queue and tenant
  rows, their defaults and their lifecycle status.  A status and a profile are Go string types, so
  they are texts here as well: the empty status counts as active.
\<close>

section \<open>Lifecycle status\<close>

definition StatusActive :: string where "StatusActive = ''active''"
definition StatusDeleting :: string where "StatusDeleting = ''deleting''"

definition IsActive :: "string \<Rightarrow> bool" where
  "IsActive s \<longleftrightarrow> s = [] \<or> s = StatusActive"

definition TenantIsActive :: "string \<Rightarrow> bool" where
  "TenantIsActive s \<longleftrightarrow> s = [] \<or> s = StatusActive"

lemma IsActive_simps [simp]:
  "IsActive StatusActive" "\<not> IsActive StatusDeleting" "IsActive []"
  "TenantIsActive StatusActive" "\<not> TenantIsActive StatusDeleting" "TenantIsActive []"
  "StatusDeleting \<noteq> StatusActive" "StatusActive \<noteq> StatusDeleting"
  by (simp_all add: IsActive_def TenantIsActive_def StatusActive_def StatusDeleting_def)

section \<open>Execution profile\<close>

definition ProfileExternal :: string where "ProfileExternal = ''external''"
definition ProfileManaged :: string where "ProfileManaged = ''managed''"

datatype profile_error = ErrManagedNotImplemented | UnknownProfile string

definition ValidateProfile :: "string \<Rightarrow> profile_error + unit" where
  "ValidateProfile profile =
     (if profile = ProfileExternal then Inr ()
      else if profile = ProfileManaged then Inl ErrManagedNotImplemented
      else Inl (UnknownProfile profile))"

section \<open>Queues\<close>

definition second :: int where "second = 1000000000"
definition DefaultVisibilityTimeout :: int where "DefaultVisibilityTimeout = 30 * second"
definition DefaultMaxAttempts :: int where "DefaultMaxAttempts = 25"
definition DefaultRetention :: int where "DefaultRetention = 7 * 24 * 3600 * second"

record queue =
  queue_ID :: int
  queue_ProjectID :: project_id
  queue_Name :: string
  queue_Status :: string
  queue_ExecutionProfile :: string
  queue_VisibilityTimeout :: int
  queue_MaxAttempts :: int
  queue_Retention :: int
  queue_MaxPayloadBytes :: int
  queue_WebhookURL :: string
  queue_WebhookSecret :: string
  queue_Metadata :: string
  queue_CreatedAt :: time
  queue_UpdatedAt :: time

record queue_create_params =
  qcp_ProjectID :: project_id
  qcp_Name :: string
  qcp_ExecutionProfile :: string
  qcp_VisibilityTimeout :: int
  qcp_MaxAttempts :: int
  qcp_Retention :: int
  qcp_MaxPayloadBytes :: int
  qcp_WebhookURL :: string
  qcp_WebhookSecret :: string
  qcp_Metadata :: string

text \<open>A nil pointer of \<open>UpdateParams\<close> is \<^const>\<open>None\<close>; nil metadata is the empty text.\<close>

record queue_update_params =
  qup_ExecutionProfile :: "string option"
  qup_VisibilityTimeout :: "int option"
  qup_MaxAttempts :: "int option"
  qup_Retention :: "int option"
  qup_MaxPayloadBytes :: "int option"
  qup_WebhookURL :: "string option"
  qup_WebhookSecret :: "string option"
  qup_Metadata :: string

datatype queue_invalid = QueueProjectIDInvalid | QueueNameMissing | QueueNameTooLong

definition ValidateCreateQueue :: "queue_create_params \<Rightarrow> queue_invalid + unit" where
  "ValidateCreateQueue params =
     (if qcp_ProjectID params < 0 then Inl QueueProjectIDInvalid
      else let n = TrimSpace (qcp_Name params)
           in if n = [] then Inl QueueNameMissing
              else if length n > 255 then Inl QueueNameTooLong
              else Inr ())"

definition CreateQueue :: "time \<Rightarrow> queue_create_params \<Rightarrow> queue_invalid + queue" where
  "CreateQueue now params =
     (case ValidateCreateQueue params of
        Inl e \<Rightarrow> Inl e
      | Inr _ \<Rightarrow>
          (let visibility = (if qcp_VisibilityTimeout params \<le> 0 then DefaultVisibilityTimeout
                             else qcp_VisibilityTimeout params);
               maxAttempts = (if qcp_MaxAttempts params \<le> 0 then DefaultMaxAttempts else qcp_MaxAttempts params);
               retention = (if qcp_Retention params \<le> 0 then DefaultRetention else qcp_Retention params);
               maxPayload = (if qcp_MaxPayloadBytes params \<le> 0 then 1024 * 1024 else qcp_MaxPayloadBytes params);
               profile = (if qcp_ExecutionProfile params = [] then ProfileExternal
                          else qcp_ExecutionProfile params)
           in Inr \<lparr>queue_ID = 0, queue_ProjectID = qcp_ProjectID params, queue_Name = qcp_Name params,
                queue_Status = StatusActive, queue_ExecutionProfile = profile,
                queue_VisibilityTimeout = visibility, queue_MaxAttempts = maxAttempts,
                queue_Retention = retention, queue_MaxPayloadBytes = maxPayload,
                queue_WebhookURL = qcp_WebhookURL params, queue_WebhookSecret = qcp_WebhookSecret params,
                queue_Metadata = qcp_Metadata params, queue_CreatedAt = now, queue_UpdatedAt = now\<rparr>))"

definition set_opt :: "'v option \<Rightarrow> ('v \<Rightarrow> 'q \<Rightarrow> 'q) \<Rightarrow> 'q \<Rightarrow> 'q" where
  "set_opt opt f q = (case opt of None \<Rightarrow> q | Some v \<Rightarrow> f v q)"

definition UpdateQueue :: "time \<Rightarrow> queue_update_params \<Rightarrow> queue \<Rightarrow> queue" where
  "UpdateQueue now params q =
     (let q = set_opt (qup_ExecutionProfile params) (\<lambda>v q. q\<lparr>queue_ExecutionProfile := v\<rparr>) q;
          q = set_opt (qup_VisibilityTimeout params) (\<lambda>v q. q\<lparr>queue_VisibilityTimeout := v\<rparr>) q;
          q = set_opt (qup_MaxAttempts params) (\<lambda>v q. q\<lparr>queue_MaxAttempts := v\<rparr>) q;
          q = set_opt (qup_Retention params) (\<lambda>v q. q\<lparr>queue_Retention := v\<rparr>) q;
          q = set_opt (qup_MaxPayloadBytes params) (\<lambda>v q. q\<lparr>queue_MaxPayloadBytes := v\<rparr>) q;
          q = set_opt (qup_WebhookURL params) (\<lambda>v q. q\<lparr>queue_WebhookURL := v\<rparr>) q;
          q = set_opt (qup_WebhookSecret params) (\<lambda>v q. q\<lparr>queue_WebhookSecret := v\<rparr>) q;
          q = (if qup_Metadata params \<noteq> [] then q\<lparr>queue_Metadata := qup_Metadata params\<rparr> else q)
      in q\<lparr>queue_UpdatedAt := now\<rparr>)"

definition QueueName :: "queue \<Rightarrow> name" where
  "QueueName q = QNewName (queue_Name q) (queue_ProjectID q)"

lemma UpdateQueue_keys [simp]:
  "queue_ID (UpdateQueue now p q) = queue_ID q"
  "queue_ProjectID (UpdateQueue now p q) = queue_ProjectID q"
  "queue_Name (UpdateQueue now p q) = queue_Name q"
  "queue_Status (UpdateQueue now p q) = queue_Status q"
  by (simp_all add: UpdateQueue_def Let_def set_opt_def split: option.splits)

lemma CreateQueue_Inr:
  "CreateQueue now p = Inr q \<Longrightarrow> queue_ProjectID q = qcp_ProjectID p \<and> queue_Name q = qcp_Name p
     \<and> queue_Status q = StatusActive \<and> 0 \<le> queue_ProjectID q \<and> 0 < queue_MaxAttempts q
     \<and> 0 < queue_VisibilityTimeout q"
  by (auto simp: CreateQueue_def ValidateCreateQueue_def Let_def DefaultMaxAttempts_def
      DefaultVisibilityTimeout_def second_def split: sum.splits if_splits)

section \<open>Tenants\<close>

record tenant =
  tenant_ID :: project_id
  tenant_Status :: string
  tenant_CreatedAt :: time
  tenant_UpdatedAt :: time

record limits =
  limits_TenantID :: project_id
  limits_InboundPerSecond :: int
  limits_OutboundPerSecond :: int
  limits_UpdatedAt :: time

definition Unlimited :: int where "Unlimited = -1"

end
