(* ===== verification/JobModel.thy ===== *)
theory JobModel
  imports Prelude
begin

text \<open>
  \<open>internal/domain/queue/job/model.go\<close> and \<open>validation.go\<close>: the job entity, its seven
  statuses and the transitions the services apply to it.  Times are nanoseconds, an optional
  time is a Go pointer, raw JSON is its text with the empty text for nil.  The clock
  (\<open>clock.Now()\<close>) and the fresh ULID are arguments.
\<close>

datatype status = StatusPending | StatusScheduled | StatusRunning | StatusCompleted
  | StatusFailed | StatusCancelled | StatusDLQ

datatype job_error = ErrNotFound | ErrNotClaimable | ErrInvalidTransition | ErrWorkerMismatch
  | ErrInvalidTerminalState | ErrTerminalJob

record job =
  job_ID :: ulid
  job_ProjectID :: project_id
  job_QueueName :: string
  job_Status :: status
  job_Payload :: string
  job_Result :: string
  job_IdempotencyKey :: "string option"
  job_Attempt :: int
  job_MaxAttempts :: int
  job_ScheduleAt :: "time option"
  job_StartedAt :: "time option"
  job_CompletedAt :: "time option"
  job_TerminalAt :: "time option"
  job_WorkerID :: string
  job_BrokerSequence :: nat
  job_ErrorMessage :: string
  job_Metadata :: string
  job_CreatedAt :: time
  job_UpdatedAt :: time

definition minute :: int where "minute = 60000000000"

definition IsTerminal :: "job \<Rightarrow> bool" where
  "IsTerminal j = (case job_Status j of
      StatusCompleted \<Rightarrow> True | StatusCancelled \<Rightarrow> True | StatusFailed \<Rightarrow> True | StatusDLQ \<Rightarrow> True
    | _ \<Rightarrow> False)"

definition setTerminalAt :: "time \<Rightarrow> job \<Rightarrow> job" where
  "setTerminalAt now j = j\<lparr>job_TerminalAt := Some now\<rparr>"

definition clearTerminalAt :: "job \<Rightarrow> job" where
  "clearTerminalAt j = j\<lparr>job_TerminalAt := None\<rparr>"

definition ValidateTerminalInvariant :: "job \<Rightarrow> job_error + unit" where
  "ValidateTerminalInvariant j =
     (if IsTerminal j then
        (if job_TerminalAt j = None then Inl ErrInvalidTerminalState else Inr ())
      else if job_TerminalAt j \<noteq> None then Inl ErrInvalidTerminalState
      else Inr ())"

record job_create_params =
  cp_ProjectID :: project_id
  cp_QueueName :: string
  cp_Payload :: string
  cp_IdempotencyKey :: string
  cp_MaxAttempts :: int
  cp_ScheduleAt :: "time option"
  cp_Metadata :: string

datatype job_invalid = ProjectIDInvalid | QueueNameRequired | ScheduleAtPast

definition ValidateCreateJob :: "time \<Rightarrow> job_create_params \<Rightarrow> job_invalid + unit" where
  "ValidateCreateJob now params =
     (if cp_ProjectID params < 0 then Inl ProjectIDInvalid
      else if TrimSpace (cp_QueueName params) = [] then Inl QueueNameRequired
      else case cp_ScheduleAt params of
             Some t \<Rightarrow> (if t < now - minute then Inl ScheduleAtPast else Inr ())
           | None \<Rightarrow> Inr ())"

definition EnqueueJob :: "ulid \<Rightarrow> time \<Rightarrow> job_create_params \<Rightarrow> job_invalid + job" where
  "EnqueueJob newID now params =
     (case ValidateCreateJob now params of
        Inl e \<Rightarrow> Inl e
      | Inr _ \<Rightarrow>
          (let status = (case cp_ScheduleAt params of
                           Some t \<Rightarrow> (if t > now then StatusScheduled else StatusPending)
                         | None \<Rightarrow> StatusPending);
               maxAttempts = (if cp_MaxAttempts params \<le> 0 then 25 else cp_MaxAttempts params);
               idempotencyKey = (if cp_IdempotencyKey params \<noteq> [] then Some (cp_IdempotencyKey params) else None)
           in Inr \<lparr>job_ID = newID, job_ProjectID = cp_ProjectID params,
                job_QueueName = cp_QueueName params, job_Status = status,
                job_Payload = cp_Payload params, job_Result = [],
                job_IdempotencyKey = idempotencyKey, job_Attempt = 0, job_MaxAttempts = maxAttempts,
                job_ScheduleAt = cp_ScheduleAt params, job_StartedAt = None, job_CompletedAt = None,
                job_TerminalAt = None, job_WorkerID = [], job_BrokerSequence = 0,
                job_ErrorMessage = [], job_Metadata = cp_Metadata params,
                job_CreatedAt = now, job_UpdatedAt = now\<rparr>))"

definition MarkRunning :: "time \<Rightarrow> string \<Rightarrow> job \<Rightarrow> job" where
  "MarkRunning now workerID j =
     (clearTerminalAt (j\<lparr>job_Status := StatusRunning, job_WorkerID := workerID,
        job_Attempt := job_Attempt j + 1, job_StartedAt := Some now\<rparr>))\<lparr>job_UpdatedAt := now\<rparr>"

definition MarkCompleted :: "time \<Rightarrow> string \<Rightarrow> job \<Rightarrow> job" where
  "MarkCompleted now result j =
     (setTerminalAt now (j\<lparr>job_Status := StatusCompleted, job_Result := result,
        job_CompletedAt := Some now\<rparr>))\<lparr>job_UpdatedAt := now\<rparr>"

definition MarkFailed :: "time \<Rightarrow> string \<Rightarrow> job \<Rightarrow> job" where
  "MarkFailed now reason j =
     (setTerminalAt now (j\<lparr>job_Status := StatusFailed, job_ErrorMessage := reason\<rparr>))\<lparr>job_UpdatedAt := now\<rparr>"

definition MarkRetry :: "time \<Rightarrow> int \<Rightarrow> job \<Rightarrow> job" where
  "MarkRetry now delay j =
     (clearTerminalAt (j\<lparr>job_Status := StatusPending, job_ScheduleAt := Some (now + delay),
        job_StartedAt := None, job_WorkerID := []\<rparr>))\<lparr>job_UpdatedAt := now\<rparr>"

definition MarkDLQ :: "time \<Rightarrow> string \<Rightarrow> job \<Rightarrow> job" where
  "MarkDLQ now reason j =
     (setTerminalAt now (j\<lparr>job_Status := StatusDLQ, job_ErrorMessage := reason\<rparr>))\<lparr>job_UpdatedAt := now\<rparr>"

definition MarkCancelled :: "time \<Rightarrow> job \<Rightarrow> job" where
  "MarkCancelled now j = (setTerminalAt now (j\<lparr>job_Status := StatusCancelled\<rparr>))\<lparr>job_UpdatedAt := now\<rparr>"

definition MarkReclaimed :: "time \<Rightarrow> job \<Rightarrow> job" where
  "MarkReclaimed now j =
     (clearTerminalAt (j\<lparr>job_Status := StatusPending, job_WorkerID := [], job_StartedAt := None\<rparr>))
       \<lparr>job_UpdatedAt := now\<rparr>"

definition CanRetry :: "job \<Rightarrow> bool" where
  "CanRetry j \<longleftrightarrow> job_Attempt j < job_MaxAttempts j"

definition IsClaimable :: "time \<Rightarrow> job \<Rightarrow> bool" where
  "IsClaimable now j = (case job_Status j of
      StatusPending \<Rightarrow> (case job_ScheduleAt j of None \<Rightarrow> True | Some t \<Rightarrow> \<not> t > now)
    | StatusScheduled \<Rightarrow> (case job_ScheduleAt j of None \<Rightarrow> False | Some t \<Rightarrow> \<not> t > now)
    | _ \<Rightarrow> False)"

definition MarkPendingForSchedule :: "time \<Rightarrow> job \<Rightarrow> job" where
  "MarkPendingForSchedule now j = (clearTerminalAt (j\<lparr>job_Status := StatusPending\<rparr>))\<lparr>job_UpdatedAt := now\<rparr>"

definition MarkRetryFromControl :: "time \<Rightarrow> job \<Rightarrow> job" where
  "MarkRetryFromControl now j =
     (clearTerminalAt (j\<lparr>job_Status := StatusPending, job_ScheduleAt := None, job_ErrorMessage := [],
        job_StartedAt := None, job_CompletedAt := None, job_WorkerID := []\<rparr>))\<lparr>job_UpdatedAt := now\<rparr>"

lemmas mark_defs [op_defs] = MarkRunning_def MarkCompleted_def MarkFailed_def MarkRetry_def MarkDLQ_def
  MarkCancelled_def MarkReclaimed_def MarkPendingForSchedule_def MarkRetryFromControl_def
  setTerminalAt_def clearTerminalAt_def

subsection \<open>The invariant of a stored job\<close>

text \<open>What every row of the table satisfies: the terminal time is set exactly in the terminal
  statuses, a running job has a start time, a scheduled job a due time, and the counters are in
  range.\<close>

definition job_ok :: "job \<Rightarrow> bool" where
  "job_ok j \<longleftrightarrow> ValidateTerminalInvariant j = Inr ()
     \<and> (job_Status j = StatusRunning \<longrightarrow> job_StartedAt j \<noteq> None \<and> 0 < job_Attempt j)
     \<and> (job_Status j = StatusScheduled \<longrightarrow> job_ScheduleAt j \<noteq> None)
     \<and> (job_Status j = StatusPending \<or> job_Status j = StatusScheduled \<longrightarrow>
          job_WorkerID j = [] \<and> job_StartedAt j = None)
     \<and> (job_Status j = StatusCompleted \<longrightarrow> job_CompletedAt j \<noteq> None)
     \<and> 0 \<le> job_Attempt j \<and> 0 < job_MaxAttempts j \<and> 0 \<le> job_ProjectID j
     \<and> job_IdempotencyKey j \<noteq> Some []"

lemma terminal_ok_iff:
  "ValidateTerminalInvariant j = Inr () \<longleftrightarrow> (IsTerminal j \<longleftrightarrow> job_TerminalAt j \<noteq> None)"
  by (auto simp: ValidateTerminalInvariant_def)

lemma job_ok_EnqueueJob: "EnqueueJob i now p = Inr j \<Longrightarrow> job_ok j"
  by (auto simp: EnqueueJob_def Let_def job_ok_def terminal_ok_iff IsTerminal_def ValidateCreateJob_def
      split: sum.splits if_splits option.splits)

lemma job_ok_marks [inv_intros]:
  "job_ok j \<Longrightarrow> job_ok (MarkRunning now w j)"
  "job_ok j \<Longrightarrow> job_ok (MarkCompleted now r j)"
  "job_ok j \<Longrightarrow> job_ok (MarkFailed now e j)"
  "job_ok j \<Longrightarrow> job_ok (MarkRetry now d j)"
  "job_ok j \<Longrightarrow> job_ok (MarkDLQ now e j)"
  "job_ok j \<Longrightarrow> job_ok (MarkCancelled now j)"
  "job_ok j \<Longrightarrow> job_ok (MarkReclaimed now j)"
  "job_ok j \<Longrightarrow> job_ok (MarkRetryFromControl now j)"
  "job_ok j \<Longrightarrow> job_Status j = StatusScheduled \<Longrightarrow> job_ok (MarkPendingForSchedule now j)"
  by (auto simp: job_ok_def terminal_ok_iff IsTerminal_def mark_defs)

lemma job_ok_fields [inv_intros]:
  "job_ok j \<Longrightarrow> job_ok (j\<lparr>job_BrokerSequence := n\<rparr>)"
  "job_ok j \<Longrightarrow> job_ok (j\<lparr>job_Metadata := m, job_UpdatedAt := t\<rparr>)"
  "job_ok j \<Longrightarrow> job_Status j = StatusRunning \<Longrightarrow> job_ok (j\<lparr>job_StartedAt := Some t, job_UpdatedAt := t'\<rparr>)"
  by (auto simp: job_ok_def terminal_ok_iff IsTerminal_def)

lemma mark_keys [simp]:
  "job_ID (MarkRunning now w j) = job_ID j" "job_ID (MarkCompleted now r j) = job_ID j"
  "job_ID (MarkFailed now e j) = job_ID j" "job_ID (MarkRetry now d j) = job_ID j"
  "job_ID (MarkDLQ now e j) = job_ID j" "job_ID (MarkCancelled now j) = job_ID j"
  "job_ID (MarkReclaimed now j) = job_ID j" "job_ID (MarkRetryFromControl now j) = job_ID j"
  "job_ID (MarkPendingForSchedule now j) = job_ID j"
  by (simp_all add: mark_defs)

end
