(* ===== verification/Tables.thy ===== *)
theory Tables
  imports Prelude
begin

text \<open>
  The contract the services rely on whenever they read a row by its key, change it and save it:
  what a lookup returns after a save, and what a save keeps.  The tables of the database and the
  in-memory maps of the messaging repositories are interpretations of it.
\<close>

locale row_store =
  fixes key :: "'r \<Rightarrow> 'k"
    and ok :: "'r \<Rightarrow> bool"
    and inv :: "'t \<Rightarrow> bool"
    and lookup :: "'k \<Rightarrow> 't \<Rightarrow> 'r option"
    and save :: "'r \<Rightarrow> 't \<Rightarrow> 't"
  assumes lookup_ok: "inv t \<Longrightarrow> lookup k t = Some r \<Longrightarrow> key r = k \<and> ok r"
    and lookup_save: "inv t \<Longrightarrow> ok r \<Longrightarrow> lookup k (save r t) = (if k = key r then Some r else lookup k t)"
    and inv_save: "inv t \<Longrightarrow> ok r \<Longrightarrow> inv (save r t)"
begin

text \<open>Read, change, save.\<close>

definition modify :: "'k \<Rightarrow> ('r \<Rightarrow> 'r) \<Rightarrow> 't \<Rightarrow> 't" where
  "modify k f t = (case lookup k t of None \<Rightarrow> t | Some r \<Rightarrow> save (f r) t)"

lemma modify_inv:
  "inv t \<Longrightarrow> (\<And>r. ok r \<Longrightarrow> ok (f r)) \<Longrightarrow> inv (modify k f t)"
  by (auto simp: modify_def lookup_ok intro: inv_save split: option.splits)

lemma lookup_modify:
  assumes "inv t" "\<And>r. key (f r) = key r" "\<And>r. ok r \<Longrightarrow> ok (f r)"
  shows "lookup k' (modify k f t) = (if k' = k then map_option f (lookup k t) else lookup k' t)"
  using assms lookup_ok [OF assms(1)] by (auto simp: modify_def lookup_save split: option.splits)

lemma save_save_other:
  assumes "inv t" "ok r" "ok r'" "key r \<noteq> key r'"
  shows "lookup k (save r (save r' t)) = lookup k (save r' (save r t))"
  using assms by (simp add: lookup_save inv_save)

lemma saved_ok: "inv t \<Longrightarrow> ok r \<Longrightarrow> lookup k (save r t) = Some x \<Longrightarrow> ok x"
  using lookup_ok inv_save by blast

end

text \<open>A list of rows with distinct keys is such a store.\<close>

definition table_inv :: "('r \<Rightarrow> 'k) \<Rightarrow> ('r \<Rightarrow> bool) \<Rightarrow> 'r list \<Rightarrow> bool" where
  "table_inv key ok rows \<longleftrightarrow> distinct (List.map key rows) \<and> (\<forall>r\<in>set rows. ok r)"

definition table_lookup :: "('r \<Rightarrow> 'k) \<Rightarrow> 'k \<Rightarrow> 'r list \<Rightarrow> 'r option" where
  "table_lookup key k rows = List.find (\<lambda>r. key r = k) rows"

lemma table_lookup_eq:
  "distinct (List.map key rows) \<Longrightarrow> table_lookup key k rows = Some r \<longleftrightarrow> r \<in> set rows \<and> key r = k"
  using find_key [of key rows r "\<lambda>r. key r = k"] find_SomeD [of "\<lambda>r. key r = k" rows r]
  by (auto simp: table_lookup_def)

lemma table_lookup_None: "table_lookup key k rows = None \<longleftrightarrow> k \<notin> key ` set rows"
  by (auto simp: table_lookup_def find_None_iff)

lemma table_lookup_save:
  assumes "distinct (List.map key rows)"
  shows "table_lookup key k (save_row key r rows) = (if k = key r then Some r else table_lookup key k rows)"
proof (cases "k = key r")
  case True
  then show ?thesis
    using table_lookup_eq [OF save_row_keys [OF assms]] in_save_row by simp
next
  case False
  have "table_lookup key k (save_row key r rows) = Some x \<longleftrightarrow> table_lookup key k rows = Some x" for x
    using False set_save_row [of x key r rows] other_save_row [of x rows key r]
    by (auto simp: table_lookup_eq [OF save_row_keys [OF assms]] table_lookup_eq [OF assms])
  then show ?thesis using False by (metis not_None_eq)
qed

interpretation table: row_store key ok "table_inv key ok" "table_lookup key" "save_row key"
  for key :: "'r \<Rightarrow> 'k" and ok
proof unfold_locales
  show "table_inv key ok t \<Longrightarrow> table_lookup key k t = Some r \<Longrightarrow> key r = k \<and> ok r" for t k r
    by (auto simp: table_inv_def table_lookup_eq)
  show "table_inv key ok t \<Longrightarrow> ok r \<Longrightarrow>
    table_lookup key k (save_row key r t) = (if k = key r then Some r else table_lookup key k t)" for t k r
    by (simp add: table_inv_def table_lookup_save)
  show "table_inv key ok t \<Longrightarrow> ok r \<Longrightarrow> table_inv key ok (save_row key r t)" for t r
    by (auto simp: table_inv_def save_row_keys dest: set_save_row)
qed

lemma table_inv_update_where [inv_intros]:
  assumes "table_inv key ok rows" "\<And>r. r \<in> set rows \<Longrightarrow> P r \<Longrightarrow> key (f r) = key r"
    "\<And>r. r \<in> set rows \<Longrightarrow> P r \<Longrightarrow> ok r \<Longrightarrow> ok (f r)"
  shows "table_inv key ok (update_where P f rows)"
  using assms by (auto simp: table_inv_def set_update_where)

lemma table_inv_filter [inv_intros]: "table_inv key ok rows \<Longrightarrow> table_inv key ok (List.filter P rows)"
  by (auto simp: table_inv_def distinct_map intro: inj_on_subset)

lemma table_inv_insert [inv_intros]:
  "table_inv key ok rows \<Longrightarrow> ok r \<Longrightarrow> key r \<notin> key ` set rows \<Longrightarrow> table_inv key ok (rows @ [r])"
  by (auto simp: table_inv_def)

text \<open>\<open>DELETE ... WHERE id IN (SELECT id ... WHERE P LIMIT n)\<close>: the rows that stay and the number
  of rows that go.\<close>

fun delete_limited :: "('r \<Rightarrow> bool) \<Rightarrow> nat \<Rightarrow> 'r list \<Rightarrow> 'r list" where
  "delete_limited P n [] = []"
| "delete_limited P n (r # rs) =
     (if P r \<and> 0 < n then delete_limited P (n - 1) rs else r # delete_limited P n rs)"

lemma delete_limited_subset: "set (delete_limited P n rs) \<subseteq> set rs"
  by (induction rs arbitrary: n) auto

lemma delete_limited_keeps: "r \<in> set rs \<Longrightarrow> \<not> P r \<Longrightarrow> r \<in> set (delete_limited P n rs)"
  by (induction rs arbitrary: n) auto

lemma delete_limited_count:
  "length (List.filter P (delete_limited P n rs)) = length (List.filter P rs) - n"
  by (induction rs arbitrary: n) (auto simp: Suc_diff_le)

lemma delete_limited_length:
  "length (delete_limited P n rs) + min n (length (List.filter P rs)) = length rs"
proof (induction rs arbitrary: n)
  case (Cons r rs)
  show ?case using Cons.IH [of n] Cons.IH [of "n - 1"] by (cases n) (auto simp: min_def)
qed simp

lemma delete_limited_all:
  "length (List.filter P rs) \<le> n \<Longrightarrow> delete_limited P n rs = List.filter (\<lambda>r. \<not> P r) rs"
  by (induction rs arbitrary: n) auto

lemma table_inv_delete_limited [inv_intros]:
  "table_inv key ok rows \<Longrightarrow> table_inv key ok (delete_limited P n rows)"
proof -
  assume t: "table_inv key ok rows"
  have "distinct (List.map key rows) \<Longrightarrow> distinct (List.map key (delete_limited P n rows))"
    by (induction rows arbitrary: n) (use delete_limited_subset in fastforce)+
  then show ?thesis using t delete_limited_subset [of P n rows] by (auto simp: table_inv_def)
qed

end
