(* ===== verification/JobStore.thy ===== *)
theory JobStore
  imports JobModel QueueModel Tables "HOL-Library.Option_ord" "HOL-Library.Product_Lexorder"
begin

text \<open>
  \<open>internal/infrastructure/repository/queue/job/repository.go\<close>: the statements on the jobs table,
  one definition each, on the list of its rows.  Where a statement orders its rows the order is the
  statement's, ties in table order; where it does not, table order.  The row locks of \<open>ClaimPending\<close>
  and \<open>ReclaimExpired\<close> make each statement one atomic step.  The unique index on
  (project, queue, idempotency key) comes from the migration \<open>2026080101_dataplane_tables.go\<close>.
\<close>

type_synonym jobs = "job list"

datatype store_error = RecordNotFound | DuplicateKey

definition same_queue :: "project_id \<Rightarrow> string \<Rightarrow> job \<Rightarrow> bool" where
  "same_queue pid qn j \<longleftrightarrow> job_ProjectID j = pid \<and> job_QueueName j = qn"

definition same_idem :: "job \<Rightarrow> job \<Rightarrow> bool" where
  "same_idem a b \<longleftrightarrow> job_ProjectID a = job_ProjectID b \<and> job_QueueName a = job_QueueName b
     \<and> job_IdempotencyKey a = job_IdempotencyKey b
     \<and> (case job_IdempotencyKey a of None \<Rightarrow> False | Some k \<Rightarrow> k \<noteq> [])"

definition Create_job :: "job \<Rightarrow> jobs \<Rightarrow> store_error + jobs" where
  "Create_job j rows =
     (if list_ex (\<lambda>r. job_ID r = job_ID j \<or> same_idem r j) rows then Inl DuplicateKey else Inr (rows @ [j]))"

definition Update_job :: "job \<Rightarrow> jobs \<Rightarrow> store_error + jobs" where
  "Update_job j rows =
     (if list_ex (\<lambda>r. job_ID r \<noteq> job_ID j \<and> same_idem r j) rows then Inl DuplicateKey
      else Inr (save_row job_ID j rows))"

definition FindByID :: "project_id \<Rightarrow> string \<Rightarrow> ulid \<Rightarrow> jobs \<Rightarrow> store_error + job" where
  "FindByID pid qn i rows =
     (case List.find (\<lambda>j. same_queue pid qn j \<and> job_ID j = i) rows of
        None \<Rightarrow> Inl RecordNotFound | Some j \<Rightarrow> Inr j)"

definition FindByIdempotencyKey :: "project_id \<Rightarrow> string \<Rightarrow> string \<Rightarrow> jobs \<Rightarrow> store_error + job" where
  "FindByIdempotencyKey pid qn k rows =
     (if k = [] then Inl RecordNotFound
      else case List.find (\<lambda>j. same_queue pid qn j \<and> job_IdempotencyKey j = Some k) rows of
             None \<Rightarrow> Inl RecordNotFound | Some j \<Rightarrow> Inr j)"

record list_filter =
  lf_ProjectID :: project_id
  lf_QueueName :: string
  lf_Status :: "status option"
  lf_Limit :: int
  lf_Offset :: int

text \<open>The empty status of \<open>ListFilter\<close> is \<^const>\<open>None\<close>.\<close>

definition List_jobs :: "list_filter \<Rightarrow> jobs \<Rightarrow> job list" where
  "List_jobs flt rows =
     (let rows = List.filter (\<lambda>j. job_ProjectID j = lf_ProjectID flt) rows;
          rows = (if lf_QueueName flt \<noteq> [] then List.filter (\<lambda>j. job_QueueName j = lf_QueueName flt) rows else rows);
          rows = (case lf_Status flt of None \<Rightarrow> rows | Some s \<Rightarrow> List.filter (\<lambda>j. job_Status j = s) rows);
          limit = (if lf_Limit flt \<le> 0 then 50 else lf_Limit flt);
          limit = (if limit > 100 then 100 else limit)
      in page_rows limit (lf_Offset flt) (sort_key (\<lambda>j. - job_CreatedAt j) rows))"

text \<open>The two inner joins: the queue row and the tenant row exist and are active.\<close>

definition queue_active :: "queue list \<Rightarrow> job \<Rightarrow> bool" where
  "queue_active queues j \<longleftrightarrow> list_ex (\<lambda>q. queue_ProjectID q = job_ProjectID j \<and> queue_Name q = job_QueueName j
     \<and> queue_Status q = StatusActive) queues"

definition tenant_active :: "tenant list \<Rightarrow> job \<Rightarrow> bool" where
  "tenant_active tenants j \<longleftrightarrow> list_ex (\<lambda>t. tenant_ID t = job_ProjectID j \<and> tenant_Status t = StatusActive) tenants"

definition FindDueScheduled ::
    "int \<Rightarrow> time \<Rightarrow> queue list \<Rightarrow> tenant list \<Rightarrow> jobs \<Rightarrow> job list" where
  "FindDueScheduled limit now queues tenants rows =
     (let limit = (if limit \<le> 0 then 100 else limit);
          due = List.filter (\<lambda>j. job_Status j = StatusScheduled
                  \<and> (case job_ScheduleAt j of None \<Rightarrow> False | Some t \<Rightarrow> t \<le> now)
                  \<and> queue_active queues j \<and> tenant_active tenants j) rows
      in take (nat limit) (sort_key job_ScheduleAt due))"

definition CountByStatus :: "project_id \<Rightarrow> string \<Rightarrow> status \<Rightarrow> jobs \<Rightarrow> nat" where
  "CountByStatus pid qn s rows = length (List.filter (\<lambda>j. same_queue pid qn j \<and> job_Status j = s) rows)"

text \<open>The row the claim selects, by the SQL condition.\<close>

definition claimable_row :: "project_id \<Rightarrow> string \<Rightarrow> time \<Rightarrow> job \<Rightarrow> bool" where
  "claimable_row pid qn now j \<longleftrightarrow> same_queue pid qn j
     \<and> (job_Status j = StatusPending \<or> job_Status j = StatusScheduled)
     \<and> (case job_ScheduleAt j of None \<Rightarrow> True | Some t \<Rightarrow> t \<le> now)"

definition claim_row :: "time \<Rightarrow> string \<Rightarrow> job \<Rightarrow> job" where
  "claim_row now workerID j = j\<lparr>job_Status := StatusRunning, job_WorkerID := workerID,
     job_Attempt := job_Attempt j + 1, job_StartedAt := Some now, job_UpdatedAt := now\<rparr>"

text \<open>\<open>ORDER BY schedule_at ASC NULLS FIRST, created_at ASC LIMIT n\<close>: the order of pairs, in which
  \<^const>\<open>None\<close> is least.\<close>

definition claim_selected :: "project_id \<Rightarrow> string \<Rightarrow> int \<Rightarrow> time \<Rightarrow> jobs \<Rightarrow> job list" where
  "claim_selected pid qn limit now rows =
     take (nat limit) (sort_key (\<lambda>j. (job_ScheduleAt j, job_CreatedAt j)) (List.filter (claimable_row pid qn now) rows))"

definition ClaimPending ::
    "project_id \<Rightarrow> string \<Rightarrow> string \<Rightarrow> int \<Rightarrow> time \<Rightarrow> jobs \<Rightarrow> job list \<times> jobs" where
  "ClaimPending pid qn workerID limit now rows =
     (let limit = (if limit \<le> 0 then 1 else limit);
          sel = List.map job_ID (claim_selected pid qn limit now rows)
      in (List.map (claim_row now workerID) (List.filter (\<lambda>j. job_ID j \<in> set sel) rows),
          update_where (\<lambda>j. job_ID j \<in> set sel) (claim_row now workerID) rows))"

text \<open>The visibility timeout of the job's queue, with the \<open>COALESCE\<close> default; the interval
  arithmetic is exact here.\<close>

definition visibility_of :: "queue list \<Rightarrow> int \<Rightarrow> job \<Rightarrow> int" where
  "visibility_of queues dflt j =
     (case List.find (\<lambda>q. queue_ProjectID q = job_ProjectID j \<and> queue_Name q = job_QueueName j) queues of
        None \<Rightarrow> dflt | Some q \<Rightarrow> queue_VisibilityTimeout q)"

definition lease_expired :: "time \<Rightarrow> int \<Rightarrow> queue list \<Rightarrow> tenant list \<Rightarrow> job \<Rightarrow> bool" where
  "lease_expired now dflt queues tenants j \<longleftrightarrow> job_Status j = StatusRunning
     \<and> queue_active queues j \<and> tenant_active tenants j
     \<and> (case job_StartedAt j of None \<Rightarrow> False | Some t \<Rightarrow> t + visibility_of queues dflt j < now)"

definition reclaim_row :: "time \<Rightarrow> job \<Rightarrow> job" where
  "reclaim_row now j = j\<lparr>job_Status := StatusPending, job_WorkerID := [], job_StartedAt := None, job_UpdatedAt := now\<rparr>"

definition ReclaimExpired_job ::
    "time \<Rightarrow> int \<Rightarrow> int \<Rightarrow> queue list \<Rightarrow> tenant list \<Rightarrow> jobs \<Rightarrow> nat \<times> jobs" where
  "ReclaimExpired_job now limit defaultVisibility queues tenants rows =
     (let limit = (if limit \<le> 0 then 500 else limit);
          dflt = (if defaultVisibility \<le> 0 then 30 * second else defaultVisibility);
          sel = List.map job_ID (take (nat limit)
                  (sort_key job_StartedAt (List.filter (lease_expired now dflt queues tenants) rows)))
      in (length sel, update_where (\<lambda>j. job_ID j \<in> set sel) (reclaim_row now) rows))"

definition ExtendLease :: "project_id \<Rightarrow> string \<Rightarrow> time \<Rightarrow> jobs \<Rightarrow> nat \<times> jobs" where
  "ExtendLease pid workerID now rows =
     (if workerID = [] then (0, rows)
      else let P = (\<lambda>j. job_ProjectID j = pid \<and> job_WorkerID j = workerID \<and> job_Status j = StatusRunning)
           in (length (List.filter P rows),
               update_where P (\<lambda>j. j\<lparr>job_StartedAt := Some now, job_UpdatedAt := now\<rparr>) rows))"

definition UpdateMetadata :: "project_id \<Rightarrow> string \<Rightarrow> ulid \<Rightarrow> string \<Rightarrow> time \<Rightarrow> jobs \<Rightarrow> jobs" where
  "UpdateMetadata pid qn i metadata now rows =
     update_where (\<lambda>j. same_queue pid qn j \<and> job_ID j = i)
       (\<lambda>j. j\<lparr>job_Metadata := metadata, job_UpdatedAt := now\<rparr>) rows"

definition CountByQueue :: "project_id \<Rightarrow> string \<Rightarrow> jobs \<Rightarrow> nat" where
  "CountByQueue pid qn rows = length (List.filter (same_queue pid qn) rows)"

definition active_status :: "status \<Rightarrow> bool" where
  "active_status s \<longleftrightarrow> s = StatusPending \<or> s = StatusScheduled \<or> s = StatusRunning"

definition CountActiveByQueue :: "project_id \<Rightarrow> string \<Rightarrow> jobs \<Rightarrow> nat" where
  "CountActiveByQueue pid qn rows =
     length (List.filter (\<lambda>j. same_queue pid qn j \<and> active_status (job_Status j)) rows)"

text \<open>The deletes return the number of rows deleted.\<close>

definition delete_rows :: "(job \<Rightarrow> bool) \<Rightarrow> int \<Rightarrow> jobs \<Rightarrow> nat \<times> jobs" where
  "delete_rows P limit rows =
     (let limit = (if limit \<le> 0 then 1000 else limit);
          rows' = delete_limited P (nat limit) rows
      in (length rows - length rows', rows'))"

definition terminal_before :: "status list \<Rightarrow> time \<Rightarrow> job \<Rightarrow> bool" where
  "terminal_before statuses cutoff j \<longleftrightarrow> job_Status j \<in> set statuses
     \<and> (case job_TerminalAt j of None \<Rightarrow> False | Some t \<Rightarrow> t < cutoff)"

definition PurgeTerminalBefore :: "status list \<Rightarrow> time \<Rightarrow> int \<Rightarrow> jobs \<Rightarrow> nat \<times> jobs" where
  "PurgeTerminalBefore statuses terminalBefore limit rows =
     (if statuses = [] then (0, rows) else delete_rows (terminal_before statuses terminalBefore) limit rows)"

definition DeleteByQueue :: "project_id \<Rightarrow> string \<Rightarrow> int \<Rightarrow> jobs \<Rightarrow> nat \<times> jobs" where
  "DeleteByQueue pid qn limit rows = delete_rows (same_queue pid qn) limit rows"

definition DeleteByProject :: "project_id \<Rightarrow> int \<Rightarrow> jobs \<Rightarrow> nat \<times> jobs" where
  "DeleteByProject pid limit rows = delete_rows (\<lambda>j. job_ProjectID j = pid) limit rows"

definition ForceCancelActiveByQueue :: "project_id \<Rightarrow> string \<Rightarrow> time \<Rightarrow> jobs \<Rightarrow> nat \<times> jobs" where
  "ForceCancelActiveByQueue pid qn now rows =
     (let P = (\<lambda>j. same_queue pid qn j \<and> active_status (job_Status j))
      in (length (List.filter P rows),
          update_where P (\<lambda>j. j\<lparr>job_Status := StatusCancelled, job_TerminalAt := Some now,
            job_UpdatedAt := now, job_WorkerID := [], job_StartedAt := None\<rparr>) rows))"

subsection \<open>The invariant of the table\<close>

definition idem_unique :: "jobs \<Rightarrow> bool" where
  "idem_unique rows \<longleftrightarrow> (\<forall>a\<in>set rows. \<forall>b\<in>set rows. same_idem a b \<longrightarrow> job_ID a = job_ID b)"

definition jobs_inv :: "jobs \<Rightarrow> bool" where
  "jobs_inv rows \<longleftrightarrow> table_inv job_ID job_ok rows \<and> idem_unique rows"

text \<open>A row keeps its identity: the fields of the two unique indexes.\<close>

definition same_key :: "job \<Rightarrow> job \<Rightarrow> bool" where
  "same_key a b \<longleftrightarrow> job_ID a = job_ID b \<and> job_ProjectID a = job_ProjectID b
     \<and> job_QueueName a = job_QueueName b \<and> job_IdempotencyKey a = job_IdempotencyKey b"

lemma same_key_refl [simp]: "same_key j j"
  by (simp add: same_key_def)

lemma same_key_marks [simp]:
  "same_key (MarkRunning now w j) j" "same_key (MarkCompleted now r j) j"
  "same_key (MarkFailed now e j) j" "same_key (MarkRetry now d j) j"
  "same_key (MarkDLQ now e j) j" "same_key (MarkCancelled now j) j"
  "same_key (MarkReclaimed now j) j" "same_key (MarkRetryFromControl now j) j"
  "same_key (MarkPendingForSchedule now j) j" "same_key (claim_row now w j) j"
  "same_key (reclaim_row now j) j" "same_key (j\<lparr>job_BrokerSequence := n\<rparr>) j"
  by (simp_all add: same_key_def mark_defs claim_row_def reclaim_row_def)

lemma same_key_idem: "same_key a a' \<Longrightarrow> same_key b b' \<Longrightarrow> same_idem a b = same_idem a' b'"
  by (simp add: same_key_def same_idem_def)

lemma same_idem_sym: "same_idem a b \<Longrightarrow> same_idem b a"
  by (auto simp: same_idem_def)

lemma jobs_invD:
  assumes "jobs_inv rows"
  shows "distinct (List.map job_ID rows)" "\<And>j. j \<in> set rows \<Longrightarrow> job_ok j"
    "\<And>a b. a \<in> set rows \<Longrightarrow> b \<in> set rows \<Longrightarrow> same_idem a b \<Longrightarrow> a = b"
  using assms by (auto simp: jobs_inv_def table_inv_def idem_unique_def dest: key_unique)

lemma jobs_inv_empty [simp]: "jobs_inv []"
  by (simp add: jobs_inv_def table_inv_def idem_unique_def)

lemma idem_unique_subset: "idem_unique rows \<Longrightarrow> set rows' \<subseteq> set rows \<Longrightarrow> idem_unique rows'"
  by (auto simp: idem_unique_def)

lemma jobs_inv_Create:
  assumes "jobs_inv rows" "job_ok j" "Create_job j rows = Inr rows'"
  shows "jobs_inv rows'"
proof -
  from assms(3) have n: "\<forall>r\<in>set rows. job_ID r \<noteq> job_ID j \<and> \<not> same_idem r j" and r: "rows' = rows @ [j]"
    by (auto simp: Create_job_def list_ex_iff split: if_splits)
  have "\<forall>r\<in>set rows. \<not> same_idem j r" using n same_idem_sym by blast
  then have "idem_unique rows'"
    using assms(1) n unfolding jobs_inv_def idem_unique_def r by auto
  moreover have "table_inv job_ID job_ok rows'"
    using assms n by (auto simp: r jobs_inv_def intro!: table_inv_insert)
  ultimately show ?thesis by (simp add: jobs_inv_def)
qed

lemma jobs_inv_update_where [inv_intros]:
  assumes "jobs_inv rows" "\<And>r. r \<in> set rows \<Longrightarrow> P r \<Longrightarrow> same_key (f r) r"
    "\<And>r. r \<in> set rows \<Longrightarrow> P r \<Longrightarrow> job_ok r \<Longrightarrow> job_ok (f r)"
  shows "jobs_inv (update_where P f rows)"
proof -
  have t: "table_inv job_ID job_ok (update_where P f rows)"
    by (rule table_inv_update_where) (use assms in \<open>auto simp: jobs_inv_def same_key_def\<close>)
  have "idem_unique (update_where P f rows)"
    unfolding idem_unique_def
  proof (intro ballI impI)
    fix a b assume ab: "a \<in> set (update_where P f rows)" "b \<in> set (update_where P f rows)" "same_idem a b"
    then obtain a' b' where o: "a' \<in> set rows" "same_key a a'" "b' \<in> set rows" "same_key b b'"
      using assms(2) by (fastforce simp: set_update_where)
    with ab(3) have "same_idem a' b'" using same_key_idem by blast
    then have "job_ID a' = job_ID b'" using assms(1) o by (auto simp: jobs_inv_def idem_unique_def)
    then show "job_ID a = job_ID b" using o by (simp add: same_key_def)
  qed
  with t show ?thesis by (simp add: jobs_inv_def)
qed

text \<open>Saving a changed copy of a row that is in the table.\<close>

lemma Update_job_Inr:
  assumes "jobs_inv rows" "old \<in> set rows" "same_key j old"
  shows "Update_job j rows = Inr (update_where (\<lambda>x. job_ID x = job_ID j) (\<lambda>_. j) rows)"
proof -
  have "\<not> list_ex (\<lambda>r. job_ID r \<noteq> job_ID j \<and> same_idem r j) rows"
  proof
    assume "list_ex (\<lambda>r. job_ID r \<noteq> job_ID j \<and> same_idem r j) rows"
    then obtain r where r: "r \<in> set rows" "job_ID r \<noteq> job_ID j" "same_idem r j"
      by (auto simp: list_ex_iff)
    then have "same_idem r old" using assms(3) same_key_idem [of r r j old] by simp
    with jobs_invD(3) [OF assms(1) r(1) assms(2)] r assms(3) show False by (simp add: same_key_def)
  qed
  moreover have "job_ID j \<in> job_ID ` set rows"
    using assms(2,3) by (auto simp: same_key_def)
  ultimately show ?thesis by (auto simp: Update_job_def save_row_def)
qed

lemma jobs_inv_Update:
  assumes "jobs_inv rows" "old \<in> set rows" "same_key j old" "job_ok j" "Update_job j rows = Inr rows'"
  shows "jobs_inv rows'"
proof -
  have e: "rows' = update_where (\<lambda>x. x = old) (\<lambda>_. j) rows"
    using Update_job_Inr [OF assms(1-3)] assms(2,3,5) jobs_invD(1) [OF assms(1)]
    by (auto simp: update_where_def same_key_def dest: key_unique)
  show ?thesis unfolding e
    by (rule jobs_inv_update_where) (use assms in auto)
qed

lemma jobs_inv_delete_limited [inv_intros]: "jobs_inv rows \<Longrightarrow> jobs_inv (delete_limited P n rows)"
  by (auto simp: jobs_inv_def intro: table_inv_delete_limited idem_unique_subset [OF _ delete_limited_subset])

lemma job_ok_claim_row [inv_intros]: "job_ok j \<Longrightarrow> \<not> IsTerminal j \<Longrightarrow> job_ok (claim_row now w j)"
  by (auto simp: job_ok_def terminal_ok_iff IsTerminal_def claim_row_def)

lemma job_ok_reclaim_row [inv_intros]:
  "job_ok j \<Longrightarrow> job_Status j = StatusRunning \<Longrightarrow> job_ok (reclaim_row now j)"
  by (auto simp: job_ok_def terminal_ok_iff IsTerminal_def reclaim_row_def)

text \<open>The selection of a claim, and of a reclaim, by identifiers.\<close>

lemma row_ID [simp]: "job_ID (claim_row now w j) = job_ID j" "job_ID (reclaim_row now j) = job_ID j"
  by (simp_all add: claim_row_def reclaim_row_def)

lemma selected_ids:
  "distinct (List.map key rows) \<Longrightarrow> set sel \<subseteq> set rows \<Longrightarrow> j \<in> set rows \<Longrightarrow>
   key j \<in> set (List.map key sel) \<longleftrightarrow> j \<in> set sel"
  by (auto dest: key_unique)

lemma set_take_sort: "set (take n (sort_key f (List.filter P rows))) \<subseteq> {r \<in> set rows. P r}"
  using set_take_subset [of n "sort_key f (List.filter P rows)"] by auto

lemma claim_selected_subset: "set (claim_selected pid qn n now rows) \<subseteq> {j \<in> set rows. claimable_row pid qn now j}"
  unfolding claim_selected_def by (rule set_take_sort)

lemma claim_ids:
  assumes "jobs_inv rows" "j \<in> set rows"
  shows "job_ID j \<in> job_ID ` set (claim_selected pid qn n now rows)
         \<longleftrightarrow> j \<in> set (claim_selected pid qn n now rows)"
  using selected_ids [OF jobs_invD(1) [OF assms(1)], of "claim_selected pid qn n now rows" j]
    claim_selected_subset [of pid qn n now rows] assms(2) by auto

lemma jobs_inv_ClaimPending [inv_intros]:
  assumes "jobs_inv rows"
  shows "jobs_inv (snd (ClaimPending pid qn w limit now rows))"
proof -
  let ?sel = "claim_selected pid qn (if limit \<le> 0 then 1 else limit) now rows"
  have "jobs_inv (update_where (\<lambda>j. job_ID j \<in> set (List.map job_ID ?sel)) (claim_row now w) rows)"
  proof (rule jobs_inv_update_where [OF assms])
    fix r assume r: "r \<in> set rows" "job_ID r \<in> set (List.map job_ID ?sel)" "job_ok r"
    then have "claimable_row pid qn now r"
      using claim_ids [OF assms r(1)] claim_selected_subset [of pid qn _ now rows] by fastforce
    then show "job_ok (claim_row now w r)"
      using r(3) by (intro job_ok_claim_row) (auto simp: claimable_row_def IsTerminal_def)
  qed simp
  then show ?thesis by (simp add: ClaimPending_def Let_def)
qed

lemma jobs_inv_ReclaimExpired [inv_intros]:
  assumes "jobs_inv rows"
  shows "jobs_inv (snd (ReclaimExpired_job now limit dv queues tenants rows))"
proof -
  let ?dflt = "if dv \<le> 0 then 30 * second else dv"
  let ?sel = "take (nat (if limit \<le> 0 then 500 else limit))
     (sort_key job_StartedAt (List.filter (lease_expired now ?dflt queues tenants) rows))"
  have "jobs_inv (update_where (\<lambda>j. job_ID j \<in> set (List.map job_ID ?sel)) (reclaim_row now) rows)"
  proof (rule jobs_inv_update_where [OF assms])
    fix r assume r: "r \<in> set rows" "job_ID r \<in> set (List.map job_ID ?sel)" "job_ok r"
    have sub: "set ?sel \<subseteq> {j \<in> set rows. lease_expired now ?dflt queues tenants j}"
      by (rule set_take_sort)
    then have "r \<in> set ?sel"
      using r selected_ids [OF jobs_invD(1) [OF assms], of ?sel r] by blast
    with sub have "lease_expired now ?dflt queues tenants r" by blast
    then show "job_ok (reclaim_row now r)"
      using r(3) by (intro job_ok_reclaim_row) (auto simp: lease_expired_def)
  qed simp
  then show ?thesis by (simp add: ReclaimExpired_job_def Let_def)
qed

lemma jobs_inv_ExtendLease [inv_intros]:
  "jobs_inv rows \<Longrightarrow> jobs_inv (snd (ExtendLease pid w now rows))"
  by (auto simp: ExtendLease_def Let_def same_key_def intro!: jobs_inv_update_where job_ok_fields)

lemma jobs_inv_UpdateMetadata [inv_intros]:
  "jobs_inv rows \<Longrightarrow> jobs_inv (UpdateMetadata pid qn i m now rows)"
  by (auto simp: UpdateMetadata_def same_key_def intro!: jobs_inv_update_where job_ok_fields)

lemma jobs_inv_delete_rows [inv_intros]: "jobs_inv rows \<Longrightarrow> jobs_inv (snd (delete_rows P limit rows))"
  by (simp add: delete_rows_def Let_def jobs_inv_delete_limited)

lemma jobs_inv_deletes [inv_intros]:
  "jobs_inv rows \<Longrightarrow> jobs_inv (snd (PurgeTerminalBefore ss t limit rows))"
  "jobs_inv rows \<Longrightarrow> jobs_inv (snd (DeleteByQueue pid qn limit rows))"
  "jobs_inv rows \<Longrightarrow> jobs_inv (snd (DeleteByProject pid limit rows))"
  by (auto simp: PurgeTerminalBefore_def DeleteByQueue_def DeleteByProject_def intro: jobs_inv_delete_rows)

lemma jobs_inv_ForceCancel [inv_intros]:
  "jobs_inv rows \<Longrightarrow> jobs_inv (snd (ForceCancelActiveByQueue pid qn now rows))"
  by (auto simp: ForceCancelActiveByQueue_def Let_def same_key_def job_ok_def terminal_ok_iff IsTerminal_def
      intro!: jobs_inv_update_where)

subsection \<open>Lookups\<close>

interpretation jobs: row_store job_ID job_ok "table_inv job_ID job_ok" "table_lookup job_ID" "save_row job_ID"
  by (rule table.row_store_axioms)

lemma FindByID_Inr:
  "FindByID pid qn i rows = Inr j \<Longrightarrow> j \<in> set rows \<and> same_queue pid qn j \<and> job_ID j = i"
  by (auto simp: FindByID_def split: option.splits dest: find_SomeD)

lemma FindByID_lookup [repo_simps]:
  assumes "jobs_inv rows"
  shows "FindByID pid qn i rows =
    (case table_lookup job_ID i rows of
       None \<Rightarrow> Inl RecordNotFound
     | Some j \<Rightarrow> if same_queue pid qn j then Inr j else Inl RecordNotFound)"
proof (cases "FindByID pid qn i rows")
  case (Inl e)
  then have "\<forall>j\<in>set rows. \<not> (same_queue pid qn j \<and> job_ID j = i)" "e = RecordNotFound"
    by (auto simp: FindByID_def find_None_iff split: option.splits)
  then show ?thesis
    using Inl jobs_invD(1) [OF assms] by (auto simp: table_lookup_eq split: option.splits)
next
  case (Inr j)
  then have "table_lookup job_ID i rows = Some j \<and> same_queue pid qn j"
    using FindByID_Inr jobs_invD(1) [OF assms] by (simp add: table_lookup_eq)
  then show ?thesis using Inr by simp
qed

lemma FindByIdempotencyKey_Inr:
  "FindByIdempotencyKey pid qn k rows = Inr j \<Longrightarrow>
   j \<in> set rows \<and> same_queue pid qn j \<and> job_IdempotencyKey j = Some k"
  by (auto simp: FindByIdempotencyKey_def split: option.splits if_splits dest: find_SomeD)

lemma FindByIdempotencyKey_Inl:
  "FindByIdempotencyKey pid qn k rows = Inl e \<Longrightarrow> k \<noteq> [] \<Longrightarrow> j \<in> set rows \<Longrightarrow> same_queue pid qn j \<Longrightarrow>
   job_IdempotencyKey j \<noteq> Some k"
  by (auto simp: FindByIdempotencyKey_def find_None_iff split: option.splits if_splits)

subsection \<open>The claim\<close>

definition claim_prio :: "job \<Rightarrow> time option \<times> time" where
  "claim_prio j = (job_ScheduleAt j, job_CreatedAt j)"

definition claim_limit :: "int \<Rightarrow> nat" where
  "claim_limit limit = nat (if limit \<le> 0 then 1 else limit)"

definition claim_set :: "project_id \<Rightarrow> string \<Rightarrow> int \<Rightarrow> time \<Rightarrow> jobs \<Rightarrow> job set" where
  "claim_set pid qn limit now rows = set (claim_selected pid qn (if limit \<le> 0 then 1 else limit) now rows)"

lemma ClaimPending_eq:
  assumes "jobs_inv rows"
  shows "ClaimPending pid qn w limit now rows =
    (List.map (claim_row now w) (List.filter (\<lambda>j. j \<in> claim_set pid qn limit now rows) rows),
     update_where (\<lambda>j. j \<in> claim_set pid qn limit now rows) (claim_row now w) rows)"
  using claim_ids [OF assms]
  by (simp add: ClaimPending_def Let_def claim_set_def update_where_def cong: filter_cong map_cong)

lemma claim_set_subset: "claim_set pid qn limit now rows \<subseteq> {j \<in> set rows. claimable_row pid qn now j}"
  unfolding claim_set_def by (rule claim_selected_subset)

lemma claim_set_size:
  assumes "jobs_inv rows"
  shows "length (List.filter (\<lambda>j. j \<in> claim_set pid qn limit now rows) rows)
    = min (claim_limit limit) (length (List.filter (claimable_row pid qn now) rows))"
proof -
  let ?sel = "claim_selected pid qn (if limit \<le> 0 then 1 else limit) now rows"
  have d: "distinct rows" using jobs_invD(1) [OF assms] by (simp add: distinct_map)
  then have "distinct ?sel" by (simp add: claim_selected_def)
  then have "length ?sel = card (claim_set pid qn limit now rows)"
    by (simp add: claim_set_def distinct_card)
  also have "claim_set pid qn limit now rows = set (List.filter (\<lambda>j. j \<in> claim_set pid qn limit now rows) rows)"
    using claim_set_subset [of pid qn limit now rows] by auto
  then have "card (claim_set pid qn limit now rows) = length (List.filter (\<lambda>j. j \<in> claim_set pid qn limit now rows) rows)"
    using d by (metis distinct_card distinct_filter)
  finally show ?thesis by (simp add: claim_selected_def claim_limit_def min_def split: if_splits)
qed

lemma sorted_take_le:
  assumes "x \<in> set (take n (sort_key f xs))" "y \<in> set xs" "y \<notin> set (take n (sort_key f xs))"
  shows "f x \<le> f y"
proof -
  have "y \<in> set (drop n (sort_key f xs))"
    using assms(2,3) by (metis Un_iff append_take_drop_id set_append set_sort)
  moreover have "sorted (List.map f (take n (sort_key f xs) @ drop n (sort_key f xs)))" by simp
  ultimately show ?thesis using assms(1) unfolding map_append sorted_append by auto
qed

lemma claim_set_priority:
  "x \<in> claim_set pid qn limit now rows \<Longrightarrow> y \<in> set rows \<Longrightarrow> claimable_row pid qn now y \<Longrightarrow>
   y \<notin> claim_set pid qn limit now rows \<Longrightarrow> claim_prio x \<le> claim_prio y"
  unfolding claim_set_def claim_selected_def claim_prio_def
  by (rule sorted_take_le [where f = "\<lambda>j. (job_ScheduleAt j, job_CreatedAt j)"]) auto

lemma claimable_iff_IsClaimable:
  "job_ok j \<Longrightarrow> claimable_row pid qn now j \<longleftrightarrow> same_queue pid qn j \<and> IsClaimable now j"
  by (auto simp: claimable_row_def IsClaimable_def job_ok_def split: status.splits option.splits)

lemma claim_row_MarkRunning: "job_TerminalAt j = None \<Longrightarrow> claim_row now w j = MarkRunning now w j"
  by (simp add: claim_row_def mark_defs)

lemma nonterminal_no_terminal_at: "job_ok j \<Longrightarrow> \<not> IsTerminal j \<Longrightarrow> job_TerminalAt j = None"
  by (simp add: job_ok_def terminal_ok_iff)

lemma claim_set_row:
  assumes "jobs_inv rows" "j \<in> claim_set pid qn limit now rows"
  shows "j \<in> set rows \<and> same_queue pid qn j \<and> IsClaimable now j \<and> claim_row now w j = MarkRunning now w j"
proof -
  have j: "j \<in> set rows" "claimable_row pid qn now j" "job_ok j"
    using assms claim_set_subset [of pid qn limit now rows] jobs_invD(2) [OF assms(1)] by auto
  then have "\<not> IsTerminal j" by (auto simp: claimable_row_def IsTerminal_def)
  then show ?thesis
    using j claimable_iff_IsClaimable claim_row_MarkRunning nonterminal_no_terminal_at by blast
qed


definition sample_job :: "ulid \<Rightarrow> time option \<Rightarrow> time \<Rightarrow> job" where
  "sample_job i sched created =
     \<lparr>job_ID = i, job_ProjectID = 1, job_QueueName = ''mail'', job_Status = StatusPending,
      job_Payload = ''{}'', job_Result = [], job_IdempotencyKey = None, job_Attempt = 0,
      job_MaxAttempts = 3, job_ScheduleAt = sched, job_StartedAt = None, job_CompletedAt = None,
      job_TerminalAt = None, job_WorkerID = [], job_BrokerSequence = 0, job_ErrorMessage = [],
      job_Metadata = [], job_CreatedAt = created, job_UpdatedAt = created\<rparr>"

definition sample_jobs :: jobs where
  "sample_jobs = [sample_job ''a'' (Some 50) 1, sample_job ''b'' (Some 5) 2, sample_job ''c'' None 3]"

lemma sample_jobs_inv [simp]: "jobs_inv sample_jobs"
  by (simp add: jobs_inv_def table_inv_def idem_unique_def sample_jobs_def sample_job_def job_ok_def
      terminal_ok_iff IsTerminal_def same_idem_def)


text \<open>A job is held by one worker at a time: a claim by any worker, at any later time before
  the job returns to the queue, takes none of the jobs the previous claim took.\<close>

lemma claim_exclusive:
  assumes "jobs_inv rows" "ClaimPending pid qn w limit now rows = (claimed, rows')"
    and "ClaimPending pid' qn' w' limit' now' rows' = (claimed', rows'')"
  shows "job_ID ` set claimed \<inter> job_ID ` set claimed' = {}"
proof -
  have inv': "jobs_inv rows'" using jobs_inv_ClaimPending [OF assms(1), of pid qn w limit now] assms(2) by simp
  have "job_Status y = StatusRunning" if "x \<in> set claimed" "y \<in> set rows'" "job_ID x = job_ID y" for x y
  proof -
    have "x \<in> set rows'" "job_Status x = StatusRunning"
      using that(1) assms(2) by (auto simp: ClaimPending_eq [OF assms(1)] set_update_where claim_row_def)
    then show ?thesis using that key_unique [OF jobs_invD(1) [OF inv']] by metis
  qed
  moreover have "\<exists>y. y \<in> set rows' \<and> job_ID y = job_ID z \<and> claimable_row pid' qn' now' y"
    if z: "z \<in> set claimed'" for z
  proof -
    obtain y where "y \<in> claim_set pid' qn' limit' now' rows'" "z = claim_row now' w' y"
      using z assms(3) by (auto simp: ClaimPending_eq [OF inv'])
    then show ?thesis using claim_set_subset [of pid' qn' limit' now' rows'] by fastforce
  qed
  ultimately show ?thesis by (fastforce simp: claimable_row_def)
qed

subsection \<open>Reclaiming\<close>

lemma reclaim_row_MarkReclaimed: "job_TerminalAt j = None \<Longrightarrow> reclaim_row now j = MarkReclaimed now j"
  by (simp add: reclaim_row_def mark_defs)

lemma reclaim_keeps:
  assumes "jobs_inv rows" "j \<in> set rows"
    and "\<not> lease_expired now (if dv \<le> 0 then 30 * second else dv) queues tenants j"
  shows "j \<in> set (snd (ReclaimExpired_job now limit dv queues tenants rows))"
proof -
  let ?sel = "take (nat (if limit \<le> 0 then 500 else limit)) (sort_key job_StartedAt
     (List.filter (lease_expired now (if dv \<le> 0 then 30 * second else dv) queues tenants) rows))"
  have sub: "set ?sel \<subseteq> {j \<in> set rows. lease_expired now (if dv \<le> 0 then 30 * second else dv) queues tenants j}"
    by (rule set_take_sort)
  then have "j \<notin> set ?sel" using assms(3) by blast
  then have "job_ID j \<notin> job_ID ` set ?sel"
    using selected_ids [OF jobs_invD(1) [OF assms(1)] subset_trans [OF sub], of j] assms(2) by auto
  then show ?thesis using assms(2) by (auto simp: ReclaimExpired_job_def Let_def set_update_where image_iff)
qed

text \<open>C8. Reclaiming returns a job to the queue only when its lease is over: the rows that change
  are running jobs of an active queue of an active tenant whose start time lies more than the
  visibility timeout of the queue in the past, they change as \<open>MarkReclaimed\<close> says (the attempt count
  stays), at most as many as the limit, and no other row changes.\<close>

theorem reclaim_only_expired:
  assumes "jobs_inv rows" "ReclaimExpired_job now limit dv queues tenants rows = (n, rows')"
  shows "\<exists>S. rows' = List.map (\<lambda>j. if j \<in> S then MarkReclaimed now j else j) rows
    \<and> S \<subseteq> set rows \<and> n = card S \<and> n \<le> nat (if limit \<le> 0 then 500 else limit)
    \<and> S \<subseteq> {j. job_Status j = StatusRunning \<and> queue_active queues j \<and> tenant_active tenants j \<and>
         (case job_StartedAt j of None \<Rightarrow> False
          | Some t \<Rightarrow> t + visibility_of queues (if dv \<le> 0 then 30 * second else dv) j < now)}"
proof (intro exI conjI)
  let ?dflt = "if dv \<le> 0 then 30 * second else dv"
  let ?sel = "take (nat (if limit \<le> 0 then 500 else limit))
     (sort_key job_StartedAt (List.filter (lease_expired now ?dflt queues tenants) rows))"
  have sub: "set ?sel \<subseteq> {j \<in> set rows. lease_expired now ?dflt queues tenants j}"
    by (rule set_take_sort)
  have ids: "job_ID j \<in> job_ID ` set ?sel \<longleftrightarrow> j \<in> set ?sel" if "j \<in> set rows" for j
    using selected_ids [OF jobs_invD(1) [OF assms(1)] subset_trans [OF sub], of j] that by auto
  have mark: "reclaim_row now j = MarkReclaimed now j" if "j \<in> set ?sel" for j
    using sub that jobs_invD(2) [OF assms(1), of j]
    by (intro reclaim_row_MarkReclaimed nonterminal_no_terminal_at)
       (auto simp: lease_expired_def IsTerminal_def)
  have "rows' = update_where (\<lambda>j. job_ID j \<in> job_ID ` set ?sel) (reclaim_row now) rows"
    using assms(2) by (simp add: ReclaimExpired_job_def Let_def)
  then show "rows' = List.map (\<lambda>j. if j \<in> set ?sel then MarkReclaimed now j else j) rows"
    using ids mark by (auto simp: update_where_def)
  show "set ?sel \<subseteq> set rows" using sub by blast
  have "distinct ?sel" using jobs_invD(1) [OF assms(1)] by (simp add: distinct_map)
  then show "n = card (set ?sel)" using assms(2) by (simp add: ReclaimExpired_job_def Let_def distinct_card)
  show "n \<le> nat (if limit \<le> 0 then 500 else limit)" using assms(2) by (auto simp: ReclaimExpired_job_def Let_def)
  show "set ?sel \<subseteq> {j. job_Status j = StatusRunning \<and> queue_active queues j \<and> tenant_active tenants j \<and>
       (case job_StartedAt j of None \<Rightarrow> False | Some t \<Rightarrow> t + visibility_of queues ?dflt j < now)}"
    using subset_trans [OF sub, of "{j. lease_expired now ?dflt queues tenants j}"] unfolding lease_expired_def by blast
qed

definition sample_queue :: queue where
  "sample_queue = \<lparr>queue_ID = 1, queue_ProjectID = 1, queue_Name = ''mail'', queue_Status = StatusActive,
     queue_ExecutionProfile = ProfileExternal, queue_VisibilityTimeout = 30, queue_MaxAttempts = 3,
     queue_Retention = 100, queue_MaxPayloadBytes = 1024, queue_WebhookURL = [], queue_WebhookSecret = [],
     queue_Metadata = [], queue_CreatedAt = 0, queue_UpdatedAt = 0\<rparr>"

definition sample_tenant :: tenant where
  "sample_tenant = \<lparr>tenant_ID = 1, tenant_Status = StatusActive, tenant_CreatedAt = 0, tenant_UpdatedAt = 0\<rparr>"

theorem reclaim_only_expired_witness:
  "\<exists>S. snd (ReclaimExpired_job 100 0 30 [sample_queue] [sample_tenant] (snd (ClaimPending 1 ''mail'' ''w'' 1 10 sample_jobs)))
     = List.map (\<lambda>j. if j \<in> S then MarkReclaimed 100 j else j) (snd (ClaimPending 1 ''mail'' ''w'' 1 10 sample_jobs))"
  using reclaim_only_expired [OF jobs_inv_ClaimPending [OF sample_jobs_inv] prod.collapse [symmetric]] by blast

text \<open>A job of a project without a tenant row (the server's own project 0 is one) is outside both
  maintenance statements: no reclaim changes it and no promotion finds it, however old it is.\<close>

lemma untenanted_never_maintained:
  assumes "jobs_inv rows" "\<forall>t\<in>set tenants. tenant_ID t \<noteq> pid"
  shows "j \<in> set rows \<and> job_ProjectID j = pid \<longrightarrow>
      j \<in> set (snd (ReclaimExpired_job now limit dv queues tenants rows))
      \<and> j \<notin> set (FindDueScheduled limit now queues tenants rows)"
proof (intro impI conjI)
  assume j: "j \<in> set rows \<and> job_ProjectID j = pid"
  then have nt: "\<not> tenant_active tenants j" using assms(2) by (auto simp: tenant_active_def list_ex_iff)
  show "j \<in> set (snd (ReclaimExpired_job now limit dv queues tenants rows))"
    by (rule reclaim_keeps) (use assms(1) j nt in \<open>auto simp: lease_expired_def\<close>)
  have "set (FindDueScheduled limit now queues tenants rows) \<subseteq> {j. tenant_active tenants j}"
    unfolding FindDueScheduled_def Let_def using set_take_sort by fastforce
  then show "j \<notin> set (FindDueScheduled limit now queues tenants rows)" using nt by blast
qed

definition platform_job :: job where
  "platform_job = (claim_row 10 ''w'' (sample_job ''p'' None 0))\<lparr>job_ProjectID := 0\<rparr>"

end
