(* ===== verification/QueueStore.thy ===== *)
theory QueueStore
  imports QueueModel JobStore
begin

text \<open>
  The other tables of the queue subsystem, as lists of rows:
  \<open>internal/infrastructure/repository/queue/queue/repository.go\<close>,
  \<open>internal/infrastructure/repository/tenant/repository.go\<close>,
  \<open>internal/infrastructure/repository/queue/worker/repository.go\<close> with
  \<open>internal/domain/queue/worker\<close>.  The queue list of a worker is stored as JSON text: the empty text
  is \<^const>\<open>None\<close>, a JSON array the list of its names.
\<close>

section \<open>Queues\<close>

type_synonym queues = "queue list"

definition is_queue :: "project_id \<Rightarrow> string \<Rightarrow> queue \<Rightarrow> bool" where
  "is_queue pid n q \<longleftrightarrow> queue_ProjectID q = pid \<and> queue_Name q = n"

text \<open>The identifier of a new row is drawn from the table's sequence.\<close>

definition Create_queue :: "int \<Rightarrow> queue \<Rightarrow> queues \<Rightarrow> store_error + queues" where
  "Create_queue seq q rows =
     (if list_ex (\<lambda>r. queue_ID r = seq \<or> is_queue (queue_ProjectID q) (queue_Name q) r) rows
      then Inl DuplicateKey else Inr (rows @ [q\<lparr>queue_ID := seq\<rparr>]))"

definition Update_queue :: "queue \<Rightarrow> queues \<Rightarrow> queues" where
  "Update_queue q rows = save_row queue_ID q rows"

definition FindByProjectAndName :: "project_id \<Rightarrow> string \<Rightarrow> queues \<Rightarrow> store_error + queue" where
  "FindByProjectAndName pid n rows =
     (case List.find (is_queue pid n) rows of None \<Rightarrow> Inl RecordNotFound | Some q \<Rightarrow> Inr q)"

definition ListByProjectPaginated_queue :: "project_id \<Rightarrow> int \<Rightarrow> int \<Rightarrow> queues \<Rightarrow> queue list \<times> nat" where
  "ListByProjectPaginated_queue pid limit offset rows =
     (let mine = List.filter (\<lambda>q. queue_ProjectID q = pid) rows
      in (page_rows limit offset (sort_key queue_ID mine), length mine))"

definition Delete_queue :: "project_id \<Rightarrow> string \<Rightarrow> queues \<Rightarrow> queues" where
  "Delete_queue pid n rows = List.filter (\<lambda>q. \<not> is_queue pid n q) rows"

definition ListByProject_queue :: "project_id \<Rightarrow> queues \<Rightarrow> queue list" where
  "ListByProject_queue pid rows = List.filter (\<lambda>q. queue_ProjectID q = pid) rows"

definition ListDeleting_queue :: "int \<Rightarrow> queues \<Rightarrow> queue list" where
  "ListDeleting_queue limit rows =
     (let limit = (if limit \<le> 0 then 100 else limit)
      in take (nat limit) (sort_key queue_UpdatedAt (List.filter (\<lambda>q. queue_Status q = StatusDeleting) rows)))"

definition queue_key :: "queue \<Rightarrow> project_id \<times> string" where
  "queue_key q = (queue_ProjectID q, queue_Name q)"

definition queue_ok :: "queue \<Rightarrow> bool" where
  "queue_ok q \<longleftrightarrow> 0 \<le> queue_ProjectID q"

definition queues_inv :: "queues \<Rightarrow> bool" where
  "queues_inv rows \<longleftrightarrow> table_inv queue_ID queue_ok rows \<and> distinct (List.map queue_key rows)"

lemma is_queue_key: "is_queue pid n q \<longleftrightarrow> queue_key q = (pid, n)"
  by (simp add: is_queue_def queue_key_def)

lemma FindByProjectAndName_lookup:
  "FindByProjectAndName pid n rows =
   (case table_lookup queue_key (pid, n) rows of None \<Rightarrow> Inl RecordNotFound | Some q \<Rightarrow> Inr q)"
proof -
  have "is_queue pid n = (\<lambda>q. queue_key q = (pid, n))" by (intro ext) (simp add: is_queue_key)
  then show ?thesis by (simp add: FindByProjectAndName_def table_lookup_def)
qed

lemma FindByProjectAndName_Inl:
  "FindByProjectAndName pid n rows = Inl e \<longleftrightarrow> e = RecordNotFound \<and> (pid, n) \<notin> queue_key ` set rows"
  using table_lookup_None [of queue_key "(pid, n)" rows]
  by (auto simp: FindByProjectAndName_lookup split: option.splits)

lemma FindByProjectAndName_Inr:
  "FindByProjectAndName pid n rows = Inr q \<Longrightarrow> q \<in> set rows \<and> queue_ProjectID q = pid \<and> queue_Name q = n"
  by (auto simp: FindByProjectAndName_def is_queue_def split: option.splits dest: find_SomeD)

lemma FindByProjectAndName_key [repo_simps]:
  assumes "queues_inv rows"
  shows "FindByProjectAndName pid n rows = Inr q \<longleftrightarrow> q \<in> set rows \<and> queue_key q = (pid, n)"
  using table_lookup_eq [of queue_key rows "(pid, n)" q] assms
  by (auto simp: FindByProjectAndName_lookup queues_inv_def split: option.splits)

lemma queues_inv_Create:
  assumes "queues_inv rows" "queue_ok q" "Create_queue seq q rows = Inr rows'"
  shows "queues_inv rows'"
proof -
  have n: "\<forall>r\<in>set rows. queue_ID r \<noteq> seq \<and> queue_key r \<noteq> queue_key q"
    and r: "rows' = rows @ [q\<lparr>queue_ID := seq\<rparr>]"
    using assms(3) by (auto simp: Create_queue_def list_ex_iff is_queue_key queue_key_def split: if_splits)
  moreover have "queue_key (q\<lparr>queue_ID := seq\<rparr>) = queue_key q" "queue_ok (q\<lparr>queue_ID := seq\<rparr>)"
    using assms(2) by (simp_all add: queue_key_def queue_ok_def)
  ultimately show ?thesis using assms(1) by (auto simp: queues_inv_def intro!: table_inv_insert)
qed

text \<open>A queue row is only ever saved with its own project and name.\<close>

lemma Update_queue_eq:
  assumes "queues_inv rows" "old \<in> set rows" "queue_ID q = queue_ID old"
  shows "Update_queue q rows = update_where (\<lambda>x. x = old) (\<lambda>_. q) rows"
proof -
  have "distinct (List.map queue_ID rows)" using assms(1) by (simp add: queues_inv_def table_inv_def)
  then show ?thesis
    using assms(2,3) by (auto simp: Update_queue_def save_row_def update_where_def dest: key_unique)
qed

lemma queues_inv_Update [inv_intros]:
  assumes "queues_inv rows" "old \<in> set rows" "queue_ID q = queue_ID old" "queue_key q = queue_key old"
  shows "queues_inv (Update_queue q rows)"
proof -
  have "queue_ok old" using assms(1,2) by (auto simp: queues_inv_def table_inv_def)
  then have "queue_ok q" using assms(4) by (simp add: queue_ok_def queue_key_def)
  moreover have "List.map queue_key (update_where (\<lambda>x. x = old) (\<lambda>_. q) rows) = List.map queue_key rows"
    by (rule update_where_map) (use assms in auto)
  ultimately show ?thesis
    using assms(1,3) unfolding Update_queue_eq [OF assms(1-3)]
    by (auto simp: queues_inv_def intro!: table_inv_update_where)
qed

lemma queues_inv_Delete [inv_intros]: "queues_inv rows \<Longrightarrow> queues_inv (Delete_queue pid n rows)"
  by (auto simp: queues_inv_def Delete_queue_def distinct_map intro!: table_inv_filter intro: inj_on_subset)

interpretation queues: row_store queue_ID queue_ok "table_inv queue_ID queue_ok" "table_lookup queue_ID" Update_queue
proof -
  have "Update_queue = save_row queue_ID" by (intro ext) (simp add: Update_queue_def)
  then show "row_store queue_ID queue_ok (table_inv queue_ID queue_ok) (table_lookup queue_ID) Update_queue"
    using table.row_store_axioms by metis
qed

section \<open>Tenants\<close>

type_synonym tenants = "tenant list"

definition UpsertTenant :: "tenant \<Rightarrow> tenants \<Rightarrow> tenants" where
  "UpsertTenant t rows = save_row tenant_ID t rows"

definition UpdateTenant :: "tenant \<Rightarrow> tenants \<Rightarrow> tenants" where
  "UpdateTenant t rows = save_row tenant_ID t rows"

definition DeleteTenant :: "project_id \<Rightarrow> tenants \<Rightarrow> tenants" where
  "DeleteTenant tid rows = List.filter (\<lambda>t. tenant_ID t \<noteq> tid) rows"

definition ListDeleting_tenant :: "int \<Rightarrow> tenants \<Rightarrow> tenant list" where
  "ListDeleting_tenant limit rows =
     (let limit = (if limit \<le> 0 then 100 else limit)
      in take (nat limit) (sort_key tenant_UpdatedAt (List.filter (\<lambda>t. tenant_Status t = StatusDeleting) rows)))"

definition FindTenant :: "project_id \<Rightarrow> tenants \<Rightarrow> tenant option" where
  "FindTenant tid rows = (if tid \<le> 0 then None else table_lookup tenant_ID tid rows)"

definition UpsertLimits :: "limits \<Rightarrow> limits list \<Rightarrow> limits list" where
  "UpsertLimits l rows = save_row limits_TenantID l rows"

definition FindLimits :: "project_id \<Rightarrow> limits list \<Rightarrow> limits option" where
  "FindLimits tid rows = table_lookup limits_TenantID tid rows"

definition DeleteLimits :: "project_id \<Rightarrow> limits list \<Rightarrow> limits list" where
  "DeleteLimits tid rows = List.filter (\<lambda>l. limits_TenantID l \<noteq> tid) rows"

definition tenant_ok :: "tenant \<Rightarrow> bool" where
  "tenant_ok t \<longleftrightarrow> 0 < tenant_ID t"

definition tenants_inv :: "tenants \<Rightarrow> bool" where
  "tenants_inv rows \<longleftrightarrow> table_inv tenant_ID tenant_ok rows"

interpretation tenants: row_store tenant_ID tenant_ok tenants_inv FindTenant UpsertTenant
proof unfold_locales
  show "tenants_inv t \<Longrightarrow> FindTenant k t = Some r \<Longrightarrow> tenant_ID r = k \<and> tenant_ok r" for t k r
    using table.lookup_ok [of tenant_ID tenant_ok t k r] by (auto simp: tenants_inv_def FindTenant_def split: if_splits)
next
  show "tenants_inv t \<Longrightarrow> tenant_ok r \<Longrightarrow>
    FindTenant k (UpsertTenant r t) = (if k = tenant_ID r then Some r else FindTenant k t)" for t k r
    by (auto simp: tenants_inv_def UpsertTenant_def FindTenant_def tenant_ok_def table_inv_def table_lookup_save)
next
  show "tenants_inv t \<Longrightarrow> tenant_ok r \<Longrightarrow> tenants_inv (UpsertTenant r t)" for t r
    by (simp add: tenants_inv_def UpsertTenant_def table.inv_save)
qed

lemma tenants_inv_Delete [inv_intros]: "tenants_inv rows \<Longrightarrow> tenants_inv (DeleteTenant tid rows)"
  by (simp add: tenants_inv_def DeleteTenant_def table_inv_filter)

lemma FindTenant_Delete [repo_simps]:
  "tenants_inv rows \<Longrightarrow> FindTenant k (DeleteTenant tid rows) = (if k = tid then None else FindTenant k rows)"
proof -
  assume inv: "tenants_inv rows"
  then have d: "distinct (List.map tenant_ID rows)" "distinct (List.map tenant_ID (DeleteTenant tid rows))"
    using tenants_inv_Delete [OF inv, of tid] by (auto simp: tenants_inv_def table_inv_def)
  have "table_lookup tenant_ID k (DeleteTenant tid rows) = Some t \<longleftrightarrow> k \<noteq> tid \<and> table_lookup tenant_ID k rows = Some t" for t
    unfolding table_lookup_eq [OF d(2)] table_lookup_eq [OF d(1)] by (auto simp: DeleteTenant_def)
  then have "table_lookup tenant_ID k (DeleteTenant tid rows) = (if k = tid then None else table_lookup tenant_ID k rows)"
    by (metis not_None_eq)
  then show ?thesis by (auto simp: FindTenant_def split: if_splits)
qed

section \<open>Workers\<close>

record worker =
  worker_ID :: ulid
  worker_ProjectID :: project_id
  worker_Name :: string
  worker_Queues :: "string list option"
  worker_LastSeenAt :: time
  worker_CreatedAt :: time
  worker_UpdatedAt :: time

definition encodeQueues :: "string list \<Rightarrow> string list option" where
  "encodeQueues queues = (if queues = [] then None else Some queues)"

definition ParseQueues :: "string list option \<Rightarrow> string list" where
  "ParseQueues raw = (case raw of None \<Rightarrow> [] | Some qs \<Rightarrow> qs)"

definition RemoveQueue :: "string list option \<Rightarrow> string \<Rightarrow> string list option" where
  "RemoveQueue raw queueName =
     (let queues = ParseQueues raw
      in if queues = [] then raw else Some (List.filter (\<lambda>q. q \<noteq> queueName) queues))"

definition Create_worker_model :: "ulid \<Rightarrow> time \<Rightarrow> project_id \<Rightarrow> string \<Rightarrow> string list \<Rightarrow> worker" where
  "Create_worker_model newID now pid n queues =
     \<lparr>worker_ID = newID, worker_ProjectID = pid, worker_Name = n, worker_Queues = encodeQueues queues,
      worker_LastSeenAt = now, worker_CreatedAt = now, worker_UpdatedAt = now\<rparr>"

definition Heartbeat_model :: "time \<Rightarrow> worker \<Rightarrow> worker" where
  "Heartbeat_model now w = w\<lparr>worker_LastSeenAt := now, worker_UpdatedAt := now\<rparr>"

type_synonym workers = "worker list"

definition Create_worker :: "worker \<Rightarrow> workers \<Rightarrow> store_error + workers" where
  "Create_worker w rows =
     (if worker_ID w \<in> worker_ID ` set rows then Inl DuplicateKey else Inr (rows @ [w]))"

definition Update_worker :: "worker \<Rightarrow> workers \<Rightarrow> workers" where
  "Update_worker w rows = save_row worker_ID w rows"

definition FindByID_worker :: "project_id \<Rightarrow> ulid \<Rightarrow> workers \<Rightarrow> store_error + worker" where
  "FindByID_worker pid i rows =
     (case List.find (\<lambda>w. worker_ProjectID w = pid \<and> worker_ID w = i) rows of
        None \<Rightarrow> Inl RecordNotFound | Some w \<Rightarrow> Inr w)"

definition ListByProjectPaginated_worker :: "project_id \<Rightarrow> int \<Rightarrow> int \<Rightarrow> workers \<Rightarrow> worker list \<times> nat" where
  "ListByProjectPaginated_worker pid limit offset rows =
     (let mine = List.filter (\<lambda>w. worker_ProjectID w = pid) rows
      in (page_rows limit offset (sort_key (\<lambda>w. - worker_LastSeenAt w) mine), length mine))"

definition Delete_worker :: "project_id \<Rightarrow> ulid \<Rightarrow> workers \<Rightarrow> workers" where
  "Delete_worker pid i rows = List.filter (\<lambda>w. \<not> (worker_ProjectID w = pid \<and> worker_ID w = i)) rows"

definition ListByProject_worker :: "project_id \<Rightarrow> workers \<Rightarrow> worker list" where
  "ListByProject_worker pid rows = List.filter (\<lambda>w. worker_ProjectID w = pid) rows"

definition ListStale :: "time \<Rightarrow> int \<Rightarrow> workers \<Rightarrow> worker list" where
  "ListStale before limit rows =
     (let limit = (if limit \<le> 0 then 500 else limit)
      in take (nat limit) (sort_key worker_LastSeenAt (List.filter (\<lambda>w. worker_LastSeenAt w < before) rows)))"

definition HasRunningJobs :: "project_id \<Rightarrow> string \<Rightarrow> jobs \<Rightarrow> bool" where
  "HasRunningJobs pid workerID rows \<longleftrightarrow>
     0 < length (List.filter (\<lambda>j. job_ProjectID j = pid \<and> job_WorkerID j = workerID \<and> job_Status j = StatusRunning) rows)"

definition workers_inv :: "workers \<Rightarrow> bool" where
  "workers_inv rows \<longleftrightarrow> table_inv worker_ID (\<lambda>_. True) rows"

lemma workers_inv_Create: "workers_inv rows \<Longrightarrow> Create_worker w rows = Inr rows' \<Longrightarrow> workers_inv rows'"
  by (auto simp: workers_inv_def Create_worker_def intro!: table_inv_insert split: if_splits)

lemma workers_inv_ops [inv_intros]:
  "workers_inv rows \<Longrightarrow> workers_inv (Update_worker w rows)"
  "workers_inv rows \<Longrightarrow> workers_inv (Delete_worker pid i rows)"
  by (auto simp: workers_inv_def Update_worker_def Delete_worker_def intro!: table_inv_filter table.inv_save)

lemma HasRunningJobs_iff:
  "HasRunningJobs pid w rows \<longleftrightarrow>
   (\<exists>j\<in>set rows. job_ProjectID j = pid \<and> job_WorkerID j = w \<and> job_Status j = StatusRunning)"
  by (auto simp: HasRunningJobs_def filter_empty_conv)

lemma RemoveQueue_correct: "set (ParseQueues (RemoveQueue raw n)) = set (ParseQueues raw) - {n}"
  by (auto simp: RemoveQueue_def ParseQueues_def Let_def split: option.splits)

end
