(* ===== verification/QueueWorld.thy ===== *)
theory QueueWorld
  imports QueueStore
begin

text \<open>
  The state the queue services share (the tables, the broker, telemetry counters and the published
  log events), their errors, and the write barrier \<open>internal/domain/queue/lifecycle/guard.go\<close>.

  A call of the database or of the broker may fail.  Which calls of one operation fail is the
  argument \<open>flt\<close>: \<open>flt c\<close> makes the call named \<open>c\<close> return its error, with no effect on the state.
  The broker itself (NATS JetStream) is outside the model; what is kept of it is the list of the
  messages handed to it, and the sequence number it answers is an argument.
\<close>

datatype call = CFindTenant | CFindQueue | CCreateQueue | CUpdateQueue | CFindIdem | CCreateJob
  | CUpdateJob ulid | CUpdateSeq ulid | CPublish ulid | CClaim | CFindJob | CReclaim | CFindDue | CUpdateMeta | CCreateWorker
  | CFindWorker | CUpdateWorker | CExtendLease | CGatekeeper | CEnsureStream | CListQueues
  | CDeleteJobs | CDeleteQueue | CCountJobs | CForceCancel | CDeleteTenant | CUpdateTenant
  | CListDeleting | CPurge | CListStale | CHasRunning | CDeleteWorker | CListWorkers | CDeleteStream
  | CListKeys | CDeleteKey | CDeleteLimits

type_synonym faults = "call \<Rightarrow> bool"

definition no_faults :: faults where "no_faults c \<longleftrightarrow> False"

datatype queue_error = ErrQueueNotFound | ErrQueueAlreadyExists | ErrQueueIsDeleting | ErrActiveJobs

datatype guard_error = ErrTenantDeleting | ErrQueueDeleting

datatype qerr = JobErr job_error | JobInvalid job_invalid | QueueErr queue_error
  | QueueInvalid queue_invalid | ProfileErr profile_error | GuardErr guard_error
  | StoreErr store_error | CallErr call | RateLimited | ContextDone | WorkerNotFound
  | TenantNotFound

datatype counter = CounterEnqueued | CounterCompleted | CounterFailed | CounterRetried | CounterDLQ
  | CounterDuration | GaugeDepth | GaugeWorkers

datatype log_event = EventQueueJobEnqueued | EventQueueJobClaimed | EventQueueJobCompleted
  | EventQueueJobNacked | EventQueueJobRetried | EventQueueJobDLQ | EventQueueJobCancelled
  | EventQueueWorkerRegistered

record broker_message =
  bm_Subject :: string
  bm_JobID :: ulid
  bm_Payload :: string
  bm_Attempt :: int

record world =
  w_jobs :: jobs
  w_queues :: queues
  w_tenants :: tenants
  w_limits :: "limits list"
  w_workers :: workers
  w_apikeys :: "(ulid \<times> project_id) list"
  w_streams :: "string set"
  w_published :: "broker_message list"
  w_counters :: "project_id \<Rightarrow> counter \<Rightarrow> int"
  w_log :: "(project_id \<times> log_event \<times> ulid) list"

text \<open>What one operation draws from outside: the failing calls, the clock, the fresh job (or worker)
  identifier, the next queue identifier, the broker's sequence number, the gatekeeper's answers.
  An operation reads the clock as one instant.\<close>

record env =
  e_flt :: faults
  e_now :: time
  e_newID :: ulid
  e_seq :: int
  e_brokerSeq :: nat
  e_AllowEnqueue :: "project_id \<Rightarrow> qerr + bool"
  e_AllowDequeue :: "project_id \<Rightarrow> qerr + bool"

text \<open>\<open>internal/application/service/queue/backpressure/service.go\<close>, the gatekeeper the server installs.\<close>

definition AllowEnqueue :: "project_id \<Rightarrow> qerr + bool" where
  "AllowEnqueue pid = Inr True"

definition AllowDequeue :: "project_id \<Rightarrow> qerr + bool" where
  "AllowDequeue pid = Inr True"

section \<open>Queue telemetry\<close>

text \<open>\<open>internal/infrastructure/repository/queue/telemetry/repository.go\<close> and the service that calls it.
  An absent counter reads as zero in Go.\<close>

definition Increment :: "project_id \<Rightarrow> counter \<Rightarrow> int \<Rightarrow> world \<Rightarrow> world" where
  "Increment pid c delta w =
     w\<lparr>w_counters := (w_counters w)(pid := (w_counters w pid)(c := i64 (w_counters w pid c + delta)))\<rparr>"

definition SetGauge :: "project_id \<Rightarrow> counter \<Rightarrow> int \<Rightarrow> world \<Rightarrow> world" where
  "SetGauge pid c v w = w\<lparr>w_counters := (w_counters w)(pid := (w_counters w pid)(c := v))\<rparr>"

definition Reset_counters :: "project_id \<Rightarrow> world \<Rightarrow> world" where
  "Reset_counters pid w = w\<lparr>w_counters := (w_counters w)(pid := (\<lambda>_. 0))\<rparr>"

definition RecordEnqueue :: "project_id \<Rightarrow> int \<Rightarrow> world \<Rightarrow> world" where
  "RecordEnqueue pid payloadBytes w = Increment pid CounterEnqueued 1 w"

definition RecordCompleted :: "project_id \<Rightarrow> int \<Rightarrow> world \<Rightarrow> world" where
  "RecordCompleted pid durationMs w =
     Increment pid CounterDuration durationMs (Increment pid CounterCompleted 1 w)"

definition RecordFailed :: "project_id \<Rightarrow> world \<Rightarrow> world" where
  "RecordFailed pid w = Increment pid CounterFailed 1 w"

definition RecordRetried :: "project_id \<Rightarrow> world \<Rightarrow> world" where
  "RecordRetried pid w = Increment pid CounterRetried 1 w"

definition RecordDLQ :: "project_id \<Rightarrow> world \<Rightarrow> world" where
  "RecordDLQ pid w = Increment pid CounterDLQ 1 w"

text \<open>\<open>publishQueueLog\<close>: a failure of the broadcaster is logged and dropped.\<close>

definition publishQueueLog :: "project_id \<Rightarrow> log_event \<Rightarrow> ulid \<Rightarrow> world \<Rightarrow> world" where
  "publishQueueLog pid e jid w = w\<lparr>w_log := w_log w @ [(pid, e, jid)]\<rparr>"

lemma telemetry_frame [simp]:
  "w_jobs (Increment pid c d w) = w_jobs w" "w_queues (Increment pid c d w) = w_queues w"
  "w_tenants (Increment pid c d w) = w_tenants w" "w_workers (Increment pid c d w) = w_workers w"
  "w_published (Increment pid c d w) = w_published w" "w_log (Increment pid c d w) = w_log w"
  "w_streams (Increment pid c d w) = w_streams w" "w_limits (Increment pid c d w) = w_limits w"
  by (simp_all add: Increment_def)

lemma log_frame [simp]:
  "w_jobs (publishQueueLog pid e j w) = w_jobs w" "w_queues (publishQueueLog pid e j w) = w_queues w"
  "w_tenants (publishQueueLog pid e j w) = w_tenants w" "w_workers (publishQueueLog pid e j w) = w_workers w"
  "w_published (publishQueueLog pid e j w) = w_published w"
  "w_counters (publishQueueLog pid e j w) = w_counters w"
  "w_streams (publishQueueLog pid e j w) = w_streams w" "w_limits (publishQueueLog pid e j w) = w_limits w"
  by (simp_all add: publishQueueLog_def)

section \<open>The guard\<close>

definition AssertTenantWritable :: "faults \<Rightarrow> project_id \<Rightarrow> world \<Rightarrow> qerr + unit" where
  "AssertTenantWritable flt pid w =
     (if pid \<le> 0 then Inr ()
      else if flt CFindTenant then Inl (CallErr CFindTenant)
      else case FindTenant pid (w_tenants w) of
             None \<Rightarrow> Inr ()
           | Some t \<Rightarrow> if \<not> TenantIsActive (tenant_Status t) then Inl (GuardErr ErrTenantDeleting) else Inr ())"

definition AssertQueueWritable :: "faults \<Rightarrow> project_id \<Rightarrow> string \<Rightarrow> world \<Rightarrow> qerr + unit" where
  "AssertQueueWritable flt pid qn w =
     (case AssertTenantWritable flt pid w of
        Inl e \<Rightarrow> Inl e
      | Inr _ \<Rightarrow>
          if qn = [] then Inr ()
          else if flt CFindQueue then Inl (CallErr CFindQueue)
          else case FindByProjectAndName pid qn (w_queues w) of
                 Inl _ \<Rightarrow> Inr ()
               | Inr q \<Rightarrow> if \<not> IsActive (queue_Status q) then Inl (GuardErr ErrQueueDeleting) else Inr ())"

text \<open>What the barrier promises: a project or a queue that is being deleted is not writable.\<close>

definition tenant_blocked :: "world \<Rightarrow> project_id \<Rightarrow> bool" where
  "tenant_blocked w pid \<longleftrightarrow> (\<exists>t. FindTenant pid (w_tenants w) = Some t \<and> \<not> TenantIsActive (tenant_Status t))"

definition queue_blocked :: "world \<Rightarrow> project_id \<Rightarrow> string \<Rightarrow> bool" where
  "queue_blocked w pid qn \<longleftrightarrow>
     (\<exists>q. FindByProjectAndName pid qn (w_queues w) = Inr q \<and> \<not> IsActive (queue_Status q))"

definition writable :: "world \<Rightarrow> project_id \<Rightarrow> string \<Rightarrow> bool" where
  "writable w pid qn \<longleftrightarrow> \<not> tenant_blocked w pid \<and> (qn = [] \<or> \<not> queue_blocked w pid qn)"

lemma AssertTenantWritable_Inr:
  "AssertTenantWritable flt pid w = Inr u \<Longrightarrow> \<not> tenant_blocked w pid"
  by (auto simp: AssertTenantWritable_def tenant_blocked_def FindTenant_def split: if_splits option.splits)

lemma AssertQueueWritable_Inr:
  "AssertQueueWritable flt pid qn w = Inr u \<Longrightarrow> writable w pid qn"
  using AssertTenantWritable_Inr
  by (fastforce simp: AssertQueueWritable_def writable_def queue_blocked_def split: if_splits sum.splits)

lemma AssertQueueWritable_no_faults:
  "(\<exists>u. AssertQueueWritable no_faults pid qn w = Inr u) \<longleftrightarrow> writable w pid qn"
  by (auto simp: AssertQueueWritable_def AssertTenantWritable_def writable_def queue_blocked_def
      tenant_blocked_def no_faults_def FindTenant_def split: if_splits sum.splits option.splits)

section \<open>The invariant of the tables\<close>

definition world_inv :: "world \<Rightarrow> bool" where
  "world_inv w \<longleftrightarrow> jobs_inv (w_jobs w) \<and> queues_inv (w_queues w) \<and> tenants_inv (w_tenants w)
     \<and> workers_inv (w_workers w)"

lemma world_invI [intro]:
  "jobs_inv (w_jobs w) \<Longrightarrow> queues_inv (w_queues w) \<Longrightarrow> tenants_inv (w_tenants w) \<Longrightarrow>
   workers_inv (w_workers w) \<Longrightarrow> world_inv w"
  by (simp add: world_inv_def)

lemma world_invD [dest]:
  "world_inv w \<Longrightarrow> jobs_inv (w_jobs w)" "world_inv w \<Longrightarrow> queues_inv (w_queues w)"
  "world_inv w \<Longrightarrow> tenants_inv (w_tenants w)" "world_inv w \<Longrightarrow> workers_inv (w_workers w)"
  by (simp_all add: world_inv_def)

lemma world_inv_telemetry [simp]:
  "world_inv (Increment pid c d w) = world_inv w" "world_inv (publishQueueLog pid e j w) = world_inv w"
  by (simp_all add: world_inv_def)

definition empty_world :: world where
  "empty_world = \<lparr>w_jobs = [], w_queues = [], w_tenants = [], w_limits = [], w_workers = [], w_apikeys = [],
     w_streams = {}, w_published = [], w_counters = (\<lambda>_ _. 0), w_log = []\<rparr>"

lemma world_inv_empty [simp]: "world_inv empty_world"
  by (simp add: world_inv_def empty_world_def queues_inv_def tenants_inv_def workers_inv_def table_inv_def)

end
