(* ===== verification/QueueServices.thy ===== *)
theory QueueServices
  imports QueueWorld
begin

text \<open>
  \<open>internal/application/service/queue/queue/service.go\<close> and
  \<open>internal/application/service/queue/worker/service.go\<close>: queue administration and worker
  registration, one definition per method, on the shared state.  A result is \<^const>\<open>Inl\<close> of the
  error or \<^const>\<open>Inr\<close> of the value, beside the new state.
\<close>

section \<open>Queue service\<close>

definition queue_Get :: "env \<Rightarrow> project_id \<Rightarrow> string \<Rightarrow> world \<Rightarrow> qerr + queue" where
  "queue_Get env pid n w =
     (if e_flt env CFindQueue then Inl (CallErr CFindQueue)
      else case FindByProjectAndName pid n (w_queues w) of
             Inl _ \<Rightarrow> Inl (QueueErr ErrQueueNotFound)
           | Inr q \<Rightarrow> Inr q)"

definition queue_Create :: "env \<Rightarrow> queue_create_params \<Rightarrow> world \<Rightarrow> (qerr + queue) \<times> world" where
  "queue_Create env params w =
     (case CreateQueue (e_now env) params of
        Inl e \<Rightarrow> (Inl (QueueInvalid e), w)
      | Inr q \<Rightarrow>
          if e_flt env CCreateQueue then (Inl (CallErr CCreateQueue), w)
          else case Create_queue (e_seq env) q (w_queues w) of
                 Inl _ \<Rightarrow> (queue_Get env (qcp_ProjectID params) (qcp_Name params) w, w)
               | Inr rows \<Rightarrow>
                   let w' = w\<lparr>w_queues := rows\<rparr>
                   in (queue_Get env (qcp_ProjectID params) (qcp_Name params) w', w'))"

definition queue_Update ::
    "env \<Rightarrow> project_id \<Rightarrow> string \<Rightarrow> queue_update_params \<Rightarrow> world \<Rightarrow> (qerr + queue) \<times> world" where
  "queue_Update env pid n params w =
     (if e_flt env CFindQueue then (Inl (CallErr CFindQueue), w)
      else case FindByProjectAndName pid n (w_queues w) of
             Inl _ \<Rightarrow> (Inl (QueueErr ErrQueueNotFound), w)
           | Inr current \<Rightarrow>
               if \<not> IsActive (queue_Status current) then (Inl (QueueErr ErrQueueIsDeleting), w)
               else let q = UpdateQueue (e_now env) params current
                    in if e_flt env CUpdateQueue then (Inl (CallErr CUpdateQueue), w)
                       else (Inr q, w\<lparr>w_queues := Update_queue q (w_queues w)\<rparr>))"

definition queue_ListPaginated :: "env \<Rightarrow> project_id \<Rightarrow> int \<Rightarrow> int \<Rightarrow> world \<Rightarrow> qerr + queue list \<times> nat" where
  "queue_ListPaginated env pid page perPage w =
     (let page = (if page \<le> 0 then 1 else page);
          perPage = (if perPage \<le> 0 then 10 else perPage)
      in if e_flt env CListQueues then Inl (CallErr CListQueues)
         else Inr (ListByProjectPaginated_queue pid perPage (i64 ((page - 1) * perPage)) (w_queues w)))"

definition queue_Ensure :: "env \<Rightarrow> queue_create_params \<Rightarrow> world \<Rightarrow> (qerr + queue) \<times> world" where
  "queue_Ensure env params w =
     (if e_flt env CFindQueue then (Inl (CallErr CFindQueue), w)
      else case FindByProjectAndName (qcp_ProjectID params) (qcp_Name params) (w_queues w) of
             Inr existing \<Rightarrow>
               if \<not> IsActive (queue_Status existing) then (Inl (QueueErr ErrQueueIsDeleting), w)
               else (Inr existing, w)
           | Inl _ \<Rightarrow> queue_Create env params w)"

text \<open>gorm stamps \<open>UpdatedAt\<close> when it saves the row.\<close>

definition queue_BeginDelete :: "env \<Rightarrow> project_id \<Rightarrow> string \<Rightarrow> world \<Rightarrow> (qerr + unit) \<times> world" where
  "queue_BeginDelete env pid n w =
     (if e_flt env CFindQueue then (Inl (CallErr CFindQueue), w)
      else case FindByProjectAndName pid n (w_queues w) of
             Inl _ \<Rightarrow> (Inl (QueueErr ErrQueueNotFound), w)
           | Inr q \<Rightarrow>
               if queue_Status q = StatusDeleting then (Inr (), w)
               else if e_flt env CUpdateQueue then (Inl (CallErr CUpdateQueue), w)
               else (Inr (), w\<lparr>w_queues := Update_queue
                       (q\<lparr>queue_Status := StatusDeleting, queue_UpdatedAt := e_now env\<rparr>) (w_queues w)\<rparr>))"

subsection \<open>The queue service keeps the tables\<close>

lemma queue_Create_inv [inv_intros]:
  assumes "world_inv w"
  shows "world_inv (snd (queue_Create env params w))"
proof (cases "CreateQueue (e_now env) params")
  case (Inr q)
  then have "queue_ok q" using CreateQueue_Inr [OF Inr] by (simp add: queue_ok_def)
  then show ?thesis
    using assms Inr queues_inv_Create [OF world_invD(2) [OF assms]]
    by (auto simp: queue_Create_def Let_def world_inv_def split: sum.splits)
qed (use assms in \<open>simp add: queue_Create_def\<close>)

lemma queue_Ensure_inv [inv_intros]: "world_inv w \<Longrightarrow> world_inv (snd (queue_Ensure env params w))"
  by (auto simp: queue_Ensure_def queue_Create_inv split: sum.splits)

lemma queue_save_inv:
  assumes "world_inv w" "FindByProjectAndName pid n (w_queues w) = Inr q" "queue_ID q' = queue_ID q"
    and "queue_key q' = queue_key q"
  shows "world_inv (w\<lparr>w_queues := Update_queue q' (w_queues w)\<rparr>)"
  using assms queues_inv_Update [OF world_invD(2) [OF assms(1)], of q q'] FindByProjectAndName_Inr [OF assms(2)]
  by (auto simp: world_inv_def)

lemma queue_Update_inv [inv_intros]: "world_inv w \<Longrightarrow> world_inv (snd (queue_Update env pid n params w))"
  by (auto simp: queue_Update_def Let_def queue_key_def intro: queue_save_inv split: sum.splits)

lemma queue_BeginDelete_inv [inv_intros]: "world_inv w \<Longrightarrow> world_inv (snd (queue_BeginDelete env pid n w))"
  by (auto simp: queue_BeginDelete_def queue_key_def intro: queue_save_inv split: sum.splits)

lemma queue_service_frame [simp]:
  "w_jobs (snd (queue_Create env params w)) = w_jobs w" "w_tenants (snd (queue_Create env params w)) = w_tenants w"
  "w_jobs (snd (queue_Ensure env params w)) = w_jobs w" "w_tenants (snd (queue_Ensure env params w)) = w_tenants w"
  "w_log (snd (queue_Ensure env params w)) = w_log w"
  "w_published (snd (queue_Ensure env params w)) = w_published w"
  "w_counters (snd (queue_Ensure env params w)) = w_counters w"
  by (auto simp: queue_Create_def queue_Ensure_def Let_def split: sum.splits)

lemma Create_queue_find:
  assumes "Create_queue seq q rows = Inr rows'"
  shows "FindByProjectAndName (queue_ProjectID q) (queue_Name q) rows' = Inr (q\<lparr>queue_ID := seq\<rparr>)"
proof -
  have "List.find (is_queue (queue_ProjectID q) (queue_Name q)) rows = None"
    and r: "rows' = rows @ [q\<lparr>queue_ID := seq\<rparr>]"
    using assms by (auto simp: Create_queue_def find_None_iff list_ex_iff split: if_splits)
  then have "List.find (is_queue (queue_ProjectID q) (queue_Name q)) rows' = Some (q\<lparr>queue_ID := seq\<rparr>)"
    by (induction rows arbitrary: rows') (auto simp: is_queue_def split: if_splits)
  then show ?thesis by (simp add: FindByProjectAndName_def)
qed

text \<open>A queue that \<open>Ensure\<close> answers is active, is the queue asked for and is in the table.\<close>

lemma queue_Ensure_Inr:
  assumes "queue_Ensure env params w = (Inr q, w')"
  shows "IsActive (queue_Status q) \<and> queue_ProjectID q = qcp_ProjectID params \<and> queue_Name q = qcp_Name params
    \<and> FindByProjectAndName (qcp_ProjectID params) (qcp_Name params) (w_queues w') = Inr q"
proof (cases "FindByProjectAndName (qcp_ProjectID params) (qcp_Name params) (w_queues w)")
  case (Inr ex)
  then show ?thesis using assms FindByProjectAndName_Inr [OF Inr]
    by (auto simp: queue_Ensure_def split: if_splits)
next
  case (Inl e)
  then have c: "queue_Create env params w = (Inr q, w')"
    using assms by (auto simp: queue_Ensure_def split: if_splits)
  then obtain q0 where q0: "CreateQueue (e_now env) params = Inr q0" by (auto simp: queue_Create_def split: sum.splits)
  note m = CreateQueue_Inr [OF q0]
  from c q0 Inl have "\<exists>rows. Create_queue (e_seq env) q0 (w_queues w) = Inr rows"
    by (auto simp: queue_Create_def queue_Get_def split: sum.splits if_splits)
  then obtain rows where rows: "Create_queue (e_seq env) q0 (w_queues w) = Inr rows" by blast
  have "FindByProjectAndName (qcp_ProjectID params) (qcp_Name params) rows = Inr (q0\<lparr>queue_ID := e_seq env\<rparr>)"
    using Create_queue_find [OF rows] m by simp
  then show ?thesis using c q0 rows m
    by (auto simp: queue_Create_def queue_Get_def Let_def split: if_splits)
qed

section \<open>Worker service\<close>

text \<open>The guard's loop over the queues of the registration.\<close>

fun assert_queues :: "env \<Rightarrow> project_id \<Rightarrow> string list \<Rightarrow> world \<Rightarrow> qerr + unit" where
  "assert_queues env pid [] w = Inr ()"
| "assert_queues env pid (q # qs) w =
     (case AssertQueueWritable (e_flt env) pid q w of
        Inl e \<Rightarrow> Inl e
      | Inr _ \<Rightarrow> assert_queues env pid qs w)"

definition worker_Register ::
    "env \<Rightarrow> project_id \<Rightarrow> string \<Rightarrow> string list \<Rightarrow> world \<Rightarrow> (qerr + worker) \<times> world" where
  "worker_Register env pid n queues w =
     (case AssertTenantWritable (e_flt env) pid w of
        Inl e \<Rightarrow> (Inl e, w)
      | Inr _ \<Rightarrow>
          case assert_queues env pid queues w of
            Inl e \<Rightarrow> (Inl e, w)
          | Inr _ \<Rightarrow>
              let wk = Create_worker_model (e_newID env) (e_now env) pid n queues
              in if e_flt env CCreateWorker then (Inl (CallErr CCreateWorker), w)
                 else case Create_worker wk (w_workers w) of
                        Inl e \<Rightarrow> (Inl (StoreErr e), w)
                      | Inr rows \<Rightarrow>
                          (Inr wk, publishQueueLog pid EventQueueWorkerRegistered (worker_ID wk)
                                     (w\<lparr>w_workers := rows\<rparr>)))"

definition worker_Heartbeat :: "env \<Rightarrow> project_id \<Rightarrow> ulid \<Rightarrow> world \<Rightarrow> (qerr + worker) \<times> world" where
  "worker_Heartbeat env pid workerID w =
     (if e_flt env CFindWorker then (Inl (CallErr CFindWorker), w)
      else case FindByID_worker pid workerID (w_workers w) of
             Inl _ \<Rightarrow> (Inl WorkerNotFound, w)
           | Inr wk \<Rightarrow>
               let wk = Heartbeat_model (e_now env) wk
               in if e_flt env CUpdateWorker then (Inl (CallErr CUpdateWorker), w)
                  else let w = w\<lparr>w_workers := Update_worker wk (w_workers w)\<rparr>;
                           w = (if e_flt env CExtendLease then w
                                else w\<lparr>w_jobs := snd (ExtendLease pid workerID (e_now env) (w_jobs w))\<rparr>)
                       in (Inr wk, w))"

definition worker_Get :: "env \<Rightarrow> project_id \<Rightarrow> ulid \<Rightarrow> world \<Rightarrow> qerr + worker" where
  "worker_Get env pid workerID w =
     (if e_flt env CFindWorker then Inl (CallErr CFindWorker)
      else case FindByID_worker pid workerID (w_workers w) of
             Inl _ \<Rightarrow> Inl WorkerNotFound
           | Inr wk \<Rightarrow> Inr wk)"

definition worker_ListByProjectPaginated :: "env \<Rightarrow> project_id \<Rightarrow> int \<Rightarrow> int \<Rightarrow> world \<Rightarrow> qerr + worker list \<times> nat" where
  "worker_ListByProjectPaginated env pid page perPage w =
     (let page = (if page \<le> 0 then 1 else page);
          perPage = (if perPage \<le> 0 then 10 else perPage)
      in if e_flt env CListWorkers then Inl (CallErr CListWorkers)
         else Inr (ListByProjectPaginated_worker pid perPage (i64 ((page - 1) * perPage)) (w_workers w)))"

lemma worker_Register_inv [inv_intros]: "world_inv w \<Longrightarrow> world_inv (snd (worker_Register env pid n qs w))"
  by (auto simp: worker_Register_def Let_def world_inv_def intro: workers_inv_Create split: sum.splits)

lemma worker_Heartbeat_inv [inv_intros]: "world_inv w \<Longrightarrow> world_inv (snd (worker_Heartbeat env pid i w))"
  by (auto simp: worker_Heartbeat_def Let_def world_inv_def intro: workers_inv_ops jobs_inv_ExtendLease split: sum.splits)

lemma worker_frame [simp]:
  "w_queues (snd (worker_Heartbeat env pid i w)) = w_queues w" "w_tenants (snd (worker_Heartbeat env pid i w)) = w_tenants w"
  "w_published (snd (worker_Heartbeat env pid i w)) = w_published w" "w_log (snd (worker_Heartbeat env pid i w)) = w_log w"
  "w_counters (snd (worker_Heartbeat env pid i w)) = w_counters w"
  "w_queues (snd (worker_Register env pid n qs w)) = w_queues w" "w_tenants (snd (worker_Register env pid n qs w)) = w_tenants w"
  "w_jobs (snd (worker_Register env pid n qs w)) = w_jobs w"
  by (auto simp: worker_Heartbeat_def worker_Register_def Let_def split: sum.splits)

lemma assert_queues_Inr:
  "assert_queues env pid qs w = Inr u \<Longrightarrow> \<forall>q\<in>set qs. writable w pid q"
  by (induction qs) (auto dest: AssertQueueWritable_Inr split: sum.splits)

text \<open>The lease: a heartbeat only moves start times, and of the worker's own running jobs only.\<close>

lemma ExtendLease_eq:
  "snd (ExtendLease pid wid now rows) =
   List.map (\<lambda>j. if wid \<noteq> [] \<and> job_ProjectID j = pid \<and> job_WorkerID j = wid \<and> job_Status j = StatusRunning
                then j\<lparr>job_StartedAt := Some now, job_UpdatedAt := now\<rparr> else j) rows"
  by (auto simp: ExtendLease_def Let_def update_where_def)

text \<open>C9. The sliding lease: after a successful heartbeat at a time \<open>now\<close>, no reclaim before
  \<open>now\<close> plus the visibility timeout of its queue takes a running job from the worker.\<close>

theorem heartbeat_keeps_lease:
  assumes "world_inv w" "worker_Heartbeat env pid wid w = (Inr wk, w')" "\<not> e_flt env CExtendLease" "wid \<noteq> []"
    and "j \<in> set (w_jobs w')" "job_ProjectID j = pid" "job_WorkerID j = wid" "job_Status j = StatusRunning"
    and "later \<le> e_now env + visibility_of (w_queues w') 30000000000 j"
  shows "j \<in> set (snd (ReclaimExpired_job later limit 0 (w_queues w') (w_tenants w') (w_jobs w')))"
proof -
  from assms(2,3) have jobs: "w_jobs w' = snd (ExtendLease pid wid (e_now env) (w_jobs w))"
    by (auto simp: worker_Heartbeat_def Let_def split: sum.splits if_splits)
  have inv: "jobs_inv (w_jobs w')" unfolding jobs using assms(1) by (auto intro: jobs_inv_ExtendLease)
  have "job_StartedAt j = Some (e_now env)"
  proof -
    let ?P = "\<lambda>x. wid \<noteq> [] \<and> job_ProjectID x = pid \<and> job_WorkerID x = wid \<and> job_Status x = StatusRunning"
    obtain x where x: "j = (if ?P x then x\<lparr>job_StartedAt := Some (e_now env), job_UpdatedAt := e_now env\<rparr> else x)"
      using assms(5) unfolding jobs ExtendLease_eq set_map by (rule imageE)
    then have "?P x" using assms(4,6,7,8) by (cases "?P x") auto
    then show ?thesis using x by simp
  qed
  then have "\<not> lease_expired later (30 * second) (w_queues w') (w_tenants w') j"
    using assms(9) by (simp add: lease_expired_def second_def)
  then show ?thesis using reclaim_keeps [OF inv assms(5), of later 0] by simp
qed

definition sample_env :: env where
  "sample_env = \<lparr>e_flt = no_faults, e_now = 20, e_newID = ''j1'', e_seq = 2, e_brokerSeq = 7,
     e_AllowEnqueue = AllowEnqueue, e_AllowDequeue = AllowDequeue\<rparr>"

definition sample_worker :: worker where
  "sample_worker = Create_worker_model ''w'' 0 1 ''mailer'' [''mail'']"

definition sample_world :: world where
  "sample_world = empty_world\<lparr>w_jobs := snd (ClaimPending 1 ''mail'' ''w'' 1 10 sample_jobs),
     w_queues := [sample_queue], w_tenants := [sample_tenant], w_workers := [sample_worker]\<rparr>"

lemma sample_world_inv [simp]: "world_inv sample_world"
  by (auto simp: sample_world_def world_inv_def empty_world_def jobs_inv_ClaimPending queues_inv_def
      table_inv_def tenants_inv_def workers_inv_def queue_ok_def tenant_ok_def sample_queue_def sample_tenant_def)

lemma sample_env_simps [simp]: "\<not> e_flt sample_env c" "e_now sample_env = 20"
  by (simp_all add: sample_env_def no_faults_def)

theorem heartbeat_keeps_lease_witness:
  "\<exists>j\<in>set (snd (ReclaimExpired_job 45 0 0 [sample_queue] [sample_tenant]
       (w_jobs (snd (worker_Heartbeat sample_env 1 ''w'' sample_world))))). job_ID j = ''c'' \<and> job_WorkerID j = ''w''"
proof -
  let ?w = "snd (worker_Heartbeat sample_env 1 ''w'' sample_world)"
  let ?j = "(claim_row 20 ''w'' (sample_job ''c'' None 3))"
  have h: "worker_Heartbeat sample_env 1 ''w'' sample_world
     = (Inr (Heartbeat_model 20 sample_worker), ?w)"
    by (simp add: worker_Heartbeat_def FindByID_worker_def sample_world_def sample_worker_def
        Create_worker_model_def Let_def)
  have q: "w_queues ?w = [sample_queue]" "w_tenants ?w = [sample_tenant]"
    by (simp_all add: sample_world_def)
  have j: "?j \<in> set (w_jobs ?w)"
    by code_simp
  show ?thesis
    using heartbeat_keeps_lease [OF sample_world_inv h _ _ j, of 45 0] unfolding q
    by (intro bexI [of _ ?j]) (simp_all add: visibility_of_def sample_queue_def sample_job_def claim_row_def)
qed

end
