(* ===== verification/QueueRouter.thy ===== *)
theory QueueRouter
  imports QueueServices
begin

text \<open>
  \<open>internal/application/service/queue/router/service.go\<close>, with the receipts of
  \<open>internal/domain/queue/receipt/model.go\<close>: enqueue, claim, acknowledge, reject and cancel a job,
  promote due jobs and reclaim expired ones.  Of a receipt the random identifiers and the time are
  left out.  Each operation is one atomic step on the shared state at one clock reading; the calls
  that fail are chosen by the environment.
\<close>

section \<open>Receipts\<close>

datatype receipt_kind = KindAck | KindNack
datatype receipt_stage = StageIngress | StageWorker
datatype receipt_outcome = OutcomeAccepted | OutcomeRejected | OutcomeCompleted | OutcomeRetried
  | OutcomeFailed | OutcomeCancelled

record receipt =
  rc_JobID :: ulid
  rc_Kind :: receipt_kind
  rc_Stage :: receipt_stage
  rc_Outcome :: receipt_outcome
  rc_Reason :: string

definition IngressAck :: "ulid \<Rightarrow> receipt" where
  "IngressAck jobID = \<lparr>rc_JobID = jobID, rc_Kind = KindAck, rc_Stage = StageIngress,
     rc_Outcome = OutcomeAccepted, rc_Reason = []\<rparr>"

definition IngressNack :: "ulid \<Rightarrow> string \<Rightarrow> receipt" where
  "IngressNack jobID reason = \<lparr>rc_JobID = jobID, rc_Kind = KindNack, rc_Stage = StageIngress,
     rc_Outcome = OutcomeRejected, rc_Reason = reason\<rparr>"

section \<open>Saving and publishing a job\<close>

definition save_job :: "env \<Rightarrow> call \<Rightarrow> job \<Rightarrow> world \<Rightarrow> qerr + world" where
  "save_job env c j w =
     (if e_flt env c then Inl (CallErr c)
      else case Update_job j (w_jobs w) of
             Inl e \<Rightarrow> Inl (StoreErr e)
           | Inr rows \<Rightarrow> Inr (w\<lparr>w_jobs := rows\<rparr>))"

text \<open>The job pointer keeps the sequence number even when the save that follows fails, so the job
  is part of the result.\<close>

definition publishToBroker :: "env \<Rightarrow> queue \<Rightarrow> job \<Rightarrow> world \<Rightarrow> (qerr + unit) \<times> job \<times> world" where
  "publishToBroker env q j w =
     (let n = QueueName q;
          msg = \<lparr>bm_Subject = Subject n, bm_JobID = job_ID j, bm_Payload = job_Payload j, bm_Attempt = job_Attempt j\<rparr>
      in if e_flt env (CPublish (job_ID j)) then (Inl (CallErr (CPublish (job_ID j))), j, w)
         else let w = w\<lparr>w_streams := insert (Subject n) (w_streams w), w_published := w_published w @ [msg]\<rparr>;
                  j = j\<lparr>job_BrokerSequence := e_brokerSeq env\<rparr>
              in case save_job env (CUpdateSeq (job_ID j)) j w of
                   Inl e \<Rightarrow> (Inl e, j, w)
                 | Inr w \<Rightarrow> (Inr (), j, w))"

section \<open>Enqueue\<close>

record enqueue_request =
  er_ProjectID :: project_id
  er_QueueName :: string
  er_Payload :: string
  er_IdempotencyKey :: string
  er_ScheduleAt :: "time option"
  er_Delay :: int
  er_Metadata :: string

text \<open>The second half of \<open>Enqueue\<close>: no job with the key exists.\<close>

definition Enqueue_create ::
    "env \<Rightarrow> queue \<Rightarrow> enqueue_request \<Rightarrow> world \<Rightarrow> (qerr \<times> receipt option + receipt \<times> job) \<times> world" where
  "Enqueue_create env q req w =
     (let scheduleAt = (if er_Delay req > 0 then Some (e_now env + er_Delay req) else er_ScheduleAt req)
      in case EnqueueJob (e_newID env) (e_now env)
             \<lparr>cp_ProjectID = er_ProjectID req, cp_QueueName = er_QueueName req, cp_Payload = er_Payload req,
              cp_IdempotencyKey = er_IdempotencyKey req, cp_MaxAttempts = queue_MaxAttempts q,
              cp_ScheduleAt = scheduleAt, cp_Metadata = er_Metadata req\<rparr> of
           Inl e \<Rightarrow> (Inl (JobInvalid e, None), w)
         | Inr j \<Rightarrow>
             if e_flt env CCreateJob then (Inl (CallErr CCreateJob, None), w)
             else case Create_job j (w_jobs w) of
                    Inl e \<Rightarrow> (Inl (StoreErr e, None), w)
                  | Inr rows \<Rightarrow>
                      let w = w\<lparr>w_jobs := rows\<rparr>;
                          jw = (if IsClaimable (e_now env) j then snd (publishToBroker env q j w) else (j, w));
                          j = fst jw; w = snd jw;
                          w = RecordEnqueue (er_ProjectID req) (int (length (er_Payload req))) w;
                          w = publishQueueLog (er_ProjectID req) EventQueueJobEnqueued (job_ID j) w
                      in (Inr (IngressAck (job_ID j), j), w))"

definition router_Enqueue ::
    "env \<Rightarrow> enqueue_request \<Rightarrow> world \<Rightarrow> (qerr \<times> receipt option + receipt \<times> job) \<times> world" where
  "router_Enqueue env req w =
     (case AssertQueueWritable (e_flt env) (er_ProjectID req) (er_QueueName req) w of
        Inl e \<Rightarrow> (Inl (e, None), w)
      | Inr _ \<Rightarrow>
          case e_AllowEnqueue env (er_ProjectID req) of
            Inl e \<Rightarrow> (Inl (e, None), w)
          | Inr allowed \<Rightarrow>
              if \<not> allowed then (Inl (RateLimited, Some (IngressNack (e_newID env) ''rate limit exceeded'')), w)
              else case queue_Ensure env
                     \<lparr>qcp_ProjectID = er_ProjectID req, qcp_Name = er_QueueName req,
                      qcp_ExecutionProfile = ProfileExternal, qcp_VisibilityTimeout = 0, qcp_MaxAttempts = 0,
                      qcp_Retention = 0, qcp_MaxPayloadBytes = 0, qcp_WebhookURL = [], qcp_WebhookSecret = [],
                      qcp_Metadata = []\<rparr> w of
                     (Inl e, w) \<Rightarrow> (Inl (e, None), w)
                   | (Inr q, w) \<Rightarrow>
                       case ValidateProfile (queue_ExecutionProfile q) of
                         Inl e \<Rightarrow> (Inl (ProfileErr e, None), w)
                       | Inr _ \<Rightarrow>
                           if er_IdempotencyKey req \<noteq> [] \<and> e_flt env CFindIdem
                           then (Inl (CallErr CFindIdem, None), w)
                           else case FindByIdempotencyKey (er_ProjectID req) (er_QueueName req)
                                       (er_IdempotencyKey req) (w_jobs w) of
                                  Inr existing \<Rightarrow> (Inr (IngressAck (job_ID existing), existing), w)
                                | Inl _ \<Rightarrow> Enqueue_create env q req w)"

section \<open>Dequeue\<close>

record dequeue_request =
  dr_ProjectID :: project_id
  dr_QueueName :: string
  dr_WorkerID :: string
  dr_BatchSize :: int
  dr_Wait :: int

definition touchRegisteredWorker :: "env \<Rightarrow> project_id \<Rightarrow> string \<Rightarrow> world \<Rightarrow> world" where
  "touchRegisteredWorker env pid workerID w =
     (if workerID = [] then w else snd (worker_Heartbeat env pid workerID w))"

fun log_claimed :: "project_id \<Rightarrow> job list \<Rightarrow> world \<Rightarrow> world" where
  "log_claimed pid [] w = w"
| "log_claimed pid (j # js) w = log_claimed pid js (publishQueueLog pid EventQueueJobClaimed (job_ID j) w)"

definition attemptClaim :: "env \<Rightarrow> bool \<Rightarrow> dequeue_request \<Rightarrow> world \<Rightarrow> (qerr + job list) \<times> world" where
  "attemptClaim env ctxDone req w =
     (if ctxDone then (Inl ContextDone, w)
      else if e_flt env CClaim then (Inl (CallErr CClaim), w)
      else let batchSize = (if dr_BatchSize req \<le> 0 then 1 else dr_BatchSize req);
               (claimed, rows) = ClaimPending (dr_ProjectID req) (dr_QueueName req) (dr_WorkerID req)
                                   batchSize (e_now env) (w_jobs w);
               w = w\<lparr>w_jobs := rows\<rparr>;
               w = (if claimed \<noteq> [] then touchRegisteredWorker env (dr_ProjectID req) (dr_WorkerID req) w else w)
           in (Inr claimed, log_claimed (dr_ProjectID req) claimed w))"

text \<open>The long poll.  One element of the list is one round: the environment and cancellation seen by
  its checks, the clock at the check of the deadline, at the claim, and after it, and what the rest of the
  system does to the state before the round.  The loop is cut off, with \<^const>\<open>None\<close>, when the list ends.\<close>

record poll_round =
  pr_env :: env
  pr_done_before :: bool
  pr_now_check :: time
  pr_done_claim :: bool
  pr_now_after :: time
  pr_done_sleep :: bool
  pr_others :: "world \<Rightarrow> world"

fun dequeue_loop :: "time \<Rightarrow> dequeue_request \<Rightarrow> poll_round list \<Rightarrow> world \<Rightarrow> ((qerr + job list) \<times> world) option" where
  "dequeue_loop deadline req [] w = None"
| "dequeue_loop deadline req (r # rs) w =
     (let w = pr_others r w in
      if pr_done_before r then Some (Inl ContextDone, w)
      else if \<not> pr_now_check r < deadline then Some (Inr [], w)
      else case attemptClaim (pr_env r) (pr_done_claim r) req w of
             (Inl e, w) \<Rightarrow> Some (Inl e, w)
           | (Inr claimed, w) \<Rightarrow>
               if claimed \<noteq> [] then Some (Inr claimed, w)
               else if deadline - pr_now_after r \<le> 0 then Some (Inr [], w)
               else if pr_done_sleep r then Some (Inl ContextDone, w)
               else dequeue_loop deadline req rs w)"

definition router_Dequeue ::
    "env \<Rightarrow> bool \<Rightarrow> dequeue_request \<Rightarrow> poll_round list \<Rightarrow> world \<Rightarrow> ((qerr + job list) \<times> world) option" where
  "router_Dequeue env ctxDone req rounds w =
     (case AssertQueueWritable (e_flt env) (dr_ProjectID req) (dr_QueueName req) w of
        Inl e \<Rightarrow> Some (Inl e, w)
      | Inr _ \<Rightarrow>
          case e_AllowDequeue env (dr_ProjectID req) of
            Inl e \<Rightarrow> Some (Inl e, w)
          | Inr allowed \<Rightarrow>
              if \<not> allowed then Some (Inl RateLimited, w)
              else if dr_Wait req \<le> 0 then Some (attemptClaim env ctxDone req w)
              else dequeue_loop (e_now env + dr_Wait req) req rounds w)"

section \<open>Ack, Nack and Cancel\<close>

definition assertJobWorker :: "job \<Rightarrow> string \<Rightarrow> qerr + unit" where
  "assertJobWorker j workerID =
     (if job_WorkerID j = [] then Inr ()
      else if workerID \<noteq> job_WorkerID j then Inl (JobErr ErrWorkerMismatch)
      else Inr ())"

text \<open>The common head of \<open>Ack\<close> and \<open>Nack\<close>: the write barrier, the lookup, the status and the owner.\<close>

definition load_running :: "env \<Rightarrow> project_id \<Rightarrow> string \<Rightarrow> ulid \<Rightarrow> string \<Rightarrow> world \<Rightarrow> qerr + job" where
  "load_running env pid qn jobID workerID w =
     (case AssertQueueWritable (e_flt env) pid qn w of
        Inl e \<Rightarrow> Inl e
      | Inr _ \<Rightarrow>
          if e_flt env CFindJob then Inl (CallErr CFindJob)
          else case FindByID pid qn jobID (w_jobs w) of
                 Inl _ \<Rightarrow> Inl (JobErr ErrNotFound)
               | Inr j \<Rightarrow>
                   if job_Status j \<noteq> StatusRunning then Inl (JobErr ErrInvalidTransition)
                   else case assertJobWorker j workerID of
                          Inl e \<Rightarrow> Inl e
                        | Inr _ \<Rightarrow> Inr j)"

definition router_Ack ::
    "env \<Rightarrow> project_id \<Rightarrow> string \<Rightarrow> ulid \<Rightarrow> string \<Rightarrow> string \<Rightarrow> world \<Rightarrow> (qerr + receipt) \<times> world" where
  "router_Ack env pid qn jobID workerID result w =
     (case load_running env pid qn jobID workerID w of
        Inl e \<Rightarrow> (Inl e, w)
      | Inr j0 \<Rightarrow>
          let j = MarkCompleted (e_now env) result j0
          in case save_job env (CUpdateJob (job_ID j)) j w of
               Inl e \<Rightarrow> (Inl e, w)
             | Inr w \<Rightarrow>
                 let w = (case job_StartedAt j of
                            None \<Rightarrow> w
                          | Some t \<Rightarrow> RecordCompleted pid (go_quot (e_now env - t) 1000000) w);
                     w = publishQueueLog pid EventQueueJobCompleted (job_ID j) w
                 in (Inr \<lparr>rc_JobID = job_ID j, rc_Kind = KindAck, rc_Stage = StageWorker,
                          rc_Outcome = OutcomeCompleted, rc_Reason = []\<rparr>, w))"

text \<open>\<open>time.Duration(j.Attempt*j.Attempt) * time.Minute\<close>, in 64 bits.\<close>

definition retry_delay :: "int \<Rightarrow> job \<Rightarrow> int" where
  "retry_delay requested j =
     (if requested \<le> 0 then i64 (i64 (job_Attempt j * job_Attempt j) * minute) else requested)"

text \<open>\<open>PublishDLQ\<close> of the broker repository only ensures the stream; the payload is not used.\<close>

definition PublishDLQ :: "env \<Rightarrow> string \<Rightarrow> string \<Rightarrow> world \<Rightarrow> (qerr + unit) \<times> world" where
  "PublishDLQ env subject data w =
     (if e_flt env CEnsureStream then (Inl (CallErr CEnsureStream), w)
      else (Inr (), w\<lparr>w_streams := insert subject (w_streams w)\<rparr>))"

definition router_Nack ::
    "env \<Rightarrow> project_id \<Rightarrow> string \<Rightarrow> ulid \<Rightarrow> string \<Rightarrow> string \<Rightarrow> int \<Rightarrow> world \<Rightarrow> (qerr + receipt) \<times> world" where
  "router_Nack env pid qn jobID workerID reason retryDelay w =
     (case load_running env pid qn jobID workerID w of
        Inl e \<Rightarrow> (Inl e, w)
      | Inr j0 \<Rightarrow>
          if CanRetry j0 then
            let j = MarkRetry (e_now env) (retry_delay retryDelay j0) j0
            in case save_job env (CUpdateJob (job_ID j)) j w of
                 Inl e \<Rightarrow> (Inl e, w)
               | Inr w \<Rightarrow>
                   let w = RecordRetried pid w;
                       w = publishQueueLog pid EventQueueJobNacked (job_ID j) w;
                       w = publishQueueLog pid EventQueueJobRetried (job_ID j) w;
                       w = (case FindByProjectAndName pid qn (w_queues w) of
                              Inl _ \<Rightarrow> w
                            | Inr q \<Rightarrow> if \<not> e_flt env CFindQueue \<and> IsClaimable (e_now env) j
                                      then snd (snd (publishToBroker env q j w)) else w)
                   in (Inr \<lparr>rc_JobID = job_ID j, rc_Kind = KindNack, rc_Stage = StageWorker,
                            rc_Outcome = OutcomeRetried, rc_Reason = reason\<rparr>, w)
          else
            let j = MarkDLQ (e_now env) reason j0
            in case save_job env (CUpdateJob (job_ID j)) j w of
                 Inl e \<Rightarrow> (Inl e, w)
               | Inr w \<Rightarrow>
                   let w = RecordDLQ pid w;
                       w = publishQueueLog pid EventQueueJobNacked (job_ID j) w;
                       w = publishQueueLog pid EventQueueJobDLQ (job_ID j) w;
                       w = snd (PublishDLQ env (DLQSubject (QNewName qn pid)) (job_Payload j) w)
                   in (Inr \<lparr>rc_JobID = job_ID j, rc_Kind = KindNack, rc_Stage = StageWorker,
                            rc_Outcome = OutcomeFailed, rc_Reason = reason\<rparr>, w))"

definition router_Cancel ::
    "env \<Rightarrow> project_id \<Rightarrow> string \<Rightarrow> ulid \<Rightarrow> world \<Rightarrow> (qerr + receipt \<times> job) \<times> world" where
  "router_Cancel env pid qn jobID w =
     (case AssertQueueWritable (e_flt env) pid qn w of
        Inl e \<Rightarrow> (Inl e, w)
      | Inr _ \<Rightarrow>
          if e_flt env CFindJob then (Inl (CallErr CFindJob), w)
          else case FindByID pid qn jobID (w_jobs w) of
                 Inl _ \<Rightarrow> (Inl (JobErr ErrNotFound), w)
               | Inr j0 \<Rightarrow>
                   if job_Status j0 = StatusCompleted \<or> job_Status j0 = StatusCancelled \<or> job_Status j0 = StatusDLQ
                   then (Inl (JobErr ErrInvalidTransition), w)
                   else let j = MarkCancelled (e_now env) j0
                        in case save_job env (CUpdateJob (job_ID j)) j w of
                             Inl e \<Rightarrow> (Inl e, w)
                           | Inr w \<Rightarrow>
                               (Inr (\<lparr>rc_JobID = job_ID j, rc_Kind = KindAck, rc_Stage = StageIngress,
                                      rc_Outcome = OutcomeCancelled, rc_Reason = []\<rparr>, j),
                                publishQueueLog pid EventQueueJobCancelled (job_ID j) w))"

section \<open>Maintenance\<close>

definition EnsureQueueListening :: "env \<Rightarrow> project_id \<Rightarrow> string \<Rightarrow> world \<Rightarrow> (qerr + unit) \<times> world" where
  "EnsureQueueListening env pid qn w =
     (case queue_Ensure env
        \<lparr>qcp_ProjectID = pid, qcp_Name = qn, qcp_ExecutionProfile = ProfileExternal,
         qcp_VisibilityTimeout = 0, qcp_MaxAttempts = 0, qcp_Retention = 0, qcp_MaxPayloadBytes = 0,
         qcp_WebhookURL = [], qcp_WebhookSecret = [], qcp_Metadata = []\<rparr> w of
        (Inl e, w) \<Rightarrow> (Inl e, w)
      | (Inr q, w) \<Rightarrow>
          if e_flt env CEnsureStream then (Inl (CallErr CEnsureStream), w)
          else (Inr (), w\<lparr>w_streams := insert (Subject (QueueName q)) (w_streams w)\<rparr>))"

text \<open>The body of the promotion loop, on a job as it was read.\<close>

definition promote_job :: "env \<Rightarrow> job \<Rightarrow> world \<Rightarrow> world" where
  "promote_job env j w =
     (if \<not> IsClaimable (e_now env) j \<or> e_flt env CFindQueue then w
      else case FindByProjectAndName (job_ProjectID j) (job_QueueName j) (w_queues w) of
             Inl _ \<Rightarrow> w
           | Inr q \<Rightarrow>
               if job_Status j = StatusScheduled then
                 let j = MarkPendingForSchedule (e_now env) j
                 in case save_job env (CUpdateJob (job_ID j)) j w of
                      Inl _ \<Rightarrow> w
                    | Inr w \<Rightarrow> snd (snd (publishToBroker env q j w))
               else snd (snd (publishToBroker env q j w)))"

definition PublishDueScheduled :: "env \<Rightarrow> world \<Rightarrow> (qerr + unit) \<times> world" where
  "PublishDueScheduled env w =
     (if e_flt env CFindDue then (Inl (CallErr CFindDue), w)
      else (Inr (), fold (promote_job env)
              (FindDueScheduled 100 (e_now env) (w_queues w) (w_tenants w) (w_jobs w)) w))"

definition reclaimBatchSize :: int where "reclaimBatchSize = 500"

definition router_ReclaimExpired :: "env \<Rightarrow> bool \<Rightarrow> int \<Rightarrow> world \<Rightarrow> (qerr + nat) \<times> world" where
  "router_ReclaimExpired env ctxDone limit w =
     (if ctxDone then (Inl ContextDone, w)
      else let limit = (if limit \<le> 0 then reclaimBatchSize else limit)
           in if e_flt env CReclaim then (Inl (CallErr CReclaim), w)
              else let (n, rows) = ReclaimExpired_job (e_now env) limit DefaultVisibilityTimeout
                                     (w_queues w) (w_tenants w) (w_jobs w)
                   in (Inr n, w\<lparr>w_jobs := rows\<rparr>))"

section \<open>How a row may change\<close>

text \<open>The state machine of the statuses: one step of any operation other than a deletion.\<close>

fun allowed :: "status \<Rightarrow> status \<Rightarrow> bool" where
  "allowed StatusPending s = (s \<in> {StatusRunning, StatusCancelled})"
| "allowed StatusScheduled s = (s \<in> {StatusPending, StatusRunning, StatusCancelled})"
| "allowed StatusRunning s = (s \<in> {StatusPending, StatusCompleted, StatusDLQ, StatusCancelled})"
| "allowed StatusCompleted s = False"
| "allowed StatusFailed s = (s \<in> {StatusPending, StatusCancelled})"
| "allowed StatusCancelled s = False"
| "allowed StatusDLQ s = (s = StatusPending)"

text \<open>An attempt is counted exactly when the job starts to run.\<close>

definition row_step :: "job \<Rightarrow> job \<Rightarrow> bool" where
  "row_step a b \<longleftrightarrow> same_key a b \<and> job_Payload b = job_Payload a \<and> job_MaxAttempts b = job_MaxAttempts a
     \<and> (job_Status b = job_Status a \<or> allowed (job_Status a) (job_Status b))
     \<and> job_Attempt b = (if job_Status b = StatusRunning \<and> job_Status a \<noteq> StatusRunning
                        then job_Attempt a + 1 else job_Attempt a)
     \<and> (job_Status b = StatusRunning \<and> job_Status a = StatusRunning \<longrightarrow> job_WorkerID b = job_WorkerID a)
     \<and> (IsTerminal a \<and> job_Status b = job_Status a \<longrightarrow> job_TerminalAt b = job_TerminalAt a)"

definition fresh_row :: "job \<Rightarrow> bool" where
  "fresh_row j \<longleftrightarrow> (job_Status j = StatusPending \<or> job_Status j = StatusScheduled) \<and> job_Attempt j = 0"

definition jobs_step :: "jobs \<Rightarrow> jobs \<Rightarrow> bool" where
  "jobs_step rows rows' \<longleftrightarrow> (\<forall>a\<in>set rows. \<exists>b\<in>set rows'. row_step a b)
     \<and> (\<forall>b\<in>set rows'. (\<exists>a\<in>set rows. row_step a b) \<or> (fresh_row b \<and> job_ID b \<notin> job_ID ` set rows))"

text \<open>What bookkeeping leaves alone in addition: the fields a step is about.\<close>

definition row_frame :: "job \<Rightarrow> job \<Rightarrow> bool" where
  "row_frame a b \<longleftrightarrow> same_key b a \<and> job_Payload b = job_Payload a \<and> job_MaxAttempts b = job_MaxAttempts a
     \<and> job_Status b = job_Status a \<and> job_Attempt b = job_Attempt a \<and> job_WorkerID b = job_WorkerID a
     \<and> job_TerminalAt b = job_TerminalAt a"

lemma row_step_refl [simp]: "row_step a a"
  by (simp add: row_step_def)

lemma row_step_frame: "row_step a b \<Longrightarrow> row_frame b c \<Longrightarrow> row_step a c"
  by (simp add: row_step_def row_frame_def same_key_def)

lemma fresh_row_frame: "fresh_row b \<Longrightarrow> row_frame b c \<Longrightarrow> fresh_row c"
  by (simp add: fresh_row_def row_frame_def)

lemma row_frame_ID: "row_frame b c \<Longrightarrow> job_ID c = job_ID b"
  by (simp add: row_frame_def same_key_def)

lemma row_frame_intros [simp]:
  "row_frame a a" "row_frame a (a\<lparr>job_BrokerSequence := n\<rparr>)"
  "row_frame a (a\<lparr>job_StartedAt := st, job_UpdatedAt := u\<rparr>)"
  by (simp_all add: row_frame_def same_key_def)

lemma row_step_marks:
  "job_Status j = StatusRunning \<Longrightarrow> row_step j (reclaim_row now j)"
  "job_Status j = StatusRunning \<Longrightarrow> row_step j (MarkCompleted now r j)"
  "job_Status j = StatusRunning \<Longrightarrow> row_step j (MarkRetry now d j)"
  "job_Status j = StatusRunning \<Longrightarrow> row_step j (MarkDLQ now e j)"
  "job_Status j = StatusScheduled \<Longrightarrow> row_step j (MarkPendingForSchedule now j)"
  "row_step j (j\<lparr>job_Metadata := m, job_UpdatedAt := now\<rparr>)"
  by (simp_all add: row_step_def same_key_def mark_defs reclaim_row_def IsTerminal_def)

lemma row_step_claim:
  "job_Status j = StatusPending \<or> job_Status j = StatusScheduled \<Longrightarrow> row_step j (claim_row now w j)"
  by (elim disjE) (simp_all add: row_step_def same_key_def claim_row_def IsTerminal_def)

lemma row_step_cancel:
  "job_Status j \<notin> {StatusCompleted, StatusCancelled, StatusDLQ} \<Longrightarrow> row_step j (MarkCancelled now j)"
  by (cases "job_Status j") (simp_all add: row_step_def same_key_def mark_defs IsTerminal_def)

lemma row_step_retry:
  "job_Status j = StatusFailed \<or> job_Status j = StatusDLQ \<Longrightarrow> row_step j (MarkRetryFromControl now j)"
  by (elim disjE) (simp_all add: row_step_def same_key_def mark_defs IsTerminal_def)

lemma jobs_step_refl [simp]: "jobs_step rows rows"
  by (auto simp: jobs_step_def intro: row_step_refl)

lemma jobs_step_update:
  assumes "\<And>r. r \<in> set rows \<Longrightarrow> P r \<Longrightarrow> row_step r (f r)"
  shows "jobs_step rows (update_where P f rows)"
proof -
  have "row_step a (if P a then f a else a)" if "a \<in> set rows" for a using assms that by auto
  then show ?thesis unfolding jobs_step_def set_update_where by blast
qed

lemma jobs_step_frame:
  assumes "jobs_step rows rows1" "\<And>r. r \<in> set rows1 \<Longrightarrow> P r \<Longrightarrow> row_frame r (f r)"
  shows "jobs_step rows (update_where P f rows1)"
proof -
  have fr: "row_frame b (if P b then f b else b)" if "b \<in> set rows1" for b using assms(2) that by auto
  have "\<exists>c\<in>set (update_where P f rows1). row_step a c" if a: "a \<in> set rows" for a
  proof -
    obtain b where "b \<in> set rows1" "row_step a b" using assms(1) a by (auto simp: jobs_step_def)
    then show ?thesis using row_step_frame fr unfolding set_update_where by blast
  qed
  moreover have "(\<exists>a\<in>set rows. row_step a c) \<or> (fresh_row c \<and> job_ID c \<notin> job_ID ` set rows)"
    if c: "c \<in> set (update_where P f rows1)" for c
  proof -
    obtain b where b: "b \<in> set rows1" "c = (if P b then f b else b)" using c by (auto simp: set_update_where)
    then have "row_frame b c" using fr by simp
    moreover have "(\<exists>a\<in>set rows. row_step a b) \<or> (fresh_row b \<and> job_ID b \<notin> job_ID ` set rows)"
      using assms(1) b(1) by (simp add: jobs_step_def)
    ultimately show ?thesis
      using row_step_frame [of _ b c] fresh_row_frame [of b c] row_frame_ID [of b c] by auto
  qed
  ultimately show ?thesis by (simp add: jobs_step_def)
qed

lemma jobs_step_insert:
  "fresh_row j \<Longrightarrow> job_ID j \<notin> job_ID ` set rows \<Longrightarrow> jobs_step rows (rows @ [j])"
  by (auto simp: jobs_step_def intro: row_step_refl)

subsection \<open>Saving and publishing\<close>

text \<open>One operation on the shared state, deletions apart: the tables stay well formed and every row
  takes at most one step.\<close>

definition good_step :: "world \<Rightarrow> world \<Rightarrow> bool" where
  "good_step w w' \<longleftrightarrow> world_inv w' \<and> jobs_step (w_jobs w) (w_jobs w')"

lemma good_step_refl [simp]: "good_step w w \<longleftrightarrow> world_inv w"
  by (simp add: good_step_def)

lemma good_step_log [simp]:
  "good_step w (publishQueueLog pid e i w') = good_step w w'"
  "good_step w (Increment pid c d w') = good_step w w'"
  by (simp_all add: good_step_def)

lemma save_job_effect:
  assumes "world_inv w" "old \<in> set (w_jobs w)" "same_key j old" "save_job env c j w = Inr w'"
  shows "w' = w\<lparr>w_jobs := update_where (\<lambda>x. x = old) (\<lambda>_. j) (w_jobs w)\<rparr>"
proof -
  note inv = world_invD(1) [OF assms(1)]
  have "update_where (\<lambda>x. job_ID x = job_ID j) (\<lambda>_. j) (w_jobs w) = update_where (\<lambda>x. x = old) (\<lambda>_. j) (w_jobs w)"
    unfolding update_where_def
    using assms(2,3) jobs_invD(1) [OF inv] by (auto simp: same_key_def dest: key_unique)
  then show ?thesis
    using assms(4) Update_job_Inr [OF inv assms(2,3)] by (auto simp: save_job_def split: if_splits)
qed

lemma good_save:
  assumes "world_inv w" "old \<in> set (w_jobs w)" "same_key j old" "job_ok j" "row_step old j"
    and "save_job env c j w = Inr w'"
  shows "good_step w w' \<and> j \<in> set (w_jobs w') \<and> w_queues w' = w_queues w \<and> w_tenants w' = w_tenants w"
proof -
  note e = save_job_effect [OF assms(1-3,6)]
  have "jobs_inv (w_jobs w')" unfolding e using assms(1,3,4) by (auto intro!: jobs_inv_update_where)
  moreover have "jobs_step (w_jobs w) (w_jobs w')" unfolding e using assms(5) by (auto intro!: jobs_step_update)
  ultimately show ?thesis using assms(1,2) unfolding good_step_def e
    by (auto simp: world_inv_def set_update_where)
qed

lemma publish_frame [simp]:
  "w_queues (snd (snd (publishToBroker env q j w))) = w_queues w"
  "w_tenants (snd (snd (publishToBroker env q j w))) = w_tenants w"
  "w_workers (snd (snd (publishToBroker env q j w))) = w_workers w"
  "w_log (snd (snd (publishToBroker env q j w))) = w_log w"
  "w_counters (snd (snd (publishToBroker env q j w))) = w_counters w"
  by (auto simp: publishToBroker_def save_job_def Let_def split: sum.splits if_splits)

lemma publish_job [simp]:
  "job_ID (fst (snd (publishToBroker env q j w))) = job_ID j"
  "job_Status (fst (snd (publishToBroker env q j w))) = job_Status j"
  by (auto simp: publishToBroker_def Let_def split: sum.splits)

lemma update_where_none [simp]: "update_where (\<lambda>x. x = j) (\<lambda>_. j) rows = rows"
  by (auto simp: update_where_def intro: map_idI)

lemma publish_effect:
  assumes "world_inv w" "j \<in> set (w_jobs w)"
  shows "\<exists>b. w_jobs (snd (snd (publishToBroker env q j w))) = update_where (\<lambda>x. x = j) (\<lambda>_. b) (w_jobs w)
     \<and> (b = j \<or> b = j\<lparr>job_BrokerSequence := e_brokerSeq env\<rparr>)"
proof -
  let ?j = "j\<lparr>job_BrokerSequence := e_brokerSeq env\<rparr>"
  let ?w = "w\<lparr>w_streams := insert (Subject (QueueName q)) (w_streams w), w_published := w_published w @
     [\<lparr>bm_Subject = Subject (QueueName q), bm_JobID = job_ID j, bm_Payload = job_Payload j, bm_Attempt = job_Attempt j\<rparr>]\<rparr>"
  have "w_jobs w' = update_where (\<lambda>x. x = j) (\<lambda>_. ?j) (w_jobs w)"
    if "save_job env (CUpdateSeq (job_ID j)) ?j ?w = Inr w'" for w'
    by (subst save_job_effect [OF _ _ _ that, of j]) (use assms in \<open>auto simp: world_inv_def\<close>)
  moreover have "w_jobs w = update_where (\<lambda>x. x = j) (\<lambda>_. j) (w_jobs w)" by simp
  moreover have "w_jobs (snd (snd (publishToBroker env q j w))) = w_jobs w
      \<or> (\<exists>w'. save_job env (CUpdateSeq (job_ID j)) ?j ?w = Inr w' \<and> w_jobs (snd (snd (publishToBroker env q j w))) = w_jobs w')"
    by (cases "save_job env (CUpdateSeq (job_ID j)) ?j ?w") (simp_all add: publishToBroker_def Let_def)
  ultimately show ?thesis by metis
qed

lemma good_publish:
  assumes "good_step w0 w" "j \<in> set (w_jobs w)"
  shows "good_step w0 (snd (snd (publishToBroker env q j w)))"
proof -
  let ?w' = "snd (snd (publishToBroker env q j w))"
  have inv: "world_inv w" using assms(1) by (simp add: good_step_def)
  obtain b where e: "w_jobs ?w' = update_where (\<lambda>x. x = j) (\<lambda>_. b) (w_jobs w)"
    and b: "b = j \<or> b = j\<lparr>job_BrokerSequence := e_brokerSeq env\<rparr>"
    using publish_effect [OF inv assms(2)] by blast
  have "jobs_inv (w_jobs ?w')" unfolding e using inv b
    by (intro jobs_inv_update_where) (auto intro: job_ok_fields)
  moreover have "jobs_step (w_jobs w0) (w_jobs ?w')"
    unfolding e using assms(1) b by (intro jobs_step_frame) (auto simp: good_step_def)
  ultimately show ?thesis using inv by (auto simp: good_step_def world_inv_def)
qed

subsection \<open>Every operation is a good step\<close>

lemma load_running_Inr:
  "load_running env pid qn i worker w = Inr j \<Longrightarrow> j \<in> set (w_jobs w) \<and> same_queue pid qn j \<and> job_ID j = i
     \<and> job_Status j = StatusRunning \<and> writable w pid qn \<and> (job_WorkerID j = [] \<or> job_WorkerID j = worker)"
  by (auto simp: load_running_def assertJobWorker_def split: sum.splits if_splits
      dest: FindByID_Inr AssertQueueWritable_Inr)

lemma job_ok_row: "world_inv w \<Longrightarrow> j \<in> set (w_jobs w) \<Longrightarrow> job_ok j"
  using jobs_invD(2) world_invD(1) by blast

lemma good_marked_save:
  assumes "world_inv w" "j \<in> set (w_jobs w)" "save_job env c (f j) w = Inr w'"
    and "same_key (f j) j" "job_ok j \<Longrightarrow> job_ok (f j)" "row_step j (f j)"
  shows "good_step w w' \<and> f j \<in> set (w_jobs w')"
  using good_save [OF assms(1,2,4) _ assms(6,3)] assms(5) job_ok_row [OF assms(1,2)] by blast

lemma good_Ack: "world_inv w \<Longrightarrow> good_step w (snd (router_Ack env pid qn i worker result w))"
  by (auto simp: router_Ack_def Let_def RecordCompleted_def split: sum.splits option.splits
      dest!: load_running_Inr good_marked_save [where f = "MarkCompleted (e_now env) result"]
      intro: job_ok_marks row_step_marks)

lemma good_PublishDLQ [simp]: "good_step w (snd (PublishDLQ env subj data w')) = good_step w w'"
  by (simp add: PublishDLQ_def good_step_def world_inv_def)

lemma good_Nack:
  assumes "world_inv w"
  shows "good_step w (snd (router_Nack env pid qn i worker reason delay w))"
proof (cases "load_running env pid qn i worker w")
  case (Inr j)
  note j = load_running_Inr [OF Inr]
  have retry: "good_step w w' \<and> MarkRetry t d j \<in> set (w_jobs w')"
    if "save_job env c (MarkRetry t d j) w = Inr w'" for c t d w'
    using that j by (intro good_marked_save [OF assms]) (auto intro: job_ok_marks row_step_marks)
  have dlq: "good_step w w'" if "save_job env c (MarkDLQ t reason j) w = Inr w'" for c t w'
    using that j good_marked_save [OF assms, of j env c "MarkDLQ t reason" w']
    by (auto intro: job_ok_marks row_step_marks)
  show ?thesis
    using assms retry dlq
    by (auto simp: router_Nack_def Inr Let_def RecordRetried_def RecordDLQ_def intro!: good_publish split: sum.splits)
qed (use assms in \<open>simp add: router_Nack_def\<close>)

lemma good_Cancel: "world_inv w \<Longrightarrow> good_step w (snd (router_Cancel env pid qn i w))"
  by (auto simp: router_Cancel_def Let_def split: sum.splits
      dest!: FindByID_Inr good_marked_save [where f = "MarkCancelled (e_now env)"]
      intro: job_ok_marks row_step_cancel)

lemma EnqueueJob_Inr:
  "EnqueueJob i now p = Inr j \<Longrightarrow> job_ID j = i \<and> fresh_row j \<and> job_ok j \<and> same_queue (cp_ProjectID p) (cp_QueueName p) j
     \<and> job_Payload j = cp_Payload p \<and> job_IdempotencyKey j = (if cp_IdempotencyKey p = [] then None else Some (cp_IdempotencyKey p))"
  using job_ok_EnqueueJob [of i now p j]
  by (auto simp: EnqueueJob_def Let_def fresh_row_def same_queue_def split: sum.splits option.splits if_splits)

lemma good_create:
  assumes "world_inv w" "job_ok j" "fresh_row j" "Create_job j (w_jobs w) = Inr rows"
  shows "good_step w (w\<lparr>w_jobs := rows\<rparr>) \<and> j \<in> set rows"
proof -
  have "rows = w_jobs w @ [j]" "job_ID j \<notin> job_ID ` set (w_jobs w)"
    using assms(4) by (auto simp: Create_job_def list_ex_iff split: if_splits)
  then show ?thesis
    using assms jobs_inv_Create [OF world_invD(1) [OF assms(1)] assms(2,4)] jobs_step_insert
    by (auto simp: good_step_def world_inv_def)
qed

lemma good_Enqueue_create:
  assumes "world_inv w"
  shows "good_step w (snd (Enqueue_create env q req w))"
proof -
  have "good_step w (snd (snd (publishToBroker env q j (w\<lparr>w_jobs := rows\<rparr>)))) \<and> good_step w (w\<lparr>w_jobs := rows\<rparr>)"
    if "EnqueueJob i t p = Inr j" "Create_job j (w_jobs w) = Inr rows" for i t p j rows
    using good_create [OF assms _ _ that(2)] EnqueueJob_Inr [OF that(1)] good_publish by auto
  then show ?thesis
    using assms by (auto simp: Enqueue_create_def Let_def RecordEnqueue_def split: sum.splits)
qed

lemma good_step_same_jobs: "world_inv w' \<Longrightarrow> w_jobs w' = w_jobs w \<Longrightarrow> good_step w w'"
  by (simp add: good_step_def)

lemma good_step_from: "w_jobs w1 = w_jobs w \<Longrightarrow> good_step w1 w2 \<Longrightarrow> good_step w w2"
  by (simp add: good_step_def)

lemma Ensure_state:
  "queue_Ensure env p w = (r, w1) \<Longrightarrow> world_inv w \<Longrightarrow>
   world_inv w1 \<and> w_jobs w1 = w_jobs w \<and> w_tenants w1 = w_tenants w \<and> w_log w1 = w_log w"
  using queue_Ensure_inv [of w env p] queue_service_frame [of env p w] by auto

lemma good_Enqueue:
  assumes "world_inv w"
  shows "good_step w (snd (router_Enqueue env req w))"
  using assms
  by (auto simp: router_Enqueue_def split: sum.splits prod.splits
      dest!: Ensure_state intro: good_step_same_jobs good_step_from good_Enqueue_create)

lemma good_EnsureQueueListening: "world_inv w \<Longrightarrow> good_step w (snd (EnsureQueueListening env pid qn w))"
  by (auto simp: EnsureQueueListening_def good_step_def world_inv_def split: sum.splits prod.splits
      dest!: Ensure_state)

subsection \<open>Claims\<close>

lemma log_claimed_frame [simp]:
  "w_jobs (log_claimed pid js w) = w_jobs w" "w_queues (log_claimed pid js w) = w_queues w"
  "w_tenants (log_claimed pid js w) = w_tenants w" "world_inv (log_claimed pid js w) = world_inv w"
  "w_published (log_claimed pid js w) = w_published w"
  by (induction js arbitrary: w) simp_all

lemma jobs_step_claim: "jobs_inv rows \<Longrightarrow> jobs_step rows (snd (ClaimPending pid qn wid n now rows))"
  using claim_set_subset [of pid qn n now rows]
  by (auto simp: ClaimPending_eq claimable_row_def intro!: jobs_step_update row_step_claim)

lemma touch_good:
  assumes "world_inv w" "jobs_step rows (w_jobs w)"
  shows "world_inv (touchRegisteredWorker env pid wid w) \<and> jobs_step rows (w_jobs (touchRegisteredWorker env pid wid w))"
proof -
  have "jobs_step rows (snd (ExtendLease pid wid t (w_jobs w)))" for t
    using assms(2) by (auto simp: ExtendLease_def Let_def intro!: jobs_step_frame)
  then have "jobs_step rows (w_jobs (snd (worker_Heartbeat env pid wid w)))"
    using assms(2) by (auto simp: worker_Heartbeat_def Let_def split: sum.splits)
  then show ?thesis using assms worker_Heartbeat_inv by (simp add: touchRegisteredWorker_def)
qed

lemma good_Heartbeat: "world_inv w \<Longrightarrow> good_step w (snd (worker_Heartbeat env pid wid w))"
  using touch_good [of w "w_jobs w" env pid wid] worker_Heartbeat_inv [of w env pid wid]
  by (cases "wid = []") (auto simp: touchRegisteredWorker_def good_step_def worker_Heartbeat_def Let_def
      ExtendLease_def split: sum.splits)

lemma good_attemptClaim:
  assumes "world_inv w"
  shows "good_step w (snd (attemptClaim env d req w))"
proof -
  have "good_step w (touchRegisteredWorker env pid wid (w\<lparr>w_jobs := rows\<rparr>)) \<and> good_step w (w\<lparr>w_jobs := rows\<rparr>)"
    if "ClaimPending pid' qn wid' n now (w_jobs w) = (claimed, rows)" for pid wid pid' qn wid' n now claimed rows
  proof -
    have "world_inv (w\<lparr>w_jobs := rows\<rparr>)" "jobs_step (w_jobs w) rows"
      using that assms jobs_inv_ClaimPending [OF world_invD(1) [OF assms], of pid' qn wid' n now]
        jobs_step_claim [OF world_invD(1) [OF assms], of pid' qn wid' n now]
      by (auto simp: world_inv_def)
    then show ?thesis using touch_good [of "w\<lparr>w_jobs := rows\<rparr>" "w_jobs w"] by (auto simp: good_step_def)
  qed
  then show ?thesis using assms
    by (auto simp: attemptClaim_def Let_def good_step_def split: prod.splits)
qed

subsection \<open>Maintenance steps\<close>

lemma jobs_step_reclaim:
  assumes "jobs_inv rows"
  shows "jobs_step rows (snd (ReclaimExpired_job now limit dv queues tenants rows))"
proof -
  let ?sel = "take (nat (if limit \<le> 0 then 500 else limit)) (sort_key job_StartedAt
     (List.filter (lease_expired now (if dv \<le> 0 then 30 * second else dv) queues tenants) rows))"
  have sub: "set ?sel \<subseteq> {j \<in> set rows. lease_expired now (if dv \<le> 0 then 30 * second else dv) queues tenants j}"
    by (rule set_take_sort)
  have "jobs_step rows (update_where (\<lambda>j. job_ID j \<in> set (List.map job_ID ?sel)) (reclaim_row now) rows)"
  proof (rule jobs_step_update)
    fix r assume r: "r \<in> set rows" "job_ID r \<in> set (List.map job_ID ?sel)"
    then have "r \<in> set ?sel" using selected_ids [OF jobs_invD(1) [OF assms] subset_trans [OF sub], of r] by auto
    then show "row_step r (reclaim_row now r)" using sub by (intro row_step_marks) (auto simp: lease_expired_def)
  qed
  then show ?thesis by (simp add: ReclaimExpired_job_def Let_def)
qed

lemma good_ReclaimExpired: "world_inv w \<Longrightarrow> good_step w (snd (router_ReclaimExpired env d limit w))"
  using jobs_step_reclaim [OF world_invD(1), of w] jobs_inv_ReclaimExpired [OF world_invD(1), of w]
  by (auto simp: router_ReclaimExpired_def Let_def good_step_def world_inv_def case_prod_unfold)

text \<open>The promotion loop works on the jobs as they were read; each iteration touches one row, and the
  rows still to come are as they were.\<close>

lemma jobs_step_one:
  assumes "jobs_step rows0 rows1" "j \<in> set rows0" "distinct (List.map job_ID rows0)" "row_step j b"
  shows "jobs_step rows0 (update_where (\<lambda>x. x = j) (\<lambda>_. b) rows1)"
proof -
  have "\<exists>c\<in>set (update_where (\<lambda>x. x = j) (\<lambda>_. b) rows1). row_step a c" if a: "a \<in> set rows0" for a
  proof -
    obtain c where c: "c \<in> set rows1" "row_step a c" using assms(1) a by (auto simp: jobs_step_def)
    show ?thesis
    proof (cases "c = j")
      case True
      then have "a = j" using c a assms(2,3) key_unique [of job_ID rows0 a j] by (auto simp: row_step_def same_key_def)
      then show ?thesis using assms(4) c True by (auto simp: set_update_where)
    qed (use c in \<open>auto simp: set_update_where\<close>)
  qed
  moreover have "(\<exists>a\<in>set rows0. row_step a c) \<or> (fresh_row c \<and> job_ID c \<notin> job_ID ` set rows0)"
    if "c \<in> set (update_where (\<lambda>x. x = j) (\<lambda>_. b) rows1)" for c
    using that assms(1,2,4) by (auto simp: set_update_where jobs_step_def split: if_splits)
  ultimately show ?thesis by (simp add: jobs_step_def)
qed

lemma update_where_twice:
  assumes "distinct (List.map job_ID rows)" "j \<in> set rows" "job_ID b = job_ID j"
  shows "update_where (\<lambda>x. x = b) (\<lambda>_. c) (update_where (\<lambda>x. x = j) (\<lambda>_. b) rows)
       = update_where (\<lambda>x. x = j) (\<lambda>_. c) rows"
proof -
  have "\<forall>y\<in>set rows. job_ID y = job_ID j \<longrightarrow> y = j" using key_unique [OF assms(1) _ assms(2)] by blast
  then show ?thesis using assms(3) by (auto simp: update_where_def)
qed

lemma promote_effect:
  assumes "world_inv w" "j \<in> set (w_jobs w)" "job_Status j = StatusScheduled"
  shows "\<exists>b. w_jobs (promote_job env j w) = update_where (\<lambda>x. x = j) (\<lambda>_. b) (w_jobs w) \<and> row_step j b
     \<and> job_ok b \<and> same_key b j \<and> w_queues (promote_job env j w) = w_queues w
     \<and> w_tenants (promote_job env j w) = w_tenants w \<and> w_workers (promote_job env j w) = w_workers w"
proof (cases "\<exists>q w'. FindByProjectAndName (job_ProjectID j) (job_QueueName j) (w_queues w) = Inr q
    \<and> save_job env (CUpdateJob (job_ID j)) (MarkPendingForSchedule (e_now env) j) w = Inr w'
    \<and> IsClaimable (e_now env) j \<and> \<not> e_flt env CFindQueue")
  case False
  then have "promote_job env j w = w"
    using assms(3) by (auto simp: promote_job_def Let_def split: sum.splits)
  moreover have "w_jobs w = update_where (\<lambda>x. x = j) (\<lambda>_. j) (w_jobs w)" by simp
  ultimately show ?thesis using job_ok_row [OF assms(1,2)] by (metis row_step_refl same_key_refl)
next
  case True
  let ?m = "MarkPendingForSchedule (e_now env) j"
  obtain q w' where q: "FindByProjectAndName (job_ProjectID j) (job_QueueName j) (w_queues w) = Inr q"
    "save_job env (CUpdateJob (job_ID j)) ?m w = Inr w'" "IsClaimable (e_now env) j" "\<not> e_flt env CFindQueue"
    using True by blast
  have pr: "promote_job env j w = snd (snd (publishToBroker env q ?m w'))"
    using q assms(3) by (simp add: promote_job_def Let_def)
  have m: "job_ok ?m" "row_step j ?m" "same_key ?m j"
    using job_ok_row [OF assms(1,2)] assms(3) by (auto intro: job_ok_marks row_step_marks)
  have w': "w' = w\<lparr>w_jobs := update_where (\<lambda>x. x = j) (\<lambda>_. ?m) (w_jobs w)\<rparr>"
    using save_job_effect [OF assms(1,2) m(3) q(2)] .
  have g: "good_step w w' \<and> ?m \<in> set (w_jobs w')"
    using good_save [OF assms(1,2) m(3,1,2) q(2)] by blast
  obtain b where b: "w_jobs (promote_job env j w) = update_where (\<lambda>x. x = ?m) (\<lambda>_. b) (w_jobs w')"
    "b = ?m \<or> b = ?m\<lparr>job_BrokerSequence := e_brokerSeq env\<rparr>"
    using publish_effect [of w' ?m env q] g unfolding pr good_step_def by blast
  have "w_jobs (promote_job env j w) = update_where (\<lambda>x. x = j) (\<lambda>_. b) (w_jobs w)"
    unfolding b(1) w' using update_where_twice [OF jobs_invD(1) [OF world_invD(1) [OF assms(1)]] assms(2), of ?m b]
    by simp
  moreover have "row_frame ?m b" using b(2) by auto
  then have "row_step j b" "same_key b j" using row_step_frame m(2,3) by (auto simp: row_frame_def same_key_def)
  moreover have "job_ok b" using b(2) m(1) job_ok_fields(1) by auto
  ultimately show ?thesis by (auto simp: pr w')
qed

lemma promote_fold:
  assumes "world_inv w" "jobs_step rows0 (w_jobs w)" "distinct (List.map job_ID rows0)" "distinct js"
    and "\<forall>j\<in>set js. j \<in> set rows0 \<and> j \<in> set (w_jobs w) \<and> job_Status j = StatusScheduled"
  shows "world_inv (fold (promote_job env) js w) \<and> jobs_step rows0 (w_jobs (fold (promote_job env) js w))"
  using assms(1,2,4,5)
proof (induction js arbitrary: w)
  case (Cons j js)
  let ?w = "promote_job env j w"
  obtain b where b: "w_jobs ?w = update_where (\<lambda>x. x = j) (\<lambda>_. b) (w_jobs w)" "row_step j b" "job_ok b"
    "same_key b j" "w_queues ?w = w_queues w" "w_tenants ?w = w_tenants w" "w_workers ?w = w_workers w"
    using promote_effect [of w j env] Cons.prems by auto
  have "jobs_inv (w_jobs ?w)" unfolding b(1) using Cons.prems(1) b(3,4) by (auto intro!: jobs_inv_update_where)
  then have "world_inv ?w" using Cons.prems(1) b by (auto simp: world_inv_def)
  moreover have "jobs_step rows0 (w_jobs ?w)"
    unfolding b(1) using jobs_step_one [OF Cons.prems(2) _ assms(3) b(2)] Cons.prems(4) by simp
  moreover have "\<forall>x\<in>set js. x \<in> set rows0 \<and> x \<in> set (w_jobs ?w) \<and> job_Status x = StatusScheduled"
    unfolding b(1) using Cons.prems(3,4) by (auto simp: set_update_where)
  ultimately show ?case using Cons.IH [of ?w] Cons.prems(3) by simp
qed simp

lemma good_PublishDueScheduled:
  assumes "world_inv w"
  shows "good_step w (snd (PublishDueScheduled env w))"
proof -
  let ?due = "FindDueScheduled 100 (e_now env) (w_queues w) (w_tenants w) (w_jobs w)"
  have d: "distinct (List.map job_ID (w_jobs w))" using jobs_invD(1) assms by blast
  then have "distinct ?due" by (simp add: FindDueScheduled_def Let_def distinct_map)
  moreover have "set ?due \<subseteq> {j \<in> set (w_jobs w). job_Status j = StatusScheduled}"
    unfolding FindDueScheduled_def Let_def using set_take_sort by fastforce
  ultimately show ?thesis
    using promote_fold [OF assms jobs_step_refl d] assms by (auto simp: PublishDueScheduled_def good_step_def)
qed

end
