(* ===== verification/JobAdmin.thy ===== *)
theory JobAdmin
  imports QueueRouter
begin

text \<open>
  \<open>internal/application/service/queue/job/service.go\<close>: the job operations of the control API.
\<close>

definition job_Get :: "env \<Rightarrow> project_id \<Rightarrow> string \<Rightarrow> ulid \<Rightarrow> world \<Rightarrow> qerr + job" where
  "job_Get env pid qn jobID w =
     (if e_flt env CFindJob then Inl (CallErr CFindJob)
      else case FindByID pid qn jobID (w_jobs w) of
             Inl _ \<Rightarrow> Inl (JobErr ErrNotFound)
           | Inr j \<Rightarrow> Inr j)"

definition job_List :: "env \<Rightarrow> list_filter \<Rightarrow> world \<Rightarrow> qerr + job list" where
  "job_List env flt w = (if e_flt env CFindJob then Inl (CallErr CFindJob) else Inr (List_jobs flt (w_jobs w)))"

definition all_statuses :: "status list" where
  "all_statuses = [StatusPending, StatusScheduled, StatusRunning, StatusCompleted, StatusFailed,
     StatusCancelled, StatusDLQ]"

definition job_CountByStatus :: "env \<Rightarrow> project_id \<Rightarrow> string \<Rightarrow> world \<Rightarrow> qerr + (status \<Rightarrow> nat)" where
  "job_CountByStatus env pid qn w =
     (if e_flt env CCountJobs then Inl (CallErr CCountJobs)
      else Inr (fold (\<lambda>s counts. counts(s := CountByStatus pid qn s (w_jobs w))) all_statuses (\<lambda>_. 0)))"

definition job_Cancel :: "env \<Rightarrow> project_id \<Rightarrow> string \<Rightarrow> ulid \<Rightarrow> world \<Rightarrow> (qerr + job) \<times> world" where
  "job_Cancel env pid qn jobID w =
     (case AssertQueueWritable (e_flt env) pid qn w of
        Inl e \<Rightarrow> (Inl e, w)
      | Inr _ \<Rightarrow>
          if e_flt env CFindJob then (Inl (CallErr CFindJob), w)
          else case FindByID pid qn jobID (w_jobs w) of
                 Inl _ \<Rightarrow> (Inl (JobErr ErrNotFound), w)
               | Inr j0 \<Rightarrow>
                   if job_Status j0 = StatusCompleted \<or> job_Status j0 = StatusCancelled \<or> job_Status j0 = StatusDLQ
                   then (Inl (JobErr ErrInvalidTransition), w)
                   else let j = MarkCancelled (e_now env) j0
                        in case save_job env (CUpdateJob (job_ID j)) j w of
                             Inl e \<Rightarrow> (Inl e, w)
                           | Inr w \<Rightarrow> (Inr j, w))"

definition job_Retry :: "env \<Rightarrow> project_id \<Rightarrow> string \<Rightarrow> ulid \<Rightarrow> world \<Rightarrow> (qerr + job) \<times> world" where
  "job_Retry env pid qn jobID w =
     (case AssertQueueWritable (e_flt env) pid qn w of
        Inl e \<Rightarrow> (Inl e, w)
      | Inr _ \<Rightarrow>
          if e_flt env CFindJob then (Inl (CallErr CFindJob), w)
          else case FindByID pid qn jobID (w_jobs w) of
                 Inl _ \<Rightarrow> (Inl (JobErr ErrNotFound), w)
               | Inr j0 \<Rightarrow>
                   if job_Status j0 \<noteq> StatusFailed \<and> job_Status j0 \<noteq> StatusDLQ
                   then (Inl (JobErr ErrInvalidTransition), w)
                   else let j = MarkRetryFromControl (e_now env) j0
                        in case save_job env (CUpdateJob (job_ID j)) j w of
                             Inl e \<Rightarrow> (Inl e, w)
                           | Inr w \<Rightarrow> (Inr j, publishQueueLog pid EventQueueJobRetried (job_ID j) w))"

definition job_UpdateProgress ::
    "env \<Rightarrow> project_id \<Rightarrow> string \<Rightarrow> ulid \<Rightarrow> string \<Rightarrow> world \<Rightarrow> (qerr + job) \<times> world" where
  "job_UpdateProgress env pid qn jobID metadata w =
     (case AssertQueueWritable (e_flt env) pid qn w of
        Inl e \<Rightarrow> (Inl e, w)
      | Inr _ \<Rightarrow>
          if e_flt env CFindJob then (Inl (CallErr CFindJob), w)
          else case FindByID pid qn jobID (w_jobs w) of
                 Inl _ \<Rightarrow> (Inl (JobErr ErrNotFound), w)
               | Inr j \<Rightarrow>
                   if IsTerminal j then (Inl (JobErr ErrTerminalJob), w)
                   else if e_flt env CUpdateMeta then (Inl (CallErr CUpdateMeta), w)
                   else (Inr (j\<lparr>job_Metadata := metadata\<rparr>),
                         w\<lparr>w_jobs := UpdateMetadata pid qn jobID metadata (e_now env) (w_jobs w)\<rparr>))"

lemma good_job_Cancel: "world_inv w \<Longrightarrow> good_step w (snd (job_Cancel env pid qn i w))"
  by (auto simp: job_Cancel_def Let_def split: sum.splits
      dest!: FindByID_Inr good_marked_save [where f = "MarkCancelled (e_now env)"]
      intro: job_ok_marks row_step_cancel)

lemma good_job_Retry: "world_inv w \<Longrightarrow> good_step w (snd (job_Retry env pid qn i w))"
  by (auto simp: job_Retry_def Let_def split: sum.splits
      dest!: FindByID_Inr good_marked_save [where f = "MarkRetryFromControl (e_now env)"]
      intro: job_ok_marks row_step_retry)

lemma good_job_UpdateProgress:
  assumes "world_inv w"
  shows "good_step w (snd (job_UpdateProgress env pid qn i m w))"
proof -
  have "jobs_step (w_jobs w) (UpdateMetadata pid qn i m t (w_jobs w))" for t
    unfolding UpdateMetadata_def by (intro jobs_step_update row_step_marks)
  then show ?thesis using assms
    by (auto simp: job_UpdateProgress_def good_step_def world_inv_def jobs_inv_UpdateMetadata split: sum.splits)
qed

lemma all_statuses_complete: "s \<in> set all_statuses"
  by (cases s) (simp_all add: all_statuses_def)

lemma fold_counts:
  "fold (\<lambda>s counts. counts(s := f s)) xs g s = (if s \<in> set xs then f s else g s)"
  by (induction xs arbitrary: g) auto

text \<open>The status counts are complete: they are the numbers of the queue's jobs per status, and add
  up to the number of jobs of the queue.\<close>

lemma count_by_status_total:
  assumes "job_CountByStatus env pid qn w = Inr counts"
  shows "(\<Sum>s\<leftarrow>all_statuses. counts s) = CountByQueue pid qn (w_jobs w)
    \<and> counts s = length (List.filter (\<lambda>j. same_queue pid qn j \<and> job_Status j = s) (w_jobs w))"
proof
  have c: "counts s = CountByStatus pid qn s (w_jobs w)" for s
    using assms all_statuses_complete by (auto simp: job_CountByStatus_def fold_counts split: if_splits)
  show "counts s = length (List.filter (\<lambda>j. same_queue pid qn j \<and> job_Status j = s) (w_jobs w))"
    by (simp add: c CountByStatus_def)
  have "(\<Sum>s\<leftarrow>all_statuses. CountByStatus pid qn s rows) = CountByQueue pid qn rows" for rows
  proof (induction rows)
    case (Cons j rows)
    then show ?case
      by (cases "job_Status j") (auto simp: CountByStatus_def CountByQueue_def all_statuses_def)
  qed (simp add: CountByStatus_def CountByQueue_def all_statuses_def)
  then show "(\<Sum>s\<leftarrow>all_statuses. counts s) = CountByQueue pid qn (w_jobs w)" by (simp add: c)
qed

end
