(* ===== verification/Cleanup.thy ===== *)
theory Cleanup
  imports QueueServices
begin

text \<open>
  \<open>internal/application/service/queue/cleanup/service.go\<close>: deletion of queues and tenants, the purge
  of old terminal jobs and of stale workers.  The batch loops run until a batch deletes nothing; they
  are total functions here, which is the proof that they end.  A cascade that the code starts in a
  goroutine is an operation of its own.  Of the API keys only identifier and project matter here.
\<close>

record cleanup_config =
  cfg_BatchSize :: int
  cfg_JobSuccessRetention :: int
  cfg_JobFailureRetention :: int
  cfg_WorkerStaleDelete :: int

definition defaultBatchSize :: int where "defaultBatchSize = 1000"

definition batchSize :: "cleanup_config \<Rightarrow> int" where
  "batchSize cfg = (if cfg_BatchSize cfg > 0 then cfg_BatchSize cfg else defaultBatchSize)"

section \<open>Batch loops\<close>

text \<open>\<open>for { n := delete(batch); if n == 0 { break } }\<close>\<close>

function purge_loop :: "(job \<Rightarrow> bool) \<Rightarrow> int \<Rightarrow> jobs \<Rightarrow> jobs" where
  "purge_loop P batch rows =
     (let (n, rows') = delete_rows P batch rows in if n = 0 then rows' else purge_loop P batch rows')"
  by auto
termination
  by (relation "measure (\<lambda>(P, batch, rows). length rows)") (auto simp: delete_rows_def Let_def)

declare purge_loop.simps [simp del]

lemma delete_rows_fst: "fst (delete_rows P batch rows) =
  min (nat (if batch \<le> 0 then 1000 else batch)) (length (List.filter P rows))"
  using delete_limited_length [of P "nat (if batch \<le> 0 then 1000 else batch)" rows]
  by (simp add: delete_rows_def Let_def)

lemma delete_limited_rest:
  "List.filter (\<lambda>j. \<not> P j) (delete_limited P n rows) = List.filter (\<lambda>j. \<not> P j) rows"
  by (induction rows arbitrary: n) auto

lemma purge_loop_eq: "purge_loop P batch rows = List.filter (\<lambda>j. \<not> P j) rows"
proof (induction P batch rows rule: purge_loop.induct)
  case (1 P batch rows)
  let ?n = "fst (delete_rows P batch rows)" and ?rows = "snd (delete_rows P batch rows)"
  have rest: "List.filter (\<lambda>j. \<not> P j) ?rows = List.filter (\<lambda>j. \<not> P j) rows"
    by (simp add: delete_rows_def Let_def delete_limited_rest)
  show ?case
  proof (cases "?n = 0")
    case True
    then have "List.filter P rows = []" by (auto simp: delete_rows_fst min_def split: if_splits)
    then have "?rows = List.filter (\<lambda>j. \<not> P j) rows"
      by (simp add: delete_rows_def Let_def delete_limited_all)
    then show ?thesis using True by (simp add: purge_loop.simps case_prod_unfold)
  next
    case False
    then show ?thesis using 1 [OF refl prod.collapse] rest
      by (simp add: purge_loop.simps [of P batch rows] case_prod_unfold)
  qed
qed

definition PurgeTerminalJobs :: "cleanup_config \<Rightarrow> env \<Rightarrow> bool \<Rightarrow> world \<Rightarrow> (qerr + unit) \<times> world" where
  "PurgeTerminalJobs cfg env ctxDone w =
     (if ctxDone then (Inl ContextDone, w)
      else if e_flt env CPurge then (Inl (CallErr CPurge), w)
      else let successCutoff = e_now env - cfg_JobSuccessRetention cfg;
               failureCutoff = e_now env - cfg_JobFailureRetention cfg;
               rows = purge_loop (terminal_before [StatusCompleted, StatusCancelled] successCutoff) (batchSize cfg) (w_jobs w);
               rows = purge_loop (terminal_before [StatusFailed, StatusDLQ] failureCutoff) (batchSize cfg) rows
           in (Inr (), w\<lparr>w_jobs := rows\<rparr>))"

section \<open>Workers\<close>

fun purge_workers :: "env \<Rightarrow> worker list \<Rightarrow> nat \<Rightarrow> world \<Rightarrow> (qerr + nat) \<times> world" where
  "purge_workers env [] removed w = (Inr removed, w)"
| "purge_workers env (wk # ws) removed w =
     (if e_flt env CHasRunning then (Inl (CallErr CHasRunning), w)
      else if HasRunningJobs (worker_ProjectID wk) (worker_ID wk) (w_jobs w) then purge_workers env ws removed w
      else if e_flt env CDeleteWorker then (Inl (CallErr CDeleteWorker), w)
      else purge_workers env ws (removed + 1)
             (w\<lparr>w_workers := Delete_worker (worker_ProjectID wk) (worker_ID wk) (w_workers w)\<rparr>))"

definition PurgeStaleWorkers :: "cleanup_config \<Rightarrow> env \<Rightarrow> bool \<Rightarrow> world \<Rightarrow> (qerr + nat) \<times> world" where
  "PurgeStaleWorkers cfg env ctxDone w =
     (if ctxDone then (Inl ContextDone, w)
      else if e_flt env CListStale then (Inl (CallErr CListStale), w)
      else purge_workers env (ListStale (e_now env - cfg_WorkerStaleDelete cfg) (batchSize cfg) (w_workers w)) 0 w)"

fun detach_loop :: "env \<Rightarrow> string \<Rightarrow> worker list \<Rightarrow> world \<Rightarrow> (qerr + unit) \<times> world" where
  "detach_loop env qn [] w = (Inr (), w)"
| "detach_loop env qn (wk # ws) w =
     (let updated = RemoveQueue (worker_Queues wk) qn
      in if updated = worker_Queues wk then detach_loop env qn ws w
         else if e_flt env CUpdateWorker then (Inl (CallErr CUpdateWorker), w)
         else detach_loop env qn ws
                (w\<lparr>w_workers := Update_worker (wk\<lparr>worker_Queues := updated, worker_UpdatedAt := e_now env\<rparr>) (w_workers w)\<rparr>))"

definition detachQueueFromWorkers :: "env \<Rightarrow> project_id \<Rightarrow> string \<Rightarrow> world \<Rightarrow> (qerr + unit) \<times> world" where
  "detachQueueFromWorkers env pid qn w =
     (if e_flt env CListWorkers then (Inl (CallErr CListWorkers), w)
      else detach_loop env qn (ListByProject_worker pid (w_workers w)) w)"

section \<open>Cascades\<close>

definition DeleteStream :: "env \<Rightarrow> string \<Rightarrow> world \<Rightarrow> world" where
  "DeleteStream env subject w = (if e_flt env CDeleteStream then w else w\<lparr>w_streams := w_streams w - {subject}\<rparr>)"

definition cascadeQueue :: "cleanup_config \<Rightarrow> env \<Rightarrow> bool \<Rightarrow> project_id \<Rightarrow> string \<Rightarrow> world \<Rightarrow> (qerr + unit) \<times> world" where
  "cascadeQueue cfg env ctxDone pid qn w =
     (if ctxDone then (Inl ContextDone, w)
      else if e_flt env CDeleteJobs then (Inl (CallErr CDeleteJobs), w)
      else let w = w\<lparr>w_jobs := purge_loop (same_queue pid qn) (batchSize cfg) (w_jobs w)\<rparr>
           in case detachQueueFromWorkers env pid qn w of
                (Inl e, w) \<Rightarrow> (Inl e, w)
              | (Inr _, w) \<Rightarrow>
                  let n = QNewName qn pid;
                      w = DeleteStream env (DLQSubject n) (DeleteStream env (Subject n) w)
                  in if e_flt env CDeleteQueue then (Inl (CallErr CDeleteQueue), w)
                     else (Inr (), w\<lparr>w_queues := Delete_queue pid qn (w_queues w)\<rparr>))"

definition mark_deleting :: "env \<Rightarrow> queue \<Rightarrow> world \<Rightarrow> world" where
  "mark_deleting env q w =
     (if queue_Status q \<noteq> StatusDeleting \<and> \<not> e_flt env CUpdateQueue
      then w\<lparr>w_queues := Update_queue (q\<lparr>queue_Status := StatusDeleting, queue_UpdatedAt := e_now env\<rparr>) (w_queues w)\<rparr>
      else w)"

definition drop_queue :: "env \<Rightarrow> project_id \<Rightarrow> queue \<Rightarrow> world \<Rightarrow> world" where
  "drop_queue env pid q w =
     (let n = QNewName (queue_Name q) pid;
          w = DeleteStream env (DLQSubject n) (DeleteStream env (Subject n) w)
      in w\<lparr>w_queues := Delete_queue pid (queue_Name q) (w_queues w)\<rparr>)"

definition drop_worker :: "project_id \<Rightarrow> worker \<Rightarrow> world \<Rightarrow> world" where
  "drop_worker pid wk w = w\<lparr>w_workers := Delete_worker pid (worker_ID wk) (w_workers w)\<rparr>"

definition drop_keys :: "env \<Rightarrow> project_id \<Rightarrow> world \<Rightarrow> world" where
  "drop_keys env pid w =
     (if e_flt env CDeleteKey then w
      else w\<lparr>w_apikeys := List.filter (\<lambda>(k, p). p \<noteq> pid) (w_apikeys w)\<rparr>)"

definition drop_tenant :: "env \<Rightarrow> project_id \<Rightarrow> world \<Rightarrow> (qerr + unit) \<times> world" where
  "drop_tenant env tid w =
     (let w = (if e_flt env CDeleteLimits then w else w\<lparr>w_limits := DeleteLimits tid (w_limits w)\<rparr>)
      in if e_flt env CDeleteTenant then (Inl (CallErr CDeleteTenant), w)
         else (Inr (), w\<lparr>w_tenants := DeleteTenant tid (w_tenants w)\<rparr>))"

definition cascadeTenant :: "cleanup_config \<Rightarrow> env \<Rightarrow> bool \<Rightarrow> project_id \<Rightarrow> world \<Rightarrow> (qerr + unit) \<times> world" where
  "cascadeTenant cfg env ctxDone tid w =
     (if ctxDone then (Inl ContextDone, w)
      else if e_flt env CListQueues then (Inl (CallErr CListQueues), w)
      else let queues = ListByProject_queue tid (w_queues w);
               w = fold (mark_deleting env) queues w
           in if e_flt env CDeleteJobs then (Inl (CallErr CDeleteJobs), w)
              else let w = w\<lparr>w_jobs := purge_loop (\<lambda>j. job_ProjectID j = tid) (batchSize cfg) (w_jobs w)\<rparr>
                   in if e_flt env CListWorkers then (Inl (CallErr CListWorkers), w)
                      else let workers = ListByProject_worker tid (w_workers w)
                           in if workers \<noteq> [] \<and> e_flt env CDeleteWorker then (Inl (CallErr CDeleteWorker), w)
                              else let w = fold (drop_worker tid) workers w
                                   in if queues \<noteq> [] \<and> e_flt env CDeleteQueue
                                      then (Inl (CallErr CDeleteQueue),
                                            DeleteStream env (DLQSubject (QNewName (queue_Name (hd queues)) tid))
                                              (DeleteStream env (Subject (QNewName (queue_Name (hd queues)) tid)) w))
                                      else let w = fold (drop_queue env tid) queues w
                                           in if e_flt env CListKeys then (Inl (CallErr CListKeys), w)
                                              else drop_tenant env tid (drop_keys env tid w))"

section \<open>Requests\<close>

text \<open>The boolean of the result says whether the queue is gone; \<^const>\<open>True\<close> as the third component that
  a cascade was started in the background.\<close>

definition RequestDeleteQueue ::
    "cleanup_config \<Rightarrow> env \<Rightarrow> bool \<Rightarrow> project_id \<Rightarrow> string \<Rightarrow> bool \<Rightarrow> world \<Rightarrow> (qerr + bool) \<times> bool \<times> world" where
  "RequestDeleteQueue cfg env ctxDone pid qn force w =
     (if e_flt env CFindQueue then (Inl (CallErr CFindQueue), False, w)
      else case FindByProjectAndName pid qn (w_queues w) of
             Inl _ \<Rightarrow> (Inl (QueueErr ErrQueueNotFound), False, w)
           | Inr q \<Rightarrow>
               if queue_Status q = StatusDeleting then (Inr False, False, w)
               else if e_flt env CCountJobs then (Inl (CallErr CCountJobs), False, w)
               else let active = CountActiveByQueue pid qn (w_jobs w)
                    in if active > 0 \<and> \<not> force then (Inl (QueueErr ErrActiveJobs), False, w)
                       else if e_flt env CUpdateQueue then (Inl (CallErr CUpdateQueue), False, w)
                       else let w = w\<lparr>w_queues := Update_queue
                                 (q\<lparr>queue_Status := StatusDeleting, queue_UpdatedAt := e_now env\<rparr>) (w_queues w)\<rparr>
                            in if force \<and> active > 0 \<and> e_flt env CForceCancel
                               then (Inl (CallErr CForceCancel), False, w)
                               else let w = (if force \<and> active > 0
                                        then w\<lparr>w_jobs := snd (ForceCancelActiveByQueue pid qn (e_now env) (w_jobs w))\<rparr>
                                        else w)
                                    in if CountByQueue pid qn (w_jobs w) = 0 then
                                         (case cascadeQueue cfg env ctxDone pid qn w of
                                            (Inl e, w) \<Rightarrow> (Inl e, False, w)
                                          | (Inr _, w) \<Rightarrow> (Inr True, False, w))
                                       else (Inr False, True, w))"

definition RequestDeleteTenant :: "env \<Rightarrow> project_id \<Rightarrow> world \<Rightarrow> (qerr + unit) \<times> bool \<times> world" where
  "RequestDeleteTenant env tid w =
     (if e_flt env CFindTenant then (Inl (CallErr CFindTenant), False, w)
      else case FindTenant tid (w_tenants w) of
             None \<Rightarrow> (Inl TenantNotFound, False, w)
           | Some t \<Rightarrow>
               if tenant_Status t = StatusDeleting then (Inr (), False, w)
               else if e_flt env CUpdateTenant then (Inl (CallErr CUpdateTenant), False, w)
               else (Inr (), True, w\<lparr>w_tenants := UpdateTenant
                      (t\<lparr>tenant_Status := StatusDeleting, tenant_UpdatedAt := e_now env\<rparr>) (w_tenants w)\<rparr>))"

definition ResumePendingCascades :: "cleanup_config \<Rightarrow> env \<Rightarrow> bool \<Rightarrow> world \<Rightarrow> (qerr + unit) \<times> world" where
  "ResumePendingCascades cfg env ctxDone w =
     (if e_flt env CListDeleting then (Inl (CallErr CListDeleting), w)
      else let w = fold (\<lambda>q w. snd (cascadeQueue cfg env ctxDone (queue_ProjectID q) (queue_Name q) w))
                     (ListDeleting_queue (batchSize cfg) (w_queues w)) w;
               w = fold (\<lambda>t w. snd (cascadeTenant cfg env ctxDone (tenant_ID t) w))
                     (ListDeleting_tenant (batchSize cfg) (w_tenants w)) w
           in (Inr (), w))"

section \<open>Properties\<close>

lemma jobs_inv_filter [inv_intros]: "jobs_inv rows \<Longrightarrow> jobs_inv (List.filter P rows)"
  by (auto simp: jobs_inv_def intro: table_inv_filter idem_unique_subset)

lemma PurgeTerminalJobs_inv: "world_inv w \<Longrightarrow> world_inv (snd (PurgeTerminalJobs cfg env d w))"
  by (auto simp: PurgeTerminalJobs_def Let_def purge_loop_eq world_inv_def intro!: jobs_inv_filter)

lemma purge_workers_inv: "world_inv w \<Longrightarrow> world_inv (snd (purge_workers env ws n w))"
  by (induction ws arbitrary: n w) (auto simp: world_inv_def workers_inv_ops)

lemma PurgeStaleWorkers_inv: "world_inv w \<Longrightarrow> world_inv (snd (PurgeStaleWorkers cfg env d w))"
  by (simp add: PurgeStaleWorkers_def purge_workers_inv)

lemma detach_loop_inv: "world_inv w \<Longrightarrow> world_inv (snd (detach_loop env qn ws w))"
  by (induction ws arbitrary: w) (auto simp: world_inv_def Let_def workers_inv_ops)

lemma detach_loop_frame [simp]:
  "w_jobs (snd (detach_loop env qn ws w)) = w_jobs w" "w_queues (snd (detach_loop env qn ws w)) = w_queues w"
  "w_tenants (snd (detach_loop env qn ws w)) = w_tenants w"
  by (induction ws arbitrary: w) (auto simp: Let_def)

lemma DeleteStream_frame [simp]:
  "w_jobs (DeleteStream env subj w) = w_jobs w" "w_queues (DeleteStream env subj w) = w_queues w"
  "w_tenants (DeleteStream env subj w) = w_tenants w" "w_workers (DeleteStream env subj w) = w_workers w"
  "world_inv (DeleteStream env subj w) = world_inv w"
  by (simp_all add: DeleteStream_def world_inv_def)

lemma detach_frame [simp]:
  "w_jobs (snd (detachQueueFromWorkers env pid qn w)) = w_jobs w"
  "w_queues (snd (detachQueueFromWorkers env pid qn w)) = w_queues w"
  "w_tenants (snd (detachQueueFromWorkers env pid qn w)) = w_tenants w"
  "world_inv w \<Longrightarrow> world_inv (snd (detachQueueFromWorkers env pid qn w))"
  by (simp_all add: detachQueueFromWorkers_def detach_loop_inv)

lemma detach_state:
  "detachQueueFromWorkers env pid qn w = (r, w') \<Longrightarrow>
   w_jobs w' = w_jobs w \<and> w_queues w' = w_queues w \<and> w_tenants w' = w_tenants w \<and> (world_inv w \<longrightarrow> world_inv w')"
  using detach_frame(1-3) [of env pid qn w] detach_frame(4) [of w env pid qn] by auto

lemma cascadeQueue_jobs:
  "w_jobs (snd (cascadeQueue cfg env d pid qn w)) =
   (if d \<or> e_flt env CDeleteJobs then w_jobs w else List.filter (\<lambda>j. \<not> same_queue pid qn j) (w_jobs w))"
  by (auto simp: cascadeQueue_def Let_def purge_loop_eq split: prod.splits sum.splits dest!: detach_state)

lemma cascadeQueue_queues:
  "fst (cascadeQueue cfg env d pid qn w) = Inr u \<Longrightarrow>
   w_queues (snd (cascadeQueue cfg env d pid qn w)) = Delete_queue pid qn (w_queues w)"
  by (auto simp: cascadeQueue_def Let_def split: prod.splits sum.splits if_splits dest!: detach_state)

lemma cascadeQueue_inv: "world_inv w \<Longrightarrow> world_inv (snd (cascadeQueue cfg env d pid qn w))"
proof -
  assume inv: "world_inv w"
  let ?w = "w\<lparr>w_jobs := purge_loop (same_queue pid qn) (batchSize cfg) (w_jobs w)\<rparr>"
  have "world_inv ?w" using inv by (auto simp: purge_loop_eq world_inv_def intro: jobs_inv_filter)
  then show ?thesis using inv
    by (auto simp: cascadeQueue_def Let_def world_inv_def queues_inv_Delete split: prod.splits sum.splits dest!: detach_state)
qed

lemma mark_deleting_inv:
  assumes "world_inv w" "q \<in> set (w_queues w)"
  shows "world_inv (mark_deleting env q w)"
proof -
  have "queues_inv (Update_queue (q\<lparr>queue_Status := StatusDeleting, queue_UpdatedAt := e_now env\<rparr>) (w_queues w))"
    by (rule queues_inv_Update) (use assms in \<open>auto simp: queue_key_def\<close>)
  then show ?thesis using assms(1) by (auto simp: mark_deleting_def world_inv_def)
qed

lemma mark_deleting_other:
  "x \<in> set (w_queues w) \<Longrightarrow> queue_ID x \<noteq> queue_ID q \<Longrightarrow> x \<in> set (w_queues (mark_deleting env q w))"
  by (auto simp: mark_deleting_def Update_queue_def intro: other_save_row)

lemma mark_all_inv:
  "world_inv w \<Longrightarrow> set qs \<subseteq> set (w_queues w) \<Longrightarrow> distinct (List.map queue_ID qs) \<Longrightarrow>
   world_inv (fold (mark_deleting env) qs w)"
proof (induction qs arbitrary: w)
  case (Cons q qs)
  have "set qs \<subseteq> set (w_queues (mark_deleting env q w))"
  proof
    fix x assume x: "x \<in> set qs"
    then have "queue_ID x \<noteq> queue_ID q" using Cons.prems(3) by (auto simp: image_iff)
    then show "x \<in> set (w_queues (mark_deleting env q w))"
      using mark_deleting_other Cons.prems(2) x by auto
  qed
  moreover have "world_inv (mark_deleting env q w)" using Cons.prems(1,2) mark_deleting_inv by simp
  ultimately show ?case using Cons by simp
qed simp

lemma fold_world_inv: "(\<And>x w. world_inv w \<Longrightarrow> world_inv (f x w)) \<Longrightarrow> world_inv w \<Longrightarrow> world_inv (fold f xs w)"
  by (induction xs arbitrary: w) auto

lemma drops_inv:
  "world_inv w \<Longrightarrow> world_inv (drop_worker pid wk w)" "world_inv w \<Longrightarrow> world_inv (drop_queue env pid q w)"
  "world_inv w \<Longrightarrow> world_inv (drop_keys env pid w)" "world_inv w \<Longrightarrow> world_inv (snd (drop_tenant env pid w))"
  by (auto simp: drop_worker_def drop_queue_def drop_keys_def drop_tenant_def Let_def world_inv_def
      workers_inv_ops queues_inv_Delete tenants_inv_Delete)

lemma cascadeTenant_inv:
  assumes "world_inv w"
  shows "world_inv (snd (cascadeTenant cfg env d tid w))"
proof -
  let ?qs = "ListByProject_queue tid (w_queues w)"
  have "distinct (List.map queue_ID (w_queues w))" using assms by (auto simp: world_inv_def queues_inv_def table_inv_def)
  then have "distinct (List.map queue_ID ?qs)"
    by (auto simp: ListByProject_queue_def distinct_map intro: inj_on_subset)
  then have m: "world_inv (fold (mark_deleting env) ?qs w)"
    by (intro mark_all_inv [OF assms]) (auto simp: ListByProject_queue_def)
  have j: "world_inv (w'\<lparr>w_jobs := purge_loop P b (w_jobs w')\<rparr>)" if "world_inv w'" for w' P b
    using that by (auto simp: purge_loop_eq world_inv_def intro: jobs_inv_filter)
  show ?thesis
    using assms m j [OF m] unfolding cascadeTenant_def Let_def
    by (auto intro!: drops_inv fold_world_inv)
qed

lemma update_row_inv:
  assumes "world_inv w" "FindByProjectAndName pid qn (w_queues w) = Inr q"
  shows "world_inv (w\<lparr>w_queues := Update_queue (q\<lparr>queue_Status := s, queue_UpdatedAt := t\<rparr>) (w_queues w)\<rparr>)"
  by (rule queue_save_inv [OF assms]) (simp_all add: queue_key_def)

lemma RequestDeleteQueue_inv:
  assumes "world_inv w"
  shows "world_inv (snd (snd (RequestDeleteQueue cfg env d pid qn force w)))"
proof (cases "FindByProjectAndName pid qn (w_queues w)")
  case (Inr q)
  let ?w = "w\<lparr>w_queues := Update_queue (q\<lparr>queue_Status := StatusDeleting, queue_UpdatedAt := e_now env\<rparr>) (w_queues w)\<rparr>"
  have u: "world_inv ?w" by (rule update_row_inv [OF assms Inr])
  then have f: "world_inv (?w\<lparr>w_jobs := snd (ForceCancelActiveByQueue pid qn t (w_jobs w))\<rparr>)" for t
    by (auto simp: world_inv_def jobs_inv_ForceCancel)
  have c: "world_inv w2" if "cascadeQueue cfg env d pid qn w1 = (r, w2)" "world_inv w1" for w1 w2 r
    using cascadeQueue_inv [OF that(2), of cfg env d pid qn] that(1) by simp
  show ?thesis
    using assms u f by (auto simp: RequestDeleteQueue_def Inr Let_def split: prod.splits sum.splits dest: c)
qed (use assms in \<open>simp add: RequestDeleteQueue_def\<close>)

lemma tenant_save_inv:
  "world_inv w \<Longrightarrow> FindTenant tid (w_tenants w) = Some t \<Longrightarrow> tenant_ID t' = tenant_ID t \<Longrightarrow>
   world_inv (w\<lparr>w_tenants := UpdateTenant t' (w_tenants w)\<rparr>)"
  using tenants.lookup_ok [of "w_tenants w" tid t] tenants.inv_save [of "w_tenants w" t']
  by (auto simp: world_inv_def UpdateTenant_def UpsertTenant_def tenant_ok_def)

lemma RequestDeleteTenant_inv: "world_inv w \<Longrightarrow> world_inv (snd (snd (RequestDeleteTenant env tid w)))"
  by (auto simp: RequestDeleteTenant_def intro: tenant_save_inv split: option.splits)

lemma ResumePendingCascades_inv: "world_inv w \<Longrightarrow> world_inv (snd (ResumePendingCascades cfg env d w))"
  by (auto simp: ResumePendingCascades_def Let_def intro!: fold_world_inv cascadeTenant_inv cascadeQueue_inv)

text \<open>C10. The purge ends and is exact: afterwards a job is in the table if and only if it was there
  before and is not a terminal job whose terminal time lies before the cut-off of its class (completed
  and cancelled, or failed and dead-lettered); pending, scheduled and running jobs are never purged.\<close>

theorem purge_exact:
  assumes "world_inv w" "PurgeTerminalJobs cfg env False w = (Inr (), w')"
  shows "j \<in> set (w_jobs w') \<longleftrightarrow> j \<in> set (w_jobs w)
    \<and> (active_status (job_Status j)
       \<or> (\<exists>t. job_TerminalAt j = Some t \<and>
            e_now env - (if job_Status j = StatusCompleted \<or> job_Status j = StatusCancelled
                         then cfg_JobSuccessRetention cfg else cfg_JobFailureRetention cfg) \<le> t))"
proof -
  have "w_jobs w' = List.filter (\<lambda>j. \<not> terminal_before [StatusFailed, StatusDLQ] (e_now env - cfg_JobFailureRetention cfg) j)
     (List.filter (\<lambda>j. \<not> terminal_before [StatusCompleted, StatusCancelled] (e_now env - cfg_JobSuccessRetention cfg) j) (w_jobs w))"
    using assms(2) by (auto simp: PurgeTerminalJobs_def Let_def purge_loop_eq split: if_splits)
  moreover have "j \<in> set (w_jobs w) \<Longrightarrow> IsTerminal j \<longleftrightarrow> job_TerminalAt j \<noteq> None"
    using jobs_invD(2) [OF world_invD(1) [OF assms(1)]] by (auto simp: job_ok_def terminal_ok_iff)
  ultimately show ?thesis
    by (cases "job_Status j") (auto simp: terminal_before_def active_status_def IsTerminal_def split: option.splits)
qed

definition sample_cfg :: cleanup_config where
  "sample_cfg = \<lparr>cfg_BatchSize = 1, cfg_JobSuccessRetention = 5, cfg_JobFailureRetention = 50, cfg_WorkerStaleDelete = 3\<rparr>"

definition done_world :: world where
  "done_world = sample_world\<lparr>w_jobs := [MarkCompleted 12 [] (claim_row 1 ''w'' (sample_job ''x'' None 0)),
      MarkDLQ 12 [] (claim_row 1 ''w'' (sample_job ''y'' None 0)), sample_job ''z'' None 0]\<rparr>"

lemma done_world_inv [simp]: "world_inv done_world"
proof -
  have "jobs_inv (w_jobs done_world)"
    by (simp add: done_world_def jobs_inv_def table_inv_def idem_unique_def sample_job_def claim_row_def mark_defs
        job_ok_def terminal_ok_iff IsTerminal_def same_idem_def)
  then show ?thesis using sample_world_inv by (auto simp: done_world_def world_inv_def)
qed

theorem purge_exact_witness:
  "MarkDLQ 12 [] (claim_row 1 ''w'' (sample_job ''y'' None 0)) \<in> set (w_jobs (snd (PurgeTerminalJobs sample_cfg sample_env False done_world)))"
proof -
  have p: "PurgeTerminalJobs sample_cfg sample_env False done_world
    = (Inr (), snd (PurgeTerminalJobs sample_cfg sample_env False done_world))"
    by (simp add: PurgeTerminalJobs_def Let_def)
  show ?thesis
    by (subst purge_exact [OF done_world_inv p])
       (simp add: done_world_def mark_defs claim_row_def sample_job_def sample_cfg_def)
qed

lemma detach_loop_removes:
  assumes "workers_inv (w_workers w)" "fst (detach_loop env qn ws w) = Inr ()"
    and "distinct (List.map worker_ID ws)" "set ws \<subseteq> set (w_workers w)"
    and "\<forall>x\<in>set (w_workers w). worker_ProjectID x = pid \<longrightarrow> qn \<in> set (ParseQueues (worker_Queues x)) \<longrightarrow> x \<in> set ws"
  shows "\<forall>x\<in>set (w_workers (snd (detach_loop env qn ws w))). worker_ProjectID x = pid \<longrightarrow>
           qn \<notin> set (ParseQueues (worker_Queues x))"
  using assms
proof (induction ws arbitrary: w)
  case (Cons wk ws)
  let ?u = "RemoveQueue (worker_Queues wk) qn"
  show ?case
  proof (cases "?u = worker_Queues wk")
    case True
    then have "qn \<notin> set (ParseQueues (worker_Queues wk))" using RemoveQueue_correct [of "worker_Queues wk" qn] by auto
    then have rest: "\<forall>x\<in>set (w_workers w). worker_ProjectID x = pid \<longrightarrow> qn \<in> set (ParseQueues (worker_Queues x)) \<longrightarrow> x \<in> set ws"
      using Cons.prems(5) by auto
    have e: "detach_loop env qn (wk # ws) w = detach_loop env qn ws w" using True by (simp add: Let_def)
    show ?thesis using Cons.prems(2-4) unfolding e by (intro Cons.IH Cons.prems(1) rest) simp_all
  next
    case False
    let ?wk = "wk\<lparr>worker_Queues := ?u, worker_UpdatedAt := e_now env\<rparr>"
    let ?w = "w\<lparr>w_workers := Update_worker ?wk (w_workers w)\<rparr>"
    have nf: "\<not> e_flt env CUpdateWorker" using Cons.prems(2) False by (auto simp: Let_def)
    then have e: "detach_loop env qn (wk # ws) w = detach_loop env qn ws ?w" using False by (simp add: Let_def)
    have "set ws \<subseteq> set (w_workers ?w)"
    proof
      fix x assume x: "x \<in> set ws"
      then have "worker_ID x \<noteq> worker_ID ?wk" using Cons.prems(3) by (auto simp: image_iff)
      then show "x \<in> set (w_workers ?w)"
        using Cons.prems(4) x by (auto simp: Update_worker_def intro: other_save_row)
    qed
    moreover have "\<forall>x\<in>set (w_workers ?w). worker_ProjectID x = pid \<longrightarrow> qn \<in> set (ParseQueues (worker_Queues x)) \<longrightarrow> x \<in> set ws"
    proof (intro ballI impI)
      fix x assume x: "x \<in> set (w_workers ?w)" "worker_ProjectID x = pid" "qn \<in> set (ParseQueues (worker_Queues x))"
      have "qn \<notin> set (ParseQueues (worker_Queues ?wk))" by (simp add: RemoveQueue_correct)
      then have ne: "x \<noteq> ?wk" using x(3) by metis
      have "x \<in> set (save_row worker_ID ?wk (w_workers w))" using x(1) by (simp add: Update_worker_def)
      then have "x \<in> set (w_workers w) \<and> worker_ID x \<noteq> worker_ID ?wk" using ne set_save_row by metis
      moreover from this have "x \<noteq> wk" by auto
      ultimately show "x \<in> set ws" using Cons.prems(5) x(2,3) by (metis set_ConsD)
    qed
    moreover have "workers_inv (w_workers ?w)" using Cons.prems(1) workers_inv_ops(1) by simp
    moreover have "fst (detach_loop env qn ws ?w) = Inr ()" using Cons.prems(2) unfolding e .
    moreover have "distinct (List.map worker_ID ws)" using Cons.prems(3) by simp
    ultimately show ?thesis unfolding e by (intro Cons.IH)
  qed
qed auto

lemma cascadeQueue_workers:
  assumes "world_inv w" "fst (cascadeQueue cfg env d pid qn w) = Inr ()"
  shows "\<forall>x\<in>set (w_workers (snd (cascadeQueue cfg env d pid qn w))). worker_ProjectID x = pid \<longrightarrow>
           qn \<notin> set (ParseQueues (worker_Queues x))"
proof -
  let ?w = "w\<lparr>w_jobs := purge_loop (same_queue pid qn) (batchSize cfg) (w_jobs w)\<rparr>"
  let ?ws = "ListByProject_worker pid (w_workers w)"
  have inv: "workers_inv (w_workers ?w)" using assms(1) by auto
  then have d: "distinct (List.map worker_ID ?ws)"
    by (auto simp: workers_inv_def table_inv_def ListByProject_worker_def distinct_map intro: inj_on_subset)
  have ok: "fst (detachQueueFromWorkers env pid qn ?w) = Inr ()"
    and e: "w_workers (snd (cascadeQueue cfg env d pid qn w)) = w_workers (snd (detachQueueFromWorkers env pid qn ?w))"
    using assms(2) by (auto simp: cascadeQueue_def Let_def split: prod.splits sum.splits if_splits)
  then have "detachQueueFromWorkers env pid qn ?w = detach_loop env qn ?ws ?w"
    by (auto simp: detachQueueFromWorkers_def split: if_splits)
  then show ?thesis
    using detach_loop_removes [OF inv _ d, of env qn pid] ok unfolding e
    by (auto simp: ListByProject_worker_def)
qed



end
