(* ===== verification/TenantService.thy ===== *)
theory TenantService
  imports QueueServices
begin

text \<open>
  \<open>internal/application/service/tenant/service.go\<close>: tenants and their limits, with the in-memory
  maps in front of the tables.  The state of the service is the two maps, beside the shared tables; the
  deletion cascades write the tables directly (\<open>Cleanup\<close>), not through this service.
\<close>

record tenant_svc =
  ts_tenants :: "project_id \<Rightarrow> tenant option"
  ts_limits :: "project_id \<Rightarrow> limits option"

datatype tenant_error = InvalidTenantID | TenantMissing | TenantCall call

type_synonym 'a tenant_result = "(tenant_error + 'a) \<times> tenant_svc \<times> world"

definition Ensure_tenant :: "env \<Rightarrow> project_id \<Rightarrow> tenant_svc \<Rightarrow> world \<Rightarrow> tenant tenant_result" where
  "Ensure_tenant env tid s w =
     (if tid \<le> 0 then (Inl InvalidTenantID, s, w)
      else case ts_tenants s tid of
             Some t \<Rightarrow> (Inr t, s, w)
           | None \<Rightarrow>
               let t = \<lparr>tenant_ID = tid, tenant_Status = StatusActive, tenant_CreatedAt = e_now env, tenant_UpdatedAt = e_now env\<rparr>
               in if e_flt env CUpdateTenant then (Inl (TenantCall CUpdateTenant), s, w)
                  else (Inr t, s\<lparr>ts_tenants := (ts_tenants s)(tid \<mapsto> t)\<rparr>,
                        w\<lparr>w_tenants := UpsertTenant t (w_tenants w)\<rparr>))"

definition BeginDelete_tenant :: "env \<Rightarrow> project_id \<Rightarrow> tenant_svc \<Rightarrow> world \<Rightarrow> unit tenant_result" where
  "BeginDelete_tenant env tid s w =
     (if (case ts_tenants s tid of Some t \<Rightarrow> tenant_Status t = StatusDeleting | None \<Rightarrow> False) then (Inr (), s, w)
      else if e_flt env CFindTenant then (Inl (TenantCall CFindTenant), s, w)
      else case FindTenant tid (w_tenants w) of
             None \<Rightarrow> (Inl TenantMissing, s, w)
           | Some t \<Rightarrow>
               if tenant_Status t = StatusDeleting then (Inr (), s, w)
               else let t = t\<lparr>tenant_Status := StatusDeleting, tenant_UpdatedAt := e_now env\<rparr>
                    in if e_flt env CUpdateTenant then (Inl (TenantCall CUpdateTenant), s, w)
                       else (Inr (), s\<lparr>ts_tenants := (ts_tenants s)(tid \<mapsto> t)\<rparr>,
                             w\<lparr>w_tenants := UpdateTenant t (w_tenants w)\<rparr>))"

definition Delete_tenant :: "env \<Rightarrow> project_id \<Rightarrow> tenant_svc \<Rightarrow> world \<Rightarrow> unit tenant_result" where
  "Delete_tenant env tid s w =
     (let w = (if e_flt env CDeleteLimits then w else w\<lparr>w_limits := DeleteLimits tid (w_limits w)\<rparr>)
      in if e_flt env CDeleteTenant then (Inl (TenantCall CDeleteTenant), s, w)
         else (Inr (), s\<lparr>ts_tenants := (ts_tenants s)(tid := None), ts_limits := (ts_limits s)(tid := None)\<rparr>,
               w\<lparr>w_tenants := DeleteTenant tid (w_tenants w)\<rparr>))"

definition Get_tenant :: "env \<Rightarrow> project_id \<Rightarrow> tenant_svc \<Rightarrow> world \<Rightarrow> tenant tenant_result" where
  "Get_tenant env tid s w =
     (case ts_tenants s tid of
        Some t \<Rightarrow> (Inr t, s, w)
      | None \<Rightarrow>
          if e_flt env CFindTenant then (Inl (TenantCall CFindTenant), s, w)
          else case FindTenant tid (w_tenants w) of
                 Some t \<Rightarrow> (Inr t, s\<lparr>ts_tenants := (ts_tenants s)(tid \<mapsto> t)\<rparr>, w)
               | None \<Rightarrow> (Inl TenantMissing, s, w))"

definition SetLimits :: "env \<Rightarrow> project_id \<Rightarrow> int \<Rightarrow> int \<Rightarrow> tenant_svc \<Rightarrow> world \<Rightarrow> limits tenant_result" where
  "SetLimits env tid inbound outbound s w =
     (case Ensure_tenant env tid s w of
        (Inl e, s, w) \<Rightarrow> (Inl e, s, w)
      | (Inr _, s, w) \<Rightarrow>
          let l = \<lparr>limits_TenantID = tid, limits_InboundPerSecond = inbound, limits_OutboundPerSecond = outbound,
                   limits_UpdatedAt = e_now env\<rparr>
          in if e_flt env CDeleteLimits then (Inl (TenantCall CDeleteLimits), s, w)
             else (Inr l, s\<lparr>ts_limits := (ts_limits s)(tid \<mapsto> l)\<rparr>, w\<lparr>w_limits := UpsertLimits l (w_limits w)\<rparr>))"

definition GetLimits :: "env \<Rightarrow> project_id \<Rightarrow> tenant_svc \<Rightarrow> world \<Rightarrow> limits tenant_result" where
  "GetLimits env tid s w =
     (case ts_limits s tid of
        Some l \<Rightarrow> (Inr l, s, w)
      | None \<Rightarrow>
          if e_flt env CFindTenant then (Inl (TenantCall CFindTenant), s, w)
          else case FindLimits tid (w_limits w) of
                 Some l \<Rightarrow> (Inr l, s\<lparr>ts_limits := (ts_limits s)(tid \<mapsto> l)\<rparr>, w)
               | None \<Rightarrow> (Inr \<lparr>limits_TenantID = tid, limits_InboundPerSecond = Unlimited,
                               limits_OutboundPerSecond = Unlimited, limits_UpdatedAt = 0\<rparr>, s, w))"

lemma Upsert_inv:
  "world_inv w \<Longrightarrow> 0 < tenant_ID t \<Longrightarrow> world_inv (w\<lparr>w_tenants := UpsertTenant t (w_tenants w)\<rparr>)"
  using tenants.inv_save [of "w_tenants w" t] by (auto simp: world_inv_def tenant_ok_def)

lemma Ensure_tenant_inv: "world_inv w \<Longrightarrow> world_inv (snd (snd (Ensure_tenant env tid s w)))"
  by (auto simp: Ensure_tenant_def Let_def intro: Upsert_inv split: option.splits)

lemma tenant_ops_jobs [simp]:
  "w_jobs (snd (snd (Ensure_tenant env tid s w))) = w_jobs w"
  "w_jobs (snd (snd (BeginDelete_tenant env tid s w))) = w_jobs w"
  "w_jobs (snd (snd (Delete_tenant env tid s w))) = w_jobs w"
  "w_jobs (snd (snd (SetLimits env tid a b s w))) = w_jobs w"
  by (auto simp: Ensure_tenant_def BeginDelete_tenant_def Delete_tenant_def SetLimits_def Let_def
      split: option.splits prod.splits sum.splits)

lemma BeginDelete_tenant_inv: "world_inv w \<Longrightarrow> world_inv (snd (snd (BeginDelete_tenant env tid s w)))"
  using tenants.lookup_ok [of "w_tenants w" tid]
  by (auto simp: BeginDelete_tenant_def Let_def UpdateTenant_def UpsertTenant_def [symmetric] world_inv_def tenant_ok_def
      intro!: tenants.inv_save split: option.splits)

lemma Delete_tenant_inv: "world_inv w \<Longrightarrow> world_inv (snd (snd (Delete_tenant env tid s w)))"
  by (auto simp: Delete_tenant_def Let_def world_inv_def tenants_inv_Delete)

lemma SetLimits_inv: "world_inv w \<Longrightarrow> world_inv (snd (snd (SetLimits env tid a b s w)))"
proof -
  assume inv: "world_inv w"
  obtain r s1 w1 where e: "Ensure_tenant env tid s w = (r, s1, w1)" by (metis prod.exhaust)
  then have "world_inv w1" using Ensure_tenant_inv [OF inv, of env tid s] by simp
  then show ?thesis by (auto simp: SetLimits_def e Let_def world_inv_def split: sum.splits)
qed

text \<open>The service's cache defeats the deletion barrier: when the tenant row says \<open>deleting\<close> and the
  cache does not hold the tenant (another instance, or a restart, while the cascade is pending), \<open>Ensure\<close>
  upserts the row as active, so the guard lets writes through again and the pending cascade is not
  resumed.\<close>

lemma ensure_revives_deleting:
  assumes "world_inv w" "FindTenant tid (w_tenants w) = Some t" "tenant_Status t = StatusDeleting"
    and "ts_tenants s tid = None" "\<not> e_flt env CUpdateTenant" "\<not> e_flt env CFindTenant"
    and "Ensure_tenant env tid s w = (r, s', w')"
  shows "AssertTenantWritable (e_flt env) tid w = Inl (GuardErr ErrTenantDeleting)
    \<and> AssertTenantWritable (e_flt env) tid w' = Inr ()
    \<and> tid \<notin> tenant_ID ` set (ListDeleting_tenant limit (w_tenants w'))"
proof -
  have pos: "0 < tid" using assms(2) by (auto simp: FindTenant_def split: if_splits)
  let ?t = "\<lparr>tenant_ID = tid, tenant_Status = StatusActive, tenant_CreatedAt = e_now env, tenant_UpdatedAt = e_now env\<rparr>"
  have w': "w_tenants w' = UpsertTenant ?t (w_tenants w)"
    using assms(4,5,7) pos by (auto simp: Ensure_tenant_def Let_def)
  have inv: "tenants_inv (w_tenants w)" "tenants_inv (w_tenants w')"
    using assms(1) tenants.inv_save [of "w_tenants w" ?t] pos by (auto simp: w' tenant_ok_def)
  have f: "FindTenant tid (w_tenants w') = Some ?t"
    using tenants.lookup_save [OF inv(1), of ?t tid] pos by (simp add: w' tenant_ok_def)
  have u: "x = ?t" if "x \<in> set (w_tenants w')" "tenant_ID x = tid" for x
    using f that inv(2) pos by (auto simp: FindTenant_def tenants_inv_def table_inv_def table_lookup_eq dest: key_unique)
  have "tid \<notin> tenant_ID ` set (ListDeleting_tenant limit (w_tenants w'))"
  proof
    assume "tid \<in> tenant_ID ` set (ListDeleting_tenant limit (w_tenants w'))"
    then obtain x where x: "tenant_ID x = tid" "x \<in> set (ListDeleting_tenant limit (w_tenants w'))" by auto
    then have "x \<in> set (w_tenants w')" and del: "tenant_Status x = StatusDeleting"
      using set_take_sort [of "nat (if limit \<le> 0 then 100 else limit)" tenant_UpdatedAt
        "\<lambda>t. tenant_Status t = StatusDeleting" "w_tenants w'"]
      by (auto simp: ListDeleting_tenant_def Let_def)
    then have "x = ?t" using u x(1) by blast
    then show False using del by simp
  qed
  then show ?thesis using f assms(2,3,6) pos by (simp add: AssertTenantWritable_def)
qed

end
