(* ===== verification/QueueSystem.thy ===== *)
theory QueueSystem
  imports JobAdmin Cleanup TenantService
begin

text \<open>
  The queue subsystem as a transition system: a state is the tenant service's caches and the shared
  tables, a step is one operation of one of the services under any environment (clock, identifiers,
  failing calls).  The invariants of the tables and the job state machine are proved for every
  reachable state and every step.
\<close>

datatype operation =
    OEnqueue enqueue_request
  | OClaim bool dequeue_request
  | OAck project_id string ulid string string
  | ONack project_id string ulid string string int
  | OCancel project_id string ulid
  | OJobCancel project_id string ulid
  | ORetry project_id string ulid
  | OProgress project_id string ulid string
  | OPromote
  | OReclaim bool int
  | OListen project_id string
  | OQueueCreate queue_create_params
  | OQueueUpdate project_id string queue_update_params
  | OQueueBeginDelete project_id string
  | ORegister project_id string "string list"
  | OHeartbeat project_id ulid
  | OTenantEnsure project_id
  | OTenantBeginDelete project_id
  | OTenantDelete project_id
  | OSetLimits project_id int int
  | ODeleteQueue bool project_id string bool
  | ODeleteTenant project_id
  | OCascadeQueue bool project_id string
  | OCascadeTenant bool project_id
  | OResume bool
  | OPurge bool
  | OPurgeWorkers bool

type_synonym system = "tenant_svc \<times> world"

fun apply_op :: "cleanup_config \<Rightarrow> env \<Rightarrow> operation \<Rightarrow> system \<Rightarrow> system" where
  "apply_op cfg env (OEnqueue req) (s, w) = (s, snd (router_Enqueue env req w))"
| "apply_op cfg env (OClaim d req) (s, w) = (s, snd (attemptClaim env d req w))"
| "apply_op cfg env (OAck pid qn i wid res) (s, w) = (s, snd (router_Ack env pid qn i wid res w))"
| "apply_op cfg env (ONack pid qn i wid r d) (s, w) = (s, snd (router_Nack env pid qn i wid r d w))"
| "apply_op cfg env (OCancel pid qn i) (s, w) = (s, snd (router_Cancel env pid qn i w))"
| "apply_op cfg env (OJobCancel pid qn i) (s, w) = (s, snd (job_Cancel env pid qn i w))"
| "apply_op cfg env (ORetry pid qn i) (s, w) = (s, snd (job_Retry env pid qn i w))"
| "apply_op cfg env (OProgress pid qn i m) (s, w) = (s, snd (job_UpdateProgress env pid qn i m w))"
| "apply_op cfg env OPromote (s, w) = (s, snd (PublishDueScheduled env w))"
| "apply_op cfg env (OReclaim d n) (s, w) = (s, snd (router_ReclaimExpired env d n w))"
| "apply_op cfg env (OListen pid qn) (s, w) = (s, snd (EnsureQueueListening env pid qn w))"
| "apply_op cfg env (OQueueCreate p) (s, w) = (s, snd (queue_Create env p w))"
| "apply_op cfg env (OQueueUpdate pid n p) (s, w) = (s, snd (queue_Update env pid n p w))"
| "apply_op cfg env (OQueueBeginDelete pid n) (s, w) = (s, snd (queue_BeginDelete env pid n w))"
| "apply_op cfg env (ORegister pid n qs) (s, w) = (s, snd (worker_Register env pid n qs w))"
| "apply_op cfg env (OHeartbeat pid i) (s, w) = (s, snd (worker_Heartbeat env pid i w))"
| "apply_op cfg env (OTenantEnsure t) (s, w) = snd (Ensure_tenant env t s w)"
| "apply_op cfg env (OTenantBeginDelete t) (s, w) = snd (BeginDelete_tenant env t s w)"
| "apply_op cfg env (OTenantDelete t) (s, w) = snd (Delete_tenant env t s w)"
| "apply_op cfg env (OSetLimits t a b) (s, w) = snd (SetLimits env t a b s w)"
| "apply_op cfg env (ODeleteQueue d pid n f) (s, w) = (s, snd (snd (RequestDeleteQueue cfg env d pid n f w)))"
| "apply_op cfg env (ODeleteTenant t) (s, w) = (s, snd (snd (RequestDeleteTenant env t w)))"
| "apply_op cfg env (OCascadeQueue d pid n) (s, w) = (s, snd (cascadeQueue cfg env d pid n w))"
| "apply_op cfg env (OCascadeTenant d t) (s, w) = (s, snd (cascadeTenant cfg env d t w))"
| "apply_op cfg env (OResume d) (s, w) = (s, snd (ResumePendingCascades cfg env d w))"
| "apply_op cfg env (OPurge d) (s, w) = (s, snd (PurgeTerminalJobs cfg env d w))"
| "apply_op cfg env (OPurgeWorkers d) (s, w) = (s, snd (PurgeStaleWorkers cfg env d w))"

definition init_system :: system where
  "init_system = (\<lparr>ts_tenants = Map.empty, ts_limits = Map.empty\<rparr>, empty_world)"

inductive reach :: "cleanup_config \<Rightarrow> system \<Rightarrow> bool" for cfg where
  reach_init: "reach cfg init_system"
| reach_step: "reach cfg s \<Longrightarrow> reach cfg (apply_op cfg env op s)"

inductive_cases reach_stepE: "reach cfg (apply_op cfg env op s)"

text \<open>The operations that delete job rows.\<close>

fun deletes_jobs :: "operation \<Rightarrow> bool" where
  "deletes_jobs (ODeleteQueue _ _ _ _) = True"
| "deletes_jobs (OCascadeQueue _ _ _) = True"
| "deletes_jobs (OCascadeTenant _ _) = True"
| "deletes_jobs (OResume _) = True"
| "deletes_jobs (OPurge _) = True"
| "deletes_jobs _ = False"

section \<open>Every step keeps the tables well formed\<close>

lemmas good_ops = good_Enqueue good_attemptClaim good_Ack good_Nack good_Cancel good_job_Cancel
  good_job_Retry good_job_UpdateProgress good_PublishDueScheduled good_ReclaimExpired
  good_EnsureQueueListening good_Heartbeat

lemmas other_ops_inv = queue_Create_inv queue_Update_inv queue_BeginDelete_inv worker_Register_inv
  Ensure_tenant_inv BeginDelete_tenant_inv Delete_tenant_inv SetLimits_inv RequestDeleteQueue_inv
  RequestDeleteTenant_inv cascadeQueue_inv cascadeTenant_inv ResumePendingCascades_inv
  PurgeTerminalJobs_inv PurgeStaleWorkers_inv

lemma step_inv: "world_inv (snd s) \<Longrightarrow> world_inv (snd (apply_op cfg env op s))"
  by (cases s; cases op)
     (simp_all add: other_ops_inv good_ops [unfolded good_step_def, THEN conjunct1])

lemma purge_workers_jobs [simp]: "w_jobs (snd (purge_workers env ws n w)) = w_jobs w"
  by (induction ws arbitrary: n w) auto

lemma step_jobs:
  assumes "world_inv (snd s)" "\<not> deletes_jobs op"
  shows "jobs_step (w_jobs (snd s)) (w_jobs (snd (apply_op cfg env op s)))"
proof -
  obtain t w where s: "s = (t, w)" by (cases s)
  have same: "w_jobs (snd (queue_Update env pid n p w)) = w_jobs w"
    "w_jobs (snd (queue_BeginDelete env pid n w)) = w_jobs w"
    "w_jobs (snd (snd (RequestDeleteTenant env pid w))) = w_jobs w"
    "w_jobs (snd (PurgeStaleWorkers cfg env d w)) = w_jobs w" for pid n p d
    by (auto simp: queue_Update_def queue_BeginDelete_def RequestDeleteTenant_def PurgeStaleWorkers_def Let_def
        split: sum.splits option.splits)
  show ?thesis
    using assms good_ops [of w env, unfolded good_step_def, THEN conjunct2]
    by (cases op) (simp_all add: s same)
qed

text \<open>C2. In every reachable state the tables are well formed: identifiers are unique, every
  idempotency key is used at most once per queue, and every job satisfies the lifecycle invariant (its
  terminal time is set exactly in the terminal statuses, a running job has a start time and a counted
  attempt, a waiting job has no worker).\<close>

theorem reachable_tables_ok:
  assumes "reach cfg s"
  shows "world_inv (snd s)"
  using assms by (induction rule: reach.induct) (simp_all add: init_system_def step_inv)

theorem reachable_tables_ok_witness:
  "world_inv (snd (apply_op sample_cfg sample_env (OTenantEnsure 4) init_system))"
  by (rule reachable_tables_ok [of sample_cfg]) (intro reach.intros)

text \<open>C1. The job state machine: whatever operation runs, and whichever of its calls fail, a job row
  that is still in the table has kept its identity, payload and attempt limit, its status has stayed or
  moved along an allowed edge (completed and cancelled are final), and its attempt count has grown by one
  exactly when the step started it; and only an enqueue-like step adds a row, in a waiting status with no
  attempt.\<close>

theorem job_state_machine:
  assumes "reach cfg s" "\<not> deletes_jobs op"
  shows "(\<forall>a\<in>set (w_jobs (snd s)). \<exists>b\<in>set (w_jobs (snd (apply_op cfg env op s))). row_step a b)
    \<and> (\<forall>b\<in>set (w_jobs (snd (apply_op cfg env op s))).
         (\<exists>a\<in>set (w_jobs (snd s)). row_step a b)
         \<or> (job_Status b \<in> {StatusPending, StatusScheduled} \<and> job_Attempt b = 0
            \<and> job_ID b \<notin> job_ID ` set (w_jobs (snd s))))"
proof -
  have "world_inv (snd s)" using assms(1) by (induction rule: reach.induct) (simp_all add: init_system_def step_inv)
  then show ?thesis
    using step_jobs [OF _ assms(2), of s cfg env] unfolding jobs_step_def fresh_row_def by auto
qed

definition first_enqueue :: operation where
  "first_enqueue = OEnqueue \<lparr>er_ProjectID = 1, er_QueueName = ''mail'', er_Payload = ''{}'', er_IdempotencyKey = [],
     er_ScheduleAt = None, er_Delay = 0, er_Metadata = []\<rparr>"

definition first_claim :: operation where
  "first_claim = OClaim False \<lparr>dr_ProjectID = 1, dr_QueueName = ''mail'', dr_WorkerID = ''w'', dr_BatchSize = 1, dr_Wait = 0\<rparr>"

lemma first_enqueue_creates: "w_jobs (snd (apply_op sample_cfg sample_env first_enqueue init_system)) \<noteq> []"
proof -
  let ?qp = "\<lparr>qcp_ProjectID = 1, qcp_Name = ''mail'', qcp_ExecutionProfile = ProfileExternal, qcp_VisibilityTimeout = 0,
      qcp_MaxAttempts = 0, qcp_Retention = 0, qcp_MaxPayloadBytes = 0, qcp_WebhookURL = [], qcp_WebhookSecret = [],
      qcp_Metadata = []\<rparr>"
  have trim: "TrimSpace ''mail'' = ''mail''" by (simp add: TrimSpace_graphic graphic_def)
  have a: "AssertQueueWritable (e_flt sample_env) 1 ''mail'' empty_world = Inr ()"
    by (simp add: AssertQueueWritable_def AssertTenantWritable_def FindTenant_def table_lookup_def
        FindByProjectAndName_def empty_world_def)
  have al: "e_AllowEnqueue sample_env 1 = Inr True" by (simp add: sample_env_def AllowEnqueue_def)
  have ens: "\<exists>q w1. queue_Ensure sample_env ?qp empty_world = (Inr q, w1)
      \<and> ValidateProfile (queue_ExecutionProfile q) = Inr () \<and> w_jobs w1 = []"
    by (simp add: queue_Ensure_def FindByProjectAndName_def empty_world_def queue_Create_def CreateQueue_def
        ValidateCreateQueue_def trim Let_def Create_queue_def queue_Get_def is_queue_def ProfileExternal_def ValidateProfile_def)
  then obtain q w1 where q: "queue_Ensure sample_env ?qp empty_world = (Inr q, w1)"
    "ValidateProfile (queue_ExecutionProfile q) = Inr ()" "w_jobs w1 = []" by blast
  have sv: "save_row job_ID r rows \<noteq> []" for r and rows :: jobs by (auto simp: save_row_def update_where_def)
  show ?thesis
    using a al q
    by (simp add: first_enqueue_def init_system_def router_Enqueue_def FindByIdempotencyKey_def Enqueue_create_def
        EnqueueJob_def ValidateCreateJob_def trim Create_job_def Let_def publishToBroker_def save_job_def Update_job_def
        same_idem_def RecordEnqueue_def sv)
qed

theorem job_state_machine_witness:
  "\<exists>b\<in>set (w_jobs (snd (apply_op sample_cfg sample_env first_claim
              (apply_op sample_cfg sample_env first_enqueue init_system)))).
     row_step (hd (w_jobs (snd (apply_op sample_cfg sample_env first_enqueue init_system)))) b"
proof -
  have "reach sample_cfg (apply_op sample_cfg sample_env first_enqueue init_system)" "\<not> deletes_jobs first_claim"
    by (auto simp: first_claim_def intro: reach.intros)
  from job_state_machine [OF this, THEN conjunct1] first_enqueue_creates show ?thesis
    by (meson hd_in_set)
qed

end
