(* ===== verification/RouterProps.thy ===== *)
theory RouterProps
  imports QueueSystem
begin

text \<open>
  What the operations of the queue router promise, on every branch: who may acknowledge a job and
  what becomes of it, what a rejection does, idempotent enqueues, the write barrier, the long poll, and
  the behaviours the code allows beyond the retry limit and under interleaving.
\<close>

section \<open>Ack and Nack\<close>

lemma saved_rows:
  assumes "world_inv w" "j \<in> set (w_jobs w)" "same_key b j" "save_job env c b w = Inr w'"
  shows "w_jobs w' = List.map (\<lambda>x. if x = j then b else x) (w_jobs w)"
  using save_job_effect [OF assms] by (simp add: update_where_def)


definition held_job :: job where "held_job = claim_row 10 ''w'' (sample_job ''c'' None 3)"

lemma sample_world_simps [simp]:
  "w_jobs sample_world = [sample_job ''a'' (Some 50) 1, sample_job ''b'' (Some 5) 2, held_job]"
  "w_queues sample_world = [sample_queue]" "w_tenants sample_world = [sample_tenant]"
  "w_workers sample_world = [sample_worker]"
  unfolding held_job_def sample_world_def empty_world_def
  by (simp_all, code_simp)

lemma sample_writable [simp]: "AssertQueueWritable (e_flt sample_env) 1 ''mail'' sample_world = Inr ()"
  by (simp add: AssertQueueWritable_def AssertTenantWritable_def FindTenant_def table_lookup_def sample_tenant_def
      FindByProjectAndName_def is_queue_def sample_queue_def)

lemma sample_load [simp]: "load_running sample_env 1 ''mail'' ''c'' ''w'' sample_world = Inr held_job"
  by (simp add: load_running_def FindByID_def same_queue_def sample_job_def held_job_def claim_row_def assertJobWorker_def)


text \<open>C7. A rejected job is retried while attempts are left, not before its delay is over, and goes to the
  dead letters otherwise; in both cases its row is the only one that changes.\<close>

lemma MarkRetry_not_claimable: "t < now + d \<Longrightarrow> \<not> IsClaimable t (MarkRetry now d j)"
  by (simp add: IsClaimable_def mark_defs)



section \<open>The write barrier\<close>

lemma barrier_Inl: "\<not> writable w pid qn \<Longrightarrow> \<exists>e. AssertQueueWritable flt pid qn w = Inl e"
  by (metis AssertQueueWritable_Inr sum.exhaust)

text \<open>C3. Once a tenant or a queue is being deleted, no client call changes anything there: enqueue,
  dequeue, acknowledge, reject, cancel, retry and progress all answer an error and leave the whole state as
  it was, whatever calls fail.\<close>

theorem write_barrier:
  assumes "\<not> writable w pid qn"
  shows "(er_ProjectID req = pid \<and> er_QueueName req = qn \<longrightarrow> (\<exists>e. router_Enqueue env req w = (Inl e, w)))
    \<and> (dr_ProjectID dreq = pid \<and> dr_QueueName dreq = qn \<longrightarrow> (\<exists>e. router_Dequeue env d dreq rounds w = Some (Inl e, w)))
    \<and> (\<exists>e. router_Ack env pid qn i wid res w = (Inl e, w))
    \<and> (\<exists>e. router_Nack env pid qn i wid reason delay w = (Inl e, w))
    \<and> (\<exists>e. router_Cancel env pid qn i w = (Inl e, w))
    \<and> (\<exists>e. job_Cancel env pid qn i w = (Inl e, w))
    \<and> (\<exists>e. job_Retry env pid qn i w = (Inl e, w))
    \<and> (\<exists>e. job_UpdateProgress env pid qn i m w = (Inl e, w))"
proof -
  obtain e where "AssertQueueWritable (e_flt env) pid qn w = Inl e" using barrier_Inl [OF assms] by blast
  then show ?thesis
    by (auto simp: router_Enqueue_def router_Dequeue_def router_Ack_def router_Nack_def load_running_def
        router_Cancel_def job_Cancel_def job_Retry_def job_UpdateProgress_def)
qed

definition closing_world :: world where
  "closing_world = sample_world\<lparr>w_queues := [sample_queue\<lparr>queue_Status := StatusDeleting\<rparr>]\<rparr>"

lemma closing_not_writable: "\<not> writable closing_world 1 ''mail''"
  by (simp add: writable_def queue_blocked_def closing_world_def FindByProjectAndName_def is_queue_def sample_queue_def)

theorem write_barrier_witness: "\<exists>e. router_Ack sample_env 1 ''mail'' ''c'' ''w'' [] closing_world = (Inl e, closing_world)"
  using write_barrier [OF closing_not_writable] by blast

section \<open>The long poll\<close>

text \<open>C12. The long poll ends: as soon as one round finds the clock at or past the deadline, the loop has
  returned, and what it returns is a claim, an empty list or an error.\<close>

theorem dequeue_loop_returns:
  assumes "\<exists>r\<in>set rounds. deadline \<le> pr_now_check r"
  shows "\<exists>res w'. dequeue_loop deadline req rounds w = Some (res, w')"
  using assms
proof (induction rounds arbitrary: w)
  case (Cons r rs)
  show ?case
  proof (cases "deadline \<le> pr_now_check r")
    case False
    then have ex: "\<exists>r\<in>set rs. deadline \<le> pr_now_check r" using Cons.prems by auto
    obtain res w1 where c: "attemptClaim (pr_env r) (pr_done_claim r) req (pr_others r w) = (res, w1)"
      by (cases "attemptClaim (pr_env r) (pr_done_claim r) req (pr_others r w)")
    then show ?thesis using Cons.IH [OF ex, of w1] by (cases res) (auto simp: Let_def)
  qed (auto simp: Let_def)
qed simp

definition late_round :: poll_round where
  "late_round = \<lparr>pr_env = sample_env, pr_done_before = False, pr_now_check = 99, pr_done_claim = False,
     pr_now_after = 99, pr_done_sleep = False, pr_others = id\<rparr>"

definition mail_request :: dequeue_request where
  "mail_request = \<lparr>dr_ProjectID = 1, dr_QueueName = ''mail'', dr_WorkerID = ''w2'', dr_BatchSize = 10, dr_Wait = 50\<rparr>"

lemma mail_request_simps [simp]:
  "dr_ProjectID mail_request = 1" "dr_QueueName mail_request = ''mail''" "dr_WorkerID mail_request = ''w2''"
  "dr_BatchSize mail_request = 10" "dr_Wait mail_request = 50"
  "e_AllowDequeue sample_env pid = Inr True" "e_AllowEnqueue sample_env pid = Inr True"
  by (simp_all add: mail_request_def sample_env_def AllowDequeue_def AllowEnqueue_def)

theorem dequeue_loop_returns_witness: "\<exists>res w'. dequeue_loop 50 mail_request [late_round] sample_world = Some (res, w')"
  by (rule dequeue_loop_returns) (simp add: late_round_def)

text \<open>The barrier is checked once, before the long poll: when the queue starts to be deleted while a
  call waits, the next round of that call still claims jobs of the queue, although every fresh call is
  refused.\<close>

lemma long_poll_passes_barrier:
  "\<exists>rounds claimed w'. router_Dequeue sample_env False mail_request rounds sample_world = Some (Inr claimed, w')
     \<and> claimed \<noteq> [] \<and> queue_blocked w' 1 ''mail''
     \<and> (\<exists>e. router_Dequeue sample_env False mail_request rounds closing_world = Some (Inl e, closing_world))"
proof -
  let ?r = "late_round\<lparr>pr_now_check := 30, pr_others := (\<lambda>_. closing_world)\<rparr>"
  have a: "\<exists>claimed w'. attemptClaim sample_env False mail_request closing_world = (Inr claimed, w') \<and> claimed \<noteq> []
      \<and> w_queues w' = w_queues closing_world"
  proof -
    have "fst (ClaimPending 1 ''mail'' ''w2'' 10 20 (w_jobs closing_world)) \<noteq> []" by code_simp
    then show ?thesis
      by (auto simp: attemptClaim_def case_prod_unfold touchRegisteredWorker_def Let_def)
  qed
  then obtain claimed w' where c: "attemptClaim sample_env False mail_request closing_world = (Inr claimed, w')"
    "claimed \<noteq> []" "w_queues w' = w_queues closing_world" by blast
  have "router_Dequeue sample_env False mail_request [?r] sample_world = Some (Inr claimed, w')"
    using c by (simp add: router_Dequeue_def late_round_def)
  moreover have "queue_blocked w' 1 ''mail''"
    using closing_not_writable c(3) by (auto simp: writable_def tenant_blocked_def queue_blocked_def closing_world_def
        FindTenant_def table_lookup_def sample_tenant_def)
  moreover obtain e where "AssertQueueWritable (e_flt sample_env) 1 ''mail'' closing_world = Inl e"
    using barrier_Inl [OF closing_not_writable] by blast
  then have "router_Dequeue sample_env False mail_request [?r] closing_world = Some (Inl e, closing_world)"
    by (simp add: router_Dequeue_def)
  ultimately show ?thesis using c(2) by blast
qed

section \<open>Idempotent enqueues\<close>

lemma publish_row:
  assumes "world_inv w" "j \<in> set (w_jobs w)"
  shows "\<exists>b\<in>set (w_jobs (snd (snd (publishToBroker env q j w)))). same_key b j"
proof -
  obtain b where "w_jobs (snd (snd (publishToBroker env q j w))) = update_where (\<lambda>x. x = j) (\<lambda>_. b) (w_jobs w)"
    "b = j \<or> b = j\<lparr>job_BrokerSequence := e_brokerSeq env\<rparr>"
    using publish_effect [OF assms] by blast
  then show ?thesis using assms(2) by (intro bexI [of _ b]) (auto simp: set_update_where)
qed

lemma Enqueue_create_Inr:
  assumes "world_inv w" "Enqueue_create env q req w = (Inr (rc, j), w')" "er_IdempotencyKey req = k" "k \<noteq> []"
  shows "rc = IngressAck (job_ID j) \<and> w_queues w' = w_queues w \<and> w_tenants w' = w_tenants w
    \<and> (\<exists>b\<in>set (w_jobs w'). job_ID b = job_ID j \<and> same_queue (er_ProjectID req) (er_QueueName req) b
         \<and> job_IdempotencyKey b = Some k)"
proof -
  let ?p = "\<lparr>cp_ProjectID = er_ProjectID req, cp_QueueName = er_QueueName req, cp_Payload = er_Payload req,
     cp_IdempotencyKey = er_IdempotencyKey req, cp_MaxAttempts = queue_MaxAttempts q,
     cp_ScheduleAt = (if er_Delay req > 0 then Some (e_now env + er_Delay req) else er_ScheduleAt req),
     cp_Metadata = er_Metadata req\<rparr>"
  obtain j0 rows where e: "EnqueueJob (e_newID env) (e_now env) ?p = Inr j0" "Create_job j0 (w_jobs w) = Inr rows"
    "\<not> e_flt env CCreateJob"
    using assms(2) by (auto simp: Enqueue_create_def Let_def split: sum.splits if_splits)
  note j0 = EnqueueJob_Inr [OF e(1)]
  have g: "world_inv (w\<lparr>w_jobs := rows\<rparr>)" "j0 \<in> set rows"
    using good_create [OF assms(1) _ _ e(2)] j0 by (auto simp: good_step_def)
  let ?jw = "if IsClaimable (e_now env) j0 then snd (publishToBroker env q j0 (w\<lparr>w_jobs := rows\<rparr>)) else (j0, w\<lparr>w_jobs := rows\<rparr>)"
  have r: "rc = IngressAck (job_ID (fst ?jw))" "j = fst ?jw" "w_jobs w' = w_jobs (snd ?jw)"
    "w_queues w' = w_queues (snd ?jw)" "w_tenants w' = w_tenants (snd ?jw)"
    using assms(2) e by (auto simp: Enqueue_create_def Let_def RecordEnqueue_def)
  have "\<exists>b\<in>set (w_jobs (snd ?jw)). same_key b j0"
    using publish_row [OF g(1), of j0 env q] g(2) by (auto intro: bexI [of _ j0])
  then obtain b where b: "b \<in> set (w_jobs w')" "same_key b j0" using r(3) by auto
  have "job_ID j = job_ID j0" "w_queues w' = w_queues w" "w_tenants w' = w_tenants w"
    using r by auto
  then show ?thesis
    using b j0 assms(3,4) r(1,2) by (auto simp: same_key_def same_queue_def intro!: bexI [of _ b])
qed

text \<open>C4. Enqueueing is idempotent: after a successful enqueue with a key, enqueueing again with the same
  key on the same queue, at any later time and with any other payload, answers the job of the first call
  and changes nothing.\<close>

theorem enqueue_idempotent:
  assumes "world_inv w" "router_Enqueue env req w = (Inr (rc, j), w')" "er_IdempotencyKey req \<noteq> []"
    and "er_ProjectID req' = er_ProjectID req" "er_QueueName req' = er_QueueName req"
    and "er_IdempotencyKey req' = er_IdempotencyKey req" "e_AllowEnqueue env' (er_ProjectID req) = Inr True"
    and "e_flt env' = no_faults"
  shows "\<exists>j'. router_Enqueue env' req' w' = (Inr (IngressAck (job_ID j), j'), w') \<and> job_ID j' = job_ID j"
proof -
  let ?pid = "er_ProjectID req" and ?qn = "er_QueueName req" and ?k = "er_IdempotencyKey req"
  let ?qp = "\<lparr>qcp_ProjectID = ?pid, qcp_Name = ?qn, qcp_ExecutionProfile = ProfileExternal, qcp_VisibilityTimeout = 0,
      qcp_MaxAttempts = 0, qcp_Retention = 0, qcp_MaxPayloadBytes = 0, qcp_WebhookURL = [], qcp_WebhookSecret = [],
      qcp_Metadata = []\<rparr>"
  obtain q w1 where q: "queue_Ensure env ?qp w = (Inr q, w1)" "ValidateProfile (queue_ExecutionProfile q) = Inr ()"
    and a: "AssertQueueWritable (e_flt env) ?pid ?qn w = Inr ()"
    and rest: "(FindByIdempotencyKey ?pid ?qn ?k (w_jobs w1) = Inr j \<and> rc = IngressAck (job_ID j) \<and> w' = w1)
        \<or> Enqueue_create env q req w1 = (Inr (rc, j), w')"
    using assms(2) by (auto simp: router_Enqueue_def split: sum.splits if_splits prod.splits)
  note inv1 = Ensure_state [OF q(1) assms(1)]
  note qf = queue_Ensure_Inr [OF q(1)]
  have "w_queues w' = w_queues w1 \<and> w_tenants w' = w_tenants w1 \<and> rc = IngressAck (job_ID j)
    \<and> (\<exists>b\<in>set (w_jobs w'). job_ID b = job_ID j \<and> same_queue ?pid ?qn b \<and> job_IdempotencyKey b = Some ?k)"
    using rest FindByIdempotencyKey_Inr [of ?pid ?qn ?k "w_jobs w1" j] inv1
      Enqueue_create_Inr [of w1 env q req rc j w' ?k] assms(3) by auto
  then obtain b where b: "b \<in> set (w_jobs w')" "job_ID b = job_ID j" "same_queue ?pid ?qn b" "job_IdempotencyKey b = Some ?k"
    and same: "w_queues w' = w_queues w1" "w_tenants w' = w_tenants w" using inv1 by auto
  have inv': "world_inv w'" using good_Enqueue [OF assms(1), of env req] assms(2) by (simp add: good_step_def)
  obtain j' where f: "FindByIdempotencyKey ?pid ?qn ?k (w_jobs w') = Inr j'"
    using FindByIdempotencyKey_Inl [OF _ assms(3) b(1,3)] b(4)
    by (cases "FindByIdempotencyKey ?pid ?qn ?k (w_jobs w')") auto
  have "same_idem j' b" using FindByIdempotencyKey_Inr [OF f] b(3,4) assms(3) by (auto simp: same_idem_def same_queue_def)
  then have id: "job_ID j' = job_ID j"
    using jobs_invD(3) [OF world_invD(1) [OF inv']] FindByIdempotencyKey_Inr [OF f] b by blast
  have wr: "writable w' ?pid ?qn"
    using AssertQueueWritable_Inr [OF a] qf same
    by (auto simp: writable_def tenant_blocked_def queue_blocked_def)
  then have a': "AssertQueueWritable no_faults ?pid ?qn w' = Inr ()"
    using AssertQueueWritable_no_faults [of ?pid ?qn w'] by auto
  have e': "queue_Ensure env' ?qp w' = (Inr q, w')"
    using qf same assms(8) by (simp add: queue_Ensure_def no_faults_def)
  show ?thesis
    using a' e' q(2) f id assms(3-8) by (simp add: router_Enqueue_def no_faults_def)
qed

definition mail_enqueue :: "string \<Rightarrow> enqueue_request" where
  "mail_enqueue payload = \<lparr>er_ProjectID = 1, er_QueueName = ''mail'', er_Payload = payload, er_IdempotencyKey = ''k1'',
     er_ScheduleAt = None, er_Delay = 0, er_Metadata = []\<rparr>"

lemma mail_enqueue_simps [simp]:
  "er_ProjectID (mail_enqueue p) = 1" "er_QueueName (mail_enqueue p) = ''mail''" "er_Payload (mail_enqueue p) = p"
  "er_IdempotencyKey (mail_enqueue p) = ''k1''" "er_ScheduleAt (mail_enqueue p) = None" "er_Delay (mail_enqueue p) = 0"
  "e_newID sample_env = ''j1''"
  by (simp_all add: mail_enqueue_def sample_env_def)

lemma trim_mail: "TrimSpace ''mail'' \<noteq> []"
  by (simp add: TrimSpace_graphic graphic_def)

theorem enqueue_idempotent_witness:
  "\<exists>rc j w' j'. router_Enqueue sample_env (mail_enqueue ''1'') sample_world = (Inr (rc, j), w')
     \<and> router_Enqueue (sample_env\<lparr>e_now := 30, e_newID := ''j2''\<rparr>) (mail_enqueue ''2'') w' = (Inr (IngressAck (job_ID j), j'), w')
     \<and> job_ID j' = job_ID j"
proof -
  have "\<exists>rc j w'. router_Enqueue sample_env (mail_enqueue ''1'') sample_world = (Inr (rc, j), w')"
  proof -
    have ens: "queue_Ensure sample_env \<lparr>qcp_ProjectID = 1, qcp_Name = ''mail'', qcp_ExecutionProfile = ProfileExternal,
        qcp_VisibilityTimeout = 0, qcp_MaxAttempts = 0, qcp_Retention = 0, qcp_MaxPayloadBytes = 0, qcp_WebhookURL = [],
        qcp_WebhookSecret = [], qcp_Metadata = []\<rparr> sample_world = (Inr sample_queue, sample_world)"
      by (simp add: queue_Ensure_def FindByProjectAndName_def is_queue_def sample_queue_def)
    have fnd: "FindByIdempotencyKey 1 ''mail'' ''k1'' (w_jobs sample_world) = Inl RecordNotFound"
      by (simp add: FindByIdempotencyKey_def sample_job_def held_job_def claim_row_def)
    have cr: "\<exists>rc j w'. Enqueue_create sample_env sample_queue (mail_enqueue ''1'') sample_world = (Inr (rc, j), w')"
      using trim_mail
      by (simp add: Enqueue_create_def EnqueueJob_def ValidateCreateJob_def Create_job_def same_idem_def Let_def
          sample_job_def held_job_def claim_row_def)
    show ?thesis using ens fnd cr by (simp add: router_Enqueue_def ValidateProfile_def sample_queue_def)
  qed
  then obtain rc j w' where e: "router_Enqueue sample_env (mail_enqueue ''1'') sample_world = (Inr (rc, j), w')" by blast
  have f: "e_flt (sample_env\<lparr>e_now := 30, e_newID := ''j2''\<rparr>) = no_faults" by (simp add: sample_env_def)
  have g: "e_AllowEnqueue (sample_env\<lparr>e_now := 30, e_newID := ''j2''\<rparr>) (er_ProjectID (mail_enqueue ''1'')) = Inr True"
    by (simp add: sample_env_def AllowEnqueue_def)
  show ?thesis
    using enqueue_idempotent [OF sample_world_inv e _ _ _ _ g f, of "mail_enqueue ''2''"] e
    by (auto simp: mail_enqueue_def)
qed

section \<open>What the code allows beyond the intended lifecycle\<close>

text \<open>Enqueue saves the whole row a second time, with the copy it created, to record the broker's
  sequence number. When a worker claims the job between the two saves, the second one undoes the claim: the
  row is waiting and claimable again, owned by nobody, and the worker's acknowledgement is refused.\<close>

lemma stale_publish_reopens_job:
  assumes "world_inv w" "j \<in> set (w_jobs w)"
    and "ClaimPending pid qn wid n now (w_jobs w) = (claimed, rows)" "job_ID j \<in> job_ID ` set claimed"
    and "publishToBroker env q j (w\<lparr>w_jobs := rows\<rparr>) = (Inr (), j', w')"
  shows "\<exists>b\<in>set (w_jobs w'). job_ID b = job_ID j \<and> IsClaimable now b \<and> job_WorkerID b = []
    \<and> job_Attempt b = job_Attempt j \<and> (\<exists>e. router_Ack env' pid qn (job_ID j) wid res w' = (Inl e, w'))"
proof -
  note inv = world_invD(1) [OF assms(1)]
  let ?S = "claim_set pid qn n now (w_jobs w)" and ?b = "j\<lparr>job_BrokerSequence := e_brokerSeq env\<rparr>"
  obtain x where x: "x \<in> ?S" "job_ID x = job_ID j"
    using assms(3,4) by (auto simp: ClaimPending_eq [OF inv])
  then have "x = j" using claim_set_subset assms(2) key_unique [OF jobs_invD(1) [OF inv]] by blast
  then have jS: "j \<in> ?S" using x by simp
  note claim = claim_set_row [OF inv jS]
  let ?c = "claim_row now wid j" and ?w = "w\<lparr>w_jobs := rows\<rparr>"
  have c: "?c \<in> set (w_jobs ?w)" using assms(2,3) jS by (auto simp: ClaimPending_eq [OF inv] set_update_where)
  have invw: "world_inv ?w" using assms(1,3) jobs_inv_ClaimPending [OF inv, of pid qn wid n now] by (auto simp: world_inv_def)
  define w2 where "w2 = ?w\<lparr>w_streams := insert (Subject (QueueName q)) (w_streams w), w_published := w_published w @
     [\<lparr>bm_Subject = Subject (QueueName q), bm_JobID = job_ID j, bm_Payload = job_Payload j, bm_Attempt = job_Attempt j\<rparr>]\<rparr>"
  have s: "save_job env (CUpdateSeq (job_ID j)) ?b w2 = Inr w'" and j': "j' = ?b"
    using assms(5) by (auto simp: publishToBroker_def Let_def w2_def split: sum.splits if_splits)
  have k: "same_key ?b ?c" by (simp add: same_key_def claim_row_def)
  have inv2: "world_inv w2" "?c \<in> set (w_jobs w2)" using invw c by (auto simp: w2_def world_inv_def)
  note eff = save_job_effect [OF inv2 k s]
  have b: "?b \<in> set (w_jobs w')" unfolding eff using inv2(2) by (auto simp: set_update_where)
  have ok: "job_ok j" using jobs_invD(2) [OF inv assms(2)] .
  have cl: "IsClaimable now j" using claim by blast
  then have st: "job_Status j = StatusPending \<or> job_Status j = StatusScheduled"
    by (cases "job_Status j") (simp_all add: IsClaimable_def)
  have inv': "jobs_inv (w_jobs w')"
    unfolding eff using inv2 k ok by (auto intro!: jobs_inv_update_where job_ok_fields)
  have "\<exists>e. load_running env' pid qn (job_ID j) wid w' = Inl e"
  proof (cases "load_running env' pid qn (job_ID j) wid w'")
    case (Inr y)
    note y = load_running_Inr [OF Inr]
    then have "y = ?b" using b key_unique [OF jobs_invD(1) [OF inv'], of y ?b] by simp
    then show ?thesis using y st by auto
  qed simp
  then have "\<exists>e. router_Ack env' pid qn (job_ID j) wid res w' = (Inl e, w')" by (auto simp: router_Ack_def)
  then show ?thesis using b cl st ok
    by (intro bexI [of _ ?b]) (auto simp: job_ok_def IsClaimable_def)
qed

lemma row_step_attempts: "row_step a b \<Longrightarrow> job_Attempt a \<le> job_Attempt b \<and> job_MaxAttempts b = job_MaxAttempts a"
  by (simp add: row_step_def)

lemma row_step_ID: "row_step a b \<Longrightarrow> job_ID b = job_ID a"
  by (simp add: row_step_def same_key_def)

text \<open>A job without attempts left stays without, through any operation but a deletion.\<close>

lemma exhausted_step:
  assumes "world_inv w" "world_inv w'" "jobs_step (w_jobs w) (w_jobs w')" "a \<in> set (w_jobs w)" "\<not> CanRetry a"
    and "b \<in> set (w_jobs w')" "job_ID b = job_ID a"
  shows "\<not> CanRetry b"
proof -
  obtain c where c: "c \<in> set (w_jobs w')" "row_step a c" using assms(3,4) by (auto simp: jobs_step_def)
  then have "c = b"
    using key_unique [OF jobs_invD(1) [OF world_invD(1) [OF assms(2)]] c(1) assms(6)] assms(7)
    by (simp add: row_step_def same_key_def)
  then show ?thesis using row_step_attempts [OF c(2)] assms(5) by (simp add: CanRetry_def)
qed

lemma Nack_outcome:
  assumes "router_Nack env pid qn i wid reason d w = (Inr r, w')"
  shows "\<exists>j\<in>set (w_jobs w). job_ID j = i \<and> rc_Outcome r = (if CanRetry j then OutcomeRetried else OutcomeFailed)"
proof -
  obtain j where l: "load_running env pid qn i wid w = Inr j"
    using assms by (auto simp: router_Nack_def split: sum.splits)
  have "rc_Outcome r = (if CanRetry j then OutcomeRetried else OutcomeFailed)"
    using assms l by (cases "CanRetry j") (auto simp: router_Nack_def Let_def split: sum.splits)
  then show ?thesis using load_running_Inr [OF l] by (intro bexI [of _ j]) auto
qed

text \<open>A manual retry does not give a dead-lettered job new attempts: the job is claimed once, and its
  next rejection sends it straight back to the dead letters.\<close>

lemma control_retry_single_attempt:
  assumes "world_inv w" "a \<in> set (w_jobs w)" "job_ID a = i" "\<not> CanRetry a"
    and "job_Retry env1 pid qn i w = (Inr j, w1)" "attemptClaim env2 d req w1 = (Inr claimed, w2)"
    and "router_Nack env3 pid qn i wid reason delay w2 = (Inr r, w3)"
  shows "rc_Outcome r = OutcomeFailed"
proof -
  have 1: "world_inv w1" "jobs_step (w_jobs w) (w_jobs w1)"
    using good_job_Retry [OF assms(1), of env1 pid qn i] assms(5) by (auto simp: good_step_def)
  have 2: "world_inv w2" "jobs_step (w_jobs w1) (w_jobs w2)"
    using good_attemptClaim [OF 1(1), of env2 d req] assms(6) by (auto simp: good_step_def)
  obtain x where x: "x \<in> set (w_jobs w2)" "job_ID x = i" "rc_Outcome r = (if CanRetry x then OutcomeRetried else OutcomeFailed)"
    using Nack_outcome [OF assms(7)] by blast
  obtain b where b: "b \<in> set (w_jobs w1)" "job_ID b = i"
    using 1(2) assms(2,3) row_step_ID unfolding jobs_step_def by blast
  have "\<not> CanRetry b" using exhausted_step [OF assms(1) 1(1) 1(2) assms(2,4) b(1)] b(2) assms(3) by simp
  then have "\<not> CanRetry x" using exhausted_step [OF 1(1) 2(1) 2(2) b(1) _ x(1)] b(2) x(2) by simp
  then show ?thesis using x(3) by simp
qed

definition dead_job :: job where
  "dead_job = MarkDLQ 12 [] ((claim_row 1 ''w'' (sample_job ''y'' None 0))\<lparr>job_MaxAttempts := 1\<rparr>)"

definition dead_world :: world where "dead_world = sample_world\<lparr>w_jobs := [dead_job]\<rparr>"

lemma dead_world_inv [simp]: "world_inv dead_world"
proof -
  have "jobs_inv [dead_job]"
    by (simp add: jobs_inv_def table_inv_def idem_unique_def dead_job_def sample_job_def claim_row_def mark_defs
        job_ok_def terminal_ok_iff IsTerminal_def same_idem_def)
  then show ?thesis using sample_world_inv by (auto simp: dead_world_def world_inv_def)
qed

definition dead_req :: dequeue_request where
  "dead_req = \<lparr>dr_ProjectID = 1, dr_QueueName = ''mail'', dr_WorkerID = ''w2'', dr_BatchSize = 1, dr_Wait = 0\<rparr>"

lemma dead_simps [simp]:
  "dr_ProjectID dead_req = 1" "dr_QueueName dead_req = ''mail''" "dr_WorkerID dead_req = ''w2''" "dr_BatchSize dead_req = 1"
  "w_jobs dead_world = [dead_job]" "w_queues dead_world = [sample_queue]" "w_tenants dead_world = [sample_tenant]"
  "w_workers dead_world = [sample_worker]"
  by (simp_all add: dead_req_def dead_world_def)

definition retried_world :: world where
  "retried_world = snd (attemptClaim sample_env False dead_req (snd (job_Retry sample_env 1 ''mail'' ''y'' dead_world)))"

text \<open>The attempt limit does not bound deliveries: a job that has used up its attempts but is not
  rejected (its worker dies) is put back by the reclaim, claimable again, and the next claim counts one
  attempt more than the limit.\<close>

lemma reclaim_exceeds_limit:
  assumes "jobs_inv rows" "j \<in> set rows" "lease_expired now dflt queues tenants j" "0 < dflt"
    and "job_MaxAttempts j \<le> job_Attempt j"
    and "job_ScheduleAt j = None" "length (List.filter (lease_expired now dflt queues tenants) rows) \<le> 500"
  shows "MarkReclaimed now j \<in> set (snd (ReclaimExpired_job now 0 dflt queues tenants rows))
    \<and> IsClaimable now (MarkReclaimed now j)
    \<and> job_MaxAttempts j < job_Attempt (MarkRunning now w (MarkReclaimed now j))"
proof -
  let ?sel = "take 500 (sort_key job_StartedAt (List.filter (lease_expired now dflt queues tenants) rows))"
  have "set ?sel = {x \<in> set rows. lease_expired now dflt queues tenants x}" using assms(7) by (simp add: take_all)
  then have "j \<in> set ?sel" using assms(2,3) by blast
  moreover have "reclaim_row now j = MarkReclaimed now j"
    using jobs_invD(2) [OF assms(1,2)] assms(3)
    by (intro reclaim_row_MarkReclaimed nonterminal_no_terminal_at) (auto simp: lease_expired_def IsTerminal_def)
  ultimately have "MarkReclaimed now j \<in> set (snd (ReclaimExpired_job now 0 dflt queues tenants rows))"
    using assms(2,4) by (auto simp: ReclaimExpired_job_def Let_def set_update_where intro!: image_eqI [of _ _ j])
  then show ?thesis using assms(5,6) by (simp add: IsClaimable_def mark_defs)
qed

definition spent_job :: job where
  "spent_job = (claim_row 10 ''w'' (sample_job ''s'' None 3))\<lparr>job_MaxAttempts := 1\<rparr>"

end
