(* ===== verification/Permissions.thy ===== *)
theory Permissions
  imports Prelude
begin

text \<open>
  \<open>internal/shared/permission\<close>: a permission maps resources (channel names, \<open>queue:<name>\<close>,
  or \<open>*\<close>) to actions.  Permissions travel as JSON text.  The JSON grammar is the business of
  \<open>encoding/json\<close> and a parameter (\<open>parse\<close>) of the operations; how \<open>FromJSON\<close> decodes the
  parsed value into a Go map is written out: the direct form first, then the older form with a
  \<open>resources\<close> member.
\<close>

section \<open>JSON values and their decoding\<close>

datatype json = JNull | JBool bool | JNum string | JStr string | JArr "json list" | JObj "(string \<times> json) list"

text \<open>Decoding into a Go string: \<open>null\<close> leaves the zero value.\<close>

fun decode_string :: "json \<Rightarrow> string option" where
  "decode_string (JStr s) = Some s"
| "decode_string JNull = Some []"
| "decode_string _ = None"

fun decode_strings :: "json list \<Rightarrow> string list option" where
  "decode_strings [] = Some []"
| "decode_strings (j # js) =
     (case decode_string j of None \<Rightarrow> None
      | Some s \<Rightarrow> (case decode_strings js of None \<Rightarrow> None | Some ss \<Rightarrow> Some (s # ss)))"

fun decode_actions :: "json \<Rightarrow> string list option" where
  "decode_actions (JArr js) = decode_strings js"
| "decode_actions JNull = Some []"
| "decode_actions _ = None"

text \<open>Decoding into \<open>map[string][]Action\<close>: members in order, a repeated key replaces.\<close>

fun decode_members :: "(string \<times> json) list \<Rightarrow> (string \<Rightarrow> string list option) \<Rightarrow> (string \<Rightarrow> string list option) option" where
  "decode_members [] m = Some m"
| "decode_members ((k, j) # js) m =
     (case decode_actions j of None \<Rightarrow> None | Some as \<Rightarrow> decode_members js (m(k \<mapsto> as)))"

fun decode_map :: "json \<Rightarrow> (string \<Rightarrow> string list option) \<Rightarrow> (string \<Rightarrow> string list option) option" where
  "decode_map (JObj ms) m = decode_members ms m"
| "decode_map JNull m = Some m"
| "decode_map _ m = None"

text \<open>Member names of a struct match without regard to case; the bytes \<open>C5 BF\<close> (the long s)
  fold to \<open>s\<close>, the other letter outside ASCII that folds to one inside does not occur in
  \<open>resources\<close>.\<close>

definition ascii_lower :: "char \<Rightarrow> char" where
  "ascii_lower c = (let n = (of_char c :: nat) in if 65 \<le> n \<and> n \<le> 90 then char_of (n + 32) else c)"

fun fold_key :: "string \<Rightarrow> string" where
  "fold_key [] = []"
| "fold_key [c] = [ascii_lower c]"
| "fold_key (c # d # cs) =
     (if (of_char c :: nat) = 0xC5 \<and> (of_char d :: nat) = 0xBF then CHR ''s'' # fold_key cs
      else ascii_lower c # fold_key (d # cs))"

declare fold_key.simps [simp del]

fun decode_wrapped :: "(string \<times> json) list \<Rightarrow> (string \<Rightarrow> string list option) \<Rightarrow> (string \<Rightarrow> string list option) option" where
  "decode_wrapped [] m = Some m"
| "decode_wrapped ((k, j) # js) m =
     (if fold_key k = ''resources''
      then case j of JNull \<Rightarrow> decode_wrapped js Map.empty
           | _ \<Rightarrow> (case decode_map j m of None \<Rightarrow> None | Some m' \<Rightarrow> decode_wrapped js m')
      else decode_wrapped js m)"

section \<open>Permissions\<close>

type_synonym action = string

definition ActionPublish :: action where "ActionPublish = ''publish''"
definition ActionSubscribe :: action where "ActionSubscribe = ''subscribe''"
definition ActionStats :: action where "ActionStats = ''stats''"
definition ActionLogs :: action where "ActionLogs = ''logs''"
definition ActionEnqueue :: action where "ActionEnqueue = ''enqueue''"
definition ActionDequeue :: action where "ActionDequeue = ''dequeue''"
definition ActionAll :: action where "ActionAll = ''*''"
definition ChannelStats :: string where "ChannelStats = ''_stats''"
definition ChannelLogs :: string where "ChannelLogs = ''_logs''"

lemmas action_defs = ActionPublish_def ActionSubscribe_def ActionStats_def ActionLogs_def
  ActionEnqueue_def ActionDequeue_def ActionAll_def ChannelStats_def ChannelLogs_def

type_synonym permission = "string \<Rightarrow> action list option"

datatype perm_error = UnmarshalPermission

definition FromJSON :: "(string \<Rightarrow> json option) \<Rightarrow> string \<Rightarrow> perm_error + permission" where
  "FromJSON parse data =
     (let trimmed = TrimSpace data
      in if length trimmed = 0 \<or> trimmed = ''null'' then Inr Map.empty
         else case (case parse trimmed of None \<Rightarrow> None | Some j \<Rightarrow> decode_map j Map.empty) of
                Some resourceMap \<Rightarrow> Inr resourceMap
              | None \<Rightarrow>
                  (case parse data of
                     Some (JObj ms) \<Rightarrow> (case decode_wrapped ms Map.empty of
                                          None \<Rightarrow> Inl UnmarshalPermission | Some m \<Rightarrow> Inr m)
                   | Some JNull \<Rightarrow> Inr Map.empty
                   | _ \<Rightarrow> Inl UnmarshalPermission))"

definition HasData :: "string \<Rightarrow> bool" where
  "HasData data =
     (if length data = 0 then False
      else let trimmed = TrimSpace data
           in if trimmed = ''{}'' \<or> trimmed = ''null'' \<or> trimmed = ''[]'' then False else True)"

fun containsAction :: "action list \<Rightarrow> action \<Rightarrow> bool" where
  "containsAction [] targetAction = False"
| "containsAction (action # actions) targetAction =
     (if action = ActionAll \<or> action = targetAction then True else containsAction actions targetAction)"

definition Can :: "permission \<Rightarrow> string \<Rightarrow> action \<Rightarrow> bool" where
  "Can p resource action =
     (if (case p ''*'' of Some actions \<Rightarrow> containsAction actions ActionAll \<or> containsAction actions action
                        | None \<Rightarrow> False) then True
      else case p resource of Some actions \<Rightarrow> containsAction actions action | None \<Rightarrow> False)"

section \<open>The permission service\<close>

type_synonym perm_result = "perm_error + bool"

definition CanStats :: "(string \<Rightarrow> json option) \<Rightarrow> string \<Rightarrow> string \<Rightarrow> perm_result" where
  "CanStats parse data resource =
     (case FromJSON parse data of Inl e \<Rightarrow> Inl e | Inr p \<Rightarrow> Inr (Can p resource ActionStats))"

definition CanLogs :: "(string \<Rightarrow> json option) \<Rightarrow> string \<Rightarrow> string \<Rightarrow> perm_result" where
  "CanLogs parse data resource =
     (case FromJSON parse data of Inl e \<Rightarrow> Inl e | Inr p \<Rightarrow> Inr (Can p resource ActionLogs))"

definition CanSubscribe :: "(string \<Rightarrow> json option) \<Rightarrow> string \<Rightarrow> string \<Rightarrow> perm_result" where
  "CanSubscribe parse data resource =
     (if resource = ChannelStats then CanStats parse data resource
      else if resource = ChannelLogs then CanLogs parse data resource
      else case FromJSON parse data of Inl e \<Rightarrow> Inl e | Inr p \<Rightarrow> Inr (Can p resource ActionSubscribe))"

definition CanPublish :: "(string \<Rightarrow> json option) \<Rightarrow> string \<Rightarrow> string \<Rightarrow> perm_result" where
  "CanPublish parse data resource =
     (case FromJSON parse data of Inl e \<Rightarrow> Inl e | Inr p \<Rightarrow> Inr (Can p resource ActionPublish))"

definition CanEnqueue :: "(string \<Rightarrow> json option) \<Rightarrow> string \<Rightarrow> string \<Rightarrow> perm_result" where
  "CanEnqueue parse data resource =
     (case FromJSON parse data of Inl e \<Rightarrow> Inl e
      | Inr p \<Rightarrow> if Can p resource ActionEnqueue then Inr True else Inr (Can p resource ActionPublish))"

definition CanDequeue :: "(string \<Rightarrow> json option) \<Rightarrow> string \<Rightarrow> string \<Rightarrow> perm_result" where
  "CanDequeue parse data resource =
     (case FromJSON parse data of Inl e \<Rightarrow> Inl e
      | Inr p \<Rightarrow> if Can p resource ActionDequeue then Inr True else Inr (Can p resource ActionSubscribe))"

section \<open>Grants\<close>

text \<open>The reference reading of a permission: a finite set of (resource, action) pairs, of which
  one has to cover the request.\<close>

definition grants :: "permission \<Rightarrow> (string \<times> action) set" where
  "grants p = {(r, a). \<exists>as. p r = Some as \<and> a \<in> set as}"

definition covers :: "string \<times> action \<Rightarrow> string \<Rightarrow> action \<Rightarrow> bool" where
  "covers g resource action \<longleftrightarrow>
     (fst g = ''*'' \<or> fst g = resource) \<and> (snd g = ActionAll \<or> snd g = action)"

lemma containsAction_iff [simp]: "containsAction as a \<longleftrightarrow> ActionAll \<in> set as \<or> a \<in> set as"
  by (induction as) auto

lemma Can_grants: "Can p resource action \<longleftrightarrow> (\<exists>g\<in>grants p. covers g resource action)"
  by (auto simp: Can_def grants_def covers_def split: option.splits)

lemma Can_mono: "grants p \<subseteq> grants q \<Longrightarrow> Can p r a \<Longrightarrow> Can q r a"
  by (auto simp: Can_grants)

lemma Can_empty [simp]: "\<not> Can Map.empty r a"
  by (simp add: Can_def)

text \<open>The action a subscription to a channel needs.\<close>

definition subscribe_action :: "string \<Rightarrow> action" where
  "subscribe_action resource =
     (if resource = ChannelStats then ActionStats else if resource = ChannelLogs then ActionLogs
      else ActionSubscribe)"

lemma CanSubscribe_iff:
  "CanSubscribe parse data r = (case FromJSON parse data of Inl e \<Rightarrow> Inl e | Inr p \<Rightarrow> Inr (Can p r (subscribe_action r)))"
  by (auto simp: CanSubscribe_def CanStats_def CanLogs_def subscribe_action_def split: sum.splits)


end
