(* ===== verification/Backpressure.thy ===== *)
theory Backpressure
  imports TenantService
begin

text \<open>
  \<open>internal/domain/messaging/backpressure\<close> and
  \<open>internal/application/service/messaging/backpressure\<close>: the bounded outbound queue, the
  drop-newest policy, the fixed-window rate limiter, its registry per project and the gatekeeper that
  asks the tenant's limits.  A nil queue is \<^const>\<open>None\<close>.
\<close>

section \<open>The queue\<close>

type_synonym bytes = string

record bqueue =
  bq_items :: "bytes list"
  bq_capacity :: int

definition NewBoundedQueue :: "int \<Rightarrow> bqueue" where
  "NewBoundedQueue cap = (let cap = (if cap < 1 then 1 else cap) in \<lparr>bq_items = [], bq_capacity = cap\<rparr>)"

definition Depth :: "bqueue option \<Rightarrow> int" where
  "Depth q = (case q of None \<Rightarrow> 0 | Some q \<Rightarrow> int (length (bq_items q)))"

definition Capacity :: "bqueue option \<Rightarrow> int" where
  "Capacity q = (case q of None \<Rightarrow> 0 | Some q \<Rightarrow> bq_capacity q)"

definition Push :: "bytes \<Rightarrow> bqueue option \<Rightarrow> bool \<times> bqueue option" where
  "Push item q =
     (case q of None \<Rightarrow> (False, None)
      | Some b \<Rightarrow> if int (length (bq_items b)) \<ge> bq_capacity b then (False, Some b)
                  else (True, Some (b\<lparr>bq_items := bq_items b @ [item]\<rparr>)))"

definition Pop :: "bqueue option \<Rightarrow> bytes option \<times> bqueue option" where
  "Pop q =
     (case q of None \<Rightarrow> (None, None)
      | Some b \<Rightarrow> (case bq_items b of [] \<Rightarrow> (None, Some b)
                   | item # rest \<Rightarrow> (Some item, Some (b\<lparr>bq_items := rest\<rparr>))))"

definition Items :: "bqueue option \<Rightarrow> bytes list" where
  "Items q = (case q of None \<Rightarrow> [] | Some b \<Rightarrow> bq_items b)"

section \<open>Policies\<close>

datatype drop_reason = BufferFull | WriteTimeout | SlowConsumer | InboundRateLimit | OutboundRateLimit

record enq_result =
  enq_Queued :: bool
  enq_Dropped :: bool
  enq_Reason :: "drop_reason option"
  enq_QueueDepth :: int

text \<open>The envelope of the message is reduced to its payload; a nil envelope is \<^const>\<open>None\<close>.\<close>

definition DropNewest_TryEnqueue :: "bqueue option \<Rightarrow> bytes option \<Rightarrow> enq_result \<times> bqueue option" where
  "DropNewest_TryEnqueue q env =
     (case (q, env) of
        (Some b, Some payload) \<Rightarrow>
          (case Push payload q of
             (True, q') \<Rightarrow> (\<lparr>enq_Queued = True, enq_Dropped = False, enq_Reason = None, enq_QueueDepth = Depth q'\<rparr>, q')
           | (False, q') \<Rightarrow> (\<lparr>enq_Queued = False, enq_Dropped = True, enq_Reason = Some BufferFull, enq_QueueDepth = Depth q'\<rparr>, q'))
      | _ \<Rightarrow> (\<lparr>enq_Queued = False, enq_Dropped = True, enq_Reason = Some BufferFull, enq_QueueDepth = 0\<rparr>, q))"

definition BlockWithTimeout_TryEnqueue :: "drop_reason \<Rightarrow> bqueue option \<Rightarrow> bytes option \<Rightarrow> enq_result \<times> bqueue option" where
  "BlockWithTimeout_TryEnqueue fallback q env =
     (case DropNewest_TryEnqueue q env of
        (result, q') \<Rightarrow> (if enq_Dropped result then result\<lparr>enq_Reason := Some fallback\<rparr> else result, q'))"

section \<open>Rate limiting\<close>

definition defaultWindow :: time where
  "defaultWindow = 1000000000"

record limiter =
  lim_limit :: int
  lim_window :: time
  lim_count :: int
  lim_start :: time

definition NewFixedWindowLimiter :: "time \<Rightarrow> int \<Rightarrow> limiter" where
  "NewFixedWindowLimiter now limit =
     \<lparr>lim_limit = (if limit < 0 then 0 else limit), lim_window = defaultWindow, lim_count = 0, lim_start = now\<rparr>"

definition Allow :: "time \<Rightarrow> limiter \<Rightarrow> bool \<times> limiter" where
  "Allow now l =
     (if lim_limit l \<le> 0 then (True, l)
      else if now - lim_start l \<ge> lim_window l then (True, l\<lparr>lim_start := now, lim_count := 1\<rparr>)
      else if lim_count l \<ge> lim_limit l then (False, l)
      else (True, l\<lparr>lim_count := lim_count l + 1\<rparr>))"

type_synonym project_limiter = "project_id \<Rightarrow> limiter option"

definition ProjectAllow :: "time \<Rightarrow> project_id \<Rightarrow> int \<Rightarrow> project_limiter \<Rightarrow> bool \<times> project_limiter" where
  "ProjectAllow now p limit ls =
     (if limit \<le> 0 then (True, ls)
      else let lim = (case ls p of
                        None \<Rightarrow> NewFixedWindowLimiter now limit
                      | Some l \<Rightarrow> if lim_limit l \<noteq> limit then NewFixedWindowLimiter now limit else l)
           in case Allow now lim of (ok, lim') \<Rightarrow> (ok, ls(p \<mapsto> lim')))"

section \<open>The gatekeeper\<close>

record gatekeeper =
  gk_inbound :: project_limiter
  gk_outbound :: project_limiter

record rates =
  InboundPerSecond :: int
  OutboundPerSecond :: int

definition MessageRates :: "env \<Rightarrow> project_id \<Rightarrow> tenant_svc \<Rightarrow> world \<Rightarrow> (tenant_error + rates) \<times> tenant_svc \<times> world" where
  "MessageRates env p s w =
     (case GetLimits env p s w of
        (Inl e, s, w) \<Rightarrow> (Inl e, s, w)
      | (Inr l, s, w) \<Rightarrow> (Inr \<lparr>InboundPerSecond = limits_InboundPerSecond l, OutboundPerSecond = limits_OutboundPerSecond l\<rparr>, s, w))"

definition gk_allow :: "tenant_error + rates \<Rightarrow> time \<Rightarrow> project_id \<Rightarrow> bool \<Rightarrow> gatekeeper \<Rightarrow> bool \<times> gatekeeper" where
  "gk_allow limits now p inbound g =
     (case limits of
        Inl _ \<Rightarrow> (True, g)
      | Inr r \<Rightarrow>
          let limit = (if inbound then InboundPerSecond r else OutboundPerSecond r);
              lim = (if inbound then gk_inbound g else gk_outbound g)
          in if limit = Unlimited then (True, g)
             else case ProjectAllow now p limit lim of
                    (ok, lim') \<Rightarrow> (ok, if inbound then g\<lparr>gk_inbound := lim'\<rparr> else g\<lparr>gk_outbound := lim'\<rparr>))"

definition AllowInbound :: "tenant_error + rates \<Rightarrow> time \<Rightarrow> project_id \<Rightarrow> gatekeeper \<Rightarrow> bool \<times> gatekeeper" where
  "AllowInbound limits now p g = gk_allow limits now p True g"

definition AllowOutbound :: "tenant_error + rates \<Rightarrow> time \<Rightarrow> project_id \<Rightarrow> gatekeeper \<Rightarrow> bool \<times> gatekeeper" where
  "AllowOutbound limits now p g = gk_allow limits now p False g"

section \<open>The queue is a bounded first-in first-out queue\<close>

text \<open>What a user of the queue relies on: the content, the bound and the two operations.\<close>

locale bounded_fifo =
  fixes content :: "'q \<Rightarrow> 'a list"
    and bound :: "'q \<Rightarrow> int"
    and put :: "'a \<Rightarrow> 'q \<Rightarrow> bool \<times> 'q"
    and get :: "'q \<Rightarrow> 'a option \<times> 'q"
  assumes put_content: "put x q = (ok, q') \<Longrightarrow>
        content q' = (if int (length (content q)) < bound q then content q @ [x] else content q) \<and>
        ok = (int (length (content q)) < bound q) \<and> bound q' = bound q"
    and get_content: "get q = (r, q') \<Longrightarrow>
        bound q' = bound q \<and>
        (case content q of [] \<Rightarrow> r = None \<and> content q' = [] | x # xs \<Rightarrow> r = Some x \<and> content q' = xs)"
begin

text \<open>A script of puts (\<^const>\<open>Some\<close>) and gets (\<^const>\<open>None\<close>); the items accepted and the items handed out.\<close>

fun script :: "'a option list \<Rightarrow> 'q \<Rightarrow> 'a list \<times> 'a list \<times> 'q" where
  "script [] q = ([], [], q)"
| "script (Some x # cs) q =
     (let (ok, q1) = put x q; (acc, out, q2) = script cs q1
      in ((if ok then x # acc else acc), out, q2))"
| "script (None # cs) q =
     (let (r, q1) = get q; (acc, out, q2) = script cs q1
      in (acc, (case r of None \<Rightarrow> out | Some x \<Rightarrow> x # out), q2))"

lemma script_fifo: "script cs q = (acc, out, q') \<Longrightarrow> content q @ acc = out @ content q' \<and> bound q' = bound q"
proof (induction cs arbitrary: q acc out)
  case (Cons c cs)
  show ?case
  proof (cases c)
    case (Some x)
    obtain ok q1 where p: "put x q = (ok, q1)" by fastforce
    obtain a o' where s: "script cs q1 = (a, o', q')" using Cons.prems Some p by (auto split: prod.splits)
    show ?thesis using Cons.IH [OF s] Cons.prems Some p s put_content [OF p]
      by (auto simp: Let_def split: if_splits)
  next
    case None
    obtain r q1 where p: "get q = (r, q1)" by fastforce
    obtain a o' where s: "script cs q1 = (a, o', q')" using Cons.prems None p by (auto split: prod.splits)
    show ?thesis using Cons.IH [OF s] Cons.prems None p s get_content [OF p]
      by (auto simp: Let_def split: list.splits)
  qed
qed simp

lemma script_bounded:
  "script cs q = (acc, out, q') \<Longrightarrow> int (length (content q)) \<le> bound q \<Longrightarrow> int (length (content q')) \<le> bound q'"
proof (induction cs arbitrary: q acc out)
  case (Cons c cs)
  show ?case
  proof (cases c)
    case (Some x)
    obtain ok q1 where p: "put x q = (ok, q1)" by fastforce
    obtain a o' where s: "script cs q1 = (a, o', q')" using Cons.prems Some p by (auto split: prod.splits)
    show ?thesis using Cons.IH [OF s] Cons.prems(2) put_content [OF p] by (auto split: if_splits)
  next
    case None
    obtain r q1 where p: "get q = (r, q1)" by fastforce
    obtain a o' where s: "script cs q1 = (a, o', q')" using Cons.prems None p by (auto split: prod.splits)
    show ?thesis using Cons.IH [OF s] Cons.prems(2) get_content [OF p] by (auto split: list.splits)
  qed
qed simp

end

interpretation bq: bounded_fifo Items Capacity Push Pop
proof
  fix x :: bytes and q q' ok
  assume "Push x q = (ok, q')"
  then show "Items q' = (if int (length (Items q)) < Capacity q then Items q @ [x] else Items q) \<and>
        ok = (int (length (Items q)) < Capacity q) \<and> Capacity q' = Capacity q"
    by (auto simp: Push_def Items_def Capacity_def split: option.splits if_splits)
next
  fix q q' :: "bqueue option" and r
  assume "Pop q = (r, q')"
  then show "Capacity q' = Capacity q \<and>
        (case Items q of [] \<Rightarrow> r = None \<and> Items q' = [] | x # xs \<Rightarrow> r = Some x \<and> Items q' = xs)"
    by (auto simp: Pop_def Items_def Capacity_def split: option.splits list.splits)
qed

lemma Depth_Items: "Depth q = int (length (Items q))"
  by (auto simp: Depth_def Items_def split: option.splits)

text \<open>A sequence of enqueue attempts through the policy and of pops, as the router issues them.\<close>

fun policy_run :: "bytes option list \<Rightarrow> bqueue option \<Rightarrow> bytes list \<times> bytes list \<times> bqueue option" where
  "policy_run [] q = ([], [], q)"
| "policy_run (Some x # cs) q =
     (let (r, q1) = DropNewest_TryEnqueue q (Some x); (acc, out, q2) = policy_run cs q1
      in ((if enq_Queued r then x # acc else acc), out, q2))"
| "policy_run (None # cs) q =
     (let (r, q1) = Pop q; (acc, out, q2) = policy_run cs q1
      in (acc, (case r of None \<Rightarrow> out | Some x \<Rightarrow> x # out), q2))"

lemma TryEnqueue_Push:
  "q \<noteq> None \<Longrightarrow> DropNewest_TryEnqueue q (Some x) =
     (\<lparr>enq_Queued = fst (Push x q), enq_Dropped = (\<not> fst (Push x q)),
       enq_Reason = (if fst (Push x q) then None else Some BufferFull), enq_QueueDepth = Depth (snd (Push x q))\<rparr>,
      snd (Push x q))"
  by (auto simp: DropNewest_TryEnqueue_def split: option.splits prod.splits)

lemma Push_Pop_some: "q \<noteq> None \<Longrightarrow> snd (Push x q) \<noteq> None" "q \<noteq> None \<Longrightarrow> snd (Pop q) \<noteq> None"
  by (auto simp: Push_def Pop_def split: option.splits list.splits)

lemma policy_run_script: "q \<noteq> None \<Longrightarrow> policy_run cs q = bq.script cs q"
proof (induction cs arbitrary: q)
  case (Cons c cs)
  have I: "policy_run cs q1 = bq.script cs q1" if "q1 \<noteq> None" for q1 using Cons.IH that by simp
  show ?case
    by (cases c) (use Cons.prems I Push_Pop_some [of q] in \<open>auto simp: TryEnqueue_Push split: prod.splits\<close>)
qed simp

text \<open>C14. A subscription buffer is a bounded first-in first-out queue with drop-newest admission:
  whatever sequence of enqueue attempts and pops, the items handed out followed by the items still
  queued are exactly the accepted ones in their order; the depth never exceeds the capacity, which is
  at least one; an attempt is dropped, with the reason \<open>buffer_full\<close>, exactly when the buffer is full.\<close>

theorem buffer_fifo_bounded:
  "(case policy_run cs (Some (NewBoundedQueue cap)) of
      (acc, out, q) \<Rightarrow> acc = out @ Items q \<and> Depth q \<le> Capacity q \<and> Capacity q = max 1 cap) \<and>
   enq_Dropped (fst (DropNewest_TryEnqueue (Some b) (Some x))) = (Depth (Some b) \<ge> Capacity (Some b)) \<and>
   enq_Queued (fst (DropNewest_TryEnqueue (Some b) (Some x))) = (Depth (Some b) < Capacity (Some b))"
proof -
  let ?q = "Some (NewBoundedQueue cap)"
  have new: "Items ?q = []" "Capacity ?q = max 1 cap"
    by (auto simp: NewBoundedQueue_def Items_def Capacity_def)
  obtain acc out q where s: "bq.script cs ?q = (acc, out, q)" by (cases "bq.script cs ?q")
  have "int (length (Items ?q)) \<le> Capacity ?q" using new by simp
  with bq.script_fifo [OF s] bq.script_bounded [OF s] new s
  have 1: "case policy_run cs ?q of (acc, out, q) \<Rightarrow> acc = out @ Items q \<and> Depth q \<le> Capacity q \<and> Capacity q = max 1 cap"
    by (simp add: policy_run_script Depth_Items)
  have "fst (Push x (Some b)) = (Depth (Some b) < Capacity (Some b))"
    by (simp add: Push_def Depth_def Capacity_def)
  then show ?thesis using 1
    by (auto simp: TryEnqueue_Push split: prod.splits)
qed

section \<open>What the limiter bounds\<close>

text \<open>A run of requests through the gatekeeper, each with its time, project and direction, while
  the configured rates stay the same.  The result lists the requests with their answers.\<close>

type_synonym request = "time \<times> project_id \<times> bool"

fun gk_run :: "(project_id \<Rightarrow> rates) \<Rightarrow> request list \<Rightarrow> gatekeeper \<Rightarrow> (request \<times> bool) list" where
  "gk_run rates [] g = []"
| "gk_run rates ((now, p, d) # evs) g =
     (case gk_allow (Inr (rates p)) now p d g of (ok, g') \<Rightarrow> ((now, p, d), ok) # gk_run rates evs g')"

definition rate_of :: "rates \<Rightarrow> bool \<Rightarrow> int" where
  "rate_of r d = (if d then InboundPerSecond r else OutboundPerSecond r)"

definition own :: "gatekeeper \<Rightarrow> project_id \<Rightarrow> bool \<Rightarrow> limiter option" where
  "own g p d = (if d then gk_inbound g else gk_outbound g) p"

text \<open>The number of requests of a project in one direction admitted in \<open>[t, t + one second)\<close>.\<close>

definition admitted :: "project_id \<Rightarrow> bool \<Rightarrow> time \<Rightarrow> (request \<times> bool) list \<Rightarrow> nat" where
  "admitted p d t rs =
     length (List.filter (\<lambda>((x, p', d'), ok). ok \<and> p' = p \<and> d' = d \<and> t \<le> x \<and> x < t + defaultWindow) rs)"

definition lim_wf :: "int \<Rightarrow> limiter option \<Rightarrow> bool" where
  "lim_wf limit l = (case l of None \<Rightarrow> True
     | Some l \<Rightarrow> lim_limit l = limit \<and> lim_window l = defaultWindow \<and> 1 \<le> lim_count l \<and> lim_count l \<le> limit)"

lemma gk_allow_other:
  "gk_allow r now p d g = (ok, g') \<Longrightarrow> (p', d') \<noteq> (p, d) \<Longrightarrow> own g' p' d' = own g p' d'"
  by (auto simp: gk_allow_def own_def ProjectAllow_def Let_def split: sum.splits prod.splits if_splits)

lemma gk_allow_own:
  assumes "gk_allow (Inr r) now p d g = (ok, g')" "0 < rate_of r d" "lim_wf (rate_of r d) (own g p d)"
  shows "\<exists>l'. own g' p d = Some l' \<and> lim_wf (rate_of r d) (Some l') \<and>
     (case own g p d of
        None \<Rightarrow> ok \<and> lim_start l' = now \<and> lim_count l' = 1
      | Some l \<Rightarrow>
          if now - lim_start l \<ge> defaultWindow then ok \<and> lim_start l' = now \<and> lim_count l' = 1
          else lim_start l' = lim_start l \<and> lim_count l' = lim_count l + of_bool ok)"
  using assms
  by (cases d; cases "own g p d")
    (auto simp: gk_allow_def own_def ProjectAllow_def Let_def rate_of_def Unlimited_def lim_wf_def Allow_def
      NewFixedWindowLimiter_def defaultWindow_def split: prod.splits if_splits)

lemma admitted_Cons:
  "admitted p d t (((x, p', d'), ok) # rs) =
     of_bool (ok \<and> p' = p \<and> d' = d \<and> t \<le> x \<and> x < t + defaultWindow) + admitted p d t rs"
  by (simp add: admitted_def)

lemma admitted_late: "\<forall>e\<in>set evs. t + defaultWindow \<le> fst e \<Longrightarrow> admitted p d t (gk_run rates evs g) = 0"
proof (induction evs arbitrary: g)
  case (Cons e evs)
  obtain x p' d' where e: "e = (x, p', d')" by (cases e)
  show ?case using Cons e by (auto simp: admitted_Cons split: prod.splits)
qed (simp add: admitted_def)

lemma admitted_same_window:
  assumes "sorted (List.map fst evs)" "own g p d = Some l" "lim_wf (rate_of (rates p) d) (Some l)"
    "0 < rate_of (rates p) d" "t \<le> lim_start l"
  shows "int (admitted p d t (gk_run rates evs g)) \<le> rate_of (rates p) d - lim_count l"
  using assms
proof (induction evs arbitrary: g l)
  case Nil
  then show ?case by (simp add: admitted_def lim_wf_def)
next
  case (Cons e evs)
  obtain x p' d' where e: "e = (x, p', d')" by (cases e)
  obtain ok g' where a: "gk_allow (Inr (rates p')) x p' d' g = (ok, g')" by fastforce
  show ?case
  proof (cases "(p', d') = (p, d)")
    case False
    have "own g' p d = Some l" using gk_allow_other [OF a, of p d] False Cons.prems(2) by auto
    then have "int (admitted p d t (gk_run rates evs g')) \<le> rate_of (rates p) d - lim_count l"
      using Cons.IH [of g' l] Cons.prems by simp
    then show ?thesis using a e False by (auto simp: admitted_Cons)
  next
    case True
    then have a': "gk_allow (Inr (rates p)) x p d g = (ok, g')" using a by simp
    obtain l' where l': "own g' p d = Some l'" "lim_wf (rate_of (rates p) d) (Some l')"
      "if x - lim_start l \<ge> defaultWindow then ok \<and> lim_start l' = x \<and> lim_count l' = 1
       else lim_start l' = lim_start l \<and> lim_count l' = lim_count l + of_bool ok"
      using gk_allow_own [OF a'] Cons.prems by auto
    show ?thesis
    proof (cases "x - lim_start l \<ge> defaultWindow")
      case True
      then have "\<forall>e\<in>set (e # evs). t + defaultWindow \<le> fst e" using Cons.prems e by fastforce
      then have "admitted p d t (gk_run rates (e # evs) g) = 0" by (rule admitted_late)
      then show ?thesis using Cons.prems(3) by (simp add: lim_wf_def)
    next
      case False
      then have "int (admitted p d t (gk_run rates evs g')) \<le> rate_of (rates p) d - lim_count l'"
        using Cons.IH [of g' l'] Cons.prems l' by simp
      moreover have "lim_count l' = lim_count l + of_bool ok" using l'(3) False by simp
      ultimately show ?thesis using a e by (cases ok) (auto simp: admitted_Cons)
    qed
  qed
qed

definition used :: "limiter option \<Rightarrow> int" where
  "used l = (case l of None \<Rightarrow> 1 | Some l \<Rightarrow> lim_count l)"

lemma admitted_two_windows:
  assumes "sorted (List.map fst evs)" "\<forall>e\<in>set evs. t \<le> fst e" "lim_wf (rate_of (rates p) d) (own g p d)"
    "0 < rate_of (rates p) d"
  shows "int (admitted p d t (gk_run rates evs g)) \<le> 2 * rate_of (rates p) d - used (own g p d)"
  using assms
proof (induction evs arbitrary: g)
  case Nil
  then show ?case by (auto simp: admitted_def lim_wf_def used_def split: option.splits)
next
  case (Cons e evs)
  let ?L = "rate_of (rates p) d"
  obtain x p' d' where e: "e = (x, p', d')" by (cases e)
  obtain ok g' where a: "gk_allow (Inr (rates p')) x p' d' g = (ok, g')" by fastforce
  show ?case
  proof (cases "(p', d') = (p, d)")
    case False
    have "own g' p d = own g p d" using gk_allow_other [OF a, of p d] False by auto
    then have "int (admitted p d t (gk_run rates evs g')) \<le> 2 * ?L - used (own g p d)"
      using Cons.IH [of g'] Cons.prems by simp
    then show ?thesis using a e False by (auto simp: admitted_Cons)
  next
    case True
    then have a': "gk_allow (Inr (rates p)) x p d g = (ok, g')" using a by simp
    obtain l' where l': "own g' p d = Some l'" "lim_wf ?L (Some l')"
      "case own g p d of None \<Rightarrow> ok \<and> lim_start l' = x \<and> lim_count l' = 1
      | Some l \<Rightarrow>
          if x - lim_start l \<ge> defaultWindow then ok \<and> lim_start l' = x \<and> lim_count l' = 1
          else lim_start l' = lim_start l \<and> lim_count l' = lim_count l + of_bool ok"
      using gk_allow_own [OF a'] Cons.prems by auto
    have bound: "used (own g p d) \<le> ?L" using Cons.prems(3,4) by (auto simp: used_def lim_wf_def split: option.splits)
    consider (new) "lim_start l' = x" "lim_count l' = 1"
      | (old) "lim_count l' = used (own g p d) + of_bool ok"
      using l'(3) by (auto simp: used_def split: option.splits if_splits)
    then show ?thesis
    proof cases
      case new
      then have "int (admitted p d t (gk_run rates evs g')) \<le> ?L - 1"
        using admitted_same_window [of evs g' p d l' rates t] Cons.prems l' e by simp
      then show ?thesis using a e bound by (auto simp: admitted_Cons)
    next
      case old
      have "int (admitted p d t (gk_run rates evs g')) \<le> 2 * ?L - used (Some l')"
        using Cons.IH [of g'] Cons.prems l' by simp
      then show ?thesis using old a e by (cases ok) (auto simp: admitted_Cons used_def)
    qed
  qed
qed

lemma admitted_any:
  assumes "sorted (List.map fst evs)" "lim_wf (rate_of (rates p) d) (own g p d)" "0 < rate_of (rates p) d"
  shows "int (admitted p d t (gk_run rates evs g)) \<le> 2 * rate_of (rates p) d - 1"
  using assms
proof (induction evs arbitrary: g)
  case Nil
  then show ?case by (simp add: admitted_def)
next
  case (Cons e evs)
  obtain x p' d' where e: "e = (x, p', d')" by (cases e)
  obtain ok g' where a: "gk_allow (Inr (rates p')) x p' d' g = (ok, g')" by fastforce
  show ?case
  proof (cases "t \<le> x")
    case True
    then have "\<forall>e\<in>set (e # evs). t \<le> fst e" using Cons.prems(1) e by fastforce
    moreover have "1 \<le> used (own g p d)" using Cons.prems(2) by (auto simp: used_def lim_wf_def split: option.splits)
    ultimately show ?thesis using admitted_two_windows [of "e # evs" t rates p d g] Cons.prems by simp
  next
    case False
    have "lim_wf (rate_of (rates p) d) (own g' p d)"
    proof (cases "(p', d') = (p, d)")
      case True
      then show ?thesis using gk_allow_own [of "rates p" x p d g ok g'] a Cons.prems by auto
    qed (use gk_allow_other [OF a, of p d] Cons.prems in auto)
    then show ?thesis using Cons.IH [of g'] Cons.prems a e False by (auto simp: admitted_Cons)
  qed
qed

lemma gk_allow_local:
  assumes "own g p d = own h p d" "gk_allow r x p d g = (ok, g')" "gk_allow r x p d h = (ok', h')"
  shows "ok = ok' \<and> own g' p d = own h' p d"
  using assms
  by (cases d) (auto simp: gk_allow_def own_def ProjectAllow_def Let_def split: sum.splits prod.splits if_splits)

text \<open>The answers to one project and direction are those of its own requests alone.\<close>

lemma gk_run_own:
  "own g p d = own h p d \<Longrightarrow>
   List.filter (\<lambda>((x, p', d'), ok). p' = p \<and> d' = d) (gk_run rates evs g) =
   gk_run rates (List.filter (\<lambda>(x, p', d'). p' = p \<and> d' = d) evs) h"
proof (induction evs arbitrary: g h)
  case (Cons e evs)
  obtain x p' d' where e: "e = (x, p', d')" by (cases e)
  obtain ok g' where a: "gk_allow (Inr (rates p')) x p' d' g = (ok, g')" by fastforce
  obtain ok' h' where b: "gk_allow (Inr (rates p')) x p' d' h = (ok', h')" by fastforce
  show ?case
  proof (cases "p' = p \<and> d' = d")
    case True
    then show ?thesis using gk_allow_local [OF _ a b] Cons e a b by auto
  next
    case False
    then have "own g' p d = own h p d" using gk_allow_other [OF a, of p d] Cons.prems by auto
    then show ?thesis using Cons.IH [of g' h] False e a by auto
  qed
qed simp

lemma gk_run_unlimited:
  "rate_of (rates p) d \<le> 0 \<Longrightarrow> ((x, p, d), ok) \<in> set (gk_run rates evs g) \<Longrightarrow> ok"
proof (induction evs arbitrary: g)
  case (Cons e evs)
  obtain y p' d' where e: "e = (y, p', d')" by (cases e)
  obtain ok' g' where a: "gk_allow (Inr (rates p')) y p' d' g = (ok', g')" by fastforce
  have "p' = p \<Longrightarrow> d' = d \<Longrightarrow> ok'" using a Cons.prems(1)
    by (auto simp: gk_allow_def ProjectAllow_def rate_of_def Let_def split: if_splits prod.splits)
  then show ?case using Cons e a by auto
qed simp

definition empty_gatekeeper :: gatekeeper where
  "empty_gatekeeper = \<lparr>gk_inbound = Map.empty, gk_outbound = Map.empty\<rparr>"

lemma own_empty [simp]: "own empty_gatekeeper p d = None"
  by (simp add: empty_gatekeeper_def own_def)

text \<open>C15. However the requests of all projects and both directions interleave: the answers to one
  project and direction are those it would get alone; within any second a project with a positive
  rate \<open>r\<close> gets at most \<open>2 r - 1\<close> (the boundary of a window may fall inside that second), and within
  the second that its first request opens at most \<open>r\<close>.\<close>

theorem rate_limit_bound:
  assumes "sorted (List.map fst evs)" "sorted (List.map fst ((x, p, d) # later))" "0 < rate_of (rates p) d"
  shows "List.filter (\<lambda>((x, p', d'), ok). p' = p \<and> d' = d) (gk_run rates evs empty_gatekeeper) =
         gk_run rates (List.filter (\<lambda>(x, p', d'). p' = p \<and> d' = d) evs) empty_gatekeeper \<and>
         int (admitted p d t (gk_run rates evs empty_gatekeeper)) \<le> 2 * rate_of (rates p) d - 1 \<and>
         int (admitted p d x (gk_run rates ((x, p, d) # later) empty_gatekeeper)) \<le> rate_of (rates p) d"
proof (intro conjI)
  show "List.filter (\<lambda>((x, p', d'), ok). p' = p \<and> d' = d) (gk_run rates evs empty_gatekeeper) =
         gk_run rates (List.filter (\<lambda>(x, p', d'). p' = p \<and> d' = d) evs) empty_gatekeeper"
    by (rule gk_run_own) simp
  show "int (admitted p d t (gk_run rates evs empty_gatekeeper)) \<le> 2 * rate_of (rates p) d - 1"
    by (rule admitted_any) (use assms in \<open>simp_all add: lim_wf_def\<close>)
  obtain ok g' where a: "gk_allow (Inr (rates p)) x p d empty_gatekeeper = (ok, g')" by fastforce
  obtain l' where l': "own g' p d = Some l'" "lim_wf (rate_of (rates p) d) (Some l')" "lim_start l' = x" "lim_count l' = 1"
    using gk_allow_own [OF a] assms(3) by (auto simp: lim_wf_def)
  have "int (admitted p d x (gk_run rates later g')) \<le> rate_of (rates p) d - 1"
    using admitted_same_window [of later g' p d l' rates x] assms l' by simp
  then show "int (admitted p d x (gk_run rates ((x, p, d) # later) empty_gatekeeper)) \<le> rate_of (rates p) d"
    using a by (simp add: admitted_Cons)
qed

text \<open>The bound is met: with two per second, three requests get through between half a second and
  one and a half.\<close>

definition sample_rates :: "project_id \<Rightarrow> rates" where
  "sample_rates p = \<lparr>InboundPerSecond = 2, OutboundPerSecond = 1\<rparr>"

definition sample_requests :: "request list" where
  "sample_requests = [(0, 1, True), (1, 2, True), (500000000, 1, True), (600000000, 1, True),
     (1000000000, 1, True), (1000000001, 1, True)]"

theorem rate_limit_bound_witness:
  "int (admitted 1 True 500000000 (gk_run sample_rates sample_requests empty_gatekeeper)) = 2 * 2 - 1 \<and>
   int (admitted 1 True 500000000 (gk_run sample_rates sample_requests empty_gatekeeper))
     \<le> 2 * rate_of (sample_rates 1) True - 1"
proof -
  have "int (admitted 1 True 500000000 (gk_run sample_rates sample_requests empty_gatekeeper))
     \<le> 2 * rate_of (sample_rates 1) True - 1"
    using rate_limit_bound [of sample_requests 0 1 True "[]" sample_rates 500000000]
    by (simp add: rate_of_def sample_rates_def sample_requests_def)
  moreover have "int (admitted 1 True 500000000 (gk_run sample_rates sample_requests empty_gatekeeper)) = 2 * 2 - 1"
    by code_simp
  ultimately show ?thesis by simp
qed

text \<open>A limit of zero does not stop a project: like the value for unlimited, and like a
  limit that cannot be read, it admits every request.\<close>

lemma zero_rate_is_unlimited:
  "fst (gk_allow (Inl e) now p d g) \<and>
   fst (gk_allow (Inr \<lparr>InboundPerSecond = 0, OutboundPerSecond = 0\<rparr>) now p d g) \<and>
   fst (gk_allow (Inr \<lparr>InboundPerSecond = Unlimited, OutboundPerSecond = Unlimited\<rparr>) now p d g)"
  by (simp add: gk_allow_def ProjectAllow_def Unlimited_def)

end
