(* ===== verification/SubRepo.thy ===== *)
theory SubRepo
  imports Prelude "HOL-Library.List_Lexorder"
begin

text \<open>
  \<open>internal/domain/messaging/subscription/model.go\<close> and
  \<open>internal/infrastructure/repository/messaging/subscription/repository.go\<close>: subscriptions and the
  in-memory index from channels to subscriptions and back.  The repository stores pointers: a
  subscription is an address (\<open>ref\<close>) into a heap, so that closing it shows everywhere at once.  A
  nil pointer is \<^const>\<open>None\<close>.  Go iterates over a map in an arbitrary order, which is an argument
  (a list of the elements) of the operations that iterate.  Nothing reads or writes the \<open>send\<close>
  channel of a subscription but \<open>Close\<close>, so it is left out.
\<close>

type_synonym ref = nat

record subscription =
  sub_ID :: ulid
  sub_ClientID :: ulid
  sub_closed :: bool
  sub_createdAt :: time
  sub_lastActive :: time

type_synonym heap = "ref \<Rightarrow> subscription"

definition New_subscription :: "ulid \<Rightarrow> time \<Rightarrow> ulid \<Rightarrow> subscription" where
  "New_subscription newID now clientID =
     \<lparr>sub_ID = newID, sub_ClientID = clientID, sub_closed = False, sub_createdAt = now, sub_lastActive = now\<rparr>"

definition IsActive_sub :: "subscription \<Rightarrow> bool" where
  "IsActive_sub s \<longleftrightarrow> \<not> sub_closed s"

definition UpdateActivity_sub :: "time \<Rightarrow> ref \<Rightarrow> heap \<Rightarrow> heap" where
  "UpdateActivity_sub now r h = h(r := (h r)\<lparr>sub_lastActive := now\<rparr>)"

definition Close_sub :: "ref \<Rightarrow> heap \<Rightarrow> heap" where
  "Close_sub r h = (if sub_closed (h r) then h else h(r := (h r)\<lparr>sub_closed := True\<rparr>))"

record sub_repo =
  subscriptions :: "string \<Rightarrow> ref set option"
  subChannels :: "ulid \<Rightarrow> string set option"

datatype sub_error = SubNil | SubClosed | SubChannelNotFound | SubNotFound

section \<open>Operations\<close>

definition AddToChannel :: "time \<Rightarrow> string \<Rightarrow> ref option \<Rightarrow> heap \<Rightarrow> sub_repo \<Rightarrow> (sub_error + unit) \<times> heap \<times> sub_repo" where
  "AddToChannel now ch sub h R =
     (case sub of None \<Rightarrow> (Inl SubNil, h, R)
      | Some r \<Rightarrow>
          if sub_closed (h r) then (Inl SubClosed, h, R)
          else let S = (case subscriptions R ch of None \<Rightarrow> {} | Some S \<Rightarrow> S);
                   C = (case subChannels R (sub_ID (h r)) of None \<Rightarrow> {} | Some C \<Rightarrow> C);
                   R = R\<lparr>subscriptions := (subscriptions R)(ch \<mapsto> insert r S),
                         subChannels := (subChannels R)(sub_ID (h r) \<mapsto> insert ch C)\<rparr>
               in (Inr (), UpdateActivity_sub now r h, R))"

definition drop_reverse :: "ulid \<Rightarrow> string \<Rightarrow> sub_repo \<Rightarrow> sub_repo" where
  "drop_reverse i ch R =
     (case subChannels R i of None \<Rightarrow> R
      | Some C \<Rightarrow> if C - {ch} = {} then R\<lparr>subChannels := (subChannels R)(i := None)\<rparr>
                  else R\<lparr>subChannels := (subChannels R)(i \<mapsto> C - {ch})\<rparr>)"

definition drop_forward :: "ref \<Rightarrow> string \<Rightarrow> sub_repo \<Rightarrow> sub_repo" where
  "drop_forward r ch R =
     (case subscriptions R ch of None \<Rightarrow> R
      | Some S \<Rightarrow> if S - {r} = {} then R\<lparr>subscriptions := (subscriptions R)(ch := None)\<rparr>
                  else R\<lparr>subscriptions := (subscriptions R)(ch \<mapsto> S - {r})\<rparr>)"

definition RemoveFromChannel :: "string \<Rightarrow> ref option \<Rightarrow> heap \<Rightarrow> sub_repo \<Rightarrow> (sub_error + unit) \<times> sub_repo" where
  "RemoveFromChannel ch sub h R =
     (case sub of None \<Rightarrow> (Inl SubNil, R)
      | Some r \<Rightarrow>
          (case subscriptions R ch of
             None \<Rightarrow> (Inl SubChannelNotFound, drop_reverse (sub_ID (h r)) ch R)
           | Some S \<Rightarrow> (Inr (), drop_forward r ch (drop_reverse (sub_ID (h r)) ch R))))"

text \<open>The loop over the channels of the subscription, in some order.\<close>

fun remove_loop :: "ref \<Rightarrow> string list \<Rightarrow> sub_repo \<Rightarrow> sub_repo" where
  "remove_loop r [] R = R"
| "remove_loop r (ch # chs) R = remove_loop r chs (drop_forward r ch R)"

definition RemoveSubscriptionFromAll ::
    "(string set \<Rightarrow> string list) \<Rightarrow> ref option \<Rightarrow> heap \<Rightarrow> sub_repo \<Rightarrow> (sub_error + unit) \<times> sub_repo" where
  "RemoveSubscriptionFromAll enum sub h R =
     (case sub of None \<Rightarrow> (Inl SubNil, R)
      | Some r \<Rightarrow>
          (case subChannels R (sub_ID (h r)) of
             None \<Rightarrow> (Inr (), R)
           | Some C \<Rightarrow> let R = remove_loop r (enum C) R
                       in (Inr (), R\<lparr>subChannels := (subChannels R)(sub_ID (h r) := None)\<rparr>)))"

fun touch_active :: "time \<Rightarrow> ref list \<Rightarrow> heap \<Rightarrow> ref list \<times> heap" where
  "touch_active now [] h = ([], h)"
| "touch_active now (r # rs) h =
     (if sub_closed (h r) then touch_active now rs h
      else case touch_active now rs (UpdateActivity_sub now r h) of (out, h') \<Rightarrow> (r # out, h'))"

definition GetAllLocalForChannel ::
    "(ref set \<Rightarrow> ref list) \<Rightarrow> time \<Rightarrow> string \<Rightarrow> heap \<Rightarrow> sub_repo \<Rightarrow> (sub_error + ref list) \<times> heap" where
  "GetAllLocalForChannel enum now ch h R =
     (case subscriptions R ch of
        None \<Rightarrow> (Inl SubChannelNotFound, h)
      | Some S \<Rightarrow> (case touch_active now (enum S) h of (out, h') \<Rightarrow> (Inr out, h')))"

definition GetAllChannelsForSubscription ::
    "(string set \<Rightarrow> string list) \<Rightarrow> time \<Rightarrow> ref option \<Rightarrow> heap \<Rightarrow> sub_repo \<Rightarrow> (sub_error + string list) \<times> heap" where
  "GetAllChannelsForSubscription enum now sub h R =
     (case sub of None \<Rightarrow> (Inl SubNil, h)
      | Some r \<Rightarrow>
          (case subChannels R (sub_ID (h r)) of
             None \<Rightarrow> (Inr [], h)
           | Some C \<Rightarrow> (let channels = enum C
                        in (Inr channels, if length channels > 0 then UpdateActivity_sub now r h else h))))"

definition idleTimeout :: time where
  "idleTimeout = 5 * 60 * 1000000000"

definition stale :: "time \<Rightarrow> subscription \<Rightarrow> bool" where
  "stale now s \<longleftrightarrow> sub_closed s \<or> now - sub_lastActive s > idleTimeout"

text \<open>The inner loop of \<open>CleanClosedSubscriptions\<close>, over the subscriptions of one channel.\<close>

fun clean_channel :: "time \<Rightarrow> string \<Rightarrow> ref list \<Rightarrow> heap \<Rightarrow> sub_repo \<Rightarrow> nat \<Rightarrow> heap \<times> sub_repo \<times> nat" where
  "clean_channel now ch [] h R n = (h, R, n)"
| "clean_channel now ch (r # rs) h R n =
     (if stale now (h r)
      then clean_channel now ch rs (Close_sub r h)
             (drop_reverse (sub_ID (h r)) ch
               (R\<lparr>subscriptions := (subscriptions R)(ch := map_option (\<lambda>S. S - {r}) (subscriptions R ch))\<rparr>)) (n + 1)
      else clean_channel now ch rs h R n)"

definition drop_empty :: "string \<Rightarrow> sub_repo \<Rightarrow> sub_repo" where
  "drop_empty ch R =
     (if subscriptions R ch = Some {} then R\<lparr>subscriptions := (subscriptions R)(ch := None)\<rparr> else R)"

fun CleanClosedSubscriptions ::
    "time \<Rightarrow> (string \<times> ref list) list \<Rightarrow> heap \<Rightarrow> sub_repo \<Rightarrow> nat \<Rightarrow> heap \<times> sub_repo \<times> nat" where
  "CleanClosedSubscriptions now [] h R n = (h, R, n)"
| "CleanClosedSubscriptions now ((ch, rs) # rest) h R n =
     (case clean_channel now ch rs h R n of
        (h, R, n) \<Rightarrow> CleanClosedSubscriptions now rest h (drop_empty ch R) n)"

definition FindByID_sub :: "(string \<times> ref list) list \<Rightarrow> ulid \<Rightarrow> heap \<Rightarrow> sub_error + ref" where
  "FindByID_sub order subID h =
     (case List.find (\<lambda>r. sub_ID (h r) = subID) (concat (List.map snd order)) of
        None \<Rightarrow> Inl SubNotFound | Some r \<Rightarrow> Inr r)"

section \<open>The abstract index: a relation between channels and subscriptions\<close>

definition links :: "sub_repo \<Rightarrow> (string \<times> ref) set" where
  "links R = {(ch, r). \<exists>S. subscriptions R ch = Some S \<and> r \<in> S}"

definition rev_links :: "sub_repo \<Rightarrow> (ulid \<times> string) set" where
  "rev_links R = {(i, ch). \<exists>C. subChannels R i = Some C \<and> ch \<in> C}"

text \<open>The two maps describe the same links, hold no empty or infinite set, and no two registered
  subscriptions share an identifier.\<close>

definition sub_inv :: "heap \<Rightarrow> sub_repo \<Rightarrow> bool" where
  "sub_inv h R \<longleftrightarrow>
     rev_links R = (\<lambda>(ch, r). (sub_ID (h r), ch)) ` links R \<and>
     inj_on (\<lambda>r. sub_ID (h r)) (snd ` links R) \<and>
     (\<forall>ch. subscriptions R ch \<noteq> Some {}) \<and> (\<forall>i. subChannels R i \<noteq> Some {}) \<and>
     finite (links R)"

text \<open>Operations on the heap that leave the identifiers alone.\<close>

definition same_IDs :: "heap \<Rightarrow> heap \<Rightarrow> bool" where
  "same_IDs h h' \<longleftrightarrow> (\<forall>r. sub_ID (h' r) = sub_ID (h r) \<and> sub_ClientID (h' r) = sub_ClientID (h r))"

lemma same_IDs_refl [simp]: "same_IDs h h"
  by (simp add: same_IDs_def)

lemma same_IDs_trans: "same_IDs h1 h2 \<Longrightarrow> same_IDs h2 h3 \<Longrightarrow> same_IDs h1 h3"
  by (simp add: same_IDs_def)

lemma same_IDs_update [simp]: "same_IDs h (UpdateActivity_sub now r h)" "same_IDs h (Close_sub r h)"
  by (simp_all add: same_IDs_def UpdateActivity_sub_def Close_sub_def)

lemma update_closed [simp]: "sub_closed (UpdateActivity_sub now r h x) = sub_closed (h x)"
  by (simp add: UpdateActivity_sub_def)

lemma close_closed [simp]: "sub_closed (Close_sub r h x) = (sub_closed (h x) \<or> x = r)"
  by (auto simp: Close_sub_def)

lemma sub_inv_same_IDs: "same_IDs h h' \<Longrightarrow> sub_inv h' R = sub_inv h R"
  by (simp add: sub_inv_def same_IDs_def)

lemma sub_inv_unique: "sub_inv h R \<Longrightarrow> (c, r) \<in> links R \<Longrightarrow> (c', r') \<in> links R \<Longrightarrow> sub_ID (h r) = sub_ID (h r') \<Longrightarrow> r = r'"
  unfolding sub_inv_def inj_on_def by (metis imageI snd_conv)

lemma sub_inv_rev: "sub_inv h R \<Longrightarrow> (c, r) \<in> links R \<Longrightarrow> (i, ch) \<in> rev_links R \<Longrightarrow> i = sub_ID (h r) \<Longrightarrow> (ch, r) \<in> links R"
proof -
  assume a: "sub_inv h R" "(c, r) \<in> links R" "(i, ch) \<in> rev_links R" "i = sub_ID (h r)"
  then obtain r' where "(ch, r') \<in> links R" "i = sub_ID (h r')" unfolding sub_inv_def by auto
  with a sub_inv_unique [OF a(1), of ch r' c r] show ?thesis by simp
qed

subsection \<open>Effect of the elementary steps on the links\<close>

lemma links_update [simp]:
  "links (R\<lparr>subChannels := m\<rparr>) = links R" "rev_links (R\<lparr>subscriptions := n\<rparr>) = rev_links R"
  by (simp_all add: links_def rev_links_def)

lemma links_drop_forward [simp]: "links (drop_forward r ch R) = links R - {(ch, r)}"
  by (auto simp: links_def drop_forward_def split: option.splits if_splits)

lemma rev_links_drop_forward [simp]: "rev_links (drop_forward r ch R) = rev_links R"
  by (auto simp: rev_links_def drop_forward_def split: option.splits)

lemma links_drop_reverse [simp]: "links (drop_reverse i ch R) = links R"
  by (auto simp: links_def drop_reverse_def split: option.splits)

lemma rev_links_drop_reverse [simp]: "rev_links (drop_reverse i ch R) = rev_links R - {(i, ch)}"
  by (auto simp: rev_links_def drop_reverse_def split: option.splits if_splits)

lemma subChannels_drop_forward [simp]: "subChannels (drop_forward r ch R) = subChannels R"
  by (auto simp: drop_forward_def split: option.splits)

lemma subscriptions_drop_reverse [simp]: "subscriptions (drop_reverse i ch R) = subscriptions R"
  by (auto simp: drop_reverse_def split: option.splits)

lemma nonempty_drop_forward: "\<forall>c. subscriptions R c \<noteq> Some {} \<Longrightarrow> \<forall>c. subscriptions (drop_forward r ch R) c \<noteq> Some {}"
  by (auto simp: drop_forward_def split: option.splits)

lemma nonempty_drop_reverse: "\<forall>c. subChannels R c \<noteq> Some {} \<Longrightarrow> \<forall>c. subChannels (drop_reverse i ch R) c \<noteq> Some {}"
  by (auto simp: drop_reverse_def split: option.splits)

text \<open>Removing one link on both sides.\<close>

lemma sub_inv_unlink:
  assumes "sub_inv h R" "links R' = links R - {(ch, r)}" "rev_links R' = rev_links R - {(sub_ID (h r), ch)}"
    "\<forall>c. subscriptions R' c \<noteq> Some {}" "\<forall>i. subChannels R' i \<noteq> Some {}"
    "(ch, r) \<in> links R \<or> (sub_ID (h r), ch) \<notin> rev_links R"
  shows "sub_inv h R'"
proof -
  let ?f = "\<lambda>(ch, r). (sub_ID (h r), ch)"
  have inj: "inj_on (\<lambda>r. sub_ID (h r)) (snd ` links R)" and rv: "rev_links R = ?f ` links R"
    using assms(1) by (auto simp: sub_inv_def)
  have f: "inj_on ?f (links R)"
    using inj by (fastforce simp: inj_on_def)
  have "?f ` (links R - {(ch, r)}) = ?f ` links R - {(sub_ID (h r), ch)}"
  proof (cases "(ch, r) \<in> links R")
    case True
    then show ?thesis using inj_on_image_set_diff [OF f, of "links R" "{(ch, r)}"] by auto
  next
    case False
    then have "(sub_ID (h r), ch) \<notin> ?f ` links R" using assms(6) rv by blast
    then show ?thesis using False by simp
  qed
  then have "rev_links R' = ?f ` links R'" by (simp only: assms(2,3) rv)
  moreover have "inj_on (\<lambda>r. sub_ID (h r)) (snd ` links R')"
    by (rule inj_on_subset [OF inj]) (auto simp: assms(2))
  moreover have "finite (links R')" using assms(1,2) by (simp add: sub_inv_def)
  ultimately show ?thesis using assms(4,5) unfolding sub_inv_def by blast
qed

text \<open>No registered subscription other than \<open>r\<close> has the identifier of \<open>r\<close>.\<close>

definition own_ID :: "heap \<Rightarrow> sub_repo \<Rightarrow> ref \<Rightarrow> bool" where
  "own_ID h R r \<longleftrightarrow> (\<forall>r'\<in>snd ` links R. sub_ID (h r') = sub_ID (h r) \<longrightarrow> r' = r)"

lemma own_ID_registered: "sub_inv h R \<Longrightarrow> (c, r) \<in> links R \<Longrightarrow> own_ID h R r"
  using sub_inv_unique unfolding own_ID_def by fastforce

lemma own_ID_rev: "sub_inv h R \<Longrightarrow> own_ID h R r \<Longrightarrow> (sub_ID (h r), ch) \<in> rev_links R \<longleftrightarrow> (ch, r) \<in> links R"
  unfolding sub_inv_def own_ID_def by (auto simp: image_iff) force+

lemma sub_inv_drop_both:
  assumes "sub_inv h R" "own_ID h R r"
  shows "sub_inv h (drop_forward r ch (drop_reverse (sub_ID (h r)) ch R))"
proof (rule sub_inv_unlink [OF assms(1)])
  show "(ch, r) \<in> links R \<or> (sub_ID (h r), ch) \<notin> rev_links R" using own_ID_rev [OF assms] by blast
  show "\<forall>c. subscriptions (drop_forward r ch (drop_reverse (sub_ID (h r)) ch R)) c \<noteq> Some {}"
    by (rule nonempty_drop_forward) (use assms in \<open>simp add: sub_inv_def\<close>)
  show "\<forall>i. subChannels (drop_forward r ch (drop_reverse (sub_ID (h r)) ch R)) i \<noteq> Some {}"
    using assms nonempty_drop_reverse by (simp add: sub_inv_def)
qed simp_all

lemma RemoveFromChannel_links:
  assumes "sub_inv h R" "own_ID h R r" "RemoveFromChannel ch (Some r) h R = (res, R')"
  shows "sub_inv h R' \<and> links R' = links R - {(ch, r)} \<and> (res = Inr () \<longleftrightarrow> (\<exists>r'. (ch, r') \<in> links R))"
proof (cases "subscriptions R ch")
  case None
  then have no: "(ch, r) \<notin> links R" "(sub_ID (h r), ch) \<notin> rev_links R" "\<not> (\<exists>r'. (ch, r') \<in> links R)"
    using own_ID_rev [OF assms(1,2)] by (auto simp: links_def)
  have R': "R' = drop_reverse (sub_ID (h r)) ch R" "res \<noteq> Inr ()" using assms(3) None by (auto simp: RemoveFromChannel_def)
  have "sub_inv h R'" unfolding R'
  proof (rule sub_inv_unlink [OF assms(1), where ch = ch and r = r])
    show "\<forall>i. subChannels (drop_reverse (sub_ID (h r)) ch R) i \<noteq> Some {}"
      by (rule nonempty_drop_reverse) (use assms in \<open>simp add: sub_inv_def\<close>)
  qed (use no assms in \<open>simp_all add: sub_inv_def\<close>)
  with no R' show ?thesis by simp
next
  case (Some S)
  then have R': "R' = drop_forward r ch (drop_reverse (sub_ID (h r)) ch R)" "res = Inr ()"
    using assms(3) by (auto simp: RemoveFromChannel_def)
  have "S \<noteq> {}" using assms(1) Some by (auto simp: sub_inv_def)
  then have "\<exists>r'. (ch, r') \<in> links R" using Some by (auto simp: links_def)
  with R' sub_inv_drop_both [OF assms(1,2)] show ?thesis by simp
qed

lemma AddToChannel_links:
  assumes "sub_inv h R" "own_ID h R r" "AddToChannel now ch (Some r) h R = (res, h', R')"
  shows "sub_inv h' R' \<and> same_IDs h h' \<and> (\<forall>x. sub_closed (h' x) = sub_closed (h x)) \<and>
    (if sub_closed (h r) then res = Inl SubClosed \<and> links R' = links R
     else res = Inr () \<and> links R' = insert (ch, r) (links R))"
proof (cases "sub_closed (h r)")
  case True
  then show ?thesis using assms by (auto simp: AddToChannel_def)
next
  case False
  define S where "S = (case subscriptions R ch of None \<Rightarrow> {} | Some S \<Rightarrow> S)"
  define C where "C = (case subChannels R (sub_ID (h r)) of None \<Rightarrow> {} | Some C \<Rightarrow> C)"
  have h': "h' = UpdateActivity_sub now r h" and res: "res = Inr ()"
    and R': "R' = R\<lparr>subscriptions := (subscriptions R)(ch \<mapsto> insert r S),
                      subChannels := (subChannels R)(sub_ID (h r) \<mapsto> insert ch C)\<rparr>"
    using assms(3) False by (auto simp: AddToChannel_def S_def C_def Let_def)
  have l: "links R' = insert (ch, r) (links R)"
    unfolding R' by (auto simp: links_def S_def split: option.splits if_splits)
  have v: "rev_links R' = insert (sub_ID (h r), ch) (rev_links R)"
    unfolding R' by (auto simp: rev_links_def C_def split: option.splits if_splits)
  have inj: "inj_on (\<lambda>r. sub_ID (h r)) (snd ` links R)" using assms(1) by (simp add: sub_inv_def)
  have "inj_on (\<lambda>r. sub_ID (h r)) (insert r (snd ` links R))"
    using inj assms(2) unfolding own_ID_def inj_on_def by (metis insert_iff)
  then have "sub_inv h R'" using assms(1) l v unfolding sub_inv_def R' by simp
  then have "sub_inv h' R'" using sub_inv_same_IDs [of h h'] h' by simp
  then show ?thesis using h' res l False by simp
qed

definition enumerates :: "('a set \<Rightarrow> 'a list) \<Rightarrow> bool" where
  "enumerates enum \<longleftrightarrow> (\<forall>S. finite S \<longrightarrow> set (enum S) = S \<and> distinct (enum S))"

lemma remove_loop_links [simp]:
  "links (remove_loop r chs R) = links R - (set chs \<times> {r})" "subChannels (remove_loop r chs R) = subChannels R"
  by (induction chs arbitrary: R) auto

lemma remove_loop_nonempty: "\<forall>c. subscriptions R c \<noteq> Some {} \<Longrightarrow> \<forall>c. subscriptions (remove_loop r chs R) c \<noteq> Some {}"
proof (induction chs arbitrary: R)
  case (Cons c chs)
  then show ?case using nonempty_drop_forward [of R r c] by (simp del: not_Some_eq)
qed simp

lemma finite_links_rev: "sub_inv h R \<Longrightarrow> subChannels R i = Some C \<Longrightarrow> finite C"
proof -
  assume a: "sub_inv h R" "subChannels R i = Some C"
  have "C \<subseteq> snd ` rev_links R" using a(2) by (force simp: rev_links_def)
  moreover have "finite (rev_links R)" using a(1) by (simp add: sub_inv_def)
  ultimately show ?thesis by (meson finite_imageI finite_subset)
qed

lemma RemoveSubscriptionFromAll_links:
  assumes "sub_inv h R" "own_ID h R r" "enumerates enum" "RemoveSubscriptionFromAll enum (Some r) h R = (res, R')"
  shows "res = Inr () \<and> sub_inv h R' \<and> links R' = links R - (UNIV \<times> {r})"
proof (cases "subChannels R (sub_ID (h r))")
  case None
  have "(c, r) \<notin> links R" for c using own_ID_rev [OF assms(1,2), of c] None by (auto simp: rev_links_def)
  then show ?thesis using None assms by (auto simp: RemoveSubscriptionFromAll_def)
next
  case (Some C)
  have C: "set (enum C) = C" using assms(3) finite_links_rev [OF assms(1) Some] by (simp add: enumerates_def)
  have mem: "c \<in> C \<longleftrightarrow> (c, r) \<in> links R" for c
    using own_ID_rev [OF assms(1,2), of c] Some by (auto simp: rev_links_def)
  define R1 where "R1 = remove_loop r (enum C) R"
  have R': "R' = R1\<lparr>subChannels := (subChannels R1)(sub_ID (h r) := None)\<rparr>" "res = Inr ()"
    using assms(4) Some by (auto simp: RemoveSubscriptionFromAll_def Let_def R1_def)
  have l: "links R' = links R - (UNIV \<times> {r})"
    unfolding R' using mem C by (auto simp: R1_def)
  have "rev_links R' = rev_links R - ({sub_ID (h r)} \<times> UNIV)"
    unfolding R' by (auto simp: rev_links_def R1_def split: if_splits)
  also have "\<dots> = (\<lambda>(ch, r). (sub_ID (h r), ch)) ` links R'"
    using assms(1,2) unfolding l sub_inv_def own_ID_def by force
  finally have v: "rev_links R' = (\<lambda>(ch, r). (sub_ID (h r), ch)) ` links R'" .
  have "inj_on (\<lambda>r. sub_ID (h r)) (snd ` links R')"
    by (rule inj_on_subset [of _ "snd ` links R"]) (use assms(1) l in \<open>auto simp: sub_inv_def\<close>)
  moreover have "\<forall>c. subscriptions R1 c \<noteq> Some {}"
    unfolding R1_def by (rule remove_loop_nonempty) (use assms(1) in \<open>simp add: sub_inv_def\<close>)
  then have "\<forall>c. subscriptions R' c \<noteq> Some {}" unfolding R' by simp
  moreover have "\<forall>i. subChannels R' i \<noteq> Some {}"
    using assms(1) unfolding R' by (simp add: R1_def sub_inv_def)
  moreover have "finite (links R')" using assms(1) l by (simp add: sub_inv_def)
  ultimately show ?thesis using v l R'(2) unfolding sub_inv_def by blast
qed

lemma GetAllChannels_links:
  assumes "sub_inv h R" "own_ID h R r" "enumerates enum" "GetAllChannelsForSubscription enum now (Some r) h R = (res, h')"
  shows "\<exists>chs. res = Inr chs \<and> distinct chs \<and> set chs = {ch. (ch, r) \<in> links R} \<and> same_IDs h h' \<and>
    (\<forall>x. sub_closed (h' x) = sub_closed (h x))"
proof (cases "subChannels R (sub_ID (h r))")
  case None
  then have "{ch. (ch, r) \<in> links R} = {}" using own_ID_rev [OF assms(1,2)] by (auto simp: rev_links_def)
  then show ?thesis using None assms(4) by (auto simp: GetAllChannelsForSubscription_def)
next
  case (Some C)
  have "set (enum C) = C" "distinct (enum C)" using assms(3) finite_links_rev [OF assms(1) Some] by (simp_all add: enumerates_def)
  moreover have "C = {ch. (ch, r) \<in> links R}"
    using own_ID_rev [OF assms(1,2)] Some by (auto simp: rev_links_def)
  ultimately show ?thesis using Some assms(4) by (auto simp: GetAllChannelsForSubscription_def Let_def)
qed

lemma touch_active_spec:
  "touch_active now rs h = (out, h') \<Longrightarrow> out = List.filter (\<lambda>r. \<not> sub_closed (h r)) rs \<and> same_IDs h h' \<and>
    (\<forall>x. sub_closed (h' x) = sub_closed (h x))"
proof (induction rs arbitrary: h out)
  case (Cons r rs)
  show ?case
  proof (cases "sub_closed (h r)")
    case True
    then show ?thesis using Cons by simp
  next
    case False
    then obtain o' where o: "touch_active now rs (UpdateActivity_sub now r h) = (o', h')" "out = r # o'"
      using Cons.prems by (auto split: prod.splits)
    show ?thesis using Cons.IH [OF o(1)] o(2) False same_IDs_trans [OF same_IDs_update(1)] by auto
  qed
qed simp

lemma GetAllLocal_links:
  assumes "sub_inv h R" "enumerates enum" "GetAllLocalForChannel enum now ch h R = (res, h')"
  shows "(case res of
            Inl e \<Rightarrow> e = SubChannelNotFound \<and> (\<forall>r. (ch, r) \<notin> links R)
          | Inr rs \<Rightarrow> distinct rs \<and> set rs = {r. (ch, r) \<in> links R \<and> \<not> sub_closed (h r)}) \<and>
         same_IDs h h' \<and> (\<forall>x. sub_closed (h' x) = sub_closed (h x))"
proof (cases "subscriptions R ch")
  case None
  then show ?thesis using assms(3) by (auto simp: GetAllLocalForChannel_def links_def)
next
  case (Some S)
  have S: "S = {r. (ch, r) \<in> links R}" using Some by (auto simp: links_def)
  have "finite (snd ` links R)" using assms(1) by (simp add: sub_inv_def)
  then have "finite S" unfolding S by (rule rev_finite_subset) force
  then have e: "set (enum S) = S" "distinct (enum S)" using assms(2) by (auto simp: enumerates_def)
  obtain out where o: "touch_active now (enum S) h = (out, h')" "res = Inr out"
    using assms(3) Some by (auto simp: GetAllLocalForChannel_def split: prod.splits)
  show ?thesis using touch_active_spec [OF o(1)] o(2) e S by auto
qed

subsection \<open>The clean-up\<close>

lemma stale_Close [simp]: "stale now (Close_sub r h x) \<longleftrightarrow> stale now (h x) \<or> x = r"
  by (auto simp: stale_def Close_sub_def)

lemma clean_channel_spec:
  assumes "clean_channel now ch rs h R n = (h', R', n')" "distinct rs"
  defines "dead \<equiv> {r \<in> set rs. stale now (h r)}"
  shows "links R' = links R - {ch} \<times> dead \<and>
     rev_links R' = rev_links R - (\<lambda>r. (sub_ID (h r), ch)) ` dead \<and>
     (\<forall>c. c \<noteq> ch \<longrightarrow> subscriptions R' c = subscriptions R c) \<and>
     ((\<forall>i. subChannels R i \<noteq> Some {}) \<longrightarrow> (\<forall>i. subChannels R' i \<noteq> Some {})) \<and>
     n' = n + card dead \<and> same_IDs h h' \<and> (\<forall>x. stale now (h' x) = stale now (h x)) \<and>
     (\<forall>x. sub_closed (h' x) = (sub_closed (h x) \<or> x \<in> dead))"
  using assms(1,2) unfolding dead_def
proof (induction rs arbitrary: h R n)
  case (Cons r rs)
  show ?case
  proof (cases "stale now (h r)")
    case False
    then have e: "{x \<in> set (r # rs). stale now (h x)} = {x \<in> set rs. stale now (h x)}" by auto
    show ?thesis unfolding e using Cons.IH [of h R n] Cons.prems False by simp
  next
    case True
    let ?h = "Close_sub r h"
    let ?R = "drop_reverse (sub_ID (h r)) ch
               (R\<lparr>subscriptions := (subscriptions R)(ch := map_option (\<lambda>S. S - {r}) (subscriptions R ch))\<rparr>)"
    have run: "clean_channel now ch rs ?h ?R (n + 1) = (h', R', n')" using Cons.prems True by simp
    have nr: "r \<notin> set rs" "distinct rs" using Cons.prems by auto
    have ids: "sub_ID (?h x) = sub_ID (h x)" for x using same_IDs_update(2) [of h r] by (simp add: same_IDs_def)
    have d: "{x \<in> set rs. stale now (?h x)} = {x \<in> set rs. stale now (h x)}" using nr by auto
    have e: "{x \<in> set (r # rs). stale now (h x)} = insert r {x \<in> set rs. stale now (h x)}" using True by auto
    have c: "card (insert r {x \<in> set rs. stale now (h x)}) = Suc (card {x \<in> set rs. stale now (h x)})"
      using nr by simp
    have l: "links ?R = links R - {(ch, r)}" by (auto simp: links_def split: if_splits)
    have v: "rev_links ?R = rev_links R - {(sub_ID (h r), ch)}" by simp
    have o: "c \<noteq> ch \<Longrightarrow> subscriptions ?R c = subscriptions R c" for c by simp
    have ne: "(\<forall>i. subChannels R i \<noteq> Some {}) \<Longrightarrow> (\<forall>i. subChannels ?R i \<noteq> Some {})"
      by (rule nonempty_drop_reverse) simp
    have st: "stale now (?h x) = stale now (h x)" for x using True by auto
    note I = Cons.IH [OF run nr(2), unfolded d ids l v]
    show ?thesis unfolding e c
      using I o ne st same_IDs_trans [OF same_IDs_update(2)] by auto
  qed
qed simp

lemma drop_empty_simps [simp]: "links (drop_empty ch R) = links R" "rev_links (drop_empty ch R) = rev_links R"
  "subChannels (drop_empty ch R) = subChannels R"
  by (auto simp: drop_empty_def links_def split: if_splits)

lemma clean_step:
  assumes "sub_inv h R" "clean_channel now ch rs h R n = (h', R', n')" "distinct rs" "set rs = {r. (ch, r) \<in> links R}"
  shows "sub_inv h' (drop_empty ch R')"
proof -
  let ?f = "\<lambda>(ch, r). (sub_ID (h r), ch)"
  let ?dead = "{r \<in> set rs. stale now (h r)}"
  note c = clean_channel_spec [OF assms(2,3)]
  have inj: "inj_on (\<lambda>r. sub_ID (h r)) (snd ` links R)" and rv: "rev_links R = ?f ` links R"
    using assms(1) by (auto simp: sub_inv_def)
  have f: "inj_on ?f (links R)" using inj by (fastforce simp: inj_on_def)
  have sub: "{ch} \<times> ?dead \<subseteq> links R" using assms(4) by auto
  have im: "?f ` ({ch} \<times> ?dead) = (\<lambda>r. (sub_ID (h r), ch)) ` ?dead" by force
  have "?f ` (links R - {ch} \<times> ?dead) = ?f ` links R - ?f ` ({ch} \<times> ?dead)"
    by (rule inj_on_image_set_diff [OF f _ sub]) blast
  then have "rev_links R' = ?f ` links R'" using c rv im by simp
  moreover have "inj_on (\<lambda>r. sub_ID (h r)) (snd ` links R')"
    by (rule inj_on_subset [OF inj]) (use c in auto)
  moreover have "subscriptions (drop_empty ch R') x \<noteq> Some {}" for x
    using assms(1) c by (cases "x = ch") (simp_all add: drop_empty_def sub_inv_def)
  moreover have "finite (links R')" "\<forall>i. subChannels R' i \<noteq> Some {}" using assms(1) c by (simp_all add: sub_inv_def)
  ultimately have "sub_inv h (drop_empty ch R')" unfolding sub_inv_def by simp
  then show ?thesis using sub_inv_same_IDs [of h h'] c by simp
qed

text \<open>The iteration order visits the channels of the map once, and each one's subscriptions once.\<close>

definition visits :: "(string \<times> ref list) list \<Rightarrow> sub_repo \<Rightarrow> bool" where
  "visits order R \<longleftrightarrow> distinct (List.map fst order) \<and>
     (\<forall>(ch, rs)\<in>set order. distinct rs \<and> set rs = {r. (ch, r) \<in> links R})"

lemma CleanClosed_links:
  assumes "sub_inv h R" "visits order R" "CleanClosedSubscriptions now order h R n = (h', R', n')"
  defines "dead \<equiv> {(ch, r) \<in> links R. ch \<in> fst ` set order \<and> stale now (h r)}"
  shows "sub_inv h' R' \<and> links R' = links R - dead \<and> n' = n + card dead \<and> same_IDs h h' \<and>
     (\<forall>x. sub_closed (h' x) = (sub_closed (h x) \<or> x \<in> snd ` dead))"
  using assms(1-3) unfolding dead_def
proof (induction order arbitrary: h R n)
  case (Cons o1 order)
  obtain ch rs where o: "o1 = (ch, rs)" by fastforce
  obtain h1 R1 n1 where c1: "clean_channel now ch rs h R n = (h1, R1, n1)" by (cases "clean_channel now ch rs h R n")
  have v: "distinct rs" "set rs = {r. (ch, r) \<in> links R}" "ch \<notin> fst ` set order"
    using Cons.prems(2) o by (auto simp: visits_def)
  note c = clean_channel_spec [OF c1 v(1)]
  define D1 where "D1 = {(c, r) \<in> links R. c = ch \<and> stale now (h r)}"
  define D2 where "D2 = {(c, r) \<in> links R. c \<in> fst ` set order \<and> stale now (h r)}"
  have d1: "{ch} \<times> {r \<in> set rs. stale now (h r)} = D1" using v(2) by (auto simp: D1_def)
  have fin: "finite (links R)" using Cons.prems(1) by (simp add: sub_inv_def)
  have D: "{(c, r) \<in> links R. c \<in> fst ` set (o1 # order) \<and> stale now (h r)} = D1 \<union> D2" "D1 \<inter> D2 = {}"
    using o v(3) by (auto simp: D1_def D2_def)
  have finD: "finite D1" "finite D2" using fin by (auto simp: D1_def D2_def intro: rev_finite_subset)
  have card1: "card {r \<in> set rs. stale now (h r)} = card D1"
    unfolding d1 [symmetric] by (simp add: card_cartesian_product_singleton)
  have i1: "sub_inv h1 (drop_empty ch R1)" using clean_step [OF Cons.prems(1) c1 v(1,2)] .
  have l1: "links (drop_empty ch R1) = links R - D1" using c d1 by simp
  have vis: "visits order (drop_empty ch R1)"
  proof -
    have "distinct rs' \<and> set rs' = {r. (c, r) \<in> links R - D1}" if "(c, rs') \<in> set order" for c rs'
    proof -
      have "c \<noteq> ch" using that v(3) by force
      then have "{r. (c, r) \<in> links R - D1} = {r. (c, r) \<in> links R}" by (simp add: D1_def)
      then show ?thesis using Cons.prems(2) that unfolding visits_def by force
    qed
    then show ?thesis using Cons.prems(2) unfolding visits_def l1 by (auto simp: o)
  qed
  have run: "CleanClosedSubscriptions now order h1 (drop_empty ch R1) n1 = (h', R', n')"
    using Cons.prems(3) c1 o by simp
  have st: "stale now (h1 r) = stale now (h r)" for r using c by blast
  have d2: "{(c, r) \<in> links (drop_empty ch R1). c \<in> fst ` set order \<and> stale now (h1 r)} = D2"
    unfolding l1 D2_def D1_def st using v(3) by blast
  have snd1: "snd ` D1 = {r \<in> set rs. stale now (h r)}" unfolding d1 [symmetric] by force
  note I = Cons.IH [OF i1 vis run, unfolded d2, unfolded l1]
  note I1 = I [THEN conjunct1] and I2 = I [THEN conjunct2, THEN conjunct1]
    and I3 = I [THEN conjunct2, THEN conjunct2, THEN conjunct1]
    and I4 = I [THEN conjunct2, THEN conjunct2, THEN conjunct2, THEN conjunct1]
    and I5 = I [THEN conjunct2, THEN conjunct2, THEN conjunct2, THEN conjunct2]
  have c5: "n1 = n + card D1" "same_IDs h h1" using c card1 by simp_all
  have c6: "sub_closed (h1 x) = (sub_closed (h x) \<or> x \<in> snd ` D1)" for x unfolding snd1 using c by blast
  have "n' = n + card (D1 \<union> D2)" unfolding I3 c5(1) card_Un_disjoint [OF finD D(2)] by (simp only: add.assoc)
  moreover have "links R' = links R - (D1 \<union> D2)" unfolding I2 by blast
  moreover have "same_IDs h h'" by (rule same_IDs_trans [OF c5(2) I4])
  moreover have "\<forall>x. sub_closed (h' x) = (sub_closed (h x) \<or> x \<in> snd ` (D1 \<union> D2))"
    unfolding image_Un using I5 c6 by blast
  ultimately show ?case using I1 unfolding D(1) by blast
qed simp

section \<open>The repository implements the relation\<close>

datatype idx_op = IAdd time string ref | IRemove string ref | IRemoveAll ref | IClose ref
  | ILocal time string | IChannels time ref

fun idx_step :: "(string set \<Rightarrow> string list) \<Rightarrow> (ref set \<Rightarrow> ref list) \<Rightarrow> idx_op \<Rightarrow> heap \<times> sub_repo \<Rightarrow> heap \<times> sub_repo" where
  "idx_step ec er (IAdd now ch r) (h, R) = snd (AddToChannel now ch (Some r) h R)"
| "idx_step ec er (IRemove ch r) (h, R) = (h, snd (RemoveFromChannel ch (Some r) h R))"
| "idx_step ec er (IRemoveAll r) (h, R) = (h, snd (RemoveSubscriptionFromAll ec (Some r) h R))"
| "idx_step ec er (IClose r) (h, R) = (Close_sub r h, R)"
| "idx_step ec er (ILocal now ch) (h, R) = (snd (GetAllLocalForChannel er now ch h R), R)"
| "idx_step ec er (IChannels now r) (h, R) = (snd (GetAllChannelsForSubscription ec now (Some r) h R), R)"

type_synonym idx_spec = "(string \<times> ref) set \<times> ref set"

text \<open>The specification: the links and the closed subscriptions.\<close>

fun idx_spec_step :: "idx_op \<Rightarrow> idx_spec \<Rightarrow> idx_spec" where
  "idx_spec_step (IAdd now ch r) (L, X) = (if r \<in> X then L else insert (ch, r) L, X)"
| "idx_spec_step (IRemove ch r) (L, X) = (L - {(ch, r)}, X)"
| "idx_spec_step (IRemoveAll r) (L, X) = (L - UNIV \<times> {r}, X)"
| "idx_spec_step (IClose r) (L, X) = (L, insert r X)"
| "idx_spec_step _ s = s"

fun idx_ref :: "idx_op \<Rightarrow> ref option" where
  "idx_ref (IAdd now ch r) = Some r"
| "idx_ref (IRemove ch r) = Some r"
| "idx_ref (IRemoveAll r) = Some r"
| "idx_ref (IClose r) = Some r"
| "idx_ref (ILocal now ch) = None"
| "idx_ref (IChannels now r) = Some r"

text \<open>The subscriptions in use: their identifiers are different.\<close>

definition idx_inv :: "ref set \<Rightarrow> heap \<times> sub_repo \<Rightarrow> bool" where
  "idx_inv U s \<longleftrightarrow> sub_inv (fst s) (snd s) \<and> inj_on (\<lambda>r. sub_ID (fst s r)) U \<and> snd ` links (snd s) \<subseteq> U"

definition idx_abs :: "heap \<times> sub_repo \<Rightarrow> idx_spec" where
  "idx_abs s = (links (snd s), {r. sub_closed (fst s r)})"

definition idx_ok :: "ref set \<Rightarrow> idx_op \<Rightarrow> bool" where
  "idx_ok U c = (case idx_ref c of None \<Rightarrow> True | Some r \<Rightarrow> r \<in> U)"

lemma idx_own: "idx_inv U (h, R) \<Longrightarrow> r \<in> U \<Longrightarrow> own_ID h R r"
  unfolding idx_inv_def own_ID_def inj_on_def by auto

lemma same_IDs_inj: "same_IDs h h' \<Longrightarrow> inj_on (\<lambda>r. sub_ID (h' r)) U = inj_on (\<lambda>r. sub_ID (h r)) U"
  by (simp add: same_IDs_def)

lemma idx_step_spec:
  assumes "enumerates ec" "enumerates er" "idx_ok U c" "idx_inv U (h, R)"
  shows "idx_inv U (idx_step ec er c (h, R)) \<and> idx_abs (idx_step ec er c (h, R)) = idx_spec_step c (idx_abs (h, R))"
proof -
  have i: "sub_inv h R" "inj_on (\<lambda>r. sub_ID (h r)) U" "snd ` links R \<subseteq> U"
    using assms(4) by (auto simp: idx_inv_def)
  show ?thesis
  proof (cases c)
    case (IAdd now ch r)
    then have o: "own_ID h R r" "r \<in> U" using idx_own [OF assms(4)] assms(3) by (auto simp: idx_ok_def)
    obtain res h' R' where a: "AddToChannel now ch (Some r) h R = (res, h', R')" by (cases "AddToChannel now ch (Some r) h R")
    show ?thesis using AddToChannel_links [OF i(1) o(1) a] i o a IAdd same_IDs_inj [of h h' U]
      by (auto simp: idx_inv_def idx_abs_def split: if_splits)
  next
    case (IRemove ch r)
    then have o: "own_ID h R r" using idx_own [OF assms(4)] assms(3) by (auto simp: idx_ok_def)
    obtain res R' where a: "RemoveFromChannel ch (Some r) h R = (res, R')" by fastforce
    show ?thesis using RemoveFromChannel_links [OF i(1) o a] i a IRemove by (auto simp: idx_inv_def idx_abs_def)
  next
    case (IRemoveAll r)
    then have o: "own_ID h R r" using idx_own [OF assms(4)] assms(3) by (auto simp: idx_ok_def)
    obtain res R' where a: "RemoveSubscriptionFromAll ec (Some r) h R = (res, R')" by fastforce
    show ?thesis using RemoveSubscriptionFromAll_links [OF i(1) o assms(1) a] i a IRemoveAll
      by (auto simp: idx_inv_def idx_abs_def)
  next
    case (IClose r)
    then show ?thesis using i same_IDs_update(2) [of h r] sub_inv_same_IDs [of h "Close_sub r h" R] same_IDs_inj [of h "Close_sub r h" U]
      by (auto simp: idx_inv_def idx_abs_def)
  next
    case (ILocal now ch)
    obtain res h' where a: "GetAllLocalForChannel er now ch h R = (res, h')" by fastforce
    show ?thesis using GetAllLocal_links [OF i(1) assms(2) a] i a ILocal same_IDs_inj [of h h' U] sub_inv_same_IDs [of h h' R]
      by (simp add: idx_inv_def idx_abs_def)
  next
    case (IChannels now r)
    then have o: "own_ID h R r" using idx_own [OF assms(4)] assms(3) by (auto simp: idx_ok_def)
    obtain res h' where a: "GetAllChannelsForSubscription ec now (Some r) h R = (res, h')" by fastforce
    show ?thesis using GetAllChannels_links [OF i(1) o assms(1) a] i a IChannels same_IDs_inj [of h h' U] sub_inv_same_IDs [of h h' R]
      by (auto simp: idx_inv_def idx_abs_def)
  qed
qed

interpretation idx: refinement
    "\<lambda>s. enumerates ec \<and> enumerates er \<and> idx_inv U s" idx_abs "idx_ok U" "idx_step ec er" idx_spec_step
  for ec er U
proof
  fix c s
  assume a: "idx_ok U c" "enumerates ec \<and> enumerates er \<and> idx_inv U s"
  obtain h R where s: "s = (h, R)" by fastforce
  show "enumerates ec \<and> enumerates er \<and> idx_inv U (idx_step ec er c s)" "idx_abs (idx_step ec er c s) = idx_spec_step c (idx_abs s)"
    using idx_step_spec [of ec er U c h R] a s by auto
qed

definition empty_sub_repo :: sub_repo where
  "empty_sub_repo = \<lparr>subscriptions = Map.empty, subChannels = Map.empty\<rparr>"

lemma idx_inv_empty: "inj_on (\<lambda>r. sub_ID (h r)) U \<Longrightarrow> idx_inv U (h, empty_sub_repo)"
  by (simp add: idx_inv_def sub_inv_def empty_sub_repo_def links_def rev_links_def)

text \<open>C16. The subscription repository, with its map and its reverse index, implements one relation
  between channels and subscriptions: after any sequence of additions, removals, closings and lookups
  on subscriptions with different identifiers, the two maps agree and hold no empty entries, the links
  and closed subscriptions are those of the specification, the fan-out list of a channel is its open
  linked subscriptions, each once, and the channel list of a subscription is its linked channels.\<close>

theorem subscription_index_correct:
  assumes "inj_on (\<lambda>r. sub_ID (h0 r)) U" "enumerates ec" "enumerates er" "list_all (idx_ok U) ops" "r \<in> U"
    "fold (idx_step ec er) ops (h0, empty_sub_repo) = (h, R)"
    "fold idx_spec_step ops ({}, {r. sub_closed (h0 r)}) = (L, X)"
  shows "sub_inv h R \<and> links R = L \<and> {r. sub_closed (h r)} = X \<and>
    (case fst (GetAllLocalForChannel er now ch h R) of
       Inl e \<Rightarrow> e = SubChannelNotFound \<and> (\<forall>x. (ch, x) \<notin> L)
     | Inr rs \<Rightarrow> distinct rs \<and> set rs = {x. (ch, x) \<in> L \<and> x \<notin> X}) \<and>
    (\<exists>chs. fst (GetAllChannelsForSubscription ec now (Some r) h R) = Inr chs \<and> distinct chs \<and> set chs = {c. (c, r) \<in> L})"
proof -
  have "links empty_sub_repo = {}" by (simp add: links_def empty_sub_repo_def)
  then have a: "idx_abs (h0, empty_sub_repo) = ({}, {r. sub_closed (h0 r)})" by (simp add: idx_abs_def)
  have i: "idx_inv U (h, R)" "idx_abs (h, R) = (L, X)"
    using idx.run [of U ops ec er "(h0, empty_sub_repo)"] assms a idx_inv_empty [OF assms(1)] by auto
  then have s: "sub_inv h R" "links R = L" "X = {r. sub_closed (h r)}" "own_ID h R r"
    using idx_own [OF i(1) assms(5)] by (auto simp: idx_inv_def idx_abs_def)
  obtain res h1 where l: "GetAllLocalForChannel er now ch h R = (res, h1)" by fastforce
  obtain res' h2 where g: "GetAllChannelsForSubscription ec now (Some r) h R = (res', h2)" by fastforce
  note ll = GetAllLocal_links [OF s(1) assms(3) l] and gg = GetAllChannels_links [OF s(1,4) assms(2) g]
  show ?thesis using s ll gg l g by (auto split: sum.splits)
qed

text \<open>Two subscriptions; the second leaves everything.\<close>

definition sample_heap :: heap where
  "sample_heap r = New_subscription (if r = 1 then ''s1'' else ''s2'') 0 ''c''"

definition sample_idx_ops :: "idx_op list" where
  "sample_idx_ops = [IAdd 5 ''1.a'' 1, IAdd 6 ''1.a'' 2, IAdd 7 ''1.b'' 2, ILocal 8 ''1.a'', IClose 2, IRemoveAll 2]"

lemma sorted_enumerates: "enumerates (sorted_list_of_set :: 'a :: linorder set \<Rightarrow> 'a list)"
  by (simp add: enumerates_def)

theorem subscription_index_correct_witness:
  "let (h, R) = fold (idx_step sorted_list_of_set sorted_list_of_set) sample_idx_ops (sample_heap, empty_sub_repo)
   in sub_inv h R \<and> links R = {(''1.a'', 1)} \<and> fst (GetAllLocalForChannel sorted_list_of_set 9 ''1.a'' h R) = Inr [1]"
proof -
  let ?run = "fold (idx_step sorted_list_of_set sorted_list_of_set) sample_idx_ops (sample_heap, empty_sub_repo)"
  obtain h R where r: "?run = (h, R)" by fastforce
  have c0: "{r. sub_closed (sample_heap r)} = {}" by (simp add: sample_heap_def New_subscription_def)
  have spec: "fold idx_spec_step sample_idx_ops ({}, {r. sub_closed (sample_heap r)}) = ({(''1.a'', 1)}, {2})"
    unfolding c0 by (auto simp: sample_idx_ops_def)
  have "sub_inv h R \<and> links R = {(''1.a'', 1)} \<and> {r. sub_closed (h r)} = {2} \<and>
    (case fst (GetAllLocalForChannel sorted_list_of_set 9 ''1.a'' h R) of
       Inl e \<Rightarrow> e = SubChannelNotFound \<and> (\<forall>x. (''1.a'', x) \<notin> {(''1.a'', 1 :: nat)})
     | Inr rs \<Rightarrow> distinct rs \<and> set rs = {x. (''1.a'', x) \<in> {(''1.a'', 1)} \<and> x \<notin> {2}}) \<and>
    (\<exists>chs. fst (GetAllChannelsForSubscription sorted_list_of_set 9 (Some 1) h R) = Inr chs \<and> distinct chs \<and>
       set chs = {c. (c, 1) \<in> {(''1.a'', 1 :: nat)}})"
    by (rule subscription_index_correct [OF _ sorted_enumerates sorted_enumerates _ _ r spec, of "{1, 2}"])
      (simp_all add: sample_heap_def New_subscription_def inj_on_def sample_idx_ops_def idx_ok_def)
  moreover have "fst (case ?run of (h, R) \<Rightarrow> GetAllLocalForChannel sorted_list_of_set 9 ''1.a'' h R) = Inr [1]"
    by code_simp
  ultimately show ?thesis using r by simp
qed

text \<open>The clean-up removes from the index exactly the subscriptions that are closed or have been
  idle for more than five minutes, closes the idle ones, counts the removals, and keeps the two maps in
  step, in whatever order it visits them.\<close>

lemma clean_closed_correct:
  assumes "sub_inv h R" "visits order R" "fst ` links R \<subseteq> fst ` set order"
    "CleanClosedSubscriptions now order h R 0 = (h', R', n)"
  shows "sub_inv h' R' \<and> links R' = {(ch, r) \<in> links R. \<not> stale now (h r)} \<and>
    n = card {(ch, r) \<in> links R. stale now (h r)} \<and>
    (\<forall>x. sub_closed (h' x) = (sub_closed (h x) \<or> (stale now (h x) \<and> x \<in> snd ` links R)))"
proof -
  have d: "{(ch, r) \<in> links R. ch \<in> fst ` set order \<and> stale now (h r)} = {(ch, r) \<in> links R. stale now (h r)}"
    using assms(3) by force
  have "links R - {(ch, r) \<in> links R. stale now (h r)} = {(ch, r) \<in> links R. \<not> stale now (h r)}" by auto
  moreover have "x \<in> snd ` {(ch, r) \<in> links R. stale now (h r)} \<longleftrightarrow> stale now (h x) \<and> x \<in> snd ` links R" for x
    by force
  ultimately show ?thesis using CleanClosed_links [OF assms(1,2,4)] unfolding d by simp
qed


definition sample_registered :: "heap \<times> sub_repo" where
  "sample_registered = fold (idx_step sorted_list_of_set sorted_list_of_set)
     [IAdd 0 ''1.a'' 1, IAdd 400000000000 ''1.a'' 2] (sample_heap, empty_sub_repo)"

lemma sample_registered_inv:
  "sub_inv (fst sample_registered) (snd sample_registered)" "links (snd sample_registered) = {(''1.a'', 1), (''1.a'', 2)}"
proof -
  let ?ops = "[IAdd 0 ''1.a'' 1, IAdd 400000000000 ''1.a'' 2]"
  have i: "idx_inv {1, 2} (sample_heap, empty_sub_repo)"
    by (rule idx_inv_empty) (simp add: sample_heap_def New_subscription_def inj_on_def)
  have o: "list_all (idx_ok {1, 2}) ?ops" by (simp add: idx_ok_def)
  have a: "idx_abs (sample_heap, empty_sub_repo) = ({}, {})"
    by (simp add: idx_abs_def links_def empty_sub_repo_def sample_heap_def New_subscription_def)
  have "idx_inv {1, 2} sample_registered \<and> idx_abs sample_registered = fold idx_spec_step ?ops ({}, {})"
    using idx.run [OF o, of sorted_list_of_set sorted_list_of_set "(sample_heap, empty_sub_repo)"] i a
    unfolding sample_registered_def by (simp add: sorted_enumerates)
  then show "sub_inv (fst sample_registered) (snd sample_registered)"
    "links (snd sample_registered) = {(''1.a'', 1), (''1.a'', 2)}"
    by (auto simp: idx_inv_def idx_abs_def)
qed

end
