(* ===== verification/Connections.thy ===== *)
theory Connections
  imports Prelude "HOL-Library.List_Lexorder"
begin

text \<open>
  \<open>internal/domain/messaging/connection\<close>, its in-memory repository
  (\<open>internal/infrastructure/repository/messaging/connection/repository.go\<close>) and service
  (\<open>internal/application/service/messaging/connection/service.go\<close>).  Connections are objects behind
  pointers; \<open>conn_ref\<close> is the pointer and the heap maps it to the object.  The order in which Go
  visits a map is an argument (\<open>enum\<close>).  The outcome of a socket write is an argument of the
  operations that send.
\<close>

section \<open>Connections\<close>

type_synonym conn_ref = nat

datatype conn_state = StateOpening | StateOpen | StateClosing | StateClosed | StateError

record connection =
  conn_ID :: ulid
  conn_ProjectID :: project_id
  conn_Alias :: "string option"
  conn_RemoteAddr :: string
  conn_UserAgent :: string
  conn_State :: conn_state
  conn_CreatedAt :: time
  conn_LastPingAt :: time
  conn_LastPongAt :: time
  conn_LastClientPingAt :: time
  conn_LastClientPongAt :: time
  conn_LastSentAt :: time
  conn_LastRecvAt :: time
  conn_MessagesSent :: int
  conn_MessagesRecv :: int
  conn_BytesSent :: int
  conn_BytesRecv :: int

definition New_connection :: "ulid \<Rightarrow> time \<Rightarrow> project_id \<Rightarrow> string \<Rightarrow> string \<Rightarrow> connection" where
  "New_connection newID now projID remoteAddr userAgent =
     \<lparr>conn_ID = newID, conn_ProjectID = projID, conn_Alias = None, conn_RemoteAddr = remoteAddr,
      conn_UserAgent = userAgent, conn_State = StateOpening, conn_CreatedAt = now, conn_LastPingAt = now,
      conn_LastPongAt = now, conn_LastClientPingAt = now, conn_LastClientPongAt = now, conn_LastSentAt = now,
      conn_LastRecvAt = now, conn_MessagesSent = 0, conn_MessagesRecv = 0, conn_BytesSent = 0, conn_BytesRecv = 0\<rparr>"

definition IsOpen_conn :: "connection \<Rightarrow> bool" where
  "IsOpen_conn c \<longleftrightarrow> conn_State c = StateOpen"

definition IsClosed_conn :: "connection \<Rightarrow> bool" where
  "IsClosed_conn c \<longleftrightarrow> conn_State c = StateClosed \<or> conn_State c = StateError"

definition UpdatePong :: "time \<Rightarrow> connection \<Rightarrow> connection" where
  "UpdatePong now c = c\<lparr>conn_LastPongAt := now\<rparr>"

definition UpdateSent :: "time \<Rightarrow> int \<Rightarrow> connection \<Rightarrow> connection" where
  "UpdateSent now bytes c =
     c\<lparr>conn_LastSentAt := now, conn_MessagesSent := i64 (conn_MessagesSent c + 1), conn_BytesSent := i64 (conn_BytesSent c + bytes)\<rparr>"

definition UpdateRecv :: "time \<Rightarrow> int \<Rightarrow> connection \<Rightarrow> connection" where
  "UpdateRecv now bytes c =
     c\<lparr>conn_LastRecvAt := now, conn_MessagesRecv := i64 (conn_MessagesRecv c + 1), conn_BytesRecv := i64 (conn_BytesRecv c + bytes)\<rparr>"

section \<open>The repository\<close>

record conn_repo =
  connections :: "ulid \<Rightarrow> conn_ref option"
  connectionsByProject :: "project_id \<Rightarrow> (ulid \<Rightarrow> conn_ref option) option"

type_synonym conn_heap = "conn_ref \<Rightarrow> connection"

datatype conn_error = ConnNotFound | ConnClosed | SendFailed

definition Store :: "conn_ref option \<Rightarrow> conn_heap \<Rightarrow> conn_repo \<Rightarrow> (conn_error + unit) \<times> conn_repo" where
  "Store conn h R =
     (case conn of None \<Rightarrow> (Inl ConnNotFound, R)
      | Some r \<Rightarrow>
          let i = conn_ID (h r); p = conn_ProjectID (h r);
              m = (case connectionsByProject R p of None \<Rightarrow> Map.empty | Some m \<Rightarrow> m)
          in (Inr (), R\<lparr>connections := (connections R)(i \<mapsto> r),
                        connectionsByProject := (connectionsByProject R)(p \<mapsto> m(i \<mapsto> r))\<rparr>))"

text \<open>The common part of \<open>Remove\<close> and of the clean-up: the entry leaves both maps, and an empty
  project map goes.\<close>

definition drop_conn :: "ulid \<Rightarrow> project_id \<Rightarrow> conn_repo \<Rightarrow> conn_repo" where
  "drop_conn i p R =
     (let R = R\<lparr>connections := (connections R)(i := None)\<rparr>
      in case connectionsByProject R p of
           None \<Rightarrow> R
         | Some m \<Rightarrow> if dom m - {i} = {} then R\<lparr>connectionsByProject := (connectionsByProject R)(p := None)\<rparr>
                     else R\<lparr>connectionsByProject := (connectionsByProject R)(p \<mapsto> m(i := None))\<rparr>)"

definition Remove_conn :: "ulid \<Rightarrow> conn_heap \<Rightarrow> conn_repo \<Rightarrow> (conn_error + unit) \<times> conn_repo" where
  "Remove_conn connID h R =
     (case connections R connID of None \<Rightarrow> (Inl ConnNotFound, R)
      | Some r \<Rightarrow> (Inr (), drop_conn connID (conn_ProjectID (h r)) R))"

definition FindByID_conn :: "ulid \<Rightarrow> conn_repo \<Rightarrow> conn_error + conn_ref" where
  "FindByID_conn connID R = (case connections R connID of None \<Rightarrow> Inl ConnNotFound | Some r \<Rightarrow> Inr r)"

definition FindAllByProjectID_conn :: "(conn_ref set \<Rightarrow> conn_ref list) \<Rightarrow> project_id \<Rightarrow> conn_repo \<Rightarrow> conn_ref list" where
  "FindAllByProjectID_conn enum projID R =
     (case connectionsByProject R projID of None \<Rightarrow> [] | Some m \<Rightarrow> enum (ran m))"

definition CountByProject :: "project_id \<Rightarrow> conn_repo \<Rightarrow> nat" where
  "CountByProject projID R = (case connectionsByProject R projID of None \<Rightarrow> 0 | Some m \<Rightarrow> card (dom m))"

definition staleTimeout :: time where
  "staleTimeout = 2 * 60 * 1000000000"

definition stale_conn :: "time \<Rightarrow> connection \<Rightarrow> bool" where
  "stale_conn now c \<longleftrightarrow> now - conn_LastPongAt c > staleTimeout"

fun clean_conns :: "conn_ref list \<Rightarrow> conn_heap \<Rightarrow> conn_repo \<Rightarrow> nat \<Rightarrow> conn_repo \<times> nat" where
  "clean_conns [] h R n = (R, n)"
| "clean_conns (r # rs) h R n = clean_conns rs h (drop_conn (conn_ID (h r)) (conn_ProjectID (h r)) R) (n + 1)"

text \<open>\<open>all\<close> lists the connections of the main map in the order the loop visits them.\<close>

definition CleanStaleConnections_repo :: "time \<Rightarrow> conn_ref list \<Rightarrow> conn_heap \<Rightarrow> conn_repo \<Rightarrow> conn_repo \<times> nat" where
  "CleanStaleConnections_repo now all h R = clean_conns (List.filter (\<lambda>r. stale_conn now (h r)) all) h R 0"

section \<open>The service\<close>

record conn_svc =
  cs_heap :: conn_heap
  cs_repo :: conn_repo
  cs_sendHandlers :: "ulid set"
  cs_writeMutexes :: "ulid set"

definition set_state :: "conn_state \<Rightarrow> conn_ref \<Rightarrow> conn_svc \<Rightarrow> conn_svc" where
  "set_state st r s = s\<lparr>cs_heap := (cs_heap s)(r := (cs_heap s r)\<lparr>conn_State := st\<rparr>)\<rparr>"

definition store_conn :: "conn_ref \<Rightarrow> conn_svc \<Rightarrow> conn_svc" where
  "store_conn r s = s\<lparr>cs_repo := snd (Store (Some r) (cs_heap s) (cs_repo s))\<rparr>"

definition Register_conn :: "conn_ref \<Rightarrow> conn_svc \<Rightarrow> (conn_error + unit) \<times> conn_svc" where
  "Register_conn r s =
     (let i = conn_ID (cs_heap s r);
          s = store_conn r s;
          s = s\<lparr>cs_sendHandlers := insert i (cs_sendHandlers s), cs_writeMutexes := insert i (cs_writeMutexes s)\<rparr>;
          s = set_state StateOpen r s
      in (Inr (), store_conn r s))"

definition Unregister_conn :: "ulid \<Rightarrow> conn_svc \<Rightarrow> (conn_error + unit) \<times> conn_svc" where
  "Unregister_conn connID s =
     (case FindByID_conn connID (cs_repo s) of
        Inl e \<Rightarrow> (Inl e, s)
      | Inr r \<Rightarrow>
          let s = s\<lparr>cs_sendHandlers := cs_sendHandlers s - {connID}, cs_writeMutexes := cs_writeMutexes s - {connID}\<rparr>
          in case Remove_conn connID (cs_heap s) (cs_repo s) of
               (Inl e, _) \<Rightarrow> (Inl e, s)
             | (Inr _, R) \<Rightarrow> (Inr (), s\<lparr>cs_repo := R\<rparr>))"

text \<open>The socket of a connection accepts or refuses the write (\<open>sock\<close>).\<close>

definition Send_conn :: "(ulid \<Rightarrow> bool) \<Rightarrow> time \<Rightarrow> ulid \<Rightarrow> string \<Rightarrow> conn_svc \<Rightarrow> (conn_error + unit) \<times> conn_svc" where
  "Send_conn sock now connID message s =
     (if connID \<notin> cs_sendHandlers s \<or> connID \<notin> cs_writeMutexes s then (Inl ConnNotFound, s)
      else case FindByID_conn connID (cs_repo s) of
             Inl e \<Rightarrow> (Inl e, s)
           | Inr r \<Rightarrow>
               if IsClosed_conn (cs_heap s r) then (Inl ConnClosed, s)
               else if \<not> sock connID then (Inl SendFailed, s)
               else let s = s\<lparr>cs_heap := (cs_heap s)(r := UpdateSent now (int (length message)) (cs_heap s r))\<rparr>
                    in (Inr (), store_conn r s))"

fun broadcast_loop :: "(ulid \<Rightarrow> bool) \<Rightarrow> time \<Rightarrow> string \<Rightarrow> conn_ref list \<Rightarrow> conn_svc \<Rightarrow> nat \<Rightarrow> conn_svc \<times> nat" where
  "broadcast_loop sock now message [] s errs = (s, errs)"
| "broadcast_loop sock now message (r # rs) s errs =
     (case Send_conn sock now (conn_ID (cs_heap s r)) message s of
        (Inl _, s) \<Rightarrow> broadcast_loop sock now message rs s (errs + 1)
      | (Inr _, s) \<Rightarrow> broadcast_loop sock now message rs s errs)"

definition Broadcast :: "(conn_ref set \<Rightarrow> conn_ref list) \<Rightarrow> (ulid \<Rightarrow> bool) \<Rightarrow> time \<Rightarrow> project_id \<Rightarrow> string \<Rightarrow> conn_svc \<Rightarrow> conn_svc" where
  "Broadcast enum sock now projID message s =
     fst (broadcast_loop sock now message (FindAllByProjectID_conn enum projID (cs_repo s)) s 0)"

definition Close_conn :: "ulid \<Rightarrow> conn_svc \<Rightarrow> (conn_error + unit) \<times> conn_svc" where
  "Close_conn connID s =
     (case FindByID_conn connID (cs_repo s) of
        Inl e \<Rightarrow> (Inl e, s)
      | Inr r \<Rightarrow>
          let s = (if conn_State (cs_heap s r) = StateOpen then store_conn r (set_state StateClosed r s) else s)
          in Unregister_conn connID s)"

text \<open>\<open>CloseAllByProject\<close> starts one goroutine per connection; each is a \<open>Close\<close> step, and the
  list is the order in which they run.\<close>

definition CloseAllByProject :: "(conn_ref set \<Rightarrow> conn_ref list) \<Rightarrow> project_id \<Rightarrow> conn_svc \<Rightarrow> conn_svc" where
  "CloseAllByProject enum projID s =
     fold (\<lambda>i s. snd (Close_conn i s))
       (List.map (\<lambda>r. conn_ID (cs_heap s r)) (FindAllByProjectID_conn enum projID (cs_repo s))) s"

definition CleanStaleConnections :: "time \<Rightarrow> conn_ref list \<Rightarrow> conn_svc \<Rightarrow> nat \<times> conn_svc" where
  "CleanStaleConnections now all s =
     (case CleanStaleConnections_repo now all (cs_heap s) (cs_repo s) of (R, n) \<Rightarrow> (n, s\<lparr>cs_repo := R\<rparr>))"

section \<open>The two maps of the repository\<close>

text \<open>The registered connections of the main map are filed under their identifier and under their
  project, and no project map is empty.\<close>

definition conn_inv :: "conn_heap \<Rightarrow> conn_repo \<Rightarrow> bool" where
  "conn_inv h R \<longleftrightarrow>
     (\<forall>i r. connections R i = Some r \<longrightarrow> conn_ID (h r) = i) \<and>
     (\<forall>p i r. (\<exists>m. connectionsByProject R p = Some m \<and> m i = Some r) \<longleftrightarrow>
              (connections R i = Some r \<and> conn_ProjectID (h r) = p)) \<and>
     (\<forall>p. connectionsByProject R p \<noteq> Some Map.empty) \<and>
     finite (dom (connections R))"

definition svc_inv :: "conn_svc \<Rightarrow> bool" where
  "svc_inv s \<longleftrightarrow> conn_inv (cs_heap s) (cs_repo s) \<and> cs_writeMutexes s = cs_sendHandlers s \<and>
     dom (connections (cs_repo s)) \<subseteq> cs_sendHandlers s"

lemma conn_inv_ID: "conn_inv h R \<Longrightarrow> connections R i = Some r \<Longrightarrow> conn_ID (h r) = i"
  by (simp add: conn_inv_def)

lemma conn_inv_files:
  "conn_inv h R \<Longrightarrow> (\<exists>m. connectionsByProject R p = Some m \<and> m i = Some r) \<longleftrightarrow> (connections R i = Some r \<and> conn_ProjectID (h r) = p)"
  unfolding conn_inv_def by blast

lemma conn_inv_project:
  "conn_inv h R \<Longrightarrow> connectionsByProject R p = Some m \<Longrightarrow> m i = Some r \<longleftrightarrow> (connections R i = Some r \<and> conn_ProjectID (h r) = p)"
  using conn_inv_files [of h R p i r] by simp

text \<open>An update of the object that keeps its identifier and project.\<close>

lemma conn_inv_heap:
  "conn_inv h R \<Longrightarrow> (\<And>x. conn_ID (h' x) = conn_ID (h x) \<and> conn_ProjectID (h' x) = conn_ProjectID (h x)) \<Longrightarrow> conn_inv h' R"
  by (simp add: conn_inv_def)

text \<open>Storing a connection under an identifier that is free, or its own.\<close>

lemma Store_inv:
  assumes "conn_inv h R" "connections R (conn_ID (h r)) \<in> {None, Some r}"
  shows "conn_inv h (snd (Store (Some r) h R)) \<and>
    connections (snd (Store (Some r) h R)) = (connections R)(conn_ID (h r) \<mapsto> r)"
proof -
  define i where "i = conn_ID (h r)"
  define p where "p = conn_ProjectID (h r)"
  define m where "m = (case connectionsByProject R p of None \<Rightarrow> Map.empty | Some m \<Rightarrow> m)"
  define R' where "R' = snd (Store (Some r) h R)"
  have c: "connections R' = (connections R)(i \<mapsto> r)"
    and b: "connectionsByProject R' = (connectionsByProject R)(p \<mapsto> m(i \<mapsto> r))"
    by (simp_all add: R'_def Store_def Let_def i_def p_def m_def)
  have m: "m j = Some q \<longleftrightarrow> (connections R j = Some q \<and> conn_ProjectID (h q) = p)" for j q
    using conn_inv_files [OF assms(1), of p j q] unfolding m_def by (cases "connectionsByProject R p") simp_all
  have "(\<exists>m. connectionsByProject R' p' = Some m \<and> m j = Some q) \<longleftrightarrow>
        (connections R' j = Some q \<and> conn_ProjectID (h q) = p')" for p' j q
  proof (cases "p' = p")
    case True
    then show ?thesis using m by (auto simp: b c p_def)
  next
    case False
    have "(\<exists>m. connectionsByProject R' p' = Some m \<and> m j = Some q) \<longleftrightarrow>
        (connections R j = Some q \<and> conn_ProjectID (h q) = p')"
      using conn_inv_files [OF assms(1), of p' j q] False unfolding b by simp
    then show ?thesis using False assms(2) by (auto simp: c i_def p_def)
  qed
  moreover have "connectionsByProject R' q \<noteq> Some Map.empty" for q
    using assms(1) by (simp add: b conn_inv_def)
  moreover have "conn_ID (h q) = j" if "connections R' j = Some q" for j q
    using that assms(1) by (auto simp: c i_def conn_inv_def split: if_splits)
  moreover have "finite (dom (connections R'))" using assms(1) by (simp add: c conn_inv_def)
  ultimately have "conn_inv h R'" unfolding conn_inv_def by blast
  then show ?thesis using c unfolding R'_def i_def by simp
qed

lemma drop_conn_inv:
  assumes "conn_inv h R" "connections R i = Some r" "conn_ProjectID (h r) = p"
  shows "conn_inv h (drop_conn i p R) \<and> connections (drop_conn i p R) = (connections R)(i := None)"
proof -
  obtain m where m: "connectionsByProject R p = Some m" "m i = Some r"
    using conn_inv_files [OF assms(1), of p i r] assms by blast
  define R' where "R' = drop_conn i p R"
  have c: "connections R' = (connections R)(i := None)"
    by (auto simp: R'_def drop_conn_def Let_def split: option.splits)
  have b: "connectionsByProject R' = (connectionsByProject R)(p := if dom m - {i} = {} then None else Some (m(i := None)))"
    using m by (auto simp: R'_def drop_conn_def Let_def)
  have e: "dom m - {i} = {} \<longleftrightarrow> m(i := None) = Map.empty" by (auto simp: fun_eq_iff dom_def)
  have mm: "m j = Some q \<longleftrightarrow> (connections R j = Some q \<and> conn_ProjectID (h q) = p)" for j q
    using conn_inv_project [OF assms(1) m(1)] .
  have "(\<exists>m. connectionsByProject R' p' = Some m \<and> m j = Some q) \<longleftrightarrow>
        (connections R' j = Some q \<and> conn_ProjectID (h q) = p')" for p' j q
  proof (cases "p' = p")
    case True
    show ?thesis
    proof (cases "m(i := None) = Map.empty")
      case e': True
      then have "m j = None" if "j \<noteq> i" using that by (metis fun_upd_other)
      then show ?thesis using True e e' mm [of j q] by (auto simp: b c)
    next
      case False
      then show ?thesis using True e mm [of j q] by (auto simp: b c)
    qed
  next
    case False
    have "(\<exists>m. connectionsByProject R' p' = Some m \<and> m j = Some q) \<longleftrightarrow>
        (connections R j = Some q \<and> conn_ProjectID (h q) = p')"
      using conn_inv_files [OF assms(1), of p' j q] False unfolding b by simp
    then show ?thesis using False assms by (auto simp: c)
  qed
  moreover have "connectionsByProject R' q \<noteq> Some Map.empty" for q
    using assms(1) e by (simp add: b conn_inv_def)
  moreover have "conn_ID (h q) = j" if "connections R' j = Some q" for j q
    using that assms(1) by (auto simp: c conn_inv_def split: if_splits)
  moreover have "finite (dom (connections R'))" using assms(1) by (simp add: c conn_inv_def)
  ultimately have "conn_inv h R'" unfolding conn_inv_def by blast
  then show ?thesis using c unfolding R'_def by simp
qed

section \<open>The service implements a finite map\<close>

definition same_conns :: "conn_heap \<Rightarrow> conn_heap \<Rightarrow> bool" where
  "same_conns h h' \<longleftrightarrow> (\<forall>r. conn_ID (h' r) = conn_ID (h r) \<and> conn_ProjectID (h' r) = conn_ProjectID (h r) \<and>
      conn_LastPongAt (h' r) = conn_LastPongAt (h r))"

lemma same_conns_refl [simp]: "same_conns h h"
  by (simp add: same_conns_def)

lemma same_conns_trans: "same_conns h1 h2 \<Longrightarrow> same_conns h2 h3 \<Longrightarrow> same_conns h1 h3"
  by (simp add: same_conns_def)

lemma same_conns_ID: "same_conns h h' \<Longrightarrow> conn_ID (h' r) = conn_ID (h r)"
  by (simp add: same_conns_def)

lemma conn_inv_same: "conn_inv h R \<Longrightarrow> same_conns h h' \<Longrightarrow> conn_inv h' R"
  by (rule conn_inv_heap) (auto simp: same_conns_def)

lemma set_state_simps [simp]:
  "cs_repo (set_state st r s) = cs_repo s" "cs_sendHandlers (set_state st r s) = cs_sendHandlers s"
  "cs_writeMutexes (set_state st r s) = cs_writeMutexes s" "same_conns (cs_heap s) (cs_heap (set_state st r s))"
  by (simp_all add: set_state_def same_conns_def)

lemma store_conn_simps [simp]:
  "cs_heap (store_conn r s) = cs_heap s" "cs_sendHandlers (store_conn r s) = cs_sendHandlers s"
  "cs_writeMutexes (store_conn r s) = cs_writeMutexes s"
  by (simp_all add: store_conn_def)

lemma store_conn_inv:
  assumes "conn_inv (cs_heap s) (cs_repo s)" "connections (cs_repo s) (conn_ID (cs_heap s r)) \<in> {None, Some r}"
  shows "conn_inv (cs_heap s) (cs_repo (store_conn r s))"
    "connections (cs_repo (store_conn r s)) = (connections (cs_repo s))(conn_ID (cs_heap s r) \<mapsto> r)"
  using Store_inv [OF assms] by (simp_all add: store_conn_def)

text \<open>Operations that leave the registrations alone.\<close>

definition keeps :: "conn_svc \<Rightarrow> conn_svc \<Rightarrow> bool" where
  "keeps s s' \<longleftrightarrow> svc_inv s' \<and> connections (cs_repo s') = connections (cs_repo s) \<and> same_conns (cs_heap s) (cs_heap s')"

lemma keeps_refl: "svc_inv s \<Longrightarrow> keeps s s"
  by (simp add: keeps_def)

lemma keeps_trans: "keeps s1 s2 \<Longrightarrow> keeps s2 s3 \<Longrightarrow> keeps s1 s3"
  unfolding keeps_def using same_conns_trans by metis

lemma keeps_restore:
  assumes "svc_inv s" "connections (cs_repo s) i = Some r" "same_conns (cs_heap s) h'"
  shows "keeps s (store_conn r (s\<lparr>cs_heap := h'\<rparr>))"
proof -
  let ?s = "s\<lparr>cs_heap := h'\<rparr>"
  have c: "conn_inv (cs_heap s) (cs_repo s)" using assms(1) by (simp add: svc_inv_def)
  then have i: "conn_ID (h' r) = i" using conn_inv_ID [OF c assms(2)] same_conns_ID [OF assms(3)] by simp
  have "conn_inv (cs_heap ?s) (cs_repo ?s)" using conn_inv_same [OF c assms(3)] by simp
  then have "conn_inv h' (cs_repo (store_conn r ?s))" "connections (cs_repo (store_conn r ?s)) = (connections (cs_repo s))(i \<mapsto> r)"
    using store_conn_inv [of ?s r] i assms(2) by simp_all
  moreover have "(connections (cs_repo s))(i \<mapsto> r) = connections (cs_repo s)" using assms(2) by (simp add: fun_upd_idem)
  ultimately show ?thesis using assms by (simp add: keeps_def svc_inv_def)
qed

lemma Send_conn_keeps: "svc_inv s \<Longrightarrow> Send_conn sock now i msg s = (res, s') \<Longrightarrow> keeps s s'"
  by (auto simp: Send_conn_def FindByID_conn_def Let_def same_conns_def UpdateSent_def keeps_refl
      split: if_splits option.splits sum.splits intro!: keeps_restore)

lemma broadcast_loop_keeps: "svc_inv s \<Longrightarrow> broadcast_loop sock now msg rs s n = (s', m) \<Longrightarrow> keeps s s'"
proof (induction rs arbitrary: s n)
  case (Cons r rs)
  obtain res s1 where a: "Send_conn sock now (conn_ID (cs_heap s r)) msg s = (res, s1)" by fastforce
  have k: "keeps s s1" using Send_conn_keeps [OF Cons.prems(1) a] .
  then have "svc_inv s1" by (simp add: keeps_def)
  then have "keeps s1 s'" using Cons.IH [of s1 n] Cons.IH [of s1 "n + 1"] Cons.prems(2) a by (auto split: sum.splits)
  then show ?case using keeps_trans [OF k] by simp
qed (simp add: keeps_refl)

lemma set_state_store_keeps:
  "svc_inv s \<Longrightarrow> connections (cs_repo s) i = Some r \<Longrightarrow> keeps s (store_conn r (set_state st r s))"
  using keeps_restore [of s i r "(cs_heap s)(r := (cs_heap s r)\<lparr>conn_State := st\<rparr>)"]
  by (simp add: set_state_def same_conns_def)

text \<open>Operations that remove one registration.\<close>

definition removes :: "ulid \<Rightarrow> conn_svc \<Rightarrow> conn_svc \<Rightarrow> bool" where
  "removes i s s' \<longleftrightarrow> svc_inv s' \<and> connections (cs_repo s') = (connections (cs_repo s))(i := None) \<and>
     same_conns (cs_heap s) (cs_heap s')"

lemma Unregister_removes:
  assumes "svc_inv s" "Unregister_conn i s = (res, s')"
  shows "removes i s s' \<and> (res = Inr () \<longleftrightarrow> connections (cs_repo s) i \<noteq> None)"
proof (cases "connections (cs_repo s) i")
  case None
  then have "(connections (cs_repo s))(i := None) = connections (cs_repo s)" by (simp add: fun_upd_idem)
  then show ?thesis using None assms by (auto simp: Unregister_conn_def FindByID_conn_def removes_def)
next
  case (Some r)
  have c: "conn_inv (cs_heap s) (cs_repo s)" using assms(1) by (simp add: svc_inv_def)
  have s': "res = Inr ()" "s' = s\<lparr>cs_sendHandlers := cs_sendHandlers s - {i}, cs_writeMutexes := cs_writeMutexes s - {i},
     cs_repo := drop_conn i (conn_ProjectID (cs_heap s r)) (cs_repo s)\<rparr>"
    using Some assms(2) by (auto simp: Unregister_conn_def FindByID_conn_def Remove_conn_def Let_def)
  note d = drop_conn_inv [OF c Some refl]
  have "svc_inv s'" using d assms(1) unfolding s' svc_inv_def by auto
  then show ?thesis using d Some s' by (simp add: removes_def)
qed

lemma Close_removes:
  assumes "svc_inv s" "Close_conn i s = (res, s')"
  shows "removes i s s' \<and> (res = Inr () \<longleftrightarrow> connections (cs_repo s) i \<noteq> None)"
proof (cases "connections (cs_repo s) i")
  case None
  then have "(connections (cs_repo s))(i := None) = connections (cs_repo s)" by (simp add: fun_upd_idem)
  then show ?thesis using None assms by (auto simp: Close_conn_def FindByID_conn_def removes_def)
next
  case (Some r)
  define s1 where "s1 = (if conn_State (cs_heap s r) = StateOpen then store_conn r (set_state StateClosed r s) else s)"
  have k: "keeps s s1" unfolding s1_def using set_state_store_keeps [OF assms(1) Some] keeps_refl [OF assms(1)] by simp
  have u: "Unregister_conn i s1 = (res, s')" using assms(2) Some by (simp add: Close_conn_def FindByID_conn_def s1_def)
  have "svc_inv s1" using k by (simp add: keeps_def)
  from Unregister_removes [OF this u] k Some show ?thesis
    unfolding removes_def keeps_def using same_conns_trans by auto
qed

lemma close_fold:
  "svc_inv s \<Longrightarrow> svc_inv (fold (\<lambda>i s. snd (Close_conn i s)) is s) \<and>
   connections (cs_repo (fold (\<lambda>i s. snd (Close_conn i s)) is s)) = (\<lambda>i. if i \<in> set is then None else connections (cs_repo s) i) \<and>
   same_conns (cs_heap s) (cs_heap (fold (\<lambda>i s. snd (Close_conn i s)) is s))"
proof (induction "is" arbitrary: s)
  case (Cons i "is")
  define s1 where "s1 = snd (Close_conn i s)"
  have r: "removes i s s1" using Close_removes [OF Cons.prems, of i "fst (Close_conn i s)" s1] by (simp add: s1_def)
  then have "svc_inv s1" by (simp add: removes_def)
  note I = Cons.IH [OF this]
  have "same_conns (cs_heap s) (cs_heap (fold (\<lambda>i s. snd (Close_conn i s)) is s1))"
    using r I same_conns_trans unfolding removes_def by blast
  then show ?case using r I unfolding removes_def by (simp add: s1_def [symmetric] fun_eq_iff)
qed simp

lemma clean_conns_inv:
  "conn_inv h R \<Longrightarrow> distinct rs \<Longrightarrow> \<forall>r\<in>set rs. connections R (conn_ID (h r)) = Some r \<Longrightarrow>
   clean_conns rs h R n = (R', n') \<Longrightarrow>
   conn_inv h R' \<and> connections R' = (\<lambda>i. case connections R i of None \<Rightarrow> None | Some r \<Rightarrow> if r \<in> set rs then None else Some r) \<and>
   n' = n + length rs"
proof (induction rs arbitrary: R n)
  case Nil
  then show ?case by (auto simp: fun_eq_iff split: option.splits)
next
  case (Cons r rs)
  define R1 where "R1 = drop_conn (conn_ID (h r)) (conn_ProjectID (h r)) R"
  have d: "conn_inv h R1" "connections R1 = (connections R)(conn_ID (h r) := None)"
    using drop_conn_inv [OF Cons.prems(1), of "conn_ID (h r)" r] Cons.prems(3) by (auto simp: R1_def)
  have "connections R1 (conn_ID (h x)) = Some x" if "x \<in> set rs" for x
  proof -
    have x: "x \<noteq> r" "connections R (conn_ID (h x)) = Some x" "connections R (conn_ID (h r)) = Some r"
      using Cons.prems(2,3) that by auto
    then have "conn_ID (h x) \<noteq> conn_ID (h r)" by auto
    then show ?thesis using d(2) x by simp
  qed
  then have "conn_inv h R' \<and> connections R' = (\<lambda>i. case connections R1 i of None \<Rightarrow> None | Some r \<Rightarrow> if r \<in> set rs then None else Some r) \<and>
      n' = n + 1 + length rs"
    using Cons.IH [of R1 "n + 1"] d(1) Cons.prems by (simp add: R1_def)
  moreover have "connections R i = Some r \<longleftrightarrow> i = conn_ID (h r)" for i
    using Cons.prems(1,3) by (auto simp: conn_inv_def)
  moreover have "connections R (conn_ID (h r)) = Some r" using Cons.prems(3) by simp
  ultimately have c: "conn_inv h R'" "n' = n + length (r # rs)"
    "connections R' = (\<lambda>i. case connections R1 i of None \<Rightarrow> None | Some r \<Rightarrow> if r \<in> set rs then None else Some r)"
    "connections R i = Some r \<longleftrightarrow> i = conn_ID (h r)" for i by auto
  have "connections R' i = (case connections R i of None \<Rightarrow> None | Some x \<Rightarrow> if x \<in> set (r # rs) then None else Some x)" for i
    using c(4) [of i] unfolding c(3) d(2) by (cases "i = conn_ID (h r)") (simp_all split: option.splits)
  then show ?case using c(1,2) by (simp add: fun_eq_iff)
qed

datatype conn_op = CRegister conn_ref | CUnregister ulid | CClose ulid | CSend time ulid string
  | CBroadcast time project_id string | CCloseAll project_id | CPong time conn_ref | CClean time

fun conn_step :: "(conn_ref set \<Rightarrow> conn_ref list) \<Rightarrow> (ulid \<Rightarrow> bool) \<Rightarrow> conn_op \<Rightarrow> conn_svc \<Rightarrow> conn_svc" where
  "conn_step enum sock (CRegister r) s = snd (Register_conn r s)"
| "conn_step enum sock (CUnregister i) s = snd (Unregister_conn i s)"
| "conn_step enum sock (CClose i) s = snd (Close_conn i s)"
| "conn_step enum sock (CSend now i msg) s = snd (Send_conn sock now i msg s)"
| "conn_step enum sock (CBroadcast now p msg) s = Broadcast enum sock now p msg s"
| "conn_step enum sock (CCloseAll p) s = CloseAllByProject enum p s"
| "conn_step enum sock (CPong now r) s = s\<lparr>cs_heap := (cs_heap s)(r := UpdatePong now (cs_heap s r))\<rparr>"
| "conn_step enum sock (CClean now) s = snd (CleanStaleConnections now (enum (ran (connections (cs_repo s)))) s)"

type_synonym conn_spec = "(ulid \<Rightarrow> conn_ref option) \<times> (conn_ref \<Rightarrow> ulid \<times> project_id \<times> time)"

text \<open>The specification: the registered connections, and of every connection its identifier, project
  and last pong.\<close>

fun conn_spec_step :: "conn_op \<Rightarrow> conn_spec \<Rightarrow> conn_spec" where
  "conn_spec_step (CRegister r) (M, A) = (M(fst (A r) \<mapsto> r), A)"
| "conn_spec_step (CUnregister i) (M, A) = (M(i := None), A)"
| "conn_spec_step (CClose i) (M, A) = (M(i := None), A)"
| "conn_spec_step (CSend now i msg) (M, A) = (M, A)"
| "conn_spec_step (CBroadcast now p msg) (M, A) = (M, A)"
| "conn_spec_step (CCloseAll p) (M, A) =
     (\<lambda>i. case M i of None \<Rightarrow> None | Some r \<Rightarrow> if fst (snd (A r)) = p then None else Some r, A)"
| "conn_spec_step (CPong now r) (M, A) = (M, A(r := (fst (A r), fst (snd (A r)), now)))"
| "conn_spec_step (CClean now) (M, A) =
     (\<lambda>i. case M i of None \<Rightarrow> None | Some r \<Rightarrow> if now - snd (snd (A r)) > staleTimeout then None else Some r, A)"

definition conn_abs :: "conn_svc \<Rightarrow> conn_spec" where
  "conn_abs s = (connections (cs_repo s),
     \<lambda>r. (conn_ID (cs_heap s r), conn_ProjectID (cs_heap s r), conn_LastPongAt (cs_heap s r)))"

lemma conn_abs_same: "same_conns (cs_heap s) (cs_heap s') \<Longrightarrow> snd (conn_abs s') = snd (conn_abs s)"
  by (simp add: conn_abs_def same_conns_def)

lemma conn_abs_eqI:
  "same_conns (cs_heap s) (cs_heap s') \<Longrightarrow> connections (cs_repo s') = M \<Longrightarrow> conn_abs s' = (M, snd (conn_abs s))"
  by (simp add: conn_abs_def same_conns_def)

definition conn_ok_inv :: "conn_ref set \<Rightarrow> conn_svc \<Rightarrow> bool" where
  "conn_ok_inv U s \<longleftrightarrow> svc_inv s \<and> inj_on (\<lambda>r. conn_ID (cs_heap s r)) U \<and> ran (connections (cs_repo s)) \<subseteq> U"

definition conn_op_ok :: "conn_ref set \<Rightarrow> conn_op \<Rightarrow> bool" where
  "conn_op_ok U c = (case c of CRegister r \<Rightarrow> r \<in> U | _ \<Rightarrow> True)"

definition enumerates_conns :: "(conn_ref set \<Rightarrow> conn_ref list) \<Rightarrow> bool" where
  "enumerates_conns enum \<longleftrightarrow> (\<forall>S. finite S \<longrightarrow> set (enum S) = S \<and> distinct (enum S))"

lemma Register_spec:
  assumes "conn_ok_inv U s" "r \<in> U"
  shows "svc_inv (snd (Register_conn r s)) \<and> same_conns (cs_heap s) (cs_heap (snd (Register_conn r s))) \<and>
    connections (cs_repo (snd (Register_conn r s))) = (connections (cs_repo s))(conn_ID (cs_heap s r) \<mapsto> r)"
proof -
  let ?i = "conn_ID (cs_heap s r)"
  have c: "conn_inv (cs_heap s) (cs_repo s)" using assms(1) by (simp add: conn_ok_inv_def svc_inv_def)
  have "q = r" if "connections (cs_repo s) ?i = Some q" for q
  proof -
    have "q \<in> U" "conn_ID (cs_heap s q) = ?i"
      using that assms(1) conn_inv_ID [OF c that] by (auto simp: conn_ok_inv_def ran_def)
    then show ?thesis using assms unfolding conn_ok_inv_def inj_on_def by blast
  qed
  then have free: "connections (cs_repo s) ?i \<in> {None, Some r}" by (cases "connections (cs_repo s) ?i") auto
  define s1 where "s1 = (store_conn r s)\<lparr>cs_sendHandlers := insert ?i (cs_sendHandlers s), cs_writeMutexes := insert ?i (cs_writeMutexes s)\<rparr>"
  have s1: "cs_heap s1 = cs_heap s" "cs_repo s1 = cs_repo (store_conn r s)" by (simp_all add: s1_def)
  note st = store_conn_inv [OF c free]
  have i1: "svc_inv s1" using st assms(1) s1 unfolding svc_inv_def conn_ok_inv_def by (auto simp: s1_def)
  have m1: "connections (cs_repo s1) ?i = Some r" using st s1 by simp
  have "keeps s1 (store_conn r (set_state StateOpen r s1))" by (rule set_state_store_keeps [OF i1 m1])
  moreover have "snd (Register_conn r s) = store_conn r (set_state StateOpen r s1)"
    by (simp add: Register_conn_def Let_def s1_def)
  ultimately show ?thesis using st s1 by (simp add: keeps_def)
qed

lemma enum_ran:
  assumes "conn_inv h R" "enumerates_conns enum"
  shows "set (enum (ran (connections R))) = ran (connections R)" "distinct (enum (ran (connections R)))"
proof -
  have "finite (dom (connections R))" using assms(1) by (simp add: conn_inv_def)
  then have "finite (ran (connections R))" by (rule finite_ran)
  then show "set (enum (ran (connections R))) = ran (connections R)" "distinct (enum (ran (connections R)))"
    using assms(2) by (simp_all add: enumerates_conns_def)
qed

lemma FindAllByProject_set:
  assumes "conn_inv h R" "enumerates_conns enum"
  shows "set (FindAllByProjectID_conn enum p R) = {r \<in> ran (connections R). conn_ProjectID (h r) = p} \<and>
    distinct (FindAllByProjectID_conn enum p R) \<and>
    CountByProject p R = card {i \<in> dom (connections R). conn_ProjectID (h (the (connections R i))) = p}"
proof (cases "connectionsByProject R p")
  case None
  then have e: "connections R i = Some r \<Longrightarrow> conn_ProjectID (h r) \<noteq> p" for i r
    using conn_inv_files [OF assms(1), of p i r] by simp
  have n: "{r \<in> ran (connections R). conn_ProjectID (h r) = p} = {}"
    "{i \<in> dom (connections R). conn_ProjectID (h (the (connections R i))) = p} = {}" by (auto simp: ran_def dest: e)
  show ?thesis unfolding n using None by (simp add: FindAllByProjectID_conn_def CountByProject_def)
next
  case (Some m)
  have m: "m i = Some r \<longleftrightarrow> (connections R i = Some r \<and> conn_ProjectID (h r) = p)" for i r
    using conn_inv_project [OF assms(1) Some] .
  have rm: "ran m = {r \<in> ran (connections R). conn_ProjectID (h r) = p}" by (auto simp: ran_def m)
  have dm: "dom m = {i \<in> dom (connections R). conn_ProjectID (h (the (connections R i))) = p}" by (auto simp: dom_def m)
  have "finite (dom m)" using assms(1) unfolding dm by (simp add: conn_inv_def)
  then have "finite (ran m)" by (rule finite_ran)
  then show ?thesis using Some rm dm assms(2)
    by (simp add: FindAllByProjectID_conn_def CountByProject_def enumerates_conns_def)
qed

lemma conn_step_spec:
  assumes "enumerates_conns enum" "conn_op_ok U c" "conn_ok_inv U s"
  shows "svc_inv (conn_step enum sock c s) \<and>
    conn_abs (conn_step enum sock c s) = conn_spec_step c (conn_abs s)"
proof -
  have s: "svc_inv s" and ci: "conn_inv (cs_heap s) (cs_repo s)"
    using assms(3) by (auto simp: conn_ok_inv_def svc_inv_def)
  have rem: "svc_inv s' \<and> conn_abs s' = ((connections (cs_repo s))(i := None), snd (conn_abs s))"
    if "removes i s s'" for i s' using that conn_abs_eqI [of s s'] by (auto simp: removes_def)
  have kp: "svc_inv s' \<and> conn_abs s' = conn_abs s" if "keeps s s'" for s'
    using that conn_abs_eqI [of s s' "connections (cs_repo s)"] by (auto simp: keeps_def conn_abs_def)
  show ?thesis
  proof (cases c)
    case (CRegister r)
    then have "r \<in> U" using assms(2) by (simp add: conn_op_ok_def)
    from Register_spec [OF assms(3) this] show ?thesis using CRegister conn_abs_eqI [of s "snd (Register_conn r s)"]
      by (simp add: conn_abs_def)
  next
    case (CUnregister i)
    then show ?thesis using Unregister_removes [OF s, of i "fst (Unregister_conn i s)" "snd (Unregister_conn i s)"]
      rem [of i "snd (Unregister_conn i s)"] by (simp add: conn_abs_def)
  next
    case (CClose i)
    then show ?thesis using Close_removes [OF s, of i "fst (Close_conn i s)" "snd (Close_conn i s)"]
      rem [of i "snd (Close_conn i s)"] by (simp add: conn_abs_def)
  next
    case (CSend now i msg)
    then show ?thesis using kp [OF Send_conn_keeps [OF s, of sock now i msg "fst (Send_conn sock now i msg s)"]]
      by (simp add: conn_abs_def)
  next
    case (CBroadcast now p msg)
    then show ?thesis using kp [OF broadcast_loop_keeps [OF s, of sock now msg "FindAllByProjectID_conn enum p (cs_repo s)" 0
        "Broadcast enum sock now p msg s" "snd (broadcast_loop sock now msg (FindAllByProjectID_conn enum p (cs_repo s)) s 0)"]]
      by (simp add: Broadcast_def conn_abs_def)
  next
    case (CCloseAll p)
    let ?is = "List.map (\<lambda>r. conn_ID (cs_heap s r)) (FindAllByProjectID_conn enum p (cs_repo s))"
    note f = close_fold [OF s, of ?is]
    have "i \<in> set ?is \<longleftrightarrow> (\<exists>r. connections (cs_repo s) i = Some r \<and> conn_ProjectID (cs_heap s r) = p)" for i
      using FindAllByProject_set [OF ci assms(1), of p] conn_inv_ID [OF ci] by (auto simp: ran_def image_iff)
    then have "(\<lambda>i. if i \<in> set ?is then None else connections (cs_repo s) i) =
      (\<lambda>i. case connections (cs_repo s) i of None \<Rightarrow> None | Some r \<Rightarrow> if conn_ProjectID (cs_heap s r) = p then None else Some r)"
      by (auto simp: fun_eq_iff split: option.splits)
    then show ?thesis using f CCloseAll conn_abs_eqI [of s "CloseAllByProject enum p s"]
      by (simp add: CloseAllByProject_def conn_abs_def cong: option.case_cong)
  next
    case (CPong now r)
    have "conn_inv ((cs_heap s)(r := UpdatePong now (cs_heap s r))) (cs_repo s)"
      by (rule conn_inv_heap [OF ci]) (simp add: UpdatePong_def)
    then show ?thesis using s CPong by (auto simp: svc_inv_def conn_abs_def UpdatePong_def)
  next
    case (CClean now)
    let ?all = "enum (ran (connections (cs_repo s)))"
    let ?rs = "List.filter (\<lambda>r. stale_conn now (cs_heap s r)) ?all"
    obtain R' n' where r: "clean_conns ?rs (cs_heap s) (cs_repo s) 0 = (R', n')" by fastforce
    have "\<forall>r\<in>set ?rs. connections (cs_repo s) (conn_ID (cs_heap s r)) = Some r"
      using enum_ran(1) [OF ci assms(1)] conn_inv_ID [OF ci] by (auto simp: ran_def)
    from clean_conns_inv [OF ci _ this r] enum_ran(2) [OF ci assms(1)]
    have k: "conn_inv (cs_heap s) R'"
      "connections R' = (\<lambda>i. case connections (cs_repo s) i of None \<Rightarrow> None | Some r \<Rightarrow> if r \<in> set ?rs then None else Some r)" by simp_all
    have "r \<in> set ?rs \<longleftrightarrow> now - conn_LastPongAt (cs_heap s r) > staleTimeout" if "connections (cs_repo s) i = Some r" for i r
      using that enum_ran(1) [OF ci assms(1)] by (auto simp: ran_def stale_conn_def)
    then have "connections R' = (\<lambda>i. case connections (cs_repo s) i of None \<Rightarrow> None
        | Some r \<Rightarrow> if now - conn_LastPongAt (cs_heap s r) > staleTimeout then None else Some r)"
      unfolding k(2) by (auto simp: fun_eq_iff split: option.splits)
    moreover have "dom (connections R') \<subseteq> dom (connections (cs_repo s))" unfolding k(2) by (auto split: option.splits if_splits)
    ultimately show ?thesis using k(1) s r CClean
      by (auto simp: CleanStaleConnections_def CleanStaleConnections_repo_def conn_abs_def svc_inv_def cong: option.case_cong)
  qed
qed

lemma conn_spec_ran: "ran (fst (conn_spec_step c (M, A))) \<subseteq> (case c of CRegister r \<Rightarrow> insert r (ran M) | _ \<Rightarrow> ran M)"
  by (cases c) (auto simp: ran_def split: option.splits if_splits)

lemma conn_spec_ID: "fst ((snd (conn_spec_step c (M, A))) r) = fst (A r)"
  by (cases c) auto

interpretation cs: refinement "\<lambda>s. enumerates_conns enum \<and> conn_ok_inv U s" conn_abs "conn_op_ok U" "conn_step enum sock" conn_spec_step
  for enum U sock
proof
  fix c s
  assume a: "conn_op_ok U c" "enumerates_conns enum \<and> conn_ok_inv U s"
  then have k: "svc_inv (conn_step enum sock c s)" "conn_abs (conn_step enum sock c s) = conn_spec_step c (conn_abs s)"
    using conn_step_spec [of enum U c s sock] by auto
  let ?s = "conn_step enum sock c s"
  obtain M A where m: "conn_abs s = (M, A)" by fastforce
  have "fst (snd (conn_abs ?s) r) = fst (A r)" for r unfolding k(2) m by (rule conn_spec_ID)
  then have ids: "conn_ID (cs_heap ?s r) = conn_ID (cs_heap s r)" for r using m by (auto simp: conn_abs_def)
  have "ran (connections (cs_repo ?s)) \<subseteq> U"
    using conn_spec_ran [of c M A] a m k(2) by (cases c) (auto simp: conn_abs_def conn_ok_inv_def conn_op_ok_def)
  then show "enumerates_conns enum \<and> conn_ok_inv U ?s" using a k(1) ids by (simp add: conn_ok_inv_def)
  show "conn_abs ?s = conn_spec_step c (conn_abs s)" by (fact k(2))
qed

definition new_conn_svc :: "conn_heap \<Rightarrow> conn_svc" where
  "new_conn_svc h = \<lparr>cs_heap = h, cs_repo = \<lparr>connections = Map.empty, connectionsByProject = Map.empty\<rparr>,
     cs_sendHandlers = {}, cs_writeMutexes = {}\<rparr>"

lemma new_conn_svc_inv: "inj_on (\<lambda>r. conn_ID (h r)) U \<Longrightarrow> conn_ok_inv U (new_conn_svc h)"
  by (simp add: conn_ok_inv_def svc_inv_def conn_inv_def new_conn_svc_def)

text \<open>C17. The connection registry implements a finite map from identifiers to connections: after any
  sequence of registrations, removals, sends, broadcasts, pongs and clean-ups, the registered
  connections are those of the specification, the list and the count of a project are its registered
  connections, each once, and a message is handed only to the socket of a registered connection that
  is not closed.\<close>

theorem connection_registry_correct:
  assumes "inj_on (\<lambda>r. conn_ID (h r)) U" "enumerates_conns enum" "list_all (conn_op_ok U) ops"
    "s = fold (conn_step enum sock) ops (new_conn_svc h)"
    "(M, A) = fold conn_spec_step ops (conn_abs (new_conn_svc h))"
  shows "connections (cs_repo s) = M \<and>
    set (FindAllByProjectID_conn enum p (cs_repo s)) = {r \<in> ran M. fst (snd (A r)) = p} \<and>
    distinct (FindAllByProjectID_conn enum p (cs_repo s)) \<and>
    CountByProject p (cs_repo s) = card {i \<in> dom M. fst (snd (A (the (M i)))) = p} \<and>
    (fst (Send_conn sock now i msg s) = Inr () \<longleftrightarrow>
       (\<exists>r. M i = Some r \<and> \<not> IsClosed_conn (cs_heap s r)) \<and> sock i)"
proof -
  have r: "conn_ok_inv U s \<and> conn_abs s = (M, A)"
    using cs.run [of U ops enum "new_conn_svc h" sock] new_conn_svc_inv [OF assms(1)] assms(2-5) by simp
  then have i: "svc_inv s" "conn_inv (cs_heap s) (cs_repo s)" by (auto simp: conn_ok_inv_def svc_inv_def)
  have M: "connections (cs_repo s) = M" "A = (\<lambda>r. (conn_ID (cs_heap s r), conn_ProjectID (cs_heap s r), conn_LastPongAt (cs_heap s r)))"
    using r by (auto simp: conn_abs_def)
  have "fst (Send_conn sock now i msg s) = Inr () \<longleftrightarrow>
       (\<exists>r. M i = Some r \<and> \<not> IsClosed_conn (cs_heap s r)) \<and> sock i"
    using i(1) M(1) by (auto simp: Send_conn_def FindByID_conn_def svc_inv_def Let_def split: option.splits)
  then show ?thesis using FindAllByProject_set [OF i(2) assms(2), of p] M by simp
qed

definition sample_conns :: conn_heap where
  "sample_conns r = New_connection (if r = 1 then ''k1'' else ''k2'') 0 7 ''addr'' ''agent''"

definition sample_conn_ops :: "conn_op list" where
  "sample_conn_ops = [CRegister 1, CRegister 2, CClose ''k2'']"

definition sample_conn_svc :: conn_svc where
  "sample_conn_svc = fold (conn_step sorted_list_of_set (\<lambda>_. True)) sample_conn_ops (new_conn_svc sample_conns)"

lemma sorted_enumerates_conns: "enumerates_conns sorted_list_of_set"
  by (simp add: enumerates_conns_def)

lemma heap_Register: "cs_heap (snd (Register_conn r s)) = (cs_heap s)(r := (cs_heap s r)\<lparr>conn_State := StateOpen\<rparr>)"
  by (simp add: Register_conn_def set_state_def store_conn_def Let_def)

lemma heap_Unregister: "cs_heap (snd (Unregister_conn i s)) = cs_heap s"
  by (simp add: Unregister_conn_def Let_def split: sum.split prod.split)

lemma heap_Close: "FindByID_conn i (cs_repo s) \<noteq> Inr r \<Longrightarrow> cs_heap (snd (Close_conn i s)) r = cs_heap s r"
  by (auto simp: Close_conn_def Let_def heap_Unregister set_state_def split: sum.split)

theorem connection_registry_correct_witness:
  "connections (cs_repo sample_conn_svc) = [''k1'' \<mapsto> 1] \<and>
   set (FindAllByProjectID_conn sorted_list_of_set 7 (cs_repo sample_conn_svc)) = {1} \<and>
   fst (Send_conn (\<lambda>_. True) 9 ''k1'' ''x'' sample_conn_svc) = Inr () \<and>
   fst (Send_conn (\<lambda>_. True) 9 ''k2'' ''x'' sample_conn_svc) \<noteq> Inr ()"
proof -
  define A where "A = snd (conn_abs (new_conn_svc sample_conns))"
  have A: "A 1 = (''k1'', 7, 0)" "A 2 = (''k2'', 7, 0)"
    by (simp_all add: A_def conn_abs_def new_conn_svc_def sample_conns_def New_connection_def)
  have c: "conn_abs (new_conn_svc sample_conns) = (Map.empty, A)" by (simp add: A_def conn_abs_def new_conn_svc_def)
  have f: "fold conn_spec_step sample_conn_ops (Map.empty, A) = ([''k1'' \<mapsto> 1], A)"
    unfolding sample_conn_ops_def using A by (simp add: fun_eq_iff)
  note t = connection_registry_correct [OF _ sorted_enumerates_conns _ sample_conn_svc_def, unfolded c, of "{1, 2}"]
  have u: "inj_on (\<lambda>r. conn_ID (sample_conns r)) {1, 2}" "list_all (conn_op_ok {1, 2}) sample_conn_ops"
    by (simp_all add: sample_conns_def New_connection_def sample_conn_ops_def conn_op_ok_def)
  define s2 where "s2 = snd (Register_conn 2 (snd (Register_conn 1 (new_conn_svc sample_conns))))"
  have "sample_conn_svc = snd (Close_conn ''k2'' s2)" by (simp add: sample_conn_svc_def sample_conn_ops_def s2_def)
  moreover have "FindByID_conn ''k2'' (cs_repo s2) \<noteq> Inr 1"
    by (simp add: s2_def FindByID_conn_def Register_conn_def store_conn_def Store_def set_state_def Let_def
        new_conn_svc_def sample_conns_def New_connection_def)
  ultimately have "cs_heap sample_conn_svc 1 = cs_heap s2 1" using heap_Close by metis
  then have "\<not> IsClosed_conn (cs_heap sample_conn_svc 1)"
    by (simp add: s2_def heap_Register IsClosed_conn_def)
  then show ?thesis using t [OF u f [symmetric], of 7 9 "''k1''" "''x''"] t [OF u f [symmetric], of 7 9 "''k2''" "''x''"] A
    by (auto simp: ran_def)
qed

text \<open>The clean-up of stale connections leaves the send handler and the write mutex of every
  connection it drops: the connection is no longer found, so that no later \<open>Close\<close> or \<open>Unregister\<close> can
  remove them.\<close>

lemma stale_cleanup_leaks_handler:
  assumes "svc_inv s" "set all = ran (connections (cs_repo s))" "distinct all"
    "connections (cs_repo s) i = Some r" "stale_conn now (cs_heap s r)"
    "CleanStaleConnections now all s = (n, s')"
  shows "i \<in> cs_sendHandlers s' \<and> i \<in> cs_writeMutexes s' \<and>
    Close_conn i s' = (Inl ConnNotFound, s') \<and> Unregister_conn i s' = (Inl ConnNotFound, s')"
proof -
  let ?rs = "List.filter (\<lambda>r. stale_conn now (cs_heap s r)) all"
  have ci: "conn_inv (cs_heap s) (cs_repo s)" using assms(1) by (simp add: svc_inv_def)
  obtain R' where r: "clean_conns ?rs (cs_heap s) (cs_repo s) 0 = (R', n)" and s': "s' = s\<lparr>cs_repo := R'\<rparr>"
    using assms(6) by (auto simp: CleanStaleConnections_def CleanStaleConnections_repo_def split: prod.splits)
  have "\<forall>r\<in>set ?rs. connections (cs_repo s) (conn_ID (cs_heap s r)) = Some r"
    using assms(2) conn_inv_ID [OF ci] by (auto simp: ran_def)
  from clean_conns_inv [OF ci _ this r] assms(3)
  have "connections R' = (\<lambda>i. case connections (cs_repo s) i of None \<Rightarrow> None | Some r \<Rightarrow> if r \<in> set ?rs then None else Some r)" by simp
  moreover have "r \<in> set ?rs" using assms(2,4,5) by (auto simp: ran_def)
  ultimately have "connections R' i = None" using assms(4) by simp
  moreover have "i \<in> cs_sendHandlers s" "i \<in> cs_writeMutexes s" using assms(1,4) by (auto simp: svc_inv_def)
  ultimately show ?thesis unfolding s' by (simp add: Close_conn_def Unregister_conn_def FindByID_conn_def)
qed

definition one_conn_svc :: conn_svc where
  "one_conn_svc = snd (Register_conn 1 (new_conn_svc sample_conns))"

lemma one_conn_svc_inv:
  "svc_inv one_conn_svc" "connections (cs_repo one_conn_svc) = [''k1'' \<mapsto> 1]" "conn_LastPongAt (cs_heap one_conn_svc 1) = 0"
proof -
  have "conn_ok_inv {1} (new_conn_svc sample_conns)" by (rule new_conn_svc_inv) simp
  from Register_spec [OF this, of 1]
  show "svc_inv one_conn_svc" "connections (cs_repo one_conn_svc) = [''k1'' \<mapsto> 1]" "conn_LastPongAt (cs_heap one_conn_svc 1) = 0"
    by (simp_all add: one_conn_svc_def same_conns_def new_conn_svc_def sample_conns_def New_connection_def)
qed

end
