(* ===== verification/Protocol.thy ===== *)
theory Protocol
  imports Permissions "HOL-Library.List_Lexorder" "HOL-Library.Char_ord"
begin

text \<open>
  \<open>internal/domain/messaging/protocol\<close>, \<open>internal/domain/messaging/envelope\<close> and
  \<open>internal/domain/messaging/receipt\<close>: the messages on the wire with their codes, the internal
  envelope and the receipts.  The JSON text of a message is made and read by \<open>encoding/json\<close>; what the
  struct tags decide (names, order, \<open>omitempty\<close>, and that a field of an embedded struct is hidden by
  a field of the same name outside it) is written out in the conversions to and from \<^typ>\<open>json\<close>.
\<close>

section \<open>Actions and error codes\<close>

type_synonym action_type = int

definition ActConnect :: action_type where "ActConnect = 0"
definition ActConnected :: action_type where "ActConnected = 1"
definition ActDisconnect :: action_type where "ActDisconnect = 2"
definition ActDisconnected :: action_type where "ActDisconnected = 3"
definition ActSubscribe :: action_type where "ActSubscribe = 4"
definition ActSubscribed :: action_type where "ActSubscribed = 5"
definition ActUnsubscribe :: action_type where "ActUnsubscribe = 6"
definition ActUnsubscribed :: action_type where "ActUnsubscribed = 7"
definition ActPublish :: action_type where "ActPublish = 8"
definition ActPublished :: action_type where "ActPublished = 9"
definition ActMessage :: action_type where "ActMessage = 10"
definition ActError :: action_type where "ActError = 11"
definition ActPing :: action_type where "ActPing = 12"
definition ActPong :: action_type where "ActPong = 13"

lemmas act_defs = ActConnect_def ActConnected_def ActDisconnect_def ActDisconnected_def ActSubscribe_def
  ActSubscribed_def ActUnsubscribe_def ActUnsubscribed_def ActPublish_def ActPublished_def ActMessage_def
  ActError_def ActPing_def ActPong_def

definition ActionStrings :: "action_type \<Rightarrow> string option" where
  "ActionStrings a =
     (if a = ActConnect then Some ''connect'' else if a = ActConnected then Some ''connected''
      else if a = ActDisconnect then Some ''disconnect'' else if a = ActDisconnected then Some ''disconnected''
      else if a = ActSubscribe then Some ''subscribe'' else if a = ActSubscribed then Some ''subscribed''
      else if a = ActUnsubscribe then Some ''unsubscribe'' else if a = ActUnsubscribed then Some ''unsubscribed''
      else if a = ActPublish then Some ''publish'' else if a = ActPublished then Some ''published''
      else if a = ActMessage then Some ''message'' else if a = ActError then Some ''error''
      else if a = ActPing then Some ''ping'' else if a = ActPong then Some ''pong'' else None)"

definition ActionToString :: "action_type \<Rightarrow> string" where
  "ActionToString a = (case ActionStrings a of None \<Rightarrow> [] | Some s \<Rightarrow> s)"

text \<open>The error codes in use; the short link of a code ends in its digits.\<close>

type_synonym code = int

definition EBadRequest :: code where "EBadRequest = 40000"
definition EInvalidMessage :: code where "EInvalidMessage = 40001"
definition EInvalidAction :: code where "EInvalidAction = 40002"
definition EForbidden :: code where "EForbidden = 40300"
definition ENotFound :: code where "ENotFound = 40400"
definition ESubscriptionClosed :: code where "ESubscriptionClosed = 40401"
definition ERateLimited :: code where "ERateLimited = 42900"
definition EInternal :: code where "EInternal = 50000"
definition EPublishFailed :: code where "EPublishFailed = 50002"
definition ESubscribeFailed :: code where "ESubscribeFailed = 50003"

lemmas code_defs = EBadRequest_def EInvalidMessage_def EInvalidAction_def EForbidden_def ENotFound_def
  ESubscriptionClosed_def ERateLimited_def EInternal_def EPublishFailed_def ESubscribeFailed_def

definition href_of :: "code \<Rightarrow> string" where
  "href_of c = ''https://qpb.li/err'' @ show_int c"

definition StatusCodeBadRequest :: int where "StatusCodeBadRequest = 400"
definition StatusCodeForbidden :: int where "StatusCodeForbidden = 403"
definition StatusCodeNotFound :: int where "StatusCodeNotFound = 404"
definition StatusCodeTooManyRequests :: int where "StatusCodeTooManyRequests = 429"
definition StatusCodeInternal :: int where "StatusCodeInternal = 500"

section \<open>Messages\<close>

record error_info =
  ei_Code :: int
  ei_Href :: string
  ei_Message :: string
  ei_StatusCode :: int

record base_msg =
  bm_Action :: action_type
  bm_Error :: "error_info option"

record channel_msg =
  cm_Message :: base_msg
  cm_Channel :: string
  cm_SubscriptionID :: ulid

record payload =
  pl_Alias :: "string option"
  pl_Event :: "string option"
  pl_Data :: "json option"

text \<open>A data message has an error of its own beside the one of the embedded message.\<close>

record data_msg =
  dm_Message :: base_msg
  dm_ID :: ulid
  dm_Timestamp :: time
  dm_Channel :: string
  dm_Messages :: "payload list"
  dm_Error :: "error_info option"

record conn_msg =
  km_Message :: base_msg
  km_ConnectionID :: ulid
  km_Alias :: string
  km_ClientID :: string
  km_ServerID :: string

definition NewMessage :: "action_type \<Rightarrow> error_info option \<Rightarrow> base_msg" where
  "NewMessage action err = \<lparr>bm_Action = action, bm_Error = err\<rparr>"

definition NewConnectionMessage ::
    "action_type \<Rightarrow> ulid \<Rightarrow> ulid option \<Rightarrow> string option \<Rightarrow> string option \<Rightarrow> error_info option \<Rightarrow> conn_msg" where
  "NewConnectionMessage action connID clientID serverID alias err =
     \<lparr>km_Message = NewMessage action err, km_ConnectionID = connID,
      km_Alias = (case alias of None \<Rightarrow> [] | Some a \<Rightarrow> a), km_ClientID = (case clientID of None \<Rightarrow> [] | Some c \<Rightarrow> c),
      km_ServerID = (case serverID of None \<Rightarrow> [] | Some s \<Rightarrow> s)\<rparr>"

definition NewChannelMessage :: "action_type \<Rightarrow> string \<Rightarrow> ulid \<Rightarrow> error_info option \<Rightarrow> channel_msg" where
  "NewChannelMessage action channel subID err =
     \<lparr>cm_Message = NewMessage action err, cm_Channel = channel, cm_SubscriptionID = subID\<rparr>"

definition NewDataMessage :: "ulid \<Rightarrow> time \<Rightarrow> action_type \<Rightarrow> string \<Rightarrow> payload list \<Rightarrow> error_info option \<Rightarrow> data_msg" where
  "NewDataMessage newID now action channel messages err =
     \<lparr>dm_Message = NewMessage action err, dm_ID = newID, dm_Timestamp = now, dm_Channel = channel,
      dm_Messages = messages, dm_Error = None\<rparr>"

definition NewDataMessageWithEnvelope ::
    "action_type \<Rightarrow> string \<Rightarrow> payload list \<Rightarrow> error_info option \<Rightarrow> ulid \<Rightarrow> time \<Rightarrow> data_msg" where
  "NewDataMessageWithEnvelope action channel messages err messageID timestamp =
     \<lparr>dm_Message = NewMessage action err, dm_ID = messageID, dm_Timestamp = timestamp, dm_Channel = channel,
      dm_Messages = messages, dm_Error = None\<rparr>"

section \<open>Encoding\<close>

definition error_json :: "error_info \<Rightarrow> json" where
  "error_json e = JObj [(''code'', JNum (show_int (ei_Code e))), (''href'', JStr (ei_Href e)),
     (''message'', JStr (ei_Message e)), (''status_code'', JNum (show_int (ei_StatusCode e)))]"

definition opt_member :: "string \<Rightarrow> json option \<Rightarrow> (string \<times> json) list" where
  "opt_member k j = (case j of None \<Rightarrow> [] | Some j \<Rightarrow> [(k, j)])"

definition base_members :: "base_msg \<Rightarrow> (string \<times> json) list" where
  "base_members m = (''action'', JNum (show_int (bm_Action m))) # opt_member ''error'' (map_option error_json (bm_Error m))"

definition base_json :: "base_msg \<Rightarrow> json" where
  "base_json m = JObj (base_members m)"

definition str_member :: "string \<Rightarrow> string \<Rightarrow> (string \<times> json) list" where
  "str_member k s = (if s = [] then [] else [(k, JStr s)])"

definition channel_json :: "channel_msg \<Rightarrow> json" where
  "channel_json m = JObj (base_members (cm_Message m) @ [(''channel'', JStr (cm_Channel m))] @
     str_member ''subscription_id'' (cm_SubscriptionID m))"

definition payload_json :: "payload \<Rightarrow> json" where
  "payload_json p = JObj (opt_member ''alias'' (map_option JStr (pl_Alias p)) @
     opt_member ''event'' (map_option JStr (pl_Event p)) @ opt_member ''data'' (pl_Data p))"

text \<open>The error of the embedded message is hidden.  \<open>tt\<close> writes a time.\<close>

definition data_json :: "(time \<Rightarrow> string) \<Rightarrow> data_msg \<Rightarrow> json" where
  "data_json tt m = JObj ((''action'', JNum (show_int (bm_Action (dm_Message m)))) #
     str_member ''id'' (dm_ID m) @ [(''timestamp'', JStr (tt (dm_Timestamp m))), (''channel'', JStr (dm_Channel m))] @
     (if dm_Messages m = [] then [] else [(''messages'', JArr (List.map payload_json (dm_Messages m)))]) @
     opt_member ''error'' (map_option error_json (dm_Error m)))"

definition conn_json :: "conn_msg \<Rightarrow> json" where
  "conn_json m = JObj (base_members (km_Message m) @ str_member ''connection_id'' (km_ConnectionID m) @
     [(''connection_details'', JObj [(''alias'', JStr (km_Alias m)), (''client_id'', JStr (km_ClientID m)),
        (''server_id'', JStr (km_ServerID m))])])"

definition ping_json :: "action_type \<Rightarrow> int \<Rightarrow> json" where
  "ping_json action i = JObj (base_members (NewMessage action None) @ [(''id'', JNum (show_int i))])"

section \<open>Decoding\<close>

text \<open>Decoding into a struct: every member whose name matches a field (without regard to case)
  updates it; others are ignored; \<open>null\<close> leaves the value alone.\<close>

type_synonym 'a field = "string \<times> (json \<Rightarrow> 'a \<Rightarrow> 'a option)"

fun decode_fields :: "'a field list \<Rightarrow> (string \<times> json) list \<Rightarrow> 'a \<Rightarrow> 'a option" where
  "decode_fields fs [] v = Some v"
| "decode_fields fs ((k, j) # ms) v =
     (case map_of fs (fold_key k) of
        None \<Rightarrow> decode_fields fs ms v
      | Some f \<Rightarrow> (case f j v of None \<Rightarrow> None | Some v \<Rightarrow> decode_fields fs ms v))"

fun decode_struct :: "'a field list \<Rightarrow> json \<Rightarrow> 'a \<Rightarrow> 'a option" where
  "decode_struct fs (JObj ms) v = decode_fields fs ms v"
| "decode_struct fs JNull v = Some v"
| "decode_struct fs _ v = None"

fun decode_int :: "(int \<Rightarrow> 'a \<Rightarrow> 'a) \<Rightarrow> json \<Rightarrow> 'a \<Rightarrow> 'a option" where
  "decode_int upd (JNum s) v = (case atoi s of None \<Rightarrow> None | Some i \<Rightarrow> Some (upd i v))"
| "decode_int upd JNull v = Some v"
| "decode_int upd _ v = None"

fun decode_text :: "(string \<Rightarrow> 'a \<Rightarrow> 'a) \<Rightarrow> json \<Rightarrow> 'a \<Rightarrow> 'a option" where
  "decode_text upd (JStr s) v = Some (upd s v)"
| "decode_text upd JNull v = Some v"
| "decode_text upd _ v = None"

definition error_fields :: "error_info field list" where
  "error_fields = [(''code'', decode_int (\<lambda>i e. e\<lparr>ei_Code := i\<rparr>)), (''href'', decode_text (\<lambda>s e. e\<lparr>ei_Href := s\<rparr>)),
     (''message'', decode_text (\<lambda>s e. e\<lparr>ei_Message := s\<rparr>)), (''status_code'', decode_int (\<lambda>i e. e\<lparr>ei_StatusCode := i\<rparr>))]"

definition zero_error :: error_info where
  "zero_error = \<lparr>ei_Code = 0, ei_Href = [], ei_Message = [], ei_StatusCode = 0\<rparr>"

text \<open>A pointer field: \<open>null\<close> makes it nil, an object fills the struct it points to (a new one when
  nil).\<close>

definition decode_error :: "json \<Rightarrow> error_info option \<Rightarrow> error_info option option" where
  "decode_error j e =
     (case j of JNull \<Rightarrow> Some None
      | _ \<Rightarrow> map_option Some (decode_struct error_fields j (case e of None \<Rightarrow> zero_error | Some e \<Rightarrow> e)))"

definition base_fields :: "base_msg field list" where
  "base_fields = [(''action'', decode_int (\<lambda>i m. m\<lparr>bm_Action := i\<rparr>)),
     (''error'', \<lambda>j m. map_option (\<lambda>e. m\<lparr>bm_Error := e\<rparr>) (decode_error j (bm_Error m)))]"

definition zero_base :: base_msg where
  "zero_base = \<lparr>bm_Action = 0, bm_Error = None\<rparr>"

definition decode_base :: "json \<Rightarrow> base_msg option" where
  "decode_base j = decode_struct base_fields j zero_base"

definition channel_fields :: "channel_msg field list" where
  "channel_fields = [(''action'', decode_int (\<lambda>i m. m\<lparr>cm_Message := (cm_Message m)\<lparr>bm_Action := i\<rparr>\<rparr>)),
     (''error'', \<lambda>j m. map_option (\<lambda>e. m\<lparr>cm_Message := (cm_Message m)\<lparr>bm_Error := e\<rparr>\<rparr>) (decode_error j (bm_Error (cm_Message m)))),
     (''channel'', decode_text (\<lambda>s m. m\<lparr>cm_Channel := s\<rparr>)),
     (''subscription_id'', decode_text (\<lambda>s m. m\<lparr>cm_SubscriptionID := s\<rparr>))]"

definition decode_channel :: "json \<Rightarrow> channel_msg option" where
  "decode_channel j = decode_struct channel_fields j \<lparr>cm_Message = zero_base, cm_Channel = [], cm_SubscriptionID = []\<rparr>"

fun decode_ptr_text :: "(string option \<Rightarrow> 'a \<Rightarrow> 'a) \<Rightarrow> json \<Rightarrow> 'a \<Rightarrow> 'a option" where
  "decode_ptr_text upd (JStr s) v = Some (upd (Some s) v)"
| "decode_ptr_text upd JNull v = Some (upd None v)"
| "decode_ptr_text upd _ v = None"

text \<open>Decoding into \<open>interface{}\<close>: a number becomes a \<open>float64\<close>, whose text on the way out
  is \<open>nf\<close> of the text that came in (\<^const>\<open>None\<close> out of range); an object becomes a map, in which the
  last of two equal keys wins and which is written with its keys in order.\<close>

definition map_members :: "(string \<times> json) list \<Rightarrow> (string \<times> json) list" where
  "map_members ms = List.map (\<lambda>k. (k, the (map_of (rev ms) k))) (sort (remdups (List.map fst ms)))"

fun any_value :: "(string \<Rightarrow> string option) \<Rightarrow> json \<Rightarrow> json option"
  and any_list :: "(string \<Rightarrow> string option) \<Rightarrow> json list \<Rightarrow> json list option"
  and any_members :: "(string \<Rightarrow> string option) \<Rightarrow> (string \<times> json) list \<Rightarrow> (string \<times> json) list option" where
  "any_value nf (JNum s) = map_option JNum (nf s)"
| "any_value nf (JArr js) = map_option JArr (any_list nf js)"
| "any_value nf (JObj ms) = map_option (\<lambda>ms. JObj (map_members ms)) (any_members nf ms)"
| "any_value nf JNull = Some JNull"
| "any_value nf (JBool b) = Some (JBool b)"
| "any_value nf (JStr s) = Some (JStr s)"
| "any_list nf [] = Some []"
| "any_list nf (j # js) =
     (case any_value nf j of None \<Rightarrow> None | Some j \<Rightarrow> map_option ((#) j) (any_list nf js))"
| "any_members nf [] = Some []"
| "any_members nf ((k, j) # ms) =
     (case any_value nf j of None \<Rightarrow> None | Some j \<Rightarrow> map_option ((#) (k, j)) (any_members nf ms))"

definition payload_fields :: "(string \<Rightarrow> string option) \<Rightarrow> payload field list" where
  "payload_fields nf = [(''alias'', decode_ptr_text (\<lambda>s p. p\<lparr>pl_Alias := s\<rparr>)), (''event'', decode_ptr_text (\<lambda>s p. p\<lparr>pl_Event := s\<rparr>)),
     (''data'', \<lambda>j p. map_option (\<lambda>v. p\<lparr>pl_Data := (if v = JNull then None else Some v)\<rparr>) (any_value nf j))]"

fun decode_payloads :: "(string \<Rightarrow> string option) \<Rightarrow> json list \<Rightarrow> payload list option" where
  "decode_payloads nf [] = Some []"
| "decode_payloads nf (j # js) =
     (case decode_struct (payload_fields nf) j \<lparr>pl_Alias = None, pl_Event = None, pl_Data = None\<rparr> of None \<Rightarrow> None
      | Some p \<Rightarrow> (case decode_payloads nf js of None \<Rightarrow> None | Some ps \<Rightarrow> Some (p # ps)))"

text \<open>\<open>rt\<close> reads a time (\<open>time.Time.UnmarshalJSON\<close> on a string).  A repeated \<open>messages\<close> member decodes
  over the slice that is there; the elements are decoded afresh here, which is what happens on the
  first occurrence.\<close>

definition data_fields :: "(string \<Rightarrow> string option) \<Rightarrow> (string \<Rightarrow> time option) \<Rightarrow> data_msg field list" where
  "data_fields nf rt = [(''action'', decode_int (\<lambda>i m. m\<lparr>dm_Message := (dm_Message m)\<lparr>bm_Action := i\<rparr>\<rparr>)),
     (''id'', decode_text (\<lambda>s m. m\<lparr>dm_ID := s\<rparr>)),
     (''timestamp'', \<lambda>j m. case j of JNull \<Rightarrow> Some m | JStr s \<Rightarrow> map_option (\<lambda>t. m\<lparr>dm_Timestamp := t\<rparr>) (rt s) | _ \<Rightarrow> None),
     (''channel'', decode_text (\<lambda>s m. m\<lparr>dm_Channel := s\<rparr>)),
     (''messages'', \<lambda>j m. case j of JNull \<Rightarrow> Some (m\<lparr>dm_Messages := []\<rparr>)
        | JArr js \<Rightarrow> map_option (\<lambda>ps. m\<lparr>dm_Messages := ps\<rparr>) (decode_payloads nf js) | _ \<Rightarrow> None),
     (''error'', \<lambda>j m. map_option (\<lambda>e. m\<lparr>dm_Error := e\<rparr>) (decode_error j (dm_Error m)))]"

definition decode_data :: "(string \<Rightarrow> string option) \<Rightarrow> (string \<Rightarrow> time option) \<Rightarrow> time \<Rightarrow> json \<Rightarrow> data_msg option" where
  "decode_data nf rt zero_time j = decode_struct (data_fields nf rt) j
     \<lparr>dm_Message = zero_base, dm_ID = [], dm_Timestamp = zero_time, dm_Channel = [], dm_Messages = [], dm_Error = None\<rparr>"

record ping_msg =
  pm_Message :: base_msg
  pm_ID :: int

definition ping_fields :: "ping_msg field list" where
  "ping_fields = [(''action'', decode_int (\<lambda>i m. m\<lparr>pm_Message := (pm_Message m)\<lparr>bm_Action := i\<rparr>\<rparr>)),
     (''error'', \<lambda>j m. map_option (\<lambda>e. m\<lparr>pm_Message := (pm_Message m)\<lparr>bm_Error := e\<rparr>\<rparr>) (decode_error j (bm_Error (pm_Message m)))),
     (''id'', decode_int (\<lambda>i m. m\<lparr>pm_ID := i\<rparr>))]"

definition decode_ping :: "json \<Rightarrow> ping_msg option" where
  "decode_ping j = decode_struct ping_fields j \<lparr>pm_Message = zero_base, pm_ID = 0\<rparr>"

section \<open>Envelopes and receipts\<close>

datatype direction = DirectionInbound | DirectionOutbound
datatype msg_source = SourceWebSocket | SourceREST | SourceNATS | SourceInternal

record envelope =
  env_ID :: ulid
  env_Direction :: direction
  env_ProjectID :: project_id
  env_Channel :: string
  env_Payload :: string
  env_Source :: msg_source
  env_ConnectionID :: ulid
  env_ClientID :: ulid
  env_PublishedAt :: time
  env_SkipTelemetry :: bool

text \<open>\<open>New\<close> with the zero \<open>PublishedAt\<close>, which every caller leaves unset.\<close>

definition New_envelope :: "ulid \<Rightarrow> time \<Rightarrow> direction \<Rightarrow> project_id \<Rightarrow> string \<Rightarrow> string \<Rightarrow> msg_source \<Rightarrow> ulid \<Rightarrow> bool \<Rightarrow> envelope" where
  "New_envelope newID now dir p channel payload src connID skip =
     \<lparr>env_ID = newID, env_Direction = dir, env_ProjectID = p, env_Channel = channel, env_Payload = payload,
      env_Source = src, env_ConnectionID = connID, env_ClientID = [], env_PublishedAt = now, env_SkipTelemetry = skip\<rparr>"

definition WithID :: "ulid \<Rightarrow> envelope \<Rightarrow> envelope" where
  "WithID i e = e\<lparr>env_ID := i\<rparr>"

datatype mreceipt_outcome = MAccepted | MRejected | MQueued | MDelivered | MDropped | MFailed

record mreceipt =
  mr_EnvelopeID :: ulid
  mr_Ack :: bool
  mr_Ingress :: bool
  mr_Outcome :: mreceipt_outcome
  mr_Reason :: string
  mr_ErrorCode :: code

definition IsSuccess :: "mreceipt \<Rightarrow> bool" where
  "IsSuccess r \<longleftrightarrow> (case mr_Outcome r of MAccepted \<Rightarrow> True | MQueued \<Rightarrow> True | MDelivered \<Rightarrow> True | _ \<Rightarrow> False)"

definition MIngressAck :: "ulid \<Rightarrow> mreceipt" where
  "MIngressAck i = \<lparr>mr_EnvelopeID = i, mr_Ack = True, mr_Ingress = True, mr_Outcome = MAccepted, mr_Reason = [], mr_ErrorCode = 0\<rparr>"

definition MIngressNack :: "ulid \<Rightarrow> string \<Rightarrow> code \<Rightarrow> mreceipt" where
  "MIngressNack i reason c =
     \<lparr>mr_EnvelopeID = i, mr_Ack = False, mr_Ingress = True, mr_Outcome = MRejected, mr_Reason = reason, mr_ErrorCode = c\<rparr>"

definition EgressDelivered :: "ulid \<Rightarrow> mreceipt" where
  "EgressDelivered i = \<lparr>mr_EnvelopeID = i, mr_Ack = True, mr_Ingress = False, mr_Outcome = MDelivered, mr_Reason = [], mr_ErrorCode = 0\<rparr>"

definition EgressDropped :: "ulid \<Rightarrow> string \<Rightarrow> mreceipt" where
  "EgressDropped i reason =
     \<lparr>mr_EnvelopeID = i, mr_Ack = False, mr_Ingress = False, mr_Outcome = MDropped, mr_Reason = reason, mr_ErrorCode = 0\<rparr>"

section \<open>Round trips\<close>

lemma fold_key_lower [simp]:
  "fold_key ''action'' = ''action''" "fold_key ''error'' = ''error''" "fold_key ''channel'' = ''channel''"
  "fold_key ''subscription_id'' = ''subscription_id''" "fold_key ''code'' = ''code''" "fold_key ''href'' = ''href''"
  "fold_key ''message'' = ''message''" "fold_key ''status_code'' = ''status_code''" "fold_key ''id'' = ''id''"
  "fold_key ''timestamp'' = ''timestamp''" "fold_key ''messages'' = ''messages''" "fold_key ''alias'' = ''alias''"
  "fold_key ''event'' = ''event''" "fold_key ''data'' = ''data''"
  by (simp_all add: fold_key.simps ascii_lower_def)

definition error_ok :: "error_info \<Rightarrow> bool" where
  "error_ok e \<longleftrightarrow> in64 (ei_Code e) \<and> in64 (ei_StatusCode e)"

lemma decode_error_json: "error_ok e \<Longrightarrow> decode_error (error_json e) old = Some (Some e)"
  by (cases e; cases old) (simp_all add: decode_error_def error_json_def error_fields_def error_ok_def atoi_show_int zero_error_def)

definition base_ok :: "base_msg \<Rightarrow> bool" where
  "base_ok m \<longleftrightarrow> in64 (bm_Action m) \<and> (case bm_Error m of None \<Rightarrow> True | Some e \<Rightarrow> error_ok e)"

lemma decode_base_json: "base_ok m \<Longrightarrow> decode_base (base_json m) = Some m"
  by (cases m; cases "bm_Error m")
    (simp_all add: decode_base_def base_json_def base_members_def base_fields_def base_ok_def opt_member_def
      atoi_show_int decode_error_json zero_base_def)

lemma decode_channel_json: "base_ok (cm_Message m) \<Longrightarrow> decode_channel (channel_json m) = Some m"
  by (cases m; cases "cm_Message m"; cases "bm_Error (cm_Message m)")
    (simp_all add: decode_channel_def channel_json_def base_members_def channel_fields_def base_ok_def opt_member_def
      str_member_def atoi_show_int decode_error_json zero_base_def)

text \<open>The data of a payload is none, or a value as \<open>interface{}\<close> holds it.\<close>

definition payload_ok :: "(string \<Rightarrow> string option) \<Rightarrow> payload \<Rightarrow> bool" where
  "payload_ok nf p \<longleftrightarrow> (case pl_Data p of None \<Rightarrow> True | Some j \<Rightarrow> j \<noteq> JNull \<and> any_value nf j = Some j)"

lemma decode_payload_json:
  "payload_ok nf p \<Longrightarrow>
   decode_struct (payload_fields nf) (payload_json p) \<lparr>pl_Alias = None, pl_Event = None, pl_Data = None\<rparr> = Some p"
  by (cases p; cases "pl_Alias p"; cases "pl_Event p"; cases "pl_Data p")
    (simp_all add: payload_json_def payload_fields_def opt_member_def payload_ok_def)

lemma decode_payloads_json: "list_all (payload_ok nf) ps \<Longrightarrow> decode_payloads nf (List.map payload_json ps) = Some ps"
  by (induction ps) (simp_all add: decode_payload_json)

lemma decode_data_json:
  assumes "in64 (bm_Action (dm_Message m))" "rt (tt (dm_Timestamp m)) = Some (dm_Timestamp m)"
    "list_all (payload_ok nf) (dm_Messages m)" "case dm_Error m of None \<Rightarrow> True | Some e \<Rightarrow> error_ok e"
  shows "decode_data nf rt z (data_json tt m) = Some (m\<lparr>dm_Message := (dm_Message m)\<lparr>bm_Error := None\<rparr>\<rparr>)"
  using assms
  by (cases m; cases "dm_Message m"; cases "dm_Error m")
    (auto simp: decode_data_def data_json_def data_fields_def opt_member_def str_member_def atoi_show_int
      decode_error_json decode_payloads_json zero_base_def)

text \<open>C19. Server and clients agree on the wire format: a base or channel message, with or without an
  error, decodes from its own encoding to itself, and so does a data message, but for the error that
  \<open>NewDataMessage\<close> puts into the embedded message, which no encoding carries.\<close>

theorem protocol_roundtrip:
  assumes "base_ok b" "base_ok (cm_Message c)"
    "in64 (bm_Action (dm_Message d))" "rt (tt (dm_Timestamp d)) = Some (dm_Timestamp d)"
    "list_all (payload_ok nf) (dm_Messages d)" "case dm_Error d of None \<Rightarrow> True | Some e \<Rightarrow> error_ok e"
  shows "decode_base (base_json b) = Some b \<and> decode_channel (channel_json c) = Some c \<and>
    decode_data nf rt z (data_json tt d) = Some (d\<lparr>dm_Message := (dm_Message d)\<lparr>bm_Error := None\<rparr>\<rparr>)"
  using decode_base_json [OF assms(1)] decode_channel_json [OF assms(2)] decode_data_json [of d rt tt nf z] assms(3-6) by blast

theorem protocol_roundtrip_witness:
  "decode_data Some atoi 0 (data_json show_int (NewDataMessage ''m1'' 17 ActPublish ''room'' [\<lparr>pl_Alias = None, pl_Event = Some ''e'', pl_Data = Some (JBool True)\<rparr>]
      (Some \<lparr>ei_Code = ERateLimited, ei_Href = [], ei_Message = ''slow'', ei_StatusCode = 429\<rparr>))) =
   Some (NewDataMessage ''m1'' 17 ActPublish ''room'' [\<lparr>pl_Alias = None, pl_Event = Some ''e'', pl_Data = Some (JBool True)\<rparr>] None)"
proof -
  let ?d = "NewDataMessage ''m1'' 17 ActPublish ''room'' [\<lparr>pl_Alias = None, pl_Event = Some ''e'', pl_Data = Some (JBool True)\<rparr>]
      (Some \<lparr>ei_Code = ERateLimited, ei_Href = [], ei_Message = ''slow'', ei_StatusCode = 429\<rparr>)"
  have "decode_data Some atoi 0 (data_json show_int ?d) = Some (?d\<lparr>dm_Message := (dm_Message ?d)\<lparr>bm_Error := None\<rparr>\<rparr>)"
    using protocol_roundtrip [of zero_base "\<lparr>cm_Message = zero_base, cm_Channel = [], cm_SubscriptionID = []\<rparr>" ?d atoi show_int Some 0]
    by (simp add: zero_base_def base_ok_def in64_def atoi_show_int NewDataMessage_def NewMessage_def act_defs payload_ok_def)
  then show ?thesis by (simp add: NewDataMessage_def NewMessage_def)
qed

end
