(* ===== verification/ProjectLog.thy ===== *)
theory ProjectLog
  imports Protocol QueueWorld
begin

text \<open>
  \<open>internal/domain/project/log/model.go\<close>: the log events of a project and the JSON that the struct tags
  give them (\<open>omitempty\<close> leaves out a nil pointer, an empty text and a zero number).
\<close>

datatype log_type = EventConnectionOpened | EventConnectionClosed | EventConnectionError
  | LogClientConnected | LogClientDisconnected | EventSubscribed | EventUnsubscribed
  | QueueActivity log_event

definition log_type_name :: "log_type \<Rightarrow> string" where
  "log_type_name t = (case t of
     EventConnectionOpened \<Rightarrow> ''connection.opened'' | EventConnectionClosed \<Rightarrow> ''connection.closed''
   | EventConnectionError \<Rightarrow> ''connection.error'' | LogClientConnected \<Rightarrow> ''client.connected''
   | LogClientDisconnected \<Rightarrow> ''client.disconnected'' | EventSubscribed \<Rightarrow> ''subscription.created''
   | EventUnsubscribed \<Rightarrow> ''subscription.closed''
   | QueueActivity e \<Rightarrow> (case e of
       EventQueueJobEnqueued \<Rightarrow> ''queue.job.enqueued'' | EventQueueJobClaimed \<Rightarrow> ''queue.job.claimed''
     | EventQueueJobCompleted \<Rightarrow> ''queue.job.completed'' | EventQueueJobNacked \<Rightarrow> ''queue.job.nacked''
     | EventQueueJobRetried \<Rightarrow> ''queue.job.retried'' | EventQueueJobDLQ \<Rightarrow> ''queue.job.dlq''
     | EventQueueJobCancelled \<Rightarrow> ''queue.job.cancelled'' | EventQueueWorkerRegistered \<Rightarrow> ''queue.worker.registered''))"

record connection_details =
  cd_ConnectionID :: "ulid option"
  cd_ClientID :: "ulid option"
  cd_Alias :: "string option"
  cd_ChannelName :: "string option"
  cd_APIKey :: "string option"

record source_details =
  sd_RemoteAddr :: string
  sd_UserAgent :: "string option"
  sd_Origin :: "string option"

record queue_details =
  qd_QueueName :: string
  qd_JobID :: "ulid option"
  qd_Status :: string
  qd_WorkerID :: string
  qd_WorkerName :: string
  qd_Attempt :: int

record error_details =
  ed_Message :: string
  ed_Code :: string

record plog_event =
  le_Message :: string
  le_Connection :: connection_details
  le_Source :: source_details
  le_Site :: string
  le_Queue :: "queue_details option"
  le_Error :: "error_details option"

record log_params =
  lp_Message :: string
  lp_ConnectionID :: "ulid option"
  lp_ClientID :: "ulid option"
  lp_Alias :: "string option"
  lp_ChannelName :: "string option"
  lp_APIKey :: "string option"
  lp_RemoteAddr :: string
  lp_UserAgent :: "string option"
  lp_Origin :: "string option"
  lp_Site :: string
  lp_Error :: "error_details option"

definition CreateEvent :: "log_params \<Rightarrow> plog_event" where
  "CreateEvent p = \<lparr>le_Message = lp_Message p,
     le_Connection = \<lparr>cd_ConnectionID = lp_ConnectionID p, cd_ClientID = lp_ClientID p, cd_Alias = lp_Alias p,
       cd_ChannelName = lp_ChannelName p, cd_APIKey = lp_APIKey p\<rparr>,
     le_Source = \<lparr>sd_RemoteAddr = lp_RemoteAddr p, sd_UserAgent = lp_UserAgent p, sd_Origin = lp_Origin p\<rparr>,
     le_Site = lp_Site p, le_Queue = None, le_Error = lp_Error p\<rparr>"

definition CreateQueueEvent :: "string \<Rightarrow> queue_details \<Rightarrow> string \<Rightarrow> error_details option \<Rightarrow> plog_event" where
  "CreateQueueEvent message q site err = \<lparr>le_Message = message,
     le_Connection = \<lparr>cd_ConnectionID = None, cd_ClientID = None, cd_Alias = None, cd_ChannelName = None, cd_APIKey = None\<rparr>,
     le_Source = \<lparr>sd_RemoteAddr = [], sd_UserAgent = None, sd_Origin = None\<rparr>,
     le_Site = site, le_Queue = Some q, le_Error = err\<rparr>"

definition text_member :: "string \<Rightarrow> string option \<Rightarrow> (string \<times> json) list" where
  "text_member k v = opt_member k (map_option JStr v)"

definition connection_details_json :: "connection_details \<Rightarrow> json" where
  "connection_details_json c = JObj (text_member ''connection_id'' (cd_ConnectionID c) @
     text_member ''client_id'' (cd_ClientID c) @ text_member ''alias'' (cd_Alias c) @
     text_member ''channel'' (cd_ChannelName c) @ text_member ''api_key'' (cd_APIKey c))"

definition source_details_json :: "source_details \<Rightarrow> json" where
  "source_details_json s = JObj (str_member ''remote_addr'' (sd_RemoteAddr s) @
     text_member ''user_agent'' (sd_UserAgent s) @ text_member ''origin'' (sd_Origin s))"

definition queue_details_json :: "queue_details \<Rightarrow> json" where
  "queue_details_json q = JObj (str_member ''queue_name'' (qd_QueueName q) @ text_member ''job_id'' (qd_JobID q) @
     str_member ''status'' (qd_Status q) @ str_member ''worker_id'' (qd_WorkerID q) @
     str_member ''worker_name'' (qd_WorkerName q) @
     (if qd_Attempt q = 0 then [] else [(''attempt'', JNum (show_int (qd_Attempt q)))]))"

definition error_details_json :: "error_details \<Rightarrow> json" where
  "error_details_json e = JObj ((''message'', JStr (ed_Message e)) # str_member ''code'' (ed_Code e))"

definition plog_event_json :: "plog_event \<Rightarrow> json" where
  "plog_event_json e = JObj (str_member ''message'' (le_Message e) @
     [(''connection'', connection_details_json (le_Connection e)), (''source'', source_details_json (le_Source e)),
      (''instance'', JObj [(''site'', JStr (le_Site e))])] @
     opt_member ''queue'' (map_option queue_details_json (le_Queue e)) @
     opt_member ''error'' (map_option error_details_json (le_Error e)))"

end
