(* ===== verification/Telemetry.thy ===== *)
theory Telemetry
  imports Backpressure
begin

text \<open>
  \<open>internal/domain/messaging/telemetry\<close>, its in-memory repository
  (\<open>internal/infrastructure/repository/messaging/telemetry/repository.go\<close>) and service
  (\<open>internal/application/service/messaging/telemetry/service.go\<close>).  The type of an event and its data
  are one value here, so the type assertions of \<open>Record\<close> cannot fail; every caller in the program
  builds them together.  The identifier and the time of an event are never read.
\<close>

section \<open>Events and counters\<close>

datatype tel_data =
    InboundAccepted ulid ulid string int string
  | InboundRejected string string
  | OutboundQueued ulid ulid int
  | OutboundDelivered ulid int
  | OutboundDropped ulid ulid "drop_reason option" int
  | OutboundFailed ulid string

record tel_event =
  te_ProjectID :: project_id
  te_InstanceID :: ulid
  te_Data :: tel_data

definition IsInbound :: "tel_data \<Rightarrow> bool" where
  "IsInbound d \<longleftrightarrow> (case d of InboundAccepted _ _ _ _ _ \<Rightarrow> True | InboundRejected _ _ \<Rightarrow> True | _ \<Rightarrow> False)"

definition IsOutbound :: "tel_data \<Rightarrow> bool" where
  "IsOutbound d \<longleftrightarrow> (case d of OutboundQueued _ _ _ \<Rightarrow> True | OutboundDelivered _ _ \<Rightarrow> True
     | OutboundDropped _ _ _ _ \<Rightarrow> True | OutboundFailed _ _ \<Rightarrow> True | _ \<Rightarrow> False)"

definition CountsTowardInbound :: "tel_data \<Rightarrow> bool" where
  "CountsTowardInbound d \<longleftrightarrow> (case d of InboundAccepted _ _ _ _ _ \<Rightarrow> True | _ \<Rightarrow> False)"

definition CountsTowardOutbound :: "tel_data \<Rightarrow> bool" where
  "CountsTowardOutbound d \<longleftrightarrow> (case d of OutboundDelivered _ _ \<Rightarrow> True | _ \<Rightarrow> False)"

definition CountsTowardDropped :: "tel_data \<Rightarrow> bool" where
  "CountsTowardDropped d \<longleftrightarrow> (case d of OutboundDropped _ _ _ _ \<Rightarrow> True | _ \<Rightarrow> False)"

record tel_counter =
  tc_ProjectID :: project_id
  tc_InstanceID :: ulid
  tc_InboundCount :: int
  tc_InboundRejected :: int
  tc_OutboundCount :: int
  tc_OutboundDropped :: int
  tc_DroppedByReason :: "drop_reason \<Rightarrow> int option"
  tc_BandwidthInbound :: int
  tc_BandwidthOutbound :: int

definition NewCounter :: "project_id \<Rightarrow> ulid \<Rightarrow> tel_counter" where
  "NewCounter p i = \<lparr>tc_ProjectID = p, tc_InstanceID = i, tc_InboundCount = 0, tc_InboundRejected = 0,
     tc_OutboundCount = 0, tc_OutboundDropped = 0, tc_DroppedByReason = Map.empty, tc_BandwidthInbound = 0,
     tc_BandwidthOutbound = 0\<rparr>"

section \<open>The repository\<close>

type_synonym tel_repo = "string \<Rightarrow> tel_counter option"

definition tel_key :: "project_id \<Rightarrow> ulid \<Rightarrow> string" where
  "tel_key p i = show_int p @ CHR '':'' # i"

definition getOrCreate :: "project_id \<Rightarrow> ulid \<Rightarrow> tel_repo \<Rightarrow> tel_counter" where
  "getOrCreate p i R = (case R (tel_key p i) of Some c \<Rightarrow> c | None \<Rightarrow> NewCounter p i)"

definition RecordInbound :: "project_id \<Rightarrow> ulid \<Rightarrow> int \<Rightarrow> tel_repo \<Rightarrow> tel_repo" where
  "RecordInbound p i bytes R =
     (let c = getOrCreate p i R;
          c = c\<lparr>tc_InboundCount := i64 (tc_InboundCount c + 1)\<rparr>;
          c = (if bytes > 0 then c\<lparr>tc_BandwidthInbound := i64 (tc_BandwidthInbound c + bytes)\<rparr> else c)
      in R(tel_key p i \<mapsto> c))"

definition RecordOutboundDelivered :: "project_id \<Rightarrow> ulid \<Rightarrow> int \<Rightarrow> tel_repo \<Rightarrow> tel_repo" where
  "RecordOutboundDelivered p i bytes R =
     (let c = getOrCreate p i R;
          c = c\<lparr>tc_OutboundCount := i64 (tc_OutboundCount c + 1)\<rparr>;
          c = (if bytes > 0 then c\<lparr>tc_BandwidthOutbound := i64 (tc_BandwidthOutbound c + bytes)\<rparr> else c)
      in R(tel_key p i \<mapsto> c))"

definition RecordOutboundDropped :: "project_id \<Rightarrow> ulid \<Rightarrow> drop_reason option \<Rightarrow> tel_repo \<Rightarrow> tel_repo" where
  "RecordOutboundDropped p i reason R =
     (let c = getOrCreate p i R;
          c = c\<lparr>tc_OutboundDropped := i64 (tc_OutboundDropped c + 1)\<rparr>;
          c = (case reason of None \<Rightarrow> c
               | Some r \<Rightarrow> let n = (case tc_DroppedByReason c r of None \<Rightarrow> 0 | Some n \<Rightarrow> n)
                           in c\<lparr>tc_DroppedByReason := (tc_DroppedByReason c)(r \<mapsto> i64 (n + 1))\<rparr>)
      in R(tel_key p i \<mapsto> c))"

definition RecordInboundRejected :: "project_id \<Rightarrow> ulid \<Rightarrow> tel_repo \<Rightarrow> tel_repo" where
  "RecordInboundRejected p i R =
     (let c = getOrCreate p i R
      in R(tel_key p i \<mapsto> c\<lparr>tc_InboundRejected := i64 (tc_InboundRejected c + 1)\<rparr>))"

definition GetCounter :: "project_id \<Rightarrow> ulid \<Rightarrow> tel_repo \<Rightarrow> tel_counter" where
  "GetCounter p i R = (case R (tel_key p i) of None \<Rightarrow> NewCounter p i | Some c \<Rightarrow> c)"

definition GetAllForInstance :: "(tel_counter set \<Rightarrow> tel_counter list) \<Rightarrow> ulid \<Rightarrow> tel_repo \<Rightarrow> tel_counter list" where
  "GetAllForInstance enum i R = List.filter (\<lambda>c. tc_InstanceID c = i) (enum (ran R))"

definition reset_counter :: "tel_counter \<Rightarrow> tel_counter" where
  "reset_counter c = c\<lparr>tc_InboundCount := 0, tc_OutboundCount := 0, tc_InboundRejected := 0, tc_OutboundDropped := 0,
     tc_DroppedByReason := Map.empty, tc_BandwidthInbound := 0, tc_BandwidthOutbound := 0\<rparr>"

definition ResetForProject :: "project_id \<Rightarrow> tel_repo \<Rightarrow> tel_repo" where
  "ResetForProject p R = (\<lambda>k. map_option (\<lambda>c. if tc_ProjectID c = p then reset_counter c else c) (R k))"

definition ResetForInstance :: "ulid \<Rightarrow> tel_repo \<Rightarrow> tel_repo" where
  "ResetForInstance i R = (\<lambda>k. case R k of None \<Rightarrow> None | Some c \<Rightarrow> if tc_InstanceID c = i then None else Some c)"

section \<open>The service\<close>

definition Record :: "ulid \<Rightarrow> tel_event option \<Rightarrow> tel_repo \<Rightarrow> tel_repo" where
  "Record self evt R =
     (case evt of None \<Rightarrow> R
      | Some e \<Rightarrow>
          let i = (if te_InstanceID e = [] then self else te_InstanceID e); p = te_ProjectID e
          in case te_Data e of
               InboundAccepted _ _ _ bytes _ \<Rightarrow> RecordInbound p i bytes R
             | OutboundDelivered _ bytes \<Rightarrow> RecordOutboundDelivered p i bytes R
             | OutboundDropped _ _ reason _ \<Rightarrow> RecordOutboundDropped p i reason R
             | InboundRejected _ _ \<Rightarrow> RecordInboundRejected p i R
             | OutboundQueued _ _ _ \<Rightarrow> R
             | OutboundFailed _ _ \<Rightarrow> R)"

record snapshot =
  sn_ProjectID :: project_id
  sn_InstanceID :: ulid
  sn_InboundCount :: int
  sn_OutboundCount :: int
  sn_OutboundDropped :: int
  sn_BandwidthInbound :: int
  sn_BandwidthOutbound :: int

definition snapshot_of :: "tel_counter \<Rightarrow> snapshot" where
  "snapshot_of c = \<lparr>sn_ProjectID = tc_ProjectID c, sn_InstanceID = tc_InstanceID c, sn_InboundCount = tc_InboundCount c,
     sn_OutboundCount = tc_OutboundCount c, sn_OutboundDropped = tc_OutboundDropped c,
     sn_BandwidthInbound = tc_BandwidthInbound c, sn_BandwidthOutbound = tc_BandwidthOutbound c\<rparr>"

definition GetSnapshots :: "(tel_counter set \<Rightarrow> tel_counter list) \<Rightarrow> ulid \<Rightarrow> tel_repo \<Rightarrow> snapshot list" where
  "GetSnapshots enum i R = List.map snapshot_of (GetAllForInstance enum i R)"

section \<open>Counters are the tallies of the recorded events\<close>

lemma i64_add [simp]: "i64 (i64 a + b) = i64 (a + b)"
  by (metis i64_def signed_take_bit_add signed_take_bit_signed_take_bit min.idem)

lemma dec_nat_inj: "dec_nat m = dec_nat n \<Longrightarrow> m = n"
  by (metis parse_dec_nat option.inject)

lemma dec_nat_not_minus: "dec_nat n \<noteq> CHR ''-'' # xs"
proof
  assume "dec_nat n = CHR ''-'' # xs"
  then have "CHR ''-'' \<in> set (dec_nat n)" by simp
  then show False using dec_nat_no_sign(1) by blast
qed

lemma show_int_neg: "a < 0 \<Longrightarrow> show_int a = CHR ''-'' # dec_nat (nat (- a))"
  and show_int_pos: "\<not> a < 0 \<Longrightarrow> show_int a = dec_nat (nat a)"
  by (simp_all add: show_int_def)

lemma show_int_inj: "show_int a = show_int b \<Longrightarrow> a = b"
proof -
  assume e: "show_int a = show_int b"
  show ?thesis
  proof (cases "a < 0")
    case True
    have "b < 0"
    proof (rule ccontr)
      assume "\<not> b < 0"
      then show False using e [symmetric] True dec_nat_not_minus [of "nat b"] by (simp add: show_int_neg show_int_pos)
    qed
    then have "nat (- a) = nat (- b)" using e True dec_nat_inj by (simp add: show_int_neg)
    then show ?thesis using True \<open>b < 0\<close> by simp
  next
    case False
    have "\<not> b < 0"
    proof
      assume "b < 0"
      then show False using e False dec_nat_not_minus [of "nat a"] by (simp add: show_int_neg show_int_pos)
    qed
    then have "nat a = nat b" using e False dec_nat_inj by (simp add: show_int_pos)
    then show ?thesis using False \<open>\<not> b < 0\<close> by simp
  qed
qed

lemma tel_key_inj [simp]: "tel_key p i = tel_key q j \<longleftrightarrow> p = q \<and> i = j"
proof
  have "digit_val CHR '':'' = None" by (simp add: digit_val_def)
  then have "d < 10 \<Longrightarrow> CHR '':'' \<noteq> digit_char d" for d using digit_val_char [of d] by auto
  then have "CHR '':'' \<notin> set (show_int x)" for x by (auto simp: show_int_def dest!: dec_nat_set)
  then have s: "split_at CHR '':'' (tel_key p i) = Some (show_int p, i)" for p i
    by (simp add: tel_key_def)
  assume "tel_key p i = tel_key q j"
  then have "show_int p = show_int q \<and> i = j" using s by (metis option.inject prod.inject)
  then show "p = q \<and> i = j" using show_int_inj by simp
qed simp

text \<open>What one event adds to the counter of a project and an instance.\<close>

definition meant_for :: "ulid \<Rightarrow> project_id \<Rightarrow> ulid \<Rightarrow> tel_event \<Rightarrow> bool" where
  "meant_for self p i e \<longleftrightarrow> te_ProjectID e = p \<and> (if te_InstanceID e = [] then self else te_InstanceID e) = i"

definition size_of :: "tel_data \<Rightarrow> int" where
  "size_of d = max 0 (case d of InboundAccepted _ _ _ n _ \<Rightarrow> n | OutboundDelivered _ n \<Rightarrow> n | _ \<Rightarrow> 0)"

definition drop_for :: "drop_reason \<Rightarrow> tel_data \<Rightarrow> bool" where
  "drop_for r d \<longleftrightarrow> (case d of OutboundDropped _ _ reason _ \<Rightarrow> reason = Some r | _ \<Rightarrow> False)"

definition rejected :: "tel_data \<Rightarrow> bool" where
  "rejected d \<longleftrightarrow> IsInbound d \<and> \<not> CountsTowardInbound d"

definition tally :: "(tel_data \<Rightarrow> bool) \<Rightarrow> (tel_data \<Rightarrow> int) \<Rightarrow> tel_data list \<Rightarrow> int" where
  "tally P f ds = sum_list (List.map f (List.filter P ds))"

lemma tally_simps [simp]:
  "tally P f [] = 0" "tally P f (ds @ [d]) = tally P f ds + (if P d then f d else 0)"
  by (simp_all add: tally_def)

definition tallied :: "tel_counter \<Rightarrow> tel_data list \<Rightarrow> bool" where
  "tallied c ds \<longleftrightarrow>
     tc_InboundCount c = i64 (tally CountsTowardInbound (\<lambda>_. 1) ds) \<and>
     tc_InboundRejected c = i64 (tally rejected (\<lambda>_. 1) ds) \<and>
     tc_OutboundCount c = i64 (tally CountsTowardOutbound (\<lambda>_. 1) ds) \<and>
     tc_OutboundDropped c = i64 (tally CountsTowardDropped (\<lambda>_. 1) ds) \<and>
     (\<forall>r. (case tc_DroppedByReason c r of None \<Rightarrow> 0 | Some n \<Rightarrow> n) = i64 (tally (drop_for r) (\<lambda>_. 1) ds)) \<and>
     tc_BandwidthInbound c = i64 (tally CountsTowardInbound size_of ds) \<and>
     tc_BandwidthOutbound c = i64 (tally CountsTowardOutbound size_of ds)"

lemma GetCounter_upd: "GetCounter p i (R(tel_key q j \<mapsto> c)) = (if p = q \<and> i = j then c else GetCounter p i R)"
  by (auto simp: GetCounter_def)

lemma getOrCreate_GetCounter: "getOrCreate p i R = GetCounter p i R"
  by (simp add: getOrCreate_def GetCounter_def split: option.split)

lemmas tel_defs = RecordInbound_def RecordOutboundDelivered_def RecordOutboundDropped_def RecordInboundRejected_def
  getOrCreate_GetCounter GetCounter_upd Let_def

lemma GetCounter_Record_other: "\<not> meant_for self p i e \<Longrightarrow> GetCounter p i (Record self (Some e) R) = GetCounter p i R"
  by (cases "te_Data e") (auto simp: Record_def meant_for_def tel_defs)

lemma GetCounter_Record_tallied:
  assumes "meant_for self p i e" "tallied (GetCounter p i R) ds"
  shows "tallied (GetCounter p i (Record self (Some e) R)) (ds @ [te_Data e])"
  using assms(2)
  by (cases "te_Data e"; use assms(1) in \<open>simp add: Record_def meant_for_def tallied_def tel_defs CountsTowardInbound_def
      CountsTowardOutbound_def CountsTowardDropped_def rejected_def IsInbound_def drop_for_def size_of_def max_def\<close>)
    (auto simp: tallied_def drop_for_def split: option.splits)

lemma tallied_empty: "tallied (NewCounter p i) []"
  by (simp add: tallied_def NewCounter_def in64_def)

text \<open>C18. Whatever events the runtime records, in whatever order and interleaved over projects and
  instances, the counter of a project on an instance is the tally of the events meant for it, read as
  64-bit numbers: accepted and rejected publishes, deliveries, drops in total and per reason, and the
  bytes in and out, of which a negative size adds nothing.\<close>

theorem telemetry_counts_events:
  "tallied (GetCounter p i (fold (\<lambda>e. Record self (Some e)) evs Map.empty))
     (List.map te_Data (List.filter (meant_for self p i) evs))"
proof (induction evs rule: rev_induct)
  case Nil
  then show ?case by (simp add: GetCounter_def tallied_empty)
next
  case (snoc e evs)
  then show ?case
    by (cases "meant_for self p i e") (simp_all add: GetCounter_Record_tallied GetCounter_Record_other)
qed

end
