(* ===== verification/Channels.thy ===== *)
theory Channels
  imports Names
begin

text \<open>
  \<open>internal/domain/messaging/channel/model.go\<close> and
  \<open>internal/infrastructure/repository/messaging/channel/repository.go\<close>: channels and the in-memory map
  from full names to channels.  The services read a channel, change it and store it again within one
  call, so that the map holds values here: a changed channel is visible to others once \<open>Update\<close> has
  stored it.
\<close>

record channel =
  ch_ID :: ulid
  ch_Name :: name
  ch_InstanceID :: ulid
  ch_LocalSubscriptions :: int
  ch_IsActive :: bool
  ch_CreatedAt :: time
  ch_LastActivity :: time

definition New_channel :: "ulid \<Rightarrow> time \<Rightarrow> name \<Rightarrow> ulid \<Rightarrow> channel" where
  "New_channel newID now n instanceID =
     \<lparr>ch_ID = newID, ch_Name = n, ch_InstanceID = instanceID, ch_LocalSubscriptions = 0, ch_IsActive = False,
      ch_CreatedAt = now, ch_LastActivity = now\<rparr>"

definition RawName :: "channel \<Rightarrow> string" where
  "RawName c = name_raw (ch_Name c)"

definition FullName :: "channel \<Rightarrow> string" where
  "FullName c = Full (ch_Name c)"

definition UpdateActivity_ch :: "time \<Rightarrow> channel \<Rightarrow> channel" where
  "UpdateActivity_ch now c = c\<lparr>ch_LastActivity := now\<rparr>"

definition HasLocalSubscribers :: "channel \<Rightarrow> bool" where
  "HasLocalSubscribers c \<longleftrightarrow> ch_LocalSubscriptions c > 0"

definition IncrementLocalSubscriptions :: "time \<Rightarrow> channel \<Rightarrow> channel" where
  "IncrementLocalSubscriptions now c =
     UpdateActivity_ch now (c\<lparr>ch_LocalSubscriptions := i64 (ch_LocalSubscriptions c + 1)\<rparr>)"

definition DecrementLocalSubscriptions :: "time \<Rightarrow> channel \<Rightarrow> channel" where
  "DecrementLocalSubscriptions now c =
     (if HasLocalSubscribers c
      then UpdateActivity_ch now (c\<lparr>ch_LocalSubscriptions := i64 (ch_LocalSubscriptions c - 1)\<rparr>) else c)"

definition SetActive :: "time \<Rightarrow> bool \<Rightarrow> channel \<Rightarrow> channel" where
  "SetActive now active c = UpdateActivity_ch now (c\<lparr>ch_IsActive := active\<rparr>)"

section \<open>The repository\<close>

type_synonym chan_repo = "string \<Rightarrow> channel option"

datatype chan_error = ChanNotFound | ChanAlreadyExists

definition Create_ch :: "channel \<Rightarrow> chan_repo \<Rightarrow> (chan_error + unit) \<times> chan_repo" where
  "Create_ch c R = (if R (FullName c) \<noteq> None then (Inl ChanAlreadyExists, R) else (Inr (), R(FullName c \<mapsto> c)))"

definition Update_ch :: "channel \<Rightarrow> chan_repo \<Rightarrow> (chan_error + unit) \<times> chan_repo" where
  "Update_ch c R = (if R (FullName c) = None then (Inl ChanNotFound, R) else (Inr (), R(FullName c \<mapsto> c)))"

definition Delete_ch :: "channel \<Rightarrow> chan_repo \<Rightarrow> (chan_error + unit) \<times> chan_repo" where
  "Delete_ch c R = (if R (FullName c) = None then (Inl ChanNotFound, R) else (Inr (), R(FullName c := None)))"

definition FindByName_ch :: "string \<Rightarrow> chan_repo \<Rightarrow> chan_error + channel" where
  "FindByName_ch fullName R = (case R fullName of None \<Rightarrow> Inl ChanNotFound | Some c \<Rightarrow> Inr c)"

definition FindAllLocal :: "(channel set \<Rightarrow> channel list) \<Rightarrow> chan_repo \<Rightarrow> channel list" where
  "FindAllLocal enum R = enum (ran R)"

section \<open>Facts\<close>

lemma channel_names [simp]:
  "ch_Name (UpdateActivity_ch now c) = ch_Name c" "ch_Name (IncrementLocalSubscriptions now c) = ch_Name c"
  "ch_Name (DecrementLocalSubscriptions now c) = ch_Name c" "ch_Name (SetActive now a c) = ch_Name c"
  "ch_Name (New_channel i now n inst) = n"
  by (simp_all add: UpdateActivity_ch_def IncrementLocalSubscriptions_def DecrementLocalSubscriptions_def
      SetActive_def New_channel_def)

lemma channel_full_names [simp]:
  "FullName (UpdateActivity_ch now c) = FullName c" "FullName (IncrementLocalSubscriptions now c) = FullName c"
  "FullName (DecrementLocalSubscriptions now c) = FullName c" "FullName (SetActive now a c) = FullName c"
  "FullName (New_channel i now n inst) = Full n"
  by (simp_all add: FullName_def)

lemma channel_counts [simp]:
  "ch_LocalSubscriptions (UpdateActivity_ch now c) = ch_LocalSubscriptions c"
  "ch_LocalSubscriptions (SetActive now a c) = ch_LocalSubscriptions c"
  "ch_LocalSubscriptions (New_channel i now n inst) = 0"
  by (simp_all add: UpdateActivity_ch_def SetActive_def New_channel_def)

text \<open>Every stored channel is filed under its own full name, and its counter is a 64-bit number.\<close>

definition chan_inv :: "chan_repo \<Rightarrow> bool" where
  "chan_inv R \<longleftrightarrow> (\<forall>n c. R n = Some c \<longrightarrow> FullName c = n \<and> in64 (ch_LocalSubscriptions c))"

lemma chan_inv_empty [simp]: "chan_inv Map.empty"
  by (simp add: chan_inv_def)

lemma chan_inv_upd: "chan_inv R \<Longrightarrow> in64 (ch_LocalSubscriptions c) \<Longrightarrow> FullName c = n \<Longrightarrow> chan_inv (R(n \<mapsto> c))"
  by (simp add: chan_inv_def)

lemma chan_inv_del: "chan_inv R \<Longrightarrow> chan_inv (R(n := None))"
  by (simp add: chan_inv_def)

lemma decrement_bounds:
  "0 \<le> ch_LocalSubscriptions c \<Longrightarrow> in64 (ch_LocalSubscriptions c) \<Longrightarrow>
   ch_LocalSubscriptions (DecrementLocalSubscriptions now c) = max 0 (ch_LocalSubscriptions c - 1)"
proof -
  assume a: "0 \<le> ch_LocalSubscriptions c" "in64 (ch_LocalSubscriptions c)"
  show ?thesis
  proof (cases "HasLocalSubscribers c")
    case True
    then have "in64 (ch_LocalSubscriptions c - 1)" using a by (simp add: HasLocalSubscribers_def in64_def)
    then show ?thesis using True a by (simp add: DecrementLocalSubscriptions_def HasLocalSubscribers_def)
  next
    case False
    then show ?thesis using a by (simp add: DecrementLocalSubscriptions_def HasLocalSubscribers_def)
  qed
qed

lemma in64_counts [simp]:
  "in64 (ch_LocalSubscriptions (IncrementLocalSubscriptions now c))"
  "in64 (ch_LocalSubscriptions c) \<Longrightarrow> in64 (ch_LocalSubscriptions (DecrementLocalSubscriptions now c))"
  by (simp_all add: IncrementLocalSubscriptions_def DecrementLocalSubscriptions_def)

lemma increment_bounds:
  "0 \<le> ch_LocalSubscriptions c \<Longrightarrow> ch_LocalSubscriptions c < 2 ^ 63 - 1 \<Longrightarrow>
   ch_LocalSubscriptions (IncrementLocalSubscriptions now c) = ch_LocalSubscriptions c + 1"
  by (simp add: IncrementLocalSubscriptions_def in64_def)

end
