(* ===== verification/Clients.thy ===== *)
theory Clients
  imports Prelude "HOL-Library.List_Lexorder"
begin

text \<open>
  \<open>internal/domain/messaging/client/model.go\<close> and
  \<open>internal/infrastructure/repository/messaging/client/repository.go\<close>: clients and the five maps that
  index them.  Clients are objects behind pointers (\<open>client_ref\<close>); a client whose own field was
  changed through the pointer is the same object in every map, so that \<open>Update\<close>, called with the very
  pointer it finds, compares the client with itself.
\<close>

type_synonym client_ref = nat

datatype client_state = ClientConnecting | ClientConnected | ClientDisconnected

record client =
  cl_ID :: ulid
  cl_ConnectionID :: ulid
  cl_ProjectID :: project_id
  cl_APIKeyID :: int
  cl_Alias :: "string option"
  cl_Permission :: "string option"
  cl_State :: client_state
  cl_Authenticated :: bool
  cl_CreatedAt :: time
  cl_LastActiveAt :: time
  cl_SubscriptionID :: "ulid option"

definition New_client :: "ulid \<Rightarrow> time \<Rightarrow> ulid \<Rightarrow> project_id \<Rightarrow> int \<Rightarrow> string option \<Rightarrow> string option \<Rightarrow> client" where
  "New_client newID now connID projID apiKeyID alias permission =
     \<lparr>cl_ID = newID, cl_ConnectionID = connID, cl_ProjectID = projID, cl_APIKeyID = apiKeyID, cl_Alias = alias,
      cl_Permission = permission, cl_State = ClientConnecting, cl_Authenticated = False, cl_CreatedAt = now,
      cl_LastActiveAt = now, cl_SubscriptionID = None\<rparr>"

definition SetState_client :: "time \<Rightarrow> client_state \<Rightarrow> client \<Rightarrow> client" where
  "SetState_client now st c = c\<lparr>cl_State := st, cl_LastActiveAt := now\<rparr>"

definition IsConnected_client :: "client \<Rightarrow> bool" where
  "IsConnected_client c \<longleftrightarrow> cl_State c = ClientConnected"

definition UpdateActivity_client :: "time \<Rightarrow> client \<Rightarrow> client" where
  "UpdateActivity_client now c = c\<lparr>cl_LastActiveAt := now\<rparr>"

definition SetSubscriptionID :: "ulid \<Rightarrow> client \<Rightarrow> client" where
  "SetSubscriptionID subID c = c\<lparr>cl_SubscriptionID := Some subID\<rparr>"

section \<open>The repository\<close>

record client_repo =
  clientsByID :: "ulid \<Rightarrow> client_ref option"
  clientsByConnectionID :: "ulid \<Rightarrow> client_ref option"
  clientsBySubscriptionID :: "ulid \<Rightarrow> client_ref option"
  clientsByAlias :: "string \<Rightarrow> (project_id \<Rightarrow> client_ref option) option"
  clientsByProjectID :: "project_id \<Rightarrow> (ulid \<Rightarrow> client_ref option) option"

type_synonym client_heap = "client_ref \<Rightarrow> client"

datatype client_error = ClientNotFound | ClientAlreadyExists | ClientDisconnectedErr

text \<open>Entries of the two nested maps.\<close>

definition put2 :: "'a \<Rightarrow> 'b \<Rightarrow> 'c \<Rightarrow> ('a \<Rightarrow> ('b \<Rightarrow> 'c option) option) \<Rightarrow> ('a \<Rightarrow> ('b \<Rightarrow> 'c option) option)" where
  "put2 a b x m = m(a \<mapsto> (case m a of None \<Rightarrow> Map.empty | Some i \<Rightarrow> i)(b \<mapsto> x))"

definition del2 :: "'a \<Rightarrow> 'b \<Rightarrow> ('a \<Rightarrow> ('b \<Rightarrow> 'c option) option) \<Rightarrow> ('a \<Rightarrow> ('b \<Rightarrow> 'c option) option)" where
  "del2 a b m = (case m a of None \<Rightarrow> m
     | Some i \<Rightarrow> if dom i - {b} = {} then m(a := None) else m(a \<mapsto> i(b := None)))"

definition get2 :: "'a \<Rightarrow> 'b \<Rightarrow> ('a \<Rightarrow> ('b \<Rightarrow> 'c option) option) \<Rightarrow> 'c option" where
  "get2 a b m = (case m a of None \<Rightarrow> None | Some i \<Rightarrow> i b)"

lemma get2_put2 [simp]: "get2 a b (put2 a' b' x m) = (if a = a' \<and> b = b' then Some x else get2 a b m)"
  by (auto simp: get2_def put2_def split: option.splits)

lemma get2_del2 [simp]: "get2 a b (del2 a' b' m) = (if a = a' \<and> b = b' then None else get2 a b m)"
proof (cases "m a'")
  case None
  then show ?thesis by (auto simp: get2_def del2_def)
next
  case (Some i)
  have "i b = None" if "dom i - {b'} = {}" "b \<noteq> b'" using that by blast
  then show ?thesis using Some by (auto simp: get2_def del2_def split: option.splits)
qed

definition Create_client :: "client_ref option \<Rightarrow> client_heap \<Rightarrow> client_repo \<Rightarrow> (client_error + unit) \<times> client_repo" where
  "Create_client c h R =
     (case c of None \<Rightarrow> (Inl ClientNotFound, R)
      | Some r \<Rightarrow>
          let cl = h r
          in if clientsByID R (cl_ID cl) \<noteq> None then (Inl ClientAlreadyExists, R)
             else let R = R\<lparr>clientsByID := (clientsByID R)(cl_ID cl \<mapsto> r),
                            clientsByConnectionID := (clientsByConnectionID R)(cl_ConnectionID cl \<mapsto> r),
                            clientsByProjectID := put2 (cl_ProjectID cl) (cl_ID cl) r (clientsByProjectID R)\<rparr>;
                      R = (case cl_SubscriptionID cl of None \<Rightarrow> R
                           | Some i \<Rightarrow> R\<lparr>clientsBySubscriptionID := (clientsBySubscriptionID R)(i \<mapsto> r)\<rparr>);
                      R = (case cl_Alias cl of None \<Rightarrow> R
                           | Some a \<Rightarrow> R\<lparr>clientsByAlias := put2 a (cl_ProjectID cl) r (clientsByAlias R)\<rparr>)
                  in (Inr (), R))"

text \<open>\<open>Update\<close> with a pointer whose object may differ from the stored one.\<close>

definition Update_client :: "client_ref option \<Rightarrow> client_heap \<Rightarrow> client_repo \<Rightarrow> (client_error + unit) \<times> client_repo" where
  "Update_client c h R =
     (case c of None \<Rightarrow> (Inl ClientNotFound, R)
      | Some r \<Rightarrow>
          (case clientsByID R (cl_ID (h r)) of None \<Rightarrow> (Inl ClientNotFound, R)
           | Some e \<Rightarrow>
               let old = h e; new = h r;
                   R = (if cl_ConnectionID old \<noteq> cl_ConnectionID new
                        then R\<lparr>clientsByConnectionID :=
                               ((clientsByConnectionID R)(cl_ConnectionID old := None))(cl_ConnectionID new \<mapsto> r)\<rparr>
                        else R);
                   R = (case cl_SubscriptionID old of None \<Rightarrow> R
                        | Some i \<Rightarrow> if cl_SubscriptionID new \<noteq> Some i
                                    then R\<lparr>clientsBySubscriptionID := (clientsBySubscriptionID R)(i := None)\<rparr> else R);
                   R = (case cl_SubscriptionID new of None \<Rightarrow> R
                        | Some i \<Rightarrow> R\<lparr>clientsBySubscriptionID := (clientsBySubscriptionID R)(i \<mapsto> r)\<rparr>);
                   R = (case cl_Alias old of None \<Rightarrow> R
                        | Some a \<Rightarrow> if cl_Alias new \<noteq> Some a
                                    then R\<lparr>clientsByAlias := del2 a (cl_ProjectID old) (clientsByAlias R)\<rparr> else R);
                   R = (case cl_Alias new of None \<Rightarrow> R
                        | Some a \<Rightarrow> R\<lparr>clientsByAlias := put2 a (cl_ProjectID new) r (clientsByAlias R)\<rparr>)
               in (Inr (), R\<lparr>clientsByID := (clientsByID R)(cl_ID new \<mapsto> r)\<rparr>)))"

text \<open>The removals shared by \<open>Delete\<close> and the clean-up.\<close>

definition drop_client :: "client \<Rightarrow> client_repo \<Rightarrow> client_repo" where
  "drop_client cl R =
     (let R = R\<lparr>clientsByID := (clientsByID R)(cl_ID cl := None),
                clientsByConnectionID := (clientsByConnectionID R)(cl_ConnectionID cl := None),
                clientsByProjectID := del2 (cl_ProjectID cl) (cl_ID cl) (clientsByProjectID R)\<rparr>;
          R = (case cl_SubscriptionID cl of None \<Rightarrow> R
               | Some i \<Rightarrow> R\<lparr>clientsBySubscriptionID := (clientsBySubscriptionID R)(i := None)\<rparr>)
      in case cl_Alias cl of None \<Rightarrow> R
         | Some a \<Rightarrow> R\<lparr>clientsByAlias := del2 a (cl_ProjectID cl) (clientsByAlias R)\<rparr>)"

definition Delete_client :: "client_ref option \<Rightarrow> client_heap \<Rightarrow> client_repo \<Rightarrow> (client_error + unit) \<times> client_repo" where
  "Delete_client c h R =
     (case c of None \<Rightarrow> (Inl ClientNotFound, R)
      | Some r \<Rightarrow> if clientsByID R (cl_ID (h r)) = None then (Inl ClientNotFound, R)
                  else (Inr (), drop_client (h r) R))"

definition found :: "client_ref option \<Rightarrow> client_error + client_ref" where
  "found r = (case r of None \<Rightarrow> Inl ClientNotFound | Some r \<Rightarrow> Inr r)"

definition FindByID_client :: "ulid \<Rightarrow> client_repo \<Rightarrow> client_error + client_ref" where
  "FindByID_client i R = found (clientsByID R i)"

definition FindByConnectionID :: "ulid \<Rightarrow> client_repo \<Rightarrow> client_error + client_ref" where
  "FindByConnectionID connID R = found (clientsByConnectionID R connID)"

definition FindBySubscriptionID :: "ulid \<Rightarrow> client_repo \<Rightarrow> client_error + client_ref" where
  "FindBySubscriptionID subID R = found (clientsBySubscriptionID R subID)"

definition FindByAlias :: "string \<Rightarrow> project_id \<Rightarrow> client_repo \<Rightarrow> client_error + client_ref" where
  "FindByAlias alias projID R = found (get2 alias projID (clientsByAlias R))"

definition FindAllByProjectID_client :: "(client_ref set \<Rightarrow> client_ref list) \<Rightarrow> project_id \<Rightarrow> client_repo \<Rightarrow> client_ref list" where
  "FindAllByProjectID_client enum projID R =
     (case clientsByProjectID R projID of None \<Rightarrow> [] | Some m \<Rightarrow> enum (ran m))"

definition disconnectedTimeout :: time where
  "disconnectedTimeout = 30 * 60 * 1000000000"

definition expired_client :: "time \<Rightarrow> client \<Rightarrow> bool" where
  "expired_client now c \<longleftrightarrow> cl_State c = ClientDisconnected \<and> now - cl_LastActiveAt c > disconnectedTimeout"

fun clean_clients :: "client_ref list \<Rightarrow> client_heap \<Rightarrow> client_repo \<Rightarrow> nat \<Rightarrow> client_repo \<times> nat" where
  "clean_clients [] h R n = (R, n)"
| "clean_clients (r # rs) h R n = clean_clients rs h (drop_client (h r) R) (n + 1)"

definition CleanDisconnectedClients :: "time \<Rightarrow> client_ref list \<Rightarrow> client_heap \<Rightarrow> client_repo \<Rightarrow> client_repo \<times> nat" where
  "CleanDisconnectedClients now all h R = clean_clients (List.filter (\<lambda>r. expired_client now (h r)) all) h R 0"

end
