(* ===== verification/EventBus.thy ===== *)
theory EventBus
  imports Prelude
begin

text \<open>
  \<open>internal/domain/messaging/event\<close> and the event bus of
  \<open>internal/application/service/messaging/event/service.go\<close>.  A handler is a value of a type of the
  caller's choice and \<open>run\<close> says what calling it does to the state of the program: it succeeds, returns
  an error, or panics, which the bus recovers from.  The order in which the handlers of one event are
  visited is an argument (\<open>enum\<close>).  \<open>Publish\<close> starts a goroutine, so the event is put on the list of
  events still to be handled; \<open>PublishSync\<close> runs the handlers before it returns.
\<close>

section \<open>Events\<close>

datatype event_type = EventConnectionRegistered | EventConnectionUnregistered | EventClientConnected
  | EventClientDisconnected | EventChannelCreated | EventChannelSubscribed | EventChannelUnsubscribed
  | EventChannelEmpty | EventChannelDeleted | EventSubscriptionCreated | EventSubscriptionClosed

datatype event_data =
    ConnectionRegisteredData ulid project_id string string
  | ConnectionUnregisteredData ulid project_id
  | ClientConnectedData ulid ulid project_id int "string option"
  | ClientDisconnectedData ulid ulid project_id "ulid option"
  | ChannelCreatedData ulid string project_id ulid
  | ChannelSubscribedData string project_id ulid ulid
  | ChannelUnsubscribedData string project_id ulid ulid
  | ChannelEmptyData string project_id ulid
  | ChannelDeletedData string project_id ulid
  | SubscriptionCreatedData ulid ulid project_id
  | SubscriptionClosedData ulid ulid project_id int

record mevent =
  ev_Type :: event_type
  ev_Data :: event_data

definition NewEvent :: "event_type \<Rightarrow> event_data \<Rightarrow> mevent" where
  "NewEvent t d = \<lparr>ev_Type = t, ev_Data = d\<rparr>"

section \<open>The bus\<close>

record 'h registration =
  reg_ID :: string
  reg_Handler :: 'h
  reg_Description :: string

record 'h bus =
  bus_handlers :: "event_type \<Rightarrow> (string \<Rightarrow> 'h registration option) option"
  bus_closed :: bool

definition empty_bus :: "'h bus" where
  "empty_bus = \<lparr>bus_handlers = Map.empty, bus_closed = False\<rparr>"

datatype bus_error = BusClosed | HandlerRegistered | NoHandlers | HandlerNotFound | HandlingErrors nat

definition SubscribeWithDescription :: "event_type \<Rightarrow> string \<Rightarrow> 'h \<Rightarrow> string \<Rightarrow> 'h bus \<Rightarrow> (bus_error + unit) \<times> 'h bus" where
  "SubscribeWithDescription t hid h desc b =
     (if bus_closed b then (Inl BusClosed, b)
      else let m = (case bus_handlers b t of None \<Rightarrow> Map.empty | Some m \<Rightarrow> m);
               b = b\<lparr>bus_handlers := (bus_handlers b)(t \<mapsto> m)\<rparr>
           in if m hid \<noteq> None then (Inl HandlerRegistered, b)
              else (Inr (), b\<lparr>bus_handlers := (bus_handlers b)(t \<mapsto> m(hid \<mapsto>
                     \<lparr>reg_ID = hid, reg_Handler = h, reg_Description = desc\<rparr>))\<rparr>))"

definition Subscribe_bus :: "event_type \<Rightarrow> string \<Rightarrow> 'h \<Rightarrow> 'h bus \<Rightarrow> (bus_error + unit) \<times> 'h bus" where
  "Subscribe_bus t hid h b = SubscribeWithDescription t hid h [] b"

definition Unsubscribe_bus :: "event_type \<Rightarrow> string \<Rightarrow> 'h bus \<Rightarrow> (bus_error + unit) \<times> 'h bus" where
  "Unsubscribe_bus t hid b =
     (if bus_closed b then (Inl BusClosed, b)
      else case bus_handlers b t of
             None \<Rightarrow> (Inl NoHandlers, b)
           | Some m \<Rightarrow>
               if m hid = None then (Inl HandlerNotFound, b)
               else (Inr (), b\<lparr>bus_handlers := (bus_handlers b)(t :=
                       (if dom m - {hid} = {} then None else Some (m(hid := None))))\<rparr>))"

type_synonym 'h bus_order = "'h registration set \<Rightarrow> 'h registration list"

definition GetHandlers :: "'h bus_order \<Rightarrow> event_type \<Rightarrow> 'h bus \<Rightarrow> 'h registration list" where
  "GetHandlers enum t b = (case bus_handlers b t of None \<Rightarrow> [] | Some m \<Rightarrow> enum (ran m))"

definition GetAllHandlers :: "'h bus_order \<Rightarrow> 'h bus \<Rightarrow> event_type \<Rightarrow> 'h registration list option" where
  "GetAllHandlers enum b t = (case bus_handlers b t of None \<Rightarrow> None | Some m \<Rightarrow> Some (enum (ran m)))"

definition Close_bus :: "'h bus \<Rightarrow> (bus_error + unit) \<times> 'h bus" where
  "Close_bus b = (if bus_closed b then (Inr (), b) else (Inr (), \<lparr>bus_handlers = Map.empty, bus_closed = True\<rparr>))"

datatype outcome = Handled | Failed | Panicked

fun publish_loop :: "('h \<Rightarrow> mevent \<Rightarrow> 's \<Rightarrow> outcome \<times> 's) \<Rightarrow> mevent \<Rightarrow> 'h registration list \<Rightarrow> nat \<Rightarrow> 's \<Rightarrow> nat \<times> 's" where
  "publish_loop run evt [] n s = (n, s)"
| "publish_loop run evt (r # rs) n s =
     (case run (reg_Handler r) evt s of
        (Handled, s) \<Rightarrow> publish_loop run evt rs n s
      | (Failed, s) \<Rightarrow> publish_loop run evt rs (n + 1) s
      | (Panicked, s) \<Rightarrow> publish_loop run evt rs n s)"

definition publishToHandlers ::
    "('h \<Rightarrow> mevent \<Rightarrow> 's \<Rightarrow> outcome \<times> 's) \<Rightarrow> mevent \<Rightarrow> 'h registration list \<Rightarrow> 's \<Rightarrow> (bus_error + unit) \<times> 's" where
  "publishToHandlers run evt hs s =
     (case publish_loop run evt hs 0 s of (n, s) \<Rightarrow> (if n > 0 then Inl (HandlingErrors n) else Inr (), s))"

definition PublishSync ::
    "'h bus_order \<Rightarrow> ('h \<Rightarrow> mevent \<Rightarrow> 's \<Rightarrow> outcome \<times> 's) \<Rightarrow> mevent \<Rightarrow> 'h bus \<Rightarrow> 's \<Rightarrow> (bus_error + unit) \<times> 's" where
  "PublishSync enum run evt b s =
     (if bus_closed b then (Inl BusClosed, s)
      else let hs = GetHandlers enum (ev_Type evt) b
           in if hs = [] then (Inr (), s) else publishToHandlers run evt hs s)"

text \<open>\<open>Publish\<close> fixes the handlers and leaves the rest to a goroutine.\<close>

definition Publish_bus ::
    "'h bus_order \<Rightarrow> mevent \<Rightarrow> 'h bus \<Rightarrow> (mevent \<times> 'h registration list) list \<Rightarrow>
     (bus_error + unit) \<times> (mevent \<times> 'h registration list) list" where
  "Publish_bus enum evt b pending =
     (if bus_closed b then (Inl BusClosed, pending)
      else let hs = GetHandlers enum (ev_Type evt) b
           in if hs = [] then (Inr (), pending) else (Inr (), pending @ [(evt, hs)]))"

end
