(* ===== verification/MsgWorld.thy ===== *)
theory MsgWorld
  imports ProjectLog Telemetry SubRepo Connections Channels Clients EventBus
begin

text \<open>
  The state of the messaging runtime of one instance and the environment of one call.  The state holds
  what the services keep: the connections, clients, subscriptions and channels with their
  repositories, the outbound pipelines and the session maps, the buffers of the router, the gatekeeper,
  the telemetry counters, the event bus with the events it has not yet handed out, the broker listeners
  and the pending channel clean-ups.  Two logs stand for the outside, what was written to the sockets
  (\<open>m_wire\<close>) and what was published to NATS (\<open>m_nats\<close>); \<open>m_logs\<close> are the project log events handed
  to the broadcaster and not yet published.

  The environment fixes what a call meets: the clock, fresh identifiers, which sockets accept a write,
  how NATS answers, the rate limits a lookup of the tenant yields, the order in which Go visits maps,
  and the text that \<open>encoding/json\<close> makes of a value.  An operation runs without interference from
  another one; what goroutines do is a sequence of such operations.
\<close>

section \<open>State\<close>

record pipeline =
  pp_connID :: ulid
  pp_projectID :: project_id
  pp_queue :: "bytes list"
  pp_capacity :: int
  pp_stopped :: bool
  pp_threshold :: int
  pp_consecutiveDrops :: int

text \<open>The only handlers on the bus are the two of the channel lifecycle manager.\<close>

datatype bus_handler = HandleChannelEmpty | HandleChannelSubscribed

record cleanup_schedule =
  cu_ChannelName :: string
  cu_ProjectID :: project_id
  cu_ScheduledAt :: time

record mworld =
  m_conns :: conn_svc
  m_cheap :: client_heap
  m_clients :: client_repo
  m_heap :: heap
  m_subs :: sub_repo
  m_channels :: chan_repo
  m_listening :: "string set"
  m_pipelines :: "ulid \<Rightarrow> pipeline option"
  m_clientConn :: "ulid \<Rightarrow> ulid option"
  m_subCache :: "ulid \<Rightarrow> ref option"
  m_buffers :: "ulid \<Rightarrow> bqueue option"
  m_gate :: "gatekeeper option"
  m_telemetry :: tel_repo
  m_bus :: "bus_handler bus"
  m_pending :: "(mevent \<times> bus_handler registration list) list"
  m_cleanups :: "string \<Rightarrow> cleanup_schedule option"
  m_apiKeys :: "ulid \<Rightarrow> string option"
  m_pingCounter :: int
  m_nextRef :: nat
  m_wire :: "(ulid \<times> bytes) list"
  m_nats :: "(string \<times> bytes) list"
  m_logs :: "(project_id \<times> log_type \<times> plog_event) list"

datatype nats_state = NoConn | Disconnected | ConnectedTo

record menv =
  me_now :: time
  me_instance :: ulid
  me_chanID :: ulid
  me_subID :: ulid
  me_msgID :: ulid
  me_replyID :: ulid
  me_clientID :: ulid
  me_connID :: ulid
  me_sock :: "ulid \<Rightarrow> bool"
  me_nats :: nats_state
  me_natsSubscribe :: bool
  me_natsUnsubscribe :: bool
  me_natsPublish :: bool
  me_rates :: "project_id \<Rightarrow> tenant_error + rates"
  me_refs :: "ref set \<Rightarrow> ref list"
  me_names :: "string set \<Rightarrow> string list"
  me_clients :: "client_ref set \<Rightarrow> client_ref list"
  me_visits :: "bus_handler bus_order"
  me_json :: "json \<Rightarrow> bytes"
  me_time :: "time \<Rightarrow> string"

section \<open>Environment and socket\<close>

text \<open>What is known of an environment: a map is visited completely and without repetition, and JSON
  text is never empty.\<close>

definition env_ok :: "menv \<Rightarrow> bool" where
  "env_ok env \<longleftrightarrow> enumerates (me_refs env) \<and> enumerates (me_names env) \<and> (\<forall>j. me_json env j \<noteq> [])"

definition send_w :: "menv \<Rightarrow> ulid \<Rightarrow> bytes \<Rightarrow> mworld \<Rightarrow> (conn_error + unit) \<times> mworld" where
  "send_w env connID payload w =
     (case Send_conn (me_sock env) (me_now env) connID payload (m_conns w) of
        (Inl e, c) \<Rightarrow> (Inl e, w\<lparr>m_conns := c\<rparr>)
      | (Inr _, c) \<Rightarrow> (Inr (), w\<lparr>m_conns := c, m_wire := m_wire w @ [(connID, payload)]\<rparr>))"

definition close_w :: "ulid \<Rightarrow> mworld \<Rightarrow> (conn_error + unit) \<times> mworld" where
  "close_w connID w = (case Close_conn connID (m_conns w) of (res, c) \<Rightarrow> (res, w\<lparr>m_conns := c\<rparr>))"

definition record_w :: "menv \<Rightarrow> project_id \<Rightarrow> tel_data \<Rightarrow> mworld \<Rightarrow> mworld" where
  "record_w env p d w =
     w\<lparr>m_telemetry := Record (me_instance env)
         (Some \<lparr>te_ProjectID = p, te_InstanceID = me_instance env, te_Data = d\<rparr>) (m_telemetry w)\<rparr>"

definition emit_w :: "menv \<Rightarrow> event_type \<Rightarrow> event_data \<Rightarrow> mworld \<Rightarrow> mworld" where
  "emit_w env t d w = w\<lparr>m_pending := snd (Publish_bus (me_visits env) (NewEvent t d) (m_bus w) (m_pending w))\<rparr>"

definition conn_error_text :: "conn_error \<Rightarrow> string" where
  "conn_error_text e = (case e of ConnNotFound \<Rightarrow> ''connection not found'' | ConnClosed \<Rightarrow> ''connection closed''
     | SendFailed \<Rightarrow> ''failed to send message'')"

end
