(* ===== verification/Broker.thy ===== *)
theory Broker
  imports MsgWorld
begin

text \<open>
  \<open>internal/infrastructure/repository/messaging/broker/repository.go\<close> and the broker service
  (\<open>internal/application/service/messaging/broker/service.go\<close>) over NATS; the channel service
  (\<open>internal/application/service/messaging/channel/service.go\<close>); and the channel lifecycle manager
  (\<open>channel/lifecycle/manager.go\<close>).  The program registers one handler for every channel (the one of
  the message router), so the two maps of the broker repository are one set of names.
\<close>

section \<open>Broker repository\<close>

datatype broker_error = BrokerUnavailable | NatsFailed | SubscriptionFailed | UnsubscriptionFailed
  | BrokerPublishFailed | ShutdownTimedOut

definition Subscribe_broker :: "menv \<Rightarrow> string \<Rightarrow> mworld \<Rightarrow> (broker_error + unit) \<times> mworld" where
  "Subscribe_broker env ch w =
     (if me_nats env \<noteq> ConnectedTo then (Inl BrokerUnavailable, w)
      else if ch \<in> m_listening w then (Inr (), w)
      else if \<not> me_natsSubscribe env then (Inl NatsFailed, w)
      else (Inr (), w\<lparr>m_listening := insert ch (m_listening w)\<rparr>))"

definition Unsubscribe_broker :: "menv \<Rightarrow> string \<Rightarrow> mworld \<Rightarrow> (broker_error + unit) \<times> mworld" where
  "Unsubscribe_broker env ch w =
     (if me_nats env = NoConn then (Inl BrokerUnavailable, w)
      else if ch \<notin> m_listening w then (Inr (), w)
      else if \<not> me_natsUnsubscribe env then (Inl NatsFailed, w)
      else (Inr (), w\<lparr>m_listening := m_listening w - {ch}\<rparr>))"

definition Publish_broker :: "menv \<Rightarrow> string \<Rightarrow> bytes \<Rightarrow> mworld \<Rightarrow> (broker_error + unit) \<times> mworld" where
  "Publish_broker env ch msg w =
     (if me_nats env \<noteq> ConnectedTo then (Inl BrokerUnavailable, w)
      else if \<not> me_natsPublish env then (Inl NatsFailed, w)
      else (Inr (), w\<lparr>m_nats := m_nats w @ [(ch, msg)]\<rparr>))"

text \<open>\<open>Close\<close>: the clean-up context may run out before all listeners are gone.\<close>

definition Close_broker :: "bool \<Rightarrow> mworld \<Rightarrow> (broker_error + unit) \<times> mworld" where
  "Close_broker timedOut w =
     (if timedOut \<and> m_listening w \<noteq> {} then (Inl ShutdownTimedOut, w) else (Inr (), w\<lparr>m_listening := {}\<rparr>))"

section \<open>Broker service\<close>

definition ListenToChannel :: "menv \<Rightarrow> string \<Rightarrow> mworld \<Rightarrow> (broker_error + unit) \<times> mworld" where
  "ListenToChannel env ch w =
     (case Subscribe_broker env ch w of (Inl _, w) \<Rightarrow> (Inl SubscriptionFailed, w) | (Inr _, w) \<Rightarrow> (Inr (), w))"

definition StopListeningToChannel :: "menv \<Rightarrow> string \<Rightarrow> mworld \<Rightarrow> (broker_error + unit) \<times> mworld" where
  "StopListeningToChannel env ch w =
     (case Unsubscribe_broker env ch w of (Inl _, w) \<Rightarrow> (Inl UnsubscriptionFailed, w) | (Inr _, w) \<Rightarrow> (Inr (), w))"

definition PublishToChannel :: "menv \<Rightarrow> string \<Rightarrow> bytes \<Rightarrow> mworld \<Rightarrow> (broker_error + unit) \<times> mworld" where
  "PublishToChannel env ch msg w =
     (case Publish_broker env ch msg w of (Inl _, w) \<Rightarrow> (Inl BrokerPublishFailed, w) | (Inr _, w) \<Rightarrow> (Inr (), w))"

definition Shutdown_broker :: "bool \<Rightarrow> mworld \<Rightarrow> (broker_error + unit) \<times> mworld" where
  "Shutdown_broker timedOut w = Close_broker timedOut w"

section \<open>Channel service\<close>

definition Get_ch :: "string \<Rightarrow> project_id \<Rightarrow> mworld \<Rightarrow> chan_error + channel" where
  "Get_ch raw p w = FindByName_ch (Full (NewName raw p)) (m_channels w)"

definition Update_chs :: "channel \<Rightarrow> mworld \<Rightarrow> (chan_error + unit) \<times> mworld" where
  "Update_chs c w = (case Update_ch c (m_channels w) of (res, R) \<Rightarrow> (res, w\<lparr>m_channels := R\<rparr>))"

definition Create_chs :: "menv \<Rightarrow> string \<Rightarrow> project_id \<Rightarrow> mworld \<Rightarrow> (chan_error + channel) \<times> mworld" where
  "Create_chs env raw p w =
     (let n = NewName raw p
      in case FindByName_ch (Full n) (m_channels w) of
           Inr c \<Rightarrow> (Inr c, w)
         | Inl e \<Rightarrow>
             if e \<noteq> ChanNotFound then (Inl e, w)
             else let c = New_channel (me_chanID env) (me_now env) n (me_instance env)
                  in case Create_ch c (m_channels w) of
                       (Inl e, R) \<Rightarrow> (Inl e, w\<lparr>m_channels := R\<rparr>)
                     | (Inr _, R) \<Rightarrow>
                         let c = SetActive (me_now env) True c;
                             w = snd (Update_chs c (w\<lparr>m_channels := R\<rparr>));
                             w = emit_w env EventChannelCreated (ChannelCreatedData (ch_ID c) raw p (me_instance env)) w
                         in (Inr c, w))"

definition GetOrCreate_ch :: "menv \<Rightarrow> string \<Rightarrow> project_id \<Rightarrow> mworld \<Rightarrow> (chan_error + channel) \<times> mworld" where
  "GetOrCreate_ch env raw p w =
     (case Get_ch raw p w of
        Inr c \<Rightarrow> (Inr c, w)
      | Inl e \<Rightarrow> if e = ChanNotFound then Create_chs env raw p w else (Inl e, w))"

definition Delete_chs :: "menv \<Rightarrow> string \<Rightarrow> project_id \<Rightarrow> mworld \<Rightarrow> (chan_error + unit) \<times> mworld" where
  "Delete_chs env raw p w =
     (let full = Full (NewName raw p)
      in case FindByName_ch full (m_channels w) of
           Inl e \<Rightarrow> if e = ChanNotFound then (Inr (), w) else (Inl e, w)
         | Inr c \<Rightarrow>
             if HasLocalSubscribers c then (Inr (), w)
             else let w = snd (StopListeningToChannel env full w)
                  in case Delete_ch c (m_channels w) of
                       (Inl e, R) \<Rightarrow> (Inl e, w\<lparr>m_channels := R\<rparr>)
                     | (Inr _, R) \<Rightarrow> (Inr (), w\<lparr>m_channels := R\<rparr>))"

section \<open>Channel lifecycle manager\<close>

definition manager_id :: string where "manager_id = ''channel-lifecycle-manager''"

definition Start_manager :: "mworld \<Rightarrow> (bus_error + unit) \<times> mworld" where
  "Start_manager w =
     (case Subscribe_bus EventChannelEmpty manager_id HandleChannelEmpty (m_bus w) of
        (Inl e, b) \<Rightarrow> (Inl e, w\<lparr>m_bus := b\<rparr>)
      | (Inr _, b) \<Rightarrow>
          (case Subscribe_bus EventChannelSubscribed manager_id HandleChannelSubscribed b of
             (res, b) \<Rightarrow> (res, w\<lparr>m_bus := b\<rparr>)))"

definition Stop_manager :: "mworld \<Rightarrow> mworld" where
  "Stop_manager w =
     (let b = snd (Unsubscribe_bus EventChannelEmpty manager_id (m_bus w));
          b = snd (Unsubscribe_bus EventChannelSubscribed manager_id b)
      in w\<lparr>m_bus := b, m_cleanups := Map.empty\<rparr>)"

definition ScheduleCleanup :: "menv \<Rightarrow> string \<Rightarrow> project_id \<Rightarrow> mworld \<Rightarrow> mworld" where
  "ScheduleCleanup env raw p w =
     w\<lparr>m_cleanups := (m_cleanups w)(Full (NewName raw p) \<mapsto>
         \<lparr>cu_ChannelName = raw, cu_ProjectID = p, cu_ScheduledAt = me_now env\<rparr>)\<rparr>"

definition CancelCleanup :: "string \<Rightarrow> project_id \<Rightarrow> mworld \<Rightarrow> mworld" where
  "CancelCleanup raw p w = w\<lparr>m_cleanups := (m_cleanups w)(Full (NewName raw p) := None)\<rparr>"

definition GetPendingCleanups :: "mworld \<Rightarrow> string \<Rightarrow> cleanup_schedule option" where
  "GetPendingCleanups w = m_cleanups w"

definition performCleanup :: "menv \<Rightarrow> string \<Rightarrow> project_id \<Rightarrow> mworld \<Rightarrow> mworld" where
  "performCleanup env raw p w =
     (let w = CancelCleanup raw p w
      in case Get_ch raw p w of
           Inl _ \<Rightarrow> w
         | Inr c \<Rightarrow>
             if HasLocalSubscribers c then w
             else case Delete_chs env raw p w of
                    (Inl _, w) \<Rightarrow> w
                  | (Inr _, w) \<Rightarrow> emit_w env EventChannelDeleted (ChannelDeletedData raw p (ch_InstanceID c)) w)"

definition handleChannelEmpty :: "menv \<Rightarrow> mevent \<Rightarrow> mworld \<Rightarrow> outcome \<times> mworld" where
  "handleChannelEmpty env e w =
     (case ev_Data e of ChannelEmptyData raw p _ \<Rightarrow> (Handled, ScheduleCleanup env raw p w) | _ \<Rightarrow> (Handled, w))"

definition handleChannelSubscribed :: "menv \<Rightarrow> mevent \<Rightarrow> mworld \<Rightarrow> outcome \<times> mworld" where
  "handleChannelSubscribed env e w =
     (case ev_Data e of ChannelSubscribedData raw p _ _ \<Rightarrow> (Handled, CancelCleanup raw p w) | _ \<Rightarrow> (Handled, w))"

definition run_handler :: "menv \<Rightarrow> bus_handler \<Rightarrow> mevent \<Rightarrow> mworld \<Rightarrow> outcome \<times> mworld" where
  "run_handler env h = (case h of HandleChannelEmpty \<Rightarrow> handleChannelEmpty env | HandleChannelSubscribed \<Rightarrow> handleChannelSubscribed env)"

text \<open>A goroutine of the bus takes its turn: the \<open>k\<close>-th pending event is handled.\<close>

definition handle_pending :: "menv \<Rightarrow> nat \<Rightarrow> mworld \<Rightarrow> mworld" where
  "handle_pending env k w =
     (if k < length (m_pending w)
      then case m_pending w ! k of
             (e, hs) \<Rightarrow> snd (publishToHandlers (run_handler env) e hs
                          (w\<lparr>m_pending := take k (m_pending w) @ drop (k + 1) (m_pending w)\<rparr>))
      else w)"

end
