(* ===== verification/Egress.thy ===== *)
theory Egress
  imports MsgWorld
begin

text \<open>
  \<open>internal/application/service/messaging/egress/pipeline.go\<close> and
  \<open>internal/application/service/messaging/session/service.go\<close>: the outbound pipeline of a connection
  with its single writer, the registry of pipelines, and the session service.  \<open>Enqueue\<close> on a full
  queue waits up to the block timeout for the writer; a writer step that comes within that time is a
  writer step before the \<open>Enqueue\<close>, so a queue that is full when the step is taken is a timeout.  The
  mutex of a client and the channels that end the writer are not state.
\<close>

section \<open>Pipeline\<close>

definition defaultQueueCapacity :: int where "defaultQueueCapacity = 256"
definition defaultSlowConsumerThreshold :: int where "defaultSlowConsumerThreshold = 10"

definition NewPipeline :: "ulid \<Rightarrow> project_id \<Rightarrow> int \<Rightarrow> int \<Rightarrow> pipeline" where
  "NewPipeline connID projectID cap thr =
     \<lparr>pp_connID = connID, pp_projectID = projectID, pp_queue = [],
      pp_capacity = (if cap < 1 then defaultQueueCapacity else cap), pp_stopped = False,
      pp_threshold = (if thr < 1 then defaultSlowConsumerThreshold else thr), pp_consecutiveDrops = 0\<rparr>"

definition put_pipe :: "ulid \<Rightarrow> pipeline \<Rightarrow> mworld \<Rightarrow> mworld" where
  "put_pipe connID p w = w\<lparr>m_pipelines := (m_pipelines w)(connID \<mapsto> p)\<rparr>"

definition recordDropped :: "menv \<Rightarrow> pipeline \<Rightarrow> drop_reason \<Rightarrow> int \<Rightarrow> mworld \<Rightarrow> mworld" where
  "recordDropped env p reason depth w =
     record_w env (pp_projectID p) (OutboundDropped [] (pp_connID p) (Some reason) depth) w"

text \<open>The slow-consumer callback closes the connection and ignores the outcome.\<close>

definition handleDrop :: "menv \<Rightarrow> ulid \<Rightarrow> pipeline \<Rightarrow> drop_reason \<Rightarrow> int \<Rightarrow> mworld \<Rightarrow> mworld" where
  "handleDrop env connID p reason depth w =
     (let p = p\<lparr>pp_consecutiveDrops := i64 (pp_consecutiveDrops p + 1)\<rparr>;
          w = recordDropped env p reason depth (put_pipe connID p w)
      in if pp_consecutiveDrops p \<ge> pp_threshold p then snd (close_w (pp_connID p) w) else w)"

definition Enqueue_pipe :: "menv \<Rightarrow> ulid \<Rightarrow> pipeline \<Rightarrow> bytes \<Rightarrow> mworld \<Rightarrow> (conn_error + unit) \<times> mworld" where
  "Enqueue_pipe env connID p payload w =
     (if payload = [] then (Inr (), w)
      else if pp_stopped p then (Inl ConnClosed, w)
      else if int (length (pp_queue p)) < pp_capacity p
      then (Inr (), put_pipe connID (p\<lparr>pp_queue := pp_queue p @ [payload]\<rparr>) w)
      else (Inr (), handleDrop env connID p WriteTimeout (int (length (pp_queue p))) w))"

definition deliver :: "menv \<Rightarrow> ulid \<Rightarrow> pipeline \<Rightarrow> bytes \<Rightarrow> mworld \<Rightarrow> mworld" where
  "deliver env connID p payload w =
     (case send_w env (pp_connID p) payload w of
        (Inl e, w) \<Rightarrow> record_w env (pp_projectID p) (OutboundFailed (pp_connID p) (conn_error_text e)) w
      | (Inr _, w) \<Rightarrow>
          record_w env (pp_projectID p) (OutboundDelivered (pp_connID p) (int (length payload)))
            (put_pipe connID (p\<lparr>pp_consecutiveDrops := 0\<rparr>) w))"

text \<open>One round of \<open>run\<close>: \<^const>\<open>None\<close> when the writer has ended or waits.\<close>

definition run_step :: "menv \<Rightarrow> ulid \<Rightarrow> mworld \<Rightarrow> mworld option" where
  "run_step env connID w =
     (case m_pipelines w connID of None \<Rightarrow> None
      | Some p \<Rightarrow>
          if pp_stopped p then None
          else (case pp_queue p of [] \<Rightarrow> None
                | msg # rest \<Rightarrow>
                    let p = p\<lparr>pp_queue := rest\<rparr> in Some (deliver env connID p msg (put_pipe connID p w))))"

fun run_n :: "menv \<Rightarrow> ulid \<Rightarrow> nat \<Rightarrow> mworld \<Rightarrow> mworld" where
  "run_n env connID 0 w = w"
| "run_n env connID (Suc n) w = (case run_step env connID w of None \<Rightarrow> w | Some w \<Rightarrow> run_n env connID n w)"

section \<open>Registry\<close>

definition Register_pipe :: "ulid \<Rightarrow> pipeline \<Rightarrow> mworld \<Rightarrow> mworld" where
  "Register_pipe connID p w = put_pipe connID p w"

text \<open>\<open>Stop\<close> ends the writer of the removed pipeline; nothing refers to it any more.\<close>

definition Unregister_pipe :: "ulid \<Rightarrow> mworld \<Rightarrow> mworld" where
  "Unregister_pipe connID w = w\<lparr>m_pipelines := (m_pipelines w)(connID := None)\<rparr>"

definition Enqueue_reg :: "menv \<Rightarrow> ulid \<Rightarrow> bytes \<Rightarrow> mworld \<Rightarrow> (conn_error + unit) \<times> mworld" where
  "Enqueue_reg env connID payload w =
     (case m_pipelines w connID of None \<Rightarrow> (Inl ConnNotFound, w)
      | Some p \<Rightarrow> Enqueue_pipe env connID p payload w)"

section \<open>Session service\<close>

definition RegisterConnection :: "ulid \<Rightarrow> project_id \<Rightarrow> ulid \<Rightarrow> mworld \<Rightarrow> mworld" where
  "RegisterConnection connID projectID clientID w =
     (let w = Register_pipe connID (NewPipeline connID projectID 256 0) w
      in w\<lparr>m_clientConn := (m_clientConn w)(clientID \<mapsto> connID)\<rparr>)"

definition UnregisterConnection :: "ulid \<Rightarrow> ulid \<Rightarrow> mworld \<Rightarrow> mworld" where
  "UnregisterConnection connID clientID w =
     (let w = Unregister_pipe connID w
      in w\<lparr>m_clientConn := (m_clientConn w)(clientID := None), m_subCache := (m_subCache w)(clientID := None)\<rparr>)"

definition GetOrCreateSubscription :: "menv \<Rightarrow> ulid \<Rightarrow> mworld \<Rightarrow> ref \<times> mworld" where
  "GetOrCreateSubscription env clientID w =
     (case m_subCache w clientID of
        Some r \<Rightarrow>
          if sub_closed (m_heap w r)
          then (m_nextRef w, w\<lparr>m_heap := (m_heap w)(m_nextRef w := New_subscription (me_subID env) (me_now env) clientID),
                  m_nextRef := m_nextRef w + 1, m_subCache := (m_subCache w)(clientID \<mapsto> m_nextRef w)\<rparr>)
          else (r, w)
      | None \<Rightarrow>
          (m_nextRef w, w\<lparr>m_heap := (m_heap w)(m_nextRef w := New_subscription (me_subID env) (me_now env) clientID),
              m_nextRef := m_nextRef w + 1, m_subCache := (m_subCache w)(clientID \<mapsto> m_nextRef w)\<rparr>))"

definition Deliver :: "menv \<Rightarrow> ulid \<Rightarrow> bytes \<Rightarrow> mworld \<Rightarrow> (conn_error + unit) \<times> mworld" where
  "Deliver env clientID payload w =
     (case m_clientConn w clientID of None \<Rightarrow> (Inl ConnNotFound, w)
      | Some connID \<Rightarrow> Enqueue_reg env connID payload w)"

end
