(* ===== verification/MsgRouter.thy ===== *)
theory MsgRouter
  imports Broker Egress
begin

text \<open>
  \<open>internal/application/service/messaging/router/service.go\<close>: the message router.  An inbound publish
  passes the rate limit, gets its channel and the broker listener of the channel, and goes to NATS; a
  broker message fans out to the local subscribers through their buffers into the outbound pipelines.
\<close>

section \<open>Requests\<close>

record pub_message =
  pb_ProjectID :: project_id
  pb_ChannelName :: string
  pb_Messages :: "payload list"

record publish_request =
  rq_ConnectionID :: ulid
  rq_ProjectID :: project_id
  rq_Channel :: string
  rq_Message :: "pub_message option"
  rq_SkipTelemetry :: bool
  rq_Source :: msg_source

record publish_result =
  pr_MessageID :: ulid
  pr_PublishedAt :: time
  pr_Channel :: string
  pr_PayloadCount :: nat

datatype pub_error = MessageRequired | ErrRateLimited | ChannelFailed chan_error | ListenFailed broker_error
  | PublishFailed broker_error

definition source_name :: "msg_source \<Rightarrow> string" where
  "source_name s = (case s of SourceWebSocket \<Rightarrow> ''websocket'' | SourceREST \<Rightarrow> ''rest'' | SourceNATS \<Rightarrow> ''nats''
     | SourceInternal \<Rightarrow> ''internal'')"

definition reason_text :: "drop_reason \<Rightarrow> string" where
  "reason_text r = (case r of BufferFull \<Rightarrow> ''buffer_full'' | WriteTimeout \<Rightarrow> ''write_timeout''
     | SlowConsumer \<Rightarrow> ''slow_consumer'' | InboundRateLimit \<Rightarrow> ''inbound_rate_limit''
     | OutboundRateLimit \<Rightarrow> ''outbound_rate_limit'')"

section \<open>The gatekeeper\<close>

definition allow_in :: "menv \<Rightarrow> project_id \<Rightarrow> mworld \<Rightarrow> bool \<times> mworld" where
  "allow_in env p w =
     (case m_gate w of None \<Rightarrow> (True, w)
      | Some g \<Rightarrow> (case AllowInbound (me_rates env p) (me_now env) p g of (ok, g) \<Rightarrow> (ok, w\<lparr>m_gate := Some g\<rparr>)))"

definition allow_out :: "menv \<Rightarrow> project_id \<Rightarrow> mworld \<Rightarrow> bool \<times> mworld" where
  "allow_out env p w =
     (case m_gate w of None \<Rightarrow> (True, w)
      | Some g \<Rightarrow> (case AllowOutbound (me_rates env p) (me_now env) p g of (ok, g) \<Rightarrow> (ok, w\<lparr>m_gate := Some g\<rparr>)))"

section \<open>Inbound\<close>

definition EnsureChannelListening :: "menv \<Rightarrow> string \<Rightarrow> mworld \<Rightarrow> (broker_error + unit) \<times> mworld" where
  "EnsureChannelListening env full w = ListenToChannel env full w"

definition recordInboundRejected :: "menv \<Rightarrow> project_id \<Rightarrow> string \<Rightarrow> mworld \<Rightarrow> mworld" where
  "recordInboundRejected env p ch w = record_w env p (InboundRejected ch (reason_text InboundRateLimit)) w"

text \<open>What goes to NATS: the request as a data message of the server.\<close>

definition broadcast_msg :: "menv \<Rightarrow> publish_request \<Rightarrow> pub_message \<Rightarrow> data_msg" where
  "broadcast_msg env rq m = NewDataMessage (me_msgID env) (me_now env) ActMessage (rq_Channel rq) (pb_Messages m) None"

definition PublishInbound ::
    "menv \<Rightarrow> publish_request \<Rightarrow> mworld \<Rightarrow> (mreceipt \<times> (pub_error + publish_result)) \<times> mworld" where
  "PublishInbound env rq w =
     (case rq_Message rq of
        None \<Rightarrow> ((MIngressNack [] ''message is required'' EInvalidMessage, Inl MessageRequired), w)
      | Some m \<Rightarrow>
          (case (if rq_SkipTelemetry rq then (True, w) else allow_in env (rq_ProjectID rq) w) of
             (False, w) \<Rightarrow>
               ((MIngressNack [] ''inbound rate limit exceeded'' ERateLimited, Inl ErrRateLimited),
                recordInboundRejected env (rq_ProjectID rq) (rq_Channel rq) w)
           | (True, w) \<Rightarrow>
               (case GetOrCreate_ch env (rq_Channel rq) (rq_ProjectID rq) w of
                  (Inl e, w) \<Rightarrow> ((MIngressNack [] ''failed to get or create channel'' EInternal, Inl (ChannelFailed e)), w)
                | (Inr ch, w) \<Rightarrow>
                    (case EnsureChannelListening env (FullName ch) w of
                       (Inl e, w) \<Rightarrow> ((MIngressNack [] ''failed to set up channel listener'' EInternal, Inl (ListenFailed e)), w)
                     | (Inr _, w) \<Rightarrow>
                         let dm = broadcast_msg env rq m;
                             msg = me_json env (data_json (me_time env) dm);
                             e = WithID (dm_ID dm) (New_envelope (me_replyID env) (me_now env) DirectionInbound (rq_ProjectID rq)
                                   (FullName ch) msg (rq_Source rq) (rq_ConnectionID rq) (rq_SkipTelemetry rq))
                         in case PublishToChannel env (FullName ch) msg w of
                              (Inl err, w) \<Rightarrow> ((MIngressNack (env_ID e) ''failed to publish message'' EPublishFailed, Inl (PublishFailed err)), w)
                            | (Inr _, w) \<Rightarrow>
                                ((MIngressAck (env_ID e),
                                  Inr \<lparr>pr_MessageID = dm_ID dm, pr_PublishedAt = dm_Timestamp dm, pr_Channel = rq_Channel rq,
                                       pr_PayloadCount = length (pb_Messages m)\<rparr>),
                                 if rq_SkipTelemetry rq then w
                                 else record_w env (rq_ProjectID rq) (InboundAccepted (env_ID e) (rq_ConnectionID rq)
                                        (rq_Channel rq) (int (length msg)) (source_name (rq_Source rq))) w)))))"

section \<open>Outbound\<close>

definition recordOutboundDrop :: "menv \<Rightarrow> project_id \<Rightarrow> ref \<Rightarrow> drop_reason option \<Rightarrow> int \<Rightarrow> mworld \<Rightarrow> mworld" where
  "recordOutboundDrop env p r reason depth w = record_w env p (OutboundDropped (sub_ID (m_heap w r)) [] reason depth) w"

definition subscriptionBufferCapacity :: int where "subscriptionBufferCapacity = 256"

definition subscriptionBuffer :: "ulid \<Rightarrow> mworld \<Rightarrow> bqueue \<times> mworld" where
  "subscriptionBuffer i w =
     (case m_buffers w i of Some q \<Rightarrow> (q, w)
      | None \<Rightarrow> let q = NewBoundedQueue subscriptionBufferCapacity in (q, w\<lparr>m_buffers := (m_buffers w)(i \<mapsto> q)\<rparr>))"

definition put_buffer :: "ulid \<Rightarrow> bqueue option \<Rightarrow> mworld \<Rightarrow> mworld" where
  "put_buffer i q w = w\<lparr>m_buffers := (m_buffers w)(i := q)\<rparr>"

text \<open>The loop of \<open>flushSubscriptionBuffer\<close>: the queue is the one of the map, which nothing else
  touches between \<open>Pop\<close> and the next round.\<close>

function flush_loop :: "menv \<Rightarrow> ulid \<Rightarrow> ulid \<Rightarrow> bqueue option \<Rightarrow> mworld \<Rightarrow> mworld" where
  "flush_loop env i clientID q w =
     (case Pop q of
        (None, q) \<Rightarrow> put_buffer i q w
      | (Some item, q) \<Rightarrow>
          (case Deliver env clientID item (put_buffer i q w) of
             (Inl _, w) \<Rightarrow> w
           | (Inr _, w) \<Rightarrow> flush_loop env i clientID q w))"
  by auto
termination
  by (relation "measure (\<lambda>(env, i, c, q, w). length (Items q))")
     (auto simp: Pop_def Items_def split: option.splits list.splits)

declare flush_loop.simps [simp del]

definition flushSubscriptionBuffer :: "menv \<Rightarrow> ref \<Rightarrow> mworld \<Rightarrow> mworld" where
  "flushSubscriptionBuffer env r w =
     (case subscriptionBuffer (sub_ID (m_heap w r)) w of
        (q, w) \<Rightarrow> flush_loop env (sub_ID (m_heap w r)) (sub_ClientID (m_heap w r)) (Some q) w)"

definition deliverToSubscriber :: "menv \<Rightarrow> ref \<Rightarrow> bytes \<Rightarrow> project_id \<Rightarrow> mworld \<Rightarrow> bool \<times> mworld" where
  "deliverToSubscriber env r payload p w =
     (case allow_out env p w of
        (False, w) \<Rightarrow> (False, recordOutboundDrop env p r (Some OutboundRateLimit) 0 w)
      | (True, w) \<Rightarrow>
          (case subscriptionBuffer (sub_ID (m_heap w r)) w of
             (q, w) \<Rightarrow>
               (case DropNewest_TryEnqueue (Some q) (Some payload) of
                  (result, q) \<Rightarrow>
                    let w = put_buffer (sub_ID (m_heap w r)) q w
                    in if enq_Dropped result
                       then (False, recordOutboundDrop env p r (enq_Reason result) (enq_QueueDepth result) w)
                       else (True, flushSubscriptionBuffer env r w))))"

fun fanout_loop :: "menv \<Rightarrow> bytes \<Rightarrow> project_id \<Rightarrow> ref list \<Rightarrow> nat \<Rightarrow> mworld \<Rightarrow> nat \<times> mworld" where
  "fanout_loop env payload p [] n w = (n, w)"
| "fanout_loop env payload p (r # rs) n w =
     (if sub_closed (m_heap w r) then fanout_loop env payload p rs n w
      else case deliverToSubscriber env r payload p w of
             (ok, w) \<Rightarrow> fanout_loop env payload p rs (if ok then n + 1 else n) w)"

definition touchChannelActivity :: "menv \<Rightarrow> string \<Rightarrow> mworld \<Rightarrow> mworld" where
  "touchChannelActivity env full w =
     (case FromFull full of Inl _ \<Rightarrow> w
      | Inr n \<Rightarrow> (case Get_ch (name_raw n) (name_project n) w of Inl _ \<Rightarrow> w
                  | Inr ch \<Rightarrow> snd (Update_chs (UpdateActivity_ch (me_now env) ch) w)))"

definition OnBrokerMessage :: "menv \<Rightarrow> envelope option \<Rightarrow> mworld \<Rightarrow> (sub_error + unit) \<times> mworld" where
  "OnBrokerMessage env e w =
     (case e of None \<Rightarrow> (Inr (), w)
      | Some e \<Rightarrow>
          if env_Payload e = [] \<or> env_Channel e = [] then (Inr (), w)
          else let w = touchChannelActivity env (env_Channel e) w
               in case GetAllLocalForChannel (me_refs env) (me_now env) (env_Channel e) (m_heap w) (m_subs w) of
                    (Inl err, h) \<Rightarrow> (if err = SubChannelNotFound then Inr () else Inl err, w\<lparr>m_heap := h\<rparr>)
                  | (Inr rs, h) \<Rightarrow>
                      (Inr (), snd (fanout_loop env (env_Payload e) (env_ProjectID e) rs 0 (w\<lparr>m_heap := h\<rparr>))))"

text \<open>The listener that \<open>EnsureChannelListening\<close> registers, called when NATS delivers a message on a
  channel this instance listens to.\<close>

definition nats_deliver :: "menv \<Rightarrow> string \<Rightarrow> bytes \<Rightarrow> mworld \<Rightarrow> mworld" where
  "nats_deliver env full msg w =
     (if full \<notin> m_listening w then w
      else case FromFull full of
             Inl _ \<Rightarrow> w
           | Inr n \<Rightarrow> snd (OnBrokerMessage env (Some (New_envelope (me_msgID env) (me_now env) DirectionOutbound
                         (name_project n) full msg SourceNATS [] False)) w))"

datatype outbound_error = EnvelopeRequired | SubscriptionNotFound | OutRateLimited | OutConn conn_error

definition sub_order :: "menv \<Rightarrow> mworld \<Rightarrow> (string \<times> ref list) list" where
  "sub_order env w = List.map (\<lambda>ch. (ch, case subscriptions (m_subs w) ch of None \<Rightarrow> [] | Some S \<Rightarrow> me_refs env S))
     (me_names env (dom (subscriptions (m_subs w))))"

definition DeliverOutbound :: "menv \<Rightarrow> envelope option \<Rightarrow> ulid \<Rightarrow> mworld \<Rightarrow> (mreceipt \<times> (outbound_error + unit)) \<times> mworld" where
  "DeliverOutbound env e subID w =
     (case e of None \<Rightarrow> ((EgressDropped [] ''missing envelope'', Inl EnvelopeRequired), w)
      | Some e \<Rightarrow>
          (case FindByID_sub (sub_order env w) subID (m_heap w) of
             Inl _ \<Rightarrow> ((EgressDropped (env_ID e) ''subscription not found'', Inl SubscriptionNotFound), w)
           | Inr r \<Rightarrow>
               if sub_closed (m_heap w r)
               then ((EgressDropped (env_ID e) ''subscription not found'', Inl SubscriptionNotFound), w)
               else case allow_out env (env_ProjectID e) w of
                      (False, w) \<Rightarrow>
                        ((EgressDropped (env_ID e) (reason_text OutboundRateLimit), Inl OutRateLimited),
                         recordOutboundDrop env (env_ProjectID e) r (Some OutboundRateLimit) 0 w)
                    | (True, w) \<Rightarrow>
                        (case Deliver env (sub_ClientID (m_heap w r)) (env_Payload e) w of
                           (Inl err, w) \<Rightarrow> ((EgressDropped (env_ID e) (conn_error_text err), Inl (OutConn err)), w)
                         | (Inr _, w) \<Rightarrow> ((EgressDelivered (env_ID e), Inr ()), w))))"

end
