(* ===== verification/SubService.thy ===== *)
theory SubService
  imports MsgRouter
begin

text \<open>
  \<open>internal/application/service/messaging/subscription/service.go\<close>: subscribing, unsubscribing and closing
  a subscription, with the state messages to the client, the channel counters and the events.
  Errors of the event bus and of the delivery of a state message are only logged by the code.
\<close>

definition err_info :: "code \<Rightarrow> string \<Rightarrow> int \<Rightarrow> error_info" where
  "err_info c msg status = \<lparr>ei_Code = c, ei_Href = href_of c, ei_Message = msg, ei_StatusCode = status\<rparr>"

definition sendSubscriptionState :: "menv \<Rightarrow> action_type \<Rightarrow> ref \<Rightarrow> string \<Rightarrow> error_info option \<Rightarrow> mworld \<Rightarrow> mworld" where
  "sendSubscriptionState env action r ch err w =
     (if sub_closed (m_heap w r) then w
      else let msg = me_json env (channel_json (NewChannelMessage action ch (sub_ID (m_heap w r)) err))
           in snd (Deliver env (sub_ClientID (m_heap w r)) msg w))"

definition sendUnsubscriptionState :: "menv \<Rightarrow> action_type \<Rightarrow> ref \<Rightarrow> string \<Rightarrow> error_info option \<Rightarrow> mworld \<Rightarrow> mworld" where
  "sendUnsubscriptionState env action r ch err w = sendSubscriptionState env action r ch err w"

datatype subscribe_error = SubscribeClosed | SubscribeChannel chan_error | SubscribeAdd sub_error
  | SubscribeListen broker_error

definition channels_of :: "menv \<Rightarrow> ref \<Rightarrow> mworld \<Rightarrow> (sub_error + string list) \<times> mworld" where
  "channels_of env r w =
     (case GetAllChannelsForSubscription (me_names env) (me_now env) (Some r) (m_heap w) (m_subs w) of
        (res, h) \<Rightarrow> (res, w\<lparr>m_heap := h\<rparr>))"

text \<open>The tail of \<open>Subscribe\<close>, once the channel is known and the subscription is not on it.\<close>

definition subscribe_new :: "menv \<Rightarrow> string \<Rightarrow> ref \<Rightarrow> project_id \<Rightarrow> channel \<Rightarrow> mworld \<Rightarrow> (subscribe_error + unit) \<times> mworld" where
  "subscribe_new env raw r p ch w =
     (case AddToChannel (me_now env) (FullName ch) (Some r) (m_heap w) (m_subs w) of
        (Inl e, h, R) \<Rightarrow>
          (Inl (SubscribeAdd e), sendSubscriptionState env ActSubscribe r raw
             (Some (err_info ESubscribeFailed ''Failed to subscribe to channel'' StatusCodeInternal)) (w\<lparr>m_heap := h, m_subs := R\<rparr>))
      | (Inr _, h, R) \<Rightarrow>
          (case EnsureChannelListening env (FullName ch) (w\<lparr>m_heap := h, m_subs := R\<rparr>) of
             (Inl e, w) \<Rightarrow>
               (Inl (SubscribeListen e), sendSubscriptionState env ActSubscribe r raw
                  (Some (err_info EInternal ''Failed to set up channel delivery'' StatusCodeInternal)) w)
           | (Inr _, w) \<Rightarrow>
               let w = snd (Update_chs (IncrementLocalSubscriptions (me_now env) ch) w);
                   w = sendSubscriptionState env ActSubscribed r raw None w;
                   w = emit_w env EventChannelSubscribed
                         (ChannelSubscribedData raw p (sub_ClientID (m_heap w r)) (sub_ID (m_heap w r))) w
               in (Inr (), w)))"

definition Subscribe :: "menv \<Rightarrow> string \<Rightarrow> ref \<Rightarrow> project_id \<Rightarrow> mworld \<Rightarrow> (subscribe_error + unit) \<times> mworld" where
  "Subscribe env raw r p w =
     (if sub_closed (m_heap w r)
      then (Inl SubscribeClosed, sendSubscriptionState env ActSubscribe r raw
              (Some (err_info ESubscriptionClosed ''subscription is closed'' StatusCodeBadRequest)) w)
      else case GetOrCreate_ch env raw p w of
             (Inl e, w) \<Rightarrow>
               (Inl (SubscribeChannel e), sendSubscriptionState env ActSubscribe r raw
                  (Some (err_info EInternal ''Failed to get or create channel'' StatusCodeInternal)) w)
           | (Inr ch, w) \<Rightarrow>
               (case channels_of env r w of
                  (Inl _, w) \<Rightarrow> subscribe_new env raw r p ch w
                | (Inr chs, w) \<Rightarrow>
                    if FullName ch \<in> set chs
                    then (Inr (), sendSubscriptionState env ActSubscribed r raw None w)
                    else subscribe_new env raw r p ch w))"

text \<open>\<open>Unsubscribe\<close>: the channel may be gone, its name is the same.\<close>

definition decrement_channel :: "menv \<Rightarrow> channel option \<Rightarrow> mworld \<Rightarrow> mworld" where
  "decrement_channel env ch w =
     (case ch of None \<Rightarrow> w | Some ch \<Rightarrow> snd (Update_chs (DecrementLocalSubscriptions (me_now env) ch) w))"

definition Unsubscribe :: "menv \<Rightarrow> string \<Rightarrow> ref \<Rightarrow> project_id \<Rightarrow> mworld \<Rightarrow> (sub_error + unit) \<times> mworld" where
  "Unsubscribe env raw r p w =
     (let found = Get_ch raw p w;
          full = (case found of Inr ch \<Rightarrow> FullName ch
                  | Inl e \<Rightarrow> if e = ChanNotFound then Full (NewName raw p) else []);
          w = (if full \<noteq> [] then w\<lparr>m_subs := snd (RemoveFromChannel full (Some r) (m_heap w) (m_subs w))\<rparr> else w);
          w = decrement_channel env (case found of Inr ch \<Rightarrow> Some ch | Inl _ \<Rightarrow> None) w;
          w = sendUnsubscriptionState env ActUnsubscribed r raw None w;
          w = emit_w env EventChannelUnsubscribed
                (ChannelUnsubscribedData raw p (sub_ClientID (m_heap w r)) (sub_ID (m_heap w r))) w
      in (Inr (), w))"

text \<open>The loop of \<open>CloseSubscription\<close> over the channels the subscription was on.\<close>

fun close_loop :: "menv \<Rightarrow> ref \<Rightarrow> string list \<Rightarrow> mworld \<Rightarrow> mworld" where
  "close_loop env r [] w = w"
| "close_loop env r (full # rest) w =
     (case FromFull full of
        Inl _ \<Rightarrow> close_loop env r rest w
      | Inr n \<Rightarrow>
          let w = decrement_channel env (case Get_ch (name_raw n) (name_project n) w of Inr ch \<Rightarrow> Some ch | Inl _ \<Rightarrow> None) w;
              w = emit_w env EventChannelUnsubscribed (ChannelUnsubscribedData (name_raw n) (name_project n)
                    (sub_ClientID (m_heap w r)) (sub_ID (m_heap w r))) w
          in close_loop env r rest w)"

definition CloseSubscription :: "menv \<Rightarrow> ref \<Rightarrow> mworld \<Rightarrow> (sub_error + unit) \<times> mworld" where
  "CloseSubscription env r w =
     (if sub_closed (m_heap w r) then (Inr (), w)
      else case channels_of env r w of
             (res, w) \<Rightarrow>
               let channels = (case res of Inr chs \<Rightarrow> chs | Inl _ \<Rightarrow> []);
                   w = w\<lparr>m_heap := Close_sub r (m_heap w)\<rparr>;
                   w = w\<lparr>m_subs := snd (RemoveSubscriptionFromAll (me_names env) (Some r) (m_heap w) (m_subs w))\<rparr>;
                   w = close_loop env r channels w;
                   w = emit_w env EventSubscriptionClosed
                         (SubscriptionClosedData (sub_ID (m_heap w r)) (sub_ClientID (m_heap w r)) 0 (int (length channels))) w
               in (Inr (), w))"

definition Get_sub :: "menv \<Rightarrow> ulid \<Rightarrow> mworld \<Rightarrow> sub_error + ref" where
  "Get_sub env subID w = FindByID_sub (sub_order env w) subID (m_heap w)"

definition GetAllLocalForChannel_svc :: "menv \<Rightarrow> string \<Rightarrow> mworld \<Rightarrow> (sub_error + ref list) \<times> mworld" where
  "GetAllLocalForChannel_svc env ch w =
     (case GetAllLocalForChannel (me_refs env) (me_now env) ch (m_heap w) (m_subs w) of
        (res, h) \<Rightarrow> (res, w\<lparr>m_heap := h\<rparr>))"

fun raw_names :: "string list \<Rightarrow> string list" where
  "raw_names [] = []"
| "raw_names (full # rest) =
     (case FromFull full of Inl _ \<Rightarrow> raw_names rest | Inr n \<Rightarrow> name_raw n # raw_names rest)"

definition GetSubscriptions :: "menv \<Rightarrow> ref \<Rightarrow> mworld \<Rightarrow> (sub_error + string list) \<times> mworld" where
  "GetSubscriptions env r w =
     (case channels_of env r w of (Inl e, w) \<Rightarrow> (Inl e, w) | (Inr chs, w) \<Rightarrow> (Inr (raw_names chs), w))"

end
