(* ===== verification/ClientService.thy ===== *)
theory ClientService
  imports SubService
begin

text \<open>
  \<open>internal/application/service/messaging/client/service.go\<close>, the publication service
  (\<open>internal/application/service/messaging/publication/service.go\<close>) with the validation of a publication,
  and the log broadcaster (\<open>internal/application/service/project/log/broadcast/service.go\<close>).
\<close>

section \<open>Client service\<close>

datatype send_error = SendClientNotFound | SendClientDisconnected | SendConn conn_error

definition Connect ::
    "menv \<Rightarrow> ulid \<Rightarrow> project_id \<Rightarrow> int \<Rightarrow> string option \<Rightarrow> string option \<Rightarrow> mworld \<Rightarrow> (client_error + client_ref) \<times> mworld" where
  "Connect env connID projID apiKeyID alias permission w =
     (case FindByConnectionID connID (m_clients w) of
        Inr r \<Rightarrow> (Inr r, w)
      | Inl _ \<Rightarrow>
          let r = m_nextRef w;
              c = SetState_client (me_now env) ClientConnected
                    (New_client (me_clientID env) (me_now env) connID projID apiKeyID alias permission);
              w = w\<lparr>m_cheap := (m_cheap w)(r := c), m_nextRef := m_nextRef w + 1\<rparr>
          in case Create_client (Some r) (m_cheap w) (m_clients w) of
               (Inl e, R) \<Rightarrow> (Inl e, w\<lparr>m_clients := R\<rparr>)
             | (Inr _, R) \<Rightarrow> (Inr r, w\<lparr>m_clients := R\<rparr>))"

definition put_client :: "client_ref \<Rightarrow> client \<Rightarrow> mworld \<Rightarrow> mworld" where
  "put_client r c w = w\<lparr>m_cheap := (m_cheap w)(r := c)\<rparr>"

definition Update_clients :: "client_ref \<Rightarrow> mworld \<Rightarrow> (client_error + unit) \<times> mworld" where
  "Update_clients r w = (case Update_client (Some r) (m_cheap w) (m_clients w) of (res, R) \<Rightarrow> (res, w\<lparr>m_clients := R\<rparr>))"

definition Disconnect :: "menv \<Rightarrow> ulid \<Rightarrow> mworld \<Rightarrow> (client_error + unit) \<times> mworld" where
  "Disconnect env connID w =
     (case FindByConnectionID connID (m_clients w) of
        Inl e \<Rightarrow> (Inl e, w)
      | Inr r \<Rightarrow> Update_clients r (put_client r (SetState_client (me_now env) ClientDisconnected (m_cheap w r)) w))"

definition GetClient :: "ulid \<Rightarrow> mworld \<Rightarrow> client_error + client_ref" where
  "GetClient connID w = FindByConnectionID connID (m_clients w)"

definition SendMessage :: "menv \<Rightarrow> ulid \<Rightarrow> bytes \<Rightarrow> mworld \<Rightarrow> (send_error + unit) \<times> mworld" where
  "SendMessage env connID msg w =
     (case FindByConnectionID connID (m_clients w) of
        Inl _ \<Rightarrow> (Inl SendClientNotFound, w)
      | Inr r \<Rightarrow>
          if \<not> IsConnected_client (m_cheap w r) then (Inl SendClientDisconnected, w)
          else let w = put_client r (UpdateActivity_client (me_now env) (m_cheap w r)) w;
                   w = snd (Update_clients r w)
               in case send_w env connID msg w of (Inl e, w) \<Rightarrow> (Inl (SendConn e), w) | (Inr _, w) \<Rightarrow> (Inr (), w))"

fun broadcast_clients :: "menv \<Rightarrow> bytes \<Rightarrow> client_ref list \<Rightarrow> nat \<Rightarrow> mworld \<Rightarrow> nat \<times> mworld" where
  "broadcast_clients env msg [] n w = (n, w)"
| "broadcast_clients env msg (r # rs) n w =
     (if IsConnected_client (m_cheap w r)
      then case SendMessage env (cl_ConnectionID (m_cheap w r)) msg w of
             (Inl _, w) \<Rightarrow> broadcast_clients env msg rs (n + 1) w
           | (Inr _, w) \<Rightarrow> broadcast_clients env msg rs n w
      else broadcast_clients env msg rs n w)"

definition BroadcastToProject :: "menv \<Rightarrow> project_id \<Rightarrow> bytes \<Rightarrow> mworld \<Rightarrow> mworld" where
  "BroadcastToProject env projID msg w =
     snd (broadcast_clients env msg (FindAllByProjectID_client (me_clients env) projID (m_clients w)) 0 w)"

text \<open>\<open>all\<close> lists the clients in the order of the loop.\<close>

definition CleanDisconnectedClients_svc :: "menv \<Rightarrow> client_ref list \<Rightarrow> mworld \<Rightarrow> nat \<times> mworld" where
  "CleanDisconnectedClients_svc env all w =
     (case CleanDisconnectedClients (me_now env) all (m_cheap w) (m_clients w) of (R, n) \<Rightarrow> (n, w\<lparr>m_clients := R\<rparr>))"

section \<open>Publication service\<close>

definition sendPublishState :: "menv \<Rightarrow> ulid \<Rightarrow> data_msg \<Rightarrow> mworld \<Rightarrow> mworld" where
  "sendPublishState env connID m w =
     (if connID = [] then w else snd (SendMessage env connID (me_json env (data_json (me_time env) m)) w))"

text \<open>The code, link, text and status of a failure reply.\<close>

definition failure_info :: "mreceipt \<Rightarrow> error_info" where
  "failure_info rc =
     (if mr_Ack rc then err_info EInternal ''Failed to publish message'' StatusCodeInternal
      else let c = (if mr_ErrorCode rc \<noteq> 0 then mr_ErrorCode rc else EInternal);
               msg = (if mr_Reason rc \<noteq> [] then mr_Reason rc else ''Failed to publish message'')
           in if c = EInvalidMessage then \<lparr>ei_Code = c, ei_Href = href_of EInvalidMessage, ei_Message = msg, ei_StatusCode = StatusCodeBadRequest\<rparr>
              else if c = EPublishFailed then \<lparr>ei_Code = c, ei_Href = href_of EPublishFailed, ei_Message = msg, ei_StatusCode = StatusCodeInternal\<rparr>
              else if c = ERateLimited then \<lparr>ei_Code = c, ei_Href = href_of ERateLimited, ei_Message = msg, ei_StatusCode = StatusCodeTooManyRequests\<rparr>
              else \<lparr>ei_Code = c, ei_Href = href_of EInternal, ei_Message = msg, ei_StatusCode = StatusCodeInternal\<rparr>)"

definition sendPublishFailure :: "menv \<Rightarrow> ulid \<Rightarrow> string \<Rightarrow> mreceipt \<Rightarrow> mworld \<Rightarrow> mworld" where
  "sendPublishFailure env connID ch rc w =
     sendPublishState env connID (NewDataMessage (me_replyID env) (me_now env) ActPublish ch [] (Some (failure_info rc))) w"

definition Publish :: "menv \<Rightarrow> ulid \<Rightarrow> pub_message \<Rightarrow> bool \<Rightarrow> mworld \<Rightarrow> (pub_error + publish_result) \<times> mworld" where
  "Publish env connID m skipStats w =
     (let src = (if connID = [] then SourceREST else SourceWebSocket)
      in case PublishInbound env \<lparr>rq_ConnectionID = connID, rq_ProjectID = pb_ProjectID m, rq_Channel = pb_ChannelName m,
                rq_Message = Some m, rq_SkipTelemetry = skipStats, rq_Source = src\<rparr> w of
           ((rc, Inl e), w) \<Rightarrow> (Inl e, sendPublishFailure env connID (pb_ChannelName m) rc w)
         | ((rc, Inr res), w) \<Rightarrow>
             (Inr res, sendPublishState env connID (NewDataMessageWithEnvelope ActPublished (pb_ChannelName m)
                (pb_Messages m) None (pr_MessageID res) (pr_PublishedAt res)) w))"

text \<open>The rules that \<open>ValidateCreate\<close> applies: a positive project and a name that is not blank and has 1
  to 100 bytes.\<close>

definition Create_publication :: "project_id \<Rightarrow> string \<Rightarrow> payload list \<Rightarrow> pub_message option" where
  "Create_publication p ch ms =
     (if p \<le> 0 \<or> TrimSpace ch = [] \<or> length ch < 1 \<or> length ch > 100 then None
      else Some \<lparr>pb_ProjectID = p, pb_ChannelName = ch, pb_Messages = ms\<rparr>)"

section \<open>Log broadcaster\<close>

definition PublishLog :: "project_id \<Rightarrow> log_type \<Rightarrow> plog_event \<Rightarrow> mworld \<Rightarrow> mworld" where
  "PublishLog p t e w = w\<lparr>m_logs := m_logs w @ [(p, t, e)]\<rparr>"

definition log_message :: "project_id \<Rightarrow> log_type \<Rightarrow> plog_event \<Rightarrow> pub_message" where
  "log_message p t e = \<lparr>pb_ProjectID = p, pb_ChannelName = ''_logs'',
     pb_Messages = [\<lparr>pl_Alias = None, pl_Event = Some (log_type_name t), pl_Data = Some (plog_event_json e)\<rparr>]\<rparr>"

text \<open>The goroutine of \<open>PublishLog\<close> for the \<open>k\<close>-th event that waits.\<close>

definition publish_pending_log :: "menv \<Rightarrow> nat \<Rightarrow> mworld \<Rightarrow> mworld" where
  "publish_pending_log env k w =
     (if k < length (m_logs w)
      then case m_logs w ! k of
             (p, t, e) \<Rightarrow> snd (Publish env [] (log_message p t e) True
                            (w\<lparr>m_logs := take k (m_logs w) @ drop (k + 1) (m_logs w)\<rparr>))
      else w)"

end
