(* ===== verification/WsHandler.thy ===== *)
theory WsHandler
  imports ClientService
begin

text \<open>
  \<open>internal/api/websocket/handler\<close>: what the server does with a WebSocket connection, from the upgrade to
  the disconnection, and with each message a client sends.  The code reads the permission of a client
  through a pointer without a check; a handler that meets none panics, and nothing recovers it
  (\<^const>\<open>None\<close>).  Reading a message yields its JSON value (\<open>ws_parse\<close>, \<^const>\<open>None\<close> for text that is not
  JSON).  A delayed log event is handed to the broadcaster at once; when it is published is free anyway.
\<close>

record ws_env =
  ws_parse :: "string \<Rightarrow> json option"
  ws_nf :: "string \<Rightarrow> string option"
  ws_rt :: "string \<Rightarrow> time option"
  ws_zero :: time
  ws_region :: string
  ws_zone :: string
  ws_vm :: string
  ws_logs :: bool

section \<open>Parts\<close>

definition Site :: "ws_env \<Rightarrow> string" where
  "Site e = ws_region e @ ''-'' @ ws_zone e"

definition ServerID :: "ws_env \<Rightarrow> ulid \<Rightarrow> string" where
  "ServerID e instanceID = ws_vm e @ ''.'' @ instanceID"

definition Get_conn :: "ulid \<Rightarrow> mworld \<Rightarrow> conn_error + conn_ref" where
  "Get_conn connID w = FindByID_conn connID (cs_repo (m_conns w))"

definition map_conn :: "(connection \<Rightarrow> connection) \<Rightarrow> conn_ref \<Rightarrow> mworld \<Rightarrow> mworld" where
  "map_conn f r w = w\<lparr>m_conns := (m_conns w)\<lparr>cs_heap := (cs_heap (m_conns w))(r := f (cs_heap (m_conns w) r))\<rparr>\<rparr>"

definition removeAPIKey :: "ulid \<Rightarrow> mworld \<Rightarrow> mworld" where
  "removeAPIKey connID w = w\<lparr>m_apiKeys := (m_apiKeys w)(connID := None)\<rparr>"

definition sendErrorResponse :: "menv \<Rightarrow> ulid \<Rightarrow> code \<Rightarrow> string \<Rightarrow> int \<Rightarrow> mworld \<Rightarrow> mworld" where
  "sendErrorResponse env connID c msg status w =
     snd (SendMessage env connID (me_json env (base_json (NewMessage ActError (Some (err_info c msg status))))) w)"

text \<open>A log event about a connection that is still registered.\<close>

definition conn_log ::
    "ws_env \<Rightarrow> ulid \<Rightarrow> project_id \<Rightarrow> log_type \<Rightarrow> string \<Rightarrow> ulid option \<Rightarrow> string option \<Rightarrow> error_details option \<Rightarrow> mworld \<Rightarrow> mworld" where
  "conn_log e connID p t msg clientID ch err w =
     (if \<not> ws_logs e then w
      else case Get_conn connID w of
             Inl _ \<Rightarrow> w
           | Inr r \<Rightarrow>
               let c = cs_heap (m_conns w) r
               in PublishLog p t (CreateEvent \<lparr>lp_Message = msg, lp_ConnectionID = Some connID, lp_ClientID = clientID,
                    lp_Alias = None, lp_ChannelName = ch, lp_APIKey = m_apiKeys w connID, lp_RemoteAddr = conn_RemoteAddr c,
                    lp_UserAgent = Some (conn_UserAgent c), lp_Origin = None, lp_Site = Site e, lp_Error = err\<rparr>) w)"

section \<open>Messages of a client\<close>

definition handleSubscribeMessage :: "menv \<Rightarrow> ws_env \<Rightarrow> ulid \<Rightarrow> ulid \<Rightarrow> json \<Rightarrow> mworld \<Rightarrow> mworld option" where
  "handleSubscribeMessage env e connID clientID j w =
     (case decode_channel j of
        None \<Rightarrow> Some (sendErrorResponse env connID EInvalidMessage ''Invalid subscribe message format'' StatusCodeBadRequest w)
      | Some m \<Rightarrow>
          (case GetClient connID w of
             Inl _ \<Rightarrow> Some (sendErrorResponse env connID ENotFound ''Client not found'' StatusCodeNotFound w)
           | Inr c \<Rightarrow>
               (case cl_Permission (m_cheap w c) of
                  None \<Rightarrow> None
                | Some permData \<Rightarrow>
                    (case CanSubscribe (ws_parse e) permData (cm_Channel m) of
                       Inl _ \<Rightarrow> Some (sendErrorResponse env connID EBadRequest ''Invalid permission format'' StatusCodeBadRequest w)
                     | Inr False \<Rightarrow>
                         Some (sendErrorResponse env connID EForbidden
                           (''Permission denied to subscribe to channel: '' @ cm_Channel m) StatusCodeForbidden w)
                     | Inr True \<Rightarrow>
                         (case GetOrCreateSubscription env clientID w of
                            (r, w) \<Rightarrow>
                              let w = (if cl_SubscriptionID (m_cheap w c) = None
                                       then put_client c (SetSubscriptionID (sub_ID (m_heap w r)) (m_cheap w c)) w else w);
                                  p = cl_ProjectID (m_cheap w c)
                              in case Subscribe env (cm_Channel m) r p w of
                                   (Inl _, w) \<Rightarrow> Some w
                                 | (Inr _, w) \<Rightarrow> Some (conn_log e connID p EventSubscribed ''Subscription created''
                                                   (Some clientID) (Some (cm_Channel m)) None w))))))"

definition handleUnsubscribeMessage :: "menv \<Rightarrow> ws_env \<Rightarrow> ulid \<Rightarrow> ulid \<Rightarrow> json \<Rightarrow> mworld \<Rightarrow> mworld option" where
  "handleUnsubscribeMessage env e connID clientID j w =
     Some (case decode_channel j of
        None \<Rightarrow> sendErrorResponse env connID EInvalidMessage ''Invalid unsubscribe message format'' StatusCodeBadRequest w
      | Some m \<Rightarrow>
          (case GetClient connID w of
             Inl _ \<Rightarrow> sendErrorResponse env connID ENotFound ''Client not found'' StatusCodeNotFound w
           | Inr c \<Rightarrow>
               (case cl_SubscriptionID (m_cheap w c) of
                  None \<Rightarrow> sendErrorResponse env connID ESubscriptionClosed ''No active subscription'' StatusCodeNotFound w
                | Some subID \<Rightarrow>
                    (case Get_sub env subID w of
                       Inl _ \<Rightarrow> sendErrorResponse env connID ESubscriptionClosed ''Subscription not found'' StatusCodeNotFound w
                     | Inr r \<Rightarrow>
                         (let p = cl_ProjectID (m_cheap w c)
                          in case Unsubscribe env (cm_Channel m) r p w of
                               (Inl _, w) \<Rightarrow> w
                             | (Inr _, w) \<Rightarrow> conn_log e connID p EventUnsubscribed ''Subscription closed''
                                               (Some clientID) (Some (cm_Channel m)) None w)))))"

definition handlePublishMessage :: "menv \<Rightarrow> ws_env \<Rightarrow> ulid \<Rightarrow> json \<Rightarrow> mworld \<Rightarrow> mworld option" where
  "handlePublishMessage env e connID j w =
     (case decode_data (ws_nf e) (ws_rt e) (ws_zero e) j of
        None \<Rightarrow> Some (sendErrorResponse env connID EInvalidMessage ''Invalid publish message format'' StatusCodeBadRequest w)
      | Some m \<Rightarrow>
          (case GetClient connID w of
             Inl _ \<Rightarrow> Some (sendErrorResponse env connID ENotFound ''Client not found'' StatusCodeNotFound w)
           | Inr c \<Rightarrow>
               (case cl_Permission (m_cheap w c) of
                  None \<Rightarrow> None
                | Some permData \<Rightarrow>
                    (case CanPublish (ws_parse e) permData (dm_Channel m) of
                       Inl _ \<Rightarrow> Some (sendErrorResponse env connID EBadRequest ''Invalid permission format'' StatusCodeBadRequest w)
                     | Inr False \<Rightarrow>
                         Some (sendErrorResponse env connID EForbidden
                           (''Permission denied to publish to channel: '' @ dm_Channel m) StatusCodeForbidden w)
                     | Inr True \<Rightarrow>
                         (case Create_publication (cl_ProjectID (m_cheap w c)) (dm_Channel m) (dm_Messages m) of
                            None \<Rightarrow> Some (sendErrorResponse env connID EInternal ''Failed to create publication message'' StatusCodeInternal w)
                          | Some pm \<Rightarrow> Some (snd (Publish env connID pm False w)))))))"

definition UpdateClientPing :: "time \<Rightarrow> connection \<Rightarrow> connection" where
  "UpdateClientPing now c = c\<lparr>conn_LastClientPingAt := now\<rparr>"

definition UpdateClientPong :: "time \<Rightarrow> connection \<Rightarrow> connection" where
  "UpdateClientPong now c = c\<lparr>conn_LastClientPongAt := now\<rparr>"

definition handlePingMessage :: "menv \<Rightarrow> ulid \<Rightarrow> json \<Rightarrow> mworld \<Rightarrow> mworld option" where
  "handlePingMessage env connID j w =
     Some (case decode_ping j of
        None \<Rightarrow> sendErrorResponse env connID EInvalidMessage ''Invalid ping message format'' StatusCodeBadRequest w
      | Some m \<Rightarrow>
          let w = (case Get_conn connID w of Inl _ \<Rightarrow> w | Inr r \<Rightarrow> map_conn (UpdateClientPing (me_now env)) r w)
          in snd (SendMessage env connID (me_json env (ping_json ActPong (pm_ID m))) w))"

definition handlePongMessage :: "menv \<Rightarrow> ulid \<Rightarrow> json \<Rightarrow> mworld \<Rightarrow> mworld option" where
  "handlePongMessage env connID j w =
     Some (case decode_ping j of
        None \<Rightarrow> sendErrorResponse env connID EInvalidMessage ''Invalid pong message format'' StatusCodeBadRequest w
      | Some m \<Rightarrow> (case Get_conn connID w of Inl _ \<Rightarrow> w | Inr r \<Rightarrow> map_conn (UpdateClientPong (me_now env)) r w))"

definition handleMessage :: "menv \<Rightarrow> ws_env \<Rightarrow> ulid \<Rightarrow> ulid \<Rightarrow> bytes \<Rightarrow> mworld \<Rightarrow> mworld option" where
  "handleMessage env e connID clientID msg w =
     (case ws_parse e msg of
        None \<Rightarrow> Some (sendErrorResponse env connID EInvalidMessage ''Invalid message format'' StatusCodeBadRequest w)
      | Some j \<Rightarrow>
          (case decode_base j of
             None \<Rightarrow> Some (sendErrorResponse env connID EInvalidMessage ''Invalid message format'' StatusCodeBadRequest w)
           | Some b \<Rightarrow>
               if bm_Action b = ActSubscribe then handleSubscribeMessage env e connID clientID j w
               else if bm_Action b = ActUnsubscribe then handleUnsubscribeMessage env e connID clientID j w
               else if bm_Action b = ActPublish then handlePublishMessage env e connID j w
               else if bm_Action b = ActPing then handlePingMessage env connID j w
               else if bm_Action b = ActPong then handlePongMessage env connID j w
               else Some (sendErrorResponse env connID EInvalidAction
                      (''Unsupported action: '' @ show_int (bm_Action b)) StatusCodeBadRequest w)))"

text \<open>One round of the read loop: the receive counters, then the message in a goroutine of its own.\<close>

definition receive :: "menv \<Rightarrow> ws_env \<Rightarrow> ulid \<Rightarrow> ulid \<Rightarrow> bytes \<Rightarrow> mworld \<Rightarrow> mworld option" where
  "receive env e connID clientID msg w =
     handleMessage env e connID clientID msg
       (case Get_conn connID w of Inl _ \<Rightarrow> w
        | Inr r \<Rightarrow> map_conn (UpdateRecv (me_now env) (int (length msg))) r w)"

definition SendPingToClient :: "menv \<Rightarrow> ulid \<Rightarrow> mworld \<Rightarrow> (send_error + unit) \<times> mworld" where
  "SendPingToClient env connID w =
     (let n = i64 (m_pingCounter w + 1)
      in SendMessage env connID (me_json env (ping_json ActPing n)) (w\<lparr>m_pingCounter := n\<rparr>))"

section \<open>Connecting\<close>

definition sendConnectedMessage :: "menv \<Rightarrow> ws_env \<Rightarrow> ulid \<Rightarrow> ulid \<Rightarrow> mworld \<Rightarrow> mworld" where
  "sendConnectedMessage env e connID clientID w =
     (let alias = (case GetClient connID w of Inl _ \<Rightarrow> None | Inr c \<Rightarrow> cl_Alias (m_cheap w c));
          m = NewConnectionMessage ActConnected connID (Some clientID) (Some (ServerID e (me_instance env))) alias None
      in snd (SendMessage env connID (me_json env (conn_json m)) w))"

record ws_request =
  rq_RemoteAddr :: string
  rq_UserAgent :: string
  rq_Origin :: string
  rq_Project :: project_id
  rq_APIKeyID :: int
  rq_APIPublicKey :: string
  rq_Alias :: "string option"
  rq_Permission :: "string option"

definition opened_log :: "ws_env \<Rightarrow> ws_request \<Rightarrow> ulid \<Rightarrow> log_type \<Rightarrow> string \<Rightarrow> ulid option \<Rightarrow> mworld \<Rightarrow> mworld" where
  "opened_log e q connID t msg clientID w =
     (if \<not> ws_logs e then w
      else PublishLog (rq_Project q) t (CreateEvent \<lparr>lp_Message = msg, lp_ConnectionID = Some connID, lp_ClientID = clientID,
             lp_Alias = None, lp_ChannelName = None, lp_APIKey = Some (rq_APIPublicKey q), lp_RemoteAddr = rq_RemoteAddr q,
             lp_UserAgent = Some (rq_UserAgent q), lp_Origin = Some (rq_Origin q), lp_Site = Site e, lp_Error = None\<rparr>) w)"

text \<open>The new connection object.\<close>

definition accept_conn :: "menv \<Rightarrow> ws_request \<Rightarrow> mworld \<Rightarrow> mworld" where
  "accept_conn env q w =
     w\<lparr>m_conns := (m_conns w)\<lparr>cs_heap := (cs_heap (m_conns w))(m_nextRef w :=
         New_connection (me_connID env) (me_now env) (rq_Project q) (rq_RemoteAddr q) (rq_UserAgent q))\<rparr>,
       m_nextRef := m_nextRef w + 1\<rparr>"

text \<open>\<open>HandleConnection\<close> after the upgrade succeeded; the result is the session that the read loop
  serves.\<close>

definition HandleConnection :: "menv \<Rightarrow> ws_env \<Rightarrow> ws_request \<Rightarrow> mworld \<Rightarrow> (ulid \<times> ulid) option \<times> mworld" where
  "HandleConnection env e q w =
     (let r = m_nextRef w; connID = me_connID env;
          w = accept_conn env q w
      in case Register_conn r (m_conns w) of
           (Inl _, s) \<Rightarrow> (None, w\<lparr>m_conns := s\<rparr>)
         | (Inr _, s) \<Rightarrow>
             let w = w\<lparr>m_conns := s, m_apiKeys := (m_apiKeys w)(connID \<mapsto> rq_APIPublicKey q)\<rparr>;
                 w = opened_log e q connID EventConnectionOpened ''Connection opened'' None w
             in case Connect env connID (rq_Project q) (rq_APIKeyID q) (rq_Alias q) (rq_Permission q) w of
                  (Inl _, w) \<Rightarrow> (None, snd (close_w connID w))
                | (Inr cl, w) \<Rightarrow>
                    let clientID = cl_ID (m_cheap w cl);
                        w = opened_log e q connID LogClientConnected ''Client connected'' (Some clientID) w;
                        w = sendConnectedMessage env e connID clientID w
                    in (Some (connID, clientID), RegisterConnection connID (rq_Project q) clientID w))"

section \<open>Disconnecting\<close>

text \<open>The read loop ends: an unexpected error is logged, then the session is torn down.\<close>

definition read_error_log :: "ws_env \<Rightarrow> ulid \<Rightarrow> ulid \<Rightarrow> string \<Rightarrow> mworld \<Rightarrow> mworld" where
  "read_error_log e connID clientID err w =
     (case Get_conn connID w of Inl _ \<Rightarrow> w
      | Inr r \<Rightarrow> conn_log e connID (conn_ProjectID (cs_heap (m_conns w) r)) EventConnectionError ''WebSocket read error''
                   (Some clientID) None (Some \<lparr>ed_Message = err, ed_Code = []\<rparr>) w)"

definition close_client_subscription :: "menv \<Rightarrow> client_ref \<Rightarrow> mworld \<Rightarrow> mworld" where
  "close_client_subscription env c w =
     (case cl_SubscriptionID (m_cheap w c) of
        None \<Rightarrow> w
      | Some subID \<Rightarrow> (case Get_sub env subID w of Inl _ \<Rightarrow> w | Inr r \<Rightarrow> snd (CloseSubscription env r w)))"

definition HandleDisconnection :: "menv \<Rightarrow> ws_env \<Rightarrow> ulid \<Rightarrow> ulid \<Rightarrow> mworld \<Rightarrow> mworld" where
  "HandleDisconnection env e connID clientID w =
     (let found = GetClient connID w;
          w = (case found of Inl _ \<Rightarrow> w
               | Inr c \<Rightarrow> conn_log e connID (cl_ProjectID (m_cheap w c)) LogClientDisconnected ''Client disconnected''
                            (Some clientID) None None (close_client_subscription env c w));
          w = snd (Disconnect env connID w);
          w = snd (close_w connID w);
          w = (case found of Inl _ \<Rightarrow> w
               | Inr c \<Rightarrow> conn_log e connID (cl_ProjectID (m_cheap w c)) EventConnectionClosed ''Connection closed'' None None None w);
          w = removeAPIKey connID w
      in UnregisterConnection connID clientID w)"

definition read_loop_end :: "menv \<Rightarrow> ws_env \<Rightarrow> ulid \<Rightarrow> ulid \<Rightarrow> string option \<Rightarrow> mworld \<Rightarrow> mworld" where
  "read_loop_end env e connID clientID err w =
     HandleDisconnection env e connID clientID
       (case err of None \<Rightarrow> w | Some t \<Rightarrow> read_error_log e connID clientID t w)"

text \<open>A failed ping closes the connection in the registry.\<close>

definition ping_failed :: "ulid \<Rightarrow> mworld \<Rightarrow> mworld" where
  "ping_failed connID w = snd (close_w connID w)"

definition pong_received :: "menv \<Rightarrow> conn_ref \<Rightarrow> mworld \<Rightarrow> mworld" where
  "pong_received env r w = map_conn (UpdatePong (me_now env)) r w"

end
