(* ===== verification/MsgFrames.thy ===== *)
theory MsgFrames
  imports WsHandler
begin

text \<open>
  What the operations of the messaging runtime leave alone, and the well-formedness of the outbound
  pipelines: lemmas that the properties of the router, of the services and of the handler share.
\<close>

section \<open>Output to a client\<close>

definition pipes_ok :: "(ulid \<Rightarrow> pipeline option) \<Rightarrow> bool" where
  "pipes_ok P \<longleftrightarrow> (\<forall>c p. P c = Some p \<longrightarrow> pp_connID p = c \<and> pp_capacity p = 256 \<and>
     length (pp_queue p) \<le> 256 \<and> \<not> pp_stopped p)"

lemma pipes_okD: "pipes_ok P \<Longrightarrow> P c = Some p \<Longrightarrow> pp_connID p = c \<and> pp_capacity p = 256 \<and>
     length (pp_queue p) \<le> 256 \<and> \<not> pp_stopped p"
  by (simp add: pipes_ok_def)

lemma pipes_ok_upd: "pipes_ok P \<Longrightarrow> pp_connID p = c \<Longrightarrow> pp_capacity p = 256 \<Longrightarrow> length (pp_queue p) \<le> 256 \<Longrightarrow>
    \<not> pp_stopped p \<Longrightarrow> pipes_ok (P(c \<mapsto> p))"
  by (simp add: pipes_ok_def)

lemma pipes_ok_del: "pipes_ok P \<Longrightarrow> pipes_ok (P(c := None))"
  by (simp add: pipes_ok_def)

text \<open>The registry stays consistent and gains no connection.\<close>

definition conns_le :: "conn_svc \<Rightarrow> conn_svc \<Rightarrow> bool" where
  "conns_le s s' \<longleftrightarrow> (svc_inv s \<longrightarrow> svc_inv s' \<and> connections (cs_repo s') \<subseteq>\<^sub>m connections (cs_repo s))"

lemma conns_le_refl [simp]: "conns_le s s"
  by (simp add: conns_le_def)

lemma conns_le_trans: "conns_le s1 s2 \<Longrightarrow> conns_le s2 s3 \<Longrightarrow> conns_le s1 s3"
  unfolding conns_le_def using map_le_trans by metis

text \<open>Steps that touch nothing but connections, telemetry, pipelines and sockets, and keep these well
  formed.\<close>

definition io :: "mworld \<Rightarrow> mworld \<Rightarrow> bool" where
  "io w w' \<longleftrightarrow>
     (\<exists>c t p x. w' = w\<lparr>m_conns := c, m_telemetry := t, m_pipelines := p, m_wire := x\<rparr>) \<and>
     conns_le (m_conns w) (m_conns w') \<and>
     (pipes_ok (m_pipelines w) \<longrightarrow> pipes_ok (m_pipelines w'))"

lemma io_frame:
  assumes "io w w'"
  shows "m_heap w' = m_heap w" "m_subs w' = m_subs w" "m_channels w' = m_channels w" "m_listening w' = m_listening w"
    "m_clientConn w' = m_clientConn w" "m_subCache w' = m_subCache w" "m_buffers w' = m_buffers w" "m_gate w' = m_gate w"
    "m_cheap w' = m_cheap w" "m_clients w' = m_clients w" "m_bus w' = m_bus w" "m_pending w' = m_pending w"
    "m_cleanups w' = m_cleanups w" "m_apiKeys w' = m_apiKeys w" "m_nextRef w' = m_nextRef w" "m_nats w' = m_nats w"
    "m_logs w' = m_logs w" "m_pingCounter w' = m_pingCounter w"
proof -
  obtain c t p x where "w' = w\<lparr>m_conns := c, m_telemetry := t, m_pipelines := p, m_wire := x\<rparr>"
    using assms by (auto simp: io_def)
  then show"m_heap w' = m_heap w" "m_subs w' = m_subs w" "m_channels w' = m_channels w" "m_listening w' = m_listening w" "m_clientConn w' = m_clientConn w" "m_subCache w' = m_subCache w" "m_buffers w' = m_buffers w" "m_gate w' = m_gate w" "m_cheap w' = m_cheap w" "m_clients w' = m_clients w" "m_bus w' = m_bus w" "m_pending w' = m_pending w" "m_cleanups w' = m_cleanups w" "m_apiKeys w' = m_apiKeys w" "m_nextRef w' = m_nextRef w" "m_nats w' = m_nats w" "m_logs w' = m_logs w" "m_pingCounter w' = m_pingCounter w"
    by simp_all
qed

lemma ioI:
  "w' = w\<lparr>m_conns := c, m_telemetry := t, m_pipelines := p, m_wire := x\<rparr> \<Longrightarrow>
   conns_le (m_conns w) c \<Longrightarrow> (pipes_ok (m_pipelines w) \<Longrightarrow> pipes_ok p) \<Longrightarrow> io w w'"
  by (auto simp: io_def)

lemma io_refl [simp]: "io w w"
  by (rule ioI [where c = "m_conns w" and t = "m_telemetry w" and p = "m_pipelines w" and x = "m_wire w"]) simp_all

lemma io_trans:
  assumes "io w1 w2" "io w2 w3"
  shows "io w1 w3"
proof -
  obtain c t p x where 2: "w2 = w1\<lparr>m_conns := c, m_telemetry := t, m_pipelines := p, m_wire := x\<rparr>"
    using assms(1) by (auto simp: io_def)
  obtain c t p x where 3: "w3 = w2\<lparr>m_conns := c, m_telemetry := t, m_pipelines := p, m_wire := x\<rparr>"
    using assms(2) by (auto simp: io_def)
  show ?thesis
    by (rule ioI [where c = c and t = t and p = p and x = x])
      (use assms 2 3 conns_le_trans in \<open>auto simp: io_def\<close>)
qed

lemma io_send: "send_w env c msg w = (res, w') \<Longrightarrow> io w w'"
proof -
  assume a: "send_w env c msg w = (res, w')"
  obtain r s where s: "Send_conn (me_sock env) (me_now env) c msg (m_conns w) = (r, s)" by fastforce
  then have "conns_le (m_conns w) s" using Send_conn_keeps [OF _ s] by (simp add: keeps_def conns_le_def)
  moreover have "w' = w\<lparr>m_conns := s, m_telemetry := m_telemetry w, m_pipelines := m_pipelines w, m_wire := m_wire w'\<rparr>"
    using a s by (cases r) (auto simp: send_w_def)
  ultimately show ?thesis using ioI [where w' = w' and w = w and x = "m_wire w'" and p = "m_pipelines w" and t = "m_telemetry w" and c = s] by blast
qed

lemma io_close: "close_w c w = (res, w') \<Longrightarrow> io w w'"
proof -
  assume a: "close_w c w = (res, w')"
  obtain r s where s: "Close_conn c (m_conns w) = (r, s)" by fastforce
  then have "conns_le (m_conns w) s" using Close_removes [of "m_conns w" c r s]
    by (auto simp: removes_def conns_le_def map_le_def)
  then show ?thesis using a s
    by (auto simp: close_w_def intro!: ioI [where t = "m_telemetry w" and p = "m_pipelines w" and x = "m_wire w" and c = s])
qed

lemma io_close_snd [simp]: "io w (snd (close_w c w))"
  using io_close by (metis prod.collapse)

lemma io_record [simp]: "io w (record_w env p d w)"
  unfolding record_w_def by (rule ioI [where c = "m_conns w" and p = "m_pipelines w" and x = "m_wire w"]) (rule refl | simp)+

lemma io_put_pipe:
  "(pipes_ok (m_pipelines w) \<Longrightarrow> pp_connID p = c \<and> pp_capacity p = 256 \<and> length (pp_queue p) \<le> 256 \<and> \<not> pp_stopped p) \<Longrightarrow>
   io w (put_pipe c p w)"
  unfolding put_pipe_def
  by (rule ioI [where c = "m_conns w" and t = "m_telemetry w" and x = "m_wire w" and p = "(m_pipelines w)(c \<mapsto> p)"]) (auto intro!: pipes_ok_upd)

lemma io_handleDrop:
  assumes "m_pipelines w c = Some p"
  shows "io w (handleDrop env c p reason depth w)"
proof -
  let ?p = "p\<lparr>pp_consecutiveDrops := i64 (pp_consecutiveDrops p + 1)\<rparr>"
  have "io w (put_pipe c ?p w)"
    using assms by (intro io_put_pipe) (auto dest!: pipes_okD)
  then have "io w (recordDropped env ?p reason depth (put_pipe c ?p w))"
    unfolding recordDropped_def using io_record io_trans by blast
  then show ?thesis unfolding handleDrop_def Let_def using io_close_snd io_trans by auto
qed

lemma io_Enqueue_pipe:
  assumes "m_pipelines w c = Some p" "Enqueue_pipe env c p msg w = (res, w')"
  shows "io w w'"
proof -
  have "io w (put_pipe c (p\<lparr>pp_queue := pp_queue p @ [msg]\<rparr>) w)" if "int (length (pp_queue p)) < pp_capacity p"
    using assms(1) that by (intro io_put_pipe) (auto dest!: pipes_okD)
  then show ?thesis using assms(2) io_handleDrop [OF assms(1)] by (auto simp: Enqueue_pipe_def split: if_splits)
qed

lemma io_Enqueue_reg: "Enqueue_reg env c msg w = (res, w') \<Longrightarrow> io w w'"
  using io_Enqueue_pipe by (auto simp: Enqueue_reg_def split: option.splits)

lemma io_Deliver: "Deliver env cl msg w = (res, w') \<Longrightarrow> io w w'"
  using io_Enqueue_reg by (auto simp: Deliver_def split: option.splits)

lemma io_Deliver_snd [simp]: "io w (snd (Deliver env cl msg w))"
  using io_Deliver by (metis prod.collapse)

lemma io_deliver:
  assumes "m_pipelines w c = Some p"
  shows "io w (deliver env c p msg w)"
proof -
  obtain res w1 where s: "send_w env (pp_connID p) msg w = (res, w1)" by fastforce
  have 1: "io w w1" using io_send [OF s] .
  have P: "m_pipelines w1 = m_pipelines w"
    using s by (auto simp: send_w_def split: prod.splits sum.splits)
  have "io w1 (put_pipe c (p\<lparr>pp_consecutiveDrops := 0\<rparr>) w1)"
    using assms unfolding P [symmetric] by (intro io_put_pipe) (auto dest!: pipes_okD)
  then show ?thesis using s io_trans [OF 1] io_trans io_record
    by (auto simp: deliver_def split: sum.split)
qed

lemma io_run_step: "run_step env c w = Some w' \<Longrightarrow> io w w'"
proof -
  assume a: "run_step env c w = Some w'"
  then obtain p msg rest where p: "m_pipelines w c = Some p" "pp_queue p = msg # rest"
    and w': "w' = deliver env c (p\<lparr>pp_queue := rest\<rparr>) msg (put_pipe c (p\<lparr>pp_queue := rest\<rparr>) w)"
    by (auto simp: run_step_def Let_def split: option.splits if_splits list.splits)
  have 1: "io w (put_pipe c (p\<lparr>pp_queue := rest\<rparr>) w)"
    using p by (intro io_put_pipe) (auto dest!: pipes_okD)
  have "m_pipelines (put_pipe c (p\<lparr>pp_queue := rest\<rparr>) w) c = Some (p\<lparr>pp_queue := rest\<rparr>)" by (simp add: put_pipe_def)
  from io_deliver [OF this] w' show ?thesis using io_trans [OF 1] by simp
qed

lemma io_run_n: "io w (run_n env c n w)"
  by (induction n arbitrary: w) (auto split: option.split intro: io_trans io_run_step)

lemma io_RegisterConnection: "io w (put_pipe c (NewPipeline c p 256 0) w)"
  by (rule io_put_pipe) (simp add: NewPipeline_def)

lemma io_Unregister_pipe: "io w (Unregister_pipe c w)"
  unfolding Unregister_pipe_def
  by (rule ioI [where c = "m_conns w" and t = "m_telemetry w" and x = "m_wire w" and p = "(m_pipelines w)(c := None)"])
    (auto intro!: pipes_ok_del)

lemma io_sendSubscriptionState [simp]: "io w (sendSubscriptionState env action r ch err w)"
  by (simp add: sendSubscriptionState_def Let_def)

end
