(* ===== verification/MsgInv.thy ===== *)
theory MsgInv
  imports MsgFrames
begin

text \<open>
  The invariant of the messaging runtime and its preservation by every operation: the registries of
  connections, clients, subscriptions and channels are consistent, no closed subscription is left in
  the index, every client can be checked for its permission, and the buffers and pipelines are within
  their capacity.
\<close>

section \<open>The invariant\<close>

definition live :: "sub_repo \<Rightarrow> (ulid \<Rightarrow> ref option) \<Rightarrow> ref set" where
  "live R cache = ran cache \<union> snd ` links R"

definition subs_ok :: "heap \<Rightarrow> sub_repo \<Rightarrow> (ulid \<Rightarrow> ref option) \<Rightarrow> nat \<Rightarrow> bool" where
  "subs_ok h R cache n \<longleftrightarrow> sub_inv h R \<and> (\<forall>r\<in>snd ` links R. \<not> sub_closed (h r)) \<and> live R cache \<subseteq> {..<n} \<and>
     inj_on (\<lambda>r. sub_ID (h r)) (live R cache) \<and> (\<forall>i r. cache i = Some r \<longrightarrow> sub_ClientID (h r) = i)"

definition clients_ok :: "client_heap \<Rightarrow> client_repo \<Rightarrow> nat \<Rightarrow> bool" where
  "clients_ok H C n \<longleftrightarrow>
     (\<forall>i r. clientsByID C i = Some r \<longrightarrow> cl_ID (H r) = i \<and> r < n \<and> cl_Permission (H r) \<noteq> None) \<and>
     (\<forall>k r. clientsByConnectionID C k = Some r \<longrightarrow> cl_ConnectionID (H r) = k \<and> clientsByID C (cl_ID (H r)) = Some r)"

definition buffers_ok :: "(ulid \<Rightarrow> bqueue option) \<Rightarrow> bool" where
  "buffers_ok B \<longleftrightarrow> (\<forall>i q. B i = Some q \<longrightarrow> q = NewBoundedQueue 256)"

definition conns_ok :: "conn_svc \<Rightarrow> nat \<Rightarrow> bool" where
  "conns_ok s n \<longleftrightarrow> svc_inv s \<and> ran (connections (cs_repo s)) \<subseteq> {..<n}"

definition msg_inv :: "mworld \<Rightarrow> bool" where
  "msg_inv w \<longleftrightarrow> conns_ok (m_conns w) (m_nextRef w) \<and> clients_ok (m_cheap w) (m_clients w) (m_nextRef w) \<and>
     subs_ok (m_heap w) (m_subs w) (m_subCache w) (m_nextRef w) \<and> chan_inv (m_channels w) \<and>
     pipes_ok (m_pipelines w) \<and> buffers_ok (m_buffers w)"

lemma msg_invD:
  assumes "msg_inv w"
  shows "conns_ok (m_conns w) (m_nextRef w)" "clients_ok (m_cheap w) (m_clients w) (m_nextRef w)"
    "subs_ok (m_heap w) (m_subs w) (m_subCache w) (m_nextRef w)" "chan_inv (m_channels w)"
    "pipes_ok (m_pipelines w)" "buffers_ok (m_buffers w)"
  using assms by (simp_all add: msg_inv_def)

lemma subs_okD:
  assumes "subs_ok h R cache n"
  shows "sub_inv h R" "r \<in> snd ` links R \<Longrightarrow> \<not> sub_closed (h r)" "live R cache \<subseteq> {..<n}"
    "inj_on (\<lambda>r. sub_ID (h r)) (live R cache)" "cache i = Some r \<Longrightarrow> sub_ClientID (h r) = i"
  using assms unfolding subs_ok_def by blast+

lemma live_own: "subs_ok h R cache n \<Longrightarrow> r \<in> live R cache \<Longrightarrow> own_ID h R r"
  unfolding subs_ok_def own_ID_def inj_on_def live_def by blast

section \<open>Operations that keep it\<close>

text \<open>\<open>ok w w'\<close>: the step keeps the invariant.  Every lemma below is of this form, and they chain.\<close>

definition ok :: "mworld \<Rightarrow> mworld \<Rightarrow> bool" where
  "ok w w' \<longleftrightarrow> (msg_inv w \<longrightarrow> msg_inv w')"

lemma ok_refl [simp]: "ok w w"
  by (simp add: ok_def)

lemma ok_trans [trans]: "ok w1 w2 \<Longrightarrow> ok w2 w3 \<Longrightarrow> ok w1 w3"
  by (simp add: ok_def)

lemma okD: "ok w w' \<Longrightarrow> msg_inv w \<Longrightarrow> msg_inv w'"
  by (simp add: ok_def)

lemma ran_map_le: "f \<subseteq>\<^sub>m g \<Longrightarrow> ran f \<subseteq> ran g"
  by (force simp: map_le_def ran_def dom_def)

lemma io_ok:
  assumes "io w w'"
  shows "ok w w'"
proof -
  have c: "conns_le (m_conns w) (m_conns w')" and p: "pipes_ok (m_pipelines w) \<Longrightarrow> pipes_ok (m_pipelines w')"
    using assms by (simp_all add: io_def)
  have "conns_ok (m_conns w) n \<Longrightarrow> conns_ok (m_conns w') n" for n
    using c ran_map_le [of "connections (cs_repo (m_conns w'))" "connections (cs_repo (m_conns w))"]
    unfolding conns_ok_def conns_le_def by blast
  then show ?thesis using p by (simp add: ok_def msg_inv_def io_frame [OF assms])
qed

text \<open>Updates of fields the invariant does not speak of.\<close>

lemma msg_inv_irrelevant [simp]:
  "msg_inv (w\<lparr>m_pending := a\<rparr>) = msg_inv w" "msg_inv (w\<lparr>m_cleanups := b\<rparr>) = msg_inv w"
  "msg_inv (w\<lparr>m_listening := c\<rparr>) = msg_inv w" "msg_inv (w\<lparr>m_nats := d\<rparr>) = msg_inv w"
  "msg_inv (w\<lparr>m_gate := e\<rparr>) = msg_inv w" "msg_inv (w\<lparr>m_logs := f\<rparr>) = msg_inv w"
  "msg_inv (w\<lparr>m_apiKeys := g\<rparr>) = msg_inv w" "msg_inv (w\<lparr>m_clientConn := i\<rparr>) = msg_inv w"
  "msg_inv (w\<lparr>m_bus := j\<rparr>) = msg_inv w" "msg_inv (w\<lparr>m_pingCounter := k\<rparr>) = msg_inv w"
  "msg_inv (w\<lparr>m_telemetry := l\<rparr>) = msg_inv w" "msg_inv (w\<lparr>m_wire := m\<rparr>) = msg_inv w"
  by (simp_all add: msg_inv_def)

lemma ok_emit [simp]: "ok w (emit_w env t d w)"
  by (simp add: emit_w_def ok_def)

lemma ok_record [simp]: "ok w (record_w env p d w)"
  by (simp add: record_w_def ok_def)

lemma ok_io_simps [simp]:
  "ok w (snd (Deliver env cl msg w))" "ok w (sendSubscriptionState env action r ch err w)" "ok w (snd (close_w c w))"
  by (simp_all add: io_ok)

lemma ok_send: "send_w env c msg w = (res, w') \<Longrightarrow> ok w w'"
  by (rule io_ok) (rule io_send)

lemma ok_Deliver: "Deliver env cl msg w = (res, w') \<Longrightarrow> ok w w'"
  by (rule io_ok) (rule io_Deliver)

subsection \<open>Broker and channels\<close>

lemma msg_inv_channels: "msg_inv w \<Longrightarrow> chan_inv R \<Longrightarrow> msg_inv (w\<lparr>m_channels := R\<rparr>)"
  by (simp add: msg_inv_def)

lemma ok_broker:
  "Subscribe_broker env ch w = (res, w') \<Longrightarrow> ok w w'" "Unsubscribe_broker env ch w = (res, w') \<Longrightarrow> ok w w'"
  "Publish_broker env ch msg w = (res, w') \<Longrightarrow> ok w w'"
  by (auto simp: Subscribe_broker_def Unsubscribe_broker_def Publish_broker_def ok_def split: if_splits)

lemma ok_broker_service:
  "ListenToChannel env ch w = (res', w') \<Longrightarrow> ok w w'" "StopListeningToChannel env ch w = (res', w') \<Longrightarrow> ok w w'"
  "PublishToChannel env ch msg w = (res', w') \<Longrightarrow> ok w w'"
  by (auto simp: ListenToChannel_def StopListeningToChannel_def PublishToChannel_def split: prod.splits sum.splits
      dest: ok_broker)

lemma chan_inv_count: "chan_inv R \<Longrightarrow> R n = Some c \<Longrightarrow> FullName c = n \<and> in64 (ch_LocalSubscriptions c)"
  by (simp add: chan_inv_def)

lemma ok_Update_chs:
  "Update_chs c w = (res, w') \<Longrightarrow> in64 (ch_LocalSubscriptions c) \<Longrightarrow> ok w w'"
  by (auto simp: Update_chs_def Update_ch_def ok_def intro!: msg_inv_channels chan_inv_upd dest: msg_invD(4) split: if_splits)

lemma ok_Create_chs: "Create_chs env raw p w = (res, w') \<Longrightarrow> ok w w'"
proof -
  assume a: "Create_chs env raw p w = (res, w')"
  let ?c = "New_channel (me_chanID env) (me_now env) (NewName raw p) (me_instance env)"
  have new: "ok w (w\<lparr>m_channels := (m_channels w)(Full (NewName raw p) \<mapsto> ?c)\<rparr>)"
    by (auto simp: ok_def in64_def intro!: msg_inv_channels chan_inv_upd dest: msg_invD(4))
  have upd: "ok v (snd (Update_chs (SetActive (me_now env) True ?c) v))" for v
    by (rule ok_Update_chs [OF prod.collapse [symmetric]]) (simp_all add: in64_def)
  show ?thesis using a ok_trans [OF new ok_trans [OF upd ok_emit]]
    by (auto simp: Create_chs_def Let_def Create_ch_def split: sum.splits if_splits)
qed

lemma ok_GetOrCreate_ch: "GetOrCreate_ch env raw p w = (res, w') \<Longrightarrow> ok w w'"
  by (auto simp: GetOrCreate_ch_def split: sum.splits if_splits dest: ok_Create_chs)

lemma ok_Delete_chs: "Delete_chs env raw p w = (res, w') \<Longrightarrow> ok w w'"
proof -
  assume a: "Delete_chs env raw p w = (res, w')"
  have s: "ok w (snd (StopListeningToChannel env full w))" for full
    by (rule ok_broker_service(2) [OF prod.collapse [symmetric]])
  have d: "ok v (v\<lparr>m_channels := (m_channels v)(n := None)\<rparr>)" for v n
    by (auto simp: ok_def intro!: msg_inv_channels chan_inv_del dest: msg_invD(4))
  have u: "v\<lparr>m_channels := m_channels v\<rparr> = v" for v :: mworld by simp
  show ?thesis using a s ok_trans [OF s d]
    by (auto simp: Delete_chs_def Let_def Delete_ch_def u split: sum.splits if_splits)
qed

lemma ok_performCleanup: "ok w (performCleanup env raw p w)"
proof -
  have c: "ok w (CancelCleanup raw p w)" by (simp add: CancelCleanup_def ok_def)
  show ?thesis
    using c ok_trans [OF c ok_Delete_chs] ok_trans [OF ok_trans [OF c ok_Delete_chs] ok_emit]
    by (auto simp: performCleanup_def Let_def split: sum.split prod.split)
qed

lemma run_handler_ok: "run_handler env h e w = (out, w') \<Longrightarrow> ok w w'"
  by (auto simp: run_handler_def handleChannelEmpty_def handleChannelSubscribed_def ScheduleCleanup_def CancelCleanup_def ok_def
      split: bus_handler.splits event_data.splits)

lemma publish_loop_ok: "publish_loop (run_handler env) e hs n w = (m, w') \<Longrightarrow> ok w w'"
proof (induction hs arbitrary: n w)
  case (Cons h hs)
  obtain out w1 where r: "run_handler env (reg_Handler h) e w = (out, w1)" by fastforce
  then obtain n1 where "publish_loop (run_handler env) e hs n1 w1 = (m, w')" using Cons.prems by (cases out) auto
  then show ?case using Cons.IH ok_trans run_handler_ok [OF r] by blast
qed simp

lemma ok_handle_pending: "ok w (handle_pending env k w)"
proof (cases "k < length (m_pending w)")
  case True
  obtain e hs where e: "m_pending w ! k = (e, hs)" by fastforce
  obtain m w' where l: "publish_loop (run_handler env) e hs 0 (w\<lparr>m_pending := take k (m_pending w) @ drop (k + 1) (m_pending w)\<rparr>) = (m, w')"
    by fastforce
  show ?thesis using publish_loop_ok [OF l] True e l
    by (simp add: handle_pending_def publishToHandlers_def ok_def)
qed (simp add: handle_pending_def)

subsection \<open>Subscriptions\<close>

lemma subs_ok_heap:
  "subs_ok h R cache n \<Longrightarrow> same_IDs h h' \<Longrightarrow> \<forall>x. sub_closed (h' x) = sub_closed (h x) \<Longrightarrow> subs_ok h' R cache n"
  by (simp add: subs_ok_def sub_inv_same_IDs) (simp add: same_IDs_def)

lemma subs_ok_fewer:
  "subs_ok h R cache n \<Longrightarrow> sub_inv h R' \<Longrightarrow> links R' \<subseteq> links R \<Longrightarrow> subs_ok h R' cache n"
proof -
  assume a: "subs_ok h R cache n" "sub_inv h R'" "links R' \<subseteq> links R"
  then have l: "live R' cache \<subseteq> live R cache" by (auto simp: live_def)
  then show ?thesis using a inj_on_subset [OF _ l] unfolding subs_ok_def by blast
qed

lemma msg_inv_new_sub:
  "msg_inv w \<Longrightarrow> subs_ok h (m_subs w) cache (m_nextRef w + 1) \<Longrightarrow>
   msg_inv (w\<lparr>m_heap := h, m_nextRef := m_nextRef w + 1, m_subCache := cache\<rparr>)"
  unfolding msg_inv_def conns_ok_def clients_ok_def by (fastforce simp: subset_eq)

lemma msg_inv_heap:
  assumes "msg_inv w" "subs_ok h (m_subs w) (m_subCache w) (m_nextRef w)"
  shows "msg_inv (w\<lparr>m_heap := h\<rparr>)"
  using assms by (simp add: msg_inv_def)

lemma msg_inv_heap_subs:
  assumes "msg_inv w" "subs_ok h R (m_subCache w) (m_nextRef w)"
  shows "msg_inv (w\<lparr>m_heap := h, m_subs := R\<rparr>)" "msg_inv (w\<lparr>m_subs := R, m_heap := h\<rparr>)"
  using assms by (simp_all add: msg_inv_def)

text \<open>The channels of a live subscription, read from the index.\<close>

lemma channels_of_spec:
  assumes "msg_inv w" "env_ok env" "r \<in> live (m_subs w) (m_subCache w)" "channels_of env r w = (res, w')"
  obtains chs h where "res = Inr chs" "distinct chs" "set chs = {ch. (ch, r) \<in> links (m_subs w)}"
    "w' = w\<lparr>m_heap := h\<rparr>" "same_IDs (m_heap w) h" "\<forall>x. sub_closed (h x) = sub_closed (m_heap w x)"
proof -
  note s = msg_invD(3) [OF assms(1)]
  obtain res' h where g: "GetAllChannelsForSubscription (me_names env) (me_now env) (Some r) (m_heap w) (m_subs w) = (res', h)"
    by fastforce
  have "enumerates (me_names env)" using assms(2) by (simp add: env_ok_def)
  from GetAllChannels_links [OF subs_okD(1) [OF s] live_own [OF s assms(3)] this g] g assms(4) that
  show thesis by (auto simp: channels_of_def)
qed

lemma ok_channels_of:
  assumes "env_ok env" "msg_inv w \<Longrightarrow> r \<in> live (m_subs w) (m_subCache w)" "channels_of env r w = (res, w')"
  shows "ok w w'"
  unfolding ok_def
proof
  assume i: "msg_inv w"
  obtain chs h where "w' = w\<lparr>m_heap := h\<rparr>" "same_IDs (m_heap w) h" "\<forall>x. sub_closed (h x) = sub_closed (m_heap w x)"
    using channels_of_spec [OF i assms(1) assms(2) [OF i] assms(3)] by metis
  then show "msg_inv w'" using msg_inv_heap [OF i] subs_ok_heap [OF msg_invD(3) [OF i]] by simp
qed

lemma subs_ok_add:
  assumes "subs_ok h R cache n" "r \<in> live R cache" "AddToChannel now ch (Some r) h R = (res, h', R')"
  shows "subs_ok h' R' cache n"
proof -
  have a: "sub_inv h' R'" "same_IDs h h'" "\<forall>x. sub_closed (h' x) = sub_closed (h x)"
    and l: "if sub_closed (h r) then res = Inl SubClosed \<and> links R' = links R
            else res = Inr () \<and> links R' = insert (ch, r) (links R)"
    using AddToChannel_links [OF subs_okD(1) [OF assms(1)] live_own [OF assms(1,2)] assms(3)] by simp_all
  have "live R' cache = live R cache" using l assms(2) by (auto simp: live_def split: if_splits)
  moreover have "\<forall>x\<in>snd ` links R'. \<not> sub_closed (h' x)"
    using l a(3) subs_okD(2) [OF assms(1)] by (auto split: if_splits)
  ultimately show ?thesis using assms(1) a(1,2) unfolding subs_ok_def by (simp add: same_IDs_def)
qed

lemma AddToChannel_nextRef: "AddToChannel now ch (Some r) h R = (res, h', R') \<Longrightarrow> same_IDs h h'"
  by (auto simp: AddToChannel_def Let_def split: if_splits)

text \<open>Steps that keep the index, the session map and the identifiers, so that what is known of a
  subscription stays known.\<close>

definition calm :: "mworld \<Rightarrow> mworld \<Rightarrow> bool" where
  "calm w w' \<longleftrightarrow> m_subs w' = m_subs w \<and> m_subCache w' = m_subCache w \<and> same_IDs (m_heap w) (m_heap w') \<and>
     (\<forall>x. sub_closed (m_heap w' x) = sub_closed (m_heap w x)) \<and> m_nextRef w' = m_nextRef w"

lemma calm_trans: "calm w1 w2 \<Longrightarrow> calm w2 w3 \<Longrightarrow> calm w1 w3"
  using same_IDs_trans by (auto simp: calm_def)

lemma calm_refl [simp]: "calm w w"
  by (simp add: calm_def)

lemma io_calm: "io w w' \<Longrightarrow> calm w w'"
  by (simp add: calm_def io_frame)

lemma calm_emit [simp]: "calm w (emit_w env t d w)"
  by (simp add: emit_w_def calm_def)

lemma calm_Update_chs: "Update_chs c w = (res, w') \<Longrightarrow> calm w w'"
  by (auto simp: Update_chs_def calm_def split: prod.splits)

lemma calm_GetOrCreate_ch: "GetOrCreate_ch env raw p w = (res, w') \<Longrightarrow> calm w w'"
  by (auto simp: GetOrCreate_ch_def Create_chs_def Let_def emit_w_def Update_chs_def calm_def
      split: sum.splits if_splits prod.splits)

lemma calm_broker: "ListenToChannel env ch w = (res, w') \<Longrightarrow> calm w w'"
  by (auto simp: ListenToChannel_def Subscribe_broker_def calm_def split: if_splits)

lemma calm_channels_of: "channels_of env r w = (res, w') \<Longrightarrow> calm w w'"
  by (auto simp: channels_of_def GetAllChannelsForSubscription_def calm_def Let_def
      split: prod.splits option.splits if_splits)

lemma ok_subscribe_new:
  assumes "msg_inv w" "r \<in> live (m_subs w) (m_subCache w)"
    "subscribe_new env raw r p ch w = (res, w')"
  shows "msg_inv w'"
proof -
  obtain e h R where a: "AddToChannel (me_now env) (FullName ch) (Some r) (m_heap w) (m_subs w) = (e, h, R)"
    by (metis prod.collapse)
  let ?w1 = "w\<lparr>m_heap := h, m_subs := R\<rparr>"
  have i1: "msg_inv ?w1"
    by (rule msg_inv_heap_subs(1) [OF assms(1) subs_ok_add [OF msg_invD(3) [OF assms(1)] assms(2) a]])
  show ?thesis
  proof (cases e)
    case (Inl x)
    then show ?thesis using assms(3) a okD [OF ok_io_simps(2) i1] by (auto simp: subscribe_new_def)
  next
    case (Inr x)
    obtain l w2 where l: "ListenToChannel env (FullName ch) ?w1 = (l, w2)" by fastforce
    have i2: "msg_inv w2" by (rule okD [OF ok_broker_service(1) [OF l] i1])
    have up: "ok w2 (snd (Update_chs (IncrementLocalSubscriptions (me_now env) ch) w2))"
      by (rule ok_Update_chs [OF prod.collapse [symmetric]]) simp
    show ?thesis
    proof (cases l)
      case Inl
      then show ?thesis using assms(3) a Inr l okD [OF ok_io_simps(2) i2]
        by (auto simp: subscribe_new_def EnsureChannelListening_def)
    next
      case l': Inr
      then show ?thesis using assms(3) a Inr l okD [OF ok_emit okD [OF ok_io_simps(2) okD [OF up i2]]]
        by (auto simp: subscribe_new_def EnsureChannelListening_def Let_def)
    qed
  qed
qed

lemma live_calm: "calm w w' \<Longrightarrow> live (m_subs w') (m_subCache w') = live (m_subs w) (m_subCache w)"
  by (simp add: calm_def)

lemma ok_Subscribe:
  assumes "msg_inv w" "env_ok env" "r \<in> live (m_subs w) (m_subCache w)" "Subscribe env raw r p w = (res, w')"
  shows "msg_inv w'"
proof (cases "sub_closed (m_heap w r)")
  case True
  then show ?thesis using assms okD [OF ok_io_simps(2) assms(1)] by (auto simp: Subscribe_def)
next
  case False
  obtain c w1 where g: "GetOrCreate_ch env raw p w = (c, w1)" by fastforce
  have i1: "msg_inv w1" and l1: "r \<in> live (m_subs w1) (m_subCache w1)"
    using okD [OF ok_GetOrCreate_ch [OF g] assms(1)] live_calm [OF calm_GetOrCreate_ch [OF g]] assms(3) by simp_all
  show ?thesis
  proof (cases c)
    case (Inl e)
    then show ?thesis using assms(4) False g okD [OF ok_io_simps(2) i1] by (auto simp: Subscribe_def)
  next
    case (Inr ch)
    obtain cs w2 where c2: "channels_of env r w1 = (cs, w2)" by fastforce
    have i2: "msg_inv w2" and l2: "r \<in> live (m_subs w2) (m_subCache w2)"
      using okD [OF ok_channels_of [OF assms(2) l1 c2] i1] live_calm [OF calm_channels_of [OF c2]] l1 by simp_all
    show ?thesis using assms(4) False g Inr c2 okD [OF ok_io_simps(2) i2] ok_subscribe_new [OF i2 l2]
      by (auto simp: Subscribe_def split: sum.splits if_splits)
  qed
qed

lemma Get_ch_in64: "msg_inv w \<Longrightarrow> Get_ch raw p w = Inr ch \<Longrightarrow> in64 (ch_LocalSubscriptions ch) \<and> FullName ch = Full (NewName raw p)"
  using chan_inv_count [OF msg_invD(4)] by (auto simp: Get_ch_def FindByName_ch_def split: option.splits)

lemma ok_decrement_channel:
  "ch = None \<or> (\<exists>c. ch = Some c \<and> in64 (ch_LocalSubscriptions c)) \<Longrightarrow> ok w (decrement_channel env ch w)"
  using ok_Update_chs [OF prod.collapse [symmetric]] by (auto simp: decrement_channel_def)

lemma ok_Unsubscribe:
  assumes "msg_inv w" "r \<in> live (m_subs w) (m_subCache w)" "Unsubscribe env raw r p w = (res, w')"
  shows "msg_inv w'"
proof -
  note s = msg_invD(3) [OF assms(1)]
  let ?full = "Full (NewName raw p)"
  define R where "R = snd (RemoveFromChannel ?full (Some r) (m_heap w) (m_subs w))"
  have "sub_inv (m_heap w) R \<and> links R = links (m_subs w) - {(?full, r)}"
    using RemoveFromChannel_links [OF subs_okD(1) [OF s] live_own [OF s assms(2)] prod.collapse [symmetric]]
    by (simp add: R_def)
  then have i1: "msg_inv (w\<lparr>m_subs := R\<rparr>)" "msg_inv w"
    using subs_ok_fewer [OF s, of R] assms(1) by (auto simp: msg_inv_def)
  have d: "ok v (decrement_channel env (case Get_ch raw p w of Inr ch \<Rightarrow> Some ch | Inl _ \<Rightarrow> None) v)" for v
    by (rule ok_decrement_channel) (use Get_ch_in64 [OF assms(1)] in \<open>auto split: sum.split\<close>)
  have e: "Get_ch raw p w = Inl err \<Longrightarrow> err = ChanNotFound" for err
    by (auto simp: Get_ch_def FindByName_ch_def split: option.splits)
  show ?thesis
    using assms(3) i1 okD [OF ok_emit okD [OF ok_io_simps(2) okD [OF d i1(1)]]] okD [OF ok_emit okD [OF ok_io_simps(2) okD [OF d i1(2)]]]
    by (auto simp: Unsubscribe_def Let_def sendUnsubscriptionState_def R_def [symmetric] split: sum.splits if_splits
        dest!: e Get_ch_in64 [OF assms(1)])
qed

lemma ok_close_loop: "ok w (close_loop env r chs w)"
proof (induction chs arbitrary: w)
  case (Cons full chs)
  show ?case
  proof (cases "FromFull full")
    case (Inr n)
    let ?c = "case Get_ch (name_raw n) (name_project n) w of Inr ch \<Rightarrow> Some ch | Inl _ \<Rightarrow> None"
    have d: "ok w (decrement_channel env ?c w)"
      unfolding ok_def
    proof
      assume i: "msg_inv w"
      show "msg_inv (decrement_channel env ?c w)"
        by (rule okD [OF ok_decrement_channel i]) (use Get_ch_in64 [OF i] in \<open>auto split: sum.split\<close>)
    qed
    show ?thesis using Inr ok_trans [OF ok_trans [OF d ok_emit] Cons.IH] by (simp add: Let_def)
  qed (use Cons.IH in simp)
qed simp

lemma subs_ok_close:
  assumes "subs_ok h R cache n" "r \<in> live R cache" "enumerates enum"
    "RemoveSubscriptionFromAll enum (Some r) (Close_sub r h) R = (res, R')"
  shows "subs_ok (Close_sub r h) R' cache n \<and> links R' = links R - UNIV \<times> {r}"
proof -
  have i: "sub_inv (Close_sub r h) R" and o: "own_ID (Close_sub r h) R r"
    using subs_okD(1) [OF assms(1)] live_own [OF assms(1,2)] sub_inv_same_IDs [of h "Close_sub r h"]
      same_IDs_update(2) [of h r] by (simp_all add: own_ID_def same_IDs_def)
  have l: "sub_inv (Close_sub r h) R'" "links R' = links R - UNIV \<times> {r}"
    using RemoveSubscriptionFromAll_links [OF i o assms(3,4)] by simp_all
  have sub: "live R' cache \<subseteq> live R cache" using l(2) by (auto simp: live_def)
  have ids: "sub_ID (Close_sub r h x) = sub_ID (h x)" "sub_ClientID (Close_sub r h x) = sub_ClientID (h x)" for x
    using same_IDs_update(2) [of h r] by (simp_all add: same_IDs_def)
  have "inj_on (\<lambda>x. sub_ID (h x)) (live R' cache)" using inj_on_subset [OF subs_okD(4) [OF assms(1)] sub] .
  moreover have "\<forall>x\<in>snd ` links R'. \<not> sub_closed (Close_sub r h x)" using l(2) subs_okD(2) [OF assms(1)] by auto
  moreover have "live R' cache \<subseteq> {..<n}" "\<forall>i x. cache i = Some x \<longrightarrow> sub_ClientID (h x) = i"
    using sub subs_okD(3,5) [OF assms(1)] by blast+
  ultimately show ?thesis using l by (simp add: subs_ok_def ids)
qed

lemma ok_CloseSubscription:
  assumes "msg_inv w" "env_ok env" "r \<in> live (m_subs w) (m_subCache w)" "CloseSubscription env r w = (res, w')"
  shows "msg_inv w'"
proof (cases "sub_closed (m_heap w r)")
  case True
  then show ?thesis using assms by (simp add: CloseSubscription_def)
next
  case False
  obtain cs w1 where c: "channels_of env r w = (cs, w1)" by fastforce
  have i1: "msg_inv w1" and l1: "r \<in> live (m_subs w1) (m_subCache w1)"
    using okD [OF ok_channels_of [OF assms(2,3) c] assms(1)] live_calm [OF calm_channels_of [OF c]] assms(3) by simp_all
  define R where "R = snd (RemoveSubscriptionFromAll (me_names env) (Some r) (Close_sub r (m_heap w1)) (m_subs w1))"
  have "enumerates (me_names env)" using assms(2) by (simp add: env_ok_def)
  then have "subs_ok (Close_sub r (m_heap w1)) R (m_subCache w1) (m_nextRef w1)"
    using subs_ok_close [OF msg_invD(3) [OF i1] l1 _ prod.collapse [symmetric]] by (simp add: R_def)
  then have i2: "msg_inv (w1\<lparr>m_heap := Close_sub r (m_heap w1), m_subs := R\<rparr>)" by (rule msg_inv_heap_subs(1) [OF i1])
  show ?thesis using assms(4) False c okD [OF ok_emit okD [OF ok_close_loop i2]]
    by (auto simp: CloseSubscription_def Let_def R_def)
qed

lemma ok_GetOrCreateSubscription:
  assumes "msg_inv w" "\<forall>x\<in>live (m_subs w) (m_subCache w). sub_ID (m_heap w x) \<noteq> me_subID env"
    "GetOrCreateSubscription env cl w = (r, w')"
  shows "msg_inv w' \<and> r \<in> live (m_subs w') (m_subCache w') \<and> \<not> sub_closed (m_heap w' r) \<and> sub_ClientID (m_heap w' r) = cl \<and>
    m_subs w' = m_subs w"
proof (cases "\<exists>x. m_subCache w cl = Some x \<and> \<not> sub_closed (m_heap w x)")
  case True
  then show ?thesis using assms subs_okD(5) [OF msg_invD(3) [OF assms(1)]]
    by (auto simp: GetOrCreateSubscription_def live_def ran_def)
next
  case False
  let ?n = "m_nextRef w"
  let ?h = "(m_heap w)(?n := New_subscription (me_subID env) (me_now env) cl)"
  let ?c = "(m_subCache w)(cl \<mapsto> ?n)"
  have w': "r = ?n" "w' = w\<lparr>m_heap := ?h, m_nextRef := ?n + 1, m_subCache := ?c\<rparr>"
    using assms(3) False by (auto simp: GetOrCreateSubscription_def split: option.splits if_splits)
  note s = msg_invD(3) [OF assms(1)]
  have lt: "x < ?n" if "x \<in> live (m_subs w) (m_subCache w)" for x using subs_okD(3) [OF s] that by blast
  then have nl: "?n \<notin> snd ` links (m_subs w)" "?n \<notin> live (m_subs w) (m_subCache w)" by (auto simp: live_def)
  have sub: "live (m_subs w) ?c \<subseteq> insert ?n (live (m_subs w) (m_subCache w))" by (auto simp: live_def ran_def)
  have eq: "?h x = m_heap w x" if "x \<in> live (m_subs w) (m_subCache w)" for x using nl that by auto
  have inj: "inj_on (\<lambda>x. sub_ID (?h x)) (insert ?n (live (m_subs w) (m_subCache w)))"
    using subs_okD(4) [OF s] assms(2) nl(2) by (auto simp: inj_on_def New_subscription_def)
  have "sub_inv ?h (m_subs w)"
  proof -
    have h: "\<forall>(c, x)\<in>links (m_subs w). sub_ID (?h x) = sub_ID (m_heap w x)"
      using nl(1) by (auto simp: image_iff)
    then have 1: "(\<lambda>(ch, x). (sub_ID (?h x), ch)) ` links (m_subs w) = (\<lambda>(ch, x). (sub_ID (m_heap w x), ch)) ` links (m_subs w)"
      by (intro image_cong) auto
    have 2: "inj_on (\<lambda>x. sub_ID (?h x)) (snd ` links (m_subs w))"
      by (rule inj_on_subset [OF inj]) (auto simp: live_def)
    show ?thesis using subs_okD(1) [OF s] unfolding sub_inv_def 1 using 2 by blast
  qed
  moreover have "\<forall>x\<in>snd ` links (m_subs w). \<not> sub_closed (?h x)"
  proof
    fix x assume x: "x \<in> snd ` links (m_subs w)"
    then have "x \<noteq> ?n" using nl(1) by blast
    then show "\<not> sub_closed (?h x)" using subs_okD(2) [OF s x] by simp
  qed
  moreover have "live (m_subs w) ?c \<subseteq> {..<?n + 1}" using sub lt by fastforce
  moreover have "inj_on (\<lambda>x. sub_ID (?h x)) (live (m_subs w) ?c)" by (rule inj_on_subset [OF inj sub])
  moreover have "\<forall>i x. ?c i = Some x \<longrightarrow> sub_ClientID (?h x) = i"
  proof (intro allI impI)
    fix i x assume c: "?c i = Some x"
    show "sub_ClientID (?h x) = i"
    proof (cases "i = cl")
      case True
      then show ?thesis using c by (simp add: New_subscription_def)
    next
      case False
      then have "m_subCache w i = Some x" using c by simp
      then show ?thesis using subs_okD(5) [OF s] nl(2) by (auto simp: live_def ran_def)
    qed
  qed
  ultimately have "subs_ok ?h (m_subs w) ?c (?n + 1)" unfolding subs_ok_def by blast
  then have "msg_inv w'" unfolding w'(2) by (rule msg_inv_new_sub [OF assms(1)])
  then show ?thesis using w' by (auto simp: live_def ran_def New_subscription_def)
qed

end
