(* ===== verification/MsgReach.thy ===== *)
theory MsgReach
  imports MsgInv
begin

text \<open>
  The router, the clients and the handler keep the invariant of the messaging runtime; the runtime as a
  whole as a step relation, its reachable states, and what holds in all of them.
\<close>

section \<open>Router\<close>

lemma ok_allow:
  "allow_in env p w = (b, w') \<Longrightarrow> ok w w'" "allow_out env p w = (b, w') \<Longrightarrow> ok w w'"
  by (auto simp: allow_in_def allow_out_def ok_def split: option.splits prod.splits)

lemma ok_PublishInbound: "PublishInbound env rq w = (res, w') \<Longrightarrow> ok w w'"
proof -
  assume a: "PublishInbound env rq w = (res, w')"
  show ?thesis
  proof (cases "rq_Message rq")
    case None
    then show ?thesis using a by (simp add: PublishInbound_def)
  next
    case (Some m)
    obtain b w1 where 1: "(if rq_SkipTelemetry rq then (True, w) else allow_in env (rq_ProjectID rq) w) = (b, w1)" by fastforce
    have o1: "ok w w1" using 1 ok_allow by (auto split: if_splits)
    obtain c w2 where 2: "GetOrCreate_ch env (rq_Channel rq) (rq_ProjectID rq) w1 = (c, w2)" by fastforce
    have o2: "ok w w2" using ok_trans [OF o1 ok_GetOrCreate_ch [OF 2]] .
    show ?thesis
    proof (cases "b \<and> \<not> isl c")
      case False
      then show ?thesis using a Some 1 2 o2 ok_trans [OF o1 ok_record]
        by (cases b; cases c) (auto simp: PublishInbound_def recordInboundRejected_def)
    next
      case True
      then obtain ch where ch: "c = Inr ch" by (cases c) auto
      obtain l w3 where 3: "EnsureChannelListening env (FullName ch) w2 = (l, w3)" by fastforce
      have o3: "ok w w3" using ok_trans [OF o2 ok_broker_service(1)] 3 by (simp add: EnsureChannelListening_def)
      let ?msg = "me_json env (data_json (me_time env) (broadcast_msg env rq m))"
      obtain q w4 where 4: "PublishToChannel env (FullName ch) ?msg w3 = (q, w4)" by fastforce
      have o4: "ok w w4" using ok_trans [OF o3 ok_broker_service(3) [OF 4]] .
      show ?thesis using a Some 1 2 True ch 3 4 o3 o4 ok_trans [OF o4 ok_record]
        by (cases l; cases q) (auto simp: PublishInbound_def Let_def)
    qed
  qed
qed

text \<open>A subscription buffer is empty between two operations: what \<open>deliverToSubscriber\<close> puts in, its
  flush takes out, whether the delivery succeeds or not.  So the whole detour through the buffer is one
  \<open>Deliver\<close>.\<close>

abbreviation empty_buffer :: bqueue where
  "empty_buffer \<equiv> NewBoundedQueue 256"

lemma buffers_okD: "buffers_ok B \<Longrightarrow> B i = None \<or> B i = Some empty_buffer"
  by (cases "B i") (simp_all add: buffers_ok_def)

lemma flush_one:
  assumes "m_buffers w i = Some (empty_buffer\<lparr>bq_items := [msg]\<rparr>)"
  shows "flush_loop env i cl (Some (empty_buffer\<lparr>bq_items := [msg]\<rparr>)) w =
    snd (Deliver env cl msg (put_buffer i (Some empty_buffer) w))"
proof -
  have e: "empty_buffer\<lparr>bq_items := []\<rparr> = empty_buffer" by (simp add: NewBoundedQueue_def)
  have p: "Pop (Some (empty_buffer\<lparr>bq_items := [msg]\<rparr>)) = (Some msg, Some empty_buffer)" by (simp add: Pop_def NewBoundedQueue_def)
  have n: "Pop (Some empty_buffer) = (None, Some empty_buffer)" by (simp add: Pop_def NewBoundedQueue_def)
  obtain res w1 where d: "Deliver env cl msg (put_buffer i (Some empty_buffer) w) = (res, w1)" by fastforce
  have "m_buffers w1 i = Some empty_buffer" using io_frame(7) [OF io_Deliver [OF d]] by (simp add: put_buffer_def)
  then have "put_buffer i (Some empty_buffer) w1 = w1" by (simp add: put_buffer_def fun_upd_idem)
  then have "flush_loop env i cl (Some empty_buffer) w1 = w1" using n by (subst flush_loop.simps) simp
  then show ?thesis using p d by (subst flush_loop.simps) (simp split: sum.split)
qed

lemma deliverToSubscriber_eq:
  assumes "buffers_ok (m_buffers w)" "allow_out env p w = (True, w1)"
  shows "deliverToSubscriber env r msg p w =
    (True, snd (Deliver env (sub_ClientID (m_heap w r)) msg (put_buffer (sub_ID (m_heap w r)) (Some empty_buffer) w1)))"
proof -
  let ?i = "sub_ID (m_heap w r)"
  have h: "m_heap w1 = m_heap w" "m_buffers w1 = m_buffers w"
    using assms(2) by (auto simp: allow_out_def split: option.splits prod.splits)
  obtain w2 where b: "subscriptionBuffer ?i w1 = (empty_buffer, w2)" "put_buffer ?i q w2 = put_buffer ?i q w1"
    "m_heap w2 = m_heap w" for q
    using buffers_okD [OF assms(1), of ?i] h
    by (auto simp: subscriptionBuffer_def subscriptionBufferCapacity_def Let_def put_buffer_def)
  let ?q = "empty_buffer\<lparr>bq_items := [msg]\<rparr>"
  have e: "\<exists>res. DropNewest_TryEnqueue (Some empty_buffer) (Some msg) = (res, Some ?q) \<and> \<not> enq_Dropped res"
    by (simp add: DropNewest_TryEnqueue_def Push_def NewBoundedQueue_def)
  let ?w3 = "put_buffer ?i (Some ?q) w1"
  have s: "subscriptionBuffer ?i ?w3 = (?q, ?w3)" "m_buffers ?w3 ?i = Some ?q" "m_heap ?w3 = m_heap w"
    "put_buffer ?i (Some empty_buffer) ?w3 = put_buffer ?i (Some empty_buffer) w1"
    using h by (simp_all add: subscriptionBuffer_def put_buffer_def)
  show ?thesis using e assms(2) b(1) s flush_one [OF s(2)]
    by (auto simp: deliverToSubscriber_def h b(2,3) Let_def flushSubscriptionBuffer_def)
qed

lemma ok_deliverToSubscriber: "deliverToSubscriber env r msg p w = (b, w') \<Longrightarrow> ok w w'"
  unfolding ok_def
proof
  assume d: "deliverToSubscriber env r msg p w = (b, w')" and i: "msg_inv w"
  obtain a w1 where 1: "allow_out env p w = (a, w1)" by fastforce
  have i1: "msg_inv w1" by (rule okD [OF ok_allow(2) [OF 1] i])
  show "msg_inv w'"
  proof (cases a)
    case False
    then show ?thesis using d 1 okD [OF ok_record i1] by (auto simp: deliverToSubscriber_def recordOutboundDrop_def)
  next
    case True
    have "msg_inv (put_buffer x (Some empty_buffer) w1)" for x
      using i1 by (simp add: put_buffer_def msg_inv_def buffers_ok_def)
    moreover have "allow_out env p w = (True, w1)" using 1 True by simp
    ultimately show ?thesis using d deliverToSubscriber_eq [OF msg_invD(6) [OF i]] okD [OF ok_io_simps(1)] by auto
  qed
qed

lemma ok_fanout_loop: "fanout_loop env msg p rs n w = (k, w') \<Longrightarrow> ok w w'"
proof (induction rs arbitrary: n w)
  case (Cons r rs)
  obtain b w1 where d: "deliverToSubscriber env r msg p w = (b, w1)" by fastforce
  show ?case using Cons.prems Cons.IH d ok_trans [OF ok_deliverToSubscriber [OF d]] by (auto split: if_splits)
qed simp

lemma ok_touchChannelActivity: "ok w (touchChannelActivity env full w)"
  unfolding ok_def
proof
  assume i: "msg_inv w"
  show "msg_inv (touchChannelActivity env full w)"
    using okD [OF ok_Update_chs [OF prod.collapse [symmetric]] i] i Get_ch_in64 [OF i]
    by (auto simp: touchChannelActivity_def split: sum.split)
qed

lemma ok_OnBrokerMessage:
  assumes "env_ok env" "OnBrokerMessage env e w = (res, w')"
  shows "ok w w'"
  unfolding ok_def
proof
  assume i: "msg_inv w"
  show "msg_inv w'"
  proof (cases "\<exists>v. e = Some v \<and> env_Payload v \<noteq> [] \<and> env_Channel v \<noteq> []")
    case False
    then show ?thesis using assms(2) i by (auto simp: OnBrokerMessage_def split: option.splits)
  next
    case True
    then obtain v where v: "e = Some v" "env_Payload v \<noteq> []" "env_Channel v \<noteq> []" by blast
    define w1 where "w1 = touchChannelActivity env (env_Channel v) w"
    have i1: "msg_inv w1" unfolding w1_def by (rule okD [OF ok_touchChannelActivity i])
    obtain g h where g: "GetAllLocalForChannel (me_refs env) (me_now env) (env_Channel v) (m_heap w1) (m_subs w1) = (g, h)" by fastforce
    have "enumerates (me_refs env)" using assms(1) by (simp add: env_ok_def)
    from GetAllLocal_links [OF subs_okD(1) [OF msg_invD(3) [OF i1]] this g]
    have "same_IDs (m_heap w1) h" "\<forall>x. sub_closed (h x) = sub_closed (m_heap w1 x)" by simp_all
    then have i2: "msg_inv (w1\<lparr>m_heap := h\<rparr>)" using msg_inv_heap [OF i1] subs_ok_heap [OF msg_invD(3) [OF i1]] by simp
    show ?thesis
    proof (cases g)
      case (Inl x)
      then show ?thesis using assms(2) v g i2 w1_def by (auto simp: OnBrokerMessage_def Let_def)
    next
      case (Inr rs)
      obtain k w3 where f: "fanout_loop env (env_Payload v) (env_ProjectID v) rs 0 (w1\<lparr>m_heap := h\<rparr>) = (k, w3)" by fastforce
      show ?thesis using assms(2) v g Inr f okD [OF ok_fanout_loop [OF f] i2] w1_def
        by (auto simp: OnBrokerMessage_def Let_def)
    qed
  qed
qed

lemma ok_nats_deliver: "env_ok env \<Longrightarrow> ok w (nats_deliver env full msg w)"
  using ok_OnBrokerMessage [OF _ prod.collapse [symmetric]] by (auto simp: nats_deliver_def split: sum.split)

section \<open>Clients\<close>

lemma msg_inv_clients: "msg_inv w \<Longrightarrow> clients_ok H C (m_nextRef w) \<Longrightarrow> msg_inv (w\<lparr>m_cheap := H, m_clients := C\<rparr>)"
  by (simp add: msg_inv_def)

lemma clients_ok_heap:
  "clients_ok H C n \<Longrightarrow> cl_ID c = cl_ID (H r) \<Longrightarrow> cl_ConnectionID c = cl_ConnectionID (H r) \<Longrightarrow>
   cl_Permission c = cl_Permission (H r) \<Longrightarrow> clients_ok (H(r := c)) C n"
  by (simp add: clients_ok_def)

lemma msg_inv_put_client:
  "msg_inv w \<Longrightarrow> cl_ID c = cl_ID (m_cheap w r) \<Longrightarrow> cl_ConnectionID c = cl_ConnectionID (m_cheap w r) \<Longrightarrow>
   cl_Permission c = cl_Permission (m_cheap w r) \<Longrightarrow> msg_inv (put_client r c w)"
  using clients_ok_heap [of "m_cheap w" "m_clients w" "m_nextRef w" c r] by (simp add: put_client_def msg_inv_def)

text \<open>\<open>Update\<close> with a registered client changes neither of the two main maps.\<close>

lemma Update_self:
  "clientsByID R (cl_ID (h r)) = Some r \<Longrightarrow> Update_client (Some r) h R = (res, R') \<Longrightarrow>
   clientsByID R' = clientsByID R \<and> clientsByConnectionID R' = clientsByConnectionID R"
  by (auto simp: Update_client_def Let_def fun_upd_idem split: option.splits if_splits)

lemma clients_ok_maps:
  "clients_ok H C n \<Longrightarrow> clientsByID C' = clientsByID C \<Longrightarrow> clientsByConnectionID C' = clientsByConnectionID C \<Longrightarrow> clients_ok H C' n"
  by (simp add: clients_ok_def)

lemma msg_inv_Update_clients:
  assumes "msg_inv w" "clientsByID (m_clients w) (cl_ID (m_cheap w r)) = Some r" "Update_clients r w = (res, w')"
  shows "msg_inv w'"
proof -
  obtain e R where u: "Update_client (Some r) (m_cheap w) (m_clients w) = (e, R)" by fastforce
  have "clients_ok (m_cheap w) R (m_nextRef w)"
    using clients_ok_maps [OF msg_invD(2) [OF assms(1)]] Update_self [OF assms(2) u] by blast
  then show ?thesis using assms(1,3) u by (auto simp: Update_clients_def msg_inv_def)
qed

lemma found_client:
  "msg_inv w \<Longrightarrow> FindByConnectionID k (m_clients w) = Inr r \<Longrightarrow>
   clientsByID (m_clients w) (cl_ID (m_cheap w r)) = Some r \<and> cl_ConnectionID (m_cheap w r) = k \<and>
   cl_Permission (m_cheap w r) \<noteq> None"
  using msg_invD(2) [of w] by (fastforce simp: FindByConnectionID_def found_def clients_ok_def split: option.splits)

lemma touch_client:
  assumes "msg_inv w" "FindByConnectionID k (m_clients w) = Inr r"
    "\<And>c. cl_ID (f c) = cl_ID c \<and> cl_ConnectionID (f c) = cl_ConnectionID c \<and> cl_Permission (f c) = cl_Permission c"
  shows "msg_inv (snd (Update_clients r (put_client r (f (m_cheap w r)) w)))"
proof (rule msg_inv_Update_clients [OF _ _ prod.collapse [symmetric]])
  show "msg_inv (put_client r (f (m_cheap w r)) w)" by (rule msg_inv_put_client [OF assms(1)]) (use assms(3) in simp_all)
  show "clientsByID (m_clients (put_client r (f (m_cheap w r)) w)) (cl_ID (m_cheap (put_client r (f (m_cheap w r)) w) r)) = Some r"
    using found_client [OF assms(1,2)] assms(3) by (simp add: put_client_def)
qed

lemma ok_SendMessage: "SendMessage env k msg w = (res, w') \<Longrightarrow> ok w w'"
  unfolding ok_def
proof
  assume a: "SendMessage env k msg w = (res, w')" and i: "msg_inv w"
  show "msg_inv w'"
  proof (cases "FindByConnectionID k (m_clients w)")
    case (Inl e)
    then show ?thesis using a i by (simp add: SendMessage_def)
  next
    case (Inr r)
    let ?w = "snd (Update_clients r (put_client r (UpdateActivity_client (me_now env) (m_cheap w r)) w))"
    have i1: "msg_inv ?w" by (rule touch_client [OF i Inr]) (simp add: UpdateActivity_client_def)
    obtain e w2 where s: "send_w env k msg ?w = (e, w2)" by fastforce
    show ?thesis using a Inr i s okD [OF ok_send [OF s] i1]
      by (auto simp: SendMessage_def Let_def split: if_splits sum.splits)
  qed
qed

lemma ok_SendMessage_snd [simp]: "ok w (snd (SendMessage env k msg w))"
  using ok_SendMessage by (metis prod.collapse)

lemma ok_Disconnect [simp]: "ok w (snd (Disconnect env k w))"
  unfolding ok_def
proof
  assume i: "msg_inv w"
  show "msg_inv (snd (Disconnect env k w))"
  proof (cases "FindByConnectionID k (m_clients w)")
    case (Inr r)
    have "msg_inv (snd (Update_clients r (put_client r (SetState_client (me_now env) ClientDisconnected (m_cheap w r)) w)))"
      by (rule touch_client [OF i Inr]) (simp add: SetState_client_def)
    then show ?thesis using Inr by (simp add: Disconnect_def)
  qed (use i in \<open>simp add: Disconnect_def\<close>)
qed

lemma ok_Publish: "Publish env k m skip w = (res, w') \<Longrightarrow> ok w w'"
proof -
  assume a: "Publish env k m skip w = (res, w')"
  let ?rq = "\<lparr>rq_ConnectionID = k, rq_ProjectID = pb_ProjectID m, rq_Channel = pb_ChannelName m,
                rq_Message = Some m, rq_SkipTelemetry = skip, rq_Source = (if k = [] then SourceREST else SourceWebSocket)\<rparr>"
  obtain rc e w1 where p: "PublishInbound env ?rq w = ((rc, e), w1)" by (metis prod.collapse)
  have "ok w1 (sendPublishState env k d w1)" for d by (simp add: sendPublishState_def)
  then show ?thesis using a p ok_trans [OF ok_PublishInbound [OF p]]
    by (auto simp: Publish_def Let_def sendPublishFailure_def split: sum.splits)
qed

lemma ok_publish_pending_log: "ok w (publish_pending_log env k w)"
proof (cases "k < length (m_logs w)")
  case True
  obtain p t e where l: "m_logs w ! k = (p, t, e)" by (metis prod.collapse)
  let ?w = "w\<lparr>m_logs := take k (m_logs w) @ drop (k + 1) (m_logs w)\<rparr>"
  have "ok w ?w" by (simp add: ok_def)
  then show ?thesis using True l ok_trans ok_Publish [OF prod.collapse [symmetric]]
    by (simp add: publish_pending_log_def)
qed (simp add: publish_pending_log_def)

section \<open>Handler\<close>

lemma ok_sendErrorResponse [simp]: "ok w (sendErrorResponse env k c msg st w)"
  by (simp add: sendErrorResponse_def)

lemma ok_PublishLog [simp]: "ok w (PublishLog p t e w)"
  by (simp add: PublishLog_def ok_def)

lemma ok_conn_log [simp]: "ok w (conn_log e k p t msg cl ch err w)"
  by (simp add: conn_log_def Let_def split: sum.split)

lemma ok_opened_log [simp]: "ok w (opened_log e q k t msg cl w)"
  by (simp add: opened_log_def)

lemma dom_subscriptions: "sub_inv h R \<Longrightarrow> dom (subscriptions R) = fst ` links R"
proof -
  assume "sub_inv h R"
  then have "\<And>c S. subscriptions R c = Some S \<Longrightarrow> S \<noteq> {}" by (auto simp: sub_inv_def)
  then show ?thesis by (fastforce simp: links_def dom_def image_iff)
qed

lemma Get_sub_linked:
  assumes "msg_inv w" "env_ok env" "Get_sub env i w = Inr r"
  shows "r \<in> snd ` links (m_subs w) \<and> sub_ID (m_heap w r) = i"
proof -
  note s = subs_okD(1) [OF msg_invD(3) [OF assms(1)]]
  have e: "enumerates (me_refs env)" "enumerates (me_names env)" using assms(2) by (simp_all add: env_ok_def)
  have fin: "finite (dom (subscriptions (m_subs w)))" using dom_subscriptions [OF s] s by (simp add: sub_inv_def)
  then have d: "set (me_names env (dom (subscriptions (m_subs w)))) = dom (subscriptions (m_subs w))"
    using e(2) by (simp add: enumerates_def)
  have "set (me_refs env S) = S" if "subscriptions (m_subs w) ch = Some S" for ch S
  proof -
    have "S \<subseteq> snd ` links (m_subs w)" using that by (force simp: links_def)
    then have "finite S" using s finite_subset by (fastforce simp: sub_inv_def)
    then show ?thesis using e(1) by (simp add: enumerates_def)
  qed
  then have "r \<in> snd ` links (m_subs w)" if "r \<in> set (concat (List.map snd (sub_order env w)))"
    using that d by (fastforce simp: sub_order_def links_def image_iff)
  moreover have "r \<in> set (concat (List.map snd (sub_order env w))) \<and> sub_ID (m_heap w r) = i"
    using assms(3) nth_mem by (fastforce simp: Get_sub_def FindByID_sub_def find_Some_iff simp del: set_concat split: option.splits)
  ultimately show ?thesis by blast
qed

lemma msg_inv_map_conn:
  assumes "msg_inv w" "\<And>c. conn_ID (f c) = conn_ID c \<and> conn_ProjectID (f c) = conn_ProjectID c"
  shows "msg_inv (map_conn f r w)"
proof -
  let ?h = "(cs_heap (m_conns w))(r := f (cs_heap (m_conns w) r))"
  have "conn_inv (cs_heap (m_conns w)) (cs_repo (m_conns w))"
    using msg_invD(1) [OF assms(1)] by (simp add: conns_ok_def svc_inv_def)
  then have "conn_inv ?h (cs_repo (m_conns w))" by (rule conn_inv_heap) (use assms(2) in simp)
  then show ?thesis using assms(1) by (simp add: msg_inv_def conns_ok_def svc_inv_def map_conn_def)
qed

definition fresh :: "menv \<Rightarrow> mworld \<Rightarrow> bool" where
  "fresh env w \<longleftrightarrow> connections (cs_repo (m_conns w)) (me_connID env) = None \<and>
     (\<forall>x\<in>live (m_subs w) (m_subCache w). sub_ID (m_heap w x) \<noteq> me_subID env)"

lemma msg_inv_handleSubscribe:
  assumes "msg_inv w" "env_ok env" "fresh env w"
  shows "\<exists>w'. handleSubscribeMessage env e k cl j w = Some w' \<and> msg_inv w'"
proof -
  note err = okD [OF ok_sendErrorResponse assms(1)]
  show ?thesis
  proof (cases "decode_channel j")
    case None
    then show ?thesis using err by (simp add: handleSubscribeMessage_def)
  next
    case m: (Some m)
    show ?thesis
    proof (cases "GetClient k w")
      case (Inl x)
      then show ?thesis using m err by (simp add: handleSubscribeMessage_def)
    next
      case c: (Inr c)
      obtain pd where pd: "cl_Permission (m_cheap w c) = Some pd"
        using found_client [OF assms(1)] c by (auto simp: GetClient_def)
      show ?thesis
      proof (cases "CanSubscribe (ws_parse e) pd (cm_Channel m) = Inr True")
        case False
        then show ?thesis using m c pd err
          by (cases "CanSubscribe (ws_parse e) pd (cm_Channel m)") (auto simp: handleSubscribeMessage_def)
      next
        case True
        obtain r w1 where g: "GetOrCreateSubscription env cl w = (r, w1)" by fastforce
        note i1 = ok_GetOrCreateSubscription [OF assms(1) _ g]
        have f: "\<forall>x\<in>live (m_subs w) (m_subCache w). sub_ID (m_heap w x) \<noteq> me_subID env" using assms(3) by (simp add: fresh_def)
        define w2 where "w2 = (if cl_SubscriptionID (m_cheap w1 c) = None
            then put_client c (SetSubscriptionID (sub_ID (m_heap w1 r)) (m_cheap w1 c)) w1 else w1)"
        have "msg_inv (put_client c (SetSubscriptionID (sub_ID (m_heap w1 r)) (m_cheap w1 c)) w1)"
          by (rule msg_inv_put_client) (use i1 f in \<open>simp_all add: SetSubscriptionID_def\<close>)
        moreover have "r \<in> live (m_subs w1) (m_subCache w1)" "msg_inv w1" using i1 f by blast+
        ultimately have i2: "msg_inv w2" "r \<in> live (m_subs w2) (m_subCache w2)"
          by (simp_all add: w2_def put_client_def)
        let ?p = "cl_ProjectID (m_cheap w2 c)"
        obtain s w3 where s: "Subscribe env (cm_Channel m) r ?p w2 = (s, w3)" by fastforce
        have i3: "msg_inv w3" by (rule ok_Subscribe [OF i2(1) assms(2) i2(2) s])
        show ?thesis using m c pd True g w2_def s i3 okD [OF ok_conn_log i3]
          by (cases s) (simp_all add: handleSubscribeMessage_def Let_def)
      qed
    qed
  qed
qed

lemma msg_inv_handleUnsubscribe:
  assumes "msg_inv w" "env_ok env"
  shows "\<exists>w'. handleUnsubscribeMessage env e k cl j w = Some w' \<and> msg_inv w'"
proof -
  note err = okD [OF ok_sendErrorResponse assms(1)]
  have "msg_inv v" if c: "Get_sub env i w = Inr r" and u: "Unsubscribe env ch r p w = (x, v)" for i r ch p x v
    by (rule ok_Unsubscribe [OF assms(1) _ u]) (use Get_sub_linked [OF assms c] in \<open>auto simp: live_def\<close>)
  then show ?thesis using err okD [OF ok_conn_log]
    by (auto simp: handleUnsubscribeMessage_def Let_def split: option.split sum.split prod.split)
qed

lemma msg_inv_handlePublish:
  assumes "msg_inv w"
  shows "\<exists>w'. handlePublishMessage env e k j w = Some w' \<and> msg_inv w'"
proof -
  note err = okD [OF ok_sendErrorResponse assms]
  have p: "msg_inv (snd (Publish env k pm False w))" for pm
    by (rule okD [OF ok_Publish [OF prod.collapse [symmetric]] assms])
  show ?thesis
  proof (cases "decode_data (ws_nf e) (ws_rt e) (ws_zero e) j")
    case m: (Some m)
    show ?thesis
    proof (cases "GetClient k w")
      case c: (Inr c)
      obtain pd where pd: "cl_Permission (m_cheap w c) = Some pd"
        using found_client [OF assms] c by (auto simp: GetClient_def)
      show ?thesis using err p m c pd
        by (auto simp: handlePublishMessage_def split: option.split sum.split bool.split)
    qed (use m err in \<open>simp add: handlePublishMessage_def\<close>)
  qed (use err in \<open>simp add: handlePublishMessage_def\<close>)
qed

lemma msg_inv_pings:
  assumes "msg_inv w"
  shows "\<exists>w'. handlePingMessage env k j w = Some w' \<and> msg_inv w'" "\<exists>w'. handlePongMessage env k j w = Some w' \<and> msg_inv w'"
proof -
  note err = okD [OF ok_sendErrorResponse assms]
  have m: "msg_inv (map_conn (UpdateClientPing now) r w)" "msg_inv (map_conn (UpdateClientPong now) r w)" for now r
    by (rule msg_inv_map_conn [OF assms], simp add: UpdateClientPing_def UpdateClientPong_def)+
  show "\<exists>w'. handlePingMessage env k j w = Some w' \<and> msg_inv w'" "\<exists>w'. handlePongMessage env k j w = Some w' \<and> msg_inv w'"
    using err assms m okD [OF ok_SendMessage_snd]
    by (auto simp: handlePingMessage_def handlePongMessage_def Let_def split: option.split sum.split)
qed

lemma msg_inv_handleMessage:
  assumes "msg_inv w" "env_ok env" "fresh env w"
  shows "\<exists>w'. handleMessage env e k cl msg w = Some w' \<and> msg_inv w'"
  using okD [OF ok_sendErrorResponse assms(1)] msg_inv_handleSubscribe [OF assms] msg_inv_handleUnsubscribe [OF assms(1,2)]
    msg_inv_handlePublish [OF assms(1)] msg_inv_pings [OF assms(1)]
  by (simp add: handleMessage_def split: option.split)

lemma fresh_map_conn [simp]: "fresh env (map_conn f r w) = fresh env w"
  by (simp add: fresh_def map_conn_def)

lemma msg_inv_receive:
  assumes "msg_inv w" "env_ok env" "fresh env w"
  shows "\<exists>w'. receive env e k cl msg w = Some w' \<and> msg_inv w'"
proof (cases "Get_conn k w")
  case (Inr r)
  have "msg_inv (map_conn (UpdateRecv (me_now env) n) r w)" for n
    by (rule msg_inv_map_conn [OF assms(1)]) (simp add: UpdateRecv_def)
  then show ?thesis using Inr msg_inv_handleMessage assms(2,3) by (simp add: receive_def)
qed (use msg_inv_handleMessage assms in \<open>simp add: receive_def\<close>)

section \<open>Connecting and disconnecting\<close>

lemma msg_inv_register:
  assumes "msg_inv w" "connections (cs_repo (m_conns w)) (me_connID env) = None"
    "Register_conn (m_nextRef w) (m_conns (accept_conn env q w)) = (res, s)"
  shows "msg_inv ((accept_conn env q w)\<lparr>m_conns := s\<rparr>)"
proof -
  let ?w1 = "accept_conn env q w"
  let ?n = "m_nextRef w" and ?new = "New_connection (me_connID env) (me_now env) (rq_Project q) (rq_RemoteAddr q) (rq_UserAgent q)" and ?s = "m_conns ?w1"
  let ?M = "connections (cs_repo (m_conns w))"
  have c: "svc_inv (m_conns w)" "ran ?M \<subseteq> {..<?n}" using msg_invD(1) [OF assms(1)] by (simp_all add: conns_ok_def)
  have ci: "conn_inv (cs_heap (m_conns w)) (cs_repo (m_conns w))" using c(1) by (simp add: svc_inv_def)
  have hs: "cs_heap ?s = (cs_heap (m_conns w))(?n := ?new)"
    "cs_repo ?s = cs_repo (m_conns w)" "cs_sendHandlers ?s = cs_sendHandlers (m_conns w)"
    "cs_writeMutexes ?s = cs_writeMutexes (m_conns w)"
    by (simp_all add: accept_conn_def)
  have reg: "r \<noteq> ?n" if "?M i = Some r" for i r
    using that c(2) by (auto simp: ran_def)
  have ci': "conn_inv (cs_heap ?s) (cs_repo ?s)"
    unfolding conn_inv_def hs
  proof (intro conjI allI)
    fix i r
    show "?M i = Some r \<longrightarrow> conn_ID (((cs_heap (m_conns w))(?n := ?new)) r) = i"
      using reg conn_inv_ID [OF ci] by simp
  next
    fix q i r
    show "(\<exists>m. connectionsByProject (cs_repo (m_conns w)) q = Some m \<and> m i = Some r) \<longleftrightarrow>
       ?M i = Some r \<and> conn_ProjectID (((cs_heap (m_conns w))(?n := ?new)) r) = q"
      unfolding conn_inv_files [OF ci] using reg by auto
  qed (use ci in \<open>simp_all add: conn_inv_def\<close>)
  let ?U = "insert ?n (ran ?M)"
  have "inj_on (\<lambda>r. conn_ID (cs_heap ?s r)) ?U"
  proof (rule inj_onI)
    have id: "conn_ID (cs_heap ?s r) = i" if "?M i = Some r" for i r
      using reg [OF that] conn_inv_ID [OF ci that] by (simp add: hs)
    fix x y assume "x \<in> ?U" "y \<in> ?U" "conn_ID (cs_heap ?s x) = conn_ID (cs_heap ?s y)"
    then show "x = y" using id assms(2) by (auto simp: ran_def hs New_connection_def)
  qed
  moreover have "svc_inv ?s" using c(1) ci' by (simp add: svc_inv_def hs)
  ultimately have "conn_ok_inv ?U ?s" by (auto simp: conn_ok_inv_def hs)
  from Register_spec [OF this, of ?n] assms(3)
  have "svc_inv s" "connections (cs_repo s) = ?M(me_connID env \<mapsto> ?n)"
    by (simp_all add: hs New_connection_def)
  moreover have "ran (?M(me_connID env \<mapsto> ?n)) \<subseteq> {..<?n + 1}" using c(2) by (auto simp: ran_def less_Suc_eq split: if_splits)
  ultimately have "conns_ok s (?n + 1)" by (simp add: conns_ok_def)
  then show ?thesis using assms(1) unfolding msg_inv_def accept_conn_def
    by (simp add: clients_ok_def subs_ok_def) (fastforce simp: less_Suc_eq subset_eq)
qed

lemma msg_inv_Connect:
  assumes "msg_inv w" "perm \<noteq> None" "Connect env k p key alias perm w = (res, w')"
  shows "msg_inv w'"
proof (cases "FindByConnectionID k (m_clients w)")
  case (Inr r)
  then show ?thesis using assms by (simp add: Connect_def)
next
  case (Inl e)
  let ?n = "m_nextRef w"
  let ?c = "SetState_client (me_now env) ClientConnected (New_client (me_clientID env) (me_now env) k p key alias perm)"
  let ?w = "w\<lparr>m_cheap := (m_cheap w)(?n := ?c), m_nextRef := ?n + 1\<rparr>"
  have cf: "cl_ID ?c = me_clientID env" "cl_ConnectionID ?c = k" "cl_Permission ?c = perm"
    by (simp_all add: SetState_client_def New_client_def)
  note ck = msg_invD(2) [OF assms(1)]
  have old: "clients_ok ((m_cheap w)(?n := ?c)) (m_clients w) (?n + 1)"
    using ck unfolding clients_ok_def by fastforce
  have nk: "clientsByConnectionID (m_clients w) k = None"
    using Inl by (auto simp: FindByConnectionID_def found_def split: option.splits)
  obtain er R where cr: "Create_client (Some ?n) (m_cheap ?w) (m_clients ?w) = (er, R)" by fastforce
  have "clients_ok ((m_cheap w)(?n := ?c)) R (?n + 1)"
  proof (cases "clientsByID (m_clients w) (me_clientID env)")
    case (Some x)
    then show ?thesis using cr old cf by (simp add: Create_client_def)
  next
    case None
    then have "clientsByID R = (clientsByID (m_clients w))(me_clientID env \<mapsto> ?n)"
      "clientsByConnectionID R = (clientsByConnectionID (m_clients w))(k \<mapsto> ?n)"
      using cr cf by (auto simp: Create_client_def Let_def split: option.splits)
    moreover have "x \<noteq> ?n" if "clientsByID (m_clients w) i = Some x" for i x
      using that ck by (auto simp: clients_ok_def)
    ultimately show ?thesis using old cf assms(2) None unfolding clients_ok_def
      by (auto split: if_splits) (metis option.distinct(1))
  qed
  moreover have "msg_inv ?w \<Longrightarrow> clients_ok (m_cheap ?w) R (m_nextRef ?w) \<Longrightarrow> msg_inv (?w\<lparr>m_clients := R\<rparr>)"
    by (simp add: msg_inv_def)
  moreover have "msg_inv ?w"
    using assms(1) old unfolding msg_inv_def conns_ok_def subs_ok_def by (fastforce simp: subset_eq)
  ultimately have "msg_inv (?w\<lparr>m_clients := R\<rparr>)" by simp
  then show ?thesis using assms(3) Inl cr by (auto simp: Connect_def Let_def split: sum.splits)
qed

lemma ok_RegisterConnection [simp]: "ok w (RegisterConnection k p cl w)"
  using io_ok [OF io_RegisterConnection] by (simp add: RegisterConnection_def Register_pipe_def Let_def ok_def)

lemma msg_inv_HandleConnection:
  assumes "msg_inv w" "fresh env w" "rq_Permission q \<noteq> None" "HandleConnection env e q w = (res, w')"
  shows "msg_inv w'"
proof -
  obtain g s where r: "Register_conn (m_nextRef w) (m_conns (accept_conn env q w)) = (g, s)" by fastforce
  have i1: "msg_inv ((accept_conn env q w)\<lparr>m_conns := s\<rparr>)"
    by (rule msg_inv_register [OF assms(1) _ r]) (use assms(2) in \<open>simp add: fresh_def\<close>)
  have g: "g = Inr ()" using r by (simp add: Register_conn_def Let_def)
  define w2 where "w2 = opened_log e q (me_connID env) EventConnectionOpened ''Connection opened'' None
      ((accept_conn env q w)\<lparr>m_conns := s, m_apiKeys := (m_apiKeys (accept_conn env q w))(me_connID env \<mapsto> rq_APIPublicKey q)\<rparr>)"
  have "msg_inv ((accept_conn env q w)\<lparr>m_conns := s, m_apiKeys := (m_apiKeys (accept_conn env q w))(me_connID env \<mapsto> rq_APIPublicKey q)\<rparr>)"
    using i1 by (simp add: msg_inv_def)
  then have i2: "msg_inv w2" unfolding w2_def by (rule okD [OF ok_opened_log])
  obtain c w3 where c: "Connect env (me_connID env) (rq_Project q) (rq_APIKeyID q) (rq_Alias q) (rq_Permission q) w2 = (c, w3)" by fastforce
  have i3: "msg_inv w3" by (rule msg_inv_Connect [OF i2 assms(3) c])
  have sc: "ok v (sendConnectedMessage env e k cl v)" for k cl v by (simp add: sendConnectedMessage_def Let_def)
  show ?thesis
    using assms(4) r g c i3 okD [OF ok_io_simps(3) i3] okD [OF ok_RegisterConnection okD [OF sc okD [OF ok_opened_log i3]]]
    by (auto simp: HandleConnection_def Let_def w2_def [symmetric] split: sum.splits)
qed

lemma msg_inv_close_client_subscription:
  assumes "msg_inv w" "env_ok env"
  shows "msg_inv (close_client_subscription env c w)"
proof -
  have "msg_inv (snd (CloseSubscription env r w))" if "Get_sub env i w = Inr r" for i r
    by (rule ok_CloseSubscription [OF assms _ prod.collapse [symmetric]])
      (use Get_sub_linked [OF assms that] in \<open>auto simp: live_def\<close>)
  then show ?thesis using assms(1) by (auto simp: close_client_subscription_def split: option.split sum.split)
qed

lemma subs_ok_cache: "subs_ok h R cache n \<Longrightarrow> subs_ok h R (cache(i := None)) n"
proof -
  assume a: "subs_ok h R cache n"
  have l: "live R (cache(i := None)) \<subseteq> live R cache" by (auto simp: live_def ran_def)
  then show ?thesis using a inj_on_subset [OF _ l] unfolding subs_ok_def by (auto simp del: fun_upd_apply simp: fun_upd_def)
qed

lemma ok_UnregisterConnection: "ok w (UnregisterConnection k cl w)"
  unfolding ok_def
proof
  assume "msg_inv w"
  then have "msg_inv (Unregister_pipe k w)" by (rule okD [OF io_ok [OF io_Unregister_pipe]])
  then show "msg_inv (UnregisterConnection k cl w)"
    by (auto simp: UnregisterConnection_def Let_def msg_inv_def intro: subs_ok_cache)
qed

lemma msg_inv_HandleDisconnection:
  assumes "msg_inv w" "env_ok env"
  shows "msg_inv (HandleDisconnection env e k cl w)"
proof -
  define w1 where "w1 = (case GetClient k w of Inl _ \<Rightarrow> w
      | Inr c \<Rightarrow> conn_log e k (cl_ProjectID (m_cheap w c)) LogClientDisconnected ''Client disconnected'' (Some cl) None None (close_client_subscription env c w))"
  have i1: "msg_inv w1"
    using assms okD [OF ok_conn_log msg_inv_close_client_subscription [OF assms]] by (simp add: w1_def split: sum.split)
  define w2 where "w2 = snd (close_w k (snd (Disconnect env k w1)))"
  have i2: "msg_inv w2" unfolding w2_def by (rule okD [OF ok_io_simps(3) okD [OF ok_Disconnect i1]])
  define w3 where "w3 = (case GetClient k w of Inl _ \<Rightarrow> w2
      | Inr c \<Rightarrow> conn_log e k (cl_ProjectID (m_cheap w2 c)) EventConnectionClosed ''Connection closed'' None None None w2)"
  have i3: "msg_inv w3" using i2 okD [OF ok_conn_log i2] by (simp add: w3_def split: sum.split)
  have "msg_inv (removeAPIKey k w3)" using i3 by (simp add: removeAPIKey_def)
  moreover have "HandleDisconnection env e k cl w = UnregisterConnection k cl (removeAPIKey k w3)"
    unfolding HandleDisconnection_def Let_def w3_def w2_def w1_def by (rule refl)
  ultimately show ?thesis using okD [OF ok_UnregisterConnection] by simp
qed


end
