(* ===== verification/MsgSample.thy ===== *)
theory MsgSample
  imports MsgReach
begin

text \<open>A small messaging world in which the properties are tried out: connection \<open>k\<close> of client \<open>cl\<close> in
  project 1 with subscription \<open>s\<close> on channel \<open>c\<close>, and one message waiting in its pipeline.\<close>

section \<open>Start of an instance\<close>

definition init_world :: "conn_heap \<Rightarrow> client_heap \<Rightarrow> heap \<Rightarrow> gatekeeper option \<Rightarrow> mworld" where
  "init_world ch clh sh gate =
     \<lparr>m_conns = new_conn_svc ch, m_cheap = clh,
      m_clients = \<lparr>clientsByID = Map.empty, clientsByConnectionID = Map.empty, clientsBySubscriptionID = Map.empty,
        clientsByAlias = Map.empty, clientsByProjectID = Map.empty\<rparr>,
      m_heap = sh, m_subs = empty_sub_repo, m_channels = Map.empty, m_listening = {}, m_pipelines = Map.empty,
      m_clientConn = Map.empty, m_subCache = Map.empty, m_buffers = Map.empty, m_gate = gate, m_telemetry = Map.empty,
      m_bus = empty_bus, m_pending = [], m_cleanups = Map.empty, m_apiKeys = Map.empty, m_pingCounter = 0,
      m_nextRef = 0, m_wire = [], m_nats = [], m_logs = []\<rparr>"

section \<open>The sample\<close>

definition sample_menv :: menv where
  "sample_menv = \<lparr>me_now = 5, me_instance = ''i'', me_chanID = ''ch'', me_subID = ''s2'', me_msgID = ''m'', me_replyID = ''r'',
     me_clientID = ''cl2'', me_connID = ''k2'', me_sock = (\<lambda>_. True), me_nats = ConnectedTo, me_natsSubscribe = True,
     me_natsUnsubscribe = True, me_natsPublish = True, me_rates = (\<lambda>_. Inr \<lparr>InboundPerSecond = 1, OutboundPerSecond = 1\<rparr>),
     me_refs = sorted_list_of_set, me_names = sorted_list_of_set, me_clients = sorted_list_of_set,
     me_visits = (\<lambda>_. []), me_json = (\<lambda>_. ''j''), me_time = (\<lambda>_. '''')\<rparr>"

lemma sample_env_ok: "env_ok sample_menv" "env_ok (sample_menv\<lparr>me_nats := Disconnected\<rparr>)"
  by (simp_all add: env_ok_def sample_menv_def sorted_enumerates)

definition sample_ws :: ws_env where
  "sample_ws = \<lparr>ws_parse = (\<lambda>_. None), ws_nf = (\<lambda>_. None), ws_rt = (\<lambda>_. None), ws_zero = 0, ws_region = '''', ws_zone = '''',
     ws_vm = '''', ws_logs = False\<rparr>"

definition sample_conn :: connection where
  "sample_conn = (New_connection ''k'' 1 1 ''addr'' ''ua'')\<lparr>conn_State := StateOpen\<rparr>"

definition sample_client :: client where
  "sample_client = SetSubscriptionID ''s'' (SetState_client 1 ClientConnected (New_client ''cl'' 1 ''k'' 1 9 None (Some ''p'')))"

definition sample_subs :: heap where
  "sample_subs = (\<lambda>r. New_subscription (if r = 2 then ''s'' else ''t'') 1 ''cl'')"

definition sample_pipe :: pipeline where
  "sample_pipe = (NewPipeline ''k'' 1 256 0)\<lparr>pp_queue := [''old'']\<rparr>"

definition sample_mworld :: mworld where
  "sample_mworld = (init_world (\<lambda>_. sample_conn) (\<lambda>_. sample_client) sample_subs None)
     \<lparr>m_conns := \<lparr>cs_heap = (\<lambda>_. sample_conn),
        cs_repo = \<lparr>connections = [''k'' \<mapsto> 0], connectionsByProject = [1 \<mapsto> [''k'' \<mapsto> 0]]\<rparr>,
        cs_sendHandlers = {''k''}, cs_writeMutexes = {''k''}\<rparr>,
      m_clients := \<lparr>clientsByID = [''cl'' \<mapsto> 1], clientsByConnectionID = [''k'' \<mapsto> 1], clientsBySubscriptionID = [''s'' \<mapsto> 1],
        clientsByAlias = Map.empty, clientsByProjectID = [1 \<mapsto> [''cl'' \<mapsto> 1]]\<rparr>,
      m_subs := \<lparr>subscriptions = [''1.c'' \<mapsto> {2}], subChannels = [''s'' \<mapsto> {''1.c''}]\<rparr>,
      m_channels := [''1.c'' \<mapsto> IncrementLocalSubscriptions 1 (New_channel ''ch'' 1 (NewName ''c'' 1) ''i'')],
      m_listening := {''1.c''}, m_pipelines := [''k'' \<mapsto> sample_pipe], m_clientConn := [''cl'' \<mapsto> ''k''],
      m_subCache := [''cl'' \<mapsto> 2], m_nextRef := 3\<rparr>"

lemma sample_links: "links (m_subs sample_mworld) = {(''1.c'', 2)}" "rev_links (m_subs sample_mworld) = {(''s'', ''1.c'')}"
  by (auto simp: sample_mworld_def links_def rev_links_def split: if_splits)

lemma sample_live: "live (m_subs sample_mworld) (m_subCache sample_mworld) = {2}"
  unfolding live_def sample_links by (simp add: sample_mworld_def)

lemma sample_heaps: "m_heap sample_mworld = sample_subs" "sub_ID (sample_subs 2) = ''s''" "sub_ClientID (sample_subs r) = ''cl''"
  "\<not> sub_closed (sample_subs r)"
  by (simp_all add: sample_mworld_def init_world_def sample_subs_def New_subscription_def)

lemma sample_msg_inv: "msg_inv sample_mworld"
proof -
  have "subs_ok (m_heap sample_mworld) (m_subs sample_mworld) (m_subCache sample_mworld) (m_nextRef sample_mworld)"
  proof -
    have "sub_inv (m_heap sample_mworld) (m_subs sample_mworld)"
      unfolding sub_inv_def sample_links sample_heaps(1) by (simp add: sample_heaps(2) sample_mworld_def)
    moreover have "\<forall>i r. m_subCache sample_mworld i = Some r \<longrightarrow> sub_ClientID (m_heap sample_mworld r) = i"
      unfolding sample_heaps(1) by (simp add: sample_heaps(3) sample_mworld_def)
    ultimately show ?thesis
      unfolding subs_ok_def sample_live sample_links sample_heaps(1) by (simp add: sample_heaps(4) sample_mworld_def)
  qed
  moreover have "conns_ok (m_conns sample_mworld) (m_nextRef sample_mworld)"
    by (auto simp: conns_ok_def svc_inv_def conn_inv_def sample_mworld_def sample_conn_def New_connection_def)
  moreover have "clients_ok (m_cheap sample_mworld) (m_clients sample_mworld) (m_nextRef sample_mworld)"
    by (simp add: clients_ok_def sample_mworld_def init_world_def sample_client_def New_client_def SetState_client_def SetSubscriptionID_def)
  moreover have "chan_inv (m_channels sample_mworld)"
    by (simp add: chan_inv_def sample_mworld_def FullName_def NewName_def) code_simp
  moreover have "pipes_ok (m_pipelines sample_mworld)"
    by (simp add: pipes_ok_def sample_mworld_def sample_pipe_def NewPipeline_def)
  moreover have "buffers_ok (m_buffers sample_mworld)"
    by (simp add: buffers_ok_def sample_mworld_def init_world_def)
  ultimately show ?thesis by (simp add: msg_inv_def)
qed

end
