(* ===== verification/MsgProps.thy ===== *)
theory MsgProps
  imports MsgSample
begin

text \<open>
  The messaging runtime of an instance as a step relation: what clients, NATS, REST callers, timers and
  the goroutines of the services do, in any order.  Its reachable states and their invariant.
\<close>

inductive mstep :: "ws_env \<Rightarrow> mworld \<Rightarrow> mworld \<Rightarrow> bool" for e where
  connect: "env_ok env \<Longrightarrow> fresh env w \<Longrightarrow> rq_Permission q \<noteq> None \<Longrightarrow> mstep e w (snd (HandleConnection env e q w))"
| message: "env_ok env \<Longrightarrow> fresh env w \<Longrightarrow> receive env e k cl msg w = Some w' \<Longrightarrow> mstep e w w'"
| disconnect: "env_ok env \<Longrightarrow> mstep e w (read_loop_end env e k cl err w)"
| broker: "env_ok env \<Longrightarrow> mstep e w (nats_deliver env full msg w)"
| writer: "run_step env k w = Some w' \<Longrightarrow> mstep e w w'"
| rest_publish: "mstep e w (snd (Publish env [] m False w))"
| bus_goroutine: "mstep e w (handle_pending env n w)"
| log_goroutine: "mstep e w (publish_pending_log env n w)"
| manager_start: "mstep e w (snd (Start_manager w))"
| cleanup_timer: "mstep e w (performCleanup env raw p w)"
| stale_timer: "env_ok env \<Longrightarrow> mstep e w (w\<lparr>m_conns := snd (CleanStaleConnections (me_now env)
      (me_refs env (ran (connections (cs_repo (m_conns w))))) (m_conns w))\<rparr>)"
| failed_ping: "mstep e w (ping_failed k w)"
| pong: "mstep e w (pong_received env r w)"
| client_ping: "mstep e w (snd (SendPingToClient env k w))"
| stats_reset: "mstep e w (w\<lparr>m_telemetry := ResetForProject p (m_telemetry w)\<rparr>)"

lemma msg_inv_init: "msg_inv (init_world ch clh sh gate)"
  by (simp add: init_world_def msg_inv_def conns_ok_def clients_ok_def subs_ok_def live_def pipes_ok_def buffers_ok_def
      svc_inv_def conn_inv_def new_conn_svc_def sub_inv_def empty_sub_repo_def links_def rev_links_def)

lemma msg_inv_stale:
  assumes "msg_inv w" "env_ok env"
  shows "msg_inv (w\<lparr>m_conns := snd (CleanStaleConnections now (me_refs env (ran (connections (cs_repo (m_conns w))))) (m_conns w))\<rparr>)"
proof -
  let ?s = "m_conns w" and ?U = "ran (connections (cs_repo (m_conns w)))"
  have s: "svc_inv ?s" "?U \<subseteq> {..<m_nextRef w}" using msg_invD(1) [OF assms(1)] by (simp_all add: conns_ok_def)
  then have ci: "conn_inv (cs_heap ?s) (cs_repo ?s)" by (simp add: svc_inv_def)
  have id: "conn_ID (cs_heap ?s r) = i" if "connections (cs_repo ?s) i = Some r" for i r
    using conn_inv_ID [OF ci that] by simp
  have "inj_on (\<lambda>r. conn_ID (cs_heap ?s r)) ?U"
  proof (rule inj_onI)
    fix x y assume "x \<in> ?U" "y \<in> ?U" and eq: "conn_ID (cs_heap ?s x) = conn_ID (cs_heap ?s y)"
    then obtain i j where "connections (cs_repo ?s) i = Some x" "connections (cs_repo ?s) j = Some y" by (auto simp: ran_def)
    then show "x = y" using id eq by force
  qed
  then have "conn_ok_inv ?U ?s" using s(1) by (simp add: conn_ok_inv_def)
  moreover have "enumerates_conns (me_refs env)" using assms(2) by (simp add: env_ok_def enumerates_def enumerates_conns_def)
  ultimately have "svc_inv (conn_step (me_refs env) (me_sock env) (CClean now) ?s) \<and>
      conn_abs (conn_step (me_refs env) (me_sock env) (CClean now) ?s) = conn_spec_step (CClean now) (conn_abs ?s)"
    by (intro conn_step_spec) (simp_all add: conn_op_ok_def)
  moreover have "ran (connections (cs_repo s')) \<subseteq> ?U" if "conn_abs s' = conn_spec_step (CClean now) (conn_abs ?s)" for s'
    using that by (auto simp: conn_abs_def ran_def split: option.splits if_splits)
  ultimately have "conns_ok (snd (CleanStaleConnections now (me_refs env ?U) ?s)) (m_nextRef w)"
    using s(2) by (fastforce simp: conns_ok_def)
  then show ?thesis using assms(1) by (simp add: msg_inv_def)
qed

lemma mstep_inv: "mstep e w w' \<Longrightarrow> msg_inv w \<Longrightarrow> msg_inv w'"
proof (induction rule: mstep.induct)
  case (connect env w q)
  then show ?case using msg_inv_HandleConnection [OF _ _ _ prod.collapse [symmetric]] by blast
next
  case (message env w k cl msg w')
  then show ?case using msg_inv_receive [of w env e k cl msg] by simp
next
  case (disconnect env w k cl err)
  have "msg_inv (read_error_log e k cl t w)" for t
    using disconnect.prems okD [OF ok_conn_log disconnect.prems] by (simp add: read_error_log_def split: sum.split)
  then show ?case using disconnect msg_inv_HandleDisconnection by (simp add: read_loop_end_def split: option.split)
next
  case (broker env w full msg)
  then show ?case using okD [OF ok_nats_deliver] by blast
next
  case (writer env k w w')
  then show ?case using okD [OF io_ok [OF io_run_step]] by blast
next
  case (rest_publish w env m)
  then show ?case using okD [OF ok_Publish [OF prod.collapse [symmetric]]] by blast
next
  case (bus_goroutine w env n)
  then show ?case using okD [OF ok_handle_pending] by blast
next
  case (log_goroutine w env n)
  then show ?case using okD [OF ok_publish_pending_log] by blast
next
  case (manager_start w)
  then show ?case by (simp add: Start_manager_def split: prod.split sum.split)
next
  case (cleanup_timer w env raw p)
  then show ?case using okD [OF ok_performCleanup] by blast
next
  case (stale_timer env w)
  then show ?case using msg_inv_stale by blast
next
  case (failed_ping w k)
  then show ?case by (simp add: ping_failed_def okD [OF ok_io_simps(3)])
next
  case (pong w env r)
  then show ?case using msg_inv_map_conn [of w "UpdatePong (me_now env)" r] by (simp add: pong_received_def UpdatePong_def)
next
  case (client_ping w env k)
  then show ?case by (simp add: SendPingToClient_def Let_def okD [OF ok_SendMessage_snd])
next
  case (stats_reset w p)
  then show ?case by simp
qed

lemma reachable_msg_inv: "(mstep e)\<^sup>*\<^sup>* (init_world ch clh sh gate) w \<Longrightarrow> msg_inv w"
  by (induction rule: rtranclp_induct) (auto intro: mstep_inv msg_inv_init)

text \<open>C20. In every state the runtime can reach, whatever clients, broker, timers and goroutines do in
  whatever order: no outbound pipeline holds more than 256 messages, no message stays behind in a
  subscription buffer, no closed
  subscription is left in the channel index, the two maps of the index agree, every registered client
  carries a permission, and so no message a client may send makes its handler panic.\<close>

theorem messaging_invariant:
  assumes "(mstep e)\<^sup>*\<^sup>* (init_world ch clh sh gate) w"
  shows "(case m_pipelines w k of Some p \<Rightarrow> length (pp_queue p) \<le> 256 | None \<Rightarrow> True) \<and>
    (case m_buffers w s of Some q \<Rightarrow> bq_items q = [] | None \<Rightarrow> True) \<and>
    links (m_subs w) \<inter> {(c, r). sub_closed (m_heap w r)} = {} \<and>
    rev_links (m_subs w) = (\<lambda>(c, r). (sub_ID (m_heap w r), c)) ` links (m_subs w) \<and>
    (env_ok env \<and> fresh env w \<longrightarrow> receive env e k cl msg w \<noteq> None)"
proof -
  note i = reachable_msg_inv [OF assms]
  note so = msg_invD(3) [OF i]
  have "case m_pipelines w k of Some p \<Rightarrow> length (pp_queue p) \<le> 256 | None \<Rightarrow> True"
    using pipes_okD [OF msg_invD(5) [OF i]] by (auto split: option.split)
  moreover have "case m_buffers w s of Some q \<Rightarrow> bq_items q = [] | None \<Rightarrow> True"
    using buffers_okD [OF msg_invD(6) [OF i], of s] by (auto simp: NewBoundedQueue_def split: option.split)
  moreover have "links (m_subs w) \<inter> {(c, r). sub_closed (m_heap w r)} = {}"
    using subs_okD(2) [OF so] by force
  moreover have "rev_links (m_subs w) = (\<lambda>(c, r). (sub_ID (m_heap w r), c)) ` links (m_subs w)"
    using subs_okD(1) [OF so] by (simp add: sub_inv_def)
  moreover have "receive env e k cl msg w \<noteq> None" if "env_ok env" "fresh env w"
    using msg_inv_receive [OF i that] by blast
  ultimately show ?thesis by blast
qed

definition sample_request :: ws_request where
  "sample_request = \<lparr>rq_RemoteAddr = ''a'', rq_UserAgent = ''u'', rq_Origin = ''o'', rq_Project = 1, rq_APIKeyID = 9,
     rq_APIPublicKey = ''pk'', rq_Alias = None, rq_Permission = Some ''p''\<rparr>"

theorem messaging_invariant_witness:
  "let w0 = init_world (\<lambda>_. sample_conn) (\<lambda>_. sample_client) sample_subs None;
       w = snd (HandleConnection sample_menv sample_ws sample_request w0)
   in links (m_subs w) \<inter> {(c, r). sub_closed (m_heap w r)} = {} \<and>
      receive (sample_menv\<lparr>me_connID := ''k3''\<rparr>) sample_ws ''k2'' ''cl2'' ''not json'' w \<noteq> None"
proof -
  define w0 where "w0 = init_world (\<lambda>_. sample_conn) (\<lambda>_. sample_client) sample_subs None"
  define w where "w = snd (HandleConnection sample_menv sample_ws sample_request w0)"
  let ?env = "sample_menv\<lparr>me_connID := ''k3''\<rparr>"
  have f0: "fresh sample_menv w0"
    by (simp add: fresh_def w0_def init_world_def new_conn_svc_def live_def links_def empty_sub_repo_def)
  have "mstep sample_ws w0 w" unfolding w_def
    by (rule connect [OF sample_env_ok(1) f0]) (simp add: sample_request_def)
  then have r: "(mstep sample_ws)\<^sup>*\<^sup>* w0 w" by (rule r_into_rtranclp)
  have e: "env_ok ?env" using sample_env_ok(1) by (simp add: env_ok_def)
  have s: "ws_logs sample_ws = False" "m_subs w0 = empty_sub_repo" "m_subCache w0 = Map.empty" by (simp_all add: sample_ws_def w0_def init_world_def)
  have "m_subs w = empty_sub_repo \<and> m_subCache w = Map.empty \<and> connections (cs_repo (m_conns w)) ''k3'' = None"
    unfolding w_def w0_def
    by (simp add: HandleConnection_def accept_conn_def Let_def Register_conn_def store_conn_def Store_def set_state_def
        New_connection_def opened_log_def s(1) Connect_def init_world_def new_conn_svc_def sample_menv_def FindByConnectionID_def
        found_def Create_client_def New_client_def SetState_client_def RegisterConnection_def Register_pipe_def put_pipe_def
        sendConnectedMessage_def GetClient_def SendMessage_def IsConnected_client_def put_client_def Update_clients_def
        UpdateActivity_client_def Update_client_def send_w_def Send_conn_def FindByID_conn_def IsClosed_conn_def UpdateSent_def
        sample_request_def)
  then have "fresh ?env w" by (simp add: fresh_def live_def links_def empty_sub_repo_def)
  then show ?thesis
    using messaging_invariant [OF r [unfolded w0_def], of "''k2''" "[]" ?env "''cl2''" "''not json''"] e
    unfolding w0_def [symmetric] w_def [symmetric] Let_def by blast
qed

end
