(* ===== verification/MsgDelivery.thy ===== *)
theory MsgDelivery
  imports MsgSample
begin

text \<open>
  What the egress side delivers: the writer of a pipeline empties it, and a broker message reaches the
  pipeline of every subscriber of its channel exactly once.
\<close>

section \<open>The writer of a pipeline\<close>

definition writable :: "menv \<Rightarrow> ulid \<Rightarrow> mworld \<Rightarrow> bool" where
  "writable env k w \<longleftrightarrow> me_sock env k \<and>
     (case connections (cs_repo (m_conns w)) k of None \<Rightarrow> False | Some r \<Rightarrow> \<not> IsClosed_conn (cs_heap (m_conns w) r))"

lemma send_w_writable:
  assumes "svc_inv (m_conns w)" "writable env k w"
  shows "\<exists>c. send_w env k msg w = (Inr (), w\<lparr>m_conns := c, m_wire := m_wire w @ [(k, msg)]\<rparr>) \<and>
    (\<forall>v. m_conns v = c \<longrightarrow> writable env k v)"
proof -
  let ?s = "m_conns w"
  obtain r where r: "connections (cs_repo ?s) k = Some r" "\<not> IsClosed_conn (cs_heap ?s r)" "me_sock env k"
    using assms(2) by (auto simp: writable_def split: option.splits)
  have i: "conn_inv (cs_heap ?s) (cs_repo ?s)" and h: "k \<in> cs_sendHandlers ?s" "k \<in> cs_writeMutexes ?s"
    using assms(1) r(1) by (auto simp: svc_inv_def)
  have ID: "conn_ID (cs_heap ?s r) = k" using conn_inv_ID [OF i r(1)] .
  let ?c = "store_conn r (?s\<lparr>cs_heap := (cs_heap ?s)(r := UpdateSent (me_now env) (int (length msg)) (cs_heap ?s r))\<rparr>)"
  have "send_w env k msg w = (Inr (), w\<lparr>m_conns := ?c, m_wire := m_wire w @ [(k, msg)]\<rparr>)"
    using r h by (simp add: send_w_def Send_conn_def FindByID_conn_def Let_def)
  moreover have "writable env k v" if "m_conns v = ?c" for v
    using r ID that by (simp add: writable_def store_conn_def Store_def Let_def UpdateSent_def IsClosed_conn_def)
  ultimately show ?thesis by blast
qed

lemma send_w_not_writable:
  assumes "\<not> writable env k w"
  shows "\<exists>e. send_w env k msg w = (Inl e, w)"
  using assms by (auto simp: send_w_def Send_conn_def FindByID_conn_def writable_def split: option.split)

lemma writable_pipes [simp]: "writable env k (put_pipe c p w) = writable env k w" "writable env k (record_w env q d w) = writable env k w"
  by (simp_all add: writable_def put_pipe_def record_w_def split: option.split)

lemma pipeline_fields [simp]:
  "m_pipelines (record_w env q d w) = m_pipelines w" "m_wire (record_w env q d w) = m_wire w"
  "m_conns (record_w env q d w) = m_conns w" "m_wire (put_pipe c p w) = m_wire w"
  "m_pipelines (put_pipe c p w) = (m_pipelines w)(c \<mapsto> p)" "m_conns (put_pipe c p w) = m_conns w"
  by (simp_all add: record_w_def put_pipe_def)

text \<open>One round: the first message leaves the queue, and it is on the wire if the socket took it.\<close>

lemma run_step_round:
  assumes "msg_inv w" "m_pipelines w k = Some p" "pp_queue p = msg # rest"
  shows "\<exists>w' p'. run_step env k w = Some w' \<and> m_pipelines w' k = Some p' \<and> pp_queue p' = rest \<and>
    writable env k w' = writable env k w \<and> m_wire w' = m_wire w @ (if writable env k w then [(k, msg)] else [])"
proof -
  have p: "pp_connID p = k" "\<not> pp_stopped p" using pipes_okD [OF msg_invD(5) [OF assms(1)] assms(2)] by simp_all
  let ?p = "p\<lparr>pp_queue := rest\<rparr>"
  let ?w = "put_pipe k ?p w"
  have st: "run_step env k w = Some (deliver env k ?p msg ?w)" using assms p by (simp add: run_step_def Let_def)
  have si: "svc_inv (m_conns ?w)" using msg_invD(1) [OF assms(1)] by (simp add: conns_ok_def)
  show ?thesis
  proof (cases "writable env k w")
    case True
    then obtain c where s: "send_w env k msg ?w = (Inr (), ?w\<lparr>m_conns := c, m_wire := m_wire ?w @ [(k, msg)]\<rparr>)"
      and v: "\<forall>v. m_conns v = c \<longrightarrow> writable env k v"
      using send_w_writable [OF si, of env k msg] by auto
    show ?thesis using st s v True p by (simp add: deliver_def)
  next
    case False
    then obtain e where "send_w env k msg ?w = (Inl e, ?w)" using send_w_not_writable [of env k ?w msg] by auto
    then show ?thesis using st False p by (simp add: deliver_def)
  qed
qed

lemma run_n_drains:
  "msg_inv w \<Longrightarrow> m_pipelines w k = Some p \<Longrightarrow> \<exists>p'. m_pipelines (run_n env k (length (pp_queue p)) w) k = Some p' \<and> pp_queue p' = [] \<and>
     m_wire (run_n env k (length (pp_queue p)) w) =
       m_wire w @ (if writable env k w then List.map (Pair k) (pp_queue p) else [])"
proof (induction "pp_queue p" arbitrary: p w)
  case Nil
  then show ?case by (auto simp: Nil.hyps [symmetric])
next
  case (Cons msg rest)
  obtain w' p' where r: "run_step env k w = Some w'" "m_pipelines w' k = Some p'" "pp_queue p' = rest"
    "writable env k w' = writable env k w" "m_wire w' = m_wire w @ (if writable env k w then [(k, msg)] else [])"
    using run_step_round [OF Cons.prems Cons.hyps(2) [symmetric]] by blast
  have i: "msg_inv w'" by (rule okD [OF io_ok [OF io_run_step [OF r(1)]] Cons.prems(1)])
  have "run_n env k (length (pp_queue p)) w = run_n env k (length (pp_queue p')) w'"
    using r(1,3) by (simp add: Cons.hyps(2) [symmetric])
  then show ?case using Cons.hyps(1) [OF r(3) [symmetric] i r(2)] r(3-5) by (auto simp: Cons.hyps(2) [symmetric])
qed

text \<open>C22. Everything that waits in the outbound pipeline of a connection gets its turn: after as many
  rounds of the writer as there are messages the queue is empty and the writer waits, and a connection
  that is registered, open and whose socket accepts writes has been sent every message, once and in order;
  otherwise each was dropped and none was sent.\<close>

theorem pipeline_drains:
  assumes "msg_inv w" "m_pipelines w k = Some p"
  shows "map_option pp_queue (m_pipelines (run_n env k (length (pp_queue p)) w) k) = Some [] \<and>
    run_step env k (run_n env k (length (pp_queue p)) w) = None \<and>
    m_wire (run_n env k (length (pp_queue p)) w) =
      m_wire w @ (if writable env k w then List.map (Pair k) (pp_queue p) else [])"
  using run_n_drains [OF assms, of env] by (auto simp: run_step_def)

lemma sample_mpipe: "m_pipelines sample_mworld ''k'' = Some sample_pipe" "pp_queue sample_pipe = [''old'']"
  by (simp_all add: sample_mworld_def sample_pipe_def)

lemma sample_k_writable: "writable sample_menv ''k'' sample_mworld"
  by (simp add: writable_def sample_menv_def sample_mworld_def sample_conn_def IsClosed_conn_def)

theorem pipeline_drains_witness:
  "m_wire (run_n sample_menv ''k'' 1 sample_mworld) = m_wire sample_mworld @ [(''k'', ''old'')] \<and>
   run_step sample_menv ''k'' (run_n sample_menv ''k'' 1 sample_mworld) = None"
  using pipeline_drains [OF sample_msg_inv sample_mpipe(1), of sample_menv] sample_k_writable by (simp add: sample_mpipe(2))

section \<open>Fan-out\<close>

lemma allow_out_same:
  "allow_out env p w = (True, w) \<Longrightarrow> m_gate v = m_gate w \<Longrightarrow> allow_out env p v = (True, v)"
proof -
  assume a: "allow_out env p w = (True, w)" and g: "m_gate v = m_gate w"
  show ?thesis
  proof (cases "m_gate w")
    case None
    then show ?thesis using g by (simp add: allow_out_def)
  next
    case (Some x)
    obtain b x' where x: "AllowOutbound (me_rates env p) (me_now env) p x = (b, x')" by fastforce
    have bw: "b" "w\<lparr>m_gate := Some x'\<rparr> = w" using a Some x by (simp_all add: allow_out_def)
    have "x' = x" using arg_cong [OF bw(2), of m_gate] Some by simp
    then have "v\<lparr>m_gate := Some x'\<rparr> = v" using g Some by simp
    then show ?thesis using g Some x bw(1) by (simp add: allow_out_def)
  qed
qed

text \<open>The pipelines once a message has been put into those of the connections \<open>K\<close>.\<close>

definition put_all :: "bytes \<Rightarrow> ulid set \<Rightarrow> (ulid \<Rightarrow> pipeline option) \<Rightarrow> ulid \<Rightarrow> pipeline option" where
  "put_all msg K P k = (if k \<in> K then map_option (\<lambda>p. p\<lparr>pp_queue := pp_queue p @ [msg]\<rparr>) (P k) else P k)"

definition room :: "ulid set \<Rightarrow> (ulid \<Rightarrow> pipeline option) \<Rightarrow> bool" where
  "room K P \<longleftrightarrow> (\<forall>k\<in>K. case P k of None \<Rightarrow> True | Some p \<Rightarrow> length (pp_queue p) < 256)"

text \<open>The connections of the clients that hold the subscriptions \<open>S\<close>.\<close>

definition conns_of :: "mworld \<Rightarrow> ref set \<Rightarrow> ulid set" where
  "conns_of w S = {k. \<exists>r\<in>S. m_clientConn w (sub_ClientID (m_heap w r)) = Some k}"

lemma Deliver_pipelines:
  assumes "pipes_ok (m_pipelines w)" "msg \<noteq> []" "room {k. m_clientConn w cl = Some k} (m_pipelines w)"
    "Deliver env cl msg w = (res, w')"
  shows "w' = w\<lparr>m_pipelines := put_all msg {k. m_clientConn w cl = Some k} (m_pipelines w)\<rparr>"
proof (cases "m_clientConn w cl")
  case None
  then have "put_all msg {k. m_clientConn w cl = Some k} (m_pipelines w) = m_pipelines w" by (simp add: put_all_def fun_eq_iff)
  then show ?thesis using assms(4) None by (simp add: Deliver_def)
next
  case (Some k)
  have pa: "put_all msg {k. m_clientConn w cl = Some k} (m_pipelines w) =
      (m_pipelines w)(k := map_option (\<lambda>p. p\<lparr>pp_queue := pp_queue p @ [msg]\<rparr>) (m_pipelines w k))"
    using Some by (auto simp: put_all_def fun_eq_iff)
  show ?thesis
  proof (cases "m_pipelines w k")
    case None
    then show ?thesis using assms(4) Some pa by (simp add: Deliver_def Enqueue_reg_def fun_upd_idem)
  next
    case p: (Some p)
    have "length (pp_queue p) < 256" using assms(3) Some p by (simp add: room_def)
    then show ?thesis using assms(2,4) Some p pa pipes_okD [OF assms(1) p]
      by (simp add: Deliver_def Enqueue_reg_def Enqueue_pipe_def put_pipe_def)
  qed
qed

lemma put_all_empty [simp]: "put_all msg {} P = P"
  by (simp add: put_all_def fun_eq_iff)

lemma put_all_union: "K \<inter> L = {} \<Longrightarrow> put_all msg L (put_all msg K P) = put_all msg (K \<union> L) P"
  by (auto simp: put_all_def fun_eq_iff)

lemma room_put_all: "room L P \<Longrightarrow> K \<inter> L = {} \<Longrightarrow> room L (put_all msg K P)"
  unfolding room_def put_all_def by auto

lemma room_mono: "room K P \<Longrightarrow> L \<subseteq> K \<Longrightarrow> room L P"
  unfolding room_def by blast

text \<open>Two subscriptions are never those of one connection.\<close>

definition one_each :: "mworld \<Rightarrow> ref set \<Rightarrow> bool" where
  "one_each w S \<longleftrightarrow> (\<forall>r\<in>S. \<forall>q\<in>S. m_clientConn w (sub_ClientID (m_heap w r)) = m_clientConn w (sub_ClientID (m_heap w q)) \<longrightarrow>
      m_clientConn w (sub_ClientID (m_heap w r)) \<noteq> None \<longrightarrow> r = q)"

lemma fanout_loop_pipelines:
  assumes "msg_inv w" "allow_out env p w = (True, w)" "msg \<noteq> []" "distinct rs" "\<forall>r\<in>set rs. \<not> sub_closed (m_heap w r)"
    "one_each w (set rs)" "room (conns_of w (set rs)) (m_pipelines w)"
  shows "\<exists>B. snd (fanout_loop env msg p rs n w) =
    w\<lparr>m_pipelines := put_all msg (conns_of w (set rs)) (m_pipelines w), m_buffers := B\<rparr>"
  using assms
proof (induction rs arbitrary: n w)
  case Nil
  show ?case by (rule exI [where x = "m_buffers w"]) (simp add: conns_of_def)
next
  case (Cons r rs)
  let ?K = "{k. m_clientConn w (sub_ClientID (m_heap w r)) = Some k}" and ?L = "conns_of w (set rs)"
  let ?B = "(m_buffers w)(sub_ID (m_heap w r) \<mapsto> empty_buffer)"
  let ?w = "w\<lparr>m_pipelines := put_all msg ?K (m_pipelines w), m_buffers := ?B\<rparr>"
  have U: "conns_of w (set (r # rs)) = ?K \<union> ?L" by (auto simp: conns_of_def)
  have dis: "?K \<inter> ?L = {}" using Cons.prems(4,6) by (auto simp: conns_of_def one_each_def)
  have rm: "room ?K (m_pipelines w)" "room ?L (m_pipelines w)" using room_mono [OF Cons.prems(7)] U by simp_all
  obtain res w1 where d: "Deliver env (sub_ClientID (m_heap w r)) msg (put_buffer (sub_ID (m_heap w r)) (Some empty_buffer) w) = (res, w1)"
    by fastforce
  have w1: "w1 = ?w"
    using Deliver_pipelines [OF _ Cons.prems(3) _ d] msg_invD(5) [OF Cons.prems(1)] rm(1) by (simp add: put_buffer_def)
  have ds: "deliverToSubscriber env r msg p w = (True, ?w)"
    using deliverToSubscriber_eq [OF msg_invD(6) [OF Cons.prems(1)] Cons.prems(2)] d w1 by simp
  have i: "msg_inv ?w" by (rule okD [OF ok_deliverToSubscriber [OF ds] Cons.prems(1)])
  have al: "allow_out env p ?w = (True, ?w)" by (rule allow_out_same [OF Cons.prems(2)]) simp
  have c: "conns_of ?w S = conns_of w S" "one_each ?w S = one_each w S" for S by (simp_all add: conns_of_def one_each_def)
  have "\<exists>B. snd (fanout_loop env msg p rs (n + 1) ?w) =
      ?w\<lparr>m_pipelines := put_all msg (conns_of ?w (set rs)) (m_pipelines ?w), m_buffers := B\<rparr>"
  proof (rule Cons.IH [OF i al Cons.prems(3)])
    show "one_each ?w (set rs)" using Cons.prems(6) unfolding c by (auto simp: one_each_def)
    show "room (conns_of ?w (set rs)) (m_pipelines ?w)" unfolding c using room_put_all [OF rm(2) dis] by simp
  qed (use Cons.prems(4,5) in simp_all)
  then obtain B where "snd (fanout_loop env msg p rs (n + 1) ?w) =
      ?w\<lparr>m_pipelines := put_all msg ?L (put_all msg ?K (m_pipelines w)), m_buffers := B\<rparr>" unfolding c by auto
  then have "snd (fanout_loop env msg p (r # rs) n w) =
      w\<lparr>m_pipelines := put_all msg (?K \<union> ?L) (m_pipelines w), m_buffers := B\<rparr>"
    using Cons.prems(5) ds by (simp add: put_all_union [OF dis])
  then show ?case unfolding U by blast
qed

lemma touchChannelActivity_frame: "\<exists>C. touchChannelActivity env full w = w\<lparr>m_channels := C\<rparr>"
proof -
  have "\<exists>C. w = w\<lparr>m_channels := C\<rparr>" by (rule exI [where x = "m_channels w"]) simp
  then show ?thesis
    by (auto simp: touchChannelActivity_def Update_chs_def split: sum.split prod.split)
qed



end
