(* ===== verification/MsgSession.thy ===== *)
theory MsgSession
  imports MsgSample
begin

text \<open>
  The end of a session and the subscriptions of a client: what a disconnection leaves behind, what
  \<open>Subscribe\<close> does on its success and error paths, what a failed publish tells the client, and that a
  message can do nothing its client has no permission for.
\<close>

section \<open>What the parts leave alone\<close>

text \<open>Steps that touch channels, events, logs and clients only.\<close>

definition quiet :: "mworld \<Rightarrow> mworld \<Rightarrow> bool" where
  "quiet w w' \<longleftrightarrow> m_conns w' = m_conns w \<and> m_heap w' = m_heap w \<and> m_subs w' = m_subs w \<and> m_pipelines w' = m_pipelines w \<and>
     m_clientConn w' = m_clientConn w \<and> m_subCache w' = m_subCache w \<and> m_apiKeys w' = m_apiKeys w \<and> m_wire w' = m_wire w \<and>
     m_nats w' = m_nats w \<and> m_listening w' = m_listening w"

lemma quiet_refl [simp]: "quiet w w"
  by (simp add: quiet_def)

lemma quiet_trans: "quiet w1 w2 \<Longrightarrow> quiet w2 w3 \<Longrightarrow> quiet w1 w3"
  by (simp add: quiet_def)

lemma quiet_conn_log [simp]: "quiet w (conn_log e k p t msg cl ch err w)"
  by (simp add: quiet_def conn_log_def PublishLog_def Let_def split: sum.split)

lemma quiet_emit [simp]: "quiet w (emit_w env t d w)"
  by (simp add: quiet_def emit_w_def)

lemma quiet_Update_chs: "quiet w (snd (Update_chs c w))"
  by (simp add: quiet_def Update_chs_def split: prod.split)

lemma quiet_decrement: "quiet w (decrement_channel env c w)"
  using quiet_Update_chs by (simp add: decrement_channel_def split: option.split)

lemma quiet_close_loop: "quiet w (close_loop env r chs w)"
proof (induction chs arbitrary: w)
  case (Cons full chs)
  show ?case using Cons.IH quiet_trans [OF quiet_trans [OF quiet_decrement quiet_emit] Cons.IH]
    by (simp add: Let_def split: sum.split)
qed simp

lemma quiet_Disconnect: "quiet w (snd (Disconnect env k w))"
  by (simp add: quiet_def Disconnect_def Update_clients_def put_client_def split: sum.split prod.split)

lemma clients_close_loop: "m_clients (close_loop env r chs w) = m_clients w" "m_cheap (close_loop env r chs w) = m_cheap w"
proof -
  have "m_clients (close_loop env r chs w) = m_clients w \<and> m_cheap (close_loop env r chs w) = m_cheap w"
  proof (induction chs arbitrary: w)
    case (Cons full chs)
    show ?case using Cons.IH
      by (simp add: Let_def emit_w_def decrement_channel_def Update_chs_def split: sum.split option.split prod.split)
  qed simp
  then show "m_clients (close_loop env r chs w) = m_clients w" "m_cheap (close_loop env r chs w) = m_cheap w" by simp_all
qed

section \<open>The end of a session\<close>

lemma Get_sub_none:
  assumes "msg_inv w" "env_ok env" "Get_sub env i w = Inl x" "(ch, r) \<in> links (m_subs w)"
  shows "sub_ID (m_heap w r) \<noteq> i"
proof -
  note s = subs_okD(1) [OF msg_invD(3) [OF assms(1)]]
  have e: "enumerates (me_refs env)" "enumerates (me_names env)" using assms(2) by (simp_all add: env_ok_def)
  have "finite (dom (subscriptions (m_subs w)))" using dom_subscriptions [OF s] s by (simp add: sub_inv_def)
  then have d: "set (me_names env (dom (subscriptions (m_subs w)))) = dom (subscriptions (m_subs w))"
    using e(2) by (simp add: enumerates_def)
  obtain S where S: "subscriptions (m_subs w) ch = Some S" "r \<in> S" using assms(4) by (auto simp: links_def)
  have "S \<subseteq> snd ` links (m_subs w)" using S(1) by (force simp: links_def)
  then have "finite S" using s finite_subset by (fastforce simp: sub_inv_def)
  then have "set (me_refs env S) = S" using e(1) by (simp add: enumerates_def)
  then have "r \<in> set (concat (List.map snd (sub_order env w)))"
    using S d by (force simp: sub_order_def)
  then show ?thesis using assms(3) by (auto simp: Get_sub_def FindByID_sub_def find_None_iff split: option.splits)
qed

text \<open>Closing the subscription of a client unlinks exactly it.\<close>

definition without_sub :: "ulid option \<Rightarrow> mworld \<Rightarrow> (string \<times> ref) set" where
  "without_sub i w = {(ch, r) \<in> links (m_subs w). i \<noteq> Some (sub_ID (m_heap w r))}"

lemma close_client_subscription_effect:
  fixes c :: client_ref
  assumes "msg_inv w" "env_ok env"
  defines "w' \<equiv> close_client_subscription env c w"
  shows "links (m_subs w') = without_sub (cl_SubscriptionID (m_cheap w c)) w \<and> m_conns w' = m_conns w \<and>
    m_pipelines w' = m_pipelines w \<and> m_clientConn w' = m_clientConn w \<and> m_subCache w' = m_subCache w \<and>
    m_apiKeys w' = m_apiKeys w \<and> m_wire w' = m_wire w \<and> m_clients w' = m_clients w \<and> m_cheap w' = m_cheap w"
proof (cases "cl_SubscriptionID (m_cheap w c)")
  case None
  then show ?thesis by (auto simp: w'_def close_client_subscription_def without_sub_def)
next
  case i: (Some i)
  show ?thesis
  proof (cases "Get_sub env i w")
    case (Inl x)
    then show ?thesis using i Get_sub_none [OF assms(1,2) Inl]
      by (auto simp: w'_def close_client_subscription_def without_sub_def)
  next
    case (Inr r)
    note s = msg_invD(3) [OF assms(1)]
    have r: "r \<in> snd ` links (m_subs w)" "sub_ID (m_heap w r) = i" using Get_sub_linked [OF assms(1,2) Inr] by simp_all
    then have open_r: "\<not> sub_closed (m_heap w r)" and live_r: "r \<in> live (m_subs w) (m_subCache w)"
      using subs_okD(2) [OF s] by (auto simp: live_def)
    obtain res w1 where ch: "channels_of env r w = (res, w1)" by fastforce
    obtain chs h where h: "res = Inr chs" "w1 = w\<lparr>m_heap := h\<rparr>"
      using channels_of_spec [OF assms(1,2) live_r ch] by metis
    have i1: "msg_inv w1" using okD [OF ok_channels_of [OF assms(2) live_r ch] assms(1)] .
    have l1: "r \<in> live (m_subs w1) (m_subCache w1)" using live_r h(2) by simp
    define R where "R = snd (RemoveSubscriptionFromAll (me_names env) (Some r) (Close_sub r (m_heap w1)) (m_subs w1))"
    have "enumerates (me_names env)" using assms(2) by (simp add: env_ok_def)
    then have R: "links R = links (m_subs w) - UNIV \<times> {r}"
      using subs_ok_close [OF msg_invD(3) [OF i1] l1 _ prod.collapse [symmetric]] h(2) by (simp add: R_def)
    have same: "sub_ID (m_heap w q) = i \<longleftrightarrow> q = r" if "(ch, q) \<in> links (m_subs w)" for ch q
    proof -
      have "q \<in> live (m_subs w) (m_subCache w)" using that by (force simp: live_def)
      then show ?thesis using inj_onD [OF subs_okD(4) [OF s], of q r] live_r r(2) by auto
    qed
    let ?w2 = "w1\<lparr>m_heap := Close_sub r (m_heap w1), m_subs := R\<rparr>"
    have w': "\<exists>t d. w' = emit_w env t d (close_loop env r chs ?w2)"
      using i Inr open_r ch h(1) by (auto simp: w'_def close_client_subscription_def CloseSubscription_def Let_def R_def)
    then have "quiet ?w2 w'" using quiet_trans [OF quiet_close_loop quiet_emit] by auto
    moreover have "m_clients w' = m_clients w \<and> m_cheap w' = m_cheap w"
      using w' h(2) by (auto simp: emit_w_def clients_close_loop)
    moreover have "links R = without_sub (Some i) w" using R same by (auto simp: without_sub_def)
    ultimately show ?thesis using i h(2) by (simp add: quiet_def)
  qed
qed

lemma Disconnect_client:
  assumes "msg_inv w"
  shows "GetClient k (snd (Disconnect env k w)) = GetClient k w"
proof (cases "FindByConnectionID k (m_clients w)")
  case (Inl x)
  then show ?thesis by (simp add: Disconnect_def)
next
  case (Inr r)
  let ?w = "put_client r (SetState_client (me_now env) ClientDisconnected (m_cheap w r)) w"
  have id: "cl_ID (m_cheap ?w r) = cl_ID (m_cheap w r)" "m_clients ?w = m_clients w"
    by (simp_all add: put_client_def SetState_client_def)
  obtain e R where u: "Update_client (Some r) (m_cheap ?w) (m_clients ?w) = (e, R)" by fastforce
  have "clientsByConnectionID R = clientsByConnectionID (m_clients w)"
    using Update_self [of "m_clients w" "m_cheap ?w" r e R] u found_client [OF assms Inr] id by simp
  then show ?thesis using Inr u id(2)
    by (simp add: Disconnect_def Update_clients_def GetClient_def FindByConnectionID_def)
qed



section \<open>Subscribing\<close>

definition on_count :: "string \<Rightarrow> mworld \<Rightarrow> int" where
  "on_count full w = (case m_channels w full of None \<Rightarrow> 0 | Some c \<Rightarrow> ch_LocalSubscriptions c)"

lemma GetOrCreate_effect:
  assumes "chan_inv (m_channels w)" "GetOrCreate_ch env raw p w = (res, w1)"
  defines "full \<equiv> Full (NewName raw p)"
  shows "\<exists>ch C P. res = Inr ch \<and> FullName ch = full \<and> w1 = w\<lparr>m_channels := C, m_pending := P\<rparr> \<and> C full = Some ch \<and>
    ch_LocalSubscriptions ch = on_count full w"
proof (cases "m_channels w full")
  case (Some c)
  have "FullName c = full" using assms(1) Some by (simp add: chan_inv_def)
  moreover have "w1 = w\<lparr>m_channels := m_channels w, m_pending := m_pending w\<rparr>" "res = Inr c"
    using assms(2) Some by (simp_all add: GetOrCreate_ch_def Get_ch_def FindByName_ch_def full_def)
  moreover have "on_count full w = ch_LocalSubscriptions c" using Some by (simp add: on_count_def)
  ultimately show ?thesis using Some
    by (intro exI [where x = c] exI [where x = "m_channels w"] exI [where x = "m_pending w"]) simp
next
  case None
  let ?c = "SetActive (me_now env) True (New_channel (me_chanID env) (me_now env) (NewName raw p) (me_instance env))"
  have "res = Inr ?c" "\<exists>P. w1 = w\<lparr>m_channels := (m_channels w)(full \<mapsto> ?c), m_pending := P\<rparr>"
    using assms(2) None
    by (auto simp: GetOrCreate_ch_def Get_ch_def FindByName_ch_def Create_chs_def Let_def Create_ch_def Update_chs_def
        Update_ch_def emit_w_def full_def)
  then show ?thesis using None by (auto simp: on_count_def full_def)
qed

text \<open>Whether the broker will listen to the channel.\<close>

definition can_listen :: "menv \<Rightarrow> string \<Rightarrow> mworld \<Rightarrow> bool" where
  "can_listen env full w \<longleftrightarrow> me_nats env = ConnectedTo \<and> (full \<in> m_listening w \<or> me_natsSubscribe env)"

lemma Listen_effect:
  "EnsureChannelListening env full w =
     (if can_listen env full w then (Inr (), w\<lparr>m_listening := insert full (m_listening w)\<rparr>) else (Inl SubscriptionFailed, w))"
  by (auto simp: EnsureChannelListening_def ListenToChannel_def Subscribe_broker_def can_listen_def insert_absorb)

lemma sendSubscriptionState_frame [simp]:
  "m_subs (sendSubscriptionState env a r ch err w) = m_subs w" "m_heap (sendSubscriptionState env a r ch err w) = m_heap w"
  "m_listening (sendSubscriptionState env a r ch err w) = m_listening w" "m_channels (sendSubscriptionState env a r ch err w) = m_channels w"
  using io_frame [OF io_sendSubscriptionState] by simp_all

lemma emit_frame [simp]:
  "m_subs (emit_w env t d w) = m_subs w" "m_heap (emit_w env t d w) = m_heap w" "m_listening (emit_w env t d w) = m_listening w"
  "m_channels (emit_w env t d w) = m_channels w"
  by (simp_all add: emit_w_def)

definition subscribed :: "menv \<Rightarrow> string \<Rightarrow> ref \<Rightarrow> mworld \<Rightarrow> subscribe_error + unit \<Rightarrow> mworld \<Rightarrow> bool" where
  "subscribed env full r w res w' \<longleftrightarrow>
     links (m_subs w') = insert (full, r) (links (m_subs w)) \<and> same_IDs (m_heap w) (m_heap w') \<and>
     (\<forall>x. sub_closed (m_heap w' x) = sub_closed (m_heap w x)) \<and>
     (if (full, r) \<in> links (m_subs w) then res = Inr () \<and> m_listening w' = m_listening w \<and> on_count full w' = on_count full w
      else if can_listen env full w
      then res = Inr () \<and> m_listening w' = insert full (m_listening w) \<and> on_count full w' = i64 (on_count full w + 1)
      else res = Inl (SubscribeListen SubscriptionFailed) \<and> m_listening w' = m_listening w \<and> on_count full w' = on_count full w)"

lemma subscribe_new_effect:
  assumes "msg_inv w" "r \<in> live (m_subs w) (m_subCache w)" "\<not> sub_closed (m_heap w r)" "(full, r) \<notin> links (m_subs w)"
    "m_channels w full = Some ch" "FullName ch = full" "subscribe_new env raw r p ch w = (res, w')"
  shows "subscribed env full r w res w'"
proof -
  note s = msg_invD(3) [OF assms(1)]
  obtain a h R where a: "AddToChannel (me_now env) full (Some r) (m_heap w) (m_subs w) = (a, h, R)" by (metis prod.collapse)
  have A: "a = Inr ()" "links R = insert (full, r) (links (m_subs w))" "\<forall>x. sub_closed (h x) = sub_closed (m_heap w x)"
    "same_IDs (m_heap w) h"
    using AddToChannel_links [OF subs_okD(1) [OF s] live_own [OF s assms(2)] a] assms(3) by simp_all
  let ?w1 = "w\<lparr>m_heap := h, m_subs := R\<rparr>"
  have l: "can_listen env full ?w1 = can_listen env full w" by (simp add: can_listen_def)
  show ?thesis
  proof (cases "can_listen env full w")
    case False
    then have "res = Inl (SubscribeListen SubscriptionFailed)"
      "\<exists>a b d. w' = sendSubscriptionState env a r b d ?w1"
      using assms(6,7) a A(1) l by (auto simp: subscribe_new_def Listen_effect)
    then show ?thesis using assms(4) A False by (auto simp: subscribed_def on_count_def)
  next
    case True
    let ?c = "IncrementLocalSubscriptions (me_now env) ch"
    have u: "snd (Update_chs ?c (?w1\<lparr>m_listening := insert full (m_listening w)\<rparr>)) =
        w\<lparr>m_heap := h, m_subs := R, m_listening := insert full (m_listening w), m_channels := (m_channels w)(full \<mapsto> ?c)\<rparr>"
      using assms(5,6) by (simp add: Update_chs_def Update_ch_def)
    have "res = Inr ()" "w' = emit_w env EventChannelSubscribed (ChannelSubscribedData raw p (sub_ClientID (h r)) (sub_ID (h r)))
       (sendSubscriptionState env ActSubscribed r raw None (w\<lparr>m_heap := h, m_subs := R, m_listening := insert full (m_listening w), m_channels := (m_channels w)(full \<mapsto> ?c)\<rparr>))"
      using assms(6,7) a A(1) True l u by (auto simp: subscribe_new_def Listen_effect Let_def)
    then show ?thesis using assms(4,5) A True
      by (auto simp: subscribed_def on_count_def IncrementLocalSubscriptions_def)
  qed
qed

lemma subscribe_effect:
  assumes "msg_inv w" "env_ok env" "r \<in> live (m_subs w) (m_subCache w)" "\<not> sub_closed (m_heap w r)"
    "Subscribe env raw r p w = (res, w')"
  shows "subscribed env (Full (NewName raw p)) r w res w'"
proof -
  let ?full = "Full (NewName raw p)"
  obtain g w1 where g: "GetOrCreate_ch env raw p w = (g, w1)" by fastforce
  obtain ch C P where ch: "g = Inr ch" "FullName ch = ?full" "w1 = w\<lparr>m_channels := C, m_pending := P\<rparr>" "C ?full = Some ch"
    "ch_LocalSubscriptions ch = on_count ?full w" using GetOrCreate_effect [OF msg_invD(4) [OF assms(1)] g] by blast
  have i1: "msg_inv w1" by (rule okD [OF ok_GetOrCreate_ch [OF g] assms(1)])
  have l1: "r \<in> live (m_subs w1) (m_subCache w1)" using assms(3) ch(3) by simp
  obtain c w2 where c: "channels_of env r w1 = (c, w2)" by fastforce
  obtain chs h where h: "c = Inr chs" "set chs = {x. (x, r) \<in> links (m_subs w1)}" "w2 = w1\<lparr>m_heap := h\<rparr>"
    "\<forall>x. sub_closed (h x) = sub_closed (m_heap w1 x)" "same_IDs (m_heap w1) h"
    using channels_of_spec [OF i1 assms(2) l1 c] by metis
  have i2: "msg_inv w2" by (rule okD [OF ok_channels_of [OF assms(2) l1 c] i1])
  have same: "on_count ?full w2 = on_count ?full w" "can_listen env ?full w2 = can_listen env ?full w"
    using ch h(3) by (simp_all add: on_count_def can_listen_def)
  show ?thesis
  proof (cases "(?full, r) \<in> links (m_subs w)")
    case True
    then have "res = Inr ()" "\<exists>a b d. w' = sendSubscriptionState env a r b d w2"
      using assms(4,5) g ch c h by (auto simp: Subscribe_def)
    then show ?thesis using True ch(3) h same(1) by (auto simp: subscribed_def insert_absorb on_count_def)
  next
    case False
    then have n: "subscribe_new env raw r p ch w2 = (res, w')" using assms(4,5) g ch c h by (simp add: Subscribe_def)
    have "subscribed env ?full r w2 res w'"
      by (rule subscribe_new_effect [OF i2 _ _ _ _ ch(2) n]) (use l1 h ch assms(4) False in simp_all)
    then show ?thesis using False same h(3-5) ch(3) same_IDs_trans by (auto simp: subscribed_def)
  qed
qed

text \<open>C25. \<open>Subscribe\<close> on an open subscription: it ends up in the index of the channel in every case.  If it was
  not there before and the broker can listen, the listener is on, the counter of the channel is one
  higher and the call succeeds; if the broker cannot, the call fails although the subscription stays in
  the index.  A repeated call changes nothing.\<close>

theorem subscribe_correct:
  assumes "msg_inv w" "env_ok env" "r \<in> live (m_subs w) (m_subCache w)" "\<not> sub_closed (m_heap w r)"
  shows "case Subscribe env raw r p w of (res, w') \<Rightarrow>
     links (m_subs w') = insert (Full (NewName raw p), r) (links (m_subs w)) \<and>
     (if (Full (NewName raw p), r) \<in> links (m_subs w)
      then res = Inr () \<and> m_listening w' = m_listening w \<and> on_count (Full (NewName raw p)) w' = on_count (Full (NewName raw p)) w
      else if can_listen env (Full (NewName raw p)) w
      then res = Inr () \<and> m_listening w' = insert (Full (NewName raw p)) (m_listening w) \<and>
           on_count (Full (NewName raw p)) w' = i64 (on_count (Full (NewName raw p)) w + 1)
      else res = Inl (SubscribeListen SubscriptionFailed) \<and> m_listening w' = m_listening w \<and>
           on_count (Full (NewName raw p)) w' = on_count (Full (NewName raw p)) w)"
  using subscribe_effect [OF assms] by (simp add: subscribed_def split: prod.split)

lemma sample_sub_live: "2 \<in> live (m_subs sample_mworld) (m_subCache sample_mworld)" "\<not> sub_closed (m_heap sample_mworld 2)"
  by (simp_all add: sample_live sample_heaps)

theorem subscribe_correct_witness:
  "case Subscribe sample_menv ''d'' 2 1 sample_mworld of (res, w') \<Rightarrow>
     links (m_subs w') = {(''1.d'', 2), (''1.c'', 2)} \<and> res = Inr () \<and> m_listening w' = {''1.d'', ''1.c''} \<and> on_count ''1.d'' w' = 1"
proof -
  have f: "Full (NewName ''d'' 1) = ''1.d''" by code_simp
  have l: "can_listen sample_menv ''1.d'' sample_mworld" "m_listening sample_mworld = {''1.c''}" "on_count ''1.d'' sample_mworld = 0"
    by (simp_all add: can_listen_def sample_menv_def sample_mworld_def on_count_def)
  have "i64 1 = 1" by code_simp
  then show ?thesis using subscribe_correct [OF sample_msg_inv sample_env_ok(1) sample_sub_live, of "''d''" 1]
    unfolding f by (simp add: sample_links l split: prod.splits)
qed

text \<open>A client that is told that its subscription failed and tries again is told that it succeeded,
  while nothing was done to make the instance listen and the counter does not know the subscriber:
  the failed call has left the subscription in the index, and the second call finds it there.\<close>

lemma subscribe_retry_reports_success:
  assumes "msg_inv w" "env_ok env" "r \<in> live (m_subs w) (m_subCache w)" "\<not> sub_closed (m_heap w r)"
    "Subscribe env raw r p w = (Inl (SubscribeListen x), w1)" "env_ok env2"
  shows "fst (Subscribe env2 raw r p w1) = Inr () \<and>
     m_listening (snd (Subscribe env2 raw r p w1)) = m_listening w \<and>
     on_count (Full (NewName raw p)) (snd (Subscribe env2 raw r p w1)) = on_count (Full (NewName raw p)) w"
proof -
  let ?full = "Full (NewName raw p)"
  have 1: "subscribed env ?full r w (Inl (SubscribeListen x)) w1" by (rule subscribe_effect [OF assms(1-5)])
  have i1: "msg_inv w1" by (rule ok_Subscribe [OF assms(1-3,5)])
  have l1: "(?full, r) \<in> links (m_subs w1)" "\<not> sub_closed (m_heap w1 r)" "m_listening w1 = m_listening w"
    "on_count ?full w1 = on_count ?full w" "\<not> can_listen env ?full w"
    using 1 assms(4) by (auto simp: subscribed_def split: if_splits)
  then have "r \<in> live (m_subs w1) (m_subCache w1)" by (force simp: live_def)
  from subscribe_effect [OF i1 assms(6) this l1(2) prod.collapse [symmetric]]
  have 2: "subscribed env2 ?full r w1 (fst (Subscribe env2 raw r p w1)) (snd (Subscribe env2 raw r p w1))" .
  then show ?thesis using 2 l1 by (simp add: subscribed_def)
qed

lemma sample_subscribe_fails:
  "fst (Subscribe (sample_menv\<lparr>me_nats := Disconnected\<rparr>) ''d'' 2 1 sample_mworld) = Inl (SubscribeListen SubscriptionFailed)"
proof -
  have f: "Full (NewName ''d'' 1) = ''1.d''" by code_simp
  show ?thesis using subscribe_effect [OF sample_msg_inv sample_env_ok(2) sample_sub_live prod.collapse [symmetric], of "''d''" 1]
    by (simp add: f subscribed_def sample_links can_listen_def)
qed

section \<open>Publishing\<close>

text \<open>What a client is told when its publish fails does not depend on why it failed: the error of the
  reply is not in the bytes sent.\<close>

lemma publish_failure_reply_blind:
  "sendPublishFailure env k ch rc w = sendPublishFailure env k ch rc' w"
  by (simp add: sendPublishFailure_def sendPublishState_def NewDataMessage_def NewMessage_def data_json_def)

section \<open>Permissions\<close>

text \<open>Steps that neither publish nor touch the index.\<close>

definition idle :: "mworld \<Rightarrow> mworld \<Rightarrow> bool" where
  "idle w w' \<longleftrightarrow> m_nats w' = m_nats w \<and> m_subs w' = m_subs w"

lemma idle_refl [simp]: "idle w w"
  by (simp add: idle_def)

lemma idle_trans: "idle w1 w2 \<Longrightarrow> idle w2 w3 \<Longrightarrow> idle w1 w3"
  by (simp add: idle_def)

lemma quiet_idle: "quiet w w' \<Longrightarrow> idle w w'"
  by (simp add: quiet_def idle_def)

lemma io_idle: "io w w' \<Longrightarrow> idle w w'"
  by (simp add: idle_def io_frame)

lemma idle_map_conn [simp]: "idle w (map_conn f r w)"
  by (simp add: idle_def map_conn_def)

lemma idle_SendMessage [simp]: "idle w (snd (SendMessage env k msg w))"
proof (cases "FindByConnectionID k (m_clients w)")
  case (Inr r)
  let ?w = "snd (Update_clients r (put_client r (UpdateActivity_client (me_now env) (m_cheap w r)) w))"
  have 1: "idle w ?w" by (simp add: idle_def Update_clients_def put_client_def split: prod.split)
  obtain e w2 where s: "send_w env k msg ?w = (e, w2)" by fastforce
  show ?thesis using Inr s idle_trans [OF 1 io_idle [OF io_send [OF s]]] 1
    by (simp add: SendMessage_def Let_def split: sum.split)
qed (simp add: SendMessage_def)

lemma idle_error [simp]: "idle w (sendErrorResponse env k c msg st w)"
  by (simp add: sendErrorResponse_def)

lemma idle_sendPublishState [simp]: "idle w (sendPublishState env k m w)"
  by (simp add: sendPublishState_def)

text \<open>A publish puts at most one message on NATS, on the subject of its channel.\<close>

definition puts_on :: "string \<Rightarrow> mworld \<Rightarrow> mworld \<Rightarrow> bool" where
  "puts_on full w w' \<longleftrightarrow> m_subs w' = m_subs w \<and> (m_nats w' = m_nats w \<or> (\<exists>x. m_nats w' = m_nats w @ [(full, x)]))"

lemma idle_puts: "idle w1 w2 \<Longrightarrow> puts_on full w2 w3 \<Longrightarrow> puts_on full w1 w3" "puts_on full w1 w2 \<Longrightarrow> idle w2 w3 \<Longrightarrow> puts_on full w1 w3"
  "idle w1 w2 \<Longrightarrow> puts_on full w1 w2"
  by (auto simp: idle_def puts_on_def)

lemma idle_record [simp]: "idle w (record_w env p d w)"
  by (simp add: idle_def record_w_def)

lemma puts_PublishInbound:
  assumes "chan_inv (m_channels w)" "PublishInbound env rq w = (res, w')"
  shows "puts_on (Full (NewName (rq_Channel rq) (rq_ProjectID rq))) w w'"
proof (cases "rq_Message rq")
  case None
  then show ?thesis using assms by (simp add: PublishInbound_def idle_puts(3))
next
  case (Some m)
  obtain b w1 where 1: "(if rq_SkipTelemetry rq then (True, w) else allow_in env (rq_ProjectID rq) w) = (b, w1)" by fastforce
  have i1: "idle w w1" "m_channels w1 = m_channels w"
    using 1 by (auto simp: allow_in_def idle_def split: if_splits option.splits prod.splits)
  obtain c w2 where 2: "GetOrCreate_ch env (rq_Channel rq) (rq_ProjectID rq) w1 = (c, w2)" by fastforce
  let ?full = "Full (NewName (rq_Channel rq) (rq_ProjectID rq))"
  obtain ch C P where ch: "c = Inr ch" "FullName ch = ?full" "w2 = w1\<lparr>m_channels := C, m_pending := P\<rparr>"
    using GetOrCreate_effect [OF _ 2] assms(1) i1(2) by metis
  have i2: "idle w w2" using i1 ch(3) by (simp add: idle_def)
  show ?thesis
  proof (cases "b \<and> can_listen env ?full w2")
    case False
    then show ?thesis using assms(2) Some 1 2 ch i1(1) i2 idle_puts(3) idle_puts(3) [OF idle_trans [OF i1(1) idle_record]]
      by (cases b) (auto simp: PublishInbound_def recordInboundRejected_def Listen_effect)
  next
    case True
    let ?w3 = "w2\<lparr>m_listening := insert ?full (m_listening w2)\<rparr>"
    have i3: "idle w ?w3" using i2 by (simp add: idle_def)
    let ?msg = "me_json env (data_json (me_time env) (broadcast_msg env rq m))"
    obtain q w4 where 4: "PublishToChannel env ?full ?msg ?w3 = (q, w4)" by fastforce
    have "puts_on ?full ?w3 w4" using 4
      by (auto simp: PublishToChannel_def Publish_broker_def puts_on_def split: prod.splits sum.splits if_splits)
    then have p4: "puts_on ?full w w4" by (rule idle_puts(1) [OF i3])
    show ?thesis using assms(2) Some 1 2 ch True 4 p4 idle_puts(2) [OF p4 idle_record]
      by (cases q) (auto simp: PublishInbound_def Listen_effect Let_def)
  qed
qed

lemma puts_Publish:
  assumes "chan_inv (m_channels w)"
  shows "puts_on (Full (NewName (pb_ChannelName m) (pb_ProjectID m))) w (snd (Publish env k m skip w))"
proof -
  let ?rq = "\<lparr>rq_ConnectionID = k, rq_ProjectID = pb_ProjectID m, rq_Channel = pb_ChannelName m,
                rq_Message = Some m, rq_SkipTelemetry = skip, rq_Source = (if k = [] then SourceREST else SourceWebSocket)\<rparr>"
  obtain rc e w1 where p: "PublishInbound env ?rq w = ((rc, e), w1)" by (metis prod.collapse)
  have "puts_on (Full (NewName (pb_ChannelName m) (pb_ProjectID m))) w w1"
    using puts_PublishInbound [OF assms p] by simp
  then show ?thesis using p idle_puts(2) [OF _ idle_sendPublishState]
    by (cases e) (auto simp: Publish_def sendPublishFailure_def Let_def)
qed

lemma nats_frame [simp]:
  "m_nats (sendSubscriptionState env a r ch err w) = m_nats w" "m_nats (emit_w env t d w) = m_nats w"
  "m_nats (conn_log e k p ty m x y z w) = m_nats w" "m_subs (conn_log e k p ty m x y z w) = m_subs w"
  "m_heap (conn_log e k p ty m x y z w) = m_heap w"
  using io_frame [OF io_sendSubscriptionState] quiet_conn_log [of w e k p ty m x y z] by (simp_all add: emit_w_def quiet_def)

lemma nats_parts:
  "GetOrCreate_ch env raw p w = (g, w1) \<Longrightarrow> m_nats w1 = m_nats w" "channels_of env r w = (c, w1) \<Longrightarrow> m_nats w1 = m_nats w"
  "EnsureChannelListening env full w = (l, w1) \<Longrightarrow> m_nats w1 = m_nats w" "m_nats (snd (Update_chs ch w)) = m_nats w"
  by (auto simp: GetOrCreate_ch_def Create_chs_def Update_chs_def channels_of_def Let_def emit_w_def Listen_effect
      split: sum.splits if_splits prod.splits)

lemma nats_subscribe_new: "subscribe_new env raw r p ch w = (res, w') \<Longrightarrow> m_nats w' = m_nats w"
  by (auto simp: subscribe_new_def Let_def nats_parts(4) split: prod.splits sum.splits dest!: nats_parts(3))

lemma nats_Subscribe: "Subscribe env raw r p w = (res, w') \<Longrightarrow> m_nats w' = m_nats w"
  by (auto simp: Subscribe_def split: if_splits prod.splits sum.splits dest!: nats_parts(1,2) nats_subscribe_new)

lemma Unsubscribe_effect:
  assumes "msg_inv w" "r \<in> live (m_subs w) (m_subCache w)" "Unsubscribe env raw r p w = (res, w')"
  shows "m_nats w' = m_nats w \<and> links (m_subs w') \<subseteq> links (m_subs w)"
proof -
  note s = msg_invD(3) [OF assms(1)]
  define R where "R = snd (RemoveFromChannel (Full (NewName raw p)) (Some r) (m_heap w) (m_subs w))"
  have R: "links R \<subseteq> links (m_subs w)"
    using RemoveFromChannel_links [OF subs_okD(1) [OF s] live_own [OF s assms(2)] prod.collapse [symmetric]]
    by (auto simp: R_def)
  have d: "m_subs (decrement_channel env c v) = m_subs v" "m_nats (decrement_channel env c v) = m_nats v" for c v
    using quiet_decrement [of v env c] by (simp_all add: quiet_def)
  show ?thesis using assms(3) R Get_ch_in64 [OF assms(1)]
    by (auto simp: Unsubscribe_def Let_def sendUnsubscriptionState_def d R_def split: sum.splits if_splits)
qed

definition permitted ::
    "((string \<Rightarrow> json option) \<Rightarrow> string \<Rightarrow> string \<Rightarrow> perm_result) \<Rightarrow> ws_env \<Rightarrow> ulid \<Rightarrow> string \<Rightarrow> mworld \<Rightarrow> bool" where
  "permitted check e k ch w \<longleftrightarrow>
     (case GetClient k w of Inl _ \<Rightarrow> False
      | Inr c \<Rightarrow> (case cl_Permission (m_cheap w c) of None \<Rightarrow> False | Some pd \<Rightarrow> check (ws_parse e) pd ch = Inr True))"

definition client_project :: "ulid \<Rightarrow> mworld \<Rightarrow> project_id" where
  "client_project k w = (case GetClient k w of Inl _ \<Rightarrow> 0 | Inr c \<Rightarrow> cl_ProjectID (m_cheap w c))"

definition may_do :: "ws_env \<Rightarrow> ulid \<Rightarrow> ulid \<Rightarrow> json \<Rightarrow> mworld \<Rightarrow> mworld \<Rightarrow> bool" where
  "may_do e k cl j w w' \<longleftrightarrow>
     (m_nats w' = m_nats w \<or>
      (\<exists>m x. decode_data (ws_nf e) (ws_rt e) (ws_zero e) j = Some m \<and> permitted CanPublish e k (dm_Channel m) w \<and>
          m_nats w' = m_nats w @ [(Full (NewName (dm_Channel m) (client_project k w)), x)])) \<and>
     (links (m_subs w') \<subseteq> links (m_subs w) \<or>
      (\<exists>m r. decode_channel j = Some m \<and> permitted CanSubscribe e k (cm_Channel m) w \<and> sub_ClientID (m_heap w' r) = cl \<and>
          links (m_subs w') = insert (Full (NewName (cm_Channel m) (client_project k w)), r) (links (m_subs w))))"

lemma idle_may: "idle w w' \<Longrightarrow> may_do e k cl j w w'"
  by (simp add: idle_def may_do_def)

lemma may_handlePublish:
  assumes "msg_inv w" "handlePublishMessage env e k j w = Some w'"
  shows "may_do e k cl j w w'"
proof -
  note idle = idle_may [OF idle_error]
  show ?thesis
  proof (cases "decode_data (ws_nf e) (ws_rt e) (ws_zero e) j")
    case m: (Some m)
    show ?thesis
    proof (cases "GetClient k w")
      case c: (Inr c)
      obtain pd where pd: "cl_Permission (m_cheap w c) = Some pd"
        using found_client [OF assms(1)] c by (auto simp: GetClient_def)
      show ?thesis
      proof (cases "CanPublish (ws_parse e) pd (dm_Channel m) = Inr True")
        case True
        then have per: "permitted CanPublish e k (dm_Channel m) w" using c pd by (simp add: permitted_def)
        show ?thesis
        proof (cases "Create_publication (cl_ProjectID (m_cheap w c)) (dm_Channel m) (dm_Messages m)")
          case (Some pm)
          then have pm: "pb_ProjectID pm = client_project k w" "pb_ChannelName pm = dm_Channel m"
            using c by (auto simp: Create_publication_def client_project_def split: if_splits)
          have "w' = snd (Publish env k pm False w)" using assms(2) m c pd True Some by (simp add: handlePublishMessage_def)
          then have "puts_on (Full (NewName (dm_Channel m) (client_project k w))) w w'"
            using puts_Publish [OF msg_invD(4) [OF assms(1)], of pm env k False] pm by simp
          then show ?thesis using m per by (auto simp: may_do_def puts_on_def)
        qed (use assms(2) m c pd True idle in \<open>auto simp: handlePublishMessage_def\<close>)
      qed (use assms(2) m c pd idle in \<open>auto simp: handlePublishMessage_def split: sum.splits bool.splits\<close>)
    qed (use assms(2) m idle in \<open>auto simp: handlePublishMessage_def\<close>)
  qed (use assms(2) idle in \<open>auto simp: handlePublishMessage_def\<close>)
qed

lemma may_handleUnsubscribe:
  assumes "msg_inv w" "env_ok env" "handleUnsubscribeMessage env e k cl' j w = Some w'"
  shows "may_do e k cl j w w'"
proof -
  note idle = idle_may [OF idle_error]
  have "may_do e k cl j w v" if c: "Get_sub env i w = Inr r" and u: "Unsubscribe env ch r p w = (x, v)" for i r ch p x v
    using Unsubscribe_effect [OF assms(1) _ u] Get_sub_linked [OF assms(1,2) c] by (auto simp: live_def may_do_def)
  moreover have "may_do e k cl j w (conn_log e k p ty m x y z v) = may_do e k cl j w v" for p ty m x y z v
    by (simp add: may_do_def)
  ultimately show ?thesis using idle assms(3)
    by (auto simp: handleUnsubscribeMessage_def Let_def split: option.splits sum.splits prod.splits)
qed

lemma may_handleSubscribe:
  assumes "msg_inv w" "env_ok env" "fresh env w" "handleSubscribeMessage env e k cl j w = Some w'"
  shows "may_do e k cl j w w'"
proof -
  note idle = idle_may [OF idle_error]
  show ?thesis
  proof (cases "decode_channel j")
    case m: (Some m)
    show ?thesis
    proof (cases "GetClient k w")
      case c: (Inr c)
      obtain pd where pd: "cl_Permission (m_cheap w c) = Some pd"
        using found_client [OF assms(1)] c by (auto simp: GetClient_def)
      show ?thesis
      proof (cases "CanSubscribe (ws_parse e) pd (cm_Channel m) = Inr True")
        case True
        then have per: "permitted CanSubscribe e k (cm_Channel m) w" using c pd by (simp add: permitted_def)
        obtain r w1 where g: "GetOrCreateSubscription env cl w = (r, w1)" by fastforce
        have "\<forall>x\<in>live (m_subs w) (m_subCache w). sub_ID (m_heap w x) \<noteq> me_subID env" using assms(3) by (simp add: fresh_def)
        note i1 = ok_GetOrCreateSubscription [OF assms(1) this g]
        have f1: "m_cheap w1 = m_cheap w" "m_nats w1 = m_nats w"
          using g by (auto simp: GetOrCreateSubscription_def split: option.splits if_splits)
        define w2 where "w2 = (if cl_SubscriptionID (m_cheap w1 c) = None
            then put_client c (SetSubscriptionID (sub_ID (m_heap w1 r)) (m_cheap w1 c)) w1 else w1)"
        have "msg_inv (put_client c (SetSubscriptionID (sub_ID (m_heap w1 r)) (m_cheap w1 c)) w1)"
          by (rule msg_inv_put_client) (use i1 in \<open>simp_all add: SetSubscriptionID_def\<close>)
        moreover have lw: "r \<in> live (m_subs w) (m_subCache w1)" using i1 by metis
        ultimately have i2: "msg_inv w2" "r \<in> live (m_subs w2) (m_subCache w2)" "\<not> sub_closed (m_heap w2 r)"
          using i1 by (simp_all add: w2_def put_client_def)
        have f2: "m_subs w2 = m_subs w" "m_heap w2 = m_heap w1" "m_nats w2 = m_nats w" "cl_ProjectID (m_cheap w2 c) = client_project k w"
          using i1 f1 c by (simp_all add: w2_def put_client_def SetSubscriptionID_def client_project_def)
        obtain s w3 where s: "Subscribe env (cm_Channel m) r (client_project k w) w2 = (s, w3)" by fastforce
        have "subscribed env (Full (NewName (cm_Channel m) (client_project k w))) r w2 s w3"
          by (rule subscribe_effect [OF i2(1) assms(2) i2(2,3) s])
        then have "links (m_subs w3) = insert (Full (NewName (cm_Channel m) (client_project k w)), r) (links (m_subs w))"
          "sub_ClientID (m_heap w3 r) = cl"
          using i1 f2 by (simp_all add: subscribed_def same_IDs_def)
        moreover have "m_nats w3 = m_nats w" using nats_Subscribe [OF s] f2(3) by simp
        ultimately have "may_do e k cl j w w3" using m per by (auto simp: may_do_def)
        moreover have "w' = w3 \<or> w' = conn_log e k (client_project k w) EventSubscribed ''Subscription created''
            (Some cl) (Some (cm_Channel m)) None w3"
          using assms(4) m c pd True g s f2(4) by (cases s) (auto simp: handleSubscribeMessage_def Let_def w2_def [symmetric])
        moreover have "may_do e k cl j w (conn_log e k p ty t x y z v) = may_do e k cl j w v" for p ty t x y z v
          by (simp add: may_do_def)
        ultimately show ?thesis by auto
      qed (use assms(4) m c pd idle in \<open>auto simp: handleSubscribeMessage_def split: sum.splits bool.splits\<close>)
    qed (use assms(4) m idle in \<open>auto simp: handleSubscribeMessage_def\<close>)
  qed (use assms(4) idle in \<open>auto simp: handleSubscribeMessage_def\<close>)
qed

lemma may_handleMessage:
  assumes "msg_inv w" "env_ok env" "fresh env w" "handleMessage env e k cl msg w = Some w'" "ws_parse e msg = Some j"
  shows "may_do e k cl j w w'"
proof -
  have ping: "idle w v" if "handlePingMessage env k j w = Some v \<or> handlePongMessage env k j w = Some v" for v
    using that idle_trans [OF idle_map_conn idle_SendMessage]
    by (auto simp: handlePingMessage_def handlePongMessage_def Let_def split: option.splits sum.splits)
  show ?thesis
    using assms(4,5) may_handleSubscribe [OF assms(1-3)] may_handleUnsubscribe [OF assms(1,2)] may_handlePublish [OF assms(1)]
      idle_may [OF ping] idle_may [OF idle_error]
    by (auto simp: handleMessage_def split: option.splits if_splits)
qed

lemma may_do_map_conn: "may_do e k cl j (map_conn f r w) w' = may_do e k cl j w w'"
proof -
  have h: "GetClient k (map_conn f r w) = GetClient k w" "m_cheap (map_conn f r w) = m_cheap w" "m_nats (map_conn f r w) = m_nats w"
    "m_subs (map_conn f r w) = m_subs w" by (simp_all add: map_conn_def GetClient_def)
  show ?thesis unfolding may_do_def permitted_def client_project_def h by (rule refl)
qed

text \<open>C24. A message of a client publishes only on a channel of the client's own project for which its
  permission allows it, and adds to the index only a subscription of that client, on a channel of its
  project that it may subscribe to.  Everything else it may send publishes nothing and adds no one to the
  index.\<close>

theorem message_needs_permission:
  assumes "msg_inv w" "env_ok env" "fresh env w" "receive env e k cl msg w = Some w'"
  shows "(m_nats w' = m_nats w \<and> links (m_subs w') \<subseteq> links (m_subs w)) \<or>
    (\<exists>j. ws_parse e msg = Some j \<and>
      (m_nats w' = m_nats w \<or>
       (\<exists>m x. decode_data (ws_nf e) (ws_rt e) (ws_zero e) j = Some m \<and> permitted CanPublish e k (dm_Channel m) w \<and>
           m_nats w' = m_nats w @ [(Full (NewName (dm_Channel m) (client_project k w)), x)])) \<and>
      (links (m_subs w') \<subseteq> links (m_subs w) \<or>
       (\<exists>m r. decode_channel j = Some m \<and> permitted CanSubscribe e k (cm_Channel m) w \<and> sub_ClientID (m_heap w' r) = cl \<and>
           links (m_subs w') = insert (Full (NewName (cm_Channel m) (client_project k w)), r) (links (m_subs w)))))"
proof -
  obtain v where v: "v = w \<or> (\<exists>n r. v = map_conn (UpdateRecv (me_now env) n) r w)" "handleMessage env e k cl msg v = Some w'"
    using assms(4) by (cases "Get_conn k w") (auto simp: receive_def)
  have i: "msg_inv v" using v(1) assms(1) by (auto intro!: msg_inv_map_conn simp: UpdateRecv_def)
  have f: "fresh env v" using v(1) assms(3) by auto
  show ?thesis
  proof (cases "ws_parse e msg")
    case None
    then have "idle v w'" using v(2) by (auto simp: handleMessage_def)
    moreover have "idle w v" using v(1) by auto
    ultimately show ?thesis using idle_trans by (auto simp: idle_def)
  next
    case (Some j)
    have "may_do e k cl j v w'" by (rule may_handleMessage [OF i assms(2) f v(2) Some])
    then have "may_do e k cl j w w'" using v(1) may_do_map_conn by auto
    then show ?thesis using Some by (auto simp: may_do_def)
  qed
qed

theorem message_needs_permission_witness:
  "\<exists>w'. receive sample_menv sample_ws ''k'' ''cl'' ''not json'' sample_mworld = Some w' \<and> m_nats w' = [] \<and>
     links (m_subs w') \<subseteq> {(''1.c'', 2)}"
proof -
  have f: "fresh sample_menv sample_mworld"
    by (simp add: fresh_def sample_live sample_heaps) (simp add: sample_mworld_def sample_menv_def)
  obtain w' where r: "receive sample_menv sample_ws ''k'' ''cl'' ''not json'' sample_mworld = Some w'"
    using msg_inv_receive [OF sample_msg_inv sample_env_ok(1) f] by blast
  have n: "ws_parse sample_ws t = None" "m_nats sample_mworld = []" for t
    by (simp_all add: sample_ws_def sample_mworld_def init_world_def)
  show ?thesis using r message_needs_permission [OF sample_msg_inv sample_env_ok(1) f r] by (simp add: n sample_links)
qed

end
