(* ===== verification/TextUtils.thy ===== *)
theory TextUtils
  imports Prelude Complex_Main
begin

text \<open>
  Small text formats of \<open>internal/shared\<close>: slugs (\<open>slug/slugify.go\<close>), sizes (\<open>size/size.go\<close>), durations
  (\<open>duration/duration.go\<close>), cluster and machine names (\<open>cluster/parser.go\<close>) and the time formats
  (\<open>timeparse/timeparse.go\<close>).  The regular expressions are written out as functions.  What Unicode does
  to the case of a text (\<open>lower\<close>, \<open>upper\<close>), how \<open>float64\<close> rounds (\<open>fl\<close>), and the parsers of the \<open>time\<close>
  package are arguments.
\<close>

section \<open>Character classes\<close>

definition is_lower :: "char \<Rightarrow> bool" where
  "is_lower c \<longleftrightarrow> 97 \<le> (of_char c :: nat) \<and> (of_char c :: nat) \<le> 122"

definition is_digit :: "char \<Rightarrow> bool" where
  "is_digit c \<longleftrightarrow> 48 \<le> (of_char c :: nat) \<and> (of_char c :: nat) \<le> 57"

definition is_alnum :: "char \<Rightarrow> bool" where
  "is_alnum c \<longleftrightarrow> is_lower c \<or> is_digit c"

definition hyphen :: char where
  "hyphen = CHR ''-''"

definition slug_char :: "char \<Rightarrow> bool" where
  "slug_char c \<longleftrightarrow> is_alnum c \<or> c = hyphen"

section \<open>Slugs\<close>

record slug_options =
  MaxLength :: int
  AllowUnicode :: bool
  ForceLower :: bool
  OptTrimSpace :: bool

definition DefaultSlugifyOptions :: slug_options where
  "DefaultSlugifyOptions = \<lparr>MaxLength = 100, AllowUnicode = False, ForceLower = True, OptTrimSpace = True\<rparr>"

text \<open>\<open>-+\<close> replaced by one hyphen.\<close>

fun one_hyphen :: "string \<Rightarrow> string" where
  "one_hyphen (a # b # cs) = (if a = hyphen \<and> b = hyphen then one_hyphen (b # cs) else a # one_hyphen (b # cs))"
| "one_hyphen cs = cs"

definition trim_hyphens :: "string \<Rightarrow> string" where
  "trim_hyphens s = rev (dropWhile (\<lambda>c. c = hyphen) (rev (dropWhile (\<lambda>c. c = hyphen) s)))"

definition trim_right_hyphens :: "string \<Rightarrow> string" where
  "trim_right_hyphens s = rev (dropWhile (\<lambda>c. c = hyphen) (rev s))"

text \<open>The replacement of every other character works on code points; as runs of hyphens shrink to one
  hyphen next, replacing every byte of such a character gives the same text.\<close>

definition SlugifyWithOptions :: "(string \<Rightarrow> string) \<Rightarrow> string \<Rightarrow> slug_options \<Rightarrow> string" where
  "SlugifyWithOptions lower text opts =
     (if text = [] then []
      else let text = (if OptTrimSpace opts then TrimSpace text else text);
               text = (if ForceLower opts then lower text else text);
               text = (if \<not> AllowUnicode opts then List.map (\<lambda>c. if slug_char c then c else hyphen) text
                       else List.map (\<lambda>c. if c \<in> {CHR '' '', CHR ''_'', CHR ''.''} then hyphen else c) text);
               text = trim_hyphens (one_hyphen text)
           in if MaxLength opts > 0 \<and> int (length text) > MaxLength opts
              then trim_right_hyphens (take (nat (MaxLength opts)) text) else text)"

definition Slugify :: "(string \<Rightarrow> string) \<Rightarrow> string \<Rightarrow> string" where
  "Slugify lower text = SlugifyWithOptions lower text DefaultSlugifyOptions"

definition MustSlugify :: "(string \<Rightarrow> string) \<Rightarrow> string \<Rightarrow> string option" where
  "MustSlugify lower text = (if text = [] then None else Some (Slugify lower text))"

definition IsValidSlug :: "string \<Rightarrow> bool" where
  "IsValidSlug s \<longleftrightarrow> s \<noteq> [] \<and> list_all slug_char s \<and> hd s \<noteq> hyphen \<and> last s \<noteq> hyphen"

section \<open>Sizes\<close>

datatype size_unit = Byte | KiB | MiB | GiB | TiB | PiB | OtherUnit string

definition unit_name :: "size_unit \<Rightarrow> string" where
  "unit_name u = (case u of Byte \<Rightarrow> ''B'' | KiB \<Rightarrow> ''KiB'' | MiB \<Rightarrow> ''MiB'' | GiB \<Rightarrow> ''GiB'' | TiB \<Rightarrow> ''TiB''
     | PiB \<Rightarrow> ''PiB'' | OtherUnit s \<Rightarrow> s)"

definition unit_of :: "string \<Rightarrow> size_unit" where
  "unit_of s = (if s = ''B'' then Byte else if s = ''KiB'' then KiB else if s = ''MiB'' then MiB else if s = ''GiB'' then GiB
     else if s = ''TiB'' then TiB else if s = ''PiB'' then PiB else OtherUnit s)"

record byte_size =
  sz_Value :: rat
  sz_Unit :: size_unit

definition bytesIn :: "size_unit \<Rightarrow> int" where
  "bytesIn u = (case u of Byte \<Rightarrow> 1 | KiB \<Rightarrow> 1024 | MiB \<Rightarrow> 1024 * 1024 | GiB \<Rightarrow> 1024 * 1024 * 1024
     | TiB \<Rightarrow> 1024 * 1024 * 1024 * 1024 | PiB \<Rightarrow> 1024 * 1024 * 1024 * 1024 * 1024 | OtherUnit _ \<Rightarrow> 0)"

text \<open>\<open>int64(x)\<close> truncates; the value stays within 64 bits here.\<close>

definition trunc :: "rat \<Rightarrow> int" where
  "trunc x = (if x < 0 then - \<lfloor>- x\<rfloor> else \<lfloor>x\<rfloor>)"

definition ToBytes :: "(rat \<Rightarrow> rat) \<Rightarrow> byte_size \<Rightarrow> int" where
  "ToBytes fl s = (case sz_Unit s of OtherUnit _ \<Rightarrow> 0 | Byte \<Rightarrow> trunc (sz_Value s)
     | u \<Rightarrow> trunc (fl (sz_Value s * of_int (bytesIn u))))"

text \<open>The common quotient of \<open>Convert\<close> and \<open>FromBytes\<close>.\<close>

definition in_unit :: "(rat \<Rightarrow> rat) \<Rightarrow> int \<Rightarrow> size_unit \<Rightarrow> byte_size" where
  "in_unit fl bytes u = (case u of OtherUnit _ \<Rightarrow> \<lparr>sz_Value = fl (of_int bytes), sz_Unit = Byte\<rparr>
     | Byte \<Rightarrow> \<lparr>sz_Value = fl (of_int bytes), sz_Unit = Byte\<rparr>
     | u \<Rightarrow> \<lparr>sz_Value = fl (fl (of_int bytes) / of_int (bytesIn u)), sz_Unit = u\<rparr>)"

definition Convert :: "(rat \<Rightarrow> rat) \<Rightarrow> size_unit \<Rightarrow> byte_size \<Rightarrow> byte_size" where
  "Convert fl target s = in_unit fl (ToBytes fl s) target"

definition FromBytes :: "(rat \<Rightarrow> rat) \<Rightarrow> int \<Rightarrow> byte_size" where
  "FromBytes fl bytes =
     in_unit fl bytes (if bytes < bytesIn KiB then Byte else if bytes < bytesIn MiB then KiB
       else if bytes < bytesIn GiB then MiB else if bytes < bytesIn TiB then GiB else if bytes < bytesIn PiB then TiB else PiB)"

datatype size_error = SizeFormat string | SizeValue string | SizeUnitUnknown string

definition FromString :: "(string \<Rightarrow> string) \<Rightarrow> (string \<Rightarrow> rat option) \<Rightarrow> string \<Rightarrow> size_error + byte_size" where
  "FromString upper parseFloat s =
     (let s = TrimSpace s;
          i = length (takeWhile (\<lambda>c. is_digit c \<or> c = CHR ''.'') s)
      in if i = 0 \<or> i = length s then Inl (SizeFormat s)
         else let valueStr = TrimSpace (take i s); unitStr = TrimSpace (drop i s)
              in case parseFloat valueStr of
                   None \<Rightarrow> Inl (SizeValue valueStr)
                 | Some v \<Rightarrow>
                     let unitStr = upper unitStr
                     in case unit_of unitStr of
                          OtherUnit u \<Rightarrow> Inl (SizeUnitUnknown u)
                        | u \<Rightarrow> Inr \<lparr>sz_Value = v, sz_Unit = u\<rparr>)"

section \<open>Durations\<close>

definition dur_second :: int where "dur_second = 1000000000"

datatype duration_error = DurationFormat string | DurationValue string

text \<open>\<open>^(\d+)([smhdwy])$\<close>: the digits and the unit.\<close>

definition match_duration :: "string \<Rightarrow> (string \<times> char) option" where
  "match_duration s =
     (if length s \<ge> 2 \<and> list_all is_digit (butlast s) \<and> last s \<in> set ''smhdwy'' then Some (butlast s, last s) else None)"

definition unit_seconds :: "char \<Rightarrow> int" where
  "unit_seconds u = (if u = CHR ''s'' then 1 else if u = CHR ''m'' then 60 else if u = CHR ''h'' then 3600
     else if u = CHR ''d'' then 24 * 3600 else if u = CHR ''w'' then 7 * 24 * 3600 else 365 * 24 * 3600)"

definition Parse_duration :: "(string \<Rightarrow> int option) \<Rightarrow> string \<Rightarrow> duration_error + int" where
  "Parse_duration goParse s =
     (case goParse s of
        Some d \<Rightarrow> Inr d
      | None \<Rightarrow>
          (case match_duration s of
             None \<Rightarrow> Inl (DurationFormat s)
           | Some (digits, u) \<Rightarrow>
               (case atoi digits of
                  None \<Rightarrow> Inl (DurationValue digits)
                | Some v \<Rightarrow> Inr (i64 (v * (unit_seconds u * dur_second))))))"

text \<open>\<open>int(d.Seconds())\<close>: the seconds as a \<open>float64\<close>, truncated.\<close>

definition whole_seconds :: "(rat \<Rightarrow> rat) \<Rightarrow> int \<Rightarrow> int" where
  "whole_seconds fl d =
     (let sec = go_quot d dur_second; nsec = d - sec * dur_second
      in trunc (fl (of_int sec + fl (of_int nsec / of_int dur_second))))"

definition Format_duration :: "(rat \<Rightarrow> rat) \<Rightarrow> int \<Rightarrow> string" where
  "Format_duration fl d =
     (let seconds = whole_seconds fl d
      in if seconds \<ge> 365 * 24 * 3600 then show_int (go_quot seconds (365 * 24 * 3600)) @ ''y''
         else if seconds \<ge> 7 * 24 * 3600 then show_int (go_quot seconds (7 * 24 * 3600)) @ ''w''
         else if seconds \<ge> 24 * 3600 then show_int (go_quot seconds (24 * 3600)) @ ''d''
         else if seconds \<ge> 3600 then show_int (go_quot seconds 3600) @ ''h''
         else if seconds \<ge> 60 then show_int (go_quot seconds 60) @ ''m''
         else show_int seconds @ ''s'')"

section \<open>Cluster and machine names\<close>

record cluster_components =
  cc_Scope :: string
  cc_Env :: string
  cc_Region :: string
  cc_Zone :: string

record vm_components = cluster_components +
  vm_Role :: string
  vm_Seq :: string

datatype name_format_error = EmptyName | BadNameFormat string

definition is_word :: "string \<Rightarrow> bool" where
  "is_word s \<longleftrightarrow> s \<noteq> [] \<and> list_all is_alnum s"

definition number_word :: "string \<Rightarrow> bool" where
  "number_word s \<longleftrightarrow> s \<noteq> [] \<and> list_all is_digit s"

text \<open>The groups of the two expressions contain no hyphen, so that splitting at the hyphens finds them.\<close>

definition ParseClusterName :: "string \<Rightarrow> name_format_error + cluster_components" where
  "ParseClusterName s =
     (if s = [] then Inl EmptyName
      else case split_on hyphen s of
             [scope, env, a, b, c] \<Rightarrow>
               if is_word scope \<and> is_word env \<and> is_word a \<and> is_word b \<and> c \<noteq> [] \<and> number_word (butlast c) \<and> is_lower (last c)
               then Inr \<lparr>cc_Scope = scope, cc_Env = env, cc_Region = a @ hyphen # b @ hyphen # butlast c, cc_Zone = [last c]\<rparr>
               else Inl (BadNameFormat s)
           | _ \<Rightarrow> Inl (BadNameFormat s))"

definition BuildClusterName :: "string \<Rightarrow> string \<Rightarrow> string \<Rightarrow> string \<Rightarrow> string" where
  "BuildClusterName scope env region zone = scope @ ''-'' @ env @ ''-'' @ region @ zone"

definition ParseVMName :: "string \<Rightarrow> name_format_error + vm_components" where
  "ParseVMName s =
     (if s = [] then Inl EmptyName
      else case split_on hyphen s of
             [scope, env, rz, role, sq] \<Rightarrow>
               if is_word scope \<and> is_word env \<and> rz \<noteq> [] \<and> is_word (butlast rz) \<and> is_lower (last rz) \<and> is_word role \<and> number_word sq
               then Inr \<lparr>cc_Scope = scope, cc_Env = env, cc_Region = butlast rz, cc_Zone = [last rz], vm_Role = role, vm_Seq = sq\<rparr>
               else Inl (BadNameFormat s)
           | _ \<Rightarrow> Inl (BadNameFormat s))"

definition BuildVMName :: "string \<Rightarrow> string \<Rightarrow> string \<Rightarrow> string \<Rightarrow> string \<Rightarrow> string \<Rightarrow> string" where
  "BuildVMName scope env region zone role sq = scope @ ''-'' @ env @ ''-'' @ region @ zone @ ''-'' @ role @ ''-'' @ sq"

section \<open>Times\<close>

text \<open>The layouts of \<open>time.Parse\<close> in the order in which they are tried (\<open>goTime\<close> is one attempt); the
  empty text is the zero time.\<close>

definition time_layouts :: "string list" where
  "time_layouts = [''2006-01-02T15:04:05Z07:00'', ''2006-01-02T15:04:05.999999999Z07:00'', ''2006-01-02T15:04:05Z07:00'',
     ''2006-01-02T15:04:05Z0700'', ''2006-01-02T15:04:05'', ''2006-01-02 15:04:05'', ''2006-01-02-15:04:05'',
     ''2006-01-02 15:04:05+00'', ''2006-01-02 15:04:05 MST'', ''2006-01-02'', ''2006/01/02'', ''01/02/2006'']"

fun try_layouts :: "(string \<Rightarrow> string \<Rightarrow> int option) \<Rightarrow> string \<Rightarrow> string list \<Rightarrow> int option" where
  "try_layouts goTime s [] = None"
| "try_layouts goTime s (l # ls) = (case goTime l s of Some t \<Rightarrow> Some t | None \<Rightarrow> try_layouts goTime s ls)"

definition Parse_time :: "(string \<Rightarrow> string \<Rightarrow> int option) \<Rightarrow> int \<Rightarrow> string \<Rightarrow> int option" where
  "Parse_time goTime zero s =
     (if s = [] then Some zero
      else case atoi s of
             Some n \<Rightarrow>
               if n \<ge> 946684800 \<and> n \<le> 4102444800 then Some (n * 1000000000)
               else if n \<ge> 946684800000 \<and> n \<le> 4102444800000
               then Some (go_quot n 1000 * 1000000000 + (n - go_quot n 1000 * 1000) * 1000000)
               else try_layouts goTime s time_layouts
           | None \<Rightarrow> try_layouts goTime s time_layouts)"

section \<open>Facts\<close>

subsection \<open>Slugs\<close>

lemma one_hyphen_set: "set (one_hyphen s) = set s"
  by (induction s rule: one_hyphen.induct) auto

text \<open>No hyphen at either end.\<close>

definition bare :: "string \<Rightarrow> bool" where
  "bare s \<longleftrightarrow> s = [] \<or> hd s \<noteq> hyphen \<and> last s \<noteq> hyphen"

lemma last_drop_hyphens: "rev (dropWhile (\<lambda>c. c = hyphen) (rev s)) = [] \<or> last (rev (dropWhile (\<lambda>c. c = hyphen) (rev s))) \<noteq> hyphen"
  using hd_dropWhile [of "\<lambda>c. c = hyphen" "rev s"] by (auto simp: last_rev)

lemma hd_drop_end:
  assumes "hd s \<noteq> hyphen"
  shows "rev (dropWhile (\<lambda>c. c = hyphen) (rev s)) = [] \<or> hd (rev (dropWhile (\<lambda>c. c = hyphen) (rev s))) \<noteq> hyphen"
proof -
  define u v where "u = rev (dropWhile (\<lambda>c. c = hyphen) (rev s))" and "v = rev (takeWhile (\<lambda>c. c = hyphen) (rev s))"
  have "rev (u @ v) = rev s" unfolding u_def v_def by simp
  then have "s = u @ v" by (simp only: rev_is_rev_conv)
  then have "u = [] \<or> hd u = hd s" by (cases u) simp_all
  then show ?thesis using assms unfolding u_def [symmetric] by auto
qed

lemma bare_trim: "bare (trim_hyphens s)"
proof -
  let ?t = "dropWhile (\<lambda>c. c = hyphen) s"
  have "?t = [] \<or> hd ?t \<noteq> hyphen" using hd_dropWhile [of "\<lambda>c. c = hyphen" s] by auto
  then show ?thesis
  proof
    assume e: "?t = []"
    have "trim_hyphens s = []" unfolding trim_hyphens_def e by simp
    then show ?thesis by (simp add: bare_def)
  next
    assume h: "hd ?t \<noteq> hyphen"
    show ?thesis using last_drop_hyphens [of ?t] hd_drop_end [OF h] unfolding bare_def trim_hyphens_def by blast
  qed
qed

lemma bare_trim_right: "bare s \<Longrightarrow> bare (trim_right_hyphens (take n s))"
proof -
  assume b: "bare s"
  show ?thesis
  proof (cases "take n s")
    case Nil
    have "trim_right_hyphens (take n s) = []" unfolding trim_right_hyphens_def Nil by simp
    then show ?thesis by (simp add: bare_def)
  next
    case (Cons c cs)
    then have h: "hd (take n s) \<noteq> hyphen" using b by (cases s; cases n) (auto simp: bare_def)
    show ?thesis using last_drop_hyphens [of "take n s"] hd_drop_end [OF h]
      unfolding bare_def trim_right_hyphens_def by blast
  qed
qed

lemma trim_hyphens_set: "set (trim_hyphens s) \<subseteq> set s" "set (trim_right_hyphens s) \<subseteq> set s"
  by (auto simp: trim_hyphens_def trim_right_hyphens_def dest!: set_dropWhileD)

lemma slug_parts:
  fixes t :: string
  assumes "\<forall>c\<in>set t. slug_char c"
  shows "s = trim_hyphens (one_hyphen t) \<Longrightarrow> s = [] \<or> IsValidSlug s"
    "s = trim_right_hyphens (take n (trim_hyphens (one_hyphen t))) \<Longrightarrow> s = [] \<or> IsValidSlug s"
proof -
  let ?u = "trim_hyphens (one_hyphen t)"
  have u: "\<forall>c\<in>set ?u. slug_char c" using trim_hyphens_set(1) [of "one_hyphen t"] one_hyphen_set assms by blast
  then have v: "\<forall>c\<in>set (trim_right_hyphens (take n ?u)). slug_char c"
    using trim_hyphens_set(2) [of "take n ?u"] set_take_subset [of n ?u] by blast
  show "s = ?u \<Longrightarrow> s = [] \<or> IsValidSlug s" using u bare_trim by (auto simp: IsValidSlug_def bare_def list_all_iff)
  show "s = trim_right_hyphens (take n ?u) \<Longrightarrow> s = [] \<or> IsValidSlug s"
    using v bare_trim_right [OF bare_trim] by (auto simp: IsValidSlug_def bare_def list_all_iff)
qed

lemma length_trim_right: "length (trim_right_hyphens s) \<le> length s"
  using length_dropWhile_le [of "\<lambda>c. c = hyphen" "rev s"] by (simp add: trim_right_hyphens_def)

lemma slugify_valid: "Slugify lower text = [] \<or> IsValidSlug (Slugify lower text) \<and> length (Slugify lower text) \<le> 100"
proof (cases "text = []")
  case False
  let ?t = "List.map (\<lambda>c. if slug_char c then c else hyphen) (lower (TrimSpace text))"
  have t: "\<forall>c\<in>set ?t. slug_char c" by (auto simp: slug_char_def)
  let ?u = "trim_hyphens (one_hyphen ?t)"
  have "Slugify lower text = (if length ?u > 100 then trim_right_hyphens (take 100 ?u) else ?u)"
    using False by (simp add: Slugify_def SlugifyWithOptions_def DefaultSlugifyOptions_def Let_def)
  then show ?thesis using slug_parts [OF t] length_trim_right [of "take 100 ?u"] by (auto split: if_splits)
qed (simp add: Slugify_def SlugifyWithOptions_def)

subsection \<open>Names\<close>

lemma split_on_none: "sep \<notin> set s \<Longrightarrow> split_on sep s = [s]"
  by (induction s) auto

lemma split_on_append: "sep \<notin> set s \<Longrightarrow> split_on sep (s @ sep # t) = s # split_on sep t"
  by (induction s) auto

lemma word_no_hyphen: "is_word s \<Longrightarrow> hyphen \<notin> set s" "number_word s \<Longrightarrow> hyphen \<notin> set s"
  by (auto simp: is_word_def number_word_def list_all_iff is_alnum_def is_lower_def is_digit_def hyphen_def)

lemma lower_no_hyphen: "is_lower c \<Longrightarrow> c \<noteq> hyphen"
  by (auto simp: is_lower_def hyphen_def)

lemma hyphen_lit: "CHR ''-'' = hyphen"
  by (simp add: hyphen_def)

lemma cluster_name_roundtrip:
  assumes "is_word scope" "is_word env" "is_word a" "is_word b" "number_word n" "is_lower z"
  shows "ParseClusterName (BuildClusterName scope env (a @ ''-'' @ b @ ''-'' @ n) [z]) =
    Inr \<lparr>cc_Scope = scope, cc_Env = env, cc_Region = a @ ''-'' @ b @ ''-'' @ n, cc_Zone = [z]\<rparr>"
proof -
  have c: "hyphen \<notin> set (n @ [z])" using word_no_hyphen(2) [OF assms(5)] lower_no_hyphen [OF assms(6)] by auto
  have "split_on hyphen (scope @ hyphen # env @ hyphen # a @ hyphen # b @ hyphen # n @ [z]) = [scope, env, a, b, n @ [z]]"
    using split_on_none [OF c] assms word_no_hyphen by (simp add: split_on_append)
  then show ?thesis using assms by (simp add: ParseClusterName_def BuildClusterName_def hyphen_lit is_word_def)
qed

subsection \<open>Sizes\<close>

text \<open>The unit is put into upper case before it is compared with the mixed-case names of the units, so
  that only bytes are ever accepted.\<close>

lemma size_unit_bytes_only:
  assumes "\<forall>s. CHR ''i'' \<notin> set (upper s)" "FromString upper parseFloat s = Inr z"
  shows "sz_Unit z = Byte"
proof -
  have "unit_of (upper t) = Byte \<or> (\<exists>u. unit_of (upper t) = OtherUnit u)" for t
  proof -
    have "CHR ''i'' \<notin> set (upper t)" using assms(1) by blast
    then show ?thesis by (auto simp: unit_of_def)
  qed
  then show ?thesis using assms(2)
    by (auto simp: FromString_def Let_def split: if_splits option.splits size_unit.splits) (metis size_unit.distinct)+
qed

end
