(* ===== verification/Validation.thy ===== *)
theory Validation
  imports TextUtils
begin

text \<open>
  \<open>internal/shared/validation\<close>: the rules that collect an error per field (a later error of a field
  replaces an earlier one), and the chain of validators.  What the rules take from the standard library
  (number, URL, JSON and time parsing, matching a pattern, the clock) is the environment \<open>val_env\<close>.
\<close>

section \<open>Rules\<close>

type_synonym rules = "string \<Rightarrow> string option"

text \<open>A \<open>float64\<close>.\<close>

datatype fnum = Fin rat | PosInf | NegInf | NotANumber

fun fless :: "fnum \<Rightarrow> fnum \<Rightarrow> bool" where
  "fless NotANumber _ = False"
| "fless _ NotANumber = False"
| "fless (Fin a) (Fin b) = (a < b)"
| "fless (Fin _) PosInf = True"
| "fless NegInf (Fin _) = True"
| "fless NegInf PosInf = True"
| "fless _ _ = False"

record val_env =
  ve_now :: int
  ve_parseFloat :: "string \<Rightarrow> fnum option"
  ve_floatText :: "fnum \<Rightarrow> string"
  ve_url :: "string \<Rightarrow> bool"
  ve_json :: "string \<Rightarrow> bool"
  ve_time :: "string \<Rightarrow> bool"
  ve_match :: "string \<Rightarrow> string \<Rightarrow> bool option"

definition NewRules :: rules where
  "NewRules = Map.empty"

definition AddError :: "string \<Rightarrow> string \<Rightarrow> rules \<Rightarrow> rules" where
  "AddError field message r = r(field \<mapsto> message)"

definition HasErrors :: "rules \<Rightarrow> bool" where
  "HasErrors r \<longleftrightarrow> r \<noteq> Map.empty"

definition ValidationResult :: "rules \<Rightarrow> rules + unit" where
  "ValidationResult r = (if \<not> HasErrors r then Inr () else Inl r)"

text \<open>What \<open>Required\<close> distinguishes about its argument.\<close>

datatype req_value = RNil | RString string | RNumber | RBool | RContainer nat | RTime bool | RTimePtr "bool option"
  | RNilPtr | RStruct | ROther bool

definition Required :: "req_value \<Rightarrow> string \<Rightarrow> rules \<Rightarrow> rules" where
  "Required v field r =
     (let missing = (case v of
            RNil \<Rightarrow> True
          | RString s \<Rightarrow> TrimSpace s = []
          | RNumber \<Rightarrow> False
          | RBool \<Rightarrow> False
          | RContainer n \<Rightarrow> n = 0
          | RTime isZero \<Rightarrow> isZero
          | RTimePtr p \<Rightarrow> (case p of None \<Rightarrow> True | Some isZero \<Rightarrow> isZero)
          | RNilPtr \<Rightarrow> True
          | RStruct \<Rightarrow> False
          | ROther isZero \<Rightarrow> isZero)
      in if missing then AddError field ''is required'' r else r)"

definition IsPositive :: "int \<Rightarrow> string \<Rightarrow> rules \<Rightarrow> rules" where
  "IsPositive v field r = (if v \<le> 0 then AddError field ''must be positive'' r else r)"

definition MinLength_rule :: "string \<Rightarrow> int \<Rightarrow> string \<Rightarrow> rules \<Rightarrow> rules" where
  "MinLength_rule v m field r =
     (if int (length v) < m then AddError field (''must be at least '' @ show_int m @ '' characters'') r else r)"

definition MaxLength_rule :: "string \<Rightarrow> int \<Rightarrow> string \<Rightarrow> rules \<Rightarrow> rules" where
  "MaxLength_rule v m field r =
     (if int (length v) > m then AddError field (''must not exceed '' @ show_int m @ '' characters'') r else r)"

text \<open>The expressions of \<open>Email\<close> and \<open>Phone\<close>.\<close>

definition is_letter :: "char \<Rightarrow> bool" where
  "is_letter c \<longleftrightarrow> is_lower c \<or> (65 \<le> (of_char c :: nat) \<and> (of_char c :: nat) \<le> 90)"

definition email_ok :: "string \<Rightarrow> bool" where
  "email_ok s =
     (case split_on (CHR ''@'') s of
        [user, host] \<Rightarrow>
          user \<noteq> [] \<and> list_all (\<lambda>c. is_letter c \<or> is_digit c \<or> c \<in> set ''._%+-'') user \<and>
          (let tld = rev (takeWhile (\<lambda>c. c \<noteq> CHR ''.'') (rev host)); rest = take (length host - length tld - 1) host
           in CHR ''.'' \<in> set host \<and> length tld \<ge> 2 \<and> list_all is_letter tld \<and> rest \<noteq> [] \<and>
              list_all (\<lambda>c. is_letter c \<or> is_digit c \<or> c \<in> set ''.-'') rest)
      | _ \<Rightarrow> False)"

definition phone_ok :: "string \<Rightarrow> bool" where
  "phone_ok s =
     (let d = (case s of c # cs \<Rightarrow> if c = CHR ''+'' then cs else s | [] \<Rightarrow> [])
      in case d of [] \<Rightarrow> False
         | c # cs \<Rightarrow> is_digit c \<and> c \<noteq> CHR ''0'' \<and> 1 \<le> length cs \<and> length cs \<le> 14 \<and> list_all is_digit cs)"

definition Email :: "string \<Rightarrow> string \<Rightarrow> rules \<Rightarrow> rules" where
  "Email v field r = (if email_ok v then r else AddError field ''must be a valid email address'' r)"

definition Phone :: "string \<Rightarrow> string \<Rightarrow> rules \<Rightarrow> rules" where
  "Phone v field r = (if phone_ok v then r else AddError field ''must be a valid phone number'' r)"

definition URL :: "val_env \<Rightarrow> string \<Rightarrow> string \<Rightarrow> rules \<Rightarrow> rules" where
  "URL env v field r = (if v = [] \<or> ve_url env v then r else AddError field ''must be a valid URL'' r)"

definition JSON_rule :: "val_env \<Rightarrow> string \<Rightarrow> string \<Rightarrow> rules \<Rightarrow> rules" where
  "JSON_rule env v field r = (if ve_json env v then r else AddError field ''must be valid JSON'' r)"

definition Array_rule :: "string list \<Rightarrow> string \<Rightarrow> rules \<Rightarrow> rules" where
  "Array_rule v field r = (if length v = 0 then AddError field ''must be an array'' r else r)"

record numeric_validation =
  nv_Min :: "fnum option"
  nv_Max :: "fnum option"
  nv_AllowNegative :: bool
  nv_AllowZero :: bool
  nv_AllowDecimals :: bool

definition DefaultNumericValidation :: numeric_validation where
  "DefaultNumericValidation = \<lparr>nv_Min = None, nv_Max = None, nv_AllowNegative = True, nv_AllowZero = True, nv_AllowDecimals = True\<rparr>"

definition Number :: "val_env \<Rightarrow> string \<Rightarrow> string \<Rightarrow> numeric_validation option \<Rightarrow> rules \<Rightarrow> rules" where
  "Number env v field opts r =
     (if v = [] then r
      else let nv = (case opts of None \<Rightarrow> DefaultNumericValidation | Some o1 \<Rightarrow> o1)
           in case ve_parseFloat env v of
                None \<Rightarrow> AddError field ''must be a valid number'' r
              | Some num \<Rightarrow>
                  if \<not> nv_AllowDecimals nv \<and> CHR ''.'' \<in> set v then AddError field ''must be a whole number'' r
                  else if \<not> nv_AllowNegative nv \<and> fless num (Fin 0) then AddError field ''cannot be negative'' r
                  else if \<not> nv_AllowZero nv \<and> num = Fin 0 then AddError field ''cannot be zero'' r
                  else if (case nv_Min nv of None \<Rightarrow> False | Some m \<Rightarrow> fless num m)
                  then AddError field (''must be greater than or equal to '' @ ve_floatText env (the (nv_Min nv))) r
                  else if (case nv_Max nv of None \<Rightarrow> False | Some m \<Rightarrow> fless m num)
                  then AddError field (''must be less than or equal to '' @ ve_floatText env (the (nv_Max nv))) r
                  else r)"

definition Integer :: "val_env \<Rightarrow> string \<Rightarrow> string \<Rightarrow> numeric_validation option \<Rightarrow> rules \<Rightarrow> rules" where
  "Integer env v field opts r =
     (if v = [] then r
      else let nv = (case opts of None \<Rightarrow> DefaultNumericValidation | Some o1 \<Rightarrow> o1)
           in Number env v field (Some (nv\<lparr>nv_AllowDecimals := False\<rparr>)) r)"

definition Time_rule :: "val_env \<Rightarrow> string \<Rightarrow> string \<Rightarrow> rules \<Rightarrow> rules" where
  "Time_rule env v field r = (if ve_time env v then r else AddError field ''must be a valid time'' r)"

definition Future :: "val_env \<Rightarrow> int \<Rightarrow> string \<Rightarrow> rules \<Rightarrow> rules" where
  "Future env v field r = (if v < ve_now env then AddError field ''must be a future date'' r else r)"

definition Past :: "val_env \<Rightarrow> int \<Rightarrow> string \<Rightarrow> rules \<Rightarrow> rules" where
  "Past env v field r = (if v > ve_now env then AddError field ''must be a past date'' r else r)"

definition Range_rule :: "int \<Rightarrow> int \<Rightarrow> int \<Rightarrow> string \<Rightarrow> rules \<Rightarrow> rules" where
  "Range_rule v lo hi field r =
     (if v < lo \<or> v > hi then AddError field (''must be between '' @ show_int lo @ '' and '' @ show_int hi) r else r)"

fun join :: "string \<Rightarrow> string list \<Rightarrow> string" where
  "join sep [] = []"
| "join sep [s] = s"
| "join sep (s # t # ss) = s @ sep @ join sep (t # ss)"

definition OneOf :: "string \<Rightarrow> string list \<Rightarrow> string \<Rightarrow> rules \<Rightarrow> rules" where
  "OneOf v allowed field r =
     (if list_ex (\<lambda>a. v = a) allowed then r else AddError field (''must be one of: '' @ join '', '' allowed) r)"

definition In_rule :: "string \<Rightarrow> string list \<Rightarrow> string \<Rightarrow> rules \<Rightarrow> rules" where
  "In_rule v allowed field r =
     (if list_ex (\<lambda>a. v = a) allowed then r else AddError field (''must be one of: '' @ join '', '' allowed) r)"

definition Matches :: "val_env \<Rightarrow> string \<Rightarrow> string \<Rightarrow> string \<Rightarrow> rules \<Rightarrow> rules" where
  "Matches env v pattern field r = (if ve_match env pattern v = Some True then r else AddError field ''has invalid format'' r)"

definition Slug :: "string \<Rightarrow> string \<Rightarrow> rules \<Rightarrow> rules" where
  "Slug v field r = (if IsValidSlug v then r
     else AddError field ''must be a valid slug (lowercase letters, numbers, and hyphens only)'' r)"

definition Custom :: "bool \<Rightarrow> string \<Rightarrow> string \<Rightarrow> rules \<Rightarrow> rules" where
  "Custom valid field message r = (if valid then r else AddError field message r)"

section \<open>Chains\<close>

text \<open>A validator yields nothing, a validation error with its fields, a field error or another error.\<close>

datatype validation_outcome = Valid | FieldErrors rules | FieldErr string string | OtherErr string

fun Validate_chain :: "validation_outcome list \<Rightarrow> validation_outcome" where
  "Validate_chain [] = Valid"
| "Validate_chain (v # vs) = (if v = Valid then Validate_chain vs else v)"

fun collect_errors :: "validation_outcome list \<Rightarrow> rules \<Rightarrow> rules" where
  "collect_errors [] r = r"
| "collect_errors (v # vs) r =
     collect_errors vs (case v of Valid \<Rightarrow> r | FieldErrors e \<Rightarrow> r ++ e | FieldErr f m \<Rightarrow> r(f \<mapsto> m) | OtherErr m \<Rightarrow> r(''general'' \<mapsto> m))"

definition ValidateAll :: "validation_outcome list \<Rightarrow> rules option" where
  "ValidateAll vs = (let r = collect_errors vs Map.empty in if r = Map.empty then None else Some r)"

section \<open>Facts\<close>

text \<open>A rule either leaves the errors alone or adds one for its field.\<close>

lemma AddError_neq [simp]: "AddError f m r \<noteq> Map.empty"
  by (simp add: AddError_def)

text \<open>What a validator decides: no errors at the end exactly if there were none and the value passes.\<close>

named_theorems rule_ok

lemma rule_ok_simps [rule_ok]:
  "Required (RString s) f r = Map.empty \<longleftrightarrow> r = Map.empty \<and> TrimSpace s \<noteq> []"
  "Required (RTime z) f r = Map.empty \<longleftrightarrow> r = Map.empty \<and> \<not> z"
  "MinLength_rule s m f r = Map.empty \<longleftrightarrow> r = Map.empty \<and> int (length s) \<ge> m"
  "MaxLength_rule s m f r = Map.empty \<longleftrightarrow> r = Map.empty \<and> int (length s) \<le> m"
  "JSON_rule env s f r = Map.empty \<longleftrightarrow> r = Map.empty \<and> ve_json env s"
  "Time_rule env s f r = Map.empty \<longleftrightarrow> r = Map.empty \<and> ve_time env s"
  "Future env t f r = Map.empty \<longleftrightarrow> r = Map.empty \<and> ve_now env \<le> t"
  "Past env t f r = Map.empty \<longleftrightarrow> r = Map.empty \<and> t \<le> ve_now env"
  "In_rule s a f r = Map.empty \<longleftrightarrow> r = Map.empty \<and> s \<in> set a"
  by (auto simp: Required_def MinLength_rule_def MaxLength_rule_def JSON_rule_def Time_rule_def Future_def Past_def
      In_rule_def list_ex_iff Let_def)

text \<open>The numeric texts that reach \<open>Number\<close> are decimal numerals of integers.\<close>

definition parses_ints :: "val_env \<Rightarrow> bool" where
  "parses_ints env \<longleftrightarrow> (\<forall>n. in64 n \<longrightarrow> (\<exists>x. ve_parseFloat env (show_int n) = Some (Fin x) \<and> (x < 0 \<longleftrightarrow> n < 0) \<and> (x = 0 \<longleftrightarrow> n = 0)))"

definition positive_only :: numeric_validation where
  "positive_only = \<lparr>nv_Min = None, nv_Max = None, nv_AllowNegative = False, nv_AllowZero = False, nv_AllowDecimals = False\<rparr>"

lemma show_int_not_empty [simp]: "show_int n \<noteq> []"
  by (simp add: show_int_def)

lemma Number_positive [rule_ok]:
  assumes "parses_ints env" "in64 n"
  shows "Number env (show_int n) f (Some positive_only) r = Map.empty \<longleftrightarrow> r = Map.empty \<and> n > 0"
proof -
  obtain x where "ve_parseFloat env (show_int n) = Some (Fin x)" "x < 0 \<longleftrightarrow> n < 0" "x = 0 \<longleftrightarrow> n = 0"
    using assms by (auto simp: parses_ints_def)
  then show ?thesis by (auto simp: Number_def positive_only_def Let_def)
qed

lemma ValidationResult_ok: "ValidationResult r = Inr () \<longleftrightarrow> r = Map.empty"
  by (simp add: ValidationResult_def HasErrors_def)

lemma collect_none: "collect_errors vs r = Map.empty \<longleftrightarrow>
    r = Map.empty \<and> (\<forall>v\<in>set vs. v = Valid \<or> v = FieldErrors Map.empty)"
proof (induction vs arbitrary: r)
  case (Cons v vs)
  then show ?case by (cases v) (auto simp: map_add_def fun_eq_iff split: option.splits)
qed simp

text \<open>\<open>ValidateAll\<close> finds an error whenever \<open>Validate\<close> does, unless an empty validation error is handed
  to it.\<close>

lemma chain_agree:
  "FieldErrors Map.empty \<notin> set vs \<Longrightarrow> ValidateAll vs = None \<longleftrightarrow> Validate_chain vs = Valid"
proof -
  assume a: "FieldErrors Map.empty \<notin> set vs"
  have "Validate_chain vs = Valid \<longleftrightarrow> (\<forall>v\<in>set vs. v = Valid)" by (induction vs) auto
  then show ?thesis using a by (auto simp: ValidateAll_def Let_def collect_none)
qed

end
