(* ===== verification/Auth.thy ===== *)
theory Auth
  imports Validation Ids Permissions "HOL-Library.List_Lexorder"
begin

text \<open>
  API keys and tokens: \<open>internal/domain/apikey\<close> with its repository and services
  (\<open>application/service/apikey\<close>, \<open>application/service/auth/apikey\<close>), \<open>internal/shared/apikey\<close>,
  \<open>internal/shared/token\<close>, \<open>internal/domain/auth/token\<close> with its repository, claims and service, the
  middleware of \<open>internal/api/http/middleware/auth\<close> and the token handler.  The JWT library, HMAC-SHA256,
  the JSON parser and the random generator are fields of the environment; base 64 and query unescaping
  are written out.  A database that does not answer makes every query fail (\<open>ae_db\<close>).
\<close>

section \<open>API keys\<close>

record apikey =
  ak_ID :: int
  ak_PublicID :: string
  ak_ProjectID :: project_id
  ak_Name :: string
  ak_SecretKey :: string
  ak_Permission :: string
  ak_Metadata :: "string option"
  ak_Status :: string
  ak_LastUsedAt :: "time option"
  ak_CreatedAt :: time
  ak_UpdatedAt :: time
  ak_ExpiresAt :: "time option"

definition KeyActive :: string where "KeyActive = ''active''"
definition KeyInactive :: string where "KeyInactive = ''inactive''"

definition DefaultPermission :: string where
  "DefaultPermission = [CHR 0x7B, CHR 0x22, CHR ''*'', CHR 0x22, CHR '':'', CHR ''['', CHR 0x22, CHR ''*'', CHR 0x22, CHR '']'', CHR 0x7D]"

definition EnsurePermission :: "string option \<Rightarrow> string" where
  "EnsurePermission p = (case p of None \<Rightarrow> DefaultPermission
     | Some s \<Rightarrow> if length s = 0 \<or> s = ''null'' then DefaultPermission else s)"

record create_key =
  ck_ProjectID :: project_id
  ck_Name :: string
  ck_Permission :: "string option"
  ck_Metadata :: "string option"
  ck_Status :: string
  ck_ExpiresAt :: "time option"

record update_key =
  uk_Name :: string
  uk_Permission :: "string option"
  uk_Metadata :: "string option"
  uk_Status :: string
  uk_LastUsedAt :: "time option"
  uk_ExpiresAt :: "time option"

datatype claim_check = ClaimsValid | ClaimsExpired | ClaimsInvalid

record token_claim =
  tk_Alias :: string
  tk_Permission :: string
  tk_ID :: string
  tk_IssuedAt :: "time option"
  tk_ExpiresAt :: "time option"

record auth_env =
  ae_val :: val_env
  ae_hashLength :: nat
  ae_db :: bool
  ae_nextKey :: int
  ae_secret :: "string option"
  ae_rfc3339 :: "time \<Rightarrow> string"
  ae_zeroTime :: time
  ae_newID :: ulid
  ae_method :: string
  ae_sign :: "string \<Rightarrow> string \<Rightarrow> token_claim \<Rightarrow> string \<Rightarrow> string option"
  ae_open :: "string \<Rightarrow> (string \<times> (string \<Rightarrow> json option) \<times> token_claim) option"
  ae_peek :: "string \<Rightarrow> bool"
  ae_sig :: "string \<Rightarrow> string \<Rightarrow> bool"
  ae_claims :: "time \<Rightarrow> string \<Rightarrow> claim_check"
  ae_hmac :: "string \<Rightarrow> string \<Rightarrow> string"
  ae_json :: "string \<Rightarrow> json option"
  ae_scalar :: "json \<Rightarrow> string"

abbreviation ae_now :: "auth_env \<Rightarrow> time" where
  "ae_now env \<equiv> ve_now (ae_val env)"

datatype key_error = KeyInvalid rules | KeySecurity | KeyNotFound | KeyDatabase

text \<open>A pointer that is set is validated, an optional text too.\<close>

definition opt_rule :: "('a \<Rightarrow> rules \<Rightarrow> rules) \<Rightarrow> 'a option \<Rightarrow> rules \<Rightarrow> rules" where
  "opt_rule f x r = (case x of None \<Rightarrow> r | Some v \<Rightarrow> f v r)"

definition status_rule :: "string \<Rightarrow> rules \<Rightarrow> rules" where
  "status_rule s r = (if s \<noteq> [] then In_rule s [KeyActive, KeyInactive] ''status'' r else r)"

definition expires_rule :: "auth_env \<Rightarrow> time \<Rightarrow> rules \<Rightarrow> rules" where
  "expires_rule env t r = Future (ae_val env) t ''expiresAt'' (Time_rule (ae_val env) (ae_rfc3339 env t) ''expiresAt'' r)"

definition used_rule :: "auth_env \<Rightarrow> time \<Rightarrow> rules \<Rightarrow> rules" where
  "used_rule env t r = Past (ae_val env) t ''lastUsedAt'' (Time_rule (ae_val env) (ae_rfc3339 env t) ''lastUsedAt'' r)"

definition name_rules :: "string \<Rightarrow> rules \<Rightarrow> rules" where
  "name_rules n r = MaxLength_rule n 100 ''name'' (MinLength_rule n 2 ''name'' (Required (RString n) ''name'' r))"

definition ValidateCreate_key :: "auth_env \<Rightarrow> create_key \<Rightarrow> rules + unit" where
  "ValidateCreate_key env p =
     (let r = Number (ae_val env) (show_int (ck_ProjectID p)) ''projectID'' (Some positive_only) NewRules;
          r = name_rules (ck_Name p) r;
          r = opt_rule (\<lambda>v. JSON_rule (ae_val env) v ''permission'') (ck_Permission p) r;
          r = opt_rule (\<lambda>v. JSON_rule (ae_val env) v ''metadata'') (ck_Metadata p) r;
          r = status_rule (ck_Status p) r;
          r = opt_rule (expires_rule env) (ck_ExpiresAt p) r
      in ValidationResult r)"

definition ValidateUpdate_key :: "auth_env \<Rightarrow> update_key \<Rightarrow> rules + unit" where
  "ValidateUpdate_key env p =
     (let r = name_rules (uk_Name p) NewRules;
          r = opt_rule (\<lambda>v. JSON_rule (ae_val env) v ''permission'') (uk_Permission p) r;
          r = opt_rule (\<lambda>v. JSON_rule (ae_val env) v ''metadata'') (uk_Metadata p) r;
          r = status_rule (uk_Status p) r;
          r = opt_rule (used_rule env) (uk_LastUsedAt p) r;
          r = opt_rule (expires_rule env) (uk_ExpiresAt p) r
      in ValidationResult r)"

definition Create_key :: "auth_env \<Rightarrow> create_key \<Rightarrow> key_error + apikey" where
  "Create_key env p =
     (case ValidateCreate_key env p of
        Inl e \<Rightarrow> Inl (KeyInvalid e)
      | Inr _ \<Rightarrow>
          let name = (if ck_Name p = [] then ''Unnamed API Key'' else ck_Name p);
              status = (if ck_Status p = [] then KeyActive else ck_Status p)
          in case ae_secret env of
               None \<Rightarrow> Inl KeySecurity
             | Some secret \<Rightarrow>
                 Inr \<lparr>ak_ID = 0, ak_PublicID = [], ak_ProjectID = ck_ProjectID p, ak_Name = TrimSpace name, ak_SecretKey = secret,
                      ak_Permission = EnsurePermission (ck_Permission p), ak_Metadata = ck_Metadata p, ak_Status = status,
                      ak_LastUsedAt = None, ak_CreatedAt = ae_now env, ak_UpdatedAt = ae_now env, ak_ExpiresAt = ck_ExpiresAt p\<rparr>)"

definition Update_key :: "auth_env \<Rightarrow> update_key \<Rightarrow> apikey \<Rightarrow> key_error + apikey" where
  "Update_key env p ak =
     (case ValidateUpdate_key env p of
        Inl e \<Rightarrow> Inl (KeyInvalid e)
      | Inr _ \<Rightarrow>
          let ak = (if uk_Name p \<noteq> [] then ak\<lparr>ak_Name := TrimSpace (uk_Name p)\<rparr> else ak);
              ak = (case uk_Permission p of None \<Rightarrow> ak | Some s \<Rightarrow> ak\<lparr>ak_Permission := EnsurePermission (Some s)\<rparr>);
              ak = (case uk_Metadata p of None \<Rightarrow> ak | Some s \<Rightarrow> ak\<lparr>ak_Metadata := Some s\<rparr>);
              ak = (if uk_Status p \<noteq> [] then ak\<lparr>ak_Status := uk_Status p\<rparr> else ak);
              ak = (case uk_LastUsedAt p of None \<Rightarrow> ak | Some t \<Rightarrow> ak\<lparr>ak_LastUsedAt := Some t\<rparr>);
              ak = (case uk_ExpiresAt p of None \<Rightarrow> ak | Some t \<Rightarrow> ak\<lparr>ak_ExpiresAt := Some t\<rparr>)
          in Inr (ak\<lparr>ak_UpdatedAt := ae_now env\<rparr>))"

definition FullKey :: "apikey \<Rightarrow> string" where
  "FullKey ak = ak_PublicID ak @ '':'' @ ak_SecretKey ak"

subsection \<open>Repository\<close>

text \<open>The hooks: a stored key has a permission, and a found one too; \<open>AfterCreate\<close> derives the public
  identifier from the key of the row.\<close>

definition BeforeSave :: "apikey \<Rightarrow> apikey" where
  "BeforeSave ak = ak\<lparr>ak_Permission := EnsurePermission (Some (ak_Permission ak))\<rparr>"

definition AfterFind :: "apikey \<Rightarrow> apikey" where
  "AfterFind ak = ak\<lparr>ak_Permission := EnsurePermission (Some (ak_Permission ak))\<rparr>"

definition AfterCreate :: "auth_env \<Rightarrow> apikey \<Rightarrow> apikey" where
  "AfterCreate env ak = (if ak_PublicID ak = [] then ak\<lparr>ak_PublicID := HashID (ae_hashLength env) (ak_ID ak)\<rparr> else ak)"

definition Create_keyrow :: "auth_env \<Rightarrow> apikey \<Rightarrow> apikey list \<Rightarrow> (key_error + int) \<times> apikey list" where
  "Create_keyrow env ak rows =
     (if \<not> ae_db env then (Inl KeyDatabase, rows)
      else (Inr (ae_nextKey env), rows @ [AfterCreate env (BeforeSave (ak\<lparr>ak_ID := ae_nextKey env\<rparr>))]))"

definition Update_keyrow :: "auth_env \<Rightarrow> apikey \<Rightarrow> apikey list \<Rightarrow> (key_error + unit) \<times> apikey list" where
  "Update_keyrow env ak rows =
     (if \<not> ae_db env then (Inl KeyDatabase, rows) else (Inr (), save_row ak_ID (BeforeSave ak) rows))"

definition Delete_keyrow :: "auth_env \<Rightarrow> apikey \<Rightarrow> apikey list \<Rightarrow> (key_error + unit) \<times> apikey list" where
  "Delete_keyrow env ak rows =
     (if \<not> ae_db env then (Inl KeyDatabase, rows) else (Inr (), List.filter (\<lambda>k. ak_ID k \<noteq> ak_ID ak) rows))"

definition FindByID_key :: "auth_env \<Rightarrow> int \<Rightarrow> apikey list \<Rightarrow> key_error + apikey" where
  "FindByID_key env i rows =
     (if \<not> ae_db env then Inl KeyDatabase
      else case List.find (\<lambda>k. ak_ID k = i) rows of None \<Rightarrow> Inl KeyNotFound | Some k \<Rightarrow> Inr (AfterFind k))"

definition FindByIDs_key :: "auth_env \<Rightarrow> int list \<Rightarrow> apikey list \<Rightarrow> key_error + apikey list" where
  "FindByIDs_key env ids rows =
     (if \<not> ae_db env then Inl KeyDatabase else Inr (List.map AfterFind (List.filter (\<lambda>k. ak_ID k \<in> set ids) rows)))"

definition ListByProjectID_key :: "auth_env \<Rightarrow> project_id \<Rightarrow> apikey list \<Rightarrow> key_error + apikey list" where
  "ListByProjectID_key env p rows =
     (if \<not> ae_db env then Inl KeyDatabase else Inr (List.map AfterFind (List.filter (\<lambda>k. ak_ProjectID k = p) rows)))"

subsection \<open>Service\<close>

definition svc_Get_key :: "auth_env \<Rightarrow> int \<Rightarrow> apikey list \<Rightarrow> key_error + apikey" where
  "svc_Get_key env i rows = FindByID_key env i rows"

definition svc_Create_key :: "auth_env \<Rightarrow> create_key \<Rightarrow> apikey list \<Rightarrow> (key_error + apikey) \<times> apikey list" where
  "svc_Create_key env p rows =
     (case Create_key env p of
        Inl e \<Rightarrow> (Inl e, rows)
      | Inr ak \<Rightarrow>
          (case Create_keyrow env ak rows of
             (Inl e, rows) \<Rightarrow> (Inl e, rows)
           | (Inr i, rows) \<Rightarrow> (svc_Get_key env i rows, rows)))"

definition svc_Update_key :: "auth_env \<Rightarrow> int \<Rightarrow> update_key \<Rightarrow> apikey list \<Rightarrow> (key_error + apikey) \<times> apikey list" where
  "svc_Update_key env i p rows =
     (case svc_Get_key env i rows of
        Inl e \<Rightarrow> (Inl e, rows)
      | Inr ak \<Rightarrow>
          (case Update_key env p ak of
             Inl e \<Rightarrow> (Inl e, rows)
           | Inr ak \<Rightarrow>
               (case Update_keyrow env ak rows of
                  (Inl e, rows) \<Rightarrow> (Inl e, rows)
                | (Inr _, rows) \<Rightarrow> (svc_Get_key env i rows, rows))))"

definition svc_Delete_key :: "auth_env \<Rightarrow> int \<Rightarrow> apikey list \<Rightarrow> (key_error + unit) \<times> apikey list" where
  "svc_Delete_key env i rows =
     (case svc_Get_key env i rows of Inl e \<Rightarrow> (Inl e, rows) | Inr ak \<Rightarrow> Delete_keyrow env ak rows)"

definition svc_GetByIDs_key :: "auth_env \<Rightarrow> int list \<Rightarrow> apikey list \<Rightarrow> key_error + apikey list" where
  "svc_GetByIDs_key env ids rows = FindByIDs_key env ids rows"

definition svc_ListByProjectID_key :: "auth_env \<Rightarrow> project_id \<Rightarrow> apikey list \<Rightarrow> key_error + apikey list" where
  "svc_ListByProjectID_key env p rows = ListByProjectID_key env p rows"

section \<open>Reading keys and tokens from a request\<close>

text \<open>\<open>base64.StdEncoding\<close>: line breaks are skipped, the padding is checked, left-over bits are not.\<close>

definition b64_alphabet :: string where
  "b64_alphabet = ''ABCDEFGHIJKLMNOPQRSTUVWXYZabcdefghijklmnopqrstuvwxyz0123456789+/''"

fun b64_quads :: "string \<Rightarrow> string option" where
  "b64_quads [] = Some []"
| "b64_quads (a # b # c # d # rest) =
     (case (find_index a b64_alphabet, find_index b b64_alphabet) of
        (Some x, Some y) \<Rightarrow>
          let b1 = char_of (x * 4 + y div 16)
          in if c = CHR ''='' then (if d = CHR ''='' \<and> rest = [] then Some [b1] else None)
             else (case find_index c b64_alphabet of
                     None \<Rightarrow> None
                   | Some z \<Rightarrow>
                       let b2 = char_of ((y mod 16) * 16 + z div 4)
                       in if d = CHR ''='' then (if rest = [] then Some [b1, b2] else None)
                          else (case find_index d b64_alphabet of
                                  None \<Rightarrow> None
                                | Some u \<Rightarrow> map_option (\<lambda>t. b1 # b2 # char_of ((z mod 4) * 64 + u) # t) (b64_quads rest)))
      | _ \<Rightarrow> None)"
| "b64_quads _ = None"

definition b64_decode :: "string \<Rightarrow> string option" where
  "b64_decode s = b64_quads (List.filter (\<lambda>c. c \<noteq> CHR 0x0A \<and> c \<noteq> CHR 0x0D) s)"

definition hex_val :: "char \<Rightarrow> nat option" where
  "hex_val c = (let n = (of_char c :: nat)
     in if 48 \<le> n \<and> n \<le> 57 then Some (n - 48) else if 97 \<le> n \<and> n \<le> 102 then Some (n - 87)
        else if 65 \<le> n \<and> n \<le> 70 then Some (n - 55) else None)"

text \<open>\<open>url.QueryUnescape\<close>.\<close>

fun query_unescape :: "string \<Rightarrow> string option" where
  "query_unescape [] = Some []"
| "query_unescape (c # cs) =
     (if c = CHR 0x25
      then (case cs of
              a # b # rest \<Rightarrow>
                (case (hex_val a, hex_val b) of
                   (Some x, Some y) \<Rightarrow> map_option (\<lambda>t. char_of (x * 16 + y) # t) (query_unescape rest)
                 | _ \<Rightarrow> None)
            | _ \<Rightarrow> None)
      else map_option (\<lambda>t. (if c = CHR ''+'' then CHR '' '' else c) # t) (query_unescape cs))"

record http_request =
  hr_Authorization :: string
  hr_api_key :: string
  hr_access_token :: string
  hr_alias :: string

definition has_prefix :: "string \<Rightarrow> string \<Rightarrow> bool" where
  "has_prefix p s \<longleftrightarrow> take (length p) s = p"

definition basicPrefix :: string where "basicPrefix = ''Basic ''"
definition bearerPrefix :: string where "bearerPrefix = ''Bearer ''"

definition DecodeKey :: "string \<Rightarrow> bool \<Rightarrow> string option" where
  "DecodeKey apiKey isURLEncoded = (if isURLEncoded then query_unescape apiKey else b64_decode apiKey)"

definition GetKeyFromHeader :: "http_request \<Rightarrow> string option" where
  "GetKeyFromHeader q =
     (if hr_Authorization q = [] \<or> \<not> has_prefix basicPrefix (hr_Authorization q) then None
      else DecodeKey (drop (length basicPrefix) (hr_Authorization q)) False)"

definition GetKeyFromQuery :: "http_request \<Rightarrow> string option" where
  "GetKeyFromQuery q = (if hr_api_key q = [] then None else DecodeKey (hr_api_key q) True)"

definition GetKey :: "http_request \<Rightarrow> string option" where
  "GetKey q = (case GetKeyFromHeader q of Some k \<Rightarrow> Some k | None \<Rightarrow> GetKeyFromQuery q)"

definition GetTokenFromHeader :: "http_request \<Rightarrow> string option" where
  "GetTokenFromHeader q =
     (if hr_Authorization q = [] \<or> \<not> has_prefix bearerPrefix (hr_Authorization q) then None
      else Some (drop (length bearerPrefix) (hr_Authorization q)))"

definition DecodeToken :: "string \<Rightarrow> string option" where
  "DecodeToken t = query_unescape t"

definition GetTokenFromQuery :: "http_request \<Rightarrow> string option" where
  "GetTokenFromQuery q = (if hr_access_token q = [] then None else DecodeToken (hr_access_token q))"

definition GetToken :: "http_request \<Rightarrow> string option" where
  "GetToken q = (case GetTokenFromHeader q of Some t \<Rightarrow> Some t | None \<Rightarrow> GetTokenFromQuery q)"

definition ParseComponents :: "auth_env \<Rightarrow> string \<Rightarrow> int option" where
  "ParseComponents env publicID = (case ParseHashID (ae_hashLength env) publicID of Inl _ \<Rightarrow> None | Inr i \<Rightarrow> Some i)"

definition ParseKey :: "auth_env \<Rightarrow> string \<Rightarrow> (int \<times> string) option" where
  "ParseKey env s =
     (case split_on (CHR '':'') s of
        [publicID, secret] \<Rightarrow> map_option (\<lambda>i. (i, secret)) (ParseComponents env publicID)
      | _ \<Rightarrow> None)"

datatype auth_error = InvalidKeyFormat | KeyMissing | InvalidCredentials

definition Authenticate :: "auth_env \<Rightarrow> string \<Rightarrow> apikey list \<Rightarrow> auth_error + apikey" where
  "Authenticate env s rows =
     (case ParseKey env s of
        None \<Rightarrow> Inl InvalidKeyFormat
      | Some (i, secret) \<Rightarrow>
          (case svc_Get_key env i rows of
             Inl _ \<Rightarrow> Inl KeyMissing
           | Inr k \<Rightarrow> if ak_SecretKey k \<noteq> secret then Inl InvalidCredentials else Inr k))"

end
