(* ===== verification/AuthTokens.thy ===== *)
theory AuthTokens
  imports Auth
begin

text \<open>
  Client tokens: the revocation table, the token service, the middleware that authenticates a request
  and the handler that issues tokens.
\<close>

section \<open>Revoked tokens\<close>

record revoked_token =
  rt_ID :: int
  rt_TokenID :: string
  rt_OwnerID :: int
  rt_OwnerType :: string
  rt_ExpiresAt :: time
  rt_RevokedAt :: time

definition TokenTypeAPIKey :: string where "TokenTypeAPIKey = ''api_key''"

record create_revoke =
  cv_TokenID :: string
  cv_OwnerID :: int
  cv_OwnerType :: string
  cv_ExpiresAt :: time

definition ValidateCreateRevoke :: "auth_env \<Rightarrow> create_revoke \<Rightarrow> rules + unit" where
  "ValidateCreateRevoke env p =
     (let v = ae_val env;
          r = Required (RString (cv_TokenID p)) ''tokenID'' NewRules;
          r = MinLength_rule (cv_TokenID p) 1 ''tokenID'' r;
          r = MaxLength_rule (cv_TokenID p) 22 ''tokenID'' r;
          r = Number v (show_int (cv_OwnerID p)) ''ownerID'' (Some positive_only) r;
          r = In_rule (cv_OwnerType p) [TokenTypeAPIKey] ''ownerType'' r;
          r = Required (RTime (cv_ExpiresAt p = ae_zeroTime env)) ''expiresAt'' r;
          r = Future v (cv_ExpiresAt p) ''expiresAt'' r
      in ValidationResult r)"

definition CreateRevoke :: "auth_env \<Rightarrow> create_revoke \<Rightarrow> rules + revoked_token" where
  "CreateRevoke env p =
     (case ValidateCreateRevoke env p of
        Inl e \<Rightarrow> Inl e
      | Inr _ \<Rightarrow> Inr \<lparr>rt_ID = 0, rt_TokenID = cv_TokenID p, rt_OwnerID = cv_OwnerID p, rt_OwnerType = cv_OwnerType p,
           rt_ExpiresAt = cv_ExpiresAt p, rt_RevokedAt = ae_now env\<rparr>)"

text \<open>\<open>token_id\<close> has a unique index.\<close>

definition CreateRevoke_row :: "auth_env \<Rightarrow> revoked_token \<Rightarrow> revoked_token list \<Rightarrow> int option \<times> revoked_token list" where
  "CreateRevoke_row env t rows =
     (if \<not> ae_db env \<or> list_ex (\<lambda>r. rt_TokenID r = rt_TokenID t) rows then (None, rows)
      else (Some (ae_nextKey env), rows @ [t\<lparr>rt_ID := ae_nextKey env\<rparr>]))"

definition PurgeExpired_row :: "auth_env \<Rightarrow> revoked_token list \<Rightarrow> bool \<times> revoked_token list" where
  "PurgeExpired_row env rows =
     (if \<not> ae_db env then (False, rows) else (True, List.filter (\<lambda>r. \<not> rt_ExpiresAt r < ae_now env) rows))"

datatype 'a db_answer = DbFailed | DbMissing | DbFound 'a

definition FindByTokenID :: "auth_env \<Rightarrow> string \<Rightarrow> revoked_token list \<Rightarrow> revoked_token db_answer" where
  "FindByTokenID env i rows =
     (if \<not> ae_db env then DbFailed
      else case List.find (\<lambda>r. rt_TokenID r = i) rows of None \<Rightarrow> DbMissing | Some r \<Rightarrow> DbFound r)"

section \<open>Token service\<close>

definition ValidateCreateAPIKeyClaim :: "auth_env \<Rightarrow> string \<Rightarrow> string \<Rightarrow> rules + unit" where
  "ValidateCreateAPIKeyClaim env alias perm =
     (let r = (if alias \<noteq> [] then MaxLength_rule alias 120 ''alias'' (MinLength_rule alias 1 ''alias'' NewRules) else NewRules);
          r = (if length perm > 0 then JSON_rule (ae_val env) perm ''permission'' r else r)
      in ValidationResult r)"

definition CreateAPIKeyClaim :: "auth_env \<Rightarrow> string \<Rightarrow> string \<Rightarrow> rules + token_claim" where
  "CreateAPIKeyClaim env alias perm =
     (case ValidateCreateAPIKeyClaim env alias perm of
        Inl e \<Rightarrow> Inl e
      | Inr _ \<Rightarrow> Inr \<lparr>tk_Alias = alias, tk_Permission = perm, tk_ID = ae_newID env, tk_IssuedAt = None, tk_ExpiresAt = None\<rparr>)"

datatype token_error = MissingSecret | ClaimFailed rules | SignFailed | TokenExpired | TokenInvalid | RevocationUnknown
  | HeaderFailed | MissingAKI | InvalidAKI | BadComponents | KeyLookup key_error | NoTokenID | RevokeInvalid rules | RevokeFailed

text \<open>\<open>jwt.NewNumericDate\<close> cuts a time to seconds.\<close>

definition numeric_date :: "time \<Rightarrow> time" where
  "numeric_date t = t div 1000000000 * 1000000000"

definition CreateAPIKeyToken :: "auth_env \<Rightarrow> string \<Rightarrow> string \<Rightarrow> string \<Rightarrow> string \<Rightarrow> int \<Rightarrow> token_error + string" where
  "CreateAPIKeyToken env publicID perm alias secret expiresIn =
     (if length secret = 0 then Inl MissingSecret
      else case CreateAPIKeyClaim env alias perm of
             Inl e \<Rightarrow> Inl (ClaimFailed e)
           | Inr c \<Rightarrow>
               let now = ae_now env;
                   c = c\<lparr>tk_IssuedAt := Some (numeric_date now), tk_ExpiresAt := Some (numeric_date (now + expiresIn))\<rparr>
               in case ae_sign env (ae_method env) publicID c secret of None \<Rightarrow> Inl SignFailed | Some t \<Rightarrow> Inr t)"

definition VerifyAPIKeyToken :: "auth_env \<Rightarrow> string \<Rightarrow> string \<Rightarrow> revoked_token list \<Rightarrow> token_error + token_claim" where
  "VerifyAPIKeyToken env token secret rows =
     (if length secret = 0 then Inl MissingSecret
      else case ae_open env token of
             None \<Rightarrow> Inl TokenInvalid
           | Some (alg, header, claims) \<Rightarrow>
               if alg \<noteq> ae_method env then Inl TokenInvalid
               else if ae_claims env (ae_now env) token = ClaimsExpired then Inl TokenExpired
               else if ae_claims env (ae_now env) token \<noteq> ClaimsValid \<or> \<not> ae_sig env token secret then Inl TokenInvalid
               else if tk_ID claims \<noteq> []
               then (case FindByTokenID env (tk_ID claims) rows of
                       DbFound _ \<Rightarrow> Inl TokenInvalid | DbFailed \<Rightarrow> Inl RevocationUnknown | DbMissing \<Rightarrow> Inr claims)
               else Inr claims)"

text \<open>The header is read by parsing with a wrong key, which may fail on the signature only.\<close>

definition DecodeTokenHeader :: "auth_env \<Rightarrow> string \<Rightarrow> (string \<Rightarrow> json option) option" where
  "DecodeTokenHeader env token =
     (case ae_open env token of None \<Rightarrow> None
      | Some (alg, header, claims) \<Rightarrow> if ae_peek env token then Some header else None)"

definition DecodeAPIKeyTokenClaims :: "auth_env \<Rightarrow> string \<Rightarrow> token_claim option" where
  "DecodeAPIKeyTokenClaims env token =
     (case ae_open env token of None \<Rightarrow> None
      | Some (alg, header, claims) \<Rightarrow> if ae_peek env token then Some claims else None)"

definition AuthenticateAPIKeyToken ::
    "auth_env \<Rightarrow> string \<Rightarrow> apikey list \<Rightarrow> revoked_token list \<Rightarrow> token_error + apikey \<times> token_claim" where
  "AuthenticateAPIKeyToken env token keys rows =
     (case DecodeTokenHeader env token of
        None \<Rightarrow> Inl HeaderFailed
      | Some header \<Rightarrow>
          (case header ''aki'' of
             None \<Rightarrow> Inl MissingAKI
           | Some JNull \<Rightarrow> Inl MissingAKI
           | Some (JStr aki) \<Rightarrow>
               if aki = [] then Inl InvalidAKI
               else (case ParseComponents env aki of
                       None \<Rightarrow> Inl BadComponents
                     | Some i \<Rightarrow>
                         (case svc_Get_key env i keys of
                            Inl e \<Rightarrow> Inl (KeyLookup e)
                          | Inr k \<Rightarrow>
                              (case VerifyAPIKeyToken env token (ak_SecretKey k) rows of
                                 Inl e \<Rightarrow> Inl e
                               | Inr c \<Rightarrow> Inr (k, c))))
           | Some _ \<Rightarrow> Inl InvalidAKI))"

definition RevokeAPIKeyToken ::
    "auth_env \<Rightarrow> string \<Rightarrow> string \<Rightarrow> revoked_token list \<Rightarrow> (token_error + unit) \<times> revoked_token list" where
  "RevokeAPIKeyToken env token secret rows =
     (case VerifyAPIKeyToken env token secret rows of
        Inl e \<Rightarrow> (Inl e, rows)
      | Inr c \<Rightarrow>
          if tk_ID c = [] then (Inl NoTokenID, rows)
          else let expiresAt = (case tk_ExpiresAt c of None \<Rightarrow> ae_zeroTime env | Some t \<Rightarrow> t)
               in case CreateRevoke env \<lparr>cv_TokenID = tk_ID c, cv_OwnerID = 0, cv_OwnerType = TokenTypeAPIKey, cv_ExpiresAt = expiresAt\<rparr> of
                    Inl e \<Rightarrow> (Inl (RevokeInvalid e), rows)
                  | Inr t \<Rightarrow>
                      (case CreateRevoke_row env t rows of
                         (None, rows) \<Rightarrow> (Inl RevokeFailed, rows) | (Some _, rows) \<Rightarrow> (Inr (), rows)))"

definition svc_PurgeExpired :: "auth_env \<Rightarrow> revoked_token list \<Rightarrow> bool \<times> revoked_token list" where
  "svc_PurgeExpired env rows = PurgeExpired_row env rows"

definition svc_GetByTokenID :: "auth_env \<Rightarrow> string \<Rightarrow> revoked_token list \<Rightarrow> revoked_token db_answer" where
  "svc_GetByTokenID env i rows = FindByTokenID env i rows"

section \<open>Middleware\<close>

text \<open>What an authenticated request carries on.\<close>

record auth_ctx =
  cx_KeyID :: int
  cx_PublicID :: string
  cx_SecretKey :: string
  cx_ProjectID :: project_id
  cx_Alias :: string
  cx_Permission :: string

definition key_ctx :: "apikey \<Rightarrow> string \<Rightarrow> string \<Rightarrow> auth_ctx" where
  "key_ctx k alias perm = \<lparr>cx_KeyID = ak_ID k, cx_PublicID = ak_PublicID k, cx_SecretKey = ak_SecretKey k,
     cx_ProjectID = ak_ProjectID k, cx_Alias = alias, cx_Permission = perm\<rparr>"

definition tryAPIKeyAuth :: "auth_env \<Rightarrow> http_request \<Rightarrow> apikey list \<Rightarrow> auth_ctx option" where
  "tryAPIKeyAuth env q keys =
     (case GetKey q of None \<Rightarrow> None
      | Some s \<Rightarrow> (case Authenticate env s keys of Inl _ \<Rightarrow> None | Inr k \<Rightarrow> Some (key_ctx k (hr_alias q) (ak_Permission k))))"

definition tryTokenAuth :: "auth_env \<Rightarrow> http_request \<Rightarrow> apikey list \<Rightarrow> revoked_token list \<Rightarrow> auth_ctx option" where
  "tryTokenAuth env q keys rows =
     (case GetToken q of None \<Rightarrow> None
      | Some t \<Rightarrow>
          (case AuthenticateAPIKeyToken env t keys rows of
             Inl _ \<Rightarrow> None
           | Inr (k, c) \<Rightarrow>
               Some (key_ctx k (tk_Alias c) (if HasData (tk_Permission c) then tk_Permission c else ak_Permission k))))"

datatype auth_reply = BadRequest string | Unauthorized string | Proceed auth_ctx

definition APIKeyAuth :: "auth_env \<Rightarrow> http_request \<Rightarrow> apikey list \<Rightarrow> auth_reply" where
  "APIKeyAuth env q keys =
     (case tryAPIKeyAuth env q keys of None \<Rightarrow> Unauthorized ''Invalid or missing API key'' | Some c \<Rightarrow> Proceed c)"

definition TokenAuth :: "auth_env \<Rightarrow> http_request \<Rightarrow> apikey list \<Rightarrow> revoked_token list \<Rightarrow> auth_reply" where
  "TokenAuth env q keys rows =
     (case tryTokenAuth env q keys rows of None \<Rightarrow> Unauthorized ''Invalid or missing token'' | Some c \<Rightarrow> Proceed c)"

definition APIKeyOrTokenAuth :: "auth_env \<Rightarrow> http_request \<Rightarrow> apikey list \<Rightarrow> revoked_token list \<Rightarrow> auth_reply" where
  "APIKeyOrTokenAuth env q keys rows =
     (case tryAPIKeyAuth env q keys of
        Some c \<Rightarrow> Proceed c
      | None \<Rightarrow> (case tryTokenAuth env q keys rows of
                   Some c \<Rightarrow> Proceed c | None \<Rightarrow> Unauthorized ''Unauthorized: Invalid API key or token''))"

section \<open>Signed token requests\<close>

record token_request =
  tr_AKI :: string
  tr_Permission :: string
  tr_Alias :: string
  tr_Timestamp :: int
  tr_Signature :: string

text \<open>Decoding into a Go map keeps the last member of each name.\<close>

fun last_members :: "(string \<times> 'a) list \<Rightarrow> (string \<times> 'a) list" where
  "last_members [] = []"
| "last_members ((k, v) # ms) = (if k \<in> fst ` set ms then last_members ms else (k, v) # last_members ms)"

text \<open>\<open>writeCanonicalJSON\<close>: the members of an object are written in the order of their names; texts and
  numbers as \<open>json.Marshal\<close> writes them.\<close>

fun writeCanonicalJSON :: "auth_env \<Rightarrow> json \<Rightarrow> string" where
  "writeCanonicalJSON env (JObj ms) =
     ''{'' @ join '','' (List.map (\<lambda>(k, t). ae_scalar env (JStr k) @ '':'' @ t)
        (sort_key fst (last_members (List.map (\<lambda>(k, v). (k, writeCanonicalJSON env v)) ms)))) @ ''}''"
| "writeCanonicalJSON env (JArr js) = ''['' @ join '','' (List.map (writeCanonicalJSON env) js) @ '']''"
| "writeCanonicalJSON env v = ae_scalar env v"

definition canonicalJSON :: "auth_env \<Rightarrow> string \<Rightarrow> string option" where
  "canonicalJSON env raw = map_option (writeCanonicalJSON env) (ae_json env raw)"

definition buildCanonicalTokenRequestString :: "auth_env \<Rightarrow> token_request \<Rightarrow> string option" where
  "buildCanonicalTokenRequestString env req =
     (let lines = [''aki='' @ tr_AKI req, ''timestamp='' @ show_int (tr_Timestamp req)];
          lines = (if tr_Alias req \<noteq> [] then lines @ [''alias='' @ tr_Alias req] else lines)
      in if length (tr_Permission req) > 0
         then (case canonicalJSON env (tr_Permission req) of
                 None \<Rightarrow> None | Some p \<Rightarrow> Some (join [CHR 0x0A] (lines @ [''permission='' @ p])))
         else Some (join [CHR 0x0A] lines))"

definition verifyCanonicalSignature :: "auth_env \<Rightarrow> string \<Rightarrow> string \<Rightarrow> string \<Rightarrow> bool" where
  "verifyCanonicalSignature env canonical secret signature =
     (let normalized = TrimSpace signature
      in if normalized = [] then False
         else case b64_decode normalized of
                None \<Rightarrow> False
              | Some decoded \<Rightarrow> if length decoded \<noteq> 32 then False else ae_hmac env secret canonical = decoded)"

definition defaultTimestampTolerance :: int where
  "defaultTimestampTolerance = 5 * 60 * 1000000000"

definition timestampTolerance :: "(string \<Rightarrow> int option) \<Rightarrow> string \<Rightarrow> int" where
  "timestampTolerance goParse raw =
     (if raw = [] then defaultTimestampTolerance
      else case goParse raw of Some d \<Rightarrow> if d > 0 then d else defaultTimestampTolerance | None \<Rightarrow> defaultTimestampTolerance)"

text \<open>\<open>req\<close> is the bound body, which must have the identifier, the timestamp and the signature;
  \<open>tolerance\<close> is in whole seconds (\<open>int64(tolerance.Seconds())\<close>).\<close>

definition TokenRequestAuth ::
    "auth_env \<Rightarrow> int \<Rightarrow> int \<Rightarrow> string \<Rightarrow> token_request option \<Rightarrow> apikey list \<Rightarrow> auth_reply" where
  "TokenRequestAuth env unixNow tolerance keyIDParam body keys =
     (case body of
        None \<Rightarrow> BadRequest ''Invalid token request body''
      | Some req \<Rightarrow>
          if tr_AKI req = [] \<or> tr_Timestamp req = 0 \<or> tr_Signature req = [] then BadRequest ''Invalid token request body''
          else case ParseComponents env (tr_AKI req) of
                 None \<Rightarrow> BadRequest ''Invalid API key identifier (aki)''
               | Some i \<Rightarrow>
                   (case svc_Get_key env i keys of
                      Inl _ \<Rightarrow> Unauthorized ''API key not found''
                    | Inr k \<Rightarrow>
                        if ak_Status k \<noteq> KeyActive then Unauthorized ''API key is not active''
                        else if keyIDParam = [] \<or> keyIDParam \<noteq> ak_PublicID k then Unauthorized ''Invalid API key''
                        else let diff = i64 (unixNow - tr_Timestamp req);
                                 diff = (if diff < 0 then i64 (- diff) else diff)
                             in if diff > tolerance then BadRequest ''Token request has expired or has an invalid timestamp''
                                else case buildCanonicalTokenRequestString env req of
                                       None \<Rightarrow> BadRequest ''Invalid token request payload''
                                     | Some canonical \<Rightarrow>
                                         if \<not> verifyCanonicalSignature env canonical (ak_SecretKey k) (tr_Signature req)
                                         then Unauthorized ''Invalid token request signature''
                                         else Proceed (key_ctx k (tr_Alias req)
                                                (if length (tr_Permission req) > 0 then tr_Permission req else ak_Permission k))))"

section \<open>Issuing tokens\<close>

record issue_request =
  ir_Permission :: string
  ir_Alias :: string
  ir_ExpiresIn :: "int option"

datatype issue_reply = IssueBadRequest string | IssueInternal | IssueOK string

text \<open>\<open>duration\<close> and \<open>maxDuration\<close> of \<open>IssueToken\<close> are the configured durations in whole seconds,
  the one of \<open>RequestToken\<close> is in nanoseconds.\<close>

definition IssueToken :: "auth_env \<Rightarrow> int \<Rightarrow> int \<Rightarrow> auth_ctx \<Rightarrow> issue_request \<Rightarrow> issue_reply" where
  "IssueToken env duration maxDuration ctx req =
     (let perm = (if length (ir_Permission req) = 0 then cx_Permission ctx else ir_Permission req);
          expiresIn = (case ir_ExpiresIn req of None \<Rightarrow> duration | Some n \<Rightarrow> n)
      in if ir_ExpiresIn req \<noteq> None \<and> expiresIn \<le> 0 then IssueBadRequest ''expiresIn must be greater than 0''
         else if ir_ExpiresIn req \<noteq> None \<and> expiresIn > maxDuration
         then IssueBadRequest ''expiresIn exceeds maximum allowed duration''
         else case CreateAPIKeyToken env (cx_PublicID ctx) perm (ir_Alias req) (cx_SecretKey ctx) (i64 (expiresIn * 1000000000)) of
                Inl _ \<Rightarrow> IssueInternal
              | Inr t \<Rightarrow> IssueOK t)"

definition RequestToken :: "auth_env \<Rightarrow> int \<Rightarrow> auth_ctx \<Rightarrow> issue_reply" where
  "RequestToken env duration ctx =
     (case CreateAPIKeyToken env (cx_PublicID ctx) (cx_Permission ctx) (cx_Alias ctx) (cx_SecretKey ctx) duration of
        Inl _ \<Rightarrow> IssueInternal
      | Inr t \<Rightarrow> IssueOK t)"

text \<open>The configuration of tokens.\<close>

record token_config =
  tc_Duration :: int
  tc_MaxDuration :: int
  tc_Method :: string

datatype config_error = NotPositive | TooLong | BadMethod

definition validateTokenDuration :: "int \<Rightarrow> config_error + unit" where
  "validateTokenDuration d =
     (if d \<le> 0 then Inl NotPositive else if d > 30 * 24 * 3600 * 1000000000 then Inl TooLong else Inr ())"

definition isValidSigningMethod :: "string \<Rightarrow> bool" where
  "isValidSigningMethod m \<longleftrightarrow> m \<in> {''HS256'', ''HS384'', ''HS512''}"

definition Validate_token_config :: "token_config \<Rightarrow> config_error + unit" where
  "Validate_token_config c =
     (case validateTokenDuration (tc_Duration c) of
        Inl e \<Rightarrow> Inl e
      | Inr _ \<Rightarrow> if \<not> isValidSigningMethod (tc_Method c) then Inl BadMethod else Inr ())"

end
