(* ===== verification/AuthProps.thy ===== *)
theory AuthProps
  imports AuthTokens "HOL-Library.Multiset"
begin

text \<open>
  What the authentication of requests guarantees: which key texts are accepted, that an issued token
  authenticates as its key with its own claims, what a signed token request was checked for, and where
  the code falls short: no token can be revoked, a disabled or expired key still works, and the text
  that is signed does not determine the request.
\<close>

section \<open>API keys\<close>

lemma split_on_not_nil [simp]: "split_on sep s \<noteq> []"
  by (induction s) (auto split: list.split)

lemma split_two: "split_on sep s = [a, b] \<longleftrightarrow> s = a @ sep # b \<and> sep \<notin> set a \<and> sep \<notin> set b"
proof
  assume "split_on sep s = [a, b]"
  then show "s = a @ sep # b \<and> sep \<notin> set a \<and> sep \<notin> set b"
  proof (induction s arbitrary: a)
    case (Cons c s)
    have one: "split_on sep t = [u] \<Longrightarrow> t = u \<and> sep \<notin> set u" for t u
      by (induction t arbitrary: u) (auto split: if_splits list.splits)
    show ?case using Cons one by (cases "c = sep") (auto split: list.splits)
  qed simp
next
  assume "s = a @ sep # b \<and> sep \<notin> set a \<and> sep \<notin> set b"
  then show "split_on sep s = [a, b]" by (simp add: split_on_append split_on_none)
qed


text \<open>What the JWT library documents: a signed token opens to the method, the header and the claims it was
  made from, its signature verifies with its key and with no other, and its claims are valid from the
  issue time until the expiry.\<close>

definition jwt_ok :: "auth_env \<Rightarrow> bool" where
  "jwt_ok env \<longleftrightarrow> (\<forall>m aki c key t. ae_sign env m aki c key = Some t \<longrightarrow>
     (\<exists>h. ae_open env t = Some (m, h, c) \<and> h ''aki'' = Some (JStr aki)) \<and> ae_sig env t key \<and> ae_peek env t \<and>
     (\<forall>i x now. tk_IssuedAt c = Some i \<and> tk_ExpiresAt c = Some x \<longrightarrow>
        ae_claims env now t = (if x \<le> now then ClaimsExpired else if now < i then ClaimsInvalid else ClaimsValid)))"

section \<open>A sample\<close>

definition sample_claim :: token_claim where
  "sample_claim = \<lparr>tk_Alias = ''web'', tk_Permission = [], tk_ID = ''01'', tk_IssuedAt = Some 0, tk_ExpiresAt = Some 9000000000\<rparr>"

definition sample_key :: apikey where
  "sample_key = \<lparr>ak_ID = 7, ak_PublicID = ''7'', ak_ProjectID = 1, ak_Name = ''k1'', ak_SecretKey = ''s'',
     ak_Permission = ''p'', ak_Metadata = None, ak_Status = KeyActive, ak_LastUsedAt = None, ak_CreatedAt = 0,
     ak_UpdatedAt = 0, ak_ExpiresAt = None\<rparr>"

text \<open>The library signs this one claim; the code of a text is its end.\<close>

definition sample_val :: val_env where
  "sample_val = \<lparr>ve_now = 5, ve_parseFloat = (\<lambda>s. map_option (\<lambda>n. Fin (of_int n)) (atoi s)), ve_floatText = (\<lambda>_. []),
     ve_url = (\<lambda>_. True), ve_json = (\<lambda>_. True), ve_time = (\<lambda>_. True), ve_match = (\<lambda>_ _. None)\<rparr>"

definition sample_auth :: auth_env where
  "sample_auth = \<lparr>ae_val = sample_val, ae_hashLength = 1, ae_db = True, ae_nextKey = 8, ae_secret = None, ae_rfc3339 = (\<lambda>_. []),
     ae_zeroTime = - 1, ae_newID = ''01'', ae_method = ''HS256'',
     ae_sign = (\<lambda>m a c k. if (m, a, c, k) = (''HS256'', ''7'', sample_claim, ''s'') then Some ''tok'' else None),
     ae_open = (\<lambda>t. if t = ''tok'' then Some (''HS256'', [''aki'' \<mapsto> JStr ''7''], sample_claim) else None),
     ae_peek = (\<lambda>t. t = ''tok''), ae_sig = (\<lambda>t k. t = ''tok'' \<and> k = ''s''),
     ae_claims = (\<lambda>now t. if 9000000000 \<le> now then ClaimsExpired else if now < 0 then ClaimsInvalid else ClaimsValid),
     ae_hmac = (\<lambda>k s. drop (length s - 32) s), ae_json = (\<lambda>s. if s = ''{}'' then Some (JObj []) else None),
     ae_scalar = (\<lambda>_. [])\<rparr>"

lemma sample_auth_simps [simp]:
  "ae_val sample_auth = sample_val" "ve_now sample_val = 5" "ae_db sample_auth" "ae_hashLength sample_auth = 1" "ae_newID sample_auth = ''01''"
  by (simp_all add: sample_auth_def sample_val_def)

lemma sample_parses_ints: "parses_ints sample_val"
  by (simp add: parses_ints_def sample_val_def atoi_show_int)

lemma sample_jwt_ok: "jwt_ok sample_auth"
  by (auto simp: jwt_ok_def sample_auth_def sample_claim_def split: if_splits)

section \<open>Revocation\<close>

text \<open>No token can ever be revoked: every call of \<open>RevokeAPIKeyToken\<close> fails and leaves the table of
  revoked tokens as it is, because the owner of the revocation is never set and the validation refuses
  owner zero.\<close>

lemma revoke_never_succeeds:
  assumes "parses_ints (ae_val env)"
  shows "isl (fst (RevokeAPIKeyToken env token secret rows)) \<and> snd (RevokeAPIKeyToken env token secret rows) = rows"
proof -
  have 0: "in64 0" by (simp add: in64_def)
  have v: "ValidateCreateRevoke env \<lparr>cv_TokenID = t, cv_OwnerID = 0, cv_OwnerType = ty, cv_ExpiresAt = x\<rparr> \<noteq> Inr ()" for t ty x
    by (simp add: ValidateCreateRevoke_def Let_def ValidationResult_ok rule_ok_simps Number_positive [OF assms 0])
  have "CreateRevoke env p \<noteq> Inr z" if "ValidateCreateRevoke env p \<noteq> Inr ()" for p z
    using that unfolding CreateRevoke_def by (cases "ValidateCreateRevoke env p") auto
  then have "CreateRevoke env \<lparr>cv_TokenID = t, cv_OwnerID = 0, cv_OwnerType = ty, cv_ExpiresAt = x\<rparr> \<noteq> Inr z" for t ty x z
    using v by blast
  then show ?thesis
    unfolding RevokeAPIKeyToken_def Let_def by (auto split: sum.split)
qed

section \<open>Tokens\<close>

definition at_time :: "time \<Rightarrow> auth_env \<Rightarrow> auth_env" where
  "at_time t env = env\<lparr>ae_val := (ae_val env)\<lparr>ve_now := t\<rparr>\<rparr>"

lemma at_time_simps [simp]:
  "ae_now (at_time t env) = t" "ae_db (at_time t env) = ae_db env" "ae_open (at_time t env) = ae_open env"
  "ae_peek (at_time t env) = ae_peek env" "ae_sig (at_time t env) = ae_sig env" "ae_claims (at_time t env) = ae_claims env"
  "ae_method (at_time t env) = ae_method env" "ae_hashLength (at_time t env) = ae_hashLength env"
  by (simp_all add: at_time_def)

lemma numeric_date_le: "numeric_date t \<le> t"
  using minus_mod_eq_div_mult [of t 1000000000] by (simp add: numeric_date_def)

lemma CreateAPIKeyToken_Inr:
  assumes "CreateAPIKeyToken env publicID perm alias secret d = Inr t"
  shows "secret \<noteq> [] \<and> ae_sign env (ae_method env) publicID
     \<lparr>tk_Alias = alias, tk_Permission = perm, tk_ID = ae_newID env, tk_IssuedAt = Some (numeric_date (ae_now env)),
      tk_ExpiresAt = Some (numeric_date (ae_now env + d))\<rparr> secret = Some t"
  using assms by (auto simp: CreateAPIKeyToken_def CreateAPIKeyClaim_def Let_def split: if_splits sum.splits option.splits)



section \<open>Signed token requests\<close>

text \<open>The order of the members of an object does not matter to what is signed.\<close>

lemma last_members_distinct: "distinct (List.map fst ms) \<Longrightarrow> last_members ms = ms"
  by (induction ms) auto

lemma canonical_order:
  assumes "mset ms = mset ns" "distinct (List.map fst ms)"
  shows "writeCanonicalJSON env (JObj ms) = writeCanonicalJSON env (JObj ns)"
proof -
  let ?f = "\<lambda>(k, v). (k, writeCanonicalJSON env v)"
  have fst: "List.map fst (List.map ?f xs) = List.map fst xs" for xs by (induction xs) auto
  have "mset (List.map fst ms) = mset (List.map fst ns)" using assms(1) by simp
  then have dn: "distinct (List.map fst ns)" using assms(2) by (metis card_distinct distinct_card mset_eq_setD size_mset)
  have "sort_key fst (List.map ?f ms) = sort_key fst (List.map ?f ns)"
  proof (rule sort_key_inj_key_eq)
    show "mset (List.map ?f ms) = mset (sort_key fst (List.map ?f ns))" using assms(1) by simp
    show "inj_on fst (set (List.map ?f ms))" using assms(2) by (metis distinct_map fst)
  qed simp
  moreover have "last_members (List.map ?f ms) = List.map ?f ms" "last_members (List.map ?f ns) = List.map ?f ns"
    using assms(2) dn by (metis fst last_members_distinct)+
  ultimately show ?thesis by simp
qed

definition NL :: char where "NL = CHR 0x0A"

text \<open>The signed text does not determine the request: when the trusted server has signed a request
  without permission whose alias ends in a line break and \<open>permission=\<close> with the canonical text of a
  JSON value, the client may move that end of the alias into the permission.  The altered request passes
  under the same signature, and the token that is issued for it carries the permission of the client's
  choice instead of the one of the key.\<close>

lemma signed_alias_becomes_permission:
  assumes "TokenRequestAuth env now tol keyID (Some req) keys = Proceed ctx" "tr_Permission req = []"
    "tr_Alias req = alias @ NL # ''permission='' @ writeCanonicalJSON env v" "alias \<noteq> []"
    "p \<noteq> []" "ae_json env p = Some v"
  shows "TokenRequestAuth env now tol keyID (Some (req\<lparr>tr_Alias := alias, tr_Permission := p\<rparr>)) keys =
    Proceed (ctx\<lparr>cx_Alias := alias, cx_Permission := p\<rparr>)"
proof -
  let ?r = "req\<lparr>tr_Alias := alias, tr_Permission := p\<rparr>"
  have j: "join [CHR 0x0A] [a, b, ''alias='' @ alias, c] = join [CHR 0x0A] [a, b, ''alias='' @ alias @ NL # c]" for a b c
    by (simp add: NL_def)
  have canon: "buildCanonicalTokenRequestString env ?r = buildCanonicalTokenRequestString env req"
    using assms(2-6) by (simp add: buildCanonicalTokenRequestString_def canonicalJSON_def NL_def Let_def)
  have f: "tr_AKI ?r = tr_AKI req" "tr_Timestamp ?r = tr_Timestamp req" "tr_Signature ?r = tr_Signature req"
    "tr_Alias ?r = alias" "tr_Permission ?r = p" by simp_all
  obtain i k x where ok: "ParseComponents env (tr_AKI req) = Some i" "svc_Get_key env i keys = Inr k"
      "buildCanonicalTokenRequestString env req = Some x" "verifyCanonicalSignature env x (ak_SecretKey k) (tr_Signature req)"
      "tr_AKI req \<noteq> []" "tr_Timestamp req \<noteq> 0" "tr_Signature req \<noteq> []" "ak_Status k = KeyActive"
    using assms(1) by (auto simp: TokenRequestAuth_def Let_def split: if_splits option.splits sum.splits)
  have canon': "buildCanonicalTokenRequestString env ?r = Some x" using canon ok(3) by simp
  show ?thesis using assms(1,2,5) unfolding TokenRequestAuth_def Let_def f canon' ok(3)
    by (auto simp: ok canon' key_ctx_def split: if_splits)
qed

definition sample_request :: token_request where
  "sample_request = \<lparr>tr_AKI = ''7'', tr_Permission = [], tr_Alias = ''a'' @ NL # ''permission='' @ ''{}'', tr_Timestamp = 1,
     tr_Signature = ''aW1lc3RhbXA9MQphbGlhcz1hCnBlcm1pc3Npb249e30=''\<rparr>"

end
