(* ===== verification/Http.thy ===== *)
theory Http
  imports JobAdmin
begin

text \<open>
  The edge of the HTTP API: the replies of \<open>internal/api/response/response.go\<close>, page parameters and
  pagination (\<open>internal/shared/pagination\<close>, \<open>internal/application/dto/pagination.go\<close>), the
  representations of jobs, queues and workers (\<open>internal/application/dto\<close>), cross-origin headers
  (\<open>internal/api/http/middleware/cors.go\<close>) and the token check of the control routes.
\<close>

section \<open>Replies\<close>

text \<open>A message is a fixed text or the text of an error value.\<close>

datatype 'e rtext = Msg string | ErrorOf 'e

datatype ('e, 'a) reply = JSONReply int 'a | ErrorReply int string "'e rtext" "'a option" | StatusReply int

fun status_of :: "('e, 'a) reply \<Rightarrow> int" where
  "status_of (JSONReply n _) = n"
| "status_of (ErrorReply n _ _ _) = n"
| "status_of (StatusReply n) = n"

definition send :: "int \<Rightarrow> 'a \<Rightarrow> ('e, 'a) reply" where
  "send status data = JSONReply status data"

definition sendError :: "int \<Rightarrow> string \<Rightarrow> 'e rtext \<Rightarrow> 'a option \<Rightarrow> ('e, 'a) reply" where
  "sendError status code message details = ErrorReply status code message details"

definition resp_OK :: "'a \<Rightarrow> ('e, 'a) reply" where "resp_OK data = send 200 data"
definition resp_Created :: "'a \<Rightarrow> ('e, 'a) reply" where "resp_Created data = send 201 data"
definition resp_NoContent :: "('e, 'a) reply" where "resp_NoContent = StatusReply 204"

definition resp_BadRequest :: "'e rtext \<Rightarrow> ('e, 'a) reply" where
  "resp_BadRequest message = sendError 400 ''BAD_REQUEST'' message None"
definition resp_Unauthorized :: "'e rtext \<Rightarrow> ('e, 'a) reply" where
  "resp_Unauthorized message = sendError 401 ''UNAUTHORIZED'' message None"
definition resp_Forbidden :: "'e rtext \<Rightarrow> ('e, 'a) reply" where
  "resp_Forbidden message = sendError 403 ''FORBIDDEN'' message None"
definition resp_NotFound :: "'e rtext \<Rightarrow> ('e, 'a) reply" where
  "resp_NotFound message = sendError 404 ''NOT_FOUND'' message None"
definition resp_Conflict :: "'e rtext \<Rightarrow> ('e, 'a) reply" where
  "resp_Conflict message = sendError 409 ''CONFLICT'' message None"
definition resp_InternalError :: "'e rtext \<Rightarrow> ('e, 'a) reply" where
  "resp_InternalError message = sendError 500 ''INTERNAL_ERROR'' message None"
definition resp_PartialContent :: "'e rtext \<Rightarrow> 'a \<Rightarrow> ('e, 'a) reply" where
  "resp_PartialContent message details = sendError 206 ''PARTIAL_CONTENT'' message (Some details)"
definition resp_TooManyRequests :: "'e rtext \<Rightarrow> ('e, 'a) reply" where
  "resp_TooManyRequests message = sendError 429 ''RATE_LIMITED'' message None"

lemmas resp_defs = send_def sendError_def resp_OK_def resp_Created_def resp_NoContent_def resp_BadRequest_def
  resp_Unauthorized_def resp_Forbidden_def resp_NotFound_def resp_Conflict_def resp_InternalError_def
  resp_PartialContent_def resp_TooManyRequests_def

section \<open>Pages\<close>

record page_params =
  pp_Page :: int
  pp_PerPage :: int

text \<open>An absent query parameter is the empty text.\<close>

definition ParseParams :: "string \<Rightarrow> string \<Rightarrow> page_params" where
  "ParseParams pageStr perPageStr =
     \<lparr>pp_Page = (if pageStr \<noteq> [] then (case atoi pageStr of Some n \<Rightarrow> if n > 0 then n else 1 | None \<Rightarrow> 1) else 1),
      pp_PerPage = (if perPageStr \<noteq> []
         then (case atoi perPageStr of Some n \<Rightarrow> if n > 0 then (if n > 100 then 100 else n) else 10 | None \<Rightarrow> 10) else 10)\<rparr>"

record pagination_dto =
  pg_Total :: int
  pg_PerPage :: int
  pg_CurrentPage :: int
  pg_NextPage :: "int option"
  pg_PrevPage :: "int option"
  pg_LastPage :: int

definition ToPaginationDTO :: "int \<Rightarrow> int \<Rightarrow> int \<Rightarrow> pagination_dto" where
  "ToPaginationDTO rowCount perPage currentPage =
     (let perPage = (if perPage \<le> 0 then 10 else perPage);
          currentPage = (if currentPage \<le> 0 then 1 else currentPage);
          lastPage = go_quot (i64 (rowCount + perPage - 1)) perPage
      in \<lparr>pg_Total = rowCount, pg_PerPage = perPage, pg_CurrentPage = currentPage,
          pg_NextPage = (if currentPage < lastPage then Some (i64 (currentPage + 1)) else None),
          pg_PrevPage = (if currentPage > 1 then Some (currentPage - 1) else None), pg_LastPage = lastPage\<rparr>)"

section \<open>Durations as text\<close>

text \<open>\<open>time.Duration.String\<close>.\<close>

fun drop_zeros :: "string \<Rightarrow> string" where
  "drop_zeros [] = []"
| "drop_zeros (c # cs) = (if c = CHR ''0'' then drop_zeros cs else c # cs)"

definition frac_text :: "nat \<Rightarrow> nat \<Rightarrow> string" where
  "frac_text prec v =
     (let digits = dec_nat v;
          shown = rev (drop_zeros (rev (replicate (prec - length digits) (CHR ''0'') @ digits)))
      in if v = 0 then [] else CHR ''.'' # shown)"

definition with_frac :: "nat \<Rightarrow> nat \<Rightarrow> string" where
  "with_frac prec u = dec_nat (u div 10 ^ prec) @ frac_text prec (u mod 10 ^ prec)"

definition unsigned_duration :: "nat \<Rightarrow> string" where
  "unsigned_duration u =
     (if u = 0 then ''0s''
      else if u < 1000 then dec_nat u @ ''ns''
      else if u < 1000000 then with_frac 3 u @ [CHR 0xC2, CHR 0xB5, CHR ''s'']
      else if u < 1000000000 then with_frac 6 u @ ''ms''
      else let s = u div 1000000000; frac = frac_text 9 (u mod 1000000000); m = s div 60; h = m div 60
           in (if h > 0 then dec_nat h @ ''h'' else []) @ (if m > 0 then dec_nat (m mod 60) @ ''m'' else []) @
              dec_nat (s mod 60) @ frac @ ''s'')"

definition Duration_String :: "int \<Rightarrow> string" where
  "Duration_String d = (if d < 0 then CHR ''-'' # unsigned_duration (nat (- d)) else unsigned_duration (nat d))"

section \<open>Representations\<close>

record job_dto =
  jd_ID :: ulid
  jd_QueueName :: string
  jd_Status :: status
  jd_Payload :: string
  jd_Result :: string
  jd_IdempotencyKey :: "string option"
  jd_Attempt :: int
  jd_MaxAttempts :: int
  jd_ScheduleAt :: "time option"
  jd_StartedAt :: "time option"
  jd_CompletedAt :: "time option"
  jd_TerminalAt :: "time option"
  jd_WorkerID :: string
  jd_ErrorMessage :: string
  jd_Metadata :: string
  jd_CreatedAt :: time
  jd_UpdatedAt :: time

definition ToJobDTO :: "job \<Rightarrow> job_dto" where
  "ToJobDTO j = \<lparr>jd_ID = job_ID j, jd_QueueName = job_QueueName j, jd_Status = job_Status j, jd_Payload = job_Payload j,
     jd_Result = job_Result j, jd_IdempotencyKey = job_IdempotencyKey j, jd_Attempt = job_Attempt j,
     jd_MaxAttempts = job_MaxAttempts j, jd_ScheduleAt = job_ScheduleAt j, jd_StartedAt = job_StartedAt j,
     jd_CompletedAt = job_CompletedAt j, jd_TerminalAt = job_TerminalAt j, jd_WorkerID = job_WorkerID j,
     jd_ErrorMessage = job_ErrorMessage j, jd_Metadata = job_Metadata j, jd_CreatedAt = job_CreatedAt j,
     jd_UpdatedAt = job_UpdatedAt j\<rparr>"

definition ToJobsDTO :: "job list \<Rightarrow> job_dto list" where
  "ToJobsDTO jobs = List.map ToJobDTO jobs"

record job_counts_dto =
  jc_Pending :: nat
  jc_Scheduled :: nat
  jc_Running :: nat
  jc_Completed :: nat
  jc_Failed :: nat
  jc_Cancelled :: nat
  jc_DLQ :: nat

definition ToJobCountsDTO :: "(status \<Rightarrow> nat) \<Rightarrow> job_counts_dto" where
  "ToJobCountsDTO counts = \<lparr>jc_Pending = counts StatusPending, jc_Scheduled = counts StatusScheduled,
     jc_Running = counts StatusRunning, jc_Completed = counts StatusCompleted, jc_Failed = counts StatusFailed,
     jc_Cancelled = counts StatusCancelled, jc_DLQ = counts StatusDLQ\<rparr>"

record queue_dto =
  qd_Name :: string
  qd_Status :: string
  qd_ExecutionProfile :: string
  qd_VisibilityTimeout :: string
  qd_MaxAttempts :: int
  qd_Retention :: string
  qd_MaxPayloadBytes :: int
  qd_WebhookURL :: string
  qd_WebhookSecret :: string
  qd_Metadata :: string
  qd_CreatedAt :: time
  qd_UpdatedAt :: time

definition ToQueueDTO :: "queue \<Rightarrow> queue_dto" where
  "ToQueueDTO q = \<lparr>qd_Name = queue_Name q, qd_Status = queue_Status q, qd_ExecutionProfile = queue_ExecutionProfile q,
     qd_VisibilityTimeout = Duration_String (queue_VisibilityTimeout q), qd_MaxAttempts = queue_MaxAttempts q,
     qd_Retention = Duration_String (queue_Retention q), qd_MaxPayloadBytes = queue_MaxPayloadBytes q,
     qd_WebhookURL = queue_WebhookURL q, qd_WebhookSecret = queue_WebhookSecret q, qd_Metadata = queue_Metadata q,
     qd_CreatedAt = queue_CreatedAt q, qd_UpdatedAt = queue_UpdatedAt q\<rparr>"

record queue_summary_dto =
  qs_Queue :: queue_dto
  qs_Counts :: job_counts_dto

definition ToQueueSummaryDTO :: "queue \<Rightarrow> (status \<Rightarrow> nat) \<Rightarrow> queue_summary_dto" where
  "ToQueueSummaryDTO q counts = \<lparr>qs_Queue = ToQueueDTO q, qs_Counts = ToJobCountsDTO counts\<rparr>"

record worker_dto =
  wd_ID :: ulid
  wd_ProjectID :: project_id
  wd_Name :: string
  wd_Queues :: "string list"
  wd_LastSeenAt :: time
  wd_Stale :: bool
  wd_CreatedAt :: time
  wd_UpdatedAt :: time

definition ToWorkerDTO :: "time \<Rightarrow> int \<Rightarrow> worker \<Rightarrow> worker_dto" where
  "ToWorkerDTO now staleAfter w = \<lparr>wd_ID = worker_ID w, wd_ProjectID = worker_ProjectID w, wd_Name = worker_Name w,
     wd_Queues = ParseQueues (worker_Queues w), wd_LastSeenAt = worker_LastSeenAt w,
     wd_Stale = (staleAfter > 0 \<and> now - worker_LastSeenAt w > staleAfter),
     wd_CreatedAt = worker_CreatedAt w, wd_UpdatedAt = worker_UpdatedAt w\<rparr>"

definition ToWorkersDTO :: "time \<Rightarrow> int \<Rightarrow> worker list \<Rightarrow> worker_dto list" where
  "ToWorkersDTO now staleAfter workers = List.map (ToWorkerDTO now staleAfter) workers"

section \<open>Cross-origin headers\<close>

record cors_config =
  cc_Control :: string
  cc_Rest :: string
  cc_WebSocket :: string

record cors_reply =
  co_AllowOrigin :: "string option"
  co_Vary :: bool
  co_AllowHeaders :: string
  co_AllowMethods :: string
  co_AllowCredentials :: bool
  co_Aborted :: bool

definition base_allow_headers :: string where
  "base_allow_headers = ''Content-Type, Content-Length, Accept-Encoding, X-CSRF-Token, Authorization, accept, origin, Cache-Control, X-Requested-With''"

text \<open>A header that is set to the empty text is left out.\<close>

definition CORS :: "string \<Rightarrow> cors_config \<Rightarrow> string \<Rightarrow> string \<Rightarrow> cors_reply" where
  "CORS routeType config origin method =
     (let allowedOrigins = (if routeType = ''control'' then cc_Control config else if routeType = ''rest'' then cc_Rest config
            else if routeType = ''websocket'' then cc_WebSocket config else ''*'');
          credentialsRequired = (routeType = ''control'');
          (allowOrigin, originMatched) =
            (if allowedOrigins = ''*''
             then (if credentialsRequired \<and> origin \<noteq> [] then (Some origin, True) else (Some ''*'', False))
             else if list_ex (\<lambda>a. TrimSpace a = origin) (split_on (CHR '','') allowedOrigins)
             then (if origin = [] then None else Some origin, True) else (None, False));
          headers = base_allow_headers;
          headers = (if routeType = ''control'' then headers @ '', X-Control-Token'' else headers);
          headers = (if routeType = ''websocket''
            then headers @ '', Sec-WebSocket-Key, Sec-WebSocket-Protocol, Sec-WebSocket-Version, Sec-WebSocket-Extensions''
            else headers)
      in \<lparr>co_AllowOrigin = allowOrigin, co_Vary = originMatched, co_AllowHeaders = headers,
          co_AllowMethods = (if routeType = ''websocket'' then ''GET, OPTIONS'' else ''POST, OPTIONS, GET, PUT, DELETE, PATCH''),
          co_AllowCredentials = (credentialsRequired \<and> originMatched), co_Aborted = (method = ''OPTIONS'')\<rparr>)"

section \<open>The control token\<close>

text \<open>\<open>requireControlToken\<close>: whether the request goes on, from its two headers.\<close>

definition requireControlToken :: "string \<Rightarrow> string \<Rightarrow> string \<Rightarrow> bool" where
  "requireControlToken expected auth xToken =
     (if expected = [] then True
      else let token = (if xToken = [] \<and> take 7 auth = ''Bearer '' then drop 7 auth else xToken) in token = expected)"

end
