(* ===== verification/RestHandlers.thy ===== *)
theory RestHandlers
  imports Http AuthTokens QueueSystem
begin

text \<open>
  The REST API of the queues: \<open>internal/api/http/handler/queue\<close> (jobs, pull, queues, workers) and the
  routes of \<open>internal/api/http/routes/rest/v1.go\<close>.  A handler takes what the middleware left in the
  context, the parameters and the bound body (\<^const>\<open>None\<close> when binding fails), and answers a reply beside
  the new state of the queue subsystem.  The JSON parser of the permission service and the parser of Go
  durations are arguments.
\<close>

section \<open>The context of a request\<close>

record gctx =
  gc_projectID :: "project_id option"
  gc_permission :: "string option"

definition set_ctx :: "auth_ctx \<Rightarrow> gctx" where
  "set_ctx c = \<lparr>gc_projectID = Some (cx_ProjectID c), gc_permission = Some (cx_Permission c)\<rparr>"

datatype rest_data = DJob job_dto | DJobs "job_dto list" | DEnqueued ulid status | DQueue queue_dto
  | DWorker worker_dto | DStatus string

type_synonym rest_reply = "(qerr, rest_data) reply"

definition authContext :: "gctx \<Rightarrow> rest_reply + project_id \<times> string" where
  "authContext c =
     (case gc_projectID c of
        None \<Rightarrow> Inl (resp_Unauthorized (Msg ''Invalid API key or token''))
      | Some p \<Rightarrow>
          (case gc_permission c of
             None \<Rightarrow> Inl (resp_Unauthorized (Msg ''Invalid API key or token''))
           | Some perm \<Rightarrow> Inr (p, perm)))"

definition canEnqueue :: "(string \<Rightarrow> json option) \<Rightarrow> string \<Rightarrow> string \<Rightarrow> bool" where
  "canEnqueue parse permData queueName =
     (case CanEnqueue parse permData (''queue:'' @ queueName) of Inl _ \<Rightarrow> False | Inr ok \<Rightarrow> ok)"

definition canDequeue :: "(string \<Rightarrow> json option) \<Rightarrow> string \<Rightarrow> string \<Rightarrow> bool" where
  "canDequeue parse permData queueName =
     (case CanDequeue parse permData (''queue:'' @ queueName) of Inl _ \<Rightarrow> False | Inr ok \<Rightarrow> ok)"

section \<open>Jobs\<close>

record enqueue_body =
  eb_Payload :: string
  eb_IdempotencyKey :: string
  eb_ScheduleAt :: "time option"
  eb_Delay :: string
  eb_Metadata :: string

definition NewEnqueueJobResponse :: "job \<Rightarrow> rest_data" where
  "NewEnqueueJobResponse j = DEnqueued (job_ID j) (job_Status j)"

definition h_Enqueue ::
    "(string \<Rightarrow> json option) \<Rightarrow> (string \<Rightarrow> int option) \<Rightarrow> env \<Rightarrow> gctx \<Rightarrow> string \<Rightarrow> enqueue_body option \<Rightarrow> world \<Rightarrow> rest_reply \<times> world" where
  "h_Enqueue parse goParse env c queueName body w =
     (case authContext c of
        Inl r \<Rightarrow> (r, w)
      | Inr (p, perm) \<Rightarrow>
          if \<not> canEnqueue parse perm queueName then (resp_Forbidden (Msg ''Insufficient permissions''), w)
          else case body of
                 None \<Rightarrow> (resp_BadRequest (Msg ''Invalid request body''), w)
               | Some req \<Rightarrow>
                   (case (let d = TrimSpace (eb_Delay req) in if d \<noteq> [] then goParse d else Some 0) of
                      None \<Rightarrow> (resp_BadRequest (Msg ''Invalid delay duration''), w)
                    | Some delay \<Rightarrow>
                        (case router_Enqueue env
                           \<lparr>er_ProjectID = p, er_QueueName = queueName, er_Payload = eb_Payload req,
                            er_IdempotencyKey = eb_IdempotencyKey req, er_ScheduleAt = eb_ScheduleAt req,
                            er_Delay = delay, er_Metadata = eb_Metadata req\<rparr> w of
                           (Inl (e, _), w) \<Rightarrow> (resp_TooManyRequests (ErrorOf e), w)
                         | (Inr (_, j), w) \<Rightarrow> (resp_Created (NewEnqueueJobResponse j), w))))"

definition h_GetJob :: "(string \<Rightarrow> json option) \<Rightarrow> env \<Rightarrow> gctx \<Rightarrow> string \<Rightarrow> ulid \<Rightarrow> world \<Rightarrow> rest_reply \<times> world" where
  "h_GetJob parse env c queueName jobID w =
     (case authContext c of
        Inl r \<Rightarrow> (r, w)
      | Inr (p, perm) \<Rightarrow>
          if \<not> canEnqueue parse perm queueName then (resp_Forbidden (Msg ''Insufficient permissions''), w)
          else case job_Get env p queueName jobID w of
                 Inl _ \<Rightarrow> (resp_NotFound (Msg ''Job not found''), w)
               | Inr j \<Rightarrow> (resp_OK (DJob (ToJobDTO j)), w))"

text \<open>A status in the query that names no status selects no job.\<close>

definition status_name :: "status \<Rightarrow> string" where
  "status_name s = (case s of StatusPending \<Rightarrow> ''pending'' | StatusScheduled \<Rightarrow> ''scheduled'' | StatusRunning \<Rightarrow> ''running''
     | StatusCompleted \<Rightarrow> ''completed'' | StatusFailed \<Rightarrow> ''failed'' | StatusCancelled \<Rightarrow> ''cancelled'' | StatusDLQ \<Rightarrow> ''dlq'')"

definition list_by_status ::
    "env \<Rightarrow> project_id \<Rightarrow> string \<Rightarrow> string \<Rightarrow> int \<Rightarrow> int \<Rightarrow> world \<Rightarrow> qerr + job list" where
  "list_by_status env p queueName st limit offset w =
     (let flt = (\<lambda>s. \<lparr>lf_ProjectID = p, lf_QueueName = queueName, lf_Status = s, lf_Limit = limit, lf_Offset = offset\<rparr>)
      in if st = [] then job_List env (flt None) w
         else case List.find (\<lambda>s. status_name s = st) all_statuses of
                Some s \<Rightarrow> job_List env (flt (Some s)) w
              | None \<Rightarrow> if e_flt env CFindJob then Inl (CallErr CFindJob) else Inr [])"

definition h_ListJobs :: "(string \<Rightarrow> json option) \<Rightarrow> env \<Rightarrow> gctx \<Rightarrow> string \<Rightarrow> string \<Rightarrow> world \<Rightarrow> rest_reply \<times> world" where
  "h_ListJobs parse env c queueName st w =
     (case authContext c of
        Inl r \<Rightarrow> (r, w)
      | Inr (p, perm) \<Rightarrow>
          if \<not> canEnqueue parse perm queueName then (resp_Forbidden (Msg ''Insufficient permissions''), w)
          else case list_by_status env p queueName st 0 0 w of
                 Inl _ \<Rightarrow> (resp_InternalError (Msg ''Failed to list jobs''), w)
               | Inr js \<Rightarrow> (resp_OK (DJobs (ToJobsDTO js)), w))"

definition h_CancelJob :: "(string \<Rightarrow> json option) \<Rightarrow> env \<Rightarrow> gctx \<Rightarrow> string \<Rightarrow> ulid \<Rightarrow> world \<Rightarrow> rest_reply \<times> world" where
  "h_CancelJob parse env c queueName jobID w =
     (case authContext c of
        Inl r \<Rightarrow> (r, w)
      | Inr (p, perm) \<Rightarrow>
          if \<not> canEnqueue parse perm queueName then (resp_Forbidden (Msg ''Insufficient permissions''), w)
          else case router_Cancel env p queueName jobID w of
                 (Inl e, w) \<Rightarrow> (resp_BadRequest (ErrorOf e), w)
               | (Inr (_, j), w) \<Rightarrow> (resp_OK (DJob (ToJobDTO j)), w))"

definition h_RetryJob :: "(string \<Rightarrow> json option) \<Rightarrow> env \<Rightarrow> gctx \<Rightarrow> string \<Rightarrow> ulid \<Rightarrow> world \<Rightarrow> rest_reply \<times> world" where
  "h_RetryJob parse env c queueName jobID w =
     (case authContext c of
        Inl r \<Rightarrow> (r, w)
      | Inr (p, perm) \<Rightarrow>
          if \<not> canEnqueue parse perm queueName then (resp_Forbidden (Msg ''Insufficient permissions''), w)
          else case job_Retry env p queueName jobID w of
                 (Inl e, w) \<Rightarrow> (resp_BadRequest (ErrorOf e), w)
               | (Inr j, w) \<Rightarrow> (resp_OK (DJob (ToJobDTO j)), w))"

section \<open>Pull\<close>

record pull_body =
  pl_WorkerID :: string
  pl_BatchSize :: int
  pl_Wait :: string

record ack_body =
  ab_WorkerID :: string
  ab_Result :: string

record nack_body =
  nb_WorkerID :: string
  nb_Reason :: string
  nb_RetryDelay :: string

text \<open>A body without the worker does not bind.  \<^const>\<open>None\<close>: the long poll has not returned yet.\<close>

definition pull_wait :: "(string \<Rightarrow> int option) \<Rightarrow> string \<Rightarrow> int" where
  "pull_wait goParse s =
     (if s \<noteq> [] then (case goParse s of Some d \<Rightarrow> d | None \<Rightarrow> 20 * second) else 20 * second)"

definition h_Pull ::
    "(string \<Rightarrow> json option) \<Rightarrow> (string \<Rightarrow> int option) \<Rightarrow> env \<Rightarrow> bool \<Rightarrow> poll_round list \<Rightarrow> gctx \<Rightarrow> string \<Rightarrow> pull_body option \<Rightarrow> world
      \<Rightarrow> (rest_reply \<times> world) option" where
  "h_Pull parse goParse env ctxDone rounds c queueName body w =
     (case authContext c of
        Inl r \<Rightarrow> Some (r, w)
      | Inr (p, perm) \<Rightarrow>
          if \<not> canDequeue parse perm queueName then Some (resp_Forbidden (Msg ''Insufficient permissions''), w)
          else case body of
                 None \<Rightarrow> Some (resp_BadRequest (Msg ''Invalid request body''), w)
               | Some req \<Rightarrow>
                   if pl_WorkerID req = [] then Some (resp_BadRequest (Msg ''Invalid request body''), w)
                   else (case router_Dequeue env ctxDone
                           \<lparr>dr_ProjectID = p, dr_QueueName = queueName, dr_WorkerID = pl_WorkerID req,
                            dr_BatchSize = pl_BatchSize req, dr_Wait = pull_wait goParse (pl_Wait req)\<rparr> rounds w of
                           None \<Rightarrow> None
                         | Some (Inl _, w) \<Rightarrow> Some (resp_InternalError (Msg ''Failed to pull jobs''), w)
                         | Some (Inr js, w) \<Rightarrow> Some (resp_OK (DJobs (ToJobsDTO js)), w)))"

definition writeJobActionError :: "qerr \<Rightarrow> rest_reply" where
  "writeJobActionError e =
     (if e = JobErr ErrNotFound then resp_NotFound (ErrorOf e)
      else if e = JobErr ErrWorkerMismatch then resp_Forbidden (ErrorOf e)
      else if e = JobErr ErrInvalidTransition then resp_Conflict (ErrorOf e)
      else resp_BadRequest (ErrorOf e))"

definition h_Ack :: "(string \<Rightarrow> json option) \<Rightarrow> env \<Rightarrow> gctx \<Rightarrow> string \<Rightarrow> ulid \<Rightarrow> ack_body option \<Rightarrow> world \<Rightarrow> rest_reply \<times> world" where
  "h_Ack parse env c queueName jobID body w =
     (case authContext c of
        Inl r \<Rightarrow> (r, w)
      | Inr (p, perm) \<Rightarrow>
          if \<not> canDequeue parse perm queueName then (resp_Forbidden (Msg ''Insufficient permissions''), w)
          else case body of
                 None \<Rightarrow> (resp_BadRequest (Msg ''Invalid request body''), w)
               | Some req \<Rightarrow>
                   if ab_WorkerID req = [] then (resp_BadRequest (Msg ''Invalid request body''), w)
                   else (case router_Ack env p queueName jobID (ab_WorkerID req) (ab_Result req) w of
                           (Inl e, w) \<Rightarrow> (writeJobActionError e, w)
                         | (Inr _, w) \<Rightarrow> (resp_OK (DStatus ''acknowledged''), w)))"

definition h_Nack ::
    "(string \<Rightarrow> json option) \<Rightarrow> (string \<Rightarrow> int option) \<Rightarrow> env \<Rightarrow> gctx \<Rightarrow> string \<Rightarrow> ulid \<Rightarrow> nack_body option \<Rightarrow> world \<Rightarrow> rest_reply \<times> world" where
  "h_Nack parse goParse env c queueName jobID body w =
     (case authContext c of
        Inl r \<Rightarrow> (r, w)
      | Inr (p, perm) \<Rightarrow>
          if \<not> canDequeue parse perm queueName then (resp_Forbidden (Msg ''Insufficient permissions''), w)
          else case body of
                 None \<Rightarrow> (resp_BadRequest (Msg ''Invalid request body''), w)
               | Some req \<Rightarrow>
                   if nb_WorkerID req = [] then (resp_BadRequest (Msg ''Invalid request body''), w)
                   else let delay = (if nb_RetryDelay req \<noteq> []
                              then (case goParse (nb_RetryDelay req) of Some d \<Rightarrow> d | None \<Rightarrow> 0) else 0)
                        in case router_Nack env p queueName jobID (nb_WorkerID req) (nb_Reason req) delay w of
                             (Inl e, w) \<Rightarrow> (writeJobActionError e, w)
                           | (Inr _, w) \<Rightarrow> (resp_OK (DStatus ''nacked''), w))"

section \<open>Queues\<close>

definition h_GetQueue :: "env \<Rightarrow> gctx \<Rightarrow> string \<Rightarrow> world \<Rightarrow> rest_reply \<times> world" where
  "h_GetQueue env c queueName w =
     (case gc_projectID c of
        None \<Rightarrow> (resp_Unauthorized (Msg ''Invalid API key or token''), w)
      | Some p \<Rightarrow>
          (case queue_Get env p queueName w of
             Inl _ \<Rightarrow> (resp_NotFound (Msg ''Queue not found''), w)
           | Inr q \<Rightarrow> (resp_OK (DQueue (ToQueueDTO q)), w)))"

record upsert_body =
  ub_ExecutionProfile :: string
  ub_VisibilityTimeout :: string
  ub_MaxAttempts :: int
  ub_WebhookURL :: string
  ub_WebhookSecret :: string

definition empty_upsert :: upsert_body where
  "empty_upsert = \<lparr>ub_ExecutionProfile = [], ub_VisibilityTimeout = [], ub_MaxAttempts = 0, ub_WebhookURL = [], ub_WebhookSecret = []\<rparr>"

text \<open>\<open>content\<close>: \<^const>\<open>None\<close> when the request has no body, else the outcome of binding it.\<close>

definition h_UpsertQueue :: "env \<Rightarrow> gctx \<Rightarrow> string \<Rightarrow> upsert_body option option \<Rightarrow> world \<Rightarrow> rest_reply \<times> world" where
  "h_UpsertQueue env c queueName content w =
     (case gc_projectID c of
        None \<Rightarrow> (resp_Unauthorized (Msg ''Invalid API key or token''), w)
      | Some p \<Rightarrow>
          (case (case content of None \<Rightarrow> Some empty_upsert | Some b \<Rightarrow> b) of
             None \<Rightarrow> (resp_BadRequest (Msg ''Invalid request body''), w)
           | Some req \<Rightarrow>
               (case queue_Ensure env
                  \<lparr>qcp_ProjectID = p, qcp_Name = queueName, qcp_ExecutionProfile = [], qcp_VisibilityTimeout = 0,
                   qcp_MaxAttempts = ub_MaxAttempts req, qcp_Retention = 0, qcp_MaxPayloadBytes = 0,
                   qcp_WebhookURL = ub_WebhookURL req, qcp_WebhookSecret = ub_WebhookSecret req, qcp_Metadata = []\<rparr> w of
                  (Inl e, w) \<Rightarrow> (resp_BadRequest (ErrorOf e), w)
                | (Inr q, w) \<Rightarrow> (resp_OK (DQueue (ToQueueDTO q)), w))))"

section \<open>Workers\<close>

record register_body =
  gb_Name :: string
  gb_Queues :: "string list"

definition h_RegisterWorker :: "env \<Rightarrow> int \<Rightarrow> gctx \<Rightarrow> register_body option \<Rightarrow> world \<Rightarrow> rest_reply \<times> world" where
  "h_RegisterWorker env staleAfter c body w =
     (case gc_projectID c of
        None \<Rightarrow> (resp_Unauthorized (Msg ''Invalid API key or token''), w)
      | Some p \<Rightarrow>
          (case body of
             None \<Rightarrow> (resp_BadRequest (Msg ''Invalid request body''), w)
           | Some req \<Rightarrow>
               if gb_Name req = [] then (resp_BadRequest (Msg ''Invalid request body''), w)
               else (case worker_Register env p (gb_Name req) (gb_Queues req) w of
                       (Inl _, w) \<Rightarrow> (resp_InternalError (Msg ''Failed to register worker''), w)
                     | (Inr wk, w) \<Rightarrow> (resp_Created (DWorker (ToWorkerDTO (e_now env) staleAfter wk)), w))))"

definition h_Heartbeat :: "env \<Rightarrow> int \<Rightarrow> gctx \<Rightarrow> string option \<Rightarrow> world \<Rightarrow> rest_reply \<times> world" where
  "h_Heartbeat env staleAfter c body w =
     (case gc_projectID c of
        None \<Rightarrow> (resp_Unauthorized (Msg ''Invalid API key or token''), w)
      | Some p \<Rightarrow>
          (case body of
             None \<Rightarrow> (resp_BadRequest (Msg ''Invalid request body''), w)
           | Some workerID \<Rightarrow>
               if workerID = [] then (resp_BadRequest (Msg ''Invalid request body''), w)
               else (case worker_Heartbeat env p workerID w of
                       (Inl _, w) \<Rightarrow> (resp_NotFound (Msg ''Worker not found''), w)
                     | (Inr wk, w) \<Rightarrow> (resp_OK (DWorker (ToWorkerDTO (e_now env) staleAfter wk)), w))))"

section \<open>The routes\<close>

text \<open>Each queue route of \<open>v1.go\<close>, behind \<open>APIKeyOrTokenAuth\<close>.\<close>

datatype rest_op =
    RUpsertQueue string "upsert_body option option"
  | RGetQueue string
  | REnqueue string "enqueue_body option"
  | RListJobs string string
  | RGetJob string ulid
  | RCancelJob string ulid
  | RRetryJob string ulid
  | RPull string "pull_body option" bool "poll_round list"
  | RAck string ulid "ack_body option"
  | RNack string ulid "nack_body option"
  | RRegister "register_body option"
  | RHeartbeat "string option"

record rest_env =
  re_env :: env
  re_auth :: auth_env
  re_parse :: "string \<Rightarrow> json option"
  re_goParse :: "string \<Rightarrow> int option"
  re_staleAfter :: int

fun rest_handler :: "rest_env \<Rightarrow> gctx \<Rightarrow> rest_op \<Rightarrow> world \<Rightarrow> (rest_reply \<times> world) option" where
  "rest_handler re c (RUpsertQueue q b) w = Some (h_UpsertQueue (re_env re) c q b w)"
| "rest_handler re c (RGetQueue q) w = Some (h_GetQueue (re_env re) c q w)"
| "rest_handler re c (REnqueue q b) w = Some (h_Enqueue (re_parse re) (re_goParse re) (re_env re) c q b w)"
| "rest_handler re c (RListJobs q st) w = Some (h_ListJobs (re_parse re) (re_env re) c q st w)"
| "rest_handler re c (RGetJob q i) w = Some (h_GetJob (re_parse re) (re_env re) c q i w)"
| "rest_handler re c (RCancelJob q i) w = Some (h_CancelJob (re_parse re) (re_env re) c q i w)"
| "rest_handler re c (RRetryJob q i) w = Some (h_RetryJob (re_parse re) (re_env re) c q i w)"
| "rest_handler re c (RPull q b d rs) w = h_Pull (re_parse re) (re_goParse re) (re_env re) d rs c q b w"
| "rest_handler re c (RAck q i b) w = Some (h_Ack (re_parse re) (re_env re) c q i b w)"
| "rest_handler re c (RNack q i b) w = Some (h_Nack (re_parse re) (re_goParse re) (re_env re) c q i b w)"
| "rest_handler re c (RRegister b) w = Some (h_RegisterWorker (re_env re) (re_staleAfter re) c b w)"
| "rest_handler re c (RHeartbeat b) w = Some (h_Heartbeat (re_env re) (re_staleAfter re) c b w)"

text \<open>The middleware answers itself or sets the context and goes on.\<close>

definition rest_serve ::
    "rest_env \<Rightarrow> http_request \<Rightarrow> apikey list \<Rightarrow> revoked_token list \<Rightarrow> rest_op \<Rightarrow> world \<Rightarrow> (rest_reply \<times> world) option" where
  "rest_serve re q keys rows op w =
     (case APIKeyOrTokenAuth (re_auth re) q keys rows of
        BadRequest m \<Rightarrow> Some (resp_BadRequest (Msg m), w)
      | Unauthorized m \<Rightarrow> Some (resp_Unauthorized (Msg m), w)
      | Proceed c \<Rightarrow> rest_handler re (set_ctx c) op w)"

end
