(* ===== verification/RestProps.thy ===== *)
theory RestProps
  imports RestHandlers AuthProps
begin

text \<open>
  The REST API keeps the projects apart: a request changes rows of the project of its key only, and a
  request that changes a job needs a grant for the queue.  The operations of the services are shown to
  stay within one project first.
\<close>

section \<open>Staying within a project\<close>

text \<open>Everything of the other projects is as it was, and so are the tenants, the limits and the keys.\<close>

definition rest_of :: "('r \<Rightarrow> project_id) \<Rightarrow> project_id \<Rightarrow> 'r list \<Rightarrow> 'r list" where
  "rest_of f p rows = List.filter (\<lambda>r. f r \<noteq> p) rows"

definition only_project :: "project_id \<Rightarrow> world \<Rightarrow> world \<Rightarrow> bool" where
  "only_project p w w' \<longleftrightarrow> rest_of job_ProjectID p (w_jobs w') = rest_of job_ProjectID p (w_jobs w)
     \<and> rest_of queue_ProjectID p (w_queues w') = rest_of queue_ProjectID p (w_queues w)
     \<and> rest_of worker_ProjectID p (w_workers w') = rest_of worker_ProjectID p (w_workers w)
     \<and> w_tenants w' = w_tenants w \<and> w_limits w' = w_limits w \<and> w_apikeys w' = w_apikeys w
     \<and> (\<forall>q. q \<noteq> p \<longrightarrow> w_counters w' q = w_counters w q)
     \<and> rest_of fst p (w_log w') = rest_of fst p (w_log w)"

lemma only_project_refl [simp, intro]: "only_project p w w"
  by (simp add: only_project_def)

lemma only_project_trans [trans]: "only_project p w1 w2 \<Longrightarrow> only_project p w2 w3 \<Longrightarrow> only_project p w1 w3"
  by (simp add: only_project_def)

lemma rest_of_append: "f r = p \<Longrightarrow> rest_of f p (rows @ [r]) = rest_of f p rows"
  by (simp add: rest_of_def)

lemma rest_of_update_where:
  assumes "\<And>r. r \<in> set rows \<Longrightarrow> P r \<Longrightarrow> f r = p \<and> f (g r) = p"
  shows "rest_of f p (update_where P g rows) = rest_of f p rows"
  using assms by (induction rows) (auto simp: rest_of_def update_where_def)

lemma rest_of_save_row:
  assumes "\<And>x. x \<in> set rows \<Longrightarrow> key x = key r \<Longrightarrow> f x = p" "f r = p"
  shows "rest_of f p (save_row key r rows) = rest_of f p rows"
  using assms by (auto simp: save_row_def rest_of_append intro: rest_of_update_where)

text \<open>Steps that change one field.\<close>

lemma only_project_fields:
  "rest_of job_ProjectID p rows = rest_of job_ProjectID p (w_jobs w) \<Longrightarrow> only_project p w (w\<lparr>w_jobs := rows\<rparr>)"
  "rest_of queue_ProjectID p qs = rest_of queue_ProjectID p (w_queues w) \<Longrightarrow> only_project p w (w\<lparr>w_queues := qs\<rparr>)"
  "rest_of worker_ProjectID p ws = rest_of worker_ProjectID p (w_workers w) \<Longrightarrow> only_project p w (w\<lparr>w_workers := ws\<rparr>)"
  "only_project p w (w\<lparr>w_streams := st, w_published := ms\<rparr>)" "only_project p w (w\<lparr>w_streams := st\<rparr>)"
  by (simp_all add: only_project_def)

lemma only_project_notes [simp]:
  "only_project p w (Increment p c d w') = only_project p w w'" "only_project p w (publishQueueLog p e i w') = only_project p w w'"
  by (simp_all add: only_project_def Increment_def publishQueueLog_def rest_of_def)

lemma only_project_records [simp]:
  "only_project p w (RecordEnqueue p n w') = only_project p w w'" "only_project p w (RecordCompleted p n w') = only_project p w w'"
  "only_project p w (RecordRetried p w') = only_project p w w'" "only_project p w (RecordDLQ p w') = only_project p w w'"
  by (simp_all add: RecordEnqueue_def RecordCompleted_def RecordRetried_def RecordDLQ_def)

lemma only_project_PublishDLQ [simp]: "only_project p w (snd (PublishDLQ env s d w')) = only_project p w w'"
  by (simp add: PublishDLQ_def only_project_def)

section \<open>Saving a job\<close>

abbreviation unique_ids :: "world \<Rightarrow> bool" where
  "unique_ids w \<equiv> distinct (List.map job_ID (w_jobs w))"

lemma unique_idsI: "world_inv w \<Longrightarrow> unique_ids w"
  using jobs_invD(1) world_invD(1) by blast

lemma save_within:
  assumes "unique_ids w" "old \<in> set (w_jobs w)" "job_ProjectID old = p" "job_ID j = job_ID old" "job_ProjectID j = p"
    and "save_job env c j w = Inr w'"
  shows "only_project p w w' \<and> unique_ids w' \<and> j \<in> set (w_jobs w') \<and> w_queues w' = w_queues w"
proof -
  have w': "w' = w\<lparr>w_jobs := save_row job_ID j (w_jobs w)\<rparr>"
    using assms(6) by (auto simp: save_job_def Update_job_def split: if_splits)
  have i: "job_ID j \<in> job_ID ` set (w_jobs w)" using assms(2,4) by simp
  have "rest_of job_ProjectID p (save_row job_ID j (w_jobs w)) = rest_of job_ProjectID p (w_jobs w)"
    using assms(1-5) by (intro rest_of_save_row) (auto dest: key_unique)
  moreover have "List.map job_ID (save_row job_ID j (w_jobs w)) = List.map job_ID (w_jobs w)"
    unfolding save_row_def using i by (auto simp: update_where_def)
  moreover have "j \<in> set (save_row job_ID j (w_jobs w))"
    unfolding save_row_def using i by (auto simp: set_update_where image_iff)
  ultimately show ?thesis using assms(1) unfolding w' by (simp add: only_project_fields)
qed

lemma publish_within:
  assumes "unique_ids w" "j \<in> set (w_jobs w)" "job_ProjectID j = p"
  shows "only_project p w (snd (snd (publishToBroker env q j w)))"
proof -
  let ?w = "w\<lparr>w_streams := insert (Subject (QueueName q)) (w_streams w), w_published := w_published w @
     [\<lparr>bm_Subject = Subject (QueueName q), bm_JobID = job_ID j, bm_Payload = job_Payload j, bm_Attempt = job_Attempt j\<rparr>]\<rparr>"
  let ?j = "j\<lparr>job_BrokerSequence := e_brokerSeq env\<rparr>"
  have 1: "only_project p w ?w" by (rule only_project_fields)
  have 2: "only_project p ?w w'" if "save_job env (CUpdateSeq (job_ID j)) ?j ?w = Inr w'" for w'
    using save_within [of ?w j p ?j env "CUpdateSeq (job_ID j)" w'] assms that by simp
  show ?thesis
    using 1 only_project_trans [OF 1 2] by (auto simp: publishToBroker_def Let_def split: sum.split)
qed

section \<open>The operations of the services\<close>

lemma find_queue_project: "FindByProjectAndName p n rows = Inr q \<Longrightarrow> queue_ProjectID q = p"
  by (auto simp: FindByProjectAndName_def is_queue_def split: option.splits dest!: find_SomeD)

lemma Ensure_within: "qcp_ProjectID pr = p \<Longrightarrow> only_project p w (snd (queue_Ensure env pr w))"
  by (auto simp: queue_Ensure_def queue_Create_def Let_def Create_queue_def rest_of_append dest: CreateQueue_Inr
      split: sum.split intro!: only_project_fields)

lemma Enqueue_create_within:
  assumes "unique_ids w"
  shows "only_project (er_ProjectID req) w (snd (Enqueue_create env q req w))"
proof -
  let ?p = "er_ProjectID req"
  have "only_project ?p w (w\<lparr>w_jobs := rows\<rparr>) \<and> only_project ?p w (snd (snd (publishToBroker env q j (w\<lparr>w_jobs := rows\<rparr>))))"
    if e: "EnqueueJob i t pr = Inr j" "cp_ProjectID pr = ?p" and c: "Create_job j (w_jobs w) = Inr rows" for i t pr j rows
  proof -
    have j: "job_ProjectID j = ?p" using EnqueueJob_Inr [OF e(1)] e(2) by (simp add: same_queue_def)
    have r: "rows = w_jobs w @ [j]" "job_ID j \<notin> job_ID ` set (w_jobs w)"
      using c by (auto simp: Create_job_def list_ex_iff split: if_splits)
    then have 1: "only_project ?p w (w\<lparr>w_jobs := rows\<rparr>)" using j by (intro only_project_fields) (simp add: rest_of_append)
    have "unique_ids (w\<lparr>w_jobs := rows\<rparr>)" "j \<in> set (w_jobs (w\<lparr>w_jobs := rows\<rparr>))" using r assms by auto
    from only_project_trans [OF 1 publish_within [OF this j]] 1 show ?thesis by blast
  qed
  then show ?thesis by (auto simp: Enqueue_create_def Let_def split: sum.split)
qed

lemma Enqueue_within:
  assumes "world_inv w"
  shows "only_project (er_ProjectID req) w (snd (router_Enqueue env req w))"
proof -
  let ?p = "er_ProjectID req"
  have "only_project ?p w w1 \<and> unique_ids w1" if "queue_Ensure env pr w = (r, w1)" "qcp_ProjectID pr = ?p" for pr r w1
    using that Ensure_within [of pr ?p w env] Ensure_state [OF that(1) assms] unique_idsI [OF assms] by auto
  then show ?thesis
    by (fastforce simp: router_Enqueue_def split: sum.splits prod.splits
        intro: only_project_trans [OF _ Enqueue_create_within])
qed

lemma loaded_within:
  assumes "load_running env p qn i worker w = Inr j"
  shows "j \<in> set (w_jobs w) \<and> job_ProjectID j = p"
  using load_running_Inr [OF assms] by (simp add: same_queue_def)

lemma marks_project [simp]:
  "job_ProjectID (MarkCompleted t r j) = job_ProjectID j" "job_ID (MarkCompleted t r j) = job_ID j"
  "job_ProjectID (MarkRetry t d j) = job_ProjectID j" "job_ID (MarkRetry t d j) = job_ID j"
  "job_ProjectID (MarkDLQ t s j) = job_ProjectID j" "job_ID (MarkDLQ t s j) = job_ID j"
  "job_ProjectID (MarkCancelled t j) = job_ProjectID j" "job_ID (MarkCancelled t j) = job_ID j"
  "job_ProjectID (MarkRetryFromControl t j) = job_ProjectID j" "job_ID (MarkRetryFromControl t j) = job_ID j"
  by (simp_all add: MarkCompleted_def MarkRetry_def MarkDLQ_def MarkCancelled_def MarkRetryFromControl_def
      setTerminalAt_def clearTerminalAt_def)

lemma Ack_within: "unique_ids w \<Longrightarrow> only_project p w (snd (router_Ack env p qn i worker result w))"
  by (auto simp: router_Ack_def Let_def split: sum.splits option.splits dest!: loaded_within
      dest: save_within [where j = "MarkCompleted _ _ _"])

lemma Nack_within:
  assumes "unique_ids w"
  shows "only_project p w (snd (router_Nack env p qn i worker reason delay w))"
proof (cases "load_running env p qn i worker w")
  case (Inr j0)
  have j0: "j0 \<in> set (w_jobs w)" "job_ProjectID j0 = p" using loaded_within [OF Inr] by auto
  let ?n = "\<lambda>j w1. publishQueueLog p EventQueueJobRetried (job_ID j) (publishQueueLog p EventQueueJobNacked (job_ID j) (RecordRetried p w1))"
  have retry: "only_project p w w1 \<and> only_project p w (snd (snd (publishToBroker env q (MarkRetry (e_now env) d j0) (?n j w1))))"
    if "save_job env c (MarkRetry (e_now env) d j0) w = Inr w1" for c d j w1 q
  proof -
    have s: "only_project p w w1" "unique_ids w1" "MarkRetry (e_now env) d j0 \<in> set (w_jobs w1)"
      using save_within [OF assms j0 _ _ that] j0(2) by auto
    have a: "only_project p w (?n j w1)" using s(1) by simp
    have b: "only_project p (?n j w1) (snd (snd (publishToBroker env q (MarkRetry (e_now env) d j0) (?n j w1))))"
      using s(2,3) j0(2) by (intro publish_within) (auto simp: RecordRetried_def)
    show ?thesis using s(1) only_project_trans [OF a b] by blast
  qed
  have dlq: "only_project p w w1" if "save_job env c (MarkDLQ (e_now env) r j0) w = Inr w1" for c r w1
    using save_within [OF assms j0 _ _ that] j0(2) by simp
  show ?thesis
    by (auto simp: router_Nack_def Inr Let_def split: sum.split intro: dlq conjunct1 [OF retry] conjunct2 [OF retry])
qed (simp add: router_Nack_def)

lemma Cancel_within: "unique_ids w \<Longrightarrow> only_project p w (snd (router_Cancel env p qn i w))"
  by (auto simp: router_Cancel_def Let_def same_queue_def split: sum.splits dest!: FindByID_Inr
      dest: save_within [where j = "MarkCancelled _ _"])

lemma Retry_within: "unique_ids w \<Longrightarrow> only_project p w (snd (job_Retry env p qn i w))"
  by (auto simp: job_Retry_def Let_def same_queue_def split: sum.splits dest!: FindByID_Inr
      dest: save_within [where j = "MarkRetryFromControl _ _"])

lemma Heartbeat_within:
  assumes "world_inv w"
  shows "only_project p w (snd (worker_Heartbeat env p i w))"
proof -
  have d: "distinct (List.map worker_ID (w_workers w))" using assms by (auto simp: world_inv_def workers_inv_def table_inv_def)
  have j: "rest_of job_ProjectID p (snd (ExtendLease p i t rows)) = rest_of job_ProjectID p rows" for t rows
    by (auto simp: ExtendLease_def Let_def intro!: rest_of_update_where)
  have "only_project p w (w\<lparr>w_workers := Update_worker (Heartbeat_model t wk) (w_workers w)\<rparr>)"
    if "FindByID_worker p i (w_workers w) = Inr wk" for wk t
  proof -
    have wk: "wk \<in> set (w_workers w)" "worker_ProjectID wk = p"
      using that by (auto simp: FindByID_worker_def split: option.splits dest!: find_SomeD)
    show ?thesis unfolding Update_worker_def using d wk
      by (intro only_project_fields rest_of_save_row) (auto simp: Heartbeat_model_def dest: key_unique)
  qed
  then show ?thesis
    using j by (auto simp: worker_Heartbeat_def Let_def split: sum.split
        intro!: only_project_trans [OF _ only_project_fields(1)])
qed

lemma Register_within: "only_project p w (snd (worker_Register env p n qs w))"
  by (auto simp: worker_Register_def Let_def Create_worker_def Create_worker_model_def rest_of_append
      split: sum.split intro!: only_project_fields)

lemma claim_within:
  assumes "world_inv w"
  shows "only_project (dr_ProjectID req) w (snd (attemptClaim env d req w))"
proof -
  let ?p = "dr_ProjectID req"
  have log: "only_project ?p w0 (log_claimed ?p js w1) = only_project ?p w0 w1" for js w0 w1
    by (induction js arbitrary: w1) simp_all
  have "only_project ?p w (w\<lparr>w_jobs := rows\<rparr>) \<and> world_inv (w\<lparr>w_jobs := rows\<rparr>)"
    if "ClaimPending ?p qn wid n now (w_jobs w) = (claimed, rows)" for qn wid n now claimed rows
  proof -
    note inv = world_invD(1) [OF assms]
    have r: "rows = update_where (\<lambda>j. j \<in> claim_set ?p qn n now (w_jobs w)) (claim_row now wid) (w_jobs w)"
      using that ClaimPending_eq [OF inv] by simp
    have "rest_of job_ProjectID ?p rows = rest_of job_ProjectID ?p (w_jobs w)"
      unfolding r using claim_set_subset [of ?p qn n now "w_jobs w"]
      by (intro rest_of_update_where) (auto simp: claimable_row_def same_queue_def claim_row_def)
    moreover have "world_inv (w\<lparr>w_jobs := rows\<rparr>)"
      using that assms jobs_inv_ClaimPending [OF inv, of ?p qn wid n now] by (auto simp: world_inv_def)
    ultimately show ?thesis by (simp add: only_project_fields)
  qed
  then show ?thesis
    by (fastforce simp: attemptClaim_def Let_def log touchRegisteredWorker_def split: prod.splits
        intro: only_project_trans [OF _ Heartbeat_within])
qed

lemma loop_within:
  assumes "world_inv w" "\<forall>r\<in>set rounds. pr_others r = id" "dequeue_loop deadline req rounds w = Some (res, w')"
  shows "only_project (dr_ProjectID req) w w'"
  using assms
proof (induction rounds arbitrary: w)
  case (Cons r rs)
  have step: "only_project (dr_ProjectID req) w w1 \<and> world_inv w1" if "attemptClaim (pr_env r) d req w = (x, w1)" for d x w1
    using that claim_within [OF Cons.prems(1), of req "pr_env r" d] good_attemptClaim [OF Cons.prems(1), of "pr_env r" d req]
    by (simp add: good_step_def)
  show ?case
    using Cons.prems(2,3) step Cons.IH
    by (fastforce simp: Let_def split: if_splits prod.splits sum.splits intro: only_project_trans)
qed simp

lemma Dequeue_within:
  assumes "world_inv w" "\<forall>r\<in>set rounds. pr_others r = id" "router_Dequeue env d req rounds w = Some (res, w')"
  shows "only_project (dr_ProjectID req) w w'"
  using assms claim_within [OF assms(1), of req env d] loop_within [OF assms(1,2)]
  by (auto simp: router_Dequeue_def split: sum.splits if_splits)

section \<open>The API\<close>

text \<open>No other client runs during a long poll.\<close>

fun alone :: "rest_op \<Rightarrow> bool" where
  "alone (RPull _ _ _ rounds) = (\<forall>r\<in>set rounds. pr_others r = id)"
| "alone _ = True"

lemma set_ctx_simps [simp]:
  "gc_projectID (set_ctx c) = Some (cx_ProjectID c)" "gc_permission (set_ctx c) = Some (cx_Permission c)"
  "authContext (set_ctx c) = Inr (cx_ProjectID c, cx_Permission c)"
  by (simp_all add: set_ctx_def authContext_def)

lemma auth_outcome: "APIKeyOrTokenAuth e q keys rows \<noteq> BadRequest m"
  by (simp add: APIKeyOrTokenAuth_def split: option.splits)

lemmas handler_defs = h_Enqueue_def h_GetJob_def h_ListJobs_def h_CancelJob_def h_RetryJob_def h_Pull_def h_Ack_def h_Nack_def
  h_GetQueue_def h_UpsertQueue_def h_RegisterWorker_def h_Heartbeat_def

text \<open>A handler hands on the state of the service call it makes.\<close>

lemma snd_result:
  "snd (case x of (Inl e, w) \<Rightarrow> (f e, w) | (Inr v, w) \<Rightarrow> (g v, w)) = snd x"
  "snd (case y of (Inl e, w) \<Rightarrow> (f e, w) | (Inr (a, b), w) \<Rightarrow> (k a b, w)) = snd y"
  "snd (case z of (Inl (c, d), w) \<Rightarrow> (h c d, w) | (Inr (a, b), w) \<Rightarrow> (k a b, w)) = snd z"
  by (simp_all split: prod.split sum.split)

lemma handler_within_simple:
  assumes "world_inv w"
  shows "only_project (cx_ProjectID c) w (snd (h_UpsertQueue env (set_ctx c) n ub w))"
    "only_project (cx_ProjectID c) w (snd (h_Enqueue parse goParse env (set_ctx c) n eb w))"
    "only_project (cx_ProjectID c) w (snd (h_CancelJob parse env (set_ctx c) n i w))"
    "only_project (cx_ProjectID c) w (snd (h_RetryJob parse env (set_ctx c) n i w))"
    "only_project (cx_ProjectID c) w (snd (h_Ack parse env (set_ctx c) n i ab w))"
    "only_project (cx_ProjectID c) w (snd (h_Nack parse goParse env (set_ctx c) n i nb w))"
    "only_project (cx_ProjectID c) w (snd (h_RegisterWorker env t (set_ctx c) gb w))"
    "only_project (cx_ProjectID c) w (snd (h_Heartbeat env t (set_ctx c) hb w))"
proof -
  note u = unique_idsI [OF assms]
  have enq: "only_project (cx_ProjectID c) w (snd (router_Enqueue env \<lparr>er_ProjectID = cx_ProjectID c, er_QueueName = a,
      er_Payload = b, er_IdempotencyKey = k, er_ScheduleAt = s, er_Delay = d, er_Metadata = m\<rparr> w))" for a b k s d m
    using Enqueue_within [OF assms, of "\<lparr>er_ProjectID = cx_ProjectID c, er_QueueName = a,
      er_Payload = b, er_IdempotencyKey = k, er_ScheduleAt = s, er_Delay = d, er_Metadata = m\<rparr>"] by simp
  show "only_project (cx_ProjectID c) w (snd (h_UpsertQueue env (set_ctx c) n ub w))"
    by (simp add: h_UpsertQueue_def snd_result Ensure_within split: option.split)
  show "only_project (cx_ProjectID c) w (snd (h_Enqueue parse goParse env (set_ctx c) n eb w))"
    by (simp add: h_Enqueue_def snd_result enq Let_def split: option.split)
  show "only_project (cx_ProjectID c) w (snd (h_CancelJob parse env (set_ctx c) n i w))"
    by (simp add: h_CancelJob_def snd_result Cancel_within [OF u])
  show "only_project (cx_ProjectID c) w (snd (h_RetryJob parse env (set_ctx c) n i w))"
    by (simp add: h_RetryJob_def snd_result Retry_within [OF u])
  show "only_project (cx_ProjectID c) w (snd (h_Ack parse env (set_ctx c) n i ab w))"
    by (simp add: h_Ack_def snd_result Ack_within [OF u] split: option.split)
  show "only_project (cx_ProjectID c) w (snd (h_Nack parse goParse env (set_ctx c) n i nb w))"
    by (simp add: h_Nack_def snd_result Nack_within [OF u] Let_def split: option.split)
  show "only_project (cx_ProjectID c) w (snd (h_RegisterWorker env t (set_ctx c) gb w))"
    by (simp add: h_RegisterWorker_def snd_result Register_within split: option.split)
  show "only_project (cx_ProjectID c) w (snd (h_Heartbeat env t (set_ctx c) hb w))"
    by (simp add: h_Heartbeat_def snd_result Heartbeat_within [OF assms] split: option.split)
qed

lemma read_handlers [simp]:
  "snd (h_GetQueue env c n w) = w" "snd (h_GetJob parse env c n i w) = w" "snd (h_ListJobs parse env c n st w) = w"
  by (simp_all add: h_GetQueue_def h_GetJob_def h_ListJobs_def split: option.split sum.split)

lemma Pull_within:
  assumes "world_inv w" "\<forall>r\<in>set rounds. pr_others r = id"
    and "h_Pull parse goParse env d rounds (set_ctx c) n body w = Some (r, w')"
  shows "only_project (cx_ProjectID c) w w'"
proof -
  have "only_project (cx_ProjectID c) w w1"
    if "router_Dequeue env d \<lparr>dr_ProjectID = cx_ProjectID c, dr_QueueName = n, dr_WorkerID = wid, dr_BatchSize = k, dr_Wait = t\<rparr>
      rounds w = Some (res, w1)" for wid k t res w1
    using Dequeue_within [OF assms(1,2) that] by simp
  then show ?thesis using assms(3)
    by (simp add: h_Pull_def split: if_splits option.splits prod.splits sum.splits)
qed

lemma handler_within:
  assumes "world_inv w" "alone op" "rest_handler re (set_ctx c) op w = Some (r, w')"
  shows "only_project (cx_ProjectID c) w w'"
proof -
  have snd_eq: "w' = snd x" if "x = (r, w')" for x using that by simp
  show ?thesis
  proof (cases op)
    case (RPull n b d rs)
    then show ?thesis using assms Pull_within [OF assms(1)] by auto
  qed (use assms(3) in \<open>auto dest!: snd_eq simp: handler_within_simple [OF assms(1)]\<close>)
qed

text \<open>C28. A request of the queue API changes nothing outside the project of the key or token it carries: the
  jobs, queues, workers, counters and log events of every other project, the tenants, the limits and
  the keys are as before.  A request that does not authenticate is answered with 401 and changes nothing.
  (A long poll is looked at alone; what others do meanwhile is theirs.)\<close>

theorem rest_stays_in_project:
  assumes "world_inv w" "alone op" "rest_serve re q keys rows op w = Some (r, w')"
  shows "case APIKeyOrTokenAuth (re_auth re) q keys rows of
      Proceed c \<Rightarrow> only_project (cx_ProjectID c) w w'
    | _ \<Rightarrow> status_of r = 401 \<and> w' = w"
  using assms handler_within [OF assms(1,2)] auth_outcome
  by (auto simp: rest_serve_def resp_defs split: auth_reply.splits)

definition sample_rest :: rest_env where
  "sample_rest = \<lparr>re_env = sample_env, re_auth = sample_auth,
     re_parse = (\<lambda>s. if s = ''p'' then Some (JObj [(''*'', JArr [JStr ''enqueue''])]) else None),
     re_goParse = (\<lambda>_. None), re_staleAfter = 0\<rparr>"

definition sample_http :: http_request where
  "sample_http = \<lparr>hr_Authorization = [], hr_api_key = ''7:s'', hr_access_token = [], hr_alias = []\<rparr>"

definition sample_cancel :: rest_op where
  "sample_cancel = RCancelJob ''mail'' ''a''"

lemma sample_proceeds:
  "APIKeyOrTokenAuth (re_auth sample_rest) sample_http [sample_key] [] = Proceed (key_ctx sample_key [] ''p'')"
  by code_simp

lemma sample_granted: "canEnqueue (re_parse sample_rest) ''p'' ''mail''"
proof -
  have "TrimSpace ''p'' = ''p''" by (rule TrimSpace_graphic) (simp_all add: graphic_def)
  then show ?thesis
    by (simp add: canEnqueue_def CanEnqueue_def FromJSON_def sample_rest_def Can_def action_defs)
qed

lemma sample_served:
  "\<exists>j w'. rest_serve sample_rest sample_http [sample_key] [] sample_cancel sample_world = Some (resp_OK (DJob j), w')"
proof -
  have c: "\<not> isl (fst (router_Cancel sample_env 1 ''mail'' ''a'' sample_world))" by code_simp
  obtain x w' where x: "router_Cancel sample_env 1 ''mail'' ''a'' sample_world = (Inr x, w')"
    using c by (cases "router_Cancel sample_env 1 ''mail'' ''a'' sample_world"; cases "fst (router_Cancel sample_env 1 ''mail'' ''a'' sample_world)") auto
  have e: "re_env sample_rest = sample_env" "cx_ProjectID (key_ctx sample_key [] ''p'') = 1" "cx_Permission (key_ctx sample_key [] ''p'') = ''p''"
    by (simp_all add: sample_rest_def key_ctx_def sample_key_def)
  show ?thesis
    by (cases x) (auto simp: rest_serve_def sample_proceeds sample_cancel_def h_CancelJob_def e sample_granted x)
qed

theorem rest_stays_in_project_witness:
  "\<exists>j w'. rest_serve sample_rest sample_http [sample_key] [] sample_cancel sample_world = Some (resp_OK (DJob j), w')
     \<and> only_project 1 sample_world w'"
proof -
  obtain j w' where x: "rest_serve sample_rest sample_http [sample_key] [] sample_cancel sample_world = Some (resp_OK (DJob j), w')"
    using sample_served by blast
  have "only_project 1 sample_world w'"
    using rest_stays_in_project [OF sample_world_inv _ x] unfolding sample_proceeds
    by (simp add: sample_cancel_def key_ctx_def sample_key_def)
  then show ?thesis using x by blast
qed

text \<open>The queue and the actions one of which a job route asks for.\<close>

fun needs :: "rest_op \<Rightarrow> (string \<times> action list) option" where
  "needs (REnqueue q _) = Some (q, [ActionEnqueue, ActionPublish])"
| "needs (RListJobs q _) = Some (q, [ActionEnqueue, ActionPublish])"
| "needs (RGetJob q _) = Some (q, [ActionEnqueue, ActionPublish])"
| "needs (RCancelJob q _) = Some (q, [ActionEnqueue, ActionPublish])"
| "needs (RRetryJob q _) = Some (q, [ActionEnqueue, ActionPublish])"
| "needs (RPull q _ _ _) = Some (q, [ActionDequeue, ActionSubscribe])"
| "needs (RAck q _ _) = Some (q, [ActionDequeue, ActionSubscribe])"
| "needs (RNack q _ _) = Some (q, [ActionDequeue, ActionSubscribe])"
| "needs _ = None"

definition granted :: "(string \<Rightarrow> json option) \<Rightarrow> string \<Rightarrow> string \<Rightarrow> action list \<Rightarrow> bool" where
  "granted parse data queue acts \<longleftrightarrow>
     (\<exists>m. FromJSON parse data = Inr m \<and> (\<exists>a\<in>set acts. Can m (''queue:'' @ queue) a))"

lemma canEnqueue_iff: "canEnqueue parse d q \<longleftrightarrow> granted parse d q [ActionEnqueue, ActionPublish]"
  by (auto simp: canEnqueue_def CanEnqueue_def granted_def split: sum.splits if_splits)

lemma canDequeue_iff: "canDequeue parse d q \<longleftrightarrow> granted parse d q [ActionDequeue, ActionSubscribe]"
  by (auto simp: canDequeue_def CanDequeue_def granted_def split: sum.splits if_splits)

text \<open>C29. The job routes serve a request only when the permission it came with reads as a grant for the
  queue: \<open>enqueue\<close> or the older \<open>publish\<close> to add, look at, cancel and retry jobs, \<open>dequeue\<close> or
  \<open>subscribe\<close> to pull, acknowledge and reject.  Without it the answer is 401 or 403, no job is shown and
  nothing changes.\<close>

theorem rest_jobs_need_permission:
  assumes "rest_serve re q keys rows op w = Some (r, w')" "needs op = Some (queue, acts)"
  shows "(\<exists>c. APIKeyOrTokenAuth (re_auth re) q keys rows = Proceed c \<and> granted (re_parse re) (cx_Permission c) queue acts)
    \<or> ((\<exists>m. r = resp_Unauthorized m \<or> r = resp_Forbidden m) \<and> w' = w)"
proof (cases "APIKeyOrTokenAuth (re_auth re) q keys rows")
  case (Proceed c)
  have "granted (re_parse re) (cx_Permission c) queue acts \<or> r = resp_Forbidden (Msg ''Insufficient permissions'') \<and> w' = w"
    using assms Proceed unfolding rest_serve_def
    by (cases op) (auto simp: handler_defs canEnqueue_iff canDequeue_iff split: if_splits)
  then show ?thesis using Proceed by blast
qed (use assms(1) auth_outcome in \<open>auto simp: rest_serve_def\<close>)

theorem rest_jobs_need_permission_witness:
  "granted (re_parse sample_rest) ''p'' ''mail'' [ActionEnqueue, ActionPublish]"
proof -
  obtain j w' where x: "rest_serve sample_rest sample_http [sample_key] [] sample_cancel sample_world = Some (resp_OK (DJob j), w')"
    using sample_served by blast
  show ?thesis
    using rest_jobs_need_permission [OF x, of "''mail''" "[ActionEnqueue, ActionPublish]"]
    by (auto simp: sample_cancel_def sample_proceeds key_ctx_def resp_defs)
qed

text \<open>The queue routes ask for no permission, and a \<open>PUT\<close> of a queue that exists changes nothing, whatever it asks for.\<close>

lemma upsert_never_updates:
  assumes "FindByProjectAndName p n (w_queues w) = Inr q" "IsActive (queue_Status q)" "gc_projectID c = Some p" "\<not> e_flt env CFindQueue"
  shows "h_UpsertQueue env c n (Some (Some b)) w = (resp_OK (DQueue (ToQueueDTO q)), w)"
  using assms by (simp add: h_UpsertQueue_def queue_Ensure_def)

lemma enqueue_failure_is_429:
  assumes "router_Enqueue env \<lparr>er_ProjectID = p, er_QueueName = n, er_Payload = eb_Payload b, er_IdempotencyKey = eb_IdempotencyKey b,
      er_ScheduleAt = eb_ScheduleAt b, er_Delay = 0, er_Metadata = eb_Metadata b\<rparr> w = (Inl (e, rc), w')"
    and "authContext c = Inr (p, perm)" "canEnqueue parse perm n" "TrimSpace (eb_Delay b) = []"
  shows "status_of (fst (h_Enqueue parse goParse env c n (Some b) w)) = 429"
  using assms by (simp add: h_Enqueue_def resp_defs)

end
