(* ===== verification/PublishHandler.thy ===== *)
theory PublishHandler
  imports MsgSession RestHandlers "HOL-Library.Multiset"
begin

text \<open>
  \<open>internal/api/http/handler/messaging/publication/handler.go\<close> with the representation of its answer
  (\<open>internal/application/dto/messaging_publication.go\<close>): publishing messages to one or several channels over REST.
  Every channel has to be permitted before the first message goes out; then the channels are taken one by
  one, each with identifiers and a clock reading of its own (\<open>envs\<close>).
\<close>

section \<open>The answer\<close>

record published_channel =
  pc_Channel :: string
  pc_MessageID :: ulid
  pc_PublishedAt :: time
  pc_PayloadCount :: nat

definition NewPublishMessageResponse :: "publish_result list \<Rightarrow> published_channel list" where
  "NewPublishMessageResponse results =
     List.map (\<lambda>r. \<lparr>pc_Channel = pr_Channel r, pc_MessageID = pr_MessageID r, pc_PublishedAt = pr_PublishedAt r,
       pc_PayloadCount = pr_PayloadCount r\<rparr>) results"

record publish_data =
  pd_Published :: "published_channel list"
  pd_FailedChannels :: "string list"

type_synonym publish_reply = "(unit, publish_data) reply"

section \<open>The handler\<close>

text \<open>The names of a body may be \<open>null\<close>.\<close>

record publish_body =
  yb_Channels :: "string option list"
  yb_Messages :: "payload list"

text \<open>The check of all channels: the first one that is not permitted decides.  A name that is \<open>null\<close> is
  dereferenced, which panics: \<^const>\<open>None\<close>.\<close>

fun check_channels :: "(string \<Rightarrow> json option) \<Rightarrow> string \<Rightarrow> string option list \<Rightarrow> (publish_reply + string list) option" where
  "check_channels parse permData [] = Some (Inr [])"
| "check_channels parse permData (None # chs) = None"
| "check_channels parse permData (Some ch # chs) =
     (case CanPublish parse permData ch of
        Inl _ \<Rightarrow> Some (Inl (resp_BadRequest (Msg ''Invalid permission format'')))
      | Inr canPublish \<Rightarrow>
          if \<not> canPublish then Some (Inl (resp_Forbidden (Msg (''Permission denied to publish to channel: '' @ ch))))
          else (case check_channels parse permData chs of
                  None \<Rightarrow> None | Some (Inl r) \<Rightarrow> Some (Inl r) | Some (Inr names) \<Rightarrow> Some (Inr (ch # names))))"

text \<open>The channels in turn.  \<^const>\<open>Inl\<close>: the rate limit was hit, and the handler returns.\<close>

fun publish_channels ::
    "(nat \<Rightarrow> menv) \<Rightarrow> nat \<Rightarrow> project_id \<Rightarrow> payload list \<Rightarrow> string list \<Rightarrow> publish_result list \<Rightarrow> string list \<Rightarrow> mworld
      \<Rightarrow> (unit + publish_result list \<times> string list) \<times> mworld" where
  "publish_channels envs k p ms [] published failed w = (Inr (published, failed), w)"
| "publish_channels envs k p ms (ch # chs) published failed w =
     (case Create_publication p ch ms of
        None \<Rightarrow> publish_channels envs (Suc k) p ms chs published (failed @ [ch]) w
      | Some m \<Rightarrow>
          (case Publish (envs k) [] m False w of
             (Inl e, w) \<Rightarrow>
               if e = ErrRateLimited then (Inl (), w)
               else publish_channels envs (Suc k) p ms chs published (failed @ [ch]) w
           | (Inr res, w) \<Rightarrow> publish_channels envs (Suc k) p ms chs (published @ [res]) failed w))"

text \<open>The answer, from what the loop made of the channels \<open>names\<close>.\<close>

definition publish_answer :: "string list \<Rightarrow> (unit + publish_result list \<times> string list) \<Rightarrow> publish_reply" where
  "publish_answer names res =
     (case res of
        Inl _ \<Rightarrow> resp_TooManyRequests (Msg ''Rate limit exceeded'')
      | Inr (published, failed) \<Rightarrow>
          if length failed > 0
          then (if length failed = length names then resp_InternalError (Msg ''Failed to publish to all channels'')
                else resp_PartialContent (Msg ''Failed to publish to some channels'')
                  \<lparr>pd_Published = NewPublishMessageResponse published, pd_FailedChannels = failed\<rparr>)
          else resp_Created \<lparr>pd_Published = NewPublishMessageResponse published, pd_FailedChannels = []\<rparr>)"

text \<open>\<open>param\<close> is the channel of the route, empty on the route for several channels.\<close>

definition h_Publish ::
    "(string \<Rightarrow> json option) \<Rightarrow> (nat \<Rightarrow> menv) \<Rightarrow> gctx \<Rightarrow> string \<Rightarrow> publish_body option \<Rightarrow> mworld \<Rightarrow> (publish_reply \<times> mworld) option" where
  "h_Publish parse envs c param body w =
     (case gc_projectID c of
        None \<Rightarrow> Some (resp_Unauthorized (Msg ''Invalid API key or token''), w)
      | Some p \<Rightarrow>
          (case body of
             None \<Rightarrow> Some (resp_BadRequest (Msg ''Invalid request body''), w)
           | Some params \<Rightarrow>
               if length (yb_Messages params) = 0 then Some (resp_BadRequest (Msg ''At least one message is required''), w)
               else let channels = (if param \<noteq> [] then [Some param] else yb_Channels params)
                    in if length channels = 0 then Some (resp_BadRequest (Msg ''Channel name is required''), w)
                       else (case gc_permission c of
                               None \<Rightarrow> Some (resp_Unauthorized (Msg ''Invalid API key or token''), w)
                             | Some permData \<Rightarrow>
                                 (case check_channels parse permData channels of
                                    None \<Rightarrow> None
                                  | Some (Inl r) \<Rightarrow> Some (r, w)
                                  | Some (Inr names) \<Rightarrow>
                                      Some (case publish_channels envs 0 p (yb_Messages params) names [] [] w of
                                         (res, w) \<Rightarrow> (publish_answer names res, w))))))"

section \<open>What goes out\<close>

text \<open>A publish over REST puts one message on the subject of its channel, or fails and puts none.\<close>

lemma inbound_exact:
  assumes "chan_inv (m_channels w)" "PublishInbound env rq w = ((rc, e), w')"
  shows "case e of
      Inl _ \<Rightarrow> m_nats w' = m_nats w
    | Inr res \<Rightarrow> pr_Channel res = rq_Channel rq \<and> (\<exists>x. m_nats w' = m_nats w @ [(Full (NewName (rq_Channel rq) (rq_ProjectID rq)), x)])"
proof (cases "rq_Message rq")
  case (Some m)
  obtain b w1 where 1: "(if rq_SkipTelemetry rq then (True, w) else allow_in env (rq_ProjectID rq) w) = (b, w1)" by fastforce
  have i1: "idle w w1" "m_channels w1 = m_channels w"
    using 1 by (auto simp: allow_in_def idle_def split: if_splits option.splits prod.splits)
  obtain c w2 where 2: "GetOrCreate_ch env (rq_Channel rq) (rq_ProjectID rq) w1 = (c, w2)" by fastforce
  let ?full = "Full (NewName (rq_Channel rq) (rq_ProjectID rq))"
  obtain ch C P where ch: "c = Inr ch" "FullName ch = ?full" "w2 = w1\<lparr>m_channels := C, m_pending := P\<rparr>"
    using GetOrCreate_effect [OF _ 2] assms(1) i1(2) by metis
  have n: "m_nats w2 = m_nats w" "m_nats w1 = m_nats w" using i1(1) ch(3) by (simp_all add: idle_def)
  have rec [simp]: "m_nats (record_w env p d v) = m_nats v" for p d v using idle_record by (simp add: idle_def)
  show ?thesis
  proof (cases "b \<and> can_listen env ?full w2")
    case False
    then show ?thesis using assms(2) Some 1 2 ch n
      by (cases b) (auto simp: PublishInbound_def recordInboundRejected_def Listen_effect)
  next
    case True
    then show ?thesis using assms(2) Some 1 2 ch n
      by (auto simp: PublishInbound_def Listen_effect Let_def PublishToChannel_def Publish_broker_def
          split: prod.splits sum.splits if_splits)
  qed
qed (use assms in \<open>auto simp: PublishInbound_def\<close>)

lemma publish_exact:
  assumes "chan_inv (m_channels w)" "Publish env [] m skip w = (e, w')"
  shows "case e of
      Inl _ \<Rightarrow> m_nats w' = m_nats w
    | Inr res \<Rightarrow> pr_Channel res = pb_ChannelName m \<and> (\<exists>x. m_nats w' = m_nats w @ [(Full (NewName (pb_ChannelName m) (pb_ProjectID m)), x)])"
proof -
  let ?rq = "\<lparr>rq_ConnectionID = [], rq_ProjectID = pb_ProjectID m, rq_Channel = pb_ChannelName m,
                rq_Message = Some m, rq_SkipTelemetry = skip, rq_Source = SourceREST\<rparr>"
  obtain rc e1 w1 where p: "PublishInbound env ?rq w = ((rc, e1), w1)" by (metis prod.collapse)
  show ?thesis using inbound_exact [OF assms(1) p] p assms(2)
    by (auto simp: Publish_def Let_def sendPublishFailure_def sendPublishState_def split: sum.splits)
qed

text \<open>
  What the loop says of the messages that went out, \<open>ns\<close>: cut off by the rate limit, their subjects are those
  of the channels taken so far; otherwise every channel is either answered for, with a message on its subject
  in the order of the answers, or among the failed ones.
\<close>

definition loop_out ::
    "project_id \<Rightarrow> publish_result list \<Rightarrow> string list \<Rightarrow> string list
      \<Rightarrow> (unit + publish_result list \<times> string list) \<Rightarrow> (string \<times> bytes) list \<Rightarrow> bool" where
  "loop_out p published failed chs res ns \<longleftrightarrow>
     (case res of
        Inl _ \<Rightarrow> set (List.map fst ns) \<subseteq> (\<lambda>ch. Full (NewName ch p)) ` set (butlast chs)
      | Inr (pub, fl) \<Rightarrow> \<exists>pub' fl'. pub = published @ pub' \<and> fl = failed @ fl' \<and>
          mset (List.map pr_Channel pub') + mset fl' = mset chs \<and> (fl' = [] \<longrightarrow> List.map pr_Channel pub' = chs) \<and>
          List.map fst ns = List.map (\<lambda>r. Full (NewName (pr_Channel r) p)) pub')"

lemma loop_out_fail:
  assumes "loop_out p published (failed @ [ch]) chs res ns" "res = Inl () \<longrightarrow> chs \<noteq> []"
  shows "loop_out p published failed (ch # chs) res ns"
proof (cases res)
  case (Inr r)
  with assms obtain pub' fl' where "r = (published @ pub', failed @ ch # fl')"
    "mset (List.map pr_Channel pub') + mset fl' = mset chs" "fl' = [] \<longrightarrow> List.map pr_Channel pub' = chs" "List.map fst ns = List.map (\<lambda>r. Full (NewName (pr_Channel r) p)) pub'"
    by (auto simp: loop_out_def)
  then show ?thesis using Inr by (auto simp: loop_out_def intro!: exI [of _ pub'] exI [of _ "ch # fl'"])
qed (use assms in \<open>auto simp: loop_out_def\<close>)

lemma loop_out_success:
  assumes "loop_out p (published @ [r1]) failed chs res ns" "res = Inl () \<longrightarrow> chs \<noteq> []" "pr_Channel r1 = ch"
  shows "loop_out p published failed (ch # chs) res ((Full (NewName ch p), x) # ns)"
proof (cases res)
  case (Inr r)
  with assms obtain pub' fl' where "r = (published @ r1 # pub', failed @ fl')"
    "mset (List.map pr_Channel pub') + mset fl' = mset chs" "fl' = [] \<longrightarrow> List.map pr_Channel pub' = chs" "List.map fst ns = List.map (\<lambda>r. Full (NewName (pr_Channel r) p)) pub'"
    by (auto simp: loop_out_def)
  then show ?thesis using Inr assms(3) by (auto simp: loop_out_def intro!: exI [of _ "r1 # pub'"] exI [of _ fl'])
qed (use assms in \<open>auto simp: loop_out_def\<close>)

text \<open>The rate limit is met at a channel, so the list was not empty.\<close>

lemma loop_limited_nonempty: "publish_channels envs k p ms chs published failed w = (Inl (), w') \<Longrightarrow> chs \<noteq> []"
  by (cases chs) auto

lemma publish_channels_exact:
  assumes "msg_inv w" "publish_channels envs k p ms chs published failed w = (res, w')"
  shows "\<exists>ns. m_nats w' = m_nats w @ ns \<and> loop_out p published failed chs res ns"
  using assms
proof (induction chs arbitrary: k published failed w)
  case Nil
  then show ?case by (auto simp: loop_out_def)
next
  case (Cons ch chs)
  have fail: ?case
    if f: "msg_inv w1" "m_nats w1 = m_nats w" "publish_channels envs (Suc k) p ms chs published (failed @ [ch]) w1 = (res, w')" for w1
    using Cons.IH [OF f(1,3)] loop_out_fail loop_limited_nonempty f(2,3) by metis
  show ?case
  proof (cases "Create_publication p ch ms")
    case None
    then show ?thesis using fail [OF Cons.prems(1) refl] Cons.prems(2) by simp
  next
    case (Some m)
    have m: "pb_ProjectID m = p" "pb_ChannelName m = ch" using Some by (auto simp: Create_publication_def split: if_splits)
    obtain e w1 where 1: "Publish (envs k) [] m False w = (e, w1)" by fastforce
    have inv: "msg_inv w1" using okD [OF ok_Publish [OF 1]] Cons.prems(1) by blast
    note ex = publish_exact [OF msg_invD(4) [OF Cons.prems(1)] 1]
    show ?thesis
    proof (cases e)
      case (Inl err)
      show ?thesis
      proof (cases "err = ErrRateLimited")
        case True
        then show ?thesis using Cons.prems(2) Some 1 Inl ex by (auto intro!: exI [of _ "[]"] simp: loop_out_def)
      next
        case False
        then show ?thesis using fail [OF inv] Cons.prems(2) Some 1 Inl ex by simp
      qed
    next
      case (Inr r1)
      then obtain x where x: "pr_Channel r1 = ch" "m_nats w1 = m_nats w @ [(Full (NewName ch p), x)]" using ex m by auto
      have l: "publish_channels envs (Suc k) p ms chs (published @ [r1]) failed w1 = (res, w')" using Cons.prems(2) Some 1 Inr by simp
      obtain ns where ns: "m_nats w' = m_nats w1 @ ns" "loop_out p (published @ [r1]) failed chs res ns" using Cons.IH [OF inv l] by blast
      have ne: "res = Inl () \<longrightarrow> chs \<noteq> []" using l loop_limited_nonempty by blast
      show ?thesis using ns(1) x(2) loop_out_success [OF ns(2) ne x(1)] by auto
    qed
  qed
qed

text \<open>The channels a request asks for; \<^const>\<open>None\<close> among them is a \<open>null\<close>.\<close>

definition asked :: "string \<Rightarrow> publish_body \<Rightarrow> string option list" where
  "asked param b = (if param \<noteq> [] then [Some param] else yb_Channels b)"

lemma checked_permitted:
  "check_channels parse perm chs = Some (Inr names) \<Longrightarrow>
     chs = List.map Some names \<and> (\<forall>ch\<in>set names. CanPublish parse perm ch = Inr True)"
  by (induction chs arbitrary: names)
     (auto elim!: check_channels.elims split: sum.splits option.splits if_splits simp: resp_defs)

lemma refused_status: "check_channels parse perm chs = Some (Inl r) \<Longrightarrow> status_of r = 400 \<or> status_of r = 403"
  by (induction chs) (auto elim!: check_channels.elims split: sum.splits option.splits if_splits simp: resp_defs)

text \<open>What the answer says of the messages that went out, \<open>ns\<close>.\<close>

definition publish_told :: "project_id \<Rightarrow> string list \<Rightarrow> publish_reply \<Rightarrow> (string \<times> bytes) list \<Rightarrow> bool" where
  "publish_told p names r ns \<longleftrightarrow>
     (case r of
        JSONReply n d \<Rightarrow> n = 201 \<and> pd_FailedChannels d = [] \<and> List.map pc_Channel (pd_Published d) = names \<and>
          List.map fst ns = List.map (\<lambda>ch. Full (NewName ch p)) names
      | ErrorReply n _ _ (Some d) \<Rightarrow> n = 206 \<and> pd_FailedChannels d \<noteq> [] \<and> ns \<noteq> [] \<and>
          mset (List.map pc_Channel (pd_Published d)) + mset (pd_FailedChannels d) = mset names \<and>
          List.map fst ns = List.map (\<lambda>ch. Full (NewName ch p)) (List.map pc_Channel (pd_Published d))
      | ErrorReply n _ _ None \<Rightarrow> n = 500 \<and> ns = [] \<or>
          n = 429 \<and> set (List.map fst ns) \<subseteq> (\<lambda>ch. Full (NewName ch p)) ` set (butlast names)
      | StatusReply _ \<Rightarrow> False)"

lemma loop_told:
  assumes "loop_out p [] [] names (Inr (pub, fl)) ns" "names \<noteq> []"
  shows "publish_told p names (publish_answer names (Inr (pub, fl))) ns"
proof -
  have m: "mset (List.map pr_Channel pub) + mset fl = mset names" "fl = [] \<longrightarrow> List.map pr_Channel pub = names"
    "List.map fst ns = List.map (\<lambda>r. Full (NewName (pr_Channel r) p)) pub"
    using assms(1) by (auto simp: loop_out_def)
  have len: "length pub + length fl = length names" using arg_cong [OF m(1), of size] by simp
  have ch: "List.map pc_Channel (NewPublishMessageResponse pub) = List.map pr_Channel pub"
    by (simp add: NewPublishMessageResponse_def comp_def)
  have ns: "ns = [] \<longleftrightarrow> pub = []" using m(3) by (metis list.map_disc_iff)
  have n: "List.map fst ns = List.map (\<lambda>ch. Full (NewName ch p)) (List.map pr_Channel pub)" using m(3) by (simp add: comp_def)
  consider "fl = []" | "fl \<noteq> []" "length fl = length names" | "fl \<noteq> []" "length fl \<noteq> length names" by blast
  then show ?thesis
  proof cases
    case 1
    then show ?thesis using m(2) n ch by (simp add: publish_told_def publish_answer_def resp_defs)
  next
    case 2
    then show ?thesis using assms(2) len ns by (simp add: publish_told_def publish_answer_def resp_defs)
  next
    case 3
    then have "pub \<noteq> []" using len by auto
    then show ?thesis using 3 m(1) n ch ns
      by (simp add: publish_told_def publish_answer_def resp_defs del: mset_map list.map_comp map_map)
  qed
qed

lemma publish_cases:
  assumes "h_Publish parse envs c param body w = Some (r, w')"
  shows "status_of r \<in> {400, 401, 403} \<and> w' = w
    \<or> (\<exists>p perm b names. gc_projectID c = Some p \<and> gc_permission c = Some perm \<and> body = Some b
        \<and> check_channels parse perm (asked param b) = Some (Inr names) \<and> asked param b \<noteq> []
        \<and> (case publish_channels envs 0 p (yb_Messages b) names [] [] w of (res, w) \<Rightarrow> (publish_answer names res, w)) = (r, w'))"
  using assms refused_status
  by (simp add: h_Publish_def asked_def [symmetric] Let_def resp_defs split: option.splits if_splits sum.splits) auto

text \<open>C30. The answer of a REST publish is exact.  Refused with 400, 401 or 403, the request changed nothing.
  Otherwise every channel it names is permitted to the key or token; 201 means that one message per channel went out, in order, on
  the subject of the channel in the project of the request, 206 that this holds of the published channels and
  that these and the failed ones are the channels named, 500 that nothing went out, and after a 429 messages
  went out on channels before the one that hit the limit only.\<close>

theorem rest_publish_exact:
  assumes "msg_inv w" "h_Publish parse envs c param body w = Some (r, w')"
  shows "status_of r \<in> {400, 401, 403} \<and> w' = w
    \<or> (\<exists>p perm b names ns. gc_projectID c = Some p \<and> gc_permission c = Some perm \<and> body = Some b
        \<and> asked param b = List.map Some names \<and> (\<forall>ch\<in>set names. CanPublish parse perm ch = Inr True)
        \<and> m_nats w' = m_nats w @ ns \<and> publish_told p names r ns)"
proof (cases "status_of r \<in> {400, 401, 403} \<and> w' = w")
  case False
  obtain p perm b names where h: "gc_projectID c = Some p" "gc_permission c = Some perm" "body = Some b"
      "check_channels parse perm (asked param b) = Some (Inr names)" "asked param b \<noteq> []"
    and served: "(case publish_channels envs 0 p (yb_Messages b) names [] [] w of (res, w) \<Rightarrow> (publish_answer names res, w)) = (r, w')"
    using publish_cases [OF assms(2)] False by blast
  note perm = checked_permitted [OF h(4)]
  then have ne: "names \<noteq> []" using h(5) by auto
  obtain res w1 where l: "publish_channels envs 0 p (yb_Messages b) names [] [] w = (res, w1)" by fastforce
  obtain ns where ns: "m_nats w1 = m_nats w @ ns" "loop_out p [] [] names res ns" using publish_channels_exact [OF assms(1) l] by blast
  have eq: "w' = w1" "r = publish_answer names res" using assms(2) h l served by auto
  have "publish_told p names r ns"
  proof (cases res)
    case (Inl u)
    then show ?thesis using eq ns(2) by (simp add: publish_told_def publish_answer_def resp_defs loop_out_def)
  next
    case (Inr x)
    then show ?thesis using eq loop_told [OF _ ne] ns(2) by (cases x) simp
  qed
  then show ?thesis using h perm ns(1) eq by blast
qed blast

definition sample_publish :: publish_body where
  "sample_publish = \<lparr>yb_Channels = [], yb_Messages = [\<lparr>pl_Alias = None, pl_Event = None, pl_Data = Some (JStr ''x'')\<rparr>]\<rparr>"

definition publish_perm :: "string \<Rightarrow> json option" where
  "publish_perm s = (if s = ''p'' then Some (JObj [(''c'', JArr [JStr ''publish''])]) else None)"

definition publish_ctx :: gctx where
  "publish_ctx = \<lparr>gc_projectID = Some 1, gc_permission = Some ''p''\<rparr>"

lemma publish_granted: "CanPublish publish_perm ''p'' ''c'' = Inr True"
proof -
  have "TrimSpace ''p'' = ''p''" by (rule TrimSpace_graphic) (simp_all add: graphic_def)
  then show ?thesis by (simp add: CanPublish_def FromJSON_def publish_perm_def Can_def action_defs)
qed

theorem rest_publish_exact_witness:
  "\<exists>r w' ns. h_Publish publish_perm (\<lambda>_. sample_menv) publish_ctx ''c'' (Some sample_publish) sample_mworld = Some (r, w')
     \<and> m_nats w' = m_nats sample_mworld @ ns \<and> publish_told 1 [''c''] r ns"
proof -
  let ?h = "h_Publish publish_perm (\<lambda>_. sample_menv) publish_ctx ''c'' (Some sample_publish) sample_mworld"
  obtain res w' where l: "publish_channels (\<lambda>_. sample_menv) 0 1 (yb_Messages sample_publish) [''c''] [] [] sample_mworld = (res, w')"
    by fastforce
  let ?r = "publish_answer [''c''] res"
  have x: "?h = Some (?r, w')" using l by (simp add: h_Publish_def publish_ctx_def publish_granted sample_publish_def del: publish_channels.simps)
  have "status_of ?r \<notin> {400, 401, 403}" by (simp add: publish_answer_def resp_defs split: sum.split prod.split)
  then show ?thesis
    using rest_publish_exact [OF sample_msg_inv x] x by (auto simp: asked_def publish_ctx_def)
qed

end
