(* ===== verification/ControlHandler.thy ===== *)
theory ControlHandler
  imports RestHandlers TenantService Cleanup
begin

text \<open>
  \<open>internal/api/http/handler/control/handler.go\<close> behind the routes of \<open>internal/api/http/routes/control/v1.go\<close>:
  provisioning tenants, limits and API keys, and the administration of queues and jobs.  The state is that
  of the tenant service, the queue subsystem, the table of keys, and the deletions that go on in the
  background after the answer.  A path or query parameter is its text, a body \<^const>\<open>None\<close> when it does not bind.
\<close>

section \<open>State and answers\<close>

datatype cascade = QueueCascade project_id string | TenantCascade project_id

record ctl =
  ct_svc :: tenant_svc
  ct_world :: world
  ct_keys :: "apikey list"
  ct_running :: "cascade list"

record ctl_env =
  ce_env :: env
  ce_auth :: auth_env
  ce_cfg :: cleanup_config
  ce_ctxDone :: bool
  ce_staleDisplay :: int

datatype ctl_error = BindError | TenantError tenant_error | QueueError qerr | KeyError key_error

record key_data =
  kd_id :: int
  kd_public_id :: string
  kd_project_id :: project_id
  kd_name :: string
  kd_secret_key :: string
  kd_permission :: string
  kd_status :: string
  kd_expires_at :: "time option"
  kd_created_at :: time

definition key_answer :: "apikey \<Rightarrow> key_data" where
  "key_answer k = \<lparr>kd_id = ak_ID k, kd_public_id = ak_PublicID k, kd_project_id = ak_ProjectID k, kd_name = ak_Name k,
     kd_secret_key = ak_SecretKey k, kd_permission = EnsurePermission (Some (ak_Permission k)), kd_status = ak_Status k,
     kd_expires_at = ak_ExpiresAt k, kd_created_at = ak_CreatedAt k\<rparr>"

datatype ctl_data =
    KTenantCreated project_id time
  | KTenant project_id string time
  | KTenantDeleting project_id
  | KQueueDeleting string
  | KConflict ctl_error
  | KLimits limits
  | KKey key_data
  | KKeys "key_data list"
  | KQueues "queue_summary_dto list" pagination_dto
  | KWorkers "worker_dto list" pagination_dto
  | KQueue queue_summary_dto
  | KJobs "job_dto list"
  | KCounts job_counts_dto
  | KJob job_dto
  | KUnauthorized
  | KMetrics

type_synonym ctl_reply = "(ctl_error, ctl_data) reply"

text \<open>\<open>parseTenantID\<close>, and the answer of every route of a tenant when it fails.\<close>

definition parseTenantID :: "string \<Rightarrow> project_id option" where
  "parseTenantID param = atoi param"

definition bad_tenant :: ctl_reply where
  "bad_tenant = resp_BadRequest (Msg ''invalid tenant id'')"

section \<open>Tenants and limits\<close>

definition k_CreateTenant :: "ctl_env \<Rightarrow> project_id option \<Rightarrow> ctl \<Rightarrow> ctl_reply \<times> ctl" where
  "k_CreateTenant ce body s =
     (case body of
        None \<Rightarrow> (resp_BadRequest (ErrorOf BindError), s)
      | Some i \<Rightarrow>
          if i = 0 then (resp_BadRequest (ErrorOf BindError), s)
          else (case Ensure_tenant (ce_env ce) i (ct_svc s) (ct_world s) of
                  (Inl e, t, w) \<Rightarrow> (resp_InternalError (ErrorOf (TenantError e)), s\<lparr>ct_svc := t, ct_world := w\<rparr>)
                | (Inr tn, t, w) \<Rightarrow>
                    (send 201 (KTenantCreated (tenant_ID tn) (tenant_CreatedAt tn)), s\<lparr>ct_svc := t, ct_world := w\<rparr>)))"

definition k_DeleteTenant :: "ctl_env \<Rightarrow> string \<Rightarrow> ctl \<Rightarrow> ctl_reply \<times> ctl" where
  "k_DeleteTenant ce param s =
     (case parseTenantID param of
        None \<Rightarrow> (bad_tenant, s)
      | Some tid \<Rightarrow>
          (case Get_tenant (ce_env ce) tid (ct_svc s) (ct_world s) of
             (Inl _, t, w) \<Rightarrow> (resp_NotFound (Msg ''tenant not found''), s\<lparr>ct_svc := t, ct_world := w\<rparr>)
           | (Inr _, t, w) \<Rightarrow>
               (case RequestDeleteTenant (ce_env ce) tid w of
                  (Inl e, _, w) \<Rightarrow> (resp_InternalError (ErrorOf (QueueError e)), s\<lparr>ct_svc := t, ct_world := w\<rparr>)
                | (Inr _, go, w) \<Rightarrow>
                    (send 202 (KTenantDeleting tid),
                     s\<lparr>ct_svc := t, ct_world := w, ct_running := ct_running s @ (if go then [TenantCascade tid] else [])\<rparr>))))"

definition k_GetTenant :: "ctl_env \<Rightarrow> string \<Rightarrow> ctl \<Rightarrow> ctl_reply \<times> ctl" where
  "k_GetTenant ce param s =
     (case parseTenantID param of
        None \<Rightarrow> (bad_tenant, s)
      | Some tid \<Rightarrow>
          (case Get_tenant (ce_env ce) tid (ct_svc s) (ct_world s) of
             (Inl _, t, w) \<Rightarrow> (resp_NotFound (Msg ''tenant not found''), s\<lparr>ct_svc := t, ct_world := w\<rparr>)
           | (Inr tn, t, w) \<Rightarrow>
               (send 200 (KTenant (tenant_ID tn) (tenant_Status tn) (tenant_CreatedAt tn)), s\<lparr>ct_svc := t, ct_world := w\<rparr>)))"

definition k_SetLimits :: "ctl_env \<Rightarrow> string \<Rightarrow> (int \<times> int) option \<Rightarrow> ctl \<Rightarrow> ctl_reply \<times> ctl" where
  "k_SetLimits ce param body s =
     (case parseTenantID param of
        None \<Rightarrow> (bad_tenant, s)
      | Some tid \<Rightarrow>
          (case body of
             None \<Rightarrow> (resp_BadRequest (ErrorOf BindError), s)
           | Some (inbound, outbound) \<Rightarrow>
               (case SetLimits (ce_env ce) tid inbound outbound (ct_svc s) (ct_world s) of
                  (Inl e, t, w) \<Rightarrow> (resp_InternalError (ErrorOf (TenantError e)), s\<lparr>ct_svc := t, ct_world := w\<rparr>)
                | (Inr l, t, w) \<Rightarrow> (send 200 (KLimits l), s\<lparr>ct_svc := t, ct_world := w\<rparr>))))"

definition k_GetLimits :: "ctl_env \<Rightarrow> string \<Rightarrow> ctl \<Rightarrow> ctl_reply \<times> ctl" where
  "k_GetLimits ce param s =
     (case parseTenantID param of
        None \<Rightarrow> (bad_tenant, s)
      | Some tid \<Rightarrow>
          (case GetLimits (ce_env ce) tid (ct_svc s) (ct_world s) of
             (Inl e, t, w) \<Rightarrow> (resp_InternalError (ErrorOf (TenantError e)), s\<lparr>ct_svc := t, ct_world := w\<rparr>)
           | (Inr l, t, w) \<Rightarrow> (send 200 (KLimits l), s\<lparr>ct_svc := t, ct_world := w\<rparr>)))"

section \<open>API keys\<close>

record key_body =
  kb_Name :: string
  kb_Permission :: "string option"
  kb_Status :: string
  kb_ExpiresAt :: "time option"

definition k_CreateAPIKey :: "ctl_env \<Rightarrow> string \<Rightarrow> key_body option \<Rightarrow> ctl \<Rightarrow> ctl_reply \<times> ctl" where
  "k_CreateAPIKey ce param body s =
     (case parseTenantID param of
        None \<Rightarrow> (bad_tenant, s)
      | Some tid \<Rightarrow>
          (case Ensure_tenant (ce_env ce) tid (ct_svc s) (ct_world s) of
             (Inl e, t, w) \<Rightarrow> (resp_InternalError (ErrorOf (TenantError e)), s\<lparr>ct_svc := t, ct_world := w\<rparr>)
           | (Inr _, t, w) \<Rightarrow>
               let s = s\<lparr>ct_svc := t, ct_world := w\<rparr>
               in (case body of
                     None \<Rightarrow> (resp_BadRequest (ErrorOf BindError), s)
                   | Some req \<Rightarrow>
                       if kb_Name req = [] then (resp_BadRequest (ErrorOf BindError), s)
                       else let status = (if kb_Status req = KeyInactive then KeyInactive else KeyActive)
                            in (case svc_Create_key (ce_auth ce)
                                  \<lparr>ck_ProjectID = tid, ck_Name = kb_Name req, ck_Permission = kb_Permission req, ck_Metadata = None,
                                   ck_Status = status, ck_ExpiresAt = kb_ExpiresAt req\<rparr> (ct_keys s) of
                                  (Inl e, ks) \<Rightarrow> (resp_InternalError (ErrorOf (KeyError e)), s\<lparr>ct_keys := ks\<rparr>)
                                | (Inr k, ks) \<Rightarrow> (send 201 (KKey (key_answer k)), s\<lparr>ct_keys := ks\<rparr>)))))"

definition k_ListAPIKeys :: "ctl_env \<Rightarrow> string \<Rightarrow> ctl \<Rightarrow> ctl_reply \<times> ctl" where
  "k_ListAPIKeys ce param s =
     (case parseTenantID param of
        None \<Rightarrow> (bad_tenant, s)
      | Some tid \<Rightarrow>
          (case svc_ListByProjectID_key (ce_auth ce) tid (ct_keys s) of
             Inl e \<Rightarrow> (resp_InternalError (ErrorOf (KeyError e)), s)
           | Inr ks \<Rightarrow> (send 200 (KKeys (List.map key_answer ks)), s)))"

text \<open>The routes of one key find it first, and it has to be the tenant's.\<close>

definition tenant_key :: "ctl_env \<Rightarrow> string \<Rightarrow> string \<Rightarrow> ctl \<Rightarrow> ctl_reply + apikey" where
  "tenant_key ce param keyParam s =
     (case parseTenantID param of
        None \<Rightarrow> Inl bad_tenant
      | Some tid \<Rightarrow>
          (case atoi keyParam of
             None \<Rightarrow> Inl (resp_BadRequest (Msg ''invalid key id''))
           | Some i \<Rightarrow>
               (case svc_Get_key (ce_auth ce) i (ct_keys s) of
                  Inl _ \<Rightarrow> Inl (resp_NotFound (Msg ''api key not found''))
                | Inr k \<Rightarrow> if ak_ProjectID k \<noteq> tid then Inl (resp_NotFound (Msg ''api key not found'')) else Inr k)))"

definition k_UpdateAPIKey :: "ctl_env \<Rightarrow> string \<Rightarrow> string \<Rightarrow> key_body option \<Rightarrow> ctl \<Rightarrow> ctl_reply \<times> ctl" where
  "k_UpdateAPIKey ce param keyParam body s =
     (case tenant_key ce param keyParam s of
        Inl r \<Rightarrow> (r, s)
      | Inr existing \<Rightarrow>
          (case body of
             None \<Rightarrow> (resp_BadRequest (ErrorOf BindError), s)
           | Some req \<Rightarrow>
               if kb_Name req = [] then (resp_BadRequest (ErrorOf BindError), s)
               else if kb_Status req \<noteq> [] \<and> kb_Status req \<noteq> KeyActive \<and> kb_Status req \<noteq> KeyInactive
               then (resp_BadRequest (Msg ''invalid status''), s)
               else let status = (if kb_Status req = [] then ak_Status existing else kb_Status req);
                        permission = (case kb_Permission req of
                            Some p \<Rightarrow> if length p = 0 \<or> p = ''null'' then ak_Permission existing else p
                          | None \<Rightarrow> ak_Permission existing)
                    in (case svc_Update_key (ce_auth ce) (ak_ID existing)
                          \<lparr>uk_Name = kb_Name req, uk_Permission = Some permission, uk_Metadata = None, uk_Status = status,
                           uk_LastUsedAt = None, uk_ExpiresAt = kb_ExpiresAt req\<rparr> (ct_keys s) of
                          (Inl e, ks) \<Rightarrow> (resp_BadRequest (ErrorOf (KeyError e)), s\<lparr>ct_keys := ks\<rparr>)
                        | (Inr k, ks) \<Rightarrow> (send 200 (KKey (key_answer k)), s\<lparr>ct_keys := ks\<rparr>))))"

definition k_DeleteAPIKey :: "ctl_env \<Rightarrow> string \<Rightarrow> string \<Rightarrow> ctl \<Rightarrow> ctl_reply \<times> ctl" where
  "k_DeleteAPIKey ce param keyParam s =
     (case tenant_key ce param keyParam s of
        Inl r \<Rightarrow> (r, s)
      | Inr k \<Rightarrow>
          (case svc_Delete_key (ce_auth ce) (ak_ID k) (ct_keys s) of
             (Inl e, ks) \<Rightarrow> (resp_InternalError (ErrorOf (KeyError e)), s\<lparr>ct_keys := ks\<rparr>)
           | (Inr _, ks) \<Rightarrow> (resp_NoContent, s\<lparr>ct_keys := ks\<rparr>)))"

section \<open>Queues and workers\<close>

definition k_DeleteQueue :: "ctl_env \<Rightarrow> string \<Rightarrow> string \<Rightarrow> string \<Rightarrow> ctl \<Rightarrow> ctl_reply \<times> ctl" where
  "k_DeleteQueue ce param queueName forceParam s =
     (case parseTenantID param of
        None \<Rightarrow> (bad_tenant, s)
      | Some tid \<Rightarrow>
          (case RequestDeleteQueue (ce_cfg ce) (ce_env ce) (ce_ctxDone ce) tid queueName (forceParam = ''true'') (ct_world s) of
             (Inl e, _, w) \<Rightarrow>
               let s = s\<lparr>ct_world := w\<rparr>
               in if e = QueueErr ErrQueueNotFound then (resp_NotFound (Msg ''queue not found''), s)
                  else if e = QueueErr ErrActiveJobs
                  then (resp_BadRequest (Msg ''queue has active jobs; use force=true to delete''), s)
                  else if e = GuardErr ErrTenantDeleting \<or> e = GuardErr ErrQueueDeleting
                  then (send 409 (KConflict (QueueError e)), s)
                  else (resp_InternalError (ErrorOf (QueueError e)), s)
           | (Inr completed, go, w) \<Rightarrow>
               let s = s\<lparr>ct_world := w, ct_running := ct_running s @ (if go then [QueueCascade tid queueName] else [])\<rparr>
               in if completed then (resp_NoContent, s) else (send 202 (KQueueDeleting queueName), s)))"

fun queue_summaries :: "env \<Rightarrow> project_id \<Rightarrow> world \<Rightarrow> queue list \<Rightarrow> qerr + queue_summary_dto list" where
  "queue_summaries env tid w [] = Inr []"
| "queue_summaries env tid w (q # qs) =
     (case job_CountByStatus env tid (queue_Name q) w of
        Inl e \<Rightarrow> Inl e
      | Inr counts \<Rightarrow>
          (case queue_summaries env tid w qs of
             Inl e \<Rightarrow> Inl e
           | Inr out \<Rightarrow> Inr (ToQueueSummaryDTO q counts # out)))"

definition k_ListQueues :: "ctl_env \<Rightarrow> string \<Rightarrow> string \<Rightarrow> string \<Rightarrow> ctl \<Rightarrow> ctl_reply" where
  "k_ListQueues ce param pageStr perPageStr s =
     (case parseTenantID param of
        None \<Rightarrow> bad_tenant
      | Some tid \<Rightarrow>
          let params = ParseParams pageStr perPageStr
          in (case queue_ListPaginated (ce_env ce) tid (pp_Page params) (pp_PerPage params) (ct_world s) of
                Inl e \<Rightarrow> resp_InternalError (ErrorOf (QueueError e))
              | Inr (queues, count) \<Rightarrow>
                  (case queue_summaries (ce_env ce) tid (ct_world s) queues of
                     Inl e \<Rightarrow> resp_InternalError (ErrorOf (QueueError e))
                   | Inr out \<Rightarrow> resp_OK (KQueues out (ToPaginationDTO (int count) (pp_PerPage params) (pp_Page params))))))"

definition k_ListWorkers :: "ctl_env \<Rightarrow> string \<Rightarrow> string \<Rightarrow> string \<Rightarrow> ctl \<Rightarrow> ctl_reply" where
  "k_ListWorkers ce param pageStr perPageStr s =
     (case parseTenantID param of
        None \<Rightarrow> bad_tenant
      | Some tid \<Rightarrow>
          let params = ParseParams pageStr perPageStr
          in (case worker_ListByProjectPaginated (ce_env ce) tid (pp_Page params) (pp_PerPage params) (ct_world s) of
                Inl e \<Rightarrow> resp_InternalError (ErrorOf (QueueError e))
              | Inr (workers, count) \<Rightarrow>
                  resp_OK (KWorkers (ToWorkersDTO (e_now (ce_env ce)) (ce_staleDisplay ce) workers)
                    (ToPaginationDTO (int count) (pp_PerPage params) (pp_Page params)))))"

definition k_GetQueue :: "ctl_env \<Rightarrow> string \<Rightarrow> string \<Rightarrow> ctl \<Rightarrow> ctl_reply" where
  "k_GetQueue ce param queueName s =
     (case parseTenantID param of
        None \<Rightarrow> bad_tenant
      | Some tid \<Rightarrow>
          (case queue_Get (ce_env ce) tid queueName (ct_world s) of
             Inl e \<Rightarrow> if e = QueueErr ErrQueueNotFound then resp_NotFound (Msg ''queue not found'')
                      else resp_InternalError (ErrorOf (QueueError e))
           | Inr q \<Rightarrow>
               (case job_CountByStatus (ce_env ce) tid queueName (ct_world s) of
                  Inl e \<Rightarrow> resp_InternalError (ErrorOf (QueueError e))
                | Inr counts \<Rightarrow> resp_OK (KQueue (ToQueueSummaryDTO q counts)))))"

section \<open>Jobs\<close>

text \<open>An absent or empty query parameter leaves 0; \<^const>\<open>None\<close>: it is refused.\<close>

definition limit_param :: "string \<Rightarrow> int option" where
  "limit_param v = (if v = [] then Some 0 else case atoi v of None \<Rightarrow> None
     | Some n \<Rightarrow> if n < 0 then None else Some (if n > 100 then 100 else n))"

definition offset_param :: "string \<Rightarrow> int option" where
  "offset_param v = (if v = [] then Some 0 else case atoi v of None \<Rightarrow> None
     | Some n \<Rightarrow> if n < 0 then None else Some n)"

definition k_ListJobs :: "ctl_env \<Rightarrow> string \<Rightarrow> string \<Rightarrow> string \<Rightarrow> string \<Rightarrow> string \<Rightarrow> ctl \<Rightarrow> ctl_reply" where
  "k_ListJobs ce param queueName st limitStr offsetStr s =
     (case parseTenantID param of
        None \<Rightarrow> bad_tenant
      | Some tid \<Rightarrow>
          (case limit_param limitStr of
             None \<Rightarrow> resp_BadRequest (Msg ''invalid limit'')
           | Some limit \<Rightarrow>
               (case offset_param offsetStr of
                  None \<Rightarrow> resp_BadRequest (Msg ''invalid offset'')
                | Some offset \<Rightarrow>
                    (case list_by_status (ce_env ce) tid queueName st limit offset (ct_world s) of
                       Inl _ \<Rightarrow> resp_InternalError (Msg ''Failed to list jobs'')
                     | Inr js \<Rightarrow> resp_OK (KJobs (ToJobsDTO js))))))"

definition k_GetJobCounts :: "ctl_env \<Rightarrow> string \<Rightarrow> string \<Rightarrow> ctl \<Rightarrow> ctl_reply" where
  "k_GetJobCounts ce param queueName s =
     (case parseTenantID param of
        None \<Rightarrow> bad_tenant
      | Some tid \<Rightarrow>
          (case job_CountByStatus (ce_env ce) tid queueName (ct_world s) of
             Inl e \<Rightarrow> resp_InternalError (ErrorOf (QueueError e))
           | Inr counts \<Rightarrow> resp_OK (KCounts (ToJobCountsDTO counts))))"

definition k_GetJob :: "ctl_env \<Rightarrow> string \<Rightarrow> string \<Rightarrow> ulid \<Rightarrow> ctl \<Rightarrow> ctl_reply" where
  "k_GetJob ce param queueName jobID s =
     (case parseTenantID param of
        None \<Rightarrow> bad_tenant
      | Some tid \<Rightarrow>
          (case job_Get (ce_env ce) tid queueName jobID (ct_world s) of
             Inl e \<Rightarrow> if e = JobErr ErrNotFound then resp_NotFound (Msg ''Job not found'')
                      else resp_InternalError (ErrorOf (QueueError e))
           | Inr j \<Rightarrow> resp_OK (KJob (ToJobDTO j))))"

definition k_CancelJob :: "ctl_env \<Rightarrow> string \<Rightarrow> string \<Rightarrow> ulid \<Rightarrow> ctl \<Rightarrow> ctl_reply \<times> ctl" where
  "k_CancelJob ce param queueName jobID s =
     (case parseTenantID param of
        None \<Rightarrow> (bad_tenant, s)
      | Some tid \<Rightarrow>
          (case router_Cancel (ce_env ce) tid queueName jobID (ct_world s) of
             (Inl e, w) \<Rightarrow>
               (if e = JobErr ErrNotFound then resp_NotFound (Msg ''Job not found'')
                else resp_BadRequest (ErrorOf (QueueError e)), s\<lparr>ct_world := w\<rparr>)
           | (Inr (_, j), w) \<Rightarrow> (resp_OK (KJob (ToJobDTO j)), s\<lparr>ct_world := w\<rparr>)))"

definition k_RetryJob :: "ctl_env \<Rightarrow> string \<Rightarrow> string \<Rightarrow> ulid \<Rightarrow> ctl \<Rightarrow> ctl_reply \<times> ctl" where
  "k_RetryJob ce param queueName jobID s =
     (case parseTenantID param of
        None \<Rightarrow> (bad_tenant, s)
      | Some tid \<Rightarrow>
          (case job_Retry (ce_env ce) tid queueName jobID (ct_world s) of
             (Inl e, w) \<Rightarrow>
               (if e = JobErr ErrNotFound then resp_NotFound (Msg ''Job not found'')
                else resp_BadRequest (ErrorOf (QueueError e)), s\<lparr>ct_world := w\<rparr>)
           | (Inr j, w) \<Rightarrow> (resp_OK (KJob (ToJobDTO j)), s\<lparr>ct_world := w\<rparr>)))"

definition k_MetricsExport :: ctl_reply where
  "k_MetricsExport = send 200 KMetrics"

section \<open>The routes\<close>

datatype ctl_op =
    KCreateTenant "project_id option"
  | KGetTenant string
  | KDeleteTenant string
  | KSetLimits string "(int \<times> int) option"
  | KGetLimits string
  | KCreateKey string "key_body option"
  | KListKeys string
  | KUpdateKey string string "key_body option"
  | KDeleteKey string string
  | KListQueues string string string
  | KGetQueue string string
  | KDeleteQueue string string string
  | KListJobs string string string string string
  | KJobCounts string string
  | KGetJob string string ulid
  | KCancelJob string string ulid
  | KRetryJob string string ulid
  | KListWorkers string string string
  | KMetricsOp

fun ctl_handler :: "ctl_env \<Rightarrow> ctl_op \<Rightarrow> ctl \<Rightarrow> ctl_reply \<times> ctl" where
  "ctl_handler ce (KCreateTenant b) s = k_CreateTenant ce b s"
| "ctl_handler ce (KGetTenant t) s = k_GetTenant ce t s"
| "ctl_handler ce (KDeleteTenant t) s = k_DeleteTenant ce t s"
| "ctl_handler ce (KSetLimits t b) s = k_SetLimits ce t b s"
| "ctl_handler ce (KGetLimits t) s = k_GetLimits ce t s"
| "ctl_handler ce (KCreateKey t b) s = k_CreateAPIKey ce t b s"
| "ctl_handler ce (KListKeys t) s = k_ListAPIKeys ce t s"
| "ctl_handler ce (KUpdateKey t k b) s = k_UpdateAPIKey ce t k b s"
| "ctl_handler ce (KDeleteKey t k) s = k_DeleteAPIKey ce t k s"
| "ctl_handler ce (KListQueues t p n) s = (k_ListQueues ce t p n s, s)"
| "ctl_handler ce (KGetQueue t q) s = (k_GetQueue ce t q s, s)"
| "ctl_handler ce (KDeleteQueue t q f) s = k_DeleteQueue ce t q f s"
| "ctl_handler ce (KListJobs t q st l off) s = (k_ListJobs ce t q st l off s, s)"
| "ctl_handler ce (KJobCounts t q) s = (k_GetJobCounts ce t q s, s)"
| "ctl_handler ce (KGetJob t q i) s = (k_GetJob ce t q i s, s)"
| "ctl_handler ce (KCancelJob t q i) s = k_CancelJob ce t q i s"
| "ctl_handler ce (KRetryJob t q i) s = k_RetryJob ce t q i s"
| "ctl_handler ce (KListWorkers t p n) s = (k_ListWorkers ce t p n s, s)"
| "ctl_handler ce KMetricsOp s = (k_MetricsExport, s)"

text \<open>Behind the token check.\<close>

definition ctl_serve :: "string \<Rightarrow> string \<Rightarrow> string \<Rightarrow> ctl_env \<Rightarrow> ctl_op \<Rightarrow> ctl \<Rightarrow> ctl_reply \<times> ctl" where
  "ctl_serve expected authHeader tokenHeader ce op s =
     (if requireControlToken expected authHeader tokenHeader then ctl_handler ce op s
      else (send 401 KUnauthorized, s))"

text \<open>A background deletion runs to its end.  It lists and deletes keys of the same table: the subsystem sees
  their identifiers and projects.\<close>

fun run_cascade :: "cleanup_config \<Rightarrow> env \<Rightarrow> cascade \<Rightarrow> world \<Rightarrow> world" where
  "run_cascade cfg env (QueueCascade p q) w = snd (cascadeQueue cfg env False p q w)"
| "run_cascade cfg env (TenantCascade p) w = snd (cascadeTenant cfg env False p w)"

definition key_rows :: "apikey list \<Rightarrow> (ulid \<times> project_id) list" where
  "key_rows ks = List.map (\<lambda>k. (ak_PublicID k, ak_ProjectID k)) ks"

definition finish_cascade :: "ctl_env \<Rightarrow> cascade \<Rightarrow> ctl \<Rightarrow> ctl" where
  "finish_cascade ce c s =
     (let w = run_cascade (ce_cfg ce) (ce_env ce) c ((ct_world s)\<lparr>w_apikeys := key_rows (ct_keys s)\<rparr>)
      in s\<lparr>ct_world := w, ct_running := remove1 c (ct_running s),
           ct_keys := List.filter (\<lambda>k. (ak_PublicID k, ak_ProjectID k) \<in> set (w_apikeys w)) (ct_keys s)\<rparr>)"

end
