(* ===== verification/ControlProps.thy ===== *)
theory ControlProps
  imports ControlHandler RestProps
begin

text \<open>
  The control API: a route of one tenant leaves every other tenant alone, the deletions in the background
  too; the pages of a listing make up the listing; and a tenant that was deleted lives on in the memory of
  the service.
\<close>

section \<open>Leaving the other tenants alone\<close>

definition apart :: "project_id \<Rightarrow> world \<Rightarrow> world \<Rightarrow> bool" where
  "apart p w w' \<longleftrightarrow> rest_of job_ProjectID p (w_jobs w') = rest_of job_ProjectID p (w_jobs w)
     \<and> rest_of queue_ProjectID p (w_queues w') = rest_of queue_ProjectID p (w_queues w)
     \<and> rest_of worker_ProjectID p (w_workers w') = rest_of worker_ProjectID p (w_workers w)
     \<and> rest_of tenant_ID p (w_tenants w') = rest_of tenant_ID p (w_tenants w)
     \<and> rest_of limits_TenantID p (w_limits w') = rest_of limits_TenantID p (w_limits w)
     \<and> rest_of snd p (w_apikeys w') = rest_of snd p (w_apikeys w)"

lemma apart_refl [simp, intro]: "apart p w w"
  by (simp add: apart_def)

lemma apart_trans [trans]: "apart p w1 w2 \<Longrightarrow> apart p w2 w3 \<Longrightarrow> apart p w1 w3"
  by (simp add: apart_def)

lemma apart_only: "only_project p w w' \<Longrightarrow> apart p w w'"
  by (simp add: apart_def only_project_def)

lemma apart_if: "apart p w (snd a) \<Longrightarrow> apart p w (snd b) \<Longrightarrow> apart p w (snd (if c then a else b))"
  by simp

lemma apart_fold: "(\<And>x w. x \<in> set xs \<Longrightarrow> apart p w (f x w)) \<Longrightarrow> apart p w (fold f xs w)"
  by (induction xs arbitrary: w) (auto intro: apart_trans)

lemma apart_fields:
  "rest_of job_ProjectID p rows = rest_of job_ProjectID p (w_jobs w) \<Longrightarrow> apart p w (w\<lparr>w_jobs := rows\<rparr>)"
  "rest_of queue_ProjectID p qs = rest_of queue_ProjectID p (w_queues w) \<Longrightarrow> apart p w (w\<lparr>w_queues := qs\<rparr>)"
  "rest_of worker_ProjectID p ws = rest_of worker_ProjectID p (w_workers w) \<Longrightarrow> apart p w (w\<lparr>w_workers := ws\<rparr>)"
  "rest_of tenant_ID p ts = rest_of tenant_ID p (w_tenants w) \<Longrightarrow> apart p w (w\<lparr>w_tenants := ts\<rparr>)"
  "rest_of limits_TenantID p ls = rest_of limits_TenantID p (w_limits w) \<Longrightarrow> apart p w (w\<lparr>w_limits := ls\<rparr>)"
  "rest_of snd p ks = rest_of snd p (w_apikeys w) \<Longrightarrow> apart p w (w\<lparr>w_apikeys := ks\<rparr>)"
  by (simp_all add: apart_def)

lemma rest_of_filter: "(\<And>r. r \<in> set rows \<Longrightarrow> f r \<noteq> p \<Longrightarrow> P r) \<Longrightarrow> rest_of f p (List.filter P rows) = rest_of f p rows"
  by (auto simp: rest_of_def intro: filter_cong)

text \<open>The rows with keys of \<open>ks\<close> are those of \<open>p\<close>.\<close>

definition owned :: "('r \<Rightarrow> project_id) \<Rightarrow> ('r \<Rightarrow> 'k) \<Rightarrow> project_id \<Rightarrow> 'k set \<Rightarrow> 'r list \<Rightarrow> bool" where
  "owned f key p ks rows \<longleftrightarrow> (\<forall>x\<in>set rows. key x \<in> ks \<longrightarrow> f x = p)"

lemma owned_rows:
  assumes "distinct (List.map key rows)" "\<forall>r\<in>set rs. r \<in> set rows \<and> f r = p"
  shows "owned f key p (key ` set rs) rows"
  using assms key_unique [OF assms(1)] by (fastforce simp: owned_def)

lemma owned_save:
  assumes "owned f key p ks rows" "f r = p"
  shows "owned f key p ks (save_row key r rows)"
  using assms set_save_row by (fastforce simp: owned_def)

lemma rest_of_owned:
  assumes "owned f key p ks rows" "f r = p" "key r \<in> ks"
  shows "rest_of f p (save_row key r rows) = rest_of f p rows"
  using assms by (intro rest_of_save_row) (auto simp: owned_def)

section \<open>The tenant service\<close>

lemma Ensure_apart: "Ensure_tenant env tid s w = (r, s', w') \<Longrightarrow> apart tid w w'"
  by (auto simp: Ensure_tenant_def Let_def UpsertTenant_def split: if_splits option.splits
      intro!: apart_fields rest_of_save_row)

lemma Get_apart: "Get_tenant env tid s w = (r, s', w') \<Longrightarrow> w' = w"
  by (auto simp: Get_tenant_def split: if_splits option.splits)

lemma GetLimits_apart: "GetLimits env tid s w = (r, s', w') \<Longrightarrow> w' = w"
  by (auto simp: GetLimits_def split: if_splits option.splits)

lemma SetLimits_apart:
  assumes "SetLimits env tid i out s w = (r, s', w')"
  shows "apart tid w w'"
proof -
  obtain e s1 w1 where 1: "Ensure_tenant env tid s w = (e, s1, w1)" by (metis prod.collapse)
  have "apart tid w1 (w1\<lparr>w_limits := UpsertLimits l (w_limits w1)\<rparr>)" if "limits_TenantID l = tid" for l
    using that by (auto simp: UpsertLimits_def intro!: apart_fields rest_of_save_row)
  then show ?thesis using assms 1 Ensure_apart [OF 1] apart_trans
    by (fastforce simp: SetLimits_def Let_def split: sum.splits if_splits)
qed

section \<open>Deletions\<close>

lemma detach_apart:
  assumes "owned worker_ProjectID worker_ID p (worker_ID ` set ws) (w_workers w)" "\<forall>x\<in>set ws. worker_ProjectID x = p"
  shows "apart p w (snd (detach_loop env qn ws w))"
  using assms
proof (induction ws arbitrary: w)
  case (Cons wk ws)
  let ?r = "wk\<lparr>worker_Queues := RemoveQueue (worker_Queues wk) qn, worker_UpdatedAt := e_now env\<rparr>"
  let ?w = "w\<lparr>w_workers := save_row worker_ID ?r (w_workers w)\<rparr>"
  have p: "worker_ProjectID wk = p" "\<forall>x\<in>set ws. worker_ProjectID x = p" using Cons.prems(2) by auto
  have mono: "owned worker_ProjectID worker_ID p (worker_ID ` set ws) rows"
    if "owned worker_ProjectID worker_ID p (worker_ID ` set (wk # ws)) rows" for rows
    using that unfolding owned_def by (meson image_mono set_subset_Cons subsetD)
  have o: "owned worker_ProjectID worker_ID p (worker_ID ` set (wk # ws)) (w_workers ?w)"
    using owned_save [OF Cons.prems(1), of ?r] p(1) by simp
  have "rest_of worker_ProjectID p (w_workers ?w) = rest_of worker_ProjectID p (w_workers w)"
    using rest_of_owned [OF Cons.prems(1), of ?r] p(1) by simp
  then have "apart p w ?w" by (simp add: apart_fields)
  from apart_trans [OF this Cons.IH [OF mono [OF o] p(2)]] Cons.IH [OF mono [OF Cons.prems(1)] p(2)]
  show ?case by (simp add: Let_def Update_worker_def)
qed simp

lemma Streams_apart [simp]: "apart p w (DeleteStream env s w') = apart p w w'"
  by (simp add: DeleteStream_def apart_def)

lemma cascadeQueue_apart:
  assumes "world_inv w"
  shows "apart p w (snd (cascadeQueue cfg env d p qn w))"
proof -
  let ?w = "w\<lparr>w_jobs := purge_loop (same_queue p qn) (batchSize cfg) (w_jobs w)\<rparr>"
  have 1: "apart p w ?w" by (auto simp: purge_loop_eq same_queue_def intro!: apart_fields rest_of_filter)
  have "owned worker_ProjectID worker_ID p (worker_ID ` set (ListByProject_worker p (w_workers ?w))) (w_workers ?w)"
    using assms by (intro owned_rows) (auto simp: world_inv_def workers_inv_def table_inv_def ListByProject_worker_def)
  then have 2: "apart p ?w (snd (detachQueueFromWorkers env p qn ?w))"
    by (auto simp: detachQueueFromWorkers_def ListByProject_worker_def intro!: detach_apart)
  have 3: "apart p w1 (w1\<lparr>w_queues := Delete_queue p qn (w_queues w1)\<rparr>)" for w1
    by (auto simp: Delete_queue_def is_queue_def intro!: apart_fields rest_of_filter)
  obtain e w1 where d: "detachQueueFromWorkers env p qn ?w = (e, w1)" by fastforce
  have "apart p w w1" using apart_trans [OF 1 2] d by simp
  then have "apart p w (w1\<lparr>w_queues := Delete_queue p qn (w_queues w1)\<rparr>)" using 3 apart_trans by blast
  then have "apart p w (v\<lparr>w_queues := Delete_queue p qn (w_queues w1)\<rparr>)"
    if "v = DeleteStream env a (DeleteStream env b w1)" for v a b
    using that by (simp add: apart_def DeleteStream_def)
  then show ?thesis using d 1 \<open>apart p w w1\<close>
    by (simp add: cascadeQueue_def Let_def split: sum.split)
qed

lemma marks_apart:
  assumes "owned queue_ProjectID queue_ID p (queue_ID ` set qs) (w_queues w)" "\<forall>q\<in>set qs. queue_ProjectID q = p"
  shows "apart p w (fold (mark_deleting env) qs w)"
  using assms
proof (induction qs arbitrary: w)
  case (Cons q qs)
  let ?r = "q\<lparr>queue_Status := StatusDeleting, queue_UpdatedAt := e_now env\<rparr>"
  have p: "queue_ProjectID q = p" "\<forall>q\<in>set qs. queue_ProjectID q = p" using Cons.prems(2) by auto
  have "rest_of queue_ProjectID p (save_row queue_ID ?r (w_queues w)) = rest_of queue_ProjectID p (w_queues w)"
    by (rule rest_of_owned [OF Cons.prems(1)]) (simp_all add: p(1))
  then have step: "apart p w (mark_deleting env q w)" by (simp add: mark_deleting_def Update_queue_def apart_fields)
  have "owned queue_ProjectID queue_ID p (queue_ID ` set (q # qs)) (w_queues (mark_deleting env q w))"
    using owned_save [OF Cons.prems(1), of ?r] Cons.prems(1) p(1) unfolding mark_deleting_def Update_queue_def by simp
  then have "owned queue_ProjectID queue_ID p (queue_ID ` set qs) (w_queues (mark_deleting env q w))"
    unfolding owned_def by (meson image_mono set_subset_Cons subsetD)
  from apart_trans [OF step Cons.IH [OF this p(2)]] show ?case by simp
qed simp

lemma cascadeTenant_apart:
  assumes "world_inv w"
  shows "apart p w (snd (cascadeTenant cfg env d p w))"
proof -
  let ?qs = "ListByProject_queue p (w_queues w)"
  let ?w1 = "fold (mark_deleting env) ?qs w"
  let ?w2 = "?w1\<lparr>w_jobs := purge_loop (\<lambda>j. job_ProjectID j = p) (batchSize cfg) (w_jobs ?w1)\<rparr>"
  let ?w3 = "fold (drop_worker p) (ListByProject_worker p (w_workers ?w2)) ?w2"
  let ?w4 = "fold (drop_queue env p) ?qs ?w3"
  have "owned queue_ProjectID queue_ID p (queue_ID ` set ?qs) (w_queues w)"
    using assms by (intro owned_rows) (auto simp: world_inv_def queues_inv_def table_inv_def ListByProject_queue_def)
  then have 1: "apart p w ?w1" by (intro marks_apart) (auto simp: ListByProject_queue_def)
  have 2: "apart p w ?w2" by (rule apart_trans [OF 1]) (auto simp: purge_loop_eq intro!: apart_fields rest_of_filter)
  have "apart p v (drop_worker p wk v)" for wk v
    by (auto simp: drop_worker_def Delete_worker_def intro!: apart_fields rest_of_filter)
  then have 3: "apart p w ?w3" by (intro apart_trans [OF 2] apart_fold)
  have q: "apart p v (v'\<lparr>w_queues := Delete_queue p n rows\<rparr>)" if "apart p v v'" "rows = w_queues v'" for v v' n rows
    using that rest_of_filter [of "w_queues v'" queue_ProjectID p "\<lambda>q. \<not> is_queue p n q"]
    by (auto simp: apart_def Delete_queue_def is_queue_def)
  have 4: "apart p w ?w4" by (intro apart_trans [OF 3] apart_fold) (auto simp: drop_queue_def Let_def intro!: q)
  have k: "apart p v (drop_keys env p v)" for v by (auto simp: drop_keys_def intro!: apart_fields rest_of_filter)
  have t: "apart p v (snd (drop_tenant env p v))" for v
    by (auto simp: drop_tenant_def Let_def apart_def DeleteTenant_def DeleteLimits_def intro!: rest_of_filter)
  have 5: "apart p w (snd (drop_tenant env p (drop_keys env p ?w4)))" using 4 k t apart_trans by blast
  show ?thesis unfolding cascadeTenant_def Let_def
    by (intro apart_if) (simp_all only: snd_conv Streams_apart apart_refl 1 2 3 4 5)
qed

lemma RequestDeleteTenant_apart: "RequestDeleteTenant env p w = (r, go, w') \<Longrightarrow> apart p w w'"
  by (auto simp: RequestDeleteTenant_def UpdateTenant_def FindTenant_def split: if_splits option.splits
      simp: table_lookup_def dest!: find_SomeD intro!: apart_fields rest_of_save_row)

lemma RequestDeleteQueue_apart:
  assumes "world_inv w"
  shows "apart p w (snd (snd (RequestDeleteQueue cfg env d p qn force w)))"
proof (cases "FindByProjectAndName p qn (w_queues w)")
  case (Inr q)
  let ?w = "w\<lparr>w_queues := Update_queue (q\<lparr>queue_Status := StatusDeleting, queue_UpdatedAt := e_now env\<rparr>) (w_queues w)\<rparr>"
  let ?w' = "?w\<lparr>w_jobs := snd (ForceCancelActiveByQueue p qn (e_now env) (w_jobs w))\<rparr>"
  have q: "q \<in> set (w_queues w)" "queue_ProjectID q = p"
    using Inr by (auto simp: FindByProjectAndName_def is_queue_def split: option.splits dest!: find_SomeD)
  have "owned queue_ProjectID queue_ID p (queue_ID ` set [q]) (w_queues w)"
    using assms q by (intro owned_rows) (auto simp: world_inv_def queues_inv_def table_inv_def)
  then have 1: "apart p w ?w" using q by (auto simp: Update_queue_def intro!: apart_fields rest_of_owned)
  have i: "world_inv ?w" by (rule update_row_inv [OF assms Inr])
  have i': "world_inv ?w'" using i assms by (auto simp: world_inv_def intro: jobs_inv_ForceCancel)
  have "apart p ?w (?w\<lparr>w_jobs := snd (ForceCancelActiveByQueue p qn (e_now env) (w_jobs ?w))\<rparr>)"
    by (auto simp: ForceCancelActiveByQueue_def Let_def same_queue_def intro!: apart_fields rest_of_update_where)
  then have 2: "apart p w ?w'" using apart_trans [OF 1] by simp
  have 3: "apart p w w''" if "cascadeQueue cfg env d p qn v = (r, w'')" "v = ?w \<or> v = ?w'" for r w'' v
    using that 1 2 apart_trans [OF _ cascadeQueue_apart] i i' by (metis snd_conv)
  show ?thesis using Inr 1 2 3
    by (auto simp: RequestDeleteQueue_def Let_def split: prod.split sum.split)
qed (simp add: RequestDeleteQueue_def)

section \<open>The routes\<close>

text \<open>The whole state of the control API; its table of keys is \<^const>\<open>ct_keys\<close>.\<close>

definition tenant_apart :: "project_id \<Rightarrow> ctl \<Rightarrow> ctl \<Rightarrow> bool" where
  "tenant_apart p s s' \<longleftrightarrow> apart p ((ct_world s)\<lparr>w_apikeys := []\<rparr>) ((ct_world s')\<lparr>w_apikeys := []\<rparr>)
     \<and> rest_of ak_ProjectID p (ct_keys s') = rest_of ak_ProjectID p (ct_keys s)"

fun tenant_of :: "ctl_op \<Rightarrow> project_id option" where
  "tenant_of (KCreateTenant b) = b"
| "tenant_of (KGetTenant t) = parseTenantID t"
| "tenant_of (KDeleteTenant t) = parseTenantID t"
| "tenant_of (KSetLimits t _) = parseTenantID t"
| "tenant_of (KGetLimits t) = parseTenantID t"
| "tenant_of (KCreateKey t _) = parseTenantID t"
| "tenant_of (KListKeys t) = parseTenantID t"
| "tenant_of (KUpdateKey t _ _) = parseTenantID t"
| "tenant_of (KDeleteKey t _) = parseTenantID t"
| "tenant_of (KListQueues t _ _) = parseTenantID t"
| "tenant_of (KGetQueue t _) = parseTenantID t"
| "tenant_of (KDeleteQueue t _ _) = parseTenantID t"
| "tenant_of (KListJobs t _ _ _ _) = parseTenantID t"
| "tenant_of (KJobCounts t _) = parseTenantID t"
| "tenant_of (KGetJob t _ _) = parseTenantID t"
| "tenant_of (KCancelJob t _ _) = parseTenantID t"
| "tenant_of (KRetryJob t _ _) = parseTenantID t"
| "tenant_of (KListWorkers t _ _) = parseTenantID t"
| "tenant_of KMetricsOp = None"

fun cascade_of :: "cascade \<Rightarrow> project_id" where
  "cascade_of (QueueCascade p _) = p"
| "cascade_of (TenantCascade p) = p"

lemma BeforeSave_fields [simp]: "ak_ProjectID (BeforeSave k) = ak_ProjectID k" "ak_ID (BeforeSave k) = ak_ID k"
  by (simp_all add: BeforeSave_def)

lemma create_key_apart:
  assumes "ck_ProjectID b = p"
  shows "rest_of ak_ProjectID p (snd (svc_Create_key env b rows)) = rest_of ak_ProjectID p rows"
proof -
  have "ak_ProjectID (AfterCreate env (BeforeSave (k\<lparr>ak_ID := i\<rparr>))) = p" if "Create_key env b = Inr k" for k i
    using that assms by (auto simp: Create_key_def AfterCreate_def Let_def split: sum.splits option.splits)
  then show ?thesis by (auto simp: svc_Create_key_def Create_keyrow_def rest_of_append split: sum.split)
qed

lemma update_key_apart:
  assumes "distinct (List.map ak_ID rows)" "svc_Get_key env i rows = Inr k" "ak_ProjectID k = p"
  shows "rest_of ak_ProjectID p (snd (svc_Update_key env i b rows)) = rest_of ak_ProjectID p rows"
proof -
  obtain k0 where k0: "k0 \<in> set rows" "ak_ID k0 = i" "k = AfterFind k0"
    using assms(2) by (auto simp: svc_Get_key_def FindByID_key_def split: if_splits option.splits dest!: find_SomeD)
  have own: "owned ak_ProjectID ak_ID p (ak_ID ` set [k0]) rows"
    using assms(1,3) k0 by (intro owned_rows) (auto simp: AfterFind_def)
  have "ak_ProjectID k' = p \<and> ak_ID k' = i" if "Update_key env b k = Inr k'" for k'
    using that assms(3) k0(2) unfolding k0(3)
    by (auto simp: Update_key_def AfterFind_def Let_def split: sum.splits option.splits if_splits)
  then have "rest_of ak_ProjectID p (save_row ak_ID (BeforeSave k') rows) = rest_of ak_ProjectID p rows"
    if "Update_key env b k = Inr k'" for k' using that k0(2) by (intro rest_of_owned [OF own]) auto
  then show ?thesis using assms(2) by (auto simp: svc_Update_key_def Update_keyrow_def split: sum.split)
qed

lemma delete_key_apart:
  assumes "distinct (List.map ak_ID rows)" "svc_Get_key env i rows = Inr k" "ak_ProjectID k = p"
  shows "rest_of ak_ProjectID p (snd (svc_Delete_key env i rows)) = rest_of ak_ProjectID p rows"
proof -
  obtain k0 where k0: "k0 \<in> set rows" "ak_ID k0 = i" "k = AfterFind k0"
    using assms(2) by (auto simp: svc_Get_key_def FindByID_key_def split: if_splits option.splits dest!: find_SomeD)
  then have "ak_ProjectID r = p" if "r \<in> set rows" "ak_ID r = ak_ID k" for r
    using key_unique [OF assms(1) that(1) k0(1)] that(2) assms(3) by (simp add: AfterFind_def)
  then show ?thesis using assms(2)
    by (auto simp: svc_Delete_key_def Delete_keyrow_def intro!: rest_of_filter)
qed

lemma found_key: "FindByID_key env i rows = Inr k \<Longrightarrow> ak_ID k = i \<and> FindByID_key env (ak_ID k) rows = Inr k"
proof -
  assume k: "FindByID_key env i rows = Inr k"
  then have "ak_ID k = i" by (auto simp: FindByID_key_def AfterFind_def split: if_splits option.splits dest: find_SomeD)
  then show ?thesis using k by simp
qed

lemma tenant_key_Inr:
  "tenant_key ce t i s = Inr k \<Longrightarrow> \<exists>p. parseTenantID t = Some p \<and> ak_ProjectID k = p \<and> svc_Get_key (ce_auth ce) (ak_ID k) (ct_keys s) = Inr k"
  by (auto simp: tenant_key_def svc_Get_key_def split: option.splits sum.splits if_splits dest!: found_key)

definition keeps_to :: "project_id \<Rightarrow> ctl \<Rightarrow> ctl \<Rightarrow> bool" where
  "keeps_to p s s' \<longleftrightarrow> tenant_apart p s s' \<and> (\<forall>c\<in>set (ct_running s'). c \<in> set (ct_running s) \<or> cascade_of c = p)"

lemma apart_but_keys: "apart p w w' \<Longrightarrow> apart p (w\<lparr>w_apikeys := []\<rparr>) (w'\<lparr>w_apikeys := []\<rparr>)"
  by (simp add: apart_def)

lemma keeps_to_refl [simp]: "keeps_to p s s"
  by (simp add: keeps_to_def tenant_apart_def)

text \<open>The three kinds of change.\<close>

lemma within_changes:
  "apart p (ct_world s) w \<Longrightarrow> keeps_to p s (s\<lparr>ct_svc := t, ct_world := w\<rparr>)"
  "apart p (ct_world s) w \<Longrightarrow> keeps_to p s (s\<lparr>ct_world := w\<rparr>)"
  "rest_of ak_ProjectID p ks = rest_of ak_ProjectID p (ct_keys s) \<Longrightarrow> keeps_to p s (s\<lparr>ct_keys := ks\<rparr>)"
  by (simp_all add: keeps_to_def tenant_apart_def apart_but_keys)

lemma within_tenants:
  "tenant_of (KCreateTenant b) = Some p \<Longrightarrow> keeps_to p s (snd (k_CreateTenant ce b s))"
  "parseTenantID t = Some p \<Longrightarrow> keeps_to p s (snd (k_GetTenant ce t s))"
  "parseTenantID t = Some p \<Longrightarrow> keeps_to p s (snd (k_SetLimits ce t l s))"
  "parseTenantID t = Some p \<Longrightarrow> keeps_to p s (snd (k_GetLimits ce t s))"
proof -
  show "tenant_of (KCreateTenant b) = Some p \<Longrightarrow> keeps_to p s (snd (k_CreateTenant ce b s))"
    by (auto simp: k_CreateTenant_def split: prod.split sum.split dest!: Ensure_apart intro!: within_changes)
  show "parseTenantID t = Some p \<Longrightarrow> keeps_to p s (snd (k_GetTenant ce t s))"
    by (auto simp: k_GetTenant_def split: prod.split sum.split dest!: Get_apart intro!: within_changes)
  show "parseTenantID t = Some p \<Longrightarrow> keeps_to p s (snd (k_SetLimits ce t l s))"
    by (auto simp: k_SetLimits_def split: option.split prod.split sum.split dest!: SetLimits_apart intro!: within_changes)
  show "parseTenantID t = Some p \<Longrightarrow> keeps_to p s (snd (k_GetLimits ce t s))"
    by (auto simp: k_GetLimits_def split: prod.split sum.split dest!: GetLimits_apart intro!: within_changes)
qed

lemma within_DeleteTenant:
  assumes "parseTenantID t = Some p"
  shows "keeps_to p s (snd (k_DeleteTenant ce t s))"
proof -
  have "apart p (ct_world s) w2"
    if "Get_tenant env p v (ct_world s) = (a, b, w1)" "RequestDeleteTenant env p w1 = (r, go, w2)" for env v a b w1 r go w2
    using Get_apart [OF that(1)] RequestDeleteTenant_apart [OF that(2)] by simp
  then show ?thesis using assms
    by (auto simp: k_DeleteTenant_def keeps_to_def tenant_apart_def split: prod.split sum.split dest: Get_apart intro: apart_but_keys)
qed

lemma within_keys:
  assumes "distinct (List.map ak_ID (ct_keys s))" "parseTenantID t = Some p"
  shows "keeps_to p s (snd (k_UpdateAPIKey ce t i b s))" "keeps_to p s (snd (k_DeleteAPIKey ce t i s))"
proof -
  have key: "ak_ProjectID k = p \<and> svc_Get_key (ce_auth ce) (ak_ID k) (ct_keys s) = Inr k" if "tenant_key ce t i s = Inr k" for k
    using tenant_key_Inr [OF that] assms(2) by simp
  have u: "keeps_to p s (s\<lparr>ct_keys := ks\<rparr>)"
    if "tenant_key ce t i s = Inr k" "svc_Update_key (ce_auth ce) (ak_ID k) u (ct_keys s) = (r, ks)" for k u r ks
    using update_key_apart [OF assms(1), of "ce_auth ce" "ak_ID k" k p u] key [OF that(1)] that(2) by (intro within_changes) simp
  have d: "keeps_to p s (s\<lparr>ct_keys := ks\<rparr>)"
    if "tenant_key ce t i s = Inr k" "svc_Delete_key (ce_auth ce) (ak_ID k) (ct_keys s) = (r, ks)" for k r ks
    using delete_key_apart [OF assms(1), of "ce_auth ce" "ak_ID k" k p] key [OF that(1)] that(2) by (intro within_changes) simp
  show "keeps_to p s (snd (k_UpdateAPIKey ce t i b s))"
    by (simp add: k_UpdateAPIKey_def Let_def u split: sum.split option.split prod.split)
  show "keeps_to p s (snd (k_DeleteAPIKey ce t i s))"
    by (simp add: k_DeleteAPIKey_def d split: sum.split prod.split)
qed

lemma within_CreateAPIKey:
  assumes "parseTenantID t = Some p"
  shows "keeps_to p s (snd (k_CreateAPIKey ce t b s))"
proof -
  obtain a v w where e: "Ensure_tenant (ce_env ce) p (ct_svc s) (ct_world s) = (a, v, w)" by (metis prod.collapse)
  have 1: "keeps_to p s (s\<lparr>ct_svc := v, ct_world := w\<rparr>)" using Ensure_apart [OF e] by (rule within_changes)
  have 2: "keeps_to p s (s\<lparr>ct_svc := v, ct_world := w, ct_keys := ks\<rparr>)"
    if "svc_Create_key ae c (ct_keys s) = (r, ks)" "ck_ProjectID c = p" for ae c r ks
    using Ensure_apart [OF e] create_key_apart [OF that(2), of ae "ct_keys s"] that(1)
    by (simp add: keeps_to_def tenant_apart_def apart_but_keys)
  show ?thesis
  proof (cases b)
    case None
    then show ?thesis using assms e 1 by (simp add: k_CreateAPIKey_def split: sum.split)
  next
    case (Some req)
    let ?c = "\<lparr>ck_ProjectID = p, ck_Name = kb_Name req, ck_Permission = kb_Permission req, ck_Metadata = None,
      ck_Status = (if kb_Status req = KeyInactive then KeyInactive else KeyActive), ck_ExpiresAt = kb_ExpiresAt req\<rparr>"
    obtain r ks where c: "svc_Create_key (ce_auth ce) ?c (ct_keys s) = (r, ks)" by fastforce
    show ?thesis using assms e 1 Some 2 [OF c] c by (cases a; cases r) (simp_all add: k_CreateAPIKey_def Let_def)
  qed
qed

lemma within_DeleteQueue:
  assumes "world_inv (ct_world s)" "parseTenantID t = Some p"
  shows "keeps_to p s (snd (k_DeleteQueue ce t q f s))"
proof -
  have "apart p (ct_world s) w" if "RequestDeleteQueue cfg env d p q b (ct_world s) = (r, go, w)" for cfg env d b r go w
    using RequestDeleteQueue_apart [OF assms(1), of p cfg env d q b] that by simp
  then show ?thesis using assms(2)
    by (auto simp: k_DeleteQueue_def Let_def keeps_to_def tenant_apart_def split: prod.split sum.split intro!: apart_but_keys)
qed

lemma within_jobs:
  assumes "world_inv (ct_world s)" "parseTenantID t = Some p"
  shows "keeps_to p s (snd (k_CancelJob ce t q i s))" "keeps_to p s (snd (k_RetryJob ce t q i s))"
proof -
  have c: "keeps_to p s (s\<lparr>ct_world := w\<rparr>)" if "router_Cancel env p q i (ct_world s) = (r, w)" for env r w
    using Cancel_within [OF unique_idsI [OF assms(1)], of p env q i] that by (intro within_changes apart_only) simp
  have r: "keeps_to p s (s\<lparr>ct_world := w\<rparr>)" if "job_Retry env p q i (ct_world s) = (r, w)" for env r w
    using Retry_within [OF unique_idsI [OF assms(1)], of p env q i] that by (intro within_changes apart_only) simp
  show "keeps_to p s (snd (k_CancelJob ce t q i s))" using assms(2)
    by (simp add: k_CancelJob_def c split: prod.split sum.split)
  show "keeps_to p s (snd (k_RetryJob ce t q i s))" using assms(2)
    by (simp add: k_RetryJob_def r split: prod.split sum.split)
qed

lemma no_tenant_no_change: "tenant_of op = None \<Longrightarrow> snd (ctl_handler ce op s) = s"
  by (cases op) (auto simp: k_CreateTenant_def k_GetTenant_def k_DeleteTenant_def k_SetLimits_def k_GetLimits_def k_CreateAPIKey_def
      k_ListAPIKeys_def k_UpdateAPIKey_def k_DeleteAPIKey_def tenant_key_def k_DeleteQueue_def k_CancelJob_def k_RetryJob_def)

lemma handler_within_tenant:
  assumes "world_inv (ct_world s)" "distinct (List.map ak_ID (ct_keys s))" "tenant_of op = Some p"
  shows "keeps_to p s (snd (ctl_handler ce op s))"
proof (cases op)
  case (KListKeys t)
  then show ?thesis by (simp add: k_ListAPIKeys_def split: option.split sum.split)
qed (use assms in \<open>auto simp: within_tenants within_tenants(1) [unfolded tenant_of.simps] within_DeleteTenant within_keys within_CreateAPIKey
       within_DeleteQueue within_jobs\<close>)

lemma finish_apart:
  assumes "world_inv (ct_world s)"
  shows "tenant_apart (cascade_of c) s (finish_cascade ce c s)"
proof -
  let ?w = "(ct_world s)\<lparr>w_apikeys := key_rows (ct_keys s)\<rparr>"
  let ?w' = "run_cascade (ce_cfg ce) (ce_env ce) c ?w"
  have "world_inv ?w" using assms by (simp add: world_inv_def)
  then have a: "apart (cascade_of c) ?w ?w'" by (cases c) (simp_all add: cascadeQueue_apart cascadeTenant_apart)
  have "(ak_PublicID k, ak_ProjectID k) \<in> set (w_apikeys ?w')" if "k \<in> set (ct_keys s)" "ak_ProjectID k \<noteq> cascade_of c" for k
  proof -
    have "(ak_PublicID k, ak_ProjectID k) \<in> set (rest_of snd (cascade_of c) (w_apikeys ?w))"
      using that by (auto simp: rest_of_def key_rows_def)
    moreover have "rest_of snd (cascade_of c) (w_apikeys ?w') = rest_of snd (cascade_of c) (w_apikeys ?w)"
      using a by (simp only: apart_def)
    ultimately have "(ak_PublicID k, ak_ProjectID k) \<in> set (rest_of snd (cascade_of c) (w_apikeys ?w'))" by simp
    then show ?thesis by (simp add: rest_of_def)
  qed
  then have "rest_of ak_ProjectID (cascade_of c) (ct_keys (finish_cascade ce c s)) = rest_of ak_ProjectID (cascade_of c) (ct_keys s)"
    by (auto simp: finish_cascade_def Let_def intro!: rest_of_filter)
  then show ?thesis using a by (simp add: tenant_apart_def finish_cascade_def Let_def apart_def)
qed

text \<open>C31. The control API keeps the tenants apart.  Without the control token nothing changes and the answer is 401.
  With it, a request for a tenant changes rows of that tenant only: the jobs, queues, workers, limits,
  API keys and the record of every other tenant are as before, and a deletion it leaves running in the background is one of this
  tenant, which keeps to it as well when it runs.  A request that names no tenant changes nothing.\<close>

theorem control_keeps_tenants_apart:
  assumes "world_inv (ct_world s)" "distinct (List.map ak_ID (ct_keys s))"
    and "ctl_serve expected authHeader tokenHeader ce op s = (r, s')"
  shows "if requireControlToken expected authHeader tokenHeader
    then (case tenant_of op of
        None \<Rightarrow> s' = s
      | Some p \<Rightarrow> tenant_apart p s s' \<and> (\<forall>c\<in>set (ct_running s'). c \<in> set (ct_running s) \<or>
          cascade_of c = p \<and> (\<forall>s1. world_inv (ct_world s1) \<longrightarrow> tenant_apart p s1 (finish_cascade ce c s1))))
    else status_of r = 401 \<and> s' = s"
proof (cases "requireControlToken expected authHeader tokenHeader")
  case True
  then have s': "s' = snd (ctl_handler ce op s)" using assms(3) by (simp add: ctl_serve_def)
  show ?thesis
  proof (cases "tenant_of op")
    case None
    then show ?thesis using True s' no_tenant_no_change by simp
  next
    case (Some p)
    have "tenant_apart p s1 (finish_cascade ce c s1)" if "cascade_of c = p" "world_inv (ct_world s1)" for c s1
      using finish_apart [OF that(2), of c ce] that(1) by simp
    then show ?thesis using True Some s' handler_within_tenant [OF assms(1,2) Some, of ce] by (auto simp: keeps_to_def)
  qed
qed (use assms(3) in \<open>auto simp: ctl_serve_def send_def\<close>)

definition sample_ctl_env :: ctl_env where
  "sample_ctl_env = \<lparr>ce_env = sample_env, ce_auth = sample_auth, ce_cfg = sample_cfg, ce_ctxDone = False, ce_staleDisplay = 0\<rparr>"

definition sample_ctl :: ctl where
  "sample_ctl = \<lparr>ct_svc = \<lparr>ts_tenants = Map.empty, ts_limits = Map.empty\<rparr>, ct_world = sample_world, ct_keys = [sample_key], ct_running = []\<rparr>"

theorem control_keeps_tenants_apart_witness:
  "tenant_apart 1 sample_ctl (snd (ctl_serve ''t'' [] ''t'' sample_ctl_env (KDeleteKey ''1'' ''7'') sample_ctl))
   \<and> ct_keys (snd (ctl_serve ''t'' [] ''t'' sample_ctl_env (KDeleteKey ''1'' ''7'') sample_ctl)) = []"
proof -
  have inv: "world_inv (ct_world sample_ctl)" "distinct (List.map ak_ID (ct_keys sample_ctl))"
    using sample_world_inv by (simp_all add: sample_ctl_def)
  have t: "requireControlToken ''t'' [] ''t''" "tenant_of (KDeleteKey ''1'' ''7'') = Some 1" by code_simp+
  have a: "atoi ''1'' = Some 1" "atoi ''7'' = Some 7" by code_simp+
  have "ct_keys (snd (ctl_serve ''t'' [] ''t'' sample_ctl_env (KDeleteKey ''1'' ''7'') sample_ctl)) = []"
    by (simp add: ctl_serve_def t k_DeleteAPIKey_def tenant_key_def parseTenantID_def a sample_ctl_env_def sample_ctl_def svc_Get_key_def
        FindByID_key_def svc_Delete_key_def Delete_keyrow_def sample_auth_def sample_key_def AfterFind_def)
  then show ?thesis
    using control_keeps_tenants_apart [OF inv prod.collapse [symmetric], of "''t''" "[]" "''t''" sample_ctl_env "KDeleteKey ''1'' ''7''"] t
    by simp
qed

section \<open>Pages\<close>

text \<open>Page \<open>k\<close> of a listing of \<open>n\<close> rows a page.\<close>

lemma pages_concat:
  "concat (List.map (\<lambda>k. take n (drop (k * n) xs)) [0..<m]) = take (m * n) xs"
proof (induction m)
  case (Suc m)
  have "take (m * n) xs @ take n (drop (m * n) xs) = take (m * n + n) xs" by (simp add: take_add)
  then show ?case using Suc by (simp add: add.commute)
qed simp

lemma last_page:
  assumes "0 < n" "in64 (int c + n)"
  shows "pg_LastPage (ToPaginationDTO (int c) n k) = (int c + n - 1) div n" "c \<le> nat ((int c + n - 1) div n) * nat n"
proof -
  show "pg_LastPage (ToPaginationDTO (int c) n k) = (int c + n - 1) div n"
    using assms by (simp add: ToPaginationDTO_def Let_def go_quot_def i64_id in64_def)
  have "int c \<le> (int c + n - 1) div n * n"
    using assms(1) minus_mod_eq_div_mult [of "int c + n - 1" n] pos_mod_bound [OF assms(1), of "int c + n - 1"] by linarith
  moreover have "0 \<le> (int c + n - 1) div n" using assms(1) by (simp add: pos_imp_zdiv_nonneg_iff)
  ultimately have "int c \<le> int (nat ((int c + n - 1) div n)) * int (nat n)" using assms(1) by simp
  then show "c \<le> nat ((int c + n - 1) div n) * nat n" by (metis of_nat_le_iff of_nat_mult)
qed

lemma counts_by_status: "job_CountByStatus env p q w = (if e_flt env CCountJobs then Inl (CallErr CCountJobs)
    else Inr (\<lambda>s. CountByStatus p q s (w_jobs w)))"
proof -
  have "fold (\<lambda>s counts. counts(s := CountByStatus p q s (w_jobs w))) all_statuses (\<lambda>_. 0) s = CountByStatus p q s (w_jobs w)" for s
    by (cases s) (simp_all add: all_statuses_def)
  then show ?thesis by (auto simp: job_CountByStatus_def)
qed

lemma summaries_map:
  "\<not> e_flt env CCountJobs \<Longrightarrow> queue_summaries env p w qs =
     Inr (List.map (\<lambda>q. ToQueueSummaryDTO q (\<lambda>s. CountByStatus p (queue_Name q) s (w_jobs w))) qs)"
  by (induction qs) (simp_all add: counts_by_status)

text \<open>The rows that a listing of a tenant shows, with the exact number of jobs in each state.\<close>

definition queue_listing :: "project_id \<Rightarrow> world \<Rightarrow> queue_summary_dto list" where
  "queue_listing p w = List.map (\<lambda>q. ToQueueSummaryDTO q (\<lambda>s. CountByStatus p (queue_Name q) s (w_jobs w)))
     (sort_key queue_ID (List.filter (\<lambda>q. queue_ProjectID q = p) (w_queues w)))"

lemma page_params_shown:
  assumes "in64 k" "0 < k" "0 < n" "n \<le> 100"
  shows "ParseParams (show_int k) (show_int n) = \<lparr>pp_Page = k, pp_PerPage = n\<rparr>"
proof -
  have "show_int k \<noteq> []" "show_int n \<noteq> []" using atoi_show_int [OF assms(1)] assms atoi_show_int [of n] by (auto simp: atoi_def in64_def)
  then show ?thesis using assms by (simp add: ParseParams_def atoi_show_int in64_def)
qed

text \<open>C32. Going through the pages of the queue listing shows every queue of the tenant exactly once, in the order of
  their identifiers, each with the exact job counts: the first page names the number of pages, every page up to it is
  answered, and the pages one after the other are the listing.\<close>

theorem control_pages_complete:
  assumes "parseTenantID t = Some p" "0 < n" "n \<le> 100" "in64 (int (length (queue_listing p (ct_world s))) + n)"
    and "\<not> e_flt (ce_env ce) CListQueues" "\<not> e_flt (ce_env ce) CCountJobs"
  shows "\<exists>pages. concat pages = queue_listing p (ct_world s)
    \<and> (\<forall>k<length pages. \<exists>pg. k_ListQueues ce t (show_int (int k + 1)) (show_int n) s = resp_OK (KQueues (pages ! k) pg)
         \<and> pg_LastPage pg = int (length pages) \<and> pg_Total pg = int (length (queue_listing p (ct_world s))))"
proof -
  let ?L = "queue_listing p (ct_world s)"
  let ?c = "length ?L"
  let ?m = "nat ((int ?c + n - 1) div n)"
  let ?page = "\<lambda>k. take (nat n) (drop (k * nat n) ?L)"
  have "concat (List.map ?page [0..<?m]) = ?L" using pages_concat [of "nat n" ?L ?m] last_page(2) [OF assms(2,4)] by simp
  moreover have "\<exists>pg. k_ListQueues ce t (show_int (int k + 1)) (show_int n) s = resp_OK (KQueues (?page k) pg)
      \<and> pg_LastPage pg = int ?m \<and> pg_Total pg = int ?c" if "k < ?m" for k
  proof -
    have m: "0 \<le> (int ?c + n - 1) div n" using assms(2) by (simp add: pos_imp_zdiv_nonneg_iff)
    have "(int ?c + n - 1) div n * n \<le> int ?c + n - 1" 
      using minus_mod_eq_div_mult [of "int ?c + n - 1" n] pos_mod_sign [OF assms(2), of "int ?c + n - 1"] by linarith
    moreover have "int k + 1 \<le> (int ?c + n - 1) div n" using that m by linarith
    ultimately have k: "(int k + 1) * n \<le> int ?c + n - 1" using assms(2) mult_right_mono [of "int k + 1" "(int ?c + n - 1) div n" n] by linarith
    then have off: "int k * n \<le> int ?c" by (simp add: algebra_simps)
    have "int k + 1 \<le> (int k + 1) * n" using assms(2) mult_left_mono [of 1 n "int k + 1"] by simp
    moreover have "0 \<le> int k * n" using assms(2) by simp
    ultimately have i: "in64 (int k + 1)" "in64 (int k * n)"
      using k off assms(2,4) unfolding in64_def by linarith+
    have o: "nat (int k * n) = k * nat n" using assms(2) by (simp add: nat_mult_distrib)
    have c: "?c = length (List.filter (\<lambda>q. queue_ProjectID q = p) (w_queues (ct_world s)))" by (simp add: queue_listing_def)
    have "k_ListQueues ce t (show_int (int k + 1)) (show_int n) s = resp_OK (KQueues (?page k) (ToPaginationDTO (int ?c) n (int k + 1)))"
      unfolding c using assms(1,2,5,6)
      by (simp add: k_ListQueues_def page_params_shown [OF i(1) _ assms(2,3)] queue_ListPaginated_def i(2) ListByProjectPaginated_queue_def
          Let_def page_rows_def o summaries_map queue_listing_def take_map drop_map)
    moreover have "pg_Total (ToPaginationDTO (int ?c) n (int k + 1)) = int ?c" by (simp add: ToPaginationDTO_def Let_def)
    ultimately show ?thesis using last_page(1) [OF assms(2,4), of "int k + 1"] m
      by (intro exI [of _ "ToPaginationDTO (int ?c) n (int k + 1)"]) simp
  qed
  ultimately show ?thesis by (intro exI [of _ "List.map ?page [0..<?m]"]) simp
qed

theorem control_pages_complete_witness:
  "\<exists>pages pg. concat pages = queue_listing 1 sample_world \<and> length (concat pages) = 1
    \<and> k_ListQueues sample_ctl_env ''1'' (show_int 1) (show_int 10) sample_ctl = resp_OK (KQueues (pages ! 0) pg)"
proof -
  have t: "parseTenantID ''1'' = Some 1" by code_simp
  have l: "length (queue_listing 1 (ct_world sample_ctl)) = 1"
    by (simp add: queue_listing_def sample_ctl_def sample_world_def sample_queue_def)
  have f: "\<not> e_flt (ce_env sample_ctl_env) c" for c by (simp add: sample_ctl_env_def)
  have i: "in64 (int (length (queue_listing 1 (ct_world sample_ctl))) + 10)" unfolding l by (simp add: in64_def)
  obtain pages where p: "concat pages = queue_listing 1 (ct_world sample_ctl)"
    "\<forall>k<length pages. \<exists>pg. k_ListQueues sample_ctl_env ''1'' (show_int (int k + 1)) (show_int 10) sample_ctl = resp_OK (KQueues (pages ! k) pg)"
    using control_pages_complete [OF t _ _ i f f] by force
  then have "0 < length pages" using l by (cases pages) auto
  then show ?thesis using p l by (intro exI [of _ pages]) (force simp: sample_ctl_def)
qed

section \<open>A deleted tenant\<close>

text \<open>The tenant service remembers a tenant that was deleted.  \<open>DELETE\<close> of an active tenant is accepted with 202, and
  looking the tenant up has just put its old row into the memory of the service, which nothing removes: from then on,
  whatever the deletion does to the tables and the keys, \<open>GET\<close> answers with the old status, and creating the tenant again answers 201
  and creates nothing.\<close>

lemma deleted_tenant_remembered:
  assumes "parseTenantID t = Some p" "0 < p" "ts_tenants (ct_svc s) p = None" "FindTenant p (w_tenants (ct_world s)) = Some tn"
    and "tenant_Status tn \<noteq> StatusDeleting" "\<not> e_flt (ce_env ce) CFindTenant" "\<not> e_flt (ce_env ce) CUpdateTenant"
    and "k_DeleteTenant ce t s = (r, s1)" "ct_svc s2 = ct_svc s1"
    and "world_inv (ct_world s)"
  shows "status_of r = 202 \<and> TenantCascade p \<in> set (ct_running s1)
    \<and> (\<exists>t'. FindTenant p (w_tenants (ct_world s1)) = Some t' \<and> tenant_Status t' = StatusDeleting)
    \<and> k_GetTenant ce' t s2 = (send 200 (KTenant p (tenant_Status tn) (tenant_CreatedAt tn)), s2)
    \<and> k_CreateTenant ce' (Some p) s2 = (send 201 (KTenantCreated p (tenant_CreatedAt tn)), s2)"
proof -
  have i: "tenant_ID tn = p" using assms(2,4) by (auto simp: FindTenant_def table_lookup_def split: if_splits dest: find_SomeD)
  have s1: "ct_svc s1 = (ct_svc s)\<lparr>ts_tenants := (ts_tenants (ct_svc s))(p \<mapsto> tn)\<rparr>" "status_of r = 202" "TenantCascade p \<in> set (ct_running s1)"
    "w_tenants (ct_world s1) = UpdateTenant (tn\<lparr>tenant_Status := StatusDeleting, tenant_UpdatedAt := e_now (ce_env ce)\<rparr>) (w_tenants (ct_world s))"
    using assms(1-8) by (auto simp: k_DeleteTenant_def Get_tenant_def RequestDeleteTenant_def send_def)
  have "\<exists>t'. FindTenant p (w_tenants (ct_world s1)) = Some t' \<and> tenant_Status t' = StatusDeleting"
    using assms(2,10) i unfolding s1(4) UpdateTenant_def FindTenant_def
    by (auto simp: table_lookup_save world_inv_def tenants_inv_def table_inv_def)
  then show ?thesis using s1 assms(1,2,9) i
    by (simp add: k_GetTenant_def k_CreateTenant_def Get_tenant_def Ensure_tenant_def)
qed

end
