(* ===== verification/Realtime.thy ===== *)
theory Realtime
  imports TextUtils SubRepo Telemetry
begin

text \<open>
  The statistics of the projects in Redis: keys, repository and service of
  \<open>internal/domain/project/stat/realtime\<close>, \<open>internal/infrastructure/repository/project/stat/realtime\<close> and
  \<open>internal/application/service/project/stat/realtime\<close>.  The store is a map from keys to texts, as Redis holds
  them; its commands \<open>GET\<close>, \<open>SET\<close>, \<open>DEL\<close>, \<open>INCRBY\<close> and \<open>DECRBY\<close> are written out, and so are the Lua scripts of the
  repository.  What Redis does beyond this (matching a pattern, reading and showing Lua numbers, which requests
  fail) are fields of the environment, and \<open>redis_ok\<close> states what its documentation promises of them.
\<close>

section \<open>Keys\<close>

definition KeyConnection :: string where "KeyConnection = ''conn''"
definition KeyChannel :: string where "KeyChannel = ''chan''"
definition KeySubscriber :: string where "KeySubscriber = ''sub''"
definition KeyMessageInbound :: string where "KeyMessageInbound = ''msg:in''"
definition KeyMessageOutbound :: string where "KeyMessageOutbound = ''msg:out''"
definition KeyMessageDropped :: string where "KeyMessageDropped = ''msg:drop''"
definition KeyBandwidthInbound :: string where "KeyBandwidthInbound = ''bw:in''"
definition KeyBandwidthOutbound :: string where "KeyBandwidthOutbound = ''bw:out''"

definition key_types :: "string list" where
  "key_types = [KeyConnection, KeyChannel, KeySubscriber, KeyMessageInbound, KeyMessageOutbound, KeyMessageDropped,
     KeyBandwidthInbound, KeyBandwidthOutbound]"

lemmas key_type_defs = KeyConnection_def KeyChannel_def KeySubscriber_def KeyMessageInbound_def KeyMessageOutbound_def
  KeyMessageDropped_def KeyBandwidthInbound_def KeyBandwidthOutbound_def

record stat_key =
  sk_Prefix :: string
  sk_Separator :: string
  sk_Type :: string
  sk_InstanceID :: ulid
  sk_ProjectID :: project_id

definition NewKey :: "string \<Rightarrow> ulid \<Rightarrow> project_id \<Rightarrow> stat_key" where
  "NewKey t i p = \<lparr>sk_Prefix = ''stats'', sk_Separator = '':'', sk_Type = t, sk_InstanceID = i, sk_ProjectID = p\<rparr>"

definition Key_String :: "stat_key \<Rightarrow> string" where
  "Key_String k = sk_Prefix k @ sk_Separator k @ sk_Type k @ sk_Separator k @ sk_InstanceID k @ sk_Separator k @ show_int (sk_ProjectID k)"

text \<open>\<open>strings.Join\<close>.\<close>

fun join_with :: "string \<Rightarrow> string list \<Rightarrow> string" where
  "join_with sep [] = []"
| "join_with sep [s] = s"
| "join_with sep (s # t # ts) = s @ sep @ join_with sep (t # ts)"

definition Key_Pattern :: "stat_key \<Rightarrow> string" where
  "Key_Pattern k = join_with (sk_Separator k)
     [sk_Prefix k, if sk_Type k \<noteq> [] then sk_Type k else ''*'', if sk_InstanceID k \<noteq> [] then sk_InstanceID k else ''*'',
      if sk_ProjectID k \<noteq> 0 then show_int (sk_ProjectID k) else ''*'']"

definition ParseKey_stat :: "string \<Rightarrow> stat_key option" where
  "ParseKey_stat s =
     (let parts = split_on (CHR '':'') s; lastIndex = length parts - 1
      in if length parts < 4 then None
         else case atoi (parts ! lastIndex) of
                None \<Rightarrow> None
              | Some p \<Rightarrow> Some (NewKey (join_with '':'' (drop 1 (take (lastIndex - 1) parts))) (parts ! (lastIndex - 1)) p))"

section \<open>Redis\<close>

type_synonym redis_store = "string \<Rightarrow> string option"

record redis_env =
  rd_fails :: "string \<Rightarrow> bool"
  rd_glob :: "string \<Rightarrow> string \<Rightarrow> bool"
  rd_keys :: "string set \<Rightarrow> string list"
  rd_number :: "string \<Rightarrow> rat option"
  rd_arg :: "rat \<Rightarrow> int option"
  rd_unpack :: nat

text \<open>The text of a number that \<open>INCRBY\<close> accepts is that of a 64-bit integer.\<close>

definition redis_int :: "string \<Rightarrow> int option" where
  "redis_int v = (case atoi v of None \<Rightarrow> None | Some n \<Rightarrow> if show_int n = v then Some n else None)"

text \<open>A command or script succeeds or fails, beside the new store.\<close>

definition rd_incrby :: "string \<Rightarrow> int \<Rightarrow> redis_store \<Rightarrow> bool \<times> redis_store" where
  "rd_incrby k d R =
     (case (case R k of None \<Rightarrow> Some 0 | Some v \<Rightarrow> redis_int v) of
        None \<Rightarrow> (False, R)
      | Some n \<Rightarrow> if in64 (n + d) then (True, R(k \<mapsto> show_int (n + d))) else (False, R))"

definition rd_decrby :: "string \<Rightarrow> int \<Rightarrow> redis_store \<Rightarrow> bool \<times> redis_store" where
  "rd_decrby k d R = (if in64 (- d) then rd_incrby k (- d) R else (False, R))"

section \<open>The repository\<close>

definition repo_IncrBy :: "redis_env \<Rightarrow> stat_key \<Rightarrow> int \<Rightarrow> redis_store \<Rightarrow> bool \<times> redis_store" where
  "repo_IncrBy env k d R = (if rd_fails env (Key_String k) then (False, R) else rd_incrby (Key_String k) d R)"

definition repo_Incr :: "redis_env \<Rightarrow> stat_key \<Rightarrow> redis_store \<Rightarrow> bool \<times> redis_store" where
  "repo_Incr env k R = repo_IncrBy env k 1 R"

text \<open>The script of \<open>Decr\<close>, also the body of the loop of \<open>BatchDecr\<close>: a text that is no number makes the comparison fail.\<close>

definition lua_decr :: "redis_env \<Rightarrow> string \<Rightarrow> redis_store \<Rightarrow> bool \<times> redis_store" where
  "lua_decr env k R =
     (case R k of
        None \<Rightarrow> (True, R)
      | Some v \<Rightarrow>
          (case rd_number env v of
             None \<Rightarrow> (False, R)
           | Some x \<Rightarrow> if x > 0 then rd_decrby k 1 R else (True, R)))"

definition repo_Decr :: "redis_env \<Rightarrow> stat_key \<Rightarrow> redis_store \<Rightarrow> bool \<times> redis_store" where
  "repo_Decr env k R = (if rd_fails env (Key_String k) then (False, R) else lua_decr env (Key_String k) R)"

text \<open>The script of \<open>DecrBy\<close>; the argument is a text, and the command gets it as it is.\<close>

definition repo_DecrBy :: "redis_env \<Rightarrow> stat_key \<Rightarrow> int \<Rightarrow> redis_store \<Rightarrow> bool \<times> redis_store" where
  "repo_DecrBy env k d R =
     (let key = Key_String k
      in if rd_fails env key then (False, R)
         else case R key of
                None \<Rightarrow> (True, R(key \<mapsto> show_int 0))
              | Some v \<Rightarrow>
                  (case (rd_number env v, rd_number env (show_int d)) of
                     (Some x, Some y) \<Rightarrow> if x - y \<ge> 0 then rd_decrby key d R else (True, R(key \<mapsto> show_int 0))
                   | _ \<Rightarrow> (False, R)))"

definition repo_Get :: "redis_env \<Rightarrow> stat_key \<Rightarrow> redis_store \<Rightarrow> int option" where
  "repo_Get env k R =
     (if rd_fails env (Key_String k) then None else case R (Key_String k) of None \<Rightarrow> None | Some v \<Rightarrow> atoi v)"

definition repo_Set :: "redis_env \<Rightarrow> stat_key \<Rightarrow> int \<Rightarrow> redis_store \<Rightarrow> bool \<times> redis_store" where
  "repo_Set env k v R = (if rd_fails env (Key_String k) then (False, R) else (True, R(Key_String k \<mapsto> show_int v)))"

definition matching :: "redis_env \<Rightarrow> string \<Rightarrow> redis_store \<Rightarrow> string list" where
  "matching env pattern R = rd_keys env {k \<in> dom R. rd_glob env pattern k}"

definition repo_GetByPattern :: "redis_env \<Rightarrow> string \<Rightarrow> redis_store \<Rightarrow> string list option" where
  "repo_GetByPattern env pattern R = (if rd_fails env pattern then None else Some (matching env pattern R))"

definition repo_Reset :: "redis_env \<Rightarrow> stat_key \<Rightarrow> redis_store \<Rightarrow> bool \<times> redis_store" where
  "repo_Reset env k R = (if rd_fails env (Key_String k) then (False, R) else (True, R(Key_String k := None)))"

text \<open>The script passes all keys to one \<open>DEL\<close>; Lua unpacks a bounded number of values.\<close>

definition repo_ResetByPattern :: "redis_env \<Rightarrow> string \<Rightarrow> redis_store \<Rightarrow> bool \<times> redis_store" where
  "repo_ResetByPattern env pattern R =
     (let keys = matching env pattern R
      in if rd_fails env pattern then (False, R)
         else if length keys > 0
         then (if length keys > rd_unpack env then (False, R) else (True, \<lambda>k. if k \<in> set keys then None else R k))
         else (True, R))"

text \<open>A pipeline carries out every command and reports whether all succeeded.\<close>

fun pipeline_run :: "('a \<Rightarrow> redis_store \<Rightarrow> bool \<times> redis_store) \<Rightarrow> 'a list \<Rightarrow> redis_store \<Rightarrow> bool \<times> redis_store" where
  "pipeline_run f [] R = (True, R)"
| "pipeline_run f (x # xs) R = (case f x R of (ok, R) \<Rightarrow> (case pipeline_run f xs R of (ok', R) \<Rightarrow> (ok \<and> ok', R)))"

definition repo_BatchIncr :: "redis_env \<Rightarrow> stat_key list \<Rightarrow> redis_store \<Rightarrow> bool \<times> redis_store" where
  "repo_BatchIncr env keys R = pipeline_run (\<lambda>k. repo_Incr env k) keys R"

text \<open>The operations of the batches come from a Go map, in some order.\<close>

definition repo_BatchIncrBy :: "redis_env \<Rightarrow> (stat_key \<times> int) list \<Rightarrow> redis_store \<Rightarrow> bool \<times> redis_store" where
  "repo_BatchIncrBy env operations R = pipeline_run (\<lambda>(k, v). repo_IncrBy env k v) operations R"

definition repo_BatchReset :: "redis_env \<Rightarrow> stat_key list \<Rightarrow> redis_store \<Rightarrow> bool \<times> redis_store" where
  "repo_BatchReset env keys R = pipeline_run (\<lambda>k. repo_Reset env k) keys R"

text \<open>A script stops at its first error; what it has written stays.\<close>

fun script_run :: "('a \<Rightarrow> redis_store \<Rightarrow> bool \<times> redis_store) \<Rightarrow> 'a list \<Rightarrow> redis_store \<Rightarrow> bool \<times> redis_store" where
  "script_run f [] R = (True, R)"
| "script_run f (x # xs) R = (case f x R of (ok, R) \<Rightarrow> if ok then script_run f xs R else (False, R))"

definition repo_BatchDecr :: "redis_env \<Rightarrow> stat_key list \<Rightarrow> redis_store \<Rightarrow> bool \<times> redis_store" where
  "repo_BatchDecr env keys R =
     (if list_ex (\<lambda>k. rd_fails env (Key_String k)) keys then (False, R)
      else script_run (lua_decr env) (List.map Key_String keys) R)"

text \<open>The script of \<open>BatchDecrBy\<close> goes through its arguments two at a time, \<open>for i = 1, #ARGV, 2\<close>, and takes one key a turn.\<close>

fun every_second :: "'a list \<Rightarrow> 'a list" where
  "every_second [] = []"
| "every_second [x] = [x]"
| "every_second (x # y # xs) = x # every_second xs"

definition lua_decr_by :: "redis_env \<Rightarrow> string \<times> string \<Rightarrow> redis_store \<Rightarrow> bool \<times> redis_store" where
  "lua_decr_by env ka R =
     (case rd_number env (snd ka) of
        None \<Rightarrow> (case R (fst ka) of None \<Rightarrow> (True, R(fst ka \<mapsto> show_int 0)) | Some _ \<Rightarrow> (False, R))
      | Some y \<Rightarrow>
          (case R (fst ka) of
             None \<Rightarrow> (True, R(fst ka \<mapsto> show_int 0))
           | Some v \<Rightarrow>
               (case rd_number env v of
                  None \<Rightarrow> (False, R)
                | Some x \<Rightarrow>
                    if x - y \<ge> 0 then (case rd_arg env y of None \<Rightarrow> (False, R) | Some d \<Rightarrow> rd_decrby (fst ka) d R)
                    else (True, R(fst ka \<mapsto> show_int 0)))))"

definition repo_BatchDecrBy :: "redis_env \<Rightarrow> (stat_key \<times> int) list \<Rightarrow> redis_store \<Rightarrow> bool \<times> redis_store" where
  "repo_BatchDecrBy env operations R =
     (let keys = List.map (\<lambda>(k, v). Key_String k) operations; args = List.map (\<lambda>(k, v). show_int v) operations
      in if list_ex (rd_fails env) keys then (False, R)
         else script_run (lua_decr_by env) (zip keys (every_second args)) R)"

section \<open>The service\<close>

fun read_stats :: "redis_env \<Rightarrow> redis_store \<Rightarrow> string list \<Rightarrow> (string \<Rightarrow> int option) \<Rightarrow> string \<Rightarrow> int option" where
  "read_stats env R [] result = result"
| "read_stats env R (s # ss) result =
     (case ParseKey_stat s of
        None \<Rightarrow> read_stats env R ss result
      | Some k \<Rightarrow>
          (case repo_Get env k R of
             None \<Rightarrow> read_stats env R ss result
           | Some v \<Rightarrow> read_stats env R ss (result(s \<mapsto> v))))"

definition svc_GetByPattern :: "redis_env \<Rightarrow> string \<Rightarrow> redis_store \<Rightarrow> (string \<Rightarrow> int option) option" where
  "svc_GetByPattern env pattern R =
     (case repo_GetByPattern env pattern R of None \<Rightarrow> None | Some keys \<Rightarrow> Some (read_stats env R keys Map.empty))"

text \<open>The values of the map are added up in some order, with wrap-around.\<close>

definition GetSummary :: "redis_env \<Rightarrow> project_id \<Rightarrow> redis_store \<Rightarrow> (string \<Rightarrow> int option)" where
  "GetSummary env p R =
     fold (\<lambda>t summary.
        let summary = summary(t \<mapsto> 0)
        in case svc_GetByPattern env (Key_Pattern (NewKey t [] p)) R of
             None \<Rightarrow> summary
           | Some stats \<Rightarrow>
               fold (\<lambda>s summary. summary(t \<mapsto> i64 (the (summary t) + the (stats s)))) (rd_keys env (dom stats)) summary)
       key_types Map.empty"

section \<open>Keys as texts\<close>

definition colon :: char where "colon = CHR '':''"

lemma colon_lit: "CHR '':'' = colon"
  by (simp add: colon_def)

definition no_colon :: "string \<Rightarrow> bool" where
  "no_colon s \<longleftrightarrow> colon \<notin> set s"

lemma show_int_no_colon [simp]: "no_colon (show_int i)"
proof -
  have "digit_char d \<noteq> colon" if "d < 10" for d
    using digit_val_char [OF that] by (auto simp: colon_def digit_val_def Let_def)
  then have "colon \<notin> set (dec_nat n)" for n using dec_nat_set by metis
  then show ?thesis by (simp add: no_colon_def show_int_def) (simp add: colon_def)
qed

lemma split_on_both: "split_on sep (s @ sep # t) = split_on sep s @ split_on sep t"
proof (induction s)
  case (Cons c s)
  have "split_on sep s \<noteq> []" for s by (induction s) (auto split: list.split)
  then show ?case using Cons by (auto split: list.split)
qed simp

lemma join_split: "join_with [sep] (split_on sep s) = s"
proof (induction s)
  case (Cons c s)
  obtain p ps where "split_on sep s = p # ps" by (cases s; cases "split_on sep s") (auto split: if_splits list.splits)
  then show ?case using Cons by (cases ps) auto
qed simp

lemma Key_String_eq: "Key_String (NewKey t i p) = ''stats'' @ colon # t @ colon # i @ colon # show_int p"
  by (simp add: Key_String_def NewKey_def colon_def)

lemma key_roundtrip:
  assumes "no_colon i" "in64 p"
  shows "ParseKey_stat (Key_String (NewKey t i p)) = Some (NewKey t i p)"
proof -
  have one: "split_on colon s = [s]" if "no_colon s" for s using that by (simp add: no_colon_def split_on_none)
  obtain q qs where q: "split_on colon t = q # qs" by (cases t; cases "split_on colon t") (auto split: if_splits list.splits)
  have "split_on colon (''stats'' @ colon # t @ colon # i @ colon # show_int p) = ''stats'' # split_on colon t @ [i, show_int p]"
    using split_on_append [of colon "''stats''"] split_on_both [of colon t] split_on_both [of colon i] one [OF assms(1)] one [of "show_int p"]
    by (simp add: colon_def)
  then have s: "split_on colon (Key_String (NewKey t i p)) = ''stats'' # split_on colon t @ [i, show_int p]" by (simp only: Key_String_eq)
  show ?thesis unfolding ParseKey_stat_def colon_lit s using q assms(2) join_split [of colon t]
    by (simp add: Let_def nth_append atoi_show_int)
qed

lemma last_colon: "no_colon a \<Longrightarrow> no_colon b \<Longrightarrow> x @ colon # a = y @ colon # b \<Longrightarrow> x = y \<and> a = b"
proof (induction x arbitrary: y)
  case Nil
  then show ?case by (cases y) (auto simp: no_colon_def)
next
  case (Cons c x)
  then show ?case by (cases y) (auto simp: no_colon_def)
qed

lemma first_colon: "no_colon a \<Longrightarrow> no_colon b \<Longrightarrow> a @ colon # x = b @ colon # y \<Longrightarrow> a = b \<and> x = y"
proof (induction a arbitrary: b)
  case Nil
  then show ?case by (cases b) (auto simp: no_colon_def)
next
  case (Cons c a)
  then show ?case by (cases b) (auto simp: no_colon_def)
qed

text \<open>No type is another one and a colon, so a key tells its type.\<close>

lemma type_prefix:
  assumes "t \<in> set key_types" "t' \<in> set key_types" "t @ colon # u = t' @ colon # v"
  shows "t = t'"
  using assms by (auto simp: key_types_def key_type_defs colon_def)

lemma same_key:
  assumes "t \<in> set key_types" "t' \<in> set key_types" "t @ colon # u @ colon # show_int p = t' @ colon # v @ colon # show_int p'"
  shows "t = t' \<and> u = v \<and> p = p'"
proof -
  have "(t @ colon # u) @ colon # show_int p = (t' @ colon # v) @ colon # show_int p'" using assms(3) by simp
  have e: "t @ colon # u = t' @ colon # v" "show_int p = show_int p'"
    using last_colon [OF show_int_no_colon show_int_no_colon \<open>_ = (t' @ colon # v) @ colon # show_int p'\<close>] by auto
  have "p = p'" using e(2) by (rule show_int_inj)
  then show ?thesis using type_prefix [OF assms(1,2) e(1)] e(1) by simp
qed

section \<open>Patterns\<close>

text \<open>What the documentation of Redis says of a pattern in which only stars are special.\<close>

fun star_match :: "string \<Rightarrow> string \<Rightarrow> bool" where
  "star_match [] s = (s = [])"
| "star_match (c # p) s =
     (if c = CHR ''*'' then list_ex (\<lambda>k. star_match p (drop k s)) [0..<Suc (length s)]
      else case s of [] \<Rightarrow> False | d # s' \<Rightarrow> c = d \<and> star_match p s')"

definition plain_pattern :: "string \<Rightarrow> bool" where
  "plain_pattern p \<longleftrightarrow> set p \<inter> {CHR ''?'', CHR ''['', CHR 0x5C} = {}"

definition redis_ok :: "redis_env \<Rightarrow> bool" where
  "redis_ok env \<longleftrightarrow> (\<forall>p s. plain_pattern p \<longrightarrow> rd_glob env p s = star_match p s) \<and> enumerates (rd_keys env)
     \<and> (\<forall>n. \<bar>n\<bar> \<le> 2 ^ 53 \<longrightarrow> rd_number env (show_int n) = Some (of_int n) \<and> rd_arg env (of_int n) = Some n)"

lemma star_literal: "CHR ''*'' \<notin> set a \<Longrightarrow> star_match (a @ p) s \<longleftrightarrow> (\<exists>r. s = a @ r \<and> star_match p r)"
  by (induction a arbitrary: s) (auto split: list.splits)

lemma star_any: "star_match (CHR ''*'' # p) s \<longleftrightarrow> (\<exists>u v. s = u @ v \<and> star_match p v)"
proof
  assume "star_match (CHR ''*'' # p) s"
  then obtain k where "star_match p (drop k s)" by (auto simp: list_ex_iff simp del: upt_Suc)
  then show "\<exists>u v. s = u @ v \<and> star_match p v" using append_take_drop_id [of k s] by metis
next
  assume "\<exists>u v. s = u @ v \<and> star_match p v"
  then obtain u v where "s = u @ v" "star_match p v" by blast
  then show "star_match (CHR ''*'' # p) s" by (auto simp: list_ex_iff intro!: bexI [of _ "length u"])
qed

lemma star_exact: "CHR ''*'' \<notin> set a \<Longrightarrow> star_match a s \<longleftrightarrow> s = a"
  using star_literal [of a "[]" s] by simp

lemma starless [simp]: "CHR ''*'' \<notin> set (show_int i)" "t \<in> set key_types \<Longrightarrow> CHR ''*'' \<notin> set t"
proof -
  have "digit_char d \<noteq> CHR ''*''" if "d < 10" for d
    using digit_val_char [OF that] by (auto simp: digit_val_def Let_def)
  then have "CHR ''*'' \<notin> set (dec_nat n)" for n using dec_nat_set by metis
  then show "CHR ''*'' \<notin> set (show_int i)" by (simp add: show_int_def)
  show "t \<in> set key_types \<Longrightarrow> CHR ''*'' \<notin> set t" by (auto simp: key_types_def key_type_defs)
qed

lemma plain_parts [simp]: "plain_pattern (a @ b) \<longleftrightarrow> plain_pattern a \<and> plain_pattern b"
  "plain_pattern (c # a) \<longleftrightarrow> c \<notin> {CHR ''?'', CHR ''['', CHR 0x5C} \<and> plain_pattern a" "plain_pattern []"
  by (auto simp: plain_pattern_def)

lemma plain_int [simp]: "plain_pattern (show_int i)"
proof -
  have "digit_char d \<notin> {CHR ''?'', CHR ''['', CHR 0x5C}" if "d < 10" for d
    using digit_val_char [OF that] by (auto simp: digit_val_def Let_def)
  then have "plain_pattern (dec_nat n)" for n using dec_nat_set unfolding plain_pattern_def by fastforce
  then show ?thesis by (simp add: show_int_def)
qed

lemma plain_type: "t \<in> set key_types \<Longrightarrow> plain_pattern t"
  by (auto simp: key_types_def key_type_defs)

lemma type_not_empty: "t \<in> set key_types \<Longrightarrow> t \<noteq> []"
  by (auto simp: key_types_def key_type_defs)

text \<open>The pattern of a project and a type matches their keys on all instances and no other key.\<close>

lemma project_pattern:
  assumes "t \<in> set key_types" "p \<noteq> 0"
  shows "plain_pattern (Key_Pattern (NewKey t [] p))"
    and "t' \<in> set key_types \<Longrightarrow> star_match (Key_Pattern (NewKey t [] p)) (Key_String (NewKey t' i p')) \<longleftrightarrow> t' = t \<and> p' = p"
proof -
  have pat: "Key_Pattern (NewKey t [] p) = (''stats'' @ colon # t @ [colon]) @ CHR ''*'' # (colon # show_int p)"
    using assms type_not_empty by (simp add: Key_Pattern_def NewKey_def colon_def)
  show "plain_pattern (Key_Pattern (NewKey t [] p))" unfolding pat using assms(1) by (simp add: plain_type) (simp add: colon_def)
  have "star_match (Key_Pattern (NewKey t [] p)) s \<longleftrightarrow> (\<exists>u. s = ''stats'' @ colon # t @ colon # u @ colon # show_int p)" for s
  proof -
    have c: "CHR ''*'' \<notin> set (''stats'' @ colon # t @ [colon])" "CHR ''*'' \<notin> set (colon # show_int p)"
      using assms(1) by (auto simp: colon_def)
    show ?thesis unfolding pat star_literal [OF c(1)] star_any star_exact [OF c(2)] by auto
  qed
  then show "t' \<in> set key_types \<Longrightarrow> star_match (Key_Pattern (NewKey t [] p)) (Key_String (NewKey t' i p')) \<longleftrightarrow> t' = t \<and> p' = p"
    using same_key [of t' t i p' _ p] assms(1) unfolding Key_String_eq by auto
qed

text \<open>The pattern of an instance and a type matches their keys of all projects and no other key.\<close>

lemma instance_pattern:
  assumes "t \<in> set key_types" "i \<noteq> []" "no_colon i" "plain_pattern i" "CHR ''*'' \<notin> set i"
  shows "plain_pattern (Key_Pattern (NewKey t i 0))"
    and "t' \<in> set key_types \<Longrightarrow> no_colon i' \<Longrightarrow> star_match (Key_Pattern (NewKey t i 0)) (Key_String (NewKey t' i' p')) \<longleftrightarrow> t' = t \<and> i' = i"
proof -
  have pat: "Key_Pattern (NewKey t i 0) = (''stats'' @ colon # t @ colon # i @ [colon]) @ CHR ''*'' # []"
    using assms type_not_empty by (simp add: Key_Pattern_def NewKey_def colon_def)
  show "plain_pattern (Key_Pattern (NewKey t i 0))" unfolding pat using assms(1,4) by (simp add: plain_type) (simp add: colon_def)
  have c: "CHR ''*'' \<notin> set (''stats'' @ colon # t @ colon # i @ [colon])" using assms(1,5) by (auto simp: colon_def)
  have "star_match (Key_Pattern (NewKey t i 0)) s \<longleftrightarrow> (\<exists>u. s = ''stats'' @ colon # t @ colon # i @ colon # u)" for s
    unfolding pat star_literal [OF c(1)] star_any by auto
  moreover have "t' = t \<and> i' = i"
    if "t' \<in> set key_types" "no_colon i'" "t' @ colon # i' @ colon # show_int p' = t @ colon # i @ colon # u" for u
  proof -
    have t: "t' = t" using type_prefix [OF that(1) assms(1) that(3)] .
    then have "i' @ colon # show_int p' = i @ colon # u" using that(3) by simp
    then show ?thesis using t first_colon [OF that(2) assms(3)] by blast
  qed
  ultimately show "t' \<in> set key_types \<Longrightarrow> no_colon i' \<Longrightarrow>
      star_match (Key_Pattern (NewKey t i 0)) (Key_String (NewKey t' i' p')) \<longleftrightarrow> t' = t \<and> i' = i"
    unfolding Key_String_eq by auto
qed

section \<open>The store\<close>

text \<open>What the program leaves in Redis under \<open>stats:\<close>: numbers under keys of the known types and of instances whose name has no colon.\<close>

definition is_stat :: "string \<Rightarrow> string \<Rightarrow> bool" where
  "is_stat k v \<longleftrightarrow> (\<exists>t\<in>set key_types. \<exists>i p n. k = Key_String (NewKey t i p) \<and> no_colon i \<and> in64 p \<and> v = show_int n \<and> in64 n)"

definition stat_ok :: "redis_store \<Rightarrow> bool" where
  "stat_ok R \<longleftrightarrow> finite (dom R) \<and> (\<forall>k v. R k = Some v \<longrightarrow> take 6 k = ''stats:'' \<longrightarrow> is_stat k v)"

definition stat_at :: "redis_store \<Rightarrow> string \<Rightarrow> ulid \<Rightarrow> project_id \<Rightarrow> int option" where
  "stat_at R t i p = Option.bind (R (Key_String (NewKey t i p))) atoi"

lemma stat_ok_update:
  assumes "stat_ok R" "t \<in> set key_types" "no_colon i" "in64 p" "in64 n"
  shows "stat_ok (R(Key_String (NewKey t i p) \<mapsto> show_int n))"
  using assms by (auto simp: stat_ok_def is_stat_def)

lemma read_stats_get:
  "read_stats env R ks m s =
     (if s \<in> set ks then (case Option.bind (ParseKey_stat s) (\<lambda>k. repo_Get env k R) of Some v \<Rightarrow> Some v | None \<Rightarrow> m s) else m s)"
  by (induction ks arbitrary: m) (auto split: option.splits)

lemma sum_fold:
  "m t = Some (i64 a) \<Longrightarrow> fold (\<lambda>s m. m(t \<mapsto> i64 (the (m t) + f s))) xs m = m(t \<mapsto> i64 (a + sum_list (List.map f xs)))"
proof (induction xs arbitrary: m a)
  case (Cons x xs)
  have "(m(t \<mapsto> i64 (the (m t) + f x))) t = Some (i64 (a + f x))" using Cons.prems by (simp)
  from Cons.IH [of "m(t \<mapsto> i64 (the (m t) + f x))" "a + f x", OF this] show ?case by (simp add: add.assoc del: fun_upd_apply)
qed auto

text \<open>The value of the summary for one type.\<close>

definition type_sum :: "redis_env \<Rightarrow> string \<Rightarrow> project_id \<Rightarrow> redis_store \<Rightarrow> int" where
  "type_sum env t p R =
     (case svc_GetByPattern env (Key_Pattern (NewKey t [] p)) R of
        None \<Rightarrow> 0 | Some stats \<Rightarrow> i64 (sum_list (List.map (\<lambda>s. the (stats s)) (rd_keys env (dom stats)))))"

lemma summary_step:
  "(let summary = m(t \<mapsto> 0)
    in case svc_GetByPattern env (Key_Pattern (NewKey t [] p)) R of
         None \<Rightarrow> summary
       | Some stats \<Rightarrow> fold (\<lambda>s summary. summary(t \<mapsto> i64 (the (summary t) + the (stats s)))) (rd_keys env (dom stats)) summary)
   = m(t \<mapsto> type_sum env t p R)"
proof (cases "svc_GetByPattern env (Key_Pattern (NewKey t [] p)) R")
  case (Some stats)
  have "(m(t \<mapsto> 0)) t = Some (i64 0)" by (simp add: in64_def)
  from sum_fold [of "m(t \<mapsto> 0)" t 0, OF this] show ?thesis using Some by (simp add: type_sum_def Let_def)
qed (simp add: type_sum_def)

lemma GetSummary_types: "GetSummary env p R t = (if t \<in> set key_types then Some (type_sum env t p R) else None)"
proof -
  have "fold (\<lambda>t m. m(t \<mapsto> f t)) ts m t = (if t \<in> set ts then Some (f t) else m t)" for f :: "string \<Rightarrow> int" and ts m
    by (induction ts arbitrary: m) auto
  then show ?thesis unfolding GetSummary_def summary_step by simp
qed

lemma pattern_starts:
  assumes "t \<in> set key_types" "star_match (Key_Pattern (NewKey t i p)) k"
  shows "take 6 k = ''stats:''"
proof -
  have e: "Key_Pattern (NewKey t i p) = ''stats:'' @ drop 6 (Key_Pattern (NewKey t i p))"
    using type_not_empty [OF assms(1)] by (simp add: Key_Pattern_def NewKey_def)
  have c: "CHR ''*'' \<notin> set ''stats:''" by simp
  obtain r where "k = ''stats:'' @ r" using assms(2) star_literal [OF c, of "drop 6 (Key_Pattern (NewKey t i p))" k] e by metis
  then show ?thesis by simp
qed

lemma stat_at_some:
  assumes "stat_ok R" "R k = Some v" "take 6 k = ''stats:''"
  obtains t i p n where "t \<in> set key_types" "k = Key_String (NewKey t i p)" "no_colon i" "in64 p" "stat_at R t i p = Some n"
proof -
  obtain t i p n where "t \<in> set key_types" "k = Key_String (NewKey t i p)" "no_colon i" "in64 p" "v = show_int n" "in64 n"
    using assms unfolding stat_ok_def is_stat_def by blast
  then show ?thesis using that assms(2) by (simp add: stat_at_def atoi_show_int)
qed

lemma redis_okD:
  assumes "redis_ok env"
  shows "plain_pattern p \<Longrightarrow> rd_glob env p s = star_match p s"
    and "finite S \<Longrightarrow> set (rd_keys env S) = S" "finite S \<Longrightarrow> distinct (rd_keys env S)"
  using assms by (auto simp: redis_ok_def enumerates_def)

lemma project_keys:
  assumes "redis_ok env" "stat_ok R" "p \<noteq> 0" "t \<in> set key_types"
  shows "{k \<in> dom R. rd_glob env (Key_Pattern (NewKey t [] p)) k} =
    (\<lambda>i. Key_String (NewKey t i p)) ` {i. no_colon i \<and> stat_at R t i p \<noteq> None}" (is "?L = ?key ` ?I")
proof (intro equalityI subsetI)
  note glob = redis_okD(1) [OF assms(1) project_pattern(1) [OF assms(4,3)]]
  fix k assume "k \<in> ?L"
  then obtain v where v: "R k = Some v" "star_match (Key_Pattern (NewKey t [] p)) k" using glob by auto
  obtain t' i p' n where s: "t' \<in> set key_types" "k = Key_String (NewKey t' i p')" "no_colon i" "stat_at R t' i p' = Some n"
    by (rule stat_at_some [OF assms(2) v(1) pattern_starts [OF assms(4) v(2)]])
  then have "t' = t \<and> p' = p" using project_pattern(2) [OF assms(4,3) s(1)] v(2) by simp
  then show "k \<in> ?key ` ?I" using s by blast
next
  note glob = redis_okD(1) [OF assms(1) project_pattern(1) [OF assms(4,3)]]
  fix k assume "k \<in> ?key ` ?I"
  then obtain i where i: "k = ?key i" "stat_at R t i p \<noteq> None" by blast
  then have "R k \<noteq> None" by (cases "R k") (auto simp: stat_at_def)
  then show "k \<in> ?L" using glob project_pattern(2) [OF assms(4,3,4)] i(1) by auto
qed

text \<open>The summary of a project is exact: for each of the eight statistics it is the sum of the values of all instances, whichever
  order Redis lists the keys in, and nothing of another project or another statistic gets in.\<close>

lemma summary_exact:
  assumes "redis_ok env" "\<And>k. \<not> rd_fails env k" "stat_ok R" "in64 p" "p \<noteq> 0" "t \<in> set key_types"
  shows "GetSummary env p R t = Some (i64 (\<Sum>i | no_colon i \<and> stat_at R t i p \<noteq> None. the (stat_at R t i p)))"
proof -
  let ?pat = "Key_Pattern (NewKey t [] p)"
  let ?key = "\<lambda>i. Key_String (NewKey t i p)"
  let ?I = "{i. no_colon i \<and> stat_at R t i p \<noteq> None}"
  note enum = redis_okD(2,3) [OF assms(1)]
  note dom = project_keys [OF assms(1,3,5,6)]
  have inj: "inj_on ?key ?I" using same_key [OF assms(6,6)] by (auto simp: inj_on_def Key_String_eq)
  have fin: "finite (?key ` ?I)" using assms(3) unfolding dom [symmetric] by (simp add: stat_ok_def)
  define st where "st = read_stats env R (matching env ?pat R) Map.empty"
  have m: "set (matching env ?pat R) = ?key ` ?I" unfolding matching_def dom by (rule enum(1) [OF fin])
  have stats: "st (?key i) = stat_at R t i p" if "i \<in> ?I" for i
  proof -
    have "?key i \<in> set (matching env ?pat R)" unfolding m using that by (rule imageI)
    moreover have "ParseKey_stat (?key i) = Some (NewKey t i p)" using that key_roundtrip assms(4) by simp
    ultimately show ?thesis using assms(2)
      by (simp add: st_def read_stats_get repo_Get_def stat_at_def split: option.split)
  qed
  have "dom st \<subseteq> set (matching env ?pat R)" by (auto simp: st_def read_stats_get split: if_splits)
  moreover have "k \<in> dom st" if k: "k \<in> ?key ` ?I" for k
  proof -
    obtain i where "k = ?key i" "i \<in> ?I" using k by (rule imageE)
    then show ?thesis using stats by (simp add: domIff)
  qed
  ultimately have d: "dom st = ?key ` ?I" unfolding m by blast
  have "sum_list (List.map (\<lambda>s. the (st s)) (rd_keys env (?key ` ?I))) = (\<Sum>s\<in>?key ` ?I. the (st s))"
    by (simp only: sum.distinct_set_conv_list [OF enum(2) [OF fin], symmetric] enum(1) [OF fin])
  also have "\<dots> = (\<Sum>i\<in>?I. the (st (?key i)))" by (rule sum.reindex [OF inj, unfolded comp_def])
  also have "\<dots> = (\<Sum>i\<in>?I. the (stat_at R t i p))" by (rule sum.cong [OF refl]) (simp only: stats)
  finally have "type_sum env t p R = i64 (\<Sum>i\<in>?I. the (stat_at R t i p))"
    using assms(2) by (simp add: type_sum_def svc_GetByPattern_def repo_GetByPattern_def st_def [symmetric] d)
  then show ?thesis using assms(6) by (simp add: GetSummary_types)
qed

text \<open>A server on which the documentation holds, and a store of two instances and two projects.\<close>

definition sample_redis :: redis_env where
  "sample_redis = \<lparr>rd_fails = (\<lambda>_. False), rd_glob = star_match, rd_keys = sorted_list_of_set,
     rd_number = (\<lambda>s. map_option of_int (atoi s)), rd_arg = (\<lambda>x. if x = of_int (floor x) then Some (floor x) else None), rd_unpack = 8000\<rparr>"

lemma sample_redis_ok: "redis_ok sample_redis"
proof -
  have "in64 n" if "\<bar>n\<bar> \<le> 2 ^ 53" for n :: int using that by (auto simp: in64_def)
  then show ?thesis by (simp add: redis_ok_def sample_redis_def enumerates_def atoi_show_int)
qed

definition sample_store :: redis_store where
  "sample_store = [Key_String (NewKey KeyConnection ''a'' 7) \<mapsto> show_int 2, Key_String (NewKey KeyConnection ''b'' 7) \<mapsto> show_int 3,
     Key_String (NewKey KeyConnection ''a'' 17) \<mapsto> show_int 5, ''lock'' \<mapsto> ''x'']"

lemma sample_store_ok: "stat_ok sample_store"
proof -
  have "stat_ok [''lock'' \<mapsto> ''x'']" by (simp add: stat_ok_def)
  from stat_ok_update [OF stat_ok_update [OF stat_ok_update [OF this, of KeyConnection "''a''" 7 2], of KeyConnection "''b''" 7 3],
      of KeyConnection "''a''" 17 5]
  have "stat_ok ([''lock'' \<mapsto> ''x''](Key_String (NewKey KeyConnection ''a'' 7) \<mapsto> show_int 2, Key_String (NewKey KeyConnection ''b'' 7) \<mapsto> show_int 3,
     Key_String (NewKey KeyConnection ''a'' 17) \<mapsto> show_int 5))"
    by (simp add: key_types_def no_colon_def colon_def in64_def)
  moreover have "[''lock'' \<mapsto> ''x''](Key_String (NewKey KeyConnection ''a'' 7) \<mapsto> show_int 2, Key_String (NewKey KeyConnection ''b'' 7) \<mapsto> show_int 3,
     Key_String (NewKey KeyConnection ''a'' 17) \<mapsto> show_int 5) = sample_store"
    by (auto simp: sample_store_def Key_String_eq fun_eq_iff)
  ultimately show ?thesis by simp
qed

section \<open>Counting down\<close>

lemma number_read: "redis_ok env \<Longrightarrow> \<bar>n\<bar> \<le> 2 ^ 53 \<Longrightarrow> rd_number env (show_int n) = Some (of_int n)"
  by (simp add: redis_ok_def)

lemma redis_int_show: "in64 n \<Longrightarrow> redis_int (show_int n) = Some n"
  by (simp add: redis_int_def atoi_show_int)

text \<open>Counting down stops at zero.  For a statistic within the numbers Lua represents exactly, \<open>DecrBy\<close> succeeds and leaves
  the difference, or zero when it would be negative or the statistic does not exist, and \<open>Decr\<close> is the same for one
  except that it leaves a missing statistic missing.\<close>

lemma decr_floor:
  assumes "redis_ok env" "\<not> rd_fails env (Key_String k)" "0 \<le> d" "d \<le> 2 ^ 53"
    and "case R (Key_String k) of None \<Rightarrow> n = 0 | Some v \<Rightarrow> v = show_int n \<and> 0 \<le> n \<and> n \<le> 2 ^ 53"
  shows "repo_DecrBy env k d R = (True, R(Key_String k \<mapsto> show_int (max 0 (n - d))))
    \<and> repo_Decr env k R = (True, if R (Key_String k) = None then R else R(Key_String k \<mapsto> show_int (max 0 (n - 1))))"
proof (cases "R (Key_String k)")
  case None
  then show ?thesis using assms by (simp add: repo_DecrBy_def repo_Decr_def lua_decr_def)
next
  case (Some v)
  then have v: "v = show_int n" "0 \<le> n" "n \<le> 2 ^ 53" using assms(5) by auto
  have i: "in64 n" "in64 d" "in64 (n - d)" "in64 (n - 1)" "in64 (- d)" "in64 (- 1)" using v assms(3,4) by (auto simp: in64_def)
  have x: "rd_number env (show_int n) = Some (of_int n)" "rd_number env (show_int d) = Some (of_int d)"
    using v assms(3,4) by (auto intro!: number_read [OF assms(1)])
  have z: "R(Key_String k \<mapsto> show_int 0) = R" if "n = 0" using Some v(1) that by (auto simp: fun_eq_iff)
  show ?thesis using Some v i x z assms(2)
    by (auto simp: repo_DecrBy_def repo_Decr_def lua_decr_def Let_def rd_decrby_def rd_incrby_def redis_int_show max_def)
qed

text \<open>A batch of decrements by amounts goes wrong from its second operation on.  The script steps through the amounts two at a time and
  through the keys one at a time, so of three decrements on three counters the first is carried out, the second counter is lowered by the
  third amount, and the third counter is left alone.\<close>

lemma batch_decr_by_wrong:
  assumes "redis_ok env" "\<And>k. \<not> rd_fails env k" "distinct [Key_String k1, Key_String k2, Key_String k3]"
    and "\<forall>n\<in>{n1, n2, n3, d1, d2, d3}. 0 \<le> n \<and> n \<le> 2 ^ 53"
    and "R (Key_String k1) = Some (show_int n1)" "R (Key_String k2) = Some (show_int n2)" "R (Key_String k3) = Some (show_int n3)"
  shows "repo_BatchDecrBy env [(k1, d1), (k2, d2), (k3, d3)] R =
    (True, R(Key_String k1 \<mapsto> show_int (max 0 (n1 - d1)), Key_String k2 \<mapsto> show_int (max 0 (n2 - d3))))"
proof -
  have step: "lua_decr_by env (k, show_int d) S = (True, S(k \<mapsto> show_int (max 0 (n - d))))"
    if "0 \<le> n" "n \<le> 2 ^ 53" "0 \<le> d" "d \<le> 2 ^ 53" "S k = Some (show_int n)" for k d n S
  proof -
    have i: "in64 n" "in64 (n - d)" "in64 (- d)" using that by (auto simp: in64_def)
    have x: "rd_number env (show_int n) = Some (of_int n)" "rd_number env (show_int d) = Some (of_int d)" "rd_arg env (of_int d) = Some d"
      using that assms(1) by (auto simp: redis_ok_def)
    show ?thesis using that(5) i x by (auto simp: lua_decr_by_def rd_decrby_def rd_incrby_def redis_int_show max_def)
  qed
  have 1: "lua_decr_by env (Key_String k1, show_int d1) R = (True, R(Key_String k1 \<mapsto> show_int (max 0 (n1 - d1))))"
    by (rule step) (use assms in auto)
  have 2: "lua_decr_by env (Key_String k2, show_int d3) (R(Key_String k1 \<mapsto> show_int (max 0 (n1 - d1))))
      = (True, R(Key_String k1 \<mapsto> show_int (max 0 (n1 - d1)), Key_String k2 \<mapsto> show_int (max 0 (n2 - d3))))"
    by (rule step) (use assms in auto)
  show ?thesis using assms(2) by (simp add: repo_BatchDecrBy_def Let_def 1 2)
qed

end
