(* ===== verification/Instance.thy ===== *)
theory Instance
  imports Realtime Validation
begin

text \<open>
  The servers of a cluster: \<open>internal/domain/cluster/instance\<close>, its repository
  (\<open>internal/infrastructure/repository/cluster/instance\<close>) and service
  (\<open>internal/application/service/cluster/instance/service.go\<close>): registration, heartbeats and taking stale instances
  out, with the statistics of \<open>Realtime\<close>.  The fields of the cluster and VM names are grouped in one record.
\<close>

section \<open>The model\<close>

definition InstanceActive :: string where "InstanceActive = ''active''"
definition InstanceInactive :: string where "InstanceInactive = ''inactive''"

record inst_names =
  in_ClusterScope :: string
  in_ClusterEnv :: string
  in_ClusterRegion :: string
  in_ClusterZone :: string
  in_VMScope :: string
  in_VMEnv :: string
  in_VMRegion :: string
  in_VMZone :: string
  in_VMRole :: string
  in_VMSeq :: string

record server_instance =
  si_ID :: int
  si_InstanceID :: ulid
  si_Names :: inst_names
  si_Status :: string
  si_CreatedAt :: time
  si_UpdatedAt :: time

definition no_names :: inst_names where
  "no_names = \<lparr>in_ClusterScope = [], in_ClusterEnv = [], in_ClusterRegion = [], in_ClusterZone = [], in_VMScope = [], in_VMEnv = [],
     in_VMRegion = [], in_VMZone = [], in_VMRole = [], in_VMSeq = []\<rparr>"

text \<open>The validators collect the violations and then return no error.\<close>

definition ValidateCreate_instance :: "ulid \<Rightarrow> inst_names \<Rightarrow> rules + unit" where
  "ValidateCreate_instance i n =
     (let r = Required (RString i) ''instanceID'' NewRules;
          r = Required (RString (in_ClusterScope n)) ''clusterScope'' r;
          r = Required (RString (in_ClusterEnv n)) ''clusterEnv'' r;
          r = Required (RString (in_ClusterRegion n)) ''clusterRegion'' r;
          r = Required (RString (in_ClusterZone n)) ''clusterZone'' r;
          r = Required (RString (in_VMScope n)) ''vmScope'' r;
          r = Required (RString (in_VMEnv n)) ''vmEnv'' r;
          r = Required (RString (in_VMRegion n)) ''vmRegion'' r;
          r = Required (RString (in_VMZone n)) ''vmZone'' r;
          r = Required (RString (in_VMRole n)) ''vmRole'' r;
          r = Required (RString (in_VMSeq n)) ''vmSeq'' r
      in Inr ())"

definition ValidateUpdate_instance :: "string \<Rightarrow> rules + unit" where
  "ValidateUpdate_instance st =
     (let r = (if st \<noteq> [] then In_rule st [InstanceActive, InstanceInactive] ''status'' NewRules else NewRules) in Inr ())"

definition Create_instance :: "time \<Rightarrow> ulid \<Rightarrow> inst_names \<Rightarrow> rules + server_instance" where
  "Create_instance now i n =
     (case ValidateCreate_instance i n of
        Inl e \<Rightarrow> Inl e
      | Inr _ \<Rightarrow> Inr \<lparr>si_ID = 0, si_InstanceID = i, si_Names = n, si_Status = InstanceActive, si_CreatedAt = now, si_UpdatedAt = now\<rparr>)"

definition newer :: "string \<Rightarrow> string \<Rightarrow> string" where
  "newer new old = (if new \<noteq> [] then new else old)"

definition update_names :: "inst_names \<Rightarrow> inst_names \<Rightarrow> inst_names" where
  "update_names p n =
     \<lparr>in_ClusterScope = newer (in_ClusterScope p) (in_ClusterScope n), in_ClusterEnv = newer (in_ClusterEnv p) (in_ClusterEnv n),
      in_ClusterRegion = newer (in_ClusterRegion p) (in_ClusterRegion n), in_ClusterZone = newer (in_ClusterZone p) (in_ClusterZone n),
      in_VMScope = newer (in_VMScope p) (in_VMScope n), in_VMEnv = newer (in_VMEnv p) (in_VMEnv n),
      in_VMRegion = newer (in_VMRegion p) (in_VMRegion n), in_VMZone = newer (in_VMZone p) (in_VMZone n),
      in_VMRole = newer (in_VMRole p) (in_VMRole n), in_VMSeq = newer (in_VMSeq p) (in_VMSeq n)\<rparr>"

definition Update_instance :: "time \<Rightarrow> inst_names \<Rightarrow> string \<Rightarrow> server_instance \<Rightarrow> rules + server_instance" where
  "Update_instance now n st i =
     (case ValidateUpdate_instance st of
        Inl e \<Rightarrow> Inl e
      | Inr _ \<Rightarrow> Inr (i\<lparr>si_Names := update_names n (si_Names i), si_Status := newer st (si_Status i), si_UpdatedAt := now\<rparr>))"

definition IsActive_instance :: "server_instance \<Rightarrow> bool" where
  "IsActive_instance i \<longleftrightarrow> si_Status i = InstanceActive"

definition ClusterName_instance :: "server_instance \<Rightarrow> string" where
  "ClusterName_instance i = (let n = si_Names i
     in in_ClusterScope n @ ''-'' @ in_ClusterEnv n @ ''-'' @ in_ClusterRegion n @ in_ClusterZone n)"

definition VMName_instance :: "server_instance \<Rightarrow> string" where
  "VMName_instance i = (let n = si_Names i
     in in_VMScope n @ ''-'' @ in_VMEnv n @ ''-'' @ in_VMRegion n @ in_VMZone n @ ''-'' @ in_VMRole n @ ''-'' @ in_VMSeq n)"

section \<open>The repository\<close>

datatype inst_error = InstanceInvalid rules | InstanceNotFound | InstanceDuplicate | InstanceDB

record inst_env =
  ie_self :: ulid
  ie_config :: inst_names
  ie_timeout :: int
  ie_now :: time
  ie_nextID :: int
  ie_find :: bool
  ie_create :: bool
  ie_update :: "ulid \<Rightarrow> bool"
  ie_list :: bool
  ie_redis :: redis_env

definition Create_instrow :: "inst_env \<Rightarrow> server_instance \<Rightarrow> server_instance list \<Rightarrow> (inst_error + int) \<times> server_instance list" where
  "Create_instrow env i rows =
     (if \<not> ie_create env then (Inl InstanceDB, rows)
      else if list_ex (\<lambda>r. si_InstanceID r = si_InstanceID i) rows then (Inl InstanceDuplicate, rows)
      else (Inr (ie_nextID env), rows @ [i\<lparr>si_ID := ie_nextID env\<rparr>]))"

definition Update_instrow :: "inst_env \<Rightarrow> server_instance \<Rightarrow> server_instance list \<Rightarrow> (inst_error + unit) \<times> server_instance list" where
  "Update_instrow env i rows =
     (if \<not> ie_update env (si_InstanceID i) then (Inl InstanceDB, rows) else (Inr (), save_row si_ID i rows))"

definition Delete_instrow :: "inst_env \<Rightarrow> server_instance \<Rightarrow> server_instance list \<Rightarrow> (inst_error + unit) \<times> server_instance list" where
  "Delete_instrow env i rows =
     (if \<not> ie_update env (si_InstanceID i) then (Inl InstanceDB, rows)
      else (Inr (), List.filter (\<lambda>r. si_ID r \<noteq> si_ID i) rows))"

definition FindByID_inst :: "inst_env \<Rightarrow> int \<Rightarrow> server_instance list \<Rightarrow> inst_error + server_instance" where
  "FindByID_inst env k rows =
     (if \<not> ie_find env then Inl InstanceDB
      else case List.find (\<lambda>r. si_ID r = k) rows of None \<Rightarrow> Inl InstanceNotFound | Some r \<Rightarrow> Inr r)"

definition FindByInstanceID :: "inst_env \<Rightarrow> ulid \<Rightarrow> server_instance list \<Rightarrow> inst_error + server_instance" where
  "FindByInstanceID env i rows =
     (if \<not> ie_find env then Inl InstanceDB
      else case List.find (\<lambda>r. si_InstanceID r = i) rows of None \<Rightarrow> Inl InstanceNotFound | Some r \<Rightarrow> Inr r)"

definition ListActive_inst :: "inst_env \<Rightarrow> server_instance list \<Rightarrow> inst_error + server_instance list" where
  "ListActive_inst env rows =
     (if \<not> ie_list env then Inl InstanceDB else Inr (List.filter (\<lambda>r. si_Status r = InstanceActive) rows))"

definition ListStale_inst :: "inst_env \<Rightarrow> time \<Rightarrow> server_instance list \<Rightarrow> inst_error + server_instance list" where
  "ListStale_inst env threshold rows =
     (if \<not> ie_list env then Inl InstanceDB
      else Inr (List.filter (\<lambda>r. si_Status r = InstanceActive \<and> si_UpdatedAt r < threshold) rows))"

section \<open>The service\<close>

record inst_state =
  is_rows :: "server_instance list"
  is_redis :: redis_store

definition Get_instance :: "inst_env \<Rightarrow> inst_state \<Rightarrow> inst_error + server_instance" where
  "Get_instance env s = FindByInstanceID env (ie_self env) (is_rows s)"

definition update_and_save ::
    "inst_env \<Rightarrow> inst_names \<Rightarrow> string \<Rightarrow> server_instance \<Rightarrow> inst_state \<Rightarrow> (inst_error + unit) \<times> inst_state" where
  "update_and_save env n st i s =
     (case Update_instance (ie_now env) n st i of
        Inl e \<Rightarrow> (Inl (InstanceInvalid e), s)
      | Inr i \<Rightarrow> (case Update_instrow env i (is_rows s) of (r, rows) \<Rightarrow> (r, s\<lparr>is_rows := rows\<rparr>)))"

text \<open>A lookup that fails, for whatever reason, leads to the creation of a row.\<close>

definition Register_instance :: "inst_env \<Rightarrow> inst_state \<Rightarrow> (inst_error + unit) \<times> inst_state" where
  "Register_instance env s =
     (case Get_instance env s of
        Inr existing \<Rightarrow> update_and_save env (ie_config env) InstanceActive existing s
      | Inl _ \<Rightarrow>
          (case Create_instance (ie_now env) (ie_self env) (ie_config env) of
             Inl e \<Rightarrow> (Inl (InstanceInvalid e), s)
           | Inr i \<Rightarrow>
               (case Create_instrow env i (is_rows s) of
                  (Inl e, rows) \<Rightarrow> (Inl e, s\<lparr>is_rows := rows\<rparr>)
                | (Inr _, rows) \<Rightarrow> (Inr (), s\<lparr>is_rows := rows\<rparr>))))"

definition Heartbeat_instance :: "inst_env \<Rightarrow> inst_state \<Rightarrow> (inst_error + unit) \<times> inst_state" where
  "Heartbeat_instance env s =
     (case Get_instance env s of
        Inl e \<Rightarrow> (Inl e, s)
      | Inr i \<Rightarrow> update_and_save env no_names InstanceActive i s)"

text \<open>The statistics that are reset are those of the instance that runs, \<open>s.instanceID\<close>.\<close>

definition cleanupInstanceResources :: "inst_env \<Rightarrow> redis_store \<Rightarrow> redis_store" where
  "cleanupInstanceResources env R =
     fold (\<lambda>t R. snd (repo_ResetByPattern (ie_redis env) (Key_Pattern (NewKey t (ie_self env) 0)) R))
       [KeyConnection, KeyChannel, KeySubscriber] R"

definition Deregister_instance :: "inst_env \<Rightarrow> inst_state \<Rightarrow> (inst_error + unit) \<times> inst_state" where
  "Deregister_instance env s =
     (case Get_instance env s of
        Inl e \<Rightarrow> (Inl e, s)
      | Inr i \<Rightarrow>
          (case update_and_save env no_names InstanceInactive i s of
             (Inl e, s) \<Rightarrow> (Inl e, s)
           | (Inr _, s) \<Rightarrow> (Inr (), s\<lparr>is_redis := cleanupInstanceResources env (is_redis s)\<rparr>)))"

fun deregister_loop :: "inst_env \<Rightarrow> server_instance list \<Rightarrow> nat \<Rightarrow> inst_state \<Rightarrow> (inst_error + nat) \<times> inst_state" where
  "deregister_loop env [] n s = (Inr n, s)"
| "deregister_loop env (i # is) n s =
     (case update_and_save env no_names InstanceInactive i s of
        (Inl (InstanceInvalid e), s) \<Rightarrow> (Inl (InstanceInvalid e), s)
      | (Inl _, s) \<Rightarrow> deregister_loop env is n s
      | (Inr _, s) \<Rightarrow> deregister_loop env is (Suc n) (s\<lparr>is_redis := cleanupInstanceResources env (is_redis s)\<rparr>))"

definition stale_threshold :: "inst_env \<Rightarrow> time" where
  "stale_threshold env = ie_now env - i64 (ie_timeout env * second)"

definition CleanupStaleInstances :: "inst_env \<Rightarrow> inst_state \<Rightarrow> (inst_error + nat) \<times> inst_state" where
  "CleanupStaleInstances env s =
     (case ListStale_inst env (stale_threshold env) (is_rows s) of
        Inl e \<Rightarrow> (Inl e, s)
      | Inr found \<Rightarrow> if length found = 0 then (Inr 0, s) else deregister_loop env found 0 s)"

section \<open>Properties\<close>

lemma update_ok:
  "Update_instance now n st i = Inr (i\<lparr>si_Names := update_names n (si_Names i), si_Status := newer st (si_Status i), si_UpdatedAt := now\<rparr>)"
  by (simp add: Update_instance_def ValidateUpdate_instance_def Let_def)

lemma keep_names [simp]: "update_names no_names n = n" "newer InstanceActive s = InstanceActive" "newer InstanceInactive s = InstanceInactive"
  by (simp_all add: update_names_def no_names_def newer_def InstanceActive_def InstanceInactive_def)

definition inst_inv :: "server_instance list \<Rightarrow> bool" where
  "inst_inv rows \<longleftrightarrow> distinct (List.map si_ID rows) \<and> distinct (List.map si_InstanceID rows)"

lemma inst_inv_save:
  assumes "inst_inv rows" "i \<in> set rows" "si_ID i' = si_ID i" "si_InstanceID i' = si_InstanceID i"
  shows "inst_inv (save_row si_ID i' rows)"
proof -
  have id: "si_ID i' \<in> si_ID ` set rows" using assms(2,3) by simp
  have u: "r = i" if "r \<in> set rows" "si_ID r = si_ID i'" for r
    using assms(1-3) that key_unique [of si_ID rows r i] by (auto simp: inst_inv_def)
  have "List.map si_InstanceID (save_row si_ID i' rows) = List.map si_InstanceID rows"
    unfolding save_row_def using id u assms(4) by (auto intro!: update_where_map)
  then show ?thesis using assms(1) save_row_keys [of si_ID rows i'] by (simp add: inst_inv_def)
qed

lemma found_instance:
  assumes "inst_inv (is_rows s)" "Get_instance env s = Inr i"
  shows "i \<in> set (is_rows s)" "si_InstanceID i = ie_self env"
  using assms by (auto simp: Get_instance_def FindByInstanceID_def split: if_splits option.splits dest: find_SomeD)

text \<open>Registration leaves exactly one row for the instance, and it is active.  Whether the instance is new or was there
  before, after a successful registration the table has one row with its identifier, of status \<open>active\<close>, with the names of the
  configuration wherever they are not empty, stamped now; the rows of the other instances are untouched.\<close>

lemma register_one_row:
  assumes "inst_inv (is_rows s)" "ie_nextID env \<notin> si_ID ` set (is_rows s)" "Register_instance env s = (Inr (), s')"
  shows "inst_inv (is_rows s')
    \<and> (\<exists>i. {r \<in> set (is_rows s'). si_InstanceID r = ie_self env} = {i} \<and> IsActive_instance i \<and> si_UpdatedAt i = ie_now env
         \<and> (\<exists>old. si_Names i = update_names (ie_config env) old))
    \<and> {r \<in> set (is_rows s'). si_InstanceID r \<noteq> ie_self env} = {r \<in> set (is_rows s). si_InstanceID r \<noteq> ie_self env}"
proof (cases "Get_instance env s")
  case (Inr i)
  let ?i = "i\<lparr>si_Names := update_names (ie_config env) (si_Names i), si_Status := InstanceActive, si_UpdatedAt := ie_now env\<rparr>"
  note f = found_instance [OF assms(1) Inr]
  have s': "is_rows s' = save_row si_ID ?i (is_rows s)"
    using assms(3) Inr by (auto simp: Register_instance_def update_and_save_def update_ok Update_instrow_def split: if_splits)
  have u: "r = i" if "r \<in> set (is_rows s)" "si_ID r = si_ID i \<or> si_InstanceID r = si_InstanceID i" for r
    using assms(1) f(1) that key_unique [of si_ID "is_rows s" r i] key_unique [of si_InstanceID "is_rows s" r i] by (auto simp: inst_inv_def)
  have mem: "r \<in> set (save_row si_ID ?i (is_rows s)) \<longleftrightarrow> r = ?i \<or> r \<in> set (is_rows s) \<and> r \<noteq> i" for r
    using set_save_row [of r si_ID ?i "is_rows s"] other_save_row [of r "is_rows s" si_ID ?i] in_save_row [of ?i si_ID "is_rows s"] u by auto
  have "inst_inv (is_rows s')" unfolding s' by (rule inst_inv_save [OF assms(1) f(1)]) simp_all
  moreover have "{r \<in> set (is_rows s'). si_InstanceID r = ie_self env} = {?i}" unfolding s' using mem f(2) u by auto
  moreover have "{r \<in> set (is_rows s'). si_InstanceID r \<noteq> ie_self env} = {r \<in> set (is_rows s). si_InstanceID r \<noteq> ie_self env}"
    unfolding s' using mem f(2) by auto
  moreover have "IsActive_instance ?i \<and> si_UpdatedAt ?i = ie_now env \<and> (\<exists>old. si_Names ?i = update_names (ie_config env) old)"
    by (auto simp: IsActive_instance_def)
  ultimately show ?thesis by blast
next
  case (Inl e)
  let ?i = "\<lparr>si_ID = ie_nextID env, si_InstanceID = ie_self env, si_Names = ie_config env, si_Status = InstanceActive,
    si_CreatedAt = ie_now env, si_UpdatedAt = ie_now env\<rparr>"
  have s': "is_rows s' = is_rows s @ [?i]" and new: "ie_self env \<notin> si_InstanceID ` set (is_rows s)"
    using assms(3) Inl by (auto simp: Register_instance_def Create_instance_def ValidateCreate_instance_def Create_instrow_def Let_def
        list_ex_iff split: if_splits sum.splits)
  have "inst_inv (is_rows s')" using assms(1,2) new unfolding s' by (simp add: inst_inv_def)
  moreover have "{r \<in> set (is_rows s'). si_InstanceID r = ie_self env} = {?i}" unfolding s' using new by (auto simp: image_iff)
  moreover have "{r \<in> set (is_rows s'). si_InstanceID r \<noteq> ie_self env} = {r \<in> set (is_rows s). si_InstanceID r \<noteq> ie_self env}"
    unfolding s' by auto
  moreover have "si_Names ?i = update_names (ie_config env) no_names"
    by (simp add: update_names_def newer_def no_names_def)
  moreover have "IsActive_instance ?i \<and> si_UpdatedAt ?i = ie_now env" by (simp add: IsActive_instance_def)
  ultimately show ?thesis by blast
qed

section \<open>Stale instances\<close>

definition good_instance :: "ulid \<Rightarrow> bool" where
  "good_instance i \<longleftrightarrow> i \<noteq> [] \<and> no_colon i \<and> plain_pattern i \<and> CHR ''*'' \<notin> set i"

lemma reset_exact:
  assumes "redis_ok re" "\<And>k. \<not> rd_fails re k" "stat_ok R" "card (dom R) \<le> rd_unpack re" "good_instance i" "t \<in> set key_types"
  defines "R' \<equiv> snd (repo_ResetByPattern re (Key_Pattern (NewKey t i 0)) R)"
  shows "stat_ok R'" "card (dom R') \<le> rd_unpack re"
    and "t' \<in> set key_types \<Longrightarrow> no_colon i' \<Longrightarrow> stat_at R' t' i' p = (if t' = t \<and> i' = i then None else stat_at R t' i' p)"
proof -
  let ?pat = "Key_Pattern (NewKey t i 0)"
  have g: "i \<noteq> []" "no_colon i" "plain_pattern i" "CHR ''*'' \<notin> set i" using assms(5) by (auto simp: good_instance_def)
  have fin: "finite {k \<in> dom R. rd_glob re ?pat k}" using assms(3) by (auto simp: stat_ok_def)
  note set = redis_okD(2) [OF assms(1) fin] and dis = redis_okD(3) [OF assms(1) fin]
  have "length (matching re ?pat R) \<le> rd_unpack re"
    using card_mono [of "dom R" "{k \<in> dom R. rd_glob re ?pat k}"] assms(3,4) distinct_card [OF dis] set
    by (auto simp: matching_def stat_ok_def)
  then have R': "R' = (\<lambda>k. if k \<in> set (matching re ?pat R) then None else R k)"
    using assms(2) by (auto simp: R'_def repo_ResetByPattern_def Let_def fun_eq_iff)
  have sub: "dom R' \<subseteq> dom R" unfolding R' by (auto split: if_splits)
  then show "stat_ok R'" using assms(3) finite_subset [OF sub] unfolding R' by (auto simp: stat_ok_def split: if_splits)
  show "card (dom R') \<le> rd_unpack re" using card_mono [OF _ sub] assms(3,4) by (auto simp: stat_ok_def)
  have glob: "rd_glob re ?pat k \<longleftrightarrow> star_match ?pat k" for k
    using redis_okD(1) [OF assms(1) instance_pattern(1) [OF assms(6) g]] .
  show "stat_at R' t' i' p = (if t' = t \<and> i' = i then None else stat_at R t' i' p)" if "t' \<in> set key_types" "no_colon i'"
    using instance_pattern(2) [OF assms(6) g that] glob set unfolding R' stat_at_def matching_def by (auto simp: domIff)
qed

lemma resources_exact:
  assumes "redis_ok (ie_redis env)" "\<And>k. \<not> rd_fails (ie_redis env) k" "stat_ok R" "card (dom R) \<le> rd_unpack (ie_redis env)"
    and "good_instance (ie_self env)"
  shows "stat_ok (cleanupInstanceResources env R)" "card (dom (cleanupInstanceResources env R)) \<le> rd_unpack (ie_redis env)"
    and "t \<in> set key_types \<Longrightarrow> no_colon i \<Longrightarrow> stat_at (cleanupInstanceResources env R) t i p =
      (if t \<in> {KeyConnection, KeyChannel, KeySubscriber} \<and> i = ie_self env then None else stat_at R t i p)"
proof -
  let ?f = "\<lambda>t R. snd (repo_ResetByPattern (ie_redis env) (Key_Pattern (NewKey t (ie_self env) 0)) R)"
  have k: "KeyConnection \<in> set key_types" "KeyChannel \<in> set key_types" "KeySubscriber \<in> set key_types" by (simp_all add: key_types_def)
  note one = reset_exact [OF assms(1,2) _ _ assms(5)]
  note 1 = one [OF assms(3,4) k(1)]
  note 2 = one [OF 1(1,2) k(2)]
  note 3 = one [OF 2(1,2) k(3)]
  have eq: "cleanupInstanceResources env R = ?f KeySubscriber (?f KeyChannel (?f KeyConnection R))"
    by (simp add: cleanupInstanceResources_def)
  show "stat_ok (cleanupInstanceResources env R)" "card (dom (cleanupInstanceResources env R)) \<le> rd_unpack (ie_redis env)"
    unfolding eq using 3(1,2) by auto
  show "t \<in> set key_types \<Longrightarrow> no_colon i \<Longrightarrow> stat_at (cleanupInstanceResources env R) t i p =
      (if t \<in> {KeyConnection, KeyChannel, KeySubscriber} \<and> i = ie_self env then None else stat_at R t i p)"
    using assms(5) unfolding eq by (auto simp: 1(3) 2(3) 3(3) good_instance_def)
qed

definition gone :: "inst_env \<Rightarrow> server_instance \<Rightarrow> server_instance" where
  "gone env i = i\<lparr>si_Status := InstanceInactive, si_UpdatedAt := ie_now env\<rparr>"

lemma gone_saved:
  assumes "inst_inv rows" "i \<in> set rows"
  shows "save_row si_ID (gone env i) rows = List.map (\<lambda>r. if r = i then gone env i else r) rows"
proof -
  have "si_ID r = si_ID i \<longleftrightarrow> r = i" if "r \<in> set rows" for r
    using assms that key_unique [of si_ID rows r i] by (auto simp: inst_inv_def)
  then show ?thesis using assms(2) by (auto simp: save_row_def update_where_def gone_def)
qed

definition stats_cleared :: "inst_env \<Rightarrow> redis_store \<Rightarrow> redis_store \<Rightarrow> bool" where
  "stats_cleared env R R' \<longleftrightarrow> (\<forall>t\<in>set key_types. \<forall>i p. no_colon i \<longrightarrow>
     stat_at R' t i p = (if t \<in> {KeyConnection, KeyChannel, KeySubscriber} \<and> i = ie_self env then None else stat_at R t i p))"

lemma deregister_all:
  assumes "redis_ok (ie_redis env)" "\<And>k. \<not> rd_fails (ie_redis env) k" "good_instance (ie_self env)" "\<And>i. ie_update env i"
    and "stat_ok (is_redis s)" "card (dom (is_redis s)) \<le> rd_unpack (ie_redis env)" "inst_inv (is_rows s)"
    and "set is \<subseteq> set (is_rows s)" "distinct is"
  shows "\<exists>s'. deregister_loop env is n s = (Inr (n + length is), s')
    \<and> is_rows s' = List.map (\<lambda>r. if r \<in> set is then gone env r else r) (is_rows s)
    \<and> (if is = [] then is_redis s' = is_redis s else stats_cleared env (is_redis s) (is_redis s'))"
  using assms(5-)
proof (induction "is" arbitrary: n s)
  case (Cons i xs)
  let ?s = "s\<lparr>is_rows := save_row si_ID (gone env i) (is_rows s), is_redis := cleanupInstanceResources env (is_redis s)\<rparr>"
  have i: "i \<in> set (is_rows s)" "i \<notin> set xs" using Cons.prems(4,5) by auto
  note rows = gone_saved [OF Cons.prems(3) i(1), of env]
  note res = resources_exact [OF assms(1,2) Cons.prems(1,2) assms(3)]
  have inv: "inst_inv (is_rows ?s)" using inst_inv_save [OF Cons.prems(3) i(1), of "gone env i"] by (simp add: gone_def)
  have keep: "r \<in> set (is_rows ?s)" if "r \<in> set xs" for r
    using that i(2) Cons.prems(4) by (auto simp: rows image_iff)
  have fresh: "gone env i \<notin> set xs"
  proof
    assume "gone env i \<in> set xs"
    then have "gone env i \<in> set (is_rows s)" using Cons.prems(4) by auto
    then have "gone env i = i" using Cons.prems(3) i(1) key_unique [of si_ID "is_rows s" "gone env i" i] by (auto simp: inst_inv_def gone_def)
    then show False using \<open>gone env i \<in> set xs\<close> i(2) by simp
  qed
  obtain s' where s': "deregister_loop env xs (Suc n) ?s = (Inr (Suc n + length xs), s')"
      "is_rows s' = List.map (\<lambda>r. if r \<in> set xs then gone env r else r) (is_rows ?s)"
      "if xs = [] then is_redis s' = is_redis ?s else stats_cleared env (is_redis ?s) (is_redis s')"
    using Cons.IH [of ?s "Suc n"] res(1,2) inv keep Cons.prems(5) by auto
  have "update_and_save env no_names InstanceInactive i s = (Inr (), s\<lparr>is_rows := save_row si_ID (gone env i) (is_rows s)\<rparr>)"
    using assms(4) by (simp add: update_and_save_def update_ok Update_instrow_def gone_def)
  then have "deregister_loop env (i # xs) n s = (Inr (n + length (i # xs)), s')" using s'(1) by simp
  moreover have "is_rows s' = List.map (\<lambda>r. if r \<in> set (i # xs) then gone env r else r) (is_rows s)"
    unfolding s'(2) using fresh by (auto simp: rows)
  moreover have "stats_cleared env (is_redis s) (is_redis s')"
    using s'(3) res(3) by (auto simp: stats_cleared_def split: if_splits)
  ultimately show ?case by simp
qed simp

text \<open>Taking out stale instances clears the wrong statistics.  When there are stale instances, every one of them is marked inactive
  and counted, and no other row changes; but the connections, channels and subscribers that are removed from Redis are those of the
  instance that does the cleaning and is alive, and every statistic of the stale instances stays.\<close>

lemma stale_cleanup_clears_own:
  assumes "redis_ok (ie_redis env)" "\<And>k. \<not> rd_fails (ie_redis env) k" "good_instance (ie_self env)" "\<And>i. ie_update env i" "ie_list env"
    and "stat_ok (is_redis s)" "card (dom (is_redis s)) \<le> rd_unpack (ie_redis env)" "inst_inv (is_rows s)"
    and "r \<in> set (is_rows s)" "IsActive_instance r" "si_UpdatedAt r < stale_threshold env"
  shows "\<exists>n s'. CleanupStaleInstances env s = (Inr n, s')
    \<and> is_rows s' = List.map (\<lambda>r. if IsActive_instance r \<and> si_UpdatedAt r < stale_threshold env then gone env r else r) (is_rows s)
    \<and> (\<forall>t\<in>{KeyConnection, KeyChannel, KeySubscriber}. \<forall>p. stat_at (is_redis s') t (ie_self env) p = None)
    \<and> (\<forall>t\<in>set key_types. \<forall>i p. no_colon i \<longrightarrow> i \<noteq> ie_self env \<longrightarrow> stat_at (is_redis s') t i p = stat_at (is_redis s) t i p)"
proof -
  let ?old = "\<lambda>r. si_Status r = InstanceActive \<and> si_UpdatedAt r < stale_threshold env"
  let ?is = "List.filter ?old (is_rows s)"
  have d: "distinct ?is" using assms(8) by (simp add: inst_inv_def distinct_map)
  have ne: "?is \<noteq> []" using assms(9-11) by (auto simp: IsActive_instance_def filter_empty_conv)
  obtain s' where s': "deregister_loop env ?is 0 s = (Inr (0 + length ?is), s')"
      "is_rows s' = List.map (\<lambda>r. if r \<in> set ?is then gone env r else r) (is_rows s)" "stats_cleared env (is_redis s) (is_redis s')"
    using deregister_all [OF assms(1-4,6-8) _ d, of 0] ne by auto
  have "CleanupStaleInstances env s = (Inr (length ?is), s')" using s'(1) assms(5) ne by (simp add: CleanupStaleInstances_def ListStale_inst_def)
  moreover have "is_rows s' = List.map (\<lambda>r. if IsActive_instance r \<and> si_UpdatedAt r < stale_threshold env then gone env r else r) (is_rows s)"
    unfolding s'(2) by (auto simp: IsActive_instance_def)
  moreover have "{KeyConnection, KeyChannel, KeySubscriber} \<subseteq> set key_types" by (simp add: key_types_def)
  ultimately show ?thesis using s'(3) assms(3) by (intro exI [of _ "length ?is"] exI [of _ s']) (auto simp: stats_cleared_def good_instance_def)
qed

definition sample_inst_env :: inst_env where
  "sample_inst_env = \<lparr>ie_self = ''a'', ie_config = no_names, ie_timeout = 1, ie_now = 5000000000, ie_nextID = 3, ie_find = True, ie_create = True,
     ie_update = (\<lambda>_. True), ie_list = True, ie_redis = sample_redis\<rparr>"

definition sample_inst :: "int \<Rightarrow> ulid \<Rightarrow> time \<Rightarrow> server_instance" where
  "sample_inst k i t = \<lparr>si_ID = k, si_InstanceID = i, si_Names = no_names, si_Status = InstanceActive, si_CreatedAt = 0, si_UpdatedAt = t\<rparr>"

definition sample_inst_state :: inst_state where
  "sample_inst_state = \<lparr>is_rows = [sample_inst 1 ''a'' 5000000000, sample_inst 2 ''b'' 0], is_redis = sample_store\<rparr>"

end
