(* ===== verification/Snapshot.thy ===== *)
theory Snapshot
  imports MsgSample Realtime
begin

text \<open>
  \<open>internal/application/service/messaging/telemetry/snapshot/service.go\<close>: every half second the state of the
  messaging world is written to Redis, the gauges (connections, channels, subscribers) from the repositories and
  the counters from the telemetry.  One snapshot is \<open>syncStatsToRedis\<close>; the ticker around it is not modelled.
\<close>

section \<open>The snapshot of a project\<close>

record project_snapshot =
  ps_ProjectID :: project_id
  ps_ConnectionCount :: int
  ps_ChannelCount :: int
  ps_SubscriberCount :: int
  ps_InboundCount :: int
  ps_OutboundCount :: int
  ps_OutboundDropped :: int
  ps_BandwidthInbound :: int
  ps_BandwidthOutbound :: int

type_synonym snapshots = "project_id \<Rightarrow> project_snapshot option"

record snap_env =
  sn_menv :: menv
  sn_self :: ulid
  sn_channels :: "channel set \<Rightarrow> channel list"
  sn_counters :: "tel_counter set \<Rightarrow> tel_counter list"
  sn_projects :: "project_id set \<Rightarrow> project_id list"
  sn_redis :: redis_env

definition new_snapshot :: "project_id \<Rightarrow> project_snapshot" where
  "new_snapshot p = \<lparr>ps_ProjectID = p, ps_ConnectionCount = 0, ps_ChannelCount = 0, ps_SubscriberCount = 0, ps_InboundCount = 0,
     ps_OutboundCount = 0, ps_OutboundDropped = 0, ps_BandwidthInbound = 0, ps_BandwidthOutbound = 0\<rparr>"

definition ensureProjectStats :: "project_id \<Rightarrow> snapshots \<Rightarrow> snapshots" where
  "ensureProjectStats p ps = (if ps p = None then ps(p \<mapsto> new_snapshot p) else ps)"

text \<open>A field of a snapshot that is there.\<close>

definition on_project :: "project_id \<Rightarrow> (project_snapshot \<Rightarrow> project_snapshot) \<Rightarrow> snapshots \<Rightarrow> snapshots" where
  "on_project p f ps = ps(p := map_option f (ps p))"

section \<open>Writing to Redis\<close>

definition put_stat :: "redis_env \<Rightarrow> ulid \<Rightarrow> project_id \<Rightarrow> string \<times> int \<Rightarrow> redis_store \<Rightarrow> redis_store" where
  "put_stat env self p item R = snd (repo_Set env (NewKey (fst item) self p) (snd item) R)"

definition writeAccumulatingStatsToRedis ::
    "redis_env \<Rightarrow> ulid \<Rightarrow> project_id \<Rightarrow> int \<Rightarrow> int \<Rightarrow> int \<Rightarrow> int \<Rightarrow> int \<Rightarrow> redis_store \<Rightarrow> redis_store" where
  "writeAccumulatingStatsToRedis env self p inboundCount outboundCount outboundDropped bandwidthInbound bandwidthOutbound R =
     fold (put_stat env self p)
       [(KeyMessageInbound, inboundCount), (KeyMessageOutbound, outboundCount), (KeyMessageDropped, outboundDropped),
        (KeyBandwidthInbound, bandwidthInbound), (KeyBandwidthOutbound, bandwidthOutbound)] R"

definition writeSnapshotToRedis :: "redis_env \<Rightarrow> ulid \<Rightarrow> project_snapshot \<Rightarrow> redis_store \<Rightarrow> redis_store" where
  "writeSnapshotToRedis env self sn R =
     writeAccumulatingStatsToRedis env self (ps_ProjectID sn) (ps_InboundCount sn) (ps_OutboundCount sn) (ps_OutboundDropped sn)
       (ps_BandwidthInbound sn) (ps_BandwidthOutbound sn)
       (fold (put_stat env self (ps_ProjectID sn))
          [(KeyConnection, ps_ConnectionCount sn), (KeyChannel, ps_ChannelCount sn), (KeySubscriber, ps_SubscriberCount sn)] R)"

text \<open>A key that Redis does not answer for, in whatever way, counts as deleted, and the counters in memory start over.\<close>

definition checkAndResetAccumulatingStats :: "redis_env \<Rightarrow> ulid \<Rightarrow> project_id \<Rightarrow> tel_repo \<times> redis_store \<Rightarrow> tel_repo \<times> redis_store" where
  "checkAndResetAccumulatingStats env self p s =
     (case repo_Get env (NewKey KeyMessageInbound self p) (snd s) of
        Some _ \<Rightarrow> s
      | None \<Rightarrow> (ResetForProject p (fst s), writeAccumulatingStatsToRedis env self p 0 0 0 0 0 (snd s)))"

section \<open>One snapshot\<close>

fun count_channels :: "snap_env \<Rightarrow> sub_repo \<Rightarrow> channel list \<Rightarrow> snapshots \<times> heap \<Rightarrow> snapshots \<times> heap" where
  "count_channels env subs [] s = s"
| "count_channels env subs (ch # chs) (ps, h) =
     (let p = name_project (ch_Name ch); ps = ensureProjectStats p ps
      in case GetAllLocalForChannel (me_refs (sn_menv env)) (me_now (sn_menv env)) (FullName ch) h subs of
           (Inl _, h) \<Rightarrow> count_channels env subs chs (ps, h)
         | (Inr rs, h) \<Rightarrow>
             if length rs > 0
             then count_channels env subs chs
               (on_project p (\<lambda>sn. sn\<lparr>ps_ChannelCount := i64 (ps_ChannelCount sn + 1),
                  ps_SubscriberCount := i64 (ps_SubscriberCount sn + int (length rs))\<rparr>) ps, h)
             else count_channels env subs chs (ps, h))"

definition read_counter :: "tel_counter \<Rightarrow> project_snapshot \<Rightarrow> project_snapshot" where
  "read_counter c sn = sn\<lparr>ps_InboundCount := tc_InboundCount c, ps_OutboundCount := tc_OutboundCount c,
     ps_OutboundDropped := tc_OutboundDropped c, ps_BandwidthInbound := tc_BandwidthInbound c,
     ps_BandwidthOutbound := tc_BandwidthOutbound c\<rparr>"

fun read_counters :: "snap_env \<Rightarrow> tel_counter list \<Rightarrow> snapshots \<times> tel_repo \<times> redis_store \<Rightarrow> snapshots \<times> tel_repo \<times> redis_store" where
  "read_counters env [] s = s"
| "read_counters env (c # cs) (ps, s) =
     (let s = checkAndResetAccumulatingStats (sn_redis env) (sn_self env) (tc_ProjectID c) s;
          fresh = GetCounter (tc_ProjectID c) (sn_self env) (fst s); p = tc_ProjectID fresh
      in read_counters env cs (on_project p (read_counter fresh) (ensureProjectStats p ps), s))"

definition syncStatsToRedis :: "snap_env \<Rightarrow> mworld \<times> redis_store \<Rightarrow> mworld \<times> redis_store" where
  "syncStatsToRedis env s =
     (let w = fst s;
          (ps, h) = count_channels env (m_subs w) (FindAllLocal (sn_channels env) (m_channels w)) (Map.empty, m_heap w);
          (ps, tel, R) = read_counters env (GetAllForInstance (sn_counters env) (sn_self env) (m_telemetry w)) (ps, m_telemetry w, snd s);
          projects = sn_projects env (dom ps);
          ps = (\<lambda>p. map_option (\<lambda>sn. sn\<lparr>ps_ConnectionCount := i64 (int (CountByProject p (cs_repo (m_conns w))))\<rparr>) (ps p));
          R = fold (\<lambda>p R. writeSnapshotToRedis (sn_redis env) (sn_self env) (the (ps p)) R) projects R
      in (w\<lparr>m_heap := h, m_telemetry := tel\<rparr>, R))"

section \<open>What is written\<close>

lemma stat_at_set:
  assumes "\<And>k. \<not> rd_fails env k" "t \<in> set key_types" "t' \<in> set key_types" "in64 n"
  shows "stat_at (put_stat env self p (t, n) R) t' i q = (if t' = t \<and> i = self \<and> q = p then Some n else stat_at R t' i q)"
proof -
  have "Key_String (NewKey t' i q) = Key_String (NewKey t self p) \<longleftrightarrow> t' = t \<and> i = self \<and> q = p"
    using same_key [OF assms(3,2)] by (auto simp: Key_String_eq)
  then show ?thesis using assms(1,4) by (simp add: put_stat_def repo_Set_def stat_at_def atoi_show_int)
qed

definition snap_items :: "project_snapshot \<Rightarrow> (string \<times> int) list" where
  "snap_items sn = [(KeyConnection, ps_ConnectionCount sn), (KeyChannel, ps_ChannelCount sn), (KeySubscriber, ps_SubscriberCount sn),
     (KeyMessageInbound, ps_InboundCount sn), (KeyMessageOutbound, ps_OutboundCount sn), (KeyMessageDropped, ps_OutboundDropped sn),
     (KeyBandwidthInbound, ps_BandwidthInbound sn), (KeyBandwidthOutbound, ps_BandwidthOutbound sn)]"

definition snap_ok :: "project_snapshot \<Rightarrow> bool" where
  "snap_ok sn \<longleftrightarrow> (\<forall>x\<in>set (snap_items sn). in64 (snd x))"

lemma item_keys: "List.map fst (snap_items sn) = key_types" "distinct (List.map fst (snap_items sn))"
proof -
  show "List.map fst (snap_items sn) = key_types" by (simp add: snap_items_def key_types_def)
  then show "distinct (List.map fst (snap_items sn))" by (simp add: key_types_def key_type_defs)
qed

lemma stats_put:
  assumes "\<And>k. \<not> rd_fails env k" "\<forall>x\<in>set items. fst x \<in> set key_types \<and> in64 (snd x)" "t \<in> set key_types"
  shows "stat_at (fold (put_stat env self p) items R) t i q =
    (case (if i = self \<and> q = p then map_of (rev items) t else None) of Some n \<Rightarrow> Some n | None \<Rightarrow> stat_at R t i q)"
  using assms(2)
proof (induction items arbitrary: R)
  case (Cons x items)
  obtain t' n where x: "x = (t', n)" by fastforce
  have "stat_at (put_stat env self p (t', n) R) t i q = (if t = t' \<and> i = self \<and> q = p then Some n else stat_at R t i q)"
    by (rule stat_at_set [OF assms(1) _ assms(3)]) (use Cons.prems x in auto)
  then show ?case using Cons x by (auto simp: map_add_def split: option.split)
qed simp

lemma snapshot_written:
  assumes "\<And>k. \<not> rd_fails env k" "snap_ok sn" "t \<in> set key_types"
  shows "stat_at (writeSnapshotToRedis env self sn R) t i q =
    (if i = self \<and> q = ps_ProjectID sn then map_of (snap_items sn) t else stat_at R t i q)"
proof -
  have w: "writeSnapshotToRedis env self sn R = fold (put_stat env self (ps_ProjectID sn)) (snap_items sn) R"
    by (simp add: writeSnapshotToRedis_def writeAccumulatingStatsToRedis_def snap_items_def)
  have i: "\<forall>x\<in>set (snap_items sn). fst x \<in> set key_types \<and> in64 (snd x)"
    using assms(2) item_keys(1) [of sn] unfolding snap_ok_def by (metis image_eqI list.set_map)
  have "map_of (rev xs) k = map_of xs k" if "distinct (List.map fst xs)" for xs :: "(string \<times> int) list" and k
    using that map_of_eq_Some_iff [of "rev xs" k] map_of_eq_Some_iff [of xs k]
    by (cases "map_of xs k"; cases "map_of (rev xs) k") (auto simp: rev_map [symmetric])
  then have r: "map_of (rev (snap_items sn)) = map_of (snap_items sn)" using item_keys(2) by blast
  have "map_of (snap_items sn) t \<noteq> None" using assms(3) item_keys(1) [of sn] by (metis list.set_map map_of_eq_None_iff)
  then show ?thesis unfolding w stats_put [OF assms(1) i assms(3)] r by auto
qed

lemma written_ok:
  assumes "stat_ok R" "\<And>k. \<not> rd_fails env k" "\<forall>x\<in>set items. fst x \<in> set key_types \<and> in64 (snd x)" "no_colon self" "in64 p"
  shows "stat_ok (fold (put_stat env self p) items R)"
  using assms(1,3)
proof (induction items arbitrary: R)
  case (Cons x items)
  have "stat_ok (put_stat env self p x R)" using stat_ok_update [OF Cons.prems(1) _ assms(4,5)] Cons.prems(2) assms(2)
    by (simp add: put_stat_def repo_Set_def)
  then show ?case using Cons by simp
qed simp

section \<open>The channels\<close>

text \<open>The channels of a project that have an open subscription, and their subscriptions.\<close>

definition open_subs :: "mworld \<Rightarrow> channel \<Rightarrow> ref set" where
  "open_subs w ch = {r. (FullName ch, r) \<in> links (m_subs w) \<and> \<not> sub_closed (m_heap w r)}"

definition busy_channels :: "mworld \<Rightarrow> project_id \<Rightarrow> channel set" where
  "busy_channels w p = {ch \<in> ran (m_channels w). name_project (ch_Name ch) = p \<and> open_subs w ch \<noteq> {}}"

definition base_of :: "snapshots \<Rightarrow> project_id \<Rightarrow> project_snapshot" where
  "base_of ps p = (case ps p of None \<Rightarrow> new_snapshot p | Some sn \<Rightarrow> sn)"

lemma ensure_base: "ensureProjectStats p ps q = (if q = p then Some (base_of ps p) else ps q)"
  by (auto simp: ensureProjectStats_def base_of_def split: option.split)

definition counted :: "snapshots \<Rightarrow> bool" where
  "counted ps \<longleftrightarrow> (\<forall>p sn. ps p = Some sn \<longrightarrow> ps_ProjectID sn = p \<and> in64 (ps_ChannelCount sn) \<and> in64 (ps_SubscriberCount sn))"

lemma base_counted:
  assumes "counted ps"
  shows "ps_ProjectID (base_of ps p) = p" "in64 (ps_ChannelCount (base_of ps p))" "in64 (ps_SubscriberCount (base_of ps p))"
  using assms by (auto simp: counted_def base_of_def new_snapshot_def in64_def split: option.split)

text \<open>What a list of channels adds to the snapshot of a project.\<close>

definition add_channels :: "(channel \<Rightarrow> nat) \<Rightarrow> channel list \<Rightarrow> project_snapshot \<Rightarrow> project_snapshot" where
  "add_channels n chs sn = sn\<lparr>ps_ChannelCount := i64 (ps_ChannelCount sn + int (length (List.filter (\<lambda>ch. 0 < n ch) chs))),
     ps_SubscriberCount := i64 (ps_SubscriberCount sn + int (sum_list (List.map n chs)))\<rparr>"

lemma add_channels_none: "in64 (ps_ChannelCount sn) \<Longrightarrow> in64 (ps_SubscriberCount sn) \<Longrightarrow> add_channels n [] sn = sn"
  by (simp add: add_channels_def)

lemma add_channels_more: "add_channels n chs (add_channels n [ch] sn) = add_channels n (ch # chs) sn"
  by (simp add: add_channels_def add.assoc)

definition of_p :: "project_id \<Rightarrow> channel list \<Rightarrow> channel list" where
  "of_p p chs = List.filter (\<lambda>ch. name_project (ch_Name ch) = p) chs"

lemma channels_counted:
  assumes "enumerates (me_refs (sn_menv env))"
  shows "sub_inv h R \<Longrightarrow> counted ps \<Longrightarrow> count_channels env R chs (ps, h) = (ps', h') \<Longrightarrow>
    (\<And>ch. n ch = card {r. (FullName ch, r) \<in> links R \<and> \<not> sub_closed (h r)}) \<Longrightarrow>
    counted ps' \<and> (\<forall>p. ps' p = (if of_p p chs = [] then ps p else Some (add_channels n (of_p p chs) (base_of ps p))))"
proof (induction chs arbitrary: ps h)
  case Nil
  then show ?case by (simp add: of_p_def)
next
  case (Cons ch chs)
  let ?p = "name_project (ch_Name ch)"
  let ?ps = "ensureProjectStats ?p ps"
  obtain res h1 where g: "GetAllLocalForChannel (me_refs (sn_menv env)) (me_now (sn_menv env)) (FullName ch) h R = (res, h1)" by fastforce
  note L = GetAllLocal_links [OF Cons.prems(1) assms g]
  have inv: "sub_inv h1 R" using L sub_inv_same_IDs Cons.prems(1) by blast
  have same: "card {r. (FullName ch, r) \<in> links R \<and> \<not> sub_closed (h1 r)} = n ch" for ch using L Cons.prems(4) by auto
  define ps1 where "ps1 = ps(?p \<mapsto> add_channels n [ch] (base_of ps ?p))"
  have nch: "n ch = (case res of Inl _ \<Rightarrow> 0 | Inr rs \<Rightarrow> length rs)"
    using L Cons.prems(4) by (auto split: sum.splits simp: distinct_card [symmetric])
  have step: "count_channels env R (ch # chs) (ps, h) = count_channels env R chs (ps1, h1)"
  proof -
    have z: "?ps = ps1" if "n ch = 0"
      using that base_counted [OF Cons.prems(2)] by (auto simp: fun_eq_iff ensure_base ps1_def add_channels_def)
    have nz: "on_project ?p (\<lambda>sn. sn\<lparr>ps_ChannelCount := i64 (ps_ChannelCount sn + 1), ps_SubscriberCount := i64 (ps_SubscriberCount sn + int m)\<rparr>) ?ps = ps1"
      if "n ch = m" "m > 0" for m
      using that by (auto simp: fun_eq_iff on_project_def ensure_base ps1_def add_channels_def)
    show ?thesis
    proof (cases res)
      case (Inl e)
      then show ?thesis using g nch z by (simp add: Let_def)
    next
      case (Inr rs)
      then show ?thesis using g nch z nz [of "length rs"] by (cases "rs = []") (simp_all add: Let_def)
    qed
  qed
  have c1: "counted ps1" using Cons.prems(2) base_counted [OF Cons.prems(2), of ?p]
    by (auto simp: counted_def ps1_def add_channels_def)
  have IH: "counted ps' \<and> (\<forall>p. ps' p = (if of_p p chs = [] then ps1 p else Some (add_channels n (of_p p chs) (base_of ps1 p))))"
    using Cons.IH [OF inv c1] Cons.prems(3) step same by simp
  have eq: "(if of_p p chs = [] then ps1 p else Some (add_channels n (of_p p chs) (base_of ps1 p)))
      = (if of_p p (ch # chs) = [] then ps p else Some (add_channels n (of_p p (ch # chs)) (base_of ps p)))" for p
    by (auto simp: of_p_def ps1_def base_of_def add_channels_more)
  show ?case using IH unfolding eq .
qed

section \<open>The counters\<close>

definition tel_ok :: "tel_repo \<Rightarrow> bool" where
  "tel_ok R \<longleftrightarrow> finite (dom R) \<and> (\<forall>k c. R k = Some c \<longrightarrow> k = tel_key (tc_ProjectID c) (tc_InstanceID c)
     \<and> (\<forall>n\<in>{tc_InboundCount c, tc_OutboundCount c, tc_OutboundDropped c, tc_BandwidthInbound c, tc_BandwidthOutbound c}. in64 n))"

text \<open>The counter a snapshot takes for a project: a fresh one when Redis has no inbound count of this instance.\<close>

definition taken :: "redis_store \<Rightarrow> ulid \<Rightarrow> project_id \<Rightarrow> tel_repo \<Rightarrow> tel_counter" where
  "taken R self p T = (if stat_at R KeyMessageInbound self p = None then reset_counter (GetCounter p self T) else GetCounter p self T)"

lemma get_is_stat_at: "\<not> rd_fails env (Key_String (NewKey t i p)) \<Longrightarrow> repo_Get env (NewKey t i p) R = stat_at R t i p"
  by (simp add: repo_Get_def stat_at_def split: option.split)

lemma tel_okD:
  assumes "tel_ok T" "T (tel_key p i) = Some c"
  shows "tc_ProjectID c = p" "tc_InstanceID c = i"
proof -
  have "tel_key p i = tel_key (tc_ProjectID c) (tc_InstanceID c)" using assms unfolding tel_ok_def by blast
  then show "tc_ProjectID c = p" "tc_InstanceID c = i" unfolding tel_key_inj by auto
qed

lemma counter_project: "tel_ok T \<Longrightarrow> tc_ProjectID (GetCounter p i T) = p"
  by (auto simp: GetCounter_def NewCounter_def tel_okD(1) split: option.split)

lemma types_known: "KeyConnection \<in> set key_types" "KeyChannel \<in> set key_types" "KeySubscriber \<in> set key_types"
  "KeyMessageInbound \<in> set key_types" "KeyMessageOutbound \<in> set key_types" "KeyMessageDropped \<in> set key_types"
  "KeyBandwidthInbound \<in> set key_types" "KeyBandwidthOutbound \<in> set key_types"
  by (simp_all add: key_types_def)

lemma reset_project [simp]: "tc_ProjectID (reset_counter c) = tc_ProjectID c" "tc_InstanceID (reset_counter c) = tc_InstanceID c"
  by (simp_all add: reset_counter_def)

lemma GetCounter_reset:
  assumes "tel_ok T"
  shows "GetCounter q i (ResetForProject p T) = (if q = p then reset_counter (GetCounter q i T) else GetCounter q i T)"
proof (cases "T (tel_key q i)")
  case None
  then show ?thesis by (auto simp: GetCounter_def ResetForProject_def NewCounter_def reset_counter_def)
next
  case (Some c)
  then have "tc_ProjectID c = q" using assms by (rule tel_okD(1) [rotated])
  then show ?thesis using Some by (cases "q = p") (simp_all add: GetCounter_def ResetForProject_def)
qed

lemma tel_ok_reset:
  assumes "tel_ok T"
  shows "tel_ok (ResetForProject p T)"
proof -
  have "dom (ResetForProject p T) = dom T" by (auto simp: ResetForProject_def)
  moreover have "in64 0" by (simp add: in64_def)
  ultimately show ?thesis using assms by (auto simp: tel_ok_def ResetForProject_def reset_counter_def)
qed

lemma zeros_written:
  assumes "\<And>k. \<not> rd_fails env k" "t \<in> set key_types" "i \<noteq> self \<or> q \<noteq> p"
  shows "stat_at (writeAccumulatingStatsToRedis env self p 0 0 0 0 0 R) t i q = stat_at R t i q"
  using assms(3) unfolding writeAccumulatingStatsToRedis_def
  by (subst stats_put [OF assms(1) _ assms(2)]) (auto simp: types_known in64_def)

lemma counters_read:
  assumes "\<And>k. \<not> rd_fails (sn_redis env) k"
  shows "read_counters env cs (ps, T, R) = (ps', T', R') \<Longrightarrow> tel_ok T \<Longrightarrow> distinct (List.map tc_ProjectID cs) \<Longrightarrow>
    (\<forall>p. ps' p = (if p \<in> tc_ProjectID ` set cs then Some (read_counter (taken R (sn_self env) p T) (base_of ps p)) else ps p))
    \<and> tel_ok T' \<and> (\<forall>p. GetCounter p (sn_self env) T' = (if p \<in> tc_ProjectID ` set cs then taken R (sn_self env) p T else GetCounter p (sn_self env) T))
    \<and> (\<forall>t\<in>set key_types. \<forall>i q. i \<noteq> sn_self env \<or> q \<notin> tc_ProjectID ` set cs \<longrightarrow> stat_at R' t i q = stat_at R t i q)"
proof (induction cs arbitrary: ps T R)
  case (Cons c cs)
  let ?p = "tc_ProjectID c" and ?self = "sn_self env"
  obtain T1 R1 where c: "checkAndResetAccumulatingStats (sn_redis env) ?self ?p (T, R) = (T1, R1)" by fastforce
  have cr: "(T1, R1) = (if stat_at R KeyMessageInbound ?self ?p = None
      then (ResetForProject ?p T, writeAccumulatingStatsToRedis (sn_redis env) ?self ?p 0 0 0 0 0 R) else (T, R))"
    using c assms by (auto simp: checkAndResetAccumulatingStats_def get_is_stat_at split: option.splits)
  have T1: "tel_ok T1" "GetCounter ?p ?self T1 = taken R ?self ?p T" "q \<noteq> ?p \<Longrightarrow> GetCounter q ?self T1 = GetCounter q ?self T" for q
    using cr Cons.prems(2) by (auto simp: taken_def GetCounter_reset tel_ok_reset split: if_splits)
  have R1: "i \<noteq> ?self \<or> q \<noteq> ?p \<Longrightarrow> t \<in> set key_types \<Longrightarrow> stat_at R1 t i q = stat_at R t i q" for i q t
    using cr zeros_written [OF assms] by (auto split: if_splits)
  have tp: "tc_ProjectID (taken R ?self ?p T) = ?p" using counter_project [OF Cons.prems(2)] by (simp add: taken_def)
  define ps1 where "ps1 = ps(?p \<mapsto> read_counter (taken R ?self ?p T) (base_of ps ?p))"
  have "on_project ?p (read_counter (taken R ?self ?p T)) (ensureProjectStats ?p ps) = ps1"
    by (auto simp: fun_eq_iff on_project_def ensure_base ps1_def)
  then have step: "read_counters env cs (ps1, T1, R1) = (ps', T', R')" using Cons.prems(1) c tp T1(2) by (simp add: Let_def)
  have notin: "?p \<notin> tc_ProjectID ` set cs" using Cons.prems(3) by auto
  have tk: "taken R1 ?self q T1 = taken R ?self q T" if "q \<noteq> ?p" for q
    using that R1 T1(3) by (simp add: taken_def types_known)
  have "distinct (List.map tc_ProjectID cs)" using Cons.prems(3) by simp
  note IH = Cons.IH [OF step T1(1) this]
  have p1: "ps1 q = (if q = ?p then Some (read_counter (taken R ?self ?p T) (base_of ps ?p)) else ps q)" "q \<noteq> ?p \<Longrightarrow> base_of ps1 q = base_of ps q" for q
    by (auto simp: ps1_def base_of_def)
  have A: "ps' q = (if q \<in> tc_ProjectID ` set (c # cs) then Some (read_counter (taken R ?self q T) (base_of ps q)) else ps q)" for q
    using IH notin p1 tk by (cases "q = ?p") auto
  have B: "GetCounter q ?self T' = (if q \<in> tc_ProjectID ` set (c # cs) then taken R ?self q T else GetCounter q ?self T)" for q
    using IH notin T1(2,3) tk by (cases "q = ?p") auto
  have C: "stat_at R' t i q = stat_at R t i q" if "t \<in> set key_types" "i \<noteq> ?self \<or> q \<notin> tc_ProjectID ` set (c # cs)" for t i q
    using IH R1 [of i q t] that by auto
  show ?case using A B C IH by blast
qed auto

section \<open>The whole snapshot\<close>

lemma snapshots_written:
  assumes "\<And>k. \<not> rd_fails env k" "\<forall>p\<in>set L. \<exists>sn. ps p = Some sn \<and> ps_ProjectID sn = p \<and> snap_ok sn" "t \<in> set key_types"
  shows "stat_at (fold (\<lambda>p R. writeSnapshotToRedis env self (the (ps p)) R) L R) t i q =
    (if i = self \<and> q \<in> set L then map_of (snap_items (the (ps q))) t else stat_at R t i q)"
  using assms(2)
proof (induction L arbitrary: R)
  case (Cons p L)
  obtain sn where sn: "ps p = Some sn" "ps_ProjectID sn = p" "snap_ok sn" using Cons.prems by auto
  have "stat_at (writeSnapshotToRedis env self (the (ps p)) R) t i q = (if i = self \<and> q = p then map_of (snap_items sn) t else stat_at R t i q)"
    using snapshot_written [OF assms(1) sn(3) assms(3)] sn(1,2) by simp
  then show ?case using Cons sn(1) by auto
qed simp

text \<open>A project is in the snapshot when it has a channel or a counter of this instance.\<close>

definition in_snapshot :: "mworld \<Rightarrow> ulid \<Rightarrow> project_id \<Rightarrow> bool" where
  "in_snapshot w self p \<longleftrightarrow> (\<exists>ch\<in>ran (m_channels w). name_project (ch_Name ch) = p) \<or> m_telemetry w (tel_key p self) \<noteq> None"

lemma ran_counters:
  assumes "tel_ok T" "enumerates enum"
  shows "distinct (List.map tc_ProjectID (GetAllForInstance enum i T))"
    and "tc_ProjectID ` set (GetAllForInstance enum i T) = {p. T (tel_key p i) \<noteq> None}"
proof -
  have fin: "finite (ran T)" using assms(1) by (simp add: tel_ok_def finite_ran)
  have e: "set (enum (ran T)) = ran T" "distinct (enum (ran T))" using assms(2) fin by (auto simp: enumerates_def)
  have k: "T (tel_key (tc_ProjectID c) (tc_InstanceID c)) = Some c" if "c \<in> ran T" for c
    using assms(1) that by (auto simp: tel_ok_def ran_def)
  have "inj_on tc_ProjectID {c \<in> ran T. tc_InstanceID c = i}"
    by (rule inj_onI) (use k in \<open>metis (mono_tags, lifting) mem_Collect_eq option.inject\<close>)
  then show "distinct (List.map tc_ProjectID (GetAllForInstance enum i T))"
    using e by (simp add: GetAllForInstance_def distinct_map)
  show "tc_ProjectID ` set (GetAllForInstance enum i T) = {p. T (tel_key p i) \<noteq> None}"
  proof (intro equalityI subsetI)
    fix p assume "p \<in> tc_ProjectID ` set (GetAllForInstance enum i T)"
    then show "p \<in> {p. T (tel_key p i) \<noteq> None}" using e k by (auto simp: GetAllForInstance_def)
  next
    fix p assume "p \<in> {p. T (tel_key p i) \<noteq> None}"
    then obtain c where c: "T (tel_key p i) = Some c" by auto
    then show "p \<in> tc_ProjectID ` set (GetAllForInstance enum i T)"
      using e tel_okD [OF assms(1) c] by (auto simp: GetAllForInstance_def image_iff ran_def intro!: exI [of _ c])
  qed
qed

lemma taken_new:
  assumes "T (tel_key p i) = None"
  shows "taken R i p T = NewCounter p i"
  using assms by (simp add: taken_def GetCounter_def) (simp add: NewCounter_def reset_counter_def)

lemma taken_in64:
  assumes "tel_ok T"
  shows "snap_ok sn \<Longrightarrow> snap_ok (read_counter (taken R i p T) sn)"
proof -
  have "in64 0" by (simp add: in64_def)
  then show "snap_ok sn \<Longrightarrow> snap_ok (read_counter (taken R i p T) sn)"
    using assms by (auto simp: snap_ok_def snap_items_def read_counter_def taken_def GetCounter_def NewCounter_def reset_counter_def tel_ok_def
        split: option.split)
qed

text \<open>The channels of a list that are busy, and their subscriptions.\<close>

lemma added_channels:
  assumes "distinct chs" "set chs = ran (m_channels w)" "\<And>ch. finite (open_subs w ch)"
  defines "n \<equiv> \<lambda>ch. card (open_subs w ch)"
  shows "length (List.filter (\<lambda>ch. 0 < n ch) (of_p p chs)) = card (busy_channels w p)"
    and "sum_list (List.map n (of_p p chs)) = (\<Sum>ch\<in>busy_channels w p. card (open_subs w ch))"
proof -
  have d: "distinct (List.filter (\<lambda>ch. 0 < n ch) (of_p p chs))" "distinct (of_p p chs)" using assms(1) by (simp_all add: of_p_def)
  have b: "set (List.filter (\<lambda>ch. 0 < n ch) (of_p p chs)) = busy_channels w p"
    using assms(2,3) by (auto simp: of_p_def busy_channels_def n_def card_gt_0_iff)
  show "length (List.filter (\<lambda>ch. 0 < n ch) (of_p p chs)) = card (busy_channels w p)"
    using distinct_card [OF d(1)] b by simp
  have "sum_list (List.map n (of_p p chs)) = (\<Sum>ch\<in>set (of_p p chs). n ch)" using sum.distinct_set_conv_list [OF d(2), of n] by simp
  also have "\<dots> = (\<Sum>ch\<in>busy_channels w p. n ch)"
    by (rule sum.mono_neutral_right [OF finite_set]) (use b in \<open>auto simp: busy_channels_def n_def of_p_def assms(2)\<close>)
  finally show "sum_list (List.map n (of_p p chs)) = (\<Sum>ch\<in>busy_channels w p. card (open_subs w ch))" by (simp add: n_def)
qed

text \<open>What the channels alone say of a project.\<close>

definition channel_snapshot :: "mworld \<Rightarrow> project_id \<Rightarrow> project_snapshot" where
  "channel_snapshot w p = (new_snapshot p)\<lparr>ps_ChannelCount := i64 (int (card (busy_channels w p))),
     ps_SubscriberCount := i64 (int (\<Sum>ch\<in>busy_channels w p. card (open_subs w ch)))\<rparr>"

lemma finite_open_subs: "sub_inv (m_heap w) (m_subs w) \<Longrightarrow> finite (open_subs w ch)"
proof -
  assume "sub_inv (m_heap w) (m_subs w)"
  moreover have "open_subs w ch \<subseteq> snd ` links (m_subs w)" by (force simp: open_subs_def)
  ultimately show ?thesis using finite_subset by (auto simp: sub_inv_def)
qed

lemma channels_snapshot:
  assumes "sub_inv (m_heap w) (m_subs w)" "enumerates (me_refs (sn_menv env))" "set chs = ran (m_channels w)" "distinct chs"
    and "count_channels env (m_subs w) chs (Map.empty, m_heap w) = (ps, h)"
  shows "base_of ps p = channel_snapshot w p"
    and "ps p = (if \<exists>ch\<in>ran (m_channels w). name_project (ch_Name ch) = p then Some (channel_snapshot w p) else None)"
proof -
  let ?n = "\<lambda>ch. card (open_subs w ch)"
  have c0: "counted Map.empty" by (simp add: counted_def)
  have n: "?n ch = card {r. (FullName ch, r) \<in> links (m_subs w) \<and> \<not> sub_closed (m_heap w r)}" for ch by (simp only: open_subs_def)
  have e: "of_p p chs = [] \<longleftrightarrow> \<not> (\<exists>ch\<in>ran (m_channels w). name_project (ch_Name ch) = p)"
    using assms(3) by (auto simp: of_p_def filter_empty_conv)
  have "ps p = (if of_p p chs = [] then None else Some (add_channels ?n (of_p p chs) (new_snapshot p)))"
    using channels_counted [OF assms(2,1) c0 assms(5) n] by (simp add: base_of_def)
  moreover have "add_channels ?n (of_p p chs) (new_snapshot p) = channel_snapshot w p"
    using added_channels [OF assms(4,3) finite_open_subs [OF assms(1)], of p] by (simp add: add_channels_def channel_snapshot_def new_snapshot_def)
  moreover have "channel_snapshot w p = new_snapshot p" if "of_p p chs = []"
  proof -
    have "busy_channels w p = {}" using that e by (auto simp: busy_channels_def)
    then show ?thesis by (simp add: channel_snapshot_def new_snapshot_def in64_def)
  qed
  ultimately show "base_of ps p = channel_snapshot w p"
    and "ps p = (if \<exists>ch\<in>ran (m_channels w). name_project (ch_Name ch) = p then Some (channel_snapshot w p) else None)"
    using e by (auto simp: base_of_def)
qed

text \<open>The snapshot of a project before it is written.\<close>

definition full_snapshot :: "mworld \<Rightarrow> tel_counter \<Rightarrow> project_id \<Rightarrow> project_snapshot" where
  "full_snapshot w c p = (read_counter c (channel_snapshot w p))\<lparr>ps_ConnectionCount := i64 (int (CountByProject p (cs_repo (m_conns w))))\<rparr>"

lemma full_snapshot_ok:
  assumes "tel_ok T"
  shows "snap_ok (full_snapshot w (taken R i p T) p)" "ps_ProjectID (full_snapshot w c p) = p"
proof -
  have "in64 0" by (simp add: in64_def)
  then have "snap_ok (channel_snapshot w p)" by (simp add: snap_ok_def snap_items_def channel_snapshot_def new_snapshot_def)
  from taken_in64 [OF assms this] show "snap_ok (full_snapshot w (taken R i p T) p)"
    by (auto simp: full_snapshot_def snap_ok_def snap_items_def)
  show "ps_ProjectID (full_snapshot w c p) = p" by (simp add: full_snapshot_def read_counter_def channel_snapshot_def new_snapshot_def)
qed

lemma full_snapshot_values:
  "List.map (map_of (snap_items (full_snapshot w c p))) key_types = List.map Some [i64 (int (CountByProject p (cs_repo (m_conns w)))),
     i64 (int (card (busy_channels w p))), i64 (int (\<Sum>ch\<in>busy_channels w p. card (open_subs w ch))), tc_InboundCount c, tc_OutboundCount c,
     tc_OutboundDropped c, tc_BandwidthInbound c, tc_BandwidthOutbound c]"
proof -
  let ?s = "full_snapshot w c p"
  have "map_of (snap_items ?s) (fst x) = Some (snd x)" if "x \<in> set (snap_items ?s)" for x
    using that map_of_eq_Some_iff [OF item_keys(2) [of ?s], of "fst x" "snd x"] by simp
  then have "List.map (map_of (snap_items ?s)) (List.map fst (snap_items ?s)) = List.map (\<lambda>x. Some (snd x)) (snap_items ?s)" by simp
  then show ?thesis unfolding item_keys(1)
    by (simp add: snap_items_def full_snapshot_def read_counter_def channel_snapshot_def)
qed

text \<open>C33. A snapshot tells the truth, except that it forgets.  For every project with a channel or a counter on the instance, the eight
  statistics in Redis are afterwards the connections, the channels with an open subscription, these subscriptions, and the five counters
  of the telemetry; the statistics of other instances and projects are as before.  But when Redis has no inbound count of the instance for the
  project, as before the first snapshot, the counters are set to zero in memory first: what was counted until then is lost.\<close>

theorem snapshot_exact:
  assumes "msg_inv w" "env_ok (sn_menv env)" "enumerates (sn_channels env)" "enumerates (sn_counters env)" "enumerates (sn_projects env)"
    and "\<And>k. \<not> rd_fails (sn_redis env) k" "tel_ok (m_telemetry w)" "finite (dom (m_channels w))"
    and "syncStatsToRedis env (w, R) = (w', R')" "c = taken R (sn_self env) p (m_telemetry w)"
  shows "List.map (\<lambda>t. stat_at R' t (sn_self env) p) key_types =
      (if in_snapshot w (sn_self env) p
       then List.map Some [i64 (int (CountByProject p (cs_repo (m_conns w)))), i64 (int (card (busy_channels w p))),
         i64 (int (\<Sum>ch\<in>busy_channels w p. card (open_subs w ch))), tc_InboundCount c, tc_OutboundCount c, tc_OutboundDropped c,
         tc_BandwidthInbound c, tc_BandwidthOutbound c]
       else List.map (\<lambda>t. stat_at R t (sn_self env) p) key_types)
    \<and> (\<forall>t\<in>set key_types. \<forall>i q. i \<noteq> sn_self env \<longrightarrow> stat_at R' t i q = stat_at R t i q)
    \<and> GetCounter p (sn_self env) (m_telemetry w') = c"
proof -
  let ?self = "sn_self env" and ?T = "m_telemetry w"
  let ?chs = "FindAllLocal (sn_channels env) (m_channels w)" and ?cs = "GetAllForInstance (sn_counters env) (sn_self env) (m_telemetry w)"
  obtain ps h where 1: "count_channels env (m_subs w) ?chs (Map.empty, m_heap w) = (ps, h)" by fastforce
  obtain ps1 T1 R1 where 2: "read_counters env ?cs (ps, ?T, R) = (ps1, T1, R1)" by (metis prod.collapse)
  let ?ps2 = "\<lambda>p. map_option (\<lambda>sn. sn\<lparr>ps_ConnectionCount := i64 (int (CountByProject p (cs_repo (m_conns w))))\<rparr>) (ps1 p)"
  let ?L = "sn_projects env (dom ps1)"
  have out: "m_telemetry w' = T1" "R' = fold (\<lambda>p R. writeSnapshotToRedis (sn_redis env) ?self (the (?ps2 p)) R) ?L R1"
    using assms(9) 1 2 by (auto simp: syncStatsToRedis_def Let_def)
  have fin: "finite (ran (m_channels w))" using assms(8) by (rule finite_ran)
  have ch: "set ?chs = ran (m_channels w)" "distinct ?chs" using assms(3) fin by (simp_all add: FindAllLocal_def enumerates_def)
  have sub: "sub_inv (m_heap w) (m_subs w)" using subs_okD(1) [OF msg_invD(3) [OF assms(1)]] .
  have refs: "enumerates (me_refs (sn_menv env))" using assms(2) by (simp add: env_ok_def)
  note A = channels_snapshot [OF sub refs ch 1]
  note B = counters_read [OF assms(6) 2 assms(7) ran_counters(1) [OF assms(7,4)], unfolded ran_counters(2) [OF assms(7,4)]]
  have ps1: "ps1 q = (if in_snapshot w ?self q then Some (read_counter (taken R ?self q ?T) (channel_snapshot w q)) else None)" for q
  proof (cases "?T (tel_key q ?self) = None")
    case True
    then have "read_counter (taken R ?self q ?T) (channel_snapshot w q) = channel_snapshot w q"
      by (simp add: taken_new read_counter_def NewCounter_def channel_snapshot_def new_snapshot_def)
    then show ?thesis using B True A(2) by (simp add: in_snapshot_def)
  next
    case False
    then show ?thesis using B A(1) by (simp add: in_snapshot_def)
  qed
  have d: "dom ps1 = {q. in_snapshot w ?self q}" by (simp add: dom_def ps1)
  have "{q. in_snapshot w ?self q} \<subseteq> (\<lambda>ch. name_project (ch_Name ch)) ` ran (m_channels w) \<union> tc_ProjectID ` set ?cs"
    unfolding in_snapshot_def ran_counters(2) [OF assms(7,4)] by blast
  then have "finite (dom ps1)" unfolding d by (rule finite_subset) (use fin in simp)
  then have L: "set ?L = {q. in_snapshot w ?self q}" using assms(5) unfolding enumerates_def d by blast
  have ps2: "?ps2 q = (if in_snapshot w ?self q then Some (full_snapshot w (taken R ?self q ?T) q) else None)" for q
    by (simp add: ps1 full_snapshot_def)
  have okL: "\<forall>q\<in>set ?L. \<exists>sn. ?ps2 q = Some sn \<and> ps_ProjectID sn = q \<and> snap_ok sn"
    using full_snapshot_ok [OF assms(7)] unfolding ps2 L by simp
  have W: "stat_at R' t i q = (if i = ?self \<and> in_snapshot w ?self q then map_of (snap_items (full_snapshot w (taken R ?self q ?T) q)) t
      else stat_at R1 t i q)" if "t \<in> set key_types" for t i q
    unfolding out(2) snapshots_written [OF assms(6) okL that] L unfolding ps2 by simp
  have Rest: "stat_at R1 t i q = stat_at R t i q" if "t \<in> set key_types" "i \<noteq> ?self \<or> \<not> in_snapshot w ?self q" for t i q
    using B that by (auto simp: in_snapshot_def)
  have here: "List.map (\<lambda>t. stat_at R' t ?self p) key_types =
      (if in_snapshot w ?self p then List.map (map_of (snap_items (full_snapshot w c p))) key_types
       else List.map (\<lambda>t. stat_at R t ?self p) key_types)"
    by (simp add: W Rest assms(10))
  have there: "\<forall>t\<in>set key_types. \<forall>i q. i \<noteq> ?self \<longrightarrow> stat_at R' t i q = stat_at R t i q" by (simp add: W Rest)
  have "GetCounter p ?self (m_telemetry w') = c"
    using B taken_new [of ?T p ?self R] unfolding out(1) assms(10) by (auto simp: GetCounter_def)
  then show ?thesis using here there unfolding full_snapshot_values by blast
qed

text \<open>The sample world with three messages counted, before the first snapshot.\<close>

definition counted_world :: mworld where
  "counted_world = sample_mworld\<lparr>m_telemetry := [tel_key 1 ''i'' \<mapsto> (NewCounter 1 ''i'')\<lparr>tc_InboundCount := 3\<rparr>]\<rparr>"

theorem snapshot_exact_witness:
  "\<exists>env. sn_self env = ''i'' \<and> List.map (\<lambda>t. stat_at (snd (syncStatsToRedis env (counted_world, Map.empty))) t ''i'' 1) key_types
       = List.map Some [1, 1, 1, 0, 0, 0, 0, 0]
     \<and> tc_InboundCount (GetCounter 1 ''i'' (m_telemetry counted_world)) = 3
     \<and> tc_InboundCount (GetCounter 1 ''i'' (m_telemetry (fst (syncStatsToRedis env (counted_world, Map.empty))))) = 0"
proof -
  have ex: "\<exists>f. enumerates f" for f :: "'a set \<Rightarrow> 'a list" unfolding enumerates_def by (metis finite_distinct_list)
  obtain ec :: "channel set \<Rightarrow> channel list" where ec: "enumerates ec" using ex by blast
  obtain et :: "tel_counter set \<Rightarrow> tel_counter list" where et: "enumerates et" using ex by blast
  let ?env = "\<lparr>sn_menv = sample_menv, sn_self = ''i'', sn_channels = ec, sn_counters = et, sn_projects = sorted_list_of_set, sn_redis = sample_redis\<rparr>"
  let ?w = counted_world
  have w: "m_channels ?w = m_channels sample_mworld" "m_heap ?w = m_heap sample_mworld" "m_subs ?w = m_subs sample_mworld"
    "m_conns ?w = m_conns sample_mworld" "m_telemetry ?w = [tel_key 1 ''i'' \<mapsto> (NewCounter 1 ''i'')\<lparr>tc_InboundCount := 3\<rparr>]"
    by (simp_all add: counted_world_def)
  have inv: "msg_inv ?w" using sample_msg_inv by (simp add: counted_world_def msg_inv_def)
  have tel: "tel_ok (m_telemetry ?w)" unfolding w by (auto simp: tel_ok_def NewCounter_def in64_def split: if_splits)
  have dom: "finite (dom (m_channels ?w))" unfolding w by (simp add: sample_mworld_def)
  have sorted: "enumerates (sn_projects ?env)" by (simp add: enumerates_def)
  have f: "\<not> rd_fails (sn_redis ?env) k" for k by (simp add: sample_redis_def)
  have s: "in_snapshot ?w ''i'' 1" by (simp add: in_snapshot_def w)
  have c: "CountByProject 1 (cs_repo (m_conns ?w)) = 1" unfolding w by (simp add: CountByProject_def sample_mworld_def)
  have o: "open_subs ?w ch = (if FullName ch = ''1.c'' then {2} else {})" for ch
    unfolding open_subs_def w by (auto simp: sample_links) (simp_all add: sample_mworld_def init_world_def sample_subs_def New_subscription_def)
  let ?c = "IncrementLocalSubscriptions 1 (New_channel ''ch'' 1 (NewName ''c'' 1) ''i'')"
  have n: "FullName ?c = ''1.c''" "name_project (ch_Name ?c) = 1" "Full (NewName ''c'' 1) = ''1.c''" by code_simp+
  have r: "ran (m_channels ?w) = {?c}" unfolding w by (simp add: sample_mworld_def)
  have b1: "busy_channels ?w 1 = {?c}" unfolding busy_channels_def o r using n by auto
  have t: "taken Map.empty ''i'' 1 (m_telemetry ?w) = reset_counter ((NewCounter 1 ''i'')\<lparr>tc_InboundCount := 3\<rparr>)"
    unfolding w by (simp add: taken_def stat_at_def GetCounter_def)
  note X = snapshot_exact [OF inv _ _ _ sorted f tel dom prod.collapse [symmetric] refl, where p = 1 and R = Map.empty]
  show ?thesis
    using X ec et s c t by (intro exI [of _ ?env]) (simp add: sample_env_ok b1 o n(1,3) reset_counter_def NewCounter_def in64_def w GetCounter_def)
qed

end
