(* ===== verification/Platform.thy ===== *)
theory Platform
  imports QueueSystem
begin

text \<open>
  The platform's own recurring tasks: the registry and the idempotency keys of
  \<open>internal/application/service/queue/platform/registry.go\<close>, and the tasks that
  \<open>internal/application/service/queue/platform/register.go\<close> puts into it.  The calendar of \<open>time.Format\<close> is
  written out for the four layouts the code uses.
\<close>

section \<open>Dates\<close>

definition hour :: int where "hour = 60 * minute"
definition day :: int where "day = 24 * hour"

text \<open>\<open>appendInt\<close> of the package \<open>time\<close>: at least the given number of digits.\<close>

definition pad_int :: "nat \<Rightarrow> int \<Rightarrow> string" where
  "pad_int n i =
     (let s = dec_nat (nat \<bar>i\<bar>)
      in (if i < 0 then ''-'' else []) @ replicate (n - length s) (CHR ''0'') @ s)"

text \<open>Year, month and day of a number of days since 1970-01-01, in the proleptic Gregorian calendar; years are
  counted from March, in eras of 400.\<close>

definition civil :: "int \<Rightarrow> int \<times> int \<times> int" where
  "civil days =
     (let z = days + 719468;
          era = z div 146097;
          doe = z mod 146097;
          yoe = (doe - doe div 1460 + doe div 36524 - doe div 146096) div 365;
          doy = doe - (365 * yoe + yoe div 4 - yoe div 100);
          mp = (5 * doy + 2) div 153;
          d = doy - (153 * mp + 2) div 5 + 1;
          m = (if mp < 10 then mp + 3 else mp - 9)
      in (yoe + era * 400 + (if m \<le> 2 then 1 else 0), m, d))"

definition date_text :: "time \<Rightarrow> string" where
  "date_text t = (let (y, m, d) = civil (t div day) in pad_int 4 y @ pad_int 2 m @ pad_int 2 d)"

text \<open>The layouts \<open>20060102\<close>, \<open>2006010215\<close> and \<open>200601021504\<close>.\<close>

definition Format_day :: "time \<Rightarrow> string" where
  "Format_day t = date_text t"

definition Format_hour :: "time \<Rightarrow> string" where
  "Format_hour t = date_text t @ pad_int 2 (t mod day div hour)"

definition Format_minute :: "time \<Rightarrow> string" where
  "Format_minute t = date_text t @ pad_int 2 (t mod day div hour) @ pad_int 2 (t mod hour div minute)"

text \<open>\<open>now.Truncate(d)\<close>; the durations the code truncates to divide a day.\<close>

definition Truncate :: "int \<Rightarrow> time \<Rightarrow> time" where
  "Truncate d t = t - t mod d"

section \<open>Tasks\<close>

definition TaskQueueWorkerCleanupMinutely :: string where
  "TaskQueueWorkerCleanupMinutely = ''queue:worker:cleanup:minutely''"
definition TaskQueueJobCleanupDaily :: string where
  "TaskQueueJobCleanupDaily = ''queue:job:cleanup:daily''"
definition TaskQueueCascadeMinutely :: string where
  "TaskQueueCascadeMinutely = ''queue:cascade:minutely''"

definition PlatformProjectID :: project_id where "PlatformProjectID = 0"

datatype idempotency_bucket = BucketMinute | BucketTenMinutes | BucketHour | BucketDay

text \<open>What running a handler comes to: it returns, returns an error with a text, or panics with a value that
  prints as a text.  A handler gets the cancellation of its context, the environment of its calls and the
  payload.\<close>

datatype handler_result = HandlerOk | HandlerError string | HandlerPanic string

type_synonym handler = "bool \<Rightarrow> env \<Rightarrow> string \<Rightarrow> world \<Rightarrow> handler_result \<times> world"

record task_definition =
  td_Name :: string
  td_Schedule :: string
  td_LockTimeout :: int
  td_IdempotencyBucket :: idempotency_bucket
  td_Handler :: "handler option"

type_synonym registry = "string \<rightharpoonup> task_definition"

definition NewRegistry :: registry where
  "NewRegistry = Map.empty"

text \<open>The error is the name that is already registered.\<close>

definition Register :: "task_definition \<Rightarrow> registry \<Rightarrow> (string + unit) \<times> registry" where
  "Register def reg =
     (case reg (td_Name def) of
        Some _ \<Rightarrow> (Inl (td_Name def), reg)
      | None \<Rightarrow> (Inr (), reg(td_Name def \<mapsto> def)))"

text \<open>\<open>All\<close> ranges over a map; the order of its keys is an argument.\<close>

definition All_tasks :: "(string set \<Rightarrow> string list) \<Rightarrow> registry \<Rightarrow> task_definition list" where
  "All_tasks ord reg = List.map (\<lambda>n. the (reg n)) (ord (dom reg))"

definition Get_task :: "string \<Rightarrow> registry \<Rightarrow> task_definition option" where
  "Get_task n reg = reg n"

definition platform_QueueName :: "string \<Rightarrow> string" where
  "platform_QueueName n = ''_platform.'' @ n"

definition IdempotencyKey :: "string \<Rightarrow> idempotency_bucket \<Rightarrow> time \<Rightarrow> string" where
  "IdempotencyKey n b now =
     (case b of
        BucketTenMinutes \<Rightarrow> n @ '':'' @ Format_minute (Truncate (10 * minute) now)
      | BucketHour \<Rightarrow> n @ '':'' @ Format_hour now
      | BucketDay \<Rightarrow> n @ '':'' @ Format_day now
      | BucketMinute \<Rightarrow> n @ '':'' @ Format_minute now)"

definition bucket_length :: "idempotency_bucket \<Rightarrow> int" where
  "bucket_length b = (case b of BucketMinute \<Rightarrow> minute | BucketTenMinutes \<Rightarrow> 10 * minute | BucketHour \<Rightarrow> hour | BucketDay \<Rightarrow> day)"

section \<open>The cleanup tasks\<close>

text \<open>The text of an error is an argument.\<close>

definition handler_of :: "(qerr \<Rightarrow> string) \<Rightarrow> (qerr + 'a) \<times> world \<Rightarrow> handler_result \<times> world" where
  "handler_of txt r = (case fst r of Inl e \<Rightarrow> HandlerError (txt e) | Inr _ \<Rightarrow> HandlerOk, snd r)"

definition cleanup_tasks :: "cleanup_config \<Rightarrow> (qerr \<Rightarrow> string) \<Rightarrow> task_definition list" where
  "cleanup_tasks cfg txt =
     [\<lparr>td_Name = TaskQueueWorkerCleanupMinutely, td_Schedule = ''* * * * *'', td_LockTimeout = 30 * second,
       td_IdempotencyBucket = BucketMinute,
       td_Handler = Some (\<lambda>d env _ w. handler_of txt (PurgeStaleWorkers cfg env d w))\<rparr>,
      \<lparr>td_Name = TaskQueueCascadeMinutely, td_Schedule = ''* * * * *'', td_LockTimeout = 2 * minute,
       td_IdempotencyBucket = BucketMinute,
       td_Handler = Some (\<lambda>d env _ w. handler_of txt (ResumePendingCascades cfg env d w))\<rparr>,
      \<lparr>td_Name = TaskQueueJobCleanupDaily, td_Schedule = ''30 0 * * *'', td_LockTimeout = 5 * minute,
       td_IdempotencyBucket = BucketDay,
       td_Handler = Some (\<lambda>d env _ w. handler_of txt (PurgeTerminalJobs cfg env d w))\<rparr>]"

fun register_all :: "task_definition list \<Rightarrow> registry \<Rightarrow> (string + unit) \<times> registry" where
  "register_all [] reg = (Inr (), reg)"
| "register_all (def # defs) reg =
     (case Register def reg of
        (Inl e, reg) \<Rightarrow> (Inl e, reg)
      | (Inr _, reg) \<Rightarrow> register_all defs reg)"

definition RegisterCleanupTasks :: "cleanup_config \<Rightarrow> (qerr \<Rightarrow> string) \<Rightarrow> registry \<Rightarrow> (string + unit) \<times> registry" where
  "RegisterCleanupTasks cfg txt reg = register_all (cleanup_tasks cfg txt) reg"

lemma Register_keeps: "reg n = Some d \<Longrightarrow> snd (Register def reg) n = Some d"
  by (auto simp: Register_def split: option.splits)

section \<open>The key of a bucket\<close>

lemma minute_pos [simp]: "0 < minute" "0 < hour" "0 < day"
  by (simp_all add: minute_def hour_def day_def)

lemma coarser: "0 < a \<Longrightarrow> 0 < b \<Longrightarrow> t div a = t' div a \<Longrightarrow> t div (b * a) = t' div (b * (a::int))"
  by (metis less_imp_le mult.commute zdiv_zmult2_eq)

lemma mod_div_unit:
  assumes "0 < a" "0 < b"
  shows "x mod (b * a) div a = x div a mod (b :: int)"
proof -
  have "x mod (a * b) = a * (x div a mod b) + x mod a" using assms by (simp add: zmod_zmult2_eq)
  then show ?thesis using assms by (simp add: mult.commute)
qed

lemma same_minute:
  assumes "t div minute = t' div minute"
  shows "t div hour = t' div hour" "t div day = t' div day" "Format_minute t = Format_minute t'"
proof -
  show h: "t div hour = t' div hour" unfolding hour_def by (rule coarser) (use assms in simp_all)
  show d: "t div day = t' div day" unfolding day_def by (rule coarser) (use h in simp_all)
  have "x mod hour div minute = x div minute mod 60" for x unfolding hour_def by (rule mod_div_unit) simp_all
  moreover have "x mod day div hour = x div hour mod 24" for x unfolding day_def by (rule mod_div_unit) simp_all
  ultimately show "Format_minute t = Format_minute t'"
    using assms h d by (simp add: Format_minute_def date_text_def)
qed

lemma same_hour:
  assumes "t div hour = t' div hour"
  shows "t div day = t' div day" "Format_hour t = Format_hour t'"
proof -
  show d: "t div day = t' div day" unfolding day_def by (rule coarser) (use assms in simp_all)
  have "x mod day div hour = x div hour mod 24" for x unfolding day_def by (rule mod_div_unit) simp_all
  then show "Format_hour t = Format_hour t'"
    using assms d by (simp add: Format_hour_def date_text_def)
qed

text \<open>Within one bucket the key of a task does not change.\<close>

lemma IdempotencyKey_bucket:
  assumes "t div bucket_length b = t' div bucket_length b"
  shows "IdempotencyKey n b t = IdempotencyKey n b t'"
  using assms same_minute(3) [of t t'] same_hour(2) [of t t']
  by (cases b)
     (simp_all add: IdempotencyKey_def bucket_length_def Format_day_def date_text_def Truncate_def minus_mod_eq_div_mult)

lemma IdempotencyKey_not_empty [simp]: "IdempotencyKey n b t \<noteq> []"
  by (simp add: IdempotencyKey_def split: idempotency_bucket.splits)

lemma IdempotencyKey_example:
  "IdempotencyKey ''t'' BucketMinute 1700000000000000000 = ''t:202311142213''"
  "IdempotencyKey ''t'' BucketTenMinutes 1700000000000000000 = ''t:202311142210''"
  "IdempotencyKey ''t'' BucketHour 1700000000000000000 = ''t:2023111422''"
  "IdempotencyKey ''t'' BucketDay 1709164800000000000 = ''t:20240229''"
  by code_simp+

end
