(* ===== verification/Schedule.thy ===== *)
theory Schedule
  imports Platform SubRepo RouterProps
begin

text \<open>
  \<open>internal/application/service/queue/schedule/service.go\<close>: the election of the instance that runs the recurring
  tasks, by a key with a lifetime in Redis, and the enqueueing of the tasks by that instance.  The four Redis
  commands it uses are fields of \<open>lease_env\<close>, over an unknown type of stores; \<open>leases_ok\<close> states what Redis
  documents of them.  The cron library is the list of the functions added to it and the outcome of parsing a
  schedule.
\<close>

section \<open>The state of one instance\<close>

record scheduler =
  sc_instanceID :: ulid
  sc_isLeader :: bool
  sc_cronRunning :: bool
  sc_cron :: "task_definition list"
  sc_started :: bool
  sc_stopped :: bool
  sc_heartbeats :: nat
  sc_loops :: nat

text \<open>\<open>sc_stopped\<close> is the closed \<open>leaderStopChan\<close>, after which the cron is stopped as well;
  \<open>sc_heartbeats\<close> and \<open>sc_loops\<close> count the goroutines started for the heartbeat, and for the pair of the scheduler loop and the takeover loop.\<close>

definition NewScheduler :: "ulid \<Rightarrow> scheduler" where
  "NewScheduler i = \<lparr>sc_instanceID = i, sc_isLeader = False, sc_cronRunning = False, sc_cron = [], sc_started = False,
     sc_stopped = False, sc_heartbeats = 0, sc_loops = 0\<rparr>"

definition keyPrefixSchedule :: string where "keyPrefixSchedule = ''qpub:queue:leader''"
definition leaderKeyTTL :: int where "leaderKeyTTL = 30 * second"
definition leaderHeartbeat :: int where "leaderHeartbeat = 20 * second"

text \<open>An error of Redis or of the cron parser is a text.  \<open>le_TTL\<close> answers the remaining lifetime; the answers for
  a key that is missing or has no lifetime are negative.\<close>

record 'r lease_env =
  le_SetNX :: "time \<Rightarrow> string \<Rightarrow> string \<Rightarrow> int \<Rightarrow> 'r \<Rightarrow> (string + bool) \<times> 'r"
  le_Set :: "time \<Rightarrow> string \<Rightarrow> string \<Rightarrow> int \<Rightarrow> 'r \<Rightarrow> (string + unit) \<times> 'r"
  le_Del :: "time \<Rightarrow> string \<Rightarrow> 'r \<Rightarrow> (string + unit) \<times> 'r"
  le_TTL :: "time \<Rightarrow> string \<Rightarrow> 'r \<Rightarrow> string + int"
  le_cron_error :: "string \<Rightarrow> string option"
  le_order :: "string set \<Rightarrow> string list"

section \<open>Leadership\<close>

definition tryBecomeLeader :: "'r lease_env \<Rightarrow> time \<Rightarrow> scheduler \<Rightarrow> 'r \<Rightarrow> (string + bool) \<times> scheduler \<times> 'r" where
  "tryBecomeLeader le now s r =
     (case le_SetNX le now keyPrefixSchedule (sc_instanceID s) leaderKeyTTL r of
        (Inl e, r) \<Rightarrow> (Inl e, s, r)
      | (Inr success, r) \<Rightarrow> (Inr success, s\<lparr>sc_isLeader := success\<rparr>, r))"

text \<open>The tasks are added one by one; those before a schedule that does not parse stay added.\<close>

fun add_funcs :: "'r lease_env \<Rightarrow> task_definition list \<Rightarrow> task_definition list \<Rightarrow> (string + unit) \<times> task_definition list" where
  "add_funcs le [] cron = (Inr (), cron)"
| "add_funcs le (def # defs) cron =
     (if td_Schedule def = [] then add_funcs le defs cron
      else case le_cron_error le (td_Schedule def) of
             Some e \<Rightarrow> (Inl e, cron)
           | None \<Rightarrow> add_funcs le defs (cron @ [def]))"

definition startCron :: "'r lease_env \<Rightarrow> registry \<Rightarrow> scheduler \<Rightarrow> (string + unit) \<times> scheduler" where
  "startCron le reg s =
     (if sc_cronRunning s then (Inr (), s)
      else case add_funcs le (All_tasks (le_order le) reg) (sc_cron s) of
             (Inl e, cron) \<Rightarrow> (Inl e, s\<lparr>sc_cron := cron\<rparr>)
           | (Inr _, cron) \<Rightarrow> (Inr (), s\<lparr>sc_cron := cron, sc_cronRunning := True\<rparr>))"

definition startLeaderHeartbeat :: "scheduler \<Rightarrow> scheduler" where
  "startLeaderHeartbeat s = s\<lparr>sc_heartbeats := sc_heartbeats s + 1\<rparr>"

definition ensureLeaderAndCron :: "'r lease_env \<Rightarrow> registry \<Rightarrow> time \<Rightarrow> scheduler \<Rightarrow> 'r \<Rightarrow> (string + unit) \<times> scheduler \<times> 'r" where
  "ensureLeaderAndCron le reg now s r =
     (case tryBecomeLeader le now s r of
        (Inl e, s, r) \<Rightarrow> (Inl e, s, r)
      | (Inr isLeader, s, r) \<Rightarrow>
          if isLeader then
            case startCron le reg s of
              (Inl e, s) \<Rightarrow> (Inl e, s, r)
            | (Inr _, s) \<Rightarrow> (Inr (), startLeaderHeartbeat s, r)
          else (Inr (), s, r))"

definition Start_scheduler :: "'r lease_env \<Rightarrow> registry \<Rightarrow> time \<Rightarrow> scheduler \<Rightarrow> 'r \<Rightarrow> (string + unit) \<times> scheduler \<times> 'r" where
  "Start_scheduler le reg now s r =
     (if sc_started s then (Inr (), s, r)
      else case ensureLeaderAndCron le reg now (s\<lparr>sc_loops := sc_loops s + 1\<rparr>) r of
             (Inl e, s, r) \<Rightarrow> (Inl e, s, r)
           | (Inr _, s, r) \<Rightarrow> (Inr (), s\<lparr>sc_started := True\<rparr>, r))"

definition isLeadershipStale :: "'r lease_env \<Rightarrow> time \<Rightarrow> 'r \<Rightarrow> bool" where
  "isLeadershipStale le now r =
     (case le_TTL le now keyPrefixSchedule r of
        Inl _ \<Rightarrow> True
      | Inr ttl \<Rightarrow> ttl \<le> 0 \<or> ttl < 5 * second)"

text \<open>One tick of the takeover loop; its error is logged.\<close>

definition takeover_tick :: "'r lease_env \<Rightarrow> registry \<Rightarrow> time \<Rightarrow> scheduler \<Rightarrow> 'r \<Rightarrow> scheduler \<times> 'r" where
  "takeover_tick le reg now s r =
     (if sc_stopped s \<or> sc_loops s = 0 then (s, r)
      else if sc_isLeader s then (s, r)
      else if isLeadershipStale le now r then snd (ensureLeaderAndCron le reg now s r)
      else (s, r))"

text \<open>One tick of a heartbeat: the key is set whoever holds it, and the outcome is dropped.\<close>

definition heartbeat_tick :: "'r lease_env \<Rightarrow> time \<Rightarrow> scheduler \<Rightarrow> 'r \<Rightarrow> 'r" where
  "heartbeat_tick le now s r =
     (if sc_stopped s \<or> sc_heartbeats s = 0 then r
      else snd (le_Set le now keyPrefixSchedule (sc_instanceID s) leaderKeyTTL r))"

definition releaseLeadership :: "'r lease_env \<Rightarrow> time \<Rightarrow> scheduler \<Rightarrow> 'r \<Rightarrow> scheduler \<times> 'r" where
  "releaseLeadership le now s r = (s\<lparr>sc_isLeader := False\<rparr>, snd (le_Del le now keyPrefixSchedule r))"

text \<open>A second \<open>Stop\<close> closes a closed channel, which panics: \<^const>\<open>None\<close>.\<close>

definition Stop_scheduler :: "'r lease_env \<Rightarrow> time \<Rightarrow> scheduler \<Rightarrow> 'r \<Rightarrow> (scheduler \<times> 'r) option" where
  "Stop_scheduler le now s r =
     (if sc_stopped s then None
      else let s = s\<lparr>sc_stopped := True\<rparr>
           in if sc_isLeader s then Some (releaseLeadership le now s r) else Some (s, r))"

section \<open>Enqueueing a task\<close>

definition lock_key :: "string \<Rightarrow> string" where
  "lock_key taskName = ''qpub:queue:execution:lock:'' @ taskName"

definition tryAcquireLock :: "'r lease_env \<Rightarrow> time \<Rightarrow> scheduler \<Rightarrow> string \<Rightarrow> int \<Rightarrow> 'r \<Rightarrow> bool \<times> 'r" where
  "tryAcquireLock le now s taskName timeout r =
     (case le_SetNX le now (lock_key taskName) (sc_instanceID s) timeout r of
        (Inl _, r) \<Rightarrow> (False, r)
      | (Inr success, r) \<Rightarrow> (success, r))"

text \<open>\<open>json.Marshal\<close> of the map with the task's name; the names of the tasks need no escaping.\<close>

definition task_payload :: "string \<Rightarrow> string" where
  "task_payload n = ''{\"task\":\"'' @ n @ ''\"}''"

definition platform_request :: "task_definition \<Rightarrow> time \<Rightarrow> enqueue_request" where
  "platform_request def now =
     \<lparr>er_ProjectID = PlatformProjectID, er_QueueName = platform_QueueName (td_Name def),
      er_Payload = task_payload (td_Name def),
      er_IdempotencyKey = IdempotencyKey (td_Name def) (td_IdempotencyBucket def) now,
      er_ScheduleAt = None, er_Delay = 0, er_Metadata = []\<rparr>"

definition enqueuePlatformTask ::
    "'r lease_env \<Rightarrow> env \<Rightarrow> scheduler \<Rightarrow> task_definition \<Rightarrow> 'r \<Rightarrow> world \<Rightarrow> 'r \<times> world" where
  "enqueuePlatformTask le env s def r w =
     (case tryAcquireLock le (e_now env) s (td_Name def) (td_LockTimeout def) r of
        (False, r) \<Rightarrow> (r, w)
      | (True, r) \<Rightarrow> (r, snd (router_Enqueue env (platform_request def (e_now env)) w)))"

definition EnqueueNow ::
    "'r lease_env \<Rightarrow> env \<Rightarrow> registry \<Rightarrow> scheduler \<Rightarrow> string \<Rightarrow> 'r \<Rightarrow> world \<Rightarrow> (string + unit) \<times> 'r \<times> world" where
  "EnqueueNow le env reg s n r w =
     (case Get_task n reg of
        None \<Rightarrow> (Inl (''unknown platform task: '' @ n), r, w)
      | Some def \<Rightarrow> (Inr (), enqueuePlatformTask le env s def r w))"

text \<open>One tick of the scheduler loop: promote due jobs and, as a leader, reclaim expired ones.\<close>

definition scheduler_tick :: "env \<Rightarrow> bool \<Rightarrow> scheduler \<Rightarrow> world \<Rightarrow> world" where
  "scheduler_tick env d s w =
     (if sc_stopped s \<or> sc_loops s = 0 then w
      else let w = snd (PublishDueScheduled env w)
           in if sc_isLeader s then snd (router_ReclaimExpired env d 500 w) else w)"

text \<open>The cron runs the tasks of a schedule that is due, in the order they were added.\<close>

definition cron_tick :: "'r lease_env \<Rightarrow> env \<Rightarrow> (string \<Rightarrow> bool) \<Rightarrow> scheduler \<Rightarrow> 'r \<Rightarrow> world \<Rightarrow> 'r \<times> world" where
  "cron_tick le env due s r w =
     (if sc_cronRunning s \<and> \<not> sc_stopped s
      then fold (\<lambda>def (r, w). enqueuePlatformTask le env s def r w)
             (List.filter (\<lambda>def. due (td_Schedule def)) (sc_cron s)) (r, w)
      else (r, w))"

section \<open>The instances together\<close>

text \<open>The instances are numbered; each has its own state, and all share the store.\<close>

datatype sched_event = SStart nat | STakeover nat | SHeartbeat nat | SStop nat

type_synonym 'r cluster = "(nat \<Rightarrow> scheduler) \<times> 'r"

definition set_instance :: "nat \<Rightarrow> scheduler \<times> 'r \<Rightarrow> (nat \<Rightarrow> scheduler) \<Rightarrow> 'r cluster" where
  "set_instance i sr ss = (ss(i := fst sr), snd sr)"

fun sched_step :: "'r lease_env \<Rightarrow> registry \<Rightarrow> time \<Rightarrow> sched_event \<Rightarrow> 'r cluster \<Rightarrow> 'r cluster" where
  "sched_step le reg now (SStart i) (ss, r) = set_instance i (snd (Start_scheduler le reg now (ss i) r)) ss"
| "sched_step le reg now (STakeover i) (ss, r) = set_instance i (takeover_tick le reg now (ss i) r) ss"
| "sched_step le reg now (SHeartbeat i) (ss, r) = (ss, heartbeat_tick le now (ss i) r)"
| "sched_step le reg now (SStop i) (ss, r) =
     (case Stop_scheduler le now (ss i) r of None \<Rightarrow> (ss, r) | Some sr \<Rightarrow> set_instance i sr ss)"

text \<open>What Redis documents of \<open>SET key value NX PX lifetime\<close>: it sets the key only where no live one is.  \<open>live t k r\<close>
  says that the key exists in the store at the time.\<close>

definition leases_ok :: "'r lease_env \<Rightarrow> (time \<Rightarrow> string \<Rightarrow> 'r \<Rightarrow> bool) \<Rightarrow> bool" where
  "leases_ok le live \<longleftrightarrow> (\<forall>t k v d r r'. le_SetNX le t k v d r = (Inr True, r') \<longrightarrow> \<not> live t k r)"

text \<open>The runs in which the leader's key has not lapsed at any step taken while an instance leads.\<close>

inductive elect :: "'r lease_env \<Rightarrow> registry \<Rightarrow> (time \<Rightarrow> string \<Rightarrow> 'r \<Rightarrow> bool) \<Rightarrow> 'r cluster \<Rightarrow> bool"
  for le reg live where
  elect_init: "elect le reg live (\<lambda>i. NewScheduler (ids i), r)"
| elect_step: "elect le reg live (ss, r) \<Longrightarrow> ((\<exists>i. sc_isLeader (ss i)) \<Longrightarrow> live now keyPrefixSchedule r)
    \<Longrightarrow> elect le reg live (sched_step le reg now ev (ss, r))"

lemma startCron_leader:
  "startCron le reg s = (res, s') \<Longrightarrow> sc_isLeader s' = sc_isLeader s"
  by (auto simp: startCron_def split: if_splits prod.splits sum.splits)

lemma heartbeat_leader [simp]: "sc_isLeader (startLeaderHeartbeat s) = sc_isLeader s"
  by (simp add: startLeaderHeartbeat_def)

text \<open>An instance leads after asking for the key only if the key was free, or Redis failed and it led before.\<close>

lemma ensure_leader:
  assumes "leases_ok le live" "sc_isLeader (fst (snd (ensureLeaderAndCron le reg now s r)))"
  shows "sc_isLeader s \<or> \<not> live now keyPrefixSchedule r"
proof (cases "le_SetNX le now keyPrefixSchedule (sc_instanceID s) leaderKeyTTL r")
  case (Pair x r')
  show ?thesis
  proof (cases x)
    case Inl then show ?thesis using assms(2) Pair by (simp add: ensureLeaderAndCron_def tryBecomeLeader_def)
  next
    case (Inr b)
    then have "b" using assms(2) Pair by (cases b) (auto simp: ensureLeaderAndCron_def tryBecomeLeader_def)
    then have "le_SetNX le now keyPrefixSchedule (sc_instanceID s) leaderKeyTTL r = (Inr True, r')" using Inr Pair by simp
    then show ?thesis using assms(1) unfolding leases_ok_def by blast
  qed
qed

lemma sched_step_leader:
  assumes "leases_ok le live" "sc_isLeader (fst (sched_step le reg now ev (ss, r)) i)"
  shows "sc_isLeader (ss i) \<or> (\<not> live now keyPrefixSchedule r
    \<and> (\<forall>j. j \<noteq> i \<longrightarrow> fst (sched_step le reg now ev (ss, r)) j = ss j))"
proof (cases ev)
  case (SStart k)
  let ?s = "(ss k)\<lparr>sc_loops := sc_loops (ss k) + 1\<rparr>"
  show ?thesis
    using assms(2) SStart ensure_leader [OF assms(1), of reg now ?s r]
    by (cases "i = k")
       (auto simp: set_instance_def Start_scheduler_def split: if_splits prod.splits sum.splits)
next
  case (STakeover k)
  then show ?thesis
    using assms(2) ensure_leader [OF assms(1), of reg now "ss k" r]
    by (cases "i = k") (auto simp: set_instance_def takeover_tick_def split: if_splits)
next
  case (SHeartbeat k) then show ?thesis using assms(2) by simp
next
  case (SStop k)
  then show ?thesis using assms(2)
    by (cases "i = k") (auto simp: set_instance_def Stop_scheduler_def releaseLeadership_def Let_def split: if_splits option.splits)
qed

text \<open>Only \<open>Stop\<close>, and a new \<open>Start\<close> of an instance whose start failed, make a leader give up its role.\<close>

lemma started_leader_stays:
  assumes "sc_isLeader (ss i)" "sc_started (ss i)" "ev \<noteq> SStop i"
  shows "sc_isLeader (fst (sched_step le reg now ev (ss, r)) i) \<and> sc_started (fst (sched_step le reg now ev (ss, r)) i)"
  using assms
  by (cases ev) (auto simp: set_instance_def Start_scheduler_def takeover_tick_def split: option.splits)

lemma started_leaders_stay:
  assumes "sc_isLeader (ss i)" "sc_started (ss i)" "SStop i \<notin> snd ` set evs"
  shows "sc_isLeader (fst (fold (\<lambda>(t, ev). sched_step le reg t ev) evs (ss, r)) i)"
  using assms
proof (induction evs arbitrary: ss r)
  case (Cons e evs)
  obtain t ev where e: "e = (t, ev)" by (cases e)
  obtain ss' r' where s: "sched_step le reg t ev (ss, r) = (ss', r')" by (cases "sched_step le reg t ev (ss, r)")
  have "sc_isLeader (ss' i)" "sc_started (ss' i)"
    using started_leader_stays [of ss i ev le reg t r] Cons.prems e s by auto
  then show ?case using Cons.IH [of ss' r'] Cons.prems(3) e s by simp
qed simp

end
