(* ===== verification/ScheduleProps.thy ===== *)
theory ScheduleProps
  imports Schedule
begin

text \<open>
  The election and the recurring tasks: when there is one leader and when there are two, and how often a task
  is enqueued.
\<close>

section \<open>One leader\<close>

text \<open>C34. Mutual exclusion: in every run in which the leader's key has not lapsed whenever an instance that
  leads takes part in a step (its heartbeats were in time), at most one instance leads, whatever requests fail
  and in whatever order the instances start, stop and tick.\<close>

theorem one_leader:
  assumes "leases_ok le live" "elect le reg live (ss, r)"
  shows "sc_isLeader (ss i) \<longrightarrow> sc_isLeader (ss j) \<longrightarrow> i = j"
proof -
  have "\<forall>i j. sc_isLeader (fst c i) \<and> sc_isLeader (fst c j) \<longrightarrow> i = j" if "elect le reg live c" for c
    using that
  proof (induction rule: elect.induct)
    case (elect_init ids r) then show ?case by (simp add: NewScheduler_def)
  next
    case (elect_step ss r now ev)
    let ?n = "fst (sched_step le reg now ev (ss, r))"
    have old: "a = b" if "sc_isLeader (ss a)" "sc_isLeader (ss b)" for a b using elect_step.IH that by auto
    have new: "sc_isLeader (ss a) \<or> (\<not> live now keyPrefixSchedule r \<and> (\<forall>b. b \<noteq> a \<longrightarrow> ?n b = ss b))"
      if "sc_isLeader (?n a)" for a using sched_step_leader [OF assms(1) that] .
    show ?case
    proof (intro allI impI)
      fix a b assume ab: "sc_isLeader (?n a) \<and> sc_isLeader (?n b)"
      show "a = b"
      proof (cases "\<exists>c. sc_isLeader (ss c)")
        case True
        then have "live now keyPrefixSchedule r" using elect_step.hyps(2) by blast
        then show ?thesis using old new ab by blast
      next
        case False then show ?thesis using new ab by metis
      qed
    qed
  qed
  from this [OF assms(2)] show ?thesis by auto
qed

text \<open>A store of one key with its expiry, which never fails, and two instances.\<close>

definition key_store :: "(string \<rightharpoonup> time) lease_env" where
  "key_store = \<lparr>
     le_SetNX = (\<lambda>t k v d r. case r k of
        Some e \<Rightarrow> if t < e then (Inr False, r) else (Inr True, r(k \<mapsto> t + d))
      | None \<Rightarrow> (Inr True, r(k \<mapsto> t + d))),
     le_Set = (\<lambda>t k v d r. (Inr (), r(k \<mapsto> t + d))),
     le_Del = (\<lambda>t k r. (Inr (), r(k := None))),
     le_TTL = (\<lambda>t k r. case r k of None \<Rightarrow> Inr (- 2) | Some e \<Rightarrow> if t < e then Inr (e - t) else Inr (- 2)),
     le_cron_error = (\<lambda>_. None), le_order = (\<lambda>S. sorted_list_of_set S)\<rparr>"

definition key_live :: "time \<Rightarrow> string \<Rightarrow> (string \<rightharpoonup> time) \<Rightarrow> bool" where
  "key_live t k r \<longleftrightarrow> (case r k of None \<Rightarrow> False | Some e \<Rightarrow> t < e)"

lemma key_store_ok: "leases_ok key_store key_live"
  by (auto simp: leases_ok_def key_store_def key_live_def split: option.splits if_splits)

definition two_started :: "(string \<rightharpoonup> time) cluster" where
  "two_started = sched_step key_store NewRegistry 1 (SStart 1)
     (sched_step key_store NewRegistry 0 (SStart 0) (\<lambda>i. NewScheduler ''i'', Map.empty))"

lemmas sched_run_defs = set_instance_def Start_scheduler_def ensureLeaderAndCron_def tryBecomeLeader_def startCron_def
  All_tasks_def NewRegistry_def startLeaderHeartbeat_def NewScheduler_def key_store_def leaderKeyTTL_def second_def
  keyPrefixSchedule_def

lemma two_started_simps:
  "fst two_started 0 = \<lparr>sc_instanceID = ''i'', sc_isLeader = True, sc_cronRunning = True, sc_cron = [], sc_started = True,
     sc_stopped = False, sc_heartbeats = 1, sc_loops = 1\<rparr>"
  "fst two_started 1 = \<lparr>sc_instanceID = ''i'', sc_isLeader = False, sc_cronRunning = False, sc_cron = [], sc_started = True,
     sc_stopped = False, sc_heartbeats = 0, sc_loops = 1\<rparr>"
  "snd two_started = [keyPrefixSchedule \<mapsto> 30000000000]"
  by (simp_all add: two_started_def sched_run_defs)

lemma two_started_elect: "elect key_store NewRegistry key_live two_started"
proof -
  let ?c0 = "(\<lambda>i. NewScheduler ''i'', Map.empty) :: (string \<rightharpoonup> time) cluster"
  let ?c1 = "sched_step key_store NewRegistry 0 (SStart 0) ?c0"
  have 1: "elect key_store NewRegistry key_live ?c1"
    by (intro elect_step elect_init) (simp add: NewScheduler_def)
  obtain ss r where c: "?c1 = (ss, r)" by (cases ?c1)
  have "r = [keyPrefixSchedule \<mapsto> 30000000000]" using c by (auto simp: sched_run_defs)
  then have "key_live 1 keyPrefixSchedule r" by (simp add: key_live_def)
  then show ?thesis unfolding two_started_def c using 1 unfolding c by (intro elect_step) auto
qed

theorem one_leader_witness:
  "sc_isLeader (fst two_started 0) \<and> \<not> sc_isLeader (fst two_started 1)"
proof -
  have "elect key_store NewRegistry key_live (fst two_started, snd two_started)" using two_started_elect by simp
  from one_leader [OF key_store_ok this, of 0 1] show ?thesis by (simp add: two_started_simps)
qed

section \<open>Two leaders\<close>

lemma startCron_ok:
  assumes "\<forall>c. le_cron_error le c = None"
  shows "\<exists>s1. startCron le reg s = (Inr (), s1) \<and> sc_isLeader s1 = sc_isLeader s \<and> sc_started s1 = sc_started s
    \<and> sc_cronRunning s1"
proof -
  have n: "le_cron_error le c = None" for c using assms by blast
  have "\<exists>cron'. add_funcs le defs cron = (Inr (), cron')" for defs cron
  proof (induction defs arbitrary: cron)
    case (Cons d ds) then show ?case by (cases "td_Schedule d = []") (simp_all add: n)
  qed simp
  then obtain cron where a: "add_funcs le (All_tasks (le_order le) reg) (sc_cron s) = (Inr (), cron)" by blast
  show ?thesis
  proof (cases "sc_cronRunning s")
    case True then show ?thesis by (intro exI [of _ s]) (simp add: startCron_def)
  next
    case False
    then show ?thesis
      by (intro exI [of _ "s\<lparr>sc_cron := cron, sc_cronRunning := True\<rparr>"]) (simp add: startCron_def a)
  qed
qed

text \<open>C35. A leader never learns that it lost the key: when the key has lapsed while an instance leads and another
  instance's takeover tick gets it, both lead and run the cron, and both still lead after any events other than
  their own stops, since a heartbeat sets the key without looking whose it is.\<close>

theorem lapsed_lease_two_leaders:
  assumes "sc_isLeader (ss i)" "sc_started (ss i)" "\<not> sc_isLeader (ss j)" "sc_started (ss j)" "sc_loops (ss j) > 0"
    and "\<not> sc_stopped (ss j)" "isLeadershipStale le now r"
    and "\<forall>v d. fst (le_SetNX le now keyPrefixSchedule v d r) = Inr True" "\<forall>c. le_cron_error le c = None"
    and "SStop i \<notin> snd ` set evs" "SStop j \<notin> snd ` set evs"
  shows "sc_isLeader (fst (fold (\<lambda>(t, ev). sched_step le reg t ev) ((now, STakeover j) # evs) (ss, r)) i)
    \<and> sc_isLeader (fst (fold (\<lambda>(t, ev). sched_step le reg t ev) ((now, STakeover j) # evs) (ss, r)) j)
    \<and> sc_cronRunning (fst (sched_step le reg now (STakeover j) (ss, r)) j)"
proof -
  obtain r1 where nx: "le_SetNX le now keyPrefixSchedule (sc_instanceID (ss j)) leaderKeyTTL r = (Inr True, r1)"
    using assms(8) by (metis prod.collapse)
  let ?s = "ss j\<lparr>sc_isLeader := True\<rparr>"
  obtain s1 where cr: "startCron le reg ?s = (Inr (), s1)" "sc_isLeader s1" "sc_started s1" "sc_cronRunning s1"
    using startCron_ok [OF assms(9), of reg ?s] assms(4) by auto
  have step: "sched_step le reg now (STakeover j) (ss, r) = (ss(j := startLeaderHeartbeat s1), r1)"
    using assms(3,5-7) nx cr(1)
    by (simp add: set_instance_def takeover_tick_def ensureLeaderAndCron_def tryBecomeLeader_def)
  let ?ss = "ss(j := startLeaderHeartbeat s1)"
  have "i \<noteq> j" using assms(1,3) by auto
  then have L: "sc_isLeader (?ss i)" "sc_started (?ss i)" "sc_isLeader (?ss j)" "sc_started (?ss j)"
    using assms(1,2) cr by (simp_all add: startLeaderHeartbeat_def)
  have f: "fold (\<lambda>(t, ev). sched_step le reg t ev) ((now, STakeover j) # evs) (ss, r)
      = fold (\<lambda>(t, ev). sched_step le reg t ev) evs (?ss, r1)"
    by (simp only: fold_simps(2) step prod.case o_apply fold.simps)
  have "sc_cronRunning (?ss j)" using cr(4) by (simp add: startLeaderHeartbeat_def)
  then show ?thesis
    unfolding f step fst_conv
    using started_leaders_stay [of ?ss i evs le reg r1, OF L(1,2) assms(10)]
      started_leaders_stay [of ?ss j evs le reg r1, OF L(3,4) assms(11)]
    by blast
qed

theorem lapsed_lease_two_leaders_witness:
  "sc_isLeader (fst (sched_step key_store NewRegistry 31000000000 (STakeover 1) two_started) 0)
   \<and> sc_isLeader (fst (sched_step key_store NewRegistry 31000000000 (STakeover 1) two_started) 1)"
proof -
  have "isLeadershipStale key_store 31000000000 (snd two_started)"
    "\<forall>v d. fst (le_SetNX key_store 31000000000 keyPrefixSchedule v d (snd two_started)) = Inr True"
    "\<forall>c. le_cron_error key_store c = None"
    by (simp_all add: isLeadershipStale_def two_started_simps key_store_def)
  from lapsed_lease_two_leaders [where i = 0 and j = 1 and evs = "[]" and reg = NewRegistry, OF _ _ _ _ _ _ this, of "fst two_started"]
  have "sc_isLeader (fst (sched_step key_store NewRegistry 31000000000 (STakeover 1) (fst two_started, snd two_started)) 0)
    \<and> sc_isLeader (fst (sched_step key_store NewRegistry 31000000000 (STakeover 1) (fst two_started, snd two_started)) 1)"
    by (simp add: two_started_simps(1,2) del: sched_step.simps One_nat_def)
  then show ?thesis by simp
qed

section \<open>How often a task is enqueued\<close>

lemma run_ops_inv:
  assumes "world_inv (snd s)" "\<forall>e op. (e, op) \<in> set ops \<longrightarrow> \<not> deletes_jobs op" "a \<in> set (w_jobs (snd s))"
  shows "\<exists>b\<in>set (w_jobs (snd (fold (\<lambda>(e, op). apply_op cfg e op) ops s))). same_key b a"
  using assms
proof (induction ops arbitrary: s a)
  case (Cons x ops)
  obtain e op where x: "x = (e, op)" by (cases x)
  obtain b where b: "b \<in> set (w_jobs (snd (apply_op cfg e op s)))" "row_step a b"
    using step_jobs [OF Cons.prems(1), of op cfg e] Cons.prems(2,3) x by (fastforce simp: jobs_step_def)
  have "\<exists>c\<in>set (w_jobs (snd (fold (\<lambda>(e, op). apply_op cfg e op) ops (apply_op cfg e op s)))). same_key c b"
    by (rule Cons.IH [OF step_inv [OF Cons.prems(1)] _ b(1)]) (use Cons.prems(2) in auto)
  then show ?case using b(2) x by (fastforce simp: row_step_def same_key_def)
next
  case Nil
  then show ?case by (intro bexI [of _ a]) simp_all
qed

lemma run_ops_world: "world_inv (snd s) \<Longrightarrow> world_inv (snd (fold (\<lambda>(e, op). apply_op cfg e op) ops s))"
proof (induction ops arbitrary: s)
  case (Cons x ops)
  then show ?case using step_inv [OF Cons.prems] by (cases x) simp
qed simp

text \<open>A successful enqueue leaves a row with the key of the request.\<close>

lemma enqueued_row:
  assumes "world_inv w" "router_Enqueue env req w = (Inr (rc, j), w')" "er_IdempotencyKey req \<noteq> []"
  shows "\<exists>b\<in>set (w_jobs w'). same_queue (er_ProjectID req) (er_QueueName req) b
    \<and> job_IdempotencyKey b = Some (er_IdempotencyKey req)"
proof -
  let ?qp = "\<lparr>qcp_ProjectID = er_ProjectID req, qcp_Name = er_QueueName req, qcp_ExecutionProfile = ProfileExternal,
      qcp_VisibilityTimeout = 0, qcp_MaxAttempts = 0, qcp_Retention = 0, qcp_MaxPayloadBytes = 0, qcp_WebhookURL = [],
      qcp_WebhookSecret = [], qcp_Metadata = []\<rparr>"
  obtain q w1 where q: "queue_Ensure env ?qp w = (Inr q, w1)"
    and rest: "(FindByIdempotencyKey (er_ProjectID req) (er_QueueName req) (er_IdempotencyKey req) (w_jobs w1) = Inr j \<and> w' = w1)
        \<or> Enqueue_create env q req w1 = (Inr (rc, j), w')"
    using assms(2) by (auto simp: router_Enqueue_def split: sum.splits if_splits prod.splits)
  have "world_inv w1" using Ensure_state [OF q assms(1)] by simp
  then show ?thesis
    using rest FindByIdempotencyKey_Inr [of "er_ProjectID req" "er_QueueName req" "er_IdempotencyKey req" "w_jobs w1" j]
      Enqueue_create_Inr [of w1 env q req rc j w'] assms(3) by auto
qed

text \<open>An enqueue whose key is in the table adds nothing, whatever fails.\<close>

lemma enqueue_known_key:
  assumes "world_inv w" "b \<in> set (w_jobs w)" "same_queue (er_ProjectID req) (er_QueueName req) b"
    and "job_IdempotencyKey b = Some (er_IdempotencyKey req)" "er_IdempotencyKey req \<noteq> []"
  shows "w_jobs (snd (router_Enqueue env req w)) = w_jobs w"
proof -
  have "\<exists>j. FindByIdempotencyKey (er_ProjectID req) (er_QueueName req) (er_IdempotencyKey req) (w_jobs w) = Inr j"
    using FindByIdempotencyKey_Inl [OF _ assms(5,2,3)] assms(4)
    by (cases "FindByIdempotencyKey (er_ProjectID req) (er_QueueName req) (er_IdempotencyKey req) (w_jobs w)") auto
  then show ?thesis
    using assms(1) by (auto simp: router_Enqueue_def split: sum.splits prod.splits dest!: Ensure_state)
qed

text \<open>C36. A recurring task is enqueued at most once per bucket of its key (a minute, ten minutes, an hour, a day):
  after a successful enqueue, and any operations but deletions, no instance adds a job when it runs the task
  again in the same bucket, whatever state its lock is in; so two leaders do not run a task twice.\<close>

theorem platform_task_once:
  assumes "reach cfg s" "router_Enqueue env (platform_request def (e_now env)) (snd s) = (Inr (rc, j), w1)"
    and "\<forall>e op. (e, op) \<in> set ops \<longrightarrow> \<not> deletes_jobs op"
    and "e_now env div bucket_length (td_IdempotencyBucket def) = e_now env' div bucket_length (td_IdempotencyBucket def)"
  shows "w_jobs (snd (enqueuePlatformTask le env' sc def r (snd (fold (\<lambda>(e, op). apply_op cfg e op) ops (fst s, w1)))))
    = w_jobs (snd (fold (\<lambda>(e, op). apply_op cfg e op) ops (fst s, w1)))"
proof -
  have inv: "world_inv (snd s)"
    using assms(1) by (induction rule: reach.induct) (simp_all add: init_system_def step_inv)
  let ?req = "platform_request def (e_now env)" and ?req' = "platform_request def (e_now env')"
  have k: "er_IdempotencyKey ?req \<noteq> []" "er_ProjectID ?req' = er_ProjectID ?req" "er_QueueName ?req' = er_QueueName ?req"
    "er_IdempotencyKey ?req' = er_IdempotencyKey ?req"
    using IdempotencyKey_bucket [OF assms(4), of "td_Name def"] by (simp_all add: platform_request_def)
  obtain b where b: "b \<in> set (w_jobs w1)" "same_queue (er_ProjectID ?req) (er_QueueName ?req) b"
    "job_IdempotencyKey b = Some (er_IdempotencyKey ?req)"
    using enqueued_row [OF inv assms(2) k(1)] by blast
  have inv1: "world_inv w1" using good_Enqueue [OF inv, of env ?req] assms(2) by (simp add: good_step_def)
  let ?s = "fold (\<lambda>(e, op). apply_op cfg e op) ops (fst s, w1)"
  obtain c where c: "c \<in> set (w_jobs (snd ?s))" "same_key c b"
    using run_ops_inv [of "(fst s, w1)" ops b cfg] inv1 assms(3) b(1) by auto
  have inv2: "world_inv (snd ?s)" using run_ops_world [of "(fst s, w1)"] inv1 by simp
  have "w_jobs (snd (router_Enqueue env' ?req' (snd ?s))) = w_jobs (snd ?s)"
    by (rule enqueue_known_key [OF inv2 c(1)])
       (use b c(2) k in \<open>auto simp: same_key_def same_queue_def\<close>)
  then show ?thesis by (simp add: enqueuePlatformTask_def tryAcquireLock_def split: prod.splits sum.splits bool.splits)
qed

definition sample_task :: task_definition where
  "sample_task = \<lparr>td_Name = ''purge'', td_Schedule = ''* * * * *'', td_LockTimeout = 30 * second,
     td_IdempotencyBucket = BucketMinute, td_Handler = None\<rparr>"

lemma sample_task_enqueued:
  "\<exists>rc j w'. router_Enqueue sample_env (platform_request sample_task 20) empty_world = (Inr (rc, j), w')"
proof -
  let ?n = "platform_QueueName ''purge''"
  let ?qp = "\<lparr>qcp_ProjectID = 0, qcp_Name = ?n, qcp_ExecutionProfile = ProfileExternal, qcp_VisibilityTimeout = 0,
      qcp_MaxAttempts = 0, qcp_Retention = 0, qcp_MaxPayloadBytes = 0, qcp_WebhookURL = [], qcp_WebhookSecret = [],
      qcp_Metadata = []\<rparr>"
  have trim: "TrimSpace ?n = ?n" "?n \<noteq> []" "\<not> 255 < length ?n" by (simp_all add: TrimSpace_graphic graphic_def platform_QueueName_def)
  have a: "AssertQueueWritable (e_flt sample_env) 0 ?n empty_world = Inr ()"
    by (simp add: AssertQueueWritable_def AssertTenantWritable_def FindTenant_def table_lookup_def
        FindByProjectAndName_def empty_world_def)
  have ens: "\<exists>q w1. queue_Ensure sample_env ?qp empty_world = (Inr q, w1)
      \<and> ValidateProfile (queue_ExecutionProfile q) = Inr () \<and> w_jobs w1 = []"
    by (simp add: queue_Ensure_def FindByProjectAndName_def empty_world_def queue_Create_def CreateQueue_def
        ValidateCreateQueue_def trim Let_def Create_queue_def queue_Get_def is_queue_def ProfileExternal_def ValidateProfile_def)
  then obtain q w1 where q: "queue_Ensure sample_env ?qp empty_world = (Inr q, w1)"
    "ValidateProfile (queue_ExecutionProfile q) = Inr ()" "w_jobs w1 = []" by blast
  show ?thesis
    using a q trim
    by (simp add: platform_request_def sample_task_def PlatformProjectID_def router_Enqueue_def FindByIdempotencyKey_def
        Enqueue_create_def EnqueueJob_def ValidateCreateJob_def Create_job_def Let_def)
qed

theorem platform_task_once_witness:
  "\<exists>rc j w1. router_Enqueue sample_env (platform_request sample_task 20) empty_world = (Inr (rc, j), w1)
     \<and> w_jobs (snd (enqueuePlatformTask key_store (sample_env\<lparr>e_now := 30\<rparr>) (NewScheduler ''i'') sample_task Map.empty w1)) = w_jobs w1"
proof -
  obtain rc j w1 where e: "router_Enqueue sample_env (platform_request sample_task 20) empty_world = (Inr (rc, j), w1)"
    using sample_task_enqueued by blast
  have r: "reach sample_cfg (fst init_system, empty_world)" using reach_init by (simp add: init_system_def)
  have now: "e_now sample_env = 20" by (simp add: sample_env_def)
  have "w_jobs (snd (enqueuePlatformTask key_store (sample_env\<lparr>e_now := 30\<rparr>) (NewScheduler ''i'') sample_task Map.empty
      (snd (fold (\<lambda>(e, op). apply_op sample_cfg e op) [] (fst init_system, w1))))) = w_jobs w1"
    using platform_task_once [of sample_cfg "(fst init_system, empty_world)" sample_env sample_task rc j w1 "[]"
      "sample_env\<lparr>e_now := 30\<rparr>" key_store "NewScheduler ''i''" Map.empty] r e
    by (simp add: now bucket_length_def sample_task_def minute_def)
  then show ?thesis using e by auto
qed

end
