(* ===== verification/Runtime.thy ===== *)
theory Runtime
  imports Schedule
begin

text \<open>
  The runtime that executes the platform's own jobs, \<open>internal/application/service/queue/runtime/service.go\<close>, and
  the webhooks it calls, \<open>internal/application/service/queue/dispatch/webhook/service.go\<close>.  Marshalling JSON, the
  HMAC and the HTTP client are fields of \<open>webhook_env\<close>; a request that is sent is part of the result.
\<close>

section \<open>Webhooks\<close>

record dispatch_payload =
  dp_JobID :: ulid
  dp_Queue :: string
  dp_Payload :: string
  dp_Attempt :: int

record webhook_request =
  wr_URL :: string
  wr_Body :: string
  wr_ContentType :: string
  wr_Signature :: "string option"

text \<open>The client answers an error or a status code.\<close>

record webhook_env =
  we_Marshal :: "dispatch_payload \<Rightarrow> string + string"
  we_NewRequest :: "string \<Rightarrow> string option"
  we_hmac_hex :: "string \<Rightarrow> string \<Rightarrow> string"
  we_Do :: "webhook_request \<Rightarrow> string + int"

definition Dispatch :: "webhook_env \<Rightarrow> queue \<Rightarrow> job \<Rightarrow> (string + unit) \<times> webhook_request list" where
  "Dispatch we q j =
     (if queue_WebhookURL q = [] then (Inr (), [])
      else case we_Marshal we \<lparr>dp_JobID = job_ID j, dp_Queue = job_QueueName j, dp_Payload = job_Payload j,
                               dp_Attempt = job_Attempt j\<rparr> of
             Inl e \<Rightarrow> (Inl e, [])
           | Inr body \<Rightarrow>
               case we_NewRequest we (queue_WebhookURL q) of
                 Some e \<Rightarrow> (Inl e, [])
               | None \<Rightarrow>
                   let req = \<lparr>wr_URL = queue_WebhookURL q, wr_Body = body, wr_ContentType = ''application/json'',
                         wr_Signature = (if queue_WebhookSecret q \<noteq> []
                                         then Some (we_hmac_hex we (queue_WebhookSecret q) body) else None)\<rparr>
                   in case we_Do we req of
                        Inl e \<Rightarrow> (Inl e, [req])
                      | Inr status \<Rightarrow>
                          if status \<ge> 300 then (Inl (''webhook returned status '' @ show_int status), [req])
                          else (Inr (), [req]))"

section \<open>Executing a job\<close>

text \<open>The environments of one pass: of the claim, of the lookup and the handler, and of the call that settles
  the job.\<close>

record runtime_env =
  re_claim :: env
  re_run :: "ulid \<Rightarrow> env"
  re_settle :: "ulid \<Rightarrow> env"
  re_webhook :: webhook_env
  re_done :: bool

definition status_ok :: string where "status_ok = ''{\"status\":\"ok\"}''"

definition dispatch_for :: "webhook_env \<Rightarrow> env \<Rightarrow> project_id \<Rightarrow> string \<Rightarrow> job \<Rightarrow> world \<Rightarrow> webhook_request list" where
  "dispatch_for we env pid qn j w =
     (if e_flt env CFindQueue then []
      else case FindByProjectAndName pid qn (w_queues w) of
             Inl _ \<Rightarrow> []
           | Inr q \<Rightarrow> if queue_WebhookURL q \<noteq> [] then snd (Dispatch we q j) else [])"

text \<open>A panic of the handler is recovered and rejects the job, as an error does.\<close>

definition executeJob ::
    "runtime_env \<Rightarrow> string \<Rightarrow> project_id \<Rightarrow> string \<Rightarrow> handler \<Rightarrow> job \<Rightarrow> webhook_request list \<times> world
     \<Rightarrow> webhook_request list \<times> world" where
  "executeJob re inst pid qn h j sw =
     (let (sent, w) = sw;
          sent = sent @ dispatch_for (re_webhook re) (re_run re (job_ID j)) pid qn j w;
          (res, w) = h (re_done re) (re_run re (job_ID j)) (job_Payload j) w;
          env = re_settle re (job_ID j)
      in (sent, case res of
                  HandlerOk \<Rightarrow> snd (router_Ack env pid qn (job_ID j) inst status_ok w)
                | HandlerError reason \<Rightarrow> snd (router_Nack env pid qn (job_ID j) inst reason 0 w)
                | HandlerPanic v \<Rightarrow> snd (router_Nack env pid qn (job_ID j) inst (''panic: '' @ v) 0 w)))"

definition processQueue ::
    "runtime_env \<Rightarrow> string \<Rightarrow> project_id \<Rightarrow> string \<Rightarrow> handler option \<Rightarrow> webhook_request list \<times> world
     \<Rightarrow> webhook_request list \<times> world" where
  "processQueue re inst pid qn h sw =
     (case h of
        None \<Rightarrow> sw
      | Some f \<Rightarrow>
          case router_Dequeue (re_claim re) (re_done re)
                 \<lparr>dr_ProjectID = pid, dr_QueueName = qn, dr_WorkerID = inst, dr_BatchSize = 1, dr_Wait = 0\<rparr> [] (snd sw) of
            Some (Inr jobs, w) \<Rightarrow> fold (executeJob re inst pid qn f) jobs (fst sw, w)
          | Some (Inl _, w) \<Rightarrow> (fst sw, w)
          | None \<Rightarrow> sw)"

definition processPlatformQueues ::
    "(string set \<Rightarrow> string list) \<Rightarrow> (string \<Rightarrow> runtime_env) \<Rightarrow> string \<Rightarrow> registry \<Rightarrow> webhook_request list \<times> world
     \<Rightarrow> webhook_request list \<times> world" where
  "processPlatformQueues ord re inst reg sw =
     fold (\<lambda>def sw. case td_Handler def of
             None \<Rightarrow> sw
           | Some h \<Rightarrow> processQueue (re (td_Name def)) inst PlatformProjectID (platform_QueueName (td_Name def)) (Some h) sw)
       (All_tasks ord reg) sw"

section \<open>Settling a job\<close>

text \<open>Without failing calls, a running job of the calling worker in a writable queue is settled.\<close>

lemma load_running_ok:
  assumes "world_inv w" "j \<in> set (w_jobs w)" "same_queue pid qn j" "job_Status j = StatusRunning" "job_WorkerID j = inst"
    and "writable w pid qn" "e_flt env = no_faults"
  shows "load_running env pid qn (job_ID j) inst w = Inr j"
proof -
  have a: "AssertQueueWritable (e_flt env) pid qn w = Inr ()"
    using AssertQueueWritable_no_faults [of pid qn w] assms(6,7) by auto
  obtain x where x: "List.find (\<lambda>x. same_queue pid qn x \<and> job_ID x = job_ID j) (w_jobs w) = Some x"
    using find_SomeI [OF assms(2), of "\<lambda>x. same_queue pid qn x \<and> job_ID x = job_ID j"] assms(3) by auto
  then have "x = j"
    using find_SomeD [OF x] assms(2) key_unique [OF jobs_invD(1) [OF world_invD(1) [OF assms(1)]]] by blast
  then show ?thesis using a x assms(4,5,7) by (simp add: load_running_def FindByID_def assertJobWorker_def no_faults_def)
qed

lemma save_ok:
  assumes "world_inv w" "j \<in> set (w_jobs w)" "same_key b j" "e_flt env = no_faults"
  shows "save_job env c b w = Inr (w\<lparr>w_jobs := List.map (\<lambda>x. if job_ID x = job_ID b then b else x) (w_jobs w)\<rparr>)"
  using Update_job_Inr [OF world_invD(1) [OF assms(1)] assms(2,3)] assms(4)
  by (simp add: save_job_def no_faults_def update_where_def)

lemma Ack_settles:
  assumes "world_inv w" "j \<in> set (w_jobs w)" "same_queue pid qn j" "job_Status j = StatusRunning" "job_WorkerID j = inst"
    and "writable w pid qn" "e_flt env = no_faults"
  shows "w_jobs (snd (router_Ack env pid qn (job_ID j) inst res w))
    = List.map (\<lambda>x. if job_ID x = job_ID j then MarkCompleted (e_now env) res j else x) (w_jobs w)"
proof -
  let ?b = "MarkCompleted (e_now env) res j"
  have i: "job_ID ?b = job_ID j" by (simp add: mark_defs)
  have "save_job env (CUpdateJob (job_ID j)) ?b w = Inr (w\<lparr>w_jobs := List.map (\<lambda>x. if job_ID x = job_ID j then ?b else x) (w_jobs w)\<rparr>)"
    using save_ok [OF assms(1,2) _ assms(7), of ?b] i by simp
  then show ?thesis using load_running_ok [OF assms] i
    by (simp add: router_Ack_def Let_def RecordCompleted_def split: option.splits)
qed

lemma publish_settled:
  assumes "world_inv w" "b \<in> set (w_jobs w)"
  shows "\<exists>c\<in>set (w_jobs (snd (snd (publishToBroker env q b w)))). c = b \<or> c = b\<lparr>job_BrokerSequence := e_brokerSeq env\<rparr>"
  using publish_effect [OF assms, of env q] assms(2) by (fastforce simp: set_update_where)

text \<open>A rejection: the row is as \<open>MarkRetry\<close> or \<open>MarkDLQ\<close> leaves it, up to the sequence number of the broker.\<close>

definition rejected_row :: "env \<Rightarrow> string \<Rightarrow> job \<Rightarrow> job" where
  "rejected_row env reason j =
     (if CanRetry j then MarkRetry (e_now env) (retry_delay 0 j) j else MarkDLQ (e_now env) reason j)"

lemma Nack_settles:
  assumes "world_inv w" "j \<in> set (w_jobs w)" "same_queue pid qn j" "job_Status j = StatusRunning" "job_WorkerID j = inst"
    and "writable w pid qn" "e_flt env = no_faults"
  shows "\<exists>b\<in>set (w_jobs (snd (router_Nack env pid qn (job_ID j) inst reason 0 w))).
    b = rejected_row env reason j \<or> b = (rejected_row env reason j)\<lparr>job_BrokerSequence := e_brokerSeq env\<rparr>"
proof -
  let ?b = "rejected_row env reason j"
  let ?w = "w\<lparr>w_jobs := List.map (\<lambda>x. if job_ID x = job_ID j then ?b else x) (w_jobs w)\<rparr>"
  have key: "same_key ?b j" by (simp add: rejected_row_def)
  then have i: "job_ID ?b = job_ID j" by (simp add: same_key_def)
  have sv: "save_job env (CUpdateJob (job_ID j)) ?b w = Inr ?w" using save_ok [OF assms(1,2) key assms(7)] i by simp
  have ok: "job_ok ?b" "row_step j ?b"
    using job_ok_row [OF assms(1,2)] assms(4) by (auto simp: rejected_row_def intro: job_ok_marks row_step_marks)
  have g: "world_inv ?w" "?b \<in> set (w_jobs ?w)"
    using good_save [OF assms(1,2) key ok sv] by (simp_all add: good_step_def)
  note ld = load_running_ok [OF assms]
  show ?thesis
  proof (cases "CanRetry j")
    case True
    then have b: "?b = MarkRetry (e_now env) (retry_delay 0 j) j" by (simp add: rejected_row_def)
    let ?w1 = "publishQueueLog pid EventQueueJobRetried (job_ID j) (publishQueueLog pid EventQueueJobNacked (job_ID j) (RecordRetried pid ?w))"
    have step: "w_jobs (snd (router_Nack env pid qn (job_ID j) inst reason 0 w)) = w_jobs ?w1
      \<or> (\<exists>q. w_jobs (snd (router_Nack env pid qn (job_ID j) inst reason 0 w)) = w_jobs (snd (snd (publishToBroker env q ?b ?w1))))"
      using True ld sv i unfolding b by (auto simp: router_Nack_def Let_def split: sum.splits)
    have w1: "world_inv ?w1" "?b \<in> set (w_jobs ?w1)" using g by (simp_all add: RecordRetried_def world_inv_def)
    from step show ?thesis
    proof (elim disjE exE)
      assume e: "w_jobs (snd (router_Nack env pid qn (job_ID j) inst reason 0 w)) = w_jobs ?w1"
      show ?thesis unfolding e by (rule bexI [OF _ w1(2)]) simp
    next
      fix q assume e: "w_jobs (snd (router_Nack env pid qn (job_ID j) inst reason 0 w)) = w_jobs (snd (snd (publishToBroker env q ?b ?w1)))"
      show ?thesis unfolding e by (rule publish_settled [OF w1])
    qed
  next
    case False
    then have b: "?b = MarkDLQ (e_now env) reason j" by (simp add: rejected_row_def)
    have e: "w_jobs (snd (router_Nack env pid qn (job_ID j) inst reason 0 w)) = w_jobs ?w"
      using False ld sv i unfolding b by (simp add: router_Nack_def Let_def RecordDLQ_def PublishDLQ_def)
    show ?thesis unfolding e by (rule bexI [OF _ g(2)]) simp
  qed
qed

section \<open>One pass over a queue\<close>

lemma filter_key:
  "distinct (List.map key rows) \<Longrightarrow> j \<in> set rows \<Longrightarrow> List.filter (\<lambda>x. key x = key j) rows = [j]"
proof (induction rows)
  case (Cons r rs)
  show ?case
  proof (cases "r = j")
    case True
    have "key x \<noteq> key j" if "x \<in> set rs" for x
      using Cons.prems(1) True imageI [OF that, of key] by auto
    then have "List.filter (\<lambda>x. key x = key j) rs = []" by simp
    then show ?thesis using True by simp
  next
    case False then show ?thesis using Cons by auto
  qed
qed simp

text \<open>The worker's own lease is extended right after the claim, to the time of the claim.\<close>

lemma touch_claimed:
  assumes "claim_row (e_now env) wid j \<in> set (w_jobs w)"
  shows "claim_row (e_now env) wid j \<in> set (w_jobs (touchRegisteredWorker env pid wid w))"
proof -
  have "claim_row (e_now env) wid j \<in> set (snd (ExtendLease pid wid (e_now env) (w_jobs w)))"
    using assms by (auto simp: ExtendLease_def Let_def set_update_where claim_row_def intro: rev_image_eqI)
  then show ?thesis using assms
    by (auto simp: touchRegisteredWorker_def worker_Heartbeat_def Let_def split: sum.splits)
qed

lemma claim_one:
  assumes "world_inv w" "claim_selected pid qn 1 (e_now env) (w_jobs w) = [j]" "e_flt env = no_faults"
    and "dr_ProjectID req = pid" "dr_QueueName req = qn" "dr_WorkerID req = wid" "dr_BatchSize req = 1"
  shows "\<exists>w1. attemptClaim env False req w = (Inr [claim_row (e_now env) wid j], w1)
    \<and> claim_row (e_now env) wid j \<in> set (w_jobs w1) \<and> world_inv w1 \<and> w_queues w1 = w_queues w \<and> w_tenants w1 = w_tenants w"
proof -
  let ?c = "claim_row (e_now env) wid j"
  have j: "j \<in> set (w_jobs w)" using claim_selected_subset [of pid qn 1 "e_now env" "w_jobs w"] assms(2) by auto
  have f: "List.filter (\<lambda>x. job_ID x = job_ID j) (w_jobs w) = [j]"
    by (rule filter_key [OF jobs_invD(1) [OF world_invD(1) [OF assms(1)]] j])
  let ?rows = "update_where (\<lambda>x. job_ID x = job_ID j) (claim_row (e_now env) wid) (w_jobs w)"
  have cp: "ClaimPending pid qn wid 1 (e_now env) (w_jobs w) = ([?c], ?rows)"
    by (simp add: ClaimPending_def Let_def assms(2) f)
  let ?w1 = "log_claimed pid [?c] (touchRegisteredWorker env pid wid (w\<lparr>w_jobs := ?rows\<rparr>))"
  have e: "attemptClaim env False req w = (Inr [?c], ?w1)"
    using cp assms(3-7) by (simp add: attemptClaim_def Let_def no_faults_def)
  have "?c \<in> set ?rows" using j by (auto simp: set_update_where intro: rev_image_eqI)
  then have "?c \<in> set (w_jobs ?w1)" using touch_claimed [of env wid j "w\<lparr>w_jobs := ?rows\<rparr>" pid] by simp
  moreover have "world_inv ?w1" using good_attemptClaim [OF assms(1), of env False req] e by (simp add: good_step_def)
  moreover have "w_queues ?w1 = w_queues w" "w_tenants ?w1 = w_tenants w" by (simp_all add: touchRegisteredWorker_def)
  ultimately show ?thesis using e by blast
qed

text \<open>The contract of a handler: it keeps the tables well formed, the running jobs and the writability of the
  queues.  The purge of workers is one.\<close>

definition handler_keeps :: "handler \<Rightarrow> bool" where
  "handler_keeps h \<longleftrightarrow> (\<forall>d env p w. world_inv w \<longrightarrow> world_inv (snd (h d env p w))
     \<and> (\<forall>x\<in>set (w_jobs w). job_Status x = StatusRunning \<longrightarrow> x \<in> set (w_jobs (snd (h d env p w))))
     \<and> (\<forall>pid qn. writable w pid qn \<longrightarrow> writable (snd (h d env p w)) pid qn))"

lemma purge_workers_frame [simp]:
  "w_queues (snd (purge_workers env ws n w)) = w_queues w" "w_tenants (snd (purge_workers env ws n w)) = w_tenants w"
  by (induction ws arbitrary: n w) auto

lemma PurgeStaleWorkers_frame:
  "w_queues (snd (PurgeStaleWorkers cfg env d w)) = w_queues w" "w_tenants (snd (PurgeStaleWorkers cfg env d w)) = w_tenants w"
  "w_jobs (snd (PurgeStaleWorkers cfg env d w)) = w_jobs w"
  by (simp_all add: PurgeStaleWorkers_def)

lemma purge_handler_keeps: "handler_keeps (\<lambda>d env _ w. handler_of txt (PurgeStaleWorkers cfg env d w))"
  using PurgeStaleWorkers_inv
  by (simp add: handler_keeps_def handler_of_def PurgeStaleWorkers_frame writable_def tenant_blocked_def queue_blocked_def)

lemma running_not_terminal: "world_inv w \<Longrightarrow> j \<in> set (w_jobs w) \<Longrightarrow> job_Status j = StatusRunning \<Longrightarrow> job_TerminalAt j = None"
  using job_ok_row [of w j] by (auto simp: job_ok_def terminal_ok_iff IsTerminal_def)

text \<open>The purge of jobs is another: the rows it deletes are terminal.\<close>

lemma purge_jobs_handler_keeps: "handler_keeps (\<lambda>d env _ w. handler_of txt (PurgeTerminalJobs cfg env d w))"
proof -
  have "x \<in> set (w_jobs (snd (PurgeTerminalJobs cfg env d w)))"
    if "x \<in> set (w_jobs w)" "job_Status x = StatusRunning" for x env d w
    using that by (simp add: PurgeTerminalJobs_def Let_def purge_loop_eq terminal_before_def)
  moreover have "w_queues (snd (PurgeTerminalJobs cfg env d w)) = w_queues w"
    "w_tenants (snd (PurgeTerminalJobs cfg env d w)) = w_tenants w" for env d w
    by (simp_all add: PurgeTerminalJobs_def Let_def)
  ultimately show ?thesis using PurgeTerminalJobs_inv
    by (simp add: handler_keeps_def handler_of_def writable_def tenant_blocked_def queue_blocked_def)
qed

text \<open>C37. The runtime settles the job it claims: when calls do not fail, one pass over a writable queue claims the
  first due job, runs the handler on its payload, and leaves the job completed if the handler returned, and retried
  or dead-lettered with the reason if it returned an error or panicked (up to the broker's sequence number, if the
  retry was published again).\<close>

theorem runtime_settles:
  assumes "world_inv w" "claim_selected pid qn 1 (e_now (re_claim re)) (w_jobs w) = [j]" "writable w pid qn"
    and "e_AllowDequeue (re_claim re) pid = Inr True" "e_flt (re_claim re) = no_faults"
    and "\<forall>i. e_flt (re_settle re i) = no_faults" "\<not> re_done re" "handler_keeps h"
  shows "\<exists>res. res \<in> range (\<lambda>w. fst (h False (re_run re (job_ID j)) (job_Payload j) w))
    \<and> (\<exists>b\<in>set (w_jobs (snd (processQueue re inst pid qn (Some h) (sent, w)))).
        let c = claim_row (e_now (re_claim re)) inst j; env = re_settle re (job_ID j);
            settled = (case res of HandlerOk \<Rightarrow> MarkCompleted (e_now env) status_ok c
              | HandlerError reason \<Rightarrow> rejected_row env reason c
              | HandlerPanic v \<Rightarrow> rejected_row env (''panic: '' @ v) c)
        in b = settled \<or> b = settled\<lparr>job_BrokerSequence := e_brokerSeq env\<rparr>)"
proof -
  let ?env = "re_claim re" and ?set = "re_settle re (job_ID j)"
  let ?c = "claim_row (e_now ?env) inst j"
  let ?req = "\<lparr>dr_ProjectID = pid, dr_QueueName = qn, dr_WorkerID = inst, dr_BatchSize = 1, dr_Wait = 0\<rparr>"
  obtain w1 where cl: "attemptClaim ?env False ?req w = (Inr [?c], w1)" "?c \<in> set (w_jobs w1)" "world_inv w1"
    "w_queues w1 = w_queues w" "w_tenants w1 = w_tenants w"
    using claim_one [OF assms(1,2,5), of ?req inst] by auto
  have dq: "router_Dequeue ?env False ?req [] w = Some (Inr [?c], w1)"
    using AssertQueueWritable_no_faults [of pid qn w] assms(3-5) cl(1) by (auto simp: router_Dequeue_def)
  obtain res w2 where h: "h False (re_run re (job_ID j)) (job_Payload j) w1 = (res, w2)" by fastforce
  have c: "same_queue pid qn ?c" "job_Status ?c = StatusRunning" "job_WorkerID ?c = inst" "job_ID ?c = job_ID j"
    "job_Payload ?c = job_Payload j"
    using claim_selected_subset [of pid qn 1 "e_now ?env" "w_jobs w"] assms(2)
    by (auto simp: claimable_row_def claim_row_def same_queue_def)
  have wr1: "writable w1 pid qn" using assms(3) cl(4,5) by (simp add: writable_def tenant_blocked_def queue_blocked_def)
  have k: "world_inv w2" "?c \<in> set (w_jobs w2)" "writable w2 pid qn"
    using assms(8) cl(2,3) c(2) wr1 h unfolding handler_keeps_def by (metis snd_conv)+
  have flt: "e_flt ?set = no_faults" using assms(6) by blast
  note ack = Ack_settles [OF k(1,2) c(1-3) k(3) flt, of status_ok]
  note nack = Nack_settles [OF k(1,2) c(1-3) k(3) flt]
  let ?final = "snd (processQueue re inst pid qn (Some h) (sent, w))"
  have f: "?final = (case res of HandlerOk \<Rightarrow> snd (router_Ack ?set pid qn (job_ID j) inst status_ok w2)
      | HandlerError reason \<Rightarrow> snd (router_Nack ?set pid qn (job_ID j) inst reason 0 w2)
      | HandlerPanic v \<Rightarrow> snd (router_Nack ?set pid qn (job_ID j) inst (''panic: '' @ v) 0 w2))"
    using dq h c(5) assms(7) by (cases res) (simp_all add: processQueue_def executeJob_def Let_def)
  have "\<exists>b\<in>set (w_jobs ?final). b = (case res of HandlerOk \<Rightarrow> MarkCompleted (e_now ?set) status_ok ?c
      | HandlerError reason \<Rightarrow> rejected_row ?set reason ?c | HandlerPanic v \<Rightarrow> rejected_row ?set (''panic: '' @ v) ?c)
    \<or> b = (case res of HandlerOk \<Rightarrow> MarkCompleted (e_now ?set) status_ok ?c
      | HandlerError reason \<Rightarrow> rejected_row ?set reason ?c | HandlerPanic v \<Rightarrow> rejected_row ?set (''panic: '' @ v) ?c)
      \<lparr>job_BrokerSequence := e_brokerSeq ?set\<rparr>"
  proof (cases res)
    case HandlerOk
    then have "w_jobs ?final = List.map (\<lambda>x. if job_ID x = job_ID ?c then MarkCompleted (e_now ?set) status_ok ?c else x) (w_jobs w2)"
      using f ack c(4) by simp
    then have "MarkCompleted (e_now ?set) status_ok ?c \<in> set (w_jobs ?final)" using k(2) by force
    then show ?thesis using HandlerOk by (intro bexI [of _ "MarkCompleted (e_now ?set) status_ok ?c"]) simp_all
  next
    case (HandlerError reason)
    then show ?thesis using nack [of reason] f c(4) by simp
  next
    case (HandlerPanic v)
    then show ?thesis using nack [of "''panic: '' @ v"] f c(4) by simp
  qed
  moreover have "res \<in> range (\<lambda>w. fst (h False (re_run re (job_ID j)) (job_Payload j) w))"
    by (rule range_eqI [of _ _ w1]) (simp add: h)
  ultimately show ?thesis unfolding Let_def by blast
qed

definition sample_runtime :: runtime_env where
  "sample_runtime = \<lparr>re_claim = sample_env, re_run = (\<lambda>_. sample_env), re_settle = (\<lambda>_. sample_env\<lparr>e_now := 25\<rparr>),
     re_webhook = \<lparr>we_Marshal = (\<lambda>_. Inr []), we_NewRequest = (\<lambda>_. None), we_hmac_hex = (\<lambda>_ _. []), we_Do = (\<lambda>_. Inr 200)\<rparr>,
     re_done = False\<rparr>"

lemma sample_writable_world: "writable sample_world 1 ''mail''"
  using AssertQueueWritable_Inr [OF sample_writable] .

theorem runtime_settles_witness:
  "\<exists>res. res \<in> range (\<lambda>w. fst (handler_of (\<lambda>_. ''failed'') (PurgeStaleWorkers sample_cfg sample_env False w)))
    \<and> (\<exists>b\<in>set (w_jobs (snd (processQueue sample_runtime ''w2'' 1 ''mail''
           (Some (\<lambda>d env _ w. handler_of (\<lambda>_. ''failed'') (PurgeStaleWorkers sample_cfg env d w))) ([], sample_world)))).
        job_ID b = ''b'')"
proof -
  have sel: "claim_selected 1 ''mail'' 1 (e_now (re_claim sample_runtime)) (w_jobs sample_world) = [sample_job ''b'' (Some 5) 2]"
    by (simp add: sample_runtime_def claim_selected_def claimable_row_def same_queue_def sample_job_def held_job_def claim_row_def)
  have e: "e_AllowDequeue (re_claim sample_runtime) 1 = Inr True" "e_flt (re_claim sample_runtime) = no_faults"
    "\<forall>i. e_flt (re_settle sample_runtime i) = no_faults" "\<not> re_done sample_runtime"
    by (simp_all add: sample_runtime_def sample_env_def AllowDequeue_def)
  have key: "job_ID b = ''b''"
    if "b = settled \<or> b = settled\<lparr>job_BrokerSequence := n\<rparr>" "settled = (case res of HandlerOk \<Rightarrow> MarkCompleted t r c
        | HandlerError reason \<Rightarrow> rejected_row env reason c | HandlerPanic v \<Rightarrow> rejected_row env (''panic: '' @ v) c)"
      "c = claim_row t' i (sample_job ''b'' (Some 5) 2)" for b settled n res t r c env t' i
    using that by (cases res) (auto simp: rejected_row_def mark_defs claim_row_def sample_job_def split: if_splits)
  let ?h = "\<lambda>d env _ w. handler_of (\<lambda>_. ''failed'') (PurgeStaleWorkers sample_cfg env d w)" and ?j = "sample_job ''b'' (Some 5) 2"
  obtain res b where r: "res \<in> range (\<lambda>w. fst (?h False (re_run sample_runtime (job_ID ?j)) (job_Payload ?j) w))"
    and b: "b \<in> set (w_jobs (snd (processQueue sample_runtime ''w2'' 1 ''mail'' (Some ?h) ([], sample_world))))"
    and s: "let c = claim_row (e_now (re_claim sample_runtime)) ''w2'' ?j; env = re_settle sample_runtime (job_ID ?j);
            settled = (case res of HandlerOk \<Rightarrow> MarkCompleted (e_now env) status_ok c
              | HandlerError reason \<Rightarrow> rejected_row env reason c
              | HandlerPanic v \<Rightarrow> rejected_row env (''panic: '' @ v) c)
        in b = settled \<or> b = settled\<lparr>job_BrokerSequence := e_brokerSeq env\<rparr>"
    using runtime_settles [OF sample_world_inv sel sample_writable_world e purge_handler_keeps [of "\<lambda>_. ''failed''" sample_cfg],
      where inst = "''w2''" and sent = "[]"]
    by blast
  have "job_ID b = ''b''" by (rule key [OF s [unfolded Let_def] refl refl])
  moreover have "re_run sample_runtime i = sample_env" for i by (simp add: sample_runtime_def)
  ultimately show ?thesis using r b by metis
qed

end
