(* ===== verification/Container.thy ===== *)
theory Container
  imports Prelude "HOL-Library.Multiset"
begin

text \<open>
  The dependency container the server is put together with, \<open>internal/bootstrap/container\<close>: services are made by
  factories on demand, a factory asks the container for what it needs, and modules register their factories in
  the order they give.  A type is its name; a factory is a tree of requests, \<open>Resolve t k\<close> asking for a
  service and going on with the answer.
\<close>

section \<open>Services and factories\<close>

datatype di_error = Circular string | NoFactory string | NotAssignable string | FactoryError string
  | Wrapped string di_error | InitFailed string di_error | LifecycleFailed string di_error

datatype 'v factory = Return "di_error + 'v" | Resolve string "di_error + 'v \<Rightarrow> 'v factory"

record 'v container =
  di_services :: "string \<Rightarrow> 'v option"
  di_factories :: "string \<Rightarrow> 'v factory option"
  di_initializing :: "string set"
  di_lifecycle :: "'v list"

text \<open>Whether a service has the methods of \<open>Lifecycle\<close>, and what they answer.\<close>

record 'v lifecycle =
  lc_Initialize :: "'v \<Rightarrow> (di_error + unit) option"
  lc_Shutdown :: "'v \<Rightarrow> (di_error + unit) option"

definition New_container :: "'v container" where
  "New_container = \<lparr>di_services = Map.empty, di_factories = Map.empty, di_initializing = {}, di_lifecycle = []\<rparr>"

definition di_Register :: "string \<Rightarrow> 'v factory \<Rightarrow> 'v container \<Rightarrow> 'v container" where
  "di_Register t f c = c\<lparr>di_factories := (di_factories c)(t \<mapsto> f)\<rparr>"

definition RegisterInstance :: "string \<Rightarrow> 'v \<Rightarrow> 'v container \<Rightarrow> 'v container" where
  "RegisterInstance t v c = c\<lparr>di_services := (di_services c)(t \<mapsto> v)\<rparr>"

text \<open>Running a factory; \<open>get\<close> is the container's \<open>Get\<close>, \<^const>\<open>None\<close> when it has not returned.\<close>

primrec run_factory ::
    "(string \<Rightarrow> 'v container \<Rightarrow> ((di_error + 'v) \<times> 'v container) option) \<Rightarrow> 'v factory \<Rightarrow> 'v container
      \<Rightarrow> ((di_error + 'v) \<times> 'v container) option" where
  "run_factory get (Return r) c = Some (r, c)"
| "run_factory get (Resolve t k) c =
     (case get t c of
        None \<Rightarrow> None
      | Some rc \<Rightarrow> run_factory get (k (fst rc)) (snd rc))"

text \<open>The mark of \<open>initializing\<close> is taken back when \<open>Get\<close> returns.\<close>

definition unmark :: "string \<Rightarrow> 'v container \<Rightarrow> 'v container" where
  "unmark t c = c\<lparr>di_initializing := di_initializing c - {t}\<rparr>"

definition keep_service :: "'v lifecycle \<Rightarrow> string \<Rightarrow> 'v \<Rightarrow> 'v container \<Rightarrow> (di_error + 'v) \<times> 'v container" where
  "keep_service lc t v c =
     (case lc_Initialize lc v of
        Some (Inl e) \<Rightarrow> (Inl (LifecycleFailed t e), c)
      | Some (Inr _) \<Rightarrow> (Inr v, c\<lparr>di_lifecycle := di_lifecycle c @ [v], di_services := (di_services c)(t \<mapsto> v)\<rparr>)
      | None \<Rightarrow> (Inr v, c\<lparr>di_services := (di_services c)(t \<mapsto> v)\<rparr>))"

text \<open>\<open>Get\<close>; the fuel bounds the depth of the calls inside calls.\<close>

fun Get_service :: "nat \<Rightarrow> 'v lifecycle \<Rightarrow> string \<Rightarrow> 'v container \<Rightarrow> ((di_error + 'v) \<times> 'v container) option" where
  "Get_service 0 lc t c = None"
| "Get_service (Suc n) lc t c =
     (case di_services c t of
        Some v \<Rightarrow> Some (Inr v, c)
      | None \<Rightarrow>
          if t \<in> di_initializing c then Some (Inl (Circular t), c)
          else case di_factories c t of
                 None \<Rightarrow> Some (Inl (NoFactory t), c)
               | Some f \<Rightarrow>
                   (case run_factory (Get_service n lc) f (c\<lparr>di_initializing := insert t (di_initializing c)\<rparr>) of
                      None \<Rightarrow> None
                    | Some (Inl e, c) \<Rightarrow> Some (Inl (InitFailed t e), unmark t c)
                    | Some (Inr v, c) \<Rightarrow> (case keep_service lc t v c of (r, c) \<Rightarrow> Some (r, unmark t c))))"

text \<open>\<open>GetTyped\<close> in a factory that passes every error on and goes on with the service; \<open>is_a\<close> is the type assertion.\<close>

definition ask :: "('v \<Rightarrow> string \<Rightarrow> bool) \<Rightarrow> string \<Rightarrow> ('v \<Rightarrow> 'v factory) \<Rightarrow> 'v factory" where
  "ask is_a t k = Resolve t (\<lambda>r. case r of
       Inl e \<Rightarrow> Return (Inl e)
     | Inr v \<Rightarrow> if is_a v t then k v else Return (Inl (NotAssignable t)))"

fun ask_all :: "('v \<Rightarrow> string \<Rightarrow> bool) \<Rightarrow> string list \<Rightarrow> ('v list \<Rightarrow> 'v factory) \<Rightarrow> 'v factory" where
  "ask_all is_a [] k = k []"
| "ask_all is_a (t # ts) k = ask is_a t (\<lambda>v. ask_all is_a ts (\<lambda>vs. k (v # vs)))"

text \<open>\<open>Shutdown\<close> goes through the services in the reverse order of their initialization; the last error counts.\<close>

fun shutdown_loop :: "'v lifecycle \<Rightarrow> 'v list \<Rightarrow> di_error option \<Rightarrow> di_error option" where
  "shutdown_loop lc [] lastErr = lastErr"
| "shutdown_loop lc (v # vs) lastErr =
     (case lc_Shutdown lc v of Some (Inl e) \<Rightarrow> shutdown_loop lc vs (Some e) | _ \<Rightarrow> shutdown_loop lc vs lastErr)"

definition Shutdown_container :: "'v lifecycle \<Rightarrow> 'v container \<Rightarrow> di_error option" where
  "Shutdown_container lc c = shutdown_loop lc (rev (di_lifecycle c)) None"

section \<open>Modules\<close>

record 'c di_module =
  mod_name :: string
  mod_order :: int
  mod_Register :: "'c \<Rightarrow> (di_error + unit) \<times> 'c"

text \<open>The inner loop of the insertion sort: the element at \<open>j\<close> moves down while its left neighbour is greater.\<close>

fun sink :: "('a \<Rightarrow> int) \<Rightarrow> 'a list \<Rightarrow> nat \<Rightarrow> 'a list" where
  "sink key xs 0 = xs"
| "sink key xs (Suc j) =
     (if key (xs ! j) > key (xs ! Suc j) then sink key (xs[Suc j := xs ! j, j := xs ! Suc j]) j else xs)"

definition sort_modules :: "('a \<Rightarrow> int) \<Rightarrow> 'a list \<Rightarrow> 'a list" where
  "sort_modules key xs = fold (\<lambda>i xs. sink key xs i) [1..<length xs] xs"

fun register_modules :: "'c di_module list \<Rightarrow> 'c \<Rightarrow> (di_error + unit) \<times> 'c" where
  "register_modules [] c = (Inr (), c)"
| "register_modules (m # ms) c =
     (case mod_Register m c of (Inl e, c) \<Rightarrow> (Inl e, c) | (Inr _, c) \<Rightarrow> register_modules ms c)"

definition RegisterModules :: "'c di_module list \<Rightarrow> 'c \<Rightarrow> (di_error + unit) \<times> 'c" where
  "RegisterModules modules c = register_modules (sort_modules mod_order modules) c"

section \<open>Getting a service always ends\<close>

text \<open>What a call leaves as it was, and the services it may only add to.\<close>

definition keeps_di :: "'v container \<Rightarrow> 'v container \<Rightarrow> bool" where
  "keeps_di c c' \<longleftrightarrow> di_factories c' = di_factories c \<and> di_initializing c' = di_initializing c
     \<and> di_services c \<subseteq>\<^sub>m di_services c'"

lemma run_factory_returns:
  assumes "\<And>t c. di_factories c = F \<Longrightarrow> di_initializing c = I \<Longrightarrow> \<exists>r c'. get t c = Some (r, c') \<and> keeps_di c c'"
    and "di_factories c = F" "di_initializing c = I"
  shows "\<exists>r c'. run_factory get f c = Some (r, c') \<and> keeps_di c c'"
  using assms(2,3)
proof (induction f arbitrary: c)
  case (Return r) then show ?case by (simp add: keeps_di_def)
next
  case (Resolve t k)
  obtain r c1 where g: "get t c = Some (r, c1)" "keeps_di c c1" using assms(1) Resolve.prems by blast
  have "k r \<in> range k" by simp
  then obtain r' c2 where h: "run_factory get (k r) c1 = Some (r', c2)" "keeps_di c1 c2"
    using Resolve.IH [of "k r" c1] g(2) Resolve.prems by (auto simp: keeps_di_def)
  have "keeps_di c c2" using g(2) h(2) by (auto simp: keeps_di_def intro: map_le_trans)
  then show ?case using g(1) h(1) by simp
qed

lemma keep_service_keeps:
  assumes "keep_service lc t v c = (r, c')" "di_services c t = None"
  shows "di_factories c' = di_factories c" "di_initializing c' = di_initializing c" "di_services c \<subseteq>\<^sub>m di_services c'"
    "r = Inr v' \<Longrightarrow> di_services c' t = Some v'"
  using assms by (auto simp: keep_service_def map_le_def dom_def split: option.splits sum.splits)

lemma card_mark:
  assumes "finite (dom F)" "F t = Some f" "t \<notin> I" "card (dom F - I) < Suc n"
  shows "card (dom F - insert t I) < n"
proof -
  have e: "dom F - insert t I = (dom F - I) - {t}" by auto
  have "card ((dom F - I) - {t}) < card (dom F - I)" by (rule card_Diff1_less) (use assms(1-3) in auto)
  then show ?thesis unfolding e using assms(4) by linarith
qed

lemma get_returns:
  assumes "finite (dom F)"
  shows "di_factories c = F \<Longrightarrow> card (dom F - di_initializing c) < n \<Longrightarrow>
    \<exists>r c'. Get_service n lc t c = Some (r, c') \<and> keeps_di c c' \<and> (\<forall>v. r = Inr v \<longrightarrow> di_services c' t = Some v)"
proof (induction n arbitrary: t c)
  case (Suc n)
  show ?case
  proof (cases "di_services c t = None \<and> t \<notin> di_initializing c \<and> F t \<noteq> None")
    case False then show ?thesis using Suc.prems(1) by (auto simp: keeps_di_def split: option.splits)
  next
    case True
    then obtain f where f: "F t = Some f" by blast
    let ?c = "c\<lparr>di_initializing := insert t (di_initializing c)\<rparr>"
    have small: "card (dom F - di_initializing ?c) < n" using card_mark [OF assms f _ Suc.prems(2)] True by simp
    have get: "\<exists>r c'. Get_service n lc u x = Some (r, c') \<and> keeps_di x c'"
      if "di_factories x = F" "di_initializing x = di_initializing ?c" for u x
      using Suc.IH [of x u] that small by metis
    obtain r c1 where r: "run_factory (Get_service n lc) f ?c = Some (r, c1)" "keeps_di ?c c1"
      using run_factory_returns [of F "di_initializing ?c" "Get_service n lc" ?c f, OF get] Suc.prems(1) by auto
    have un: "di_initializing (unmark t c1) = di_initializing c"
      using r(2) True by (auto simp: unmark_def keeps_di_def)
    show ?thesis
    proof (cases r)
      case (Inl e)
      have "keeps_di c (unmark t c1)" using r(2) un by (auto simp: keeps_di_def unmark_def)
      then show ?thesis using True f r(1) Inl Suc.prems(1) by simp
    next
      case (Inr v)
      obtain r' c2 where k: "keep_service lc t v c1 = (r', c2)" by fastforce
      have get1: "Get_service (Suc n) lc t c = Some (r', unmark t c2)"
        using True f r(1) Inr Suc.prems(1) k by simp
      have "di_factories c2 = di_factories c1" "di_initializing c2 = di_initializing c1" "di_services c1 \<subseteq>\<^sub>m (di_services c2)(t := di_services c1 t)"
        "\<And>x. r' = Inr x \<Longrightarrow> di_services c2 t = Some x"
        using k by (auto simp: keep_service_def map_le_def dom_def split: option.splits sum.splits)
      moreover have "di_services c \<subseteq>\<^sub>m di_services c1" using r(2) by (simp add: keeps_di_def)
      ultimately have "di_services c \<subseteq>\<^sub>m di_services c2"
        using True by (auto simp: map_le_def) (metis domI domIff fun_upd_other)
      then have "keeps_di c (unmark t c2)"
        using r(2) un \<open>di_factories c2 = di_factories c1\<close> \<open>di_initializing c2 = di_initializing c1\<close>
        by (auto simp: keeps_di_def unmark_def)
      moreover have "di_services (unmark t c2) t = Some x" if "r' = Inr x" for x
        using that \<open>\<And>x. r' = Inr x \<Longrightarrow> di_services c2 t = Some x\<close> by (simp add: unmark_def)
      ultimately show ?thesis using get1 by blast
    qed
  qed
qed simp

text \<open>\<open>Get\<close> always returns: whatever the factories ask for, cycles included, the calls inside calls go no
  deeper than there are factories that are not being run.  It leaves the factories and the marks as they were,
  never replaces a service, and a service it made is the one that every later call answers.\<close>

lemma container_get_returns:
  assumes "finite (dom (di_factories c))" "card (dom (di_factories c) - di_initializing c) < n"
  shows "\<exists>r c'. Get_service n lc t c = Some (r, c') \<and> di_factories c' = di_factories c
    \<and> di_initializing c' = di_initializing c \<and> di_services c \<subseteq>\<^sub>m di_services c'
    \<and> (\<forall>v m. r = Inr v \<longrightarrow> Get_service (Suc m) lc t c' = Some (Inr v, c'))"
  using get_returns [OF assms(1) refl assms(2), of lc t] by (fastforce simp: keeps_di_def)

text \<open>Two factories that ask for each other: the circle is reported and leaves no mark.\<close>

definition asks :: "string \<Rightarrow> string \<Rightarrow> int factory" where
  "asks t result = Resolve t (\<lambda>r. case r of Inl e \<Rightarrow> Return (Inl e) | Inr v \<Rightarrow> Return (Inr (v + 1)))"

definition sample_container :: "int container" where
  "sample_container = di_Register ''a'' (asks ''b'' ''x'') (di_Register ''b'' (asks ''a'' ''y'') New_container)"

definition sample_lifecycle :: "int lifecycle" where
  "sample_lifecycle = \<lparr>lc_Initialize = (\<lambda>_. None), lc_Shutdown = (\<lambda>_. None)\<rparr>"

lemma circle_found:
  "\<exists>r c'. Get_service 3 sample_lifecycle ''a'' sample_container = Some (r, c')
     \<and> r = Inl (InitFailed ''a'' (InitFailed ''b'' (Circular ''a''))) \<and> di_initializing c' = {}"
proof -
  have d: "dom (di_factories sample_container) = {''a'', ''b''}"
    by (auto simp: sample_container_def di_Register_def New_container_def)
  have i: "di_initializing sample_container = {}" by (simp add: sample_container_def di_Register_def New_container_def)
  have "fst (the (Get_service 3 sample_lifecycle ''a'' sample_container)) = Inl (InitFailed ''a'' (InitFailed ''b'' (Circular ''a'')))"
    by (simp add: numeral_3_eq_3 sample_container_def di_Register_def New_container_def asks_def)
  then show ?thesis
    using container_get_returns [of sample_container 3 sample_lifecycle "''a''"] d i by force
qed

section \<open>What a wiring gives\<close>

text \<open>A factory that asks only for services of \<open>m\<close> and answers \<open>v\<close>.\<close>

primrec yields :: "(string \<Rightarrow> 'v option) \<Rightarrow> 'v factory \<Rightarrow> 'v \<Rightarrow> bool" where
  "yields m (Return r) v = (r = Inr v)"
| "yields m (Resolve t k) v = (case m t of None \<Rightarrow> False | Some u \<Rightarrow> yields m (k (Inr u)) v)"

text \<open>Services with ranks: the factory of each asks only for services of lower rank, and none of them has a life of
  its own.\<close>

definition wired :: "(string \<Rightarrow> 'v option) \<Rightarrow> (string \<Rightarrow> 'v factory option) \<Rightarrow> 'v lifecycle \<Rightarrow> (string \<Rightarrow> nat)
    \<Rightarrow> (string \<times> 'v) list \<Rightarrow> bool" where
  "wired M F lc rank W \<longleftrightarrow>
     list_all (\<lambda>(t, v). lc_Initialize lc v = None
       \<and> (case F t of None \<Rightarrow> False | Some f \<Rightarrow> yields (\<lambda>u. if rank u < rank t then M u else None) f v)) W"

text \<open>A container whose services are those of \<open>M\<close> as far as they are made, of types in \<open>T\<close>.\<close>

definition agrees :: "(string \<Rightarrow> 'v option) \<Rightarrow> (string \<Rightarrow> 'v option) \<Rightarrow> bool" where
  "agrees M s \<longleftrightarrow> (\<forall>t x y. s t = Some x \<longrightarrow> M t = Some y \<longrightarrow> x = y)"

lemma agrees_D: "agrees M s \<Longrightarrow> s t = Some x \<Longrightarrow> M t = Some y \<Longrightarrow> x = y"
  by (auto simp: agrees_def)

lemma agrees_upd: "agrees M s \<Longrightarrow> M t \<in> {None, Some v} \<Longrightarrow> agrees M (s(t \<mapsto> v))"
  unfolding agrees_def by (metis fun_upd_apply insertE option.distinct(1) option.inject singletonD)

definition fits :: "(string \<Rightarrow> 'v option) \<Rightarrow> (string \<Rightarrow> 'v factory option) \<Rightarrow> (string \<Rightarrow> 'v option) \<Rightarrow> string set
    \<Rightarrow> 'v container \<Rightarrow> bool" where
  "fits base F M T c \<longleftrightarrow> di_factories c = F \<and> base \<subseteq>\<^sub>m di_services c
     \<and> agrees M (di_services c) \<and> dom (di_services c) \<subseteq> T"

lemma run_factory_yields:
  assumes "\<And>t u c. m t = Some u \<Longrightarrow> P c \<Longrightarrow> \<exists>c'. get t c = Some (Inr u, c') \<and> P c'"
    and "yields m f v" "P c"
  shows "\<exists>c'. run_factory get f c = Some (Inr v, c') \<and> P c'"
  using assms(2,3)
proof (induction f arbitrary: c)
  case (Resolve t k)
  then obtain u where u: "m t = Some u" "yields m (k (Inr u)) v" by (auto split: option.splits)
  obtain c1 where c1: "get t c = Some (Inr u, c1)" "P c1" using assms(1) [OF u(1) Resolve.prems(2)] by blast
  then show ?case using Resolve.IH [OF _ u(2) c1(2)] by simp
qed simp

text \<open>Making one service whose factory yields it, in terms of what the calls inside keep.\<close>

lemma get_made:
  assumes f: "F t = Some f" "yields m f v"
    and c: "fits base F M T c" "di_services c t = None" "t \<notin> di_initializing c"
    and get: "\<And>u x c. m u = Some x \<Longrightarrow> fits base F M T c \<Longrightarrow> di_initializing c = insert t I \<Longrightarrow> di_lifecycle c = L \<Longrightarrow>
      \<exists>c'. Get_service n lc u c = Some (Inr x, c') \<and> fits base F M T c' \<and> di_initializing c' = insert t I \<and> di_lifecycle c' = L"
    and I: "di_initializing c = I" "di_lifecycle c = L"
    and v: "M t \<in> {None, Some v}" "base t = None" "t \<in> T"
    and ok: "lc_Initialize lc v \<in> {None, Some (Inr ())}"
  shows "\<exists>c'. Get_service (Suc n) lc t c = Some (Inr v, c') \<and> fits base F M T c' \<and> di_initializing c' = I
    \<and> di_lifecycle c' = (if lc_Initialize lc v = None then L else L @ [v])"
proof -
  let ?c = "c\<lparr>di_initializing := insert t (di_initializing c)\<rparr>"
  let ?P = "\<lambda>c. fits base F M T c \<and> di_initializing c = insert t I \<and> di_lifecycle c = L"
  have F: "di_factories c = F" using c(1) by (simp add: fits_def)
  have p: "?P ?c" using c(1) I by (simp add: fits_def)
  obtain c1 where c1: "run_factory (Get_service n lc) f ?c = Some (Inr v, c1)" "?P c1"
    using run_factory_yields [of m ?P "Get_service n lc" f v ?c, OF _ f(2) p] get by auto
  have old: "base \<subseteq>\<^sub>m di_services c1" "agrees M (di_services c1)" "di_factories c1 = F"
      "dom (di_services c1) \<subseteq> T"
    using c1(2) by (simp_all add: fits_def)
  have "base \<subseteq>\<^sub>m (di_services c1)(t \<mapsto> v)" using old(1) v(2) by (simp add: map_le_def dom_def)
  then have new: "fits base F M T (c1\<lparr>di_lifecycle := l, di_services := (di_services c1)(t \<mapsto> v), di_initializing := i\<rparr>)" for l i
    using old agrees_upd [OF old(2) v(1)] v(3) by (simp add: fits_def)
  define c2 where "c2 = c1\<lparr>di_lifecycle := (if lc_Initialize lc v = None then L else L @ [v]),
    di_services := (di_services c1)(t \<mapsto> v)\<rparr>"
  have k: "keep_service lc t v c1 = (Inr v, c2)" using ok c1(2) by (auto simp: keep_service_def c2_def)
  have "run_factory (Get_service n lc) f (c\<lparr>di_initializing := insert t I\<rparr>) = Some (Inr v, c1)" using c1(1) I by simp
  then have "Get_service (Suc n) lc t c = Some (Inr v, unmark t c2)" using c(2,3) f(1) F k I by simp
  moreover have "unmark t c2 = c1\<lparr>di_lifecycle := (if lc_Initialize lc v = None then L else L @ [v]),
      di_services := (di_services c1)(t \<mapsto> v), di_initializing := I\<rparr>"
    using c1(2) c(3) I(1) by (simp add: unmark_def c2_def)
  ultimately show ?thesis using new by auto
qed

text \<open>Every service of a wiring is given, in whatever order they are asked for.\<close>

lemma wired_gets:
  assumes w: "wired M F lc rank W"
    and M: "\<And>t v. M t = Some v \<Longrightarrow> base t = Some v \<or> base t = None \<and> (t, v) \<in> set W" and T: "dom M \<subseteq> T"
  shows "M t = Some v \<Longrightarrow> rank t < n \<Longrightarrow> fits base F M T c \<Longrightarrow> (\<forall>u\<in>di_initializing c. M u = None \<or> rank t < rank u) \<Longrightarrow>
    \<exists>c'. Get_service n lc t c = Some (Inr v, c') \<and> fits base F M T c' \<and> di_initializing c' = di_initializing c
      \<and> di_lifecycle c' = di_lifecycle c"
proof (induction n arbitrary: t v c)
  case (Suc n)
  show ?case
  proof (cases "di_services c t")
    case (Some x)
    then have "x = v" using Suc.prems(1,3) by (auto simp: fits_def dest: agrees_D)
    then show ?thesis using Some Suc.prems(3) by simp
  next
    case None
    then have b: "base t = None" using Suc.prems(3) by (force simp: fits_def map_le_def dom_def)
    then have "(t, v) \<in> set W" using M [OF Suc.prems(1)] by simp
    let ?m = "\<lambda>u. if rank u < rank t then M u else None"
    have lcv: "lc_Initialize lc v = None" and ex: "\<exists>f. F t = Some f \<and> yields ?m f v"
      using w \<open>(t, v) \<in> set W\<close> by (auto simp: wired_def list_all_iff split: option.splits)
    obtain f where f: "F t = Some f" "yields ?m f v" using ex by blast
    have m: "\<exists>c'. Get_service n lc u x = Some (Inr y, c') \<and> fits base F M T c'
        \<and> di_initializing c' = insert t (di_initializing c) \<and> di_lifecycle c' = di_lifecycle c"
      if "?m u = Some y" "fits base F M T x" "di_initializing x = insert t (di_initializing c)"
        "di_lifecycle x = di_lifecycle c" for u y x
    proof -
      have u: "rank u < rank t" "M u = Some y" using that(1) by (auto split: if_splits)
      have "rank u < n" "\<forall>q\<in>di_initializing x. M q = None \<or> rank u < rank q" using Suc.prems(2,4) u(1) that(3) by auto
      then show ?thesis using Suc.IH [OF u(2) _ that(2)] that(3,4) by (simp del: Get_service.simps)
    qed
    have fresh: "t \<notin> di_initializing c" using Suc.prems(1,4) by auto
    have i: "M t \<in> {None, Some v}" "lc_Initialize lc v \<in> {None, Some (Inr ())}" using Suc.prems(1) lcv by auto
    have inT: "t \<in> T" using T Suc.prems(1) by auto
    show ?thesis
      using get_made [OF f Suc.prems(3) None fresh m refl refl i(1) b inT i(2)] unfolding lcv if_P [OF refl] .
  qed
qed simp

text \<open>What a factory may answer when every service it is given satisfies \<open>P\<close> and any call may fail.\<close>

primrec can_return :: "(string \<Rightarrow> 'v \<Rightarrow> bool) \<Rightarrow> 'v factory \<Rightarrow> 'v \<Rightarrow> bool" where
  "can_return P (Return r) v \<longleftrightarrow> r = Inr v"
| "can_return P (Resolve t k) v \<longleftrightarrow> (\<exists>u. P t u \<and> can_return P (k (Inr u)) v) \<or> (\<exists>d. can_return P (k (Inl d)) v)"

definition all_services :: "(string \<Rightarrow> 'v \<Rightarrow> bool) \<Rightarrow> 'v container \<Rightarrow> bool" where
  "all_services P c \<longleftrightarrow> (\<forall>t v. di_services c t = Some v \<longrightarrow> P t v) \<and> (\<forall>v\<in>set (di_lifecycle c). \<exists>t. P t v)"

lemma run_factory_can:
  assumes get: "\<And>t c r c'. get t c = Some (r, c') \<Longrightarrow> Q c \<Longrightarrow> Q c' \<and> (\<forall>v. r = Inr v \<longrightarrow> P t v)"
    and "run_factory get f c = Some (r, c')" "Q c"
  shows "Q c' \<and> (\<forall>v. r = Inr v \<longrightarrow> can_return P f v)"
  using assms(2,3)
proof (induction f arbitrary: c)
  case (Resolve t k)
  then obtain q c1 where q: "get t c = Some (q, c1)" "run_factory get (k q) c1 = Some (r, c')"
    by (auto split: option.splits)
  have "Q c1" "\<forall>v. q = Inr v \<longrightarrow> P t v" using get [OF q(1) Resolve.prems(2)] by auto
  then show ?case using Resolve.IH [OF _ q(2)] by (cases q) auto
qed simp

lemma keep_service_all:
  assumes "keep_service lc t v c = (r, c')" "all_services P c" "P t v"
  shows "all_services P c' \<and> di_factories c' = di_factories c \<and> (\<forall>x. r = Inr x \<longrightarrow> P t x)"
  using assms by (auto simp: keep_service_def all_services_def split: option.splits sum.splits if_splits)

text \<open>A property that every factory keeps is kept by every \<open>Get\<close>.\<close>

lemma get_all_services:
  assumes F: "\<And>t f v. F t = Some f \<Longrightarrow> can_return P f v \<Longrightarrow> P t v"
  shows "Get_service n lc t c = Some (r, c') \<Longrightarrow> di_factories c = F \<Longrightarrow> all_services P c \<Longrightarrow>
    all_services P c' \<and> di_factories c' = F \<and> (\<forall>v. r = Inr v \<longrightarrow> P t v)"
proof (induction n arbitrary: t c r c')
  case (Suc n)
  have same: "all_services P (c\<lparr>di_initializing := i\<rparr>) = all_services P c" for c :: "'a container" and i
    by (simp add: all_services_def)
  show ?case
  proof (cases "di_services c t = None \<and> t \<notin> di_initializing c \<and> di_factories c t \<noteq> None")
    case False
    then show ?thesis using Suc.prems by (auto simp: all_services_def split: option.splits if_splits)
  next
    case True
    then obtain f where f: "di_factories c t = Some f" by blast
    let ?c = "c\<lparr>di_initializing := insert t (di_initializing c)\<rparr>"
    let ?Q = "\<lambda>c. all_services P c \<and> di_factories c = F"
    obtain q c1 where q: "run_factory (Get_service n lc) f ?c = Some (q, c1)"
      using Suc.prems(1) True f by (auto split: option.splits)
    have ran: "?Q c1 \<and> (\<forall>v. q = Inr v \<longrightarrow> can_return P f v)"
      by (rule run_factory_can [OF _ q]) (use Suc.IH Suc.prems(2,3) same in auto)
    show ?thesis
    proof (cases q)
      case (Inl d)
      then have "c' = unmark t c1" "r = Inl (InitFailed t d)" using Suc.prems(1) True f q by simp_all
      then show ?thesis using ran by (simp add: unmark_def same)
    next
      case (Inr v)
      obtain r2 c2 where k: "keep_service lc t v c1 = (r2, c2)" by fastforce
      have "P t v" using F [of t f v] f ran Inr Suc.prems(2) by simp
      then have "all_services P c2 \<and> di_factories c2 = F \<and> (\<forall>x. r2 = Inr x \<longrightarrow> P t x)"
        using keep_service_all [OF k, of P] ran by auto
      moreover have "c' = unmark t c2" "r = r2" using Suc.prems(1) True f q Inr k by simp_all
      ultimately show ?thesis by (simp add: unmark_def same)
    qed
  qed
qed simp

section \<open>The order of the modules\<close>

lemma sink_length [simp]: "length (sink key xs j) = length xs"
  by (induction key xs j rule: sink.induct) auto

lemma two_at:
  assumes "Suc j < length xs"
  obtains A a b B where "xs = A @ a # b # B" "length A = j"
proof -
  have "xs = take j xs @ xs ! j # xs ! Suc j # drop (Suc (Suc j)) xs"
    using assms by (metis Cons_nth_drop_Suc Suc_lessD id_take_nth_drop)
  moreover have "length (take j xs) = j" using assms by simp
  ultimately show ?thesis using that by blast
qed

lemma swap_adjacent:
  "length A = j \<Longrightarrow> (A @ a # b # B)[Suc j := a, j := b] = A @ b # a # B"
  by (simp add: nth_append list_update_append)

lemma sink_stable:
  assumes "j < length xs"
  shows "mset (sink key xs j) = mset xs \<and> List.filter (\<lambda>x. key x = k) (sink key xs j) = List.filter (\<lambda>x. key x = k) xs
    \<and> drop (Suc j) (sink key xs j) = drop (Suc j) xs"
  using assms
proof (induction j arbitrary: xs)
  case (Suc j)
  obtain A a b B where xs: "xs = A @ a # b # B" "length A = j" using two_at [OF Suc.prems] .
  have n: "xs ! j = a" "xs ! Suc j = b" using xs by (simp_all add: nth_append)
  show ?case
  proof (cases "key a > key b")
    case True
    have e: "sink key xs (Suc j) = sink key (A @ b # a # B) j" using True n xs swap_adjacent [OF xs(2)] by simp
    have IH: "mset (sink key (A @ b # a # B) j) = mset (A @ b # a # B)"
      "List.filter (\<lambda>x. key x = k) (sink key (A @ b # a # B) j) = List.filter (\<lambda>x. key x = k) (A @ b # a # B)"
      "drop (Suc j) (sink key (A @ b # a # B) j) = drop (Suc j) (A @ b # a # B)"
      using Suc.IH [of "A @ b # a # B"] xs by simp_all
    have "drop (Suc (Suc j)) (sink key (A @ b # a # B) j) = drop 1 (drop (Suc j) (sink key (A @ b # a # B) j))" by simp
    also have "\<dots> = B" unfolding IH(3) using xs(2) by simp
    finally show ?thesis unfolding e using IH(1,2) True xs by simp
  next
    case False then show ?thesis using n by simp
  qed
qed simp

lemma sink_sorted:
  assumes "j < length xs" "sorted (List.map key (take j xs))"
  shows "sorted (List.map key (take (Suc j) (sink key xs j)))"
  using assms
proof (induction j arbitrary: xs)
  case (Suc j)
  obtain A a b B where xs: "xs = A @ a # b # B" "length A = j" using two_at [OF Suc.prems(1)] .
  have n: "xs ! j = a" "xs ! Suc j = b" using xs by (simp_all add: nth_append)
  have A: "sorted (List.map key (A @ [a]))" using Suc.prems(2) xs by simp
  show ?case
  proof (cases "key a > key b")
    case True
    let ?ys = "A @ b # a # B"
    have e: "sink key xs (Suc j) = sink key ?ys j" using True n xs swap_adjacent [OF xs(2)] by simp
    have st: "mset (sink key ?ys j) = mset ?ys" "drop (Suc j) (sink key ?ys j) = a # B"
      using sink_stable [of j ?ys key] xs(2) by simp_all
    have sp: "sink key ?ys j = take (Suc j) (sink key ?ys j) @ a # B" using st(2) by (metis append_take_drop_id)
    have "mset (take (Suc j) (sink key ?ys j)) + mset (a # B) = mset (A @ [b]) + mset (a # B)"
      using st(1) by (subst (asm) sp) simp
    then have "mset (take (Suc j) (sink key ?ys j)) = mset (A @ [b])" by simp
    then have "set (take (Suc j) (sink key ?ys j)) = set (A @ [b])" by (metis set_mset_mset)
    then have le: "\<forall>x\<in>set (take (Suc j) (sink key ?ys j)). key x \<le> key a" using A True by (auto simp: sorted_append)
    have so: "sorted (List.map key (take (Suc j) (sink key ?ys j)))" by (rule Suc.IH) (use A xs(2) in \<open>auto simp: sorted_append\<close>)
    have "take (Suc (Suc j)) (sink key ?ys j) = take (Suc j) (sink key ?ys j) @ [a]"
      by (subst sp) (use xs(2) in simp)
    then show ?thesis unfolding e using so le by (simp add: sorted_append)
  next
    case False
    then have ab: "key a \<le> key b" by simp
    then show ?thesis using n xs A False by (auto simp: sorted_append intro: order_trans [OF _ ab])
  qed
next
  case 0
  then show ?case by (cases xs) simp_all
qed

lemma sort_modules_sort_key: "sort_modules key xs = sort_key key xs"
proof (cases xs)
  case Nil then show ?thesis by (simp add: sort_modules_def)
next
  case (Cons x0 rest)
  have inv: "mset ys = mset xs \<and> (\<forall>k. List.filter (\<lambda>x. key x = k) ys = List.filter (\<lambda>x. key x = k) xs)
      \<and> sorted (List.map key (take (max 1 n) ys)) \<and> length ys = length xs"
    if "ys = fold (\<lambda>i xs. sink key xs i) [1..<n] xs" "n \<le> length xs" for n ys
    using that
  proof (induction n arbitrary: ys)
    case 0 then show ?case using Cons by simp
  next
    case (Suc n)
    show ?case
    proof (cases "n = 0")
      case True then show ?thesis using Suc.prems Cons by simp
    next
      case False
      let ?y = "fold (\<lambda>i xs. sink key xs i) [1..<n] xs"
      have IH: "mset ?y = mset xs" "\<And>k. List.filter (\<lambda>x. key x = k) ?y = List.filter (\<lambda>x. key x = k) xs"
        "sorted (List.map key (take n ?y))" "length ?y = length xs"
        using Suc.IH [OF refl] Suc.prems(2) False by (auto simp: max_def split: if_splits)
      have e: "ys = sink key ?y n" using Suc.prems(1) False by simp
      have len: "n < length ?y" using IH(4) Suc.prems(2) by simp
      show ?thesis unfolding e using sink_stable [OF len, of key] sink_sorted [OF len IH(3)] IH by (simp add: max_def)
    qed
  qed
  have f: "mset (sort_modules key xs) = mset xs"
    "\<And>k. List.filter (\<lambda>x. key x = k) (sort_modules key xs) = List.filter (\<lambda>x. key x = k) xs"
    "sorted (List.map key (sort_modules key xs))"
    using inv [OF refl, of "length xs"] Cons by (auto simp: sort_modules_def)
  have "\<forall>k\<in>set (sort_modules key xs). List.filter (\<lambda>x. key k = key x) (sort_modules key xs) = List.filter (\<lambda>x. key k = key x) xs"
    using f(2) by (simp add: eq_commute)
  then show ?thesis using properties_for_sort_key [OF f(1) _ f(3)] by simp
qed

text \<open>The modules are registered in the order of their numbers, equal numbers in the order they were given,
  up to the first that fails: the loops of \<open>RegisterModules\<close> are a stable sort.\<close>

lemma register_modules_sorted:
  "RegisterModules modules c = register_modules (sort_key mod_order modules) c"
  by (simp add: RegisterModules_def sort_modules_sort_key)

end
