(* ===== verification/Configs.thy ===== *)
theory Configs
  imports TextUtils AuthTokens Http Cleanup
begin

text \<open>
  The configuration of the server, \<open>internal/config\<close>: what each part requires of the values read from the
  environment, and how the whole is put together.  Reading the variables (the package \<open>env\<close>) is outside: a part
  arrives as its parsed record, or as the error of parsing it.  What loading a time zone answers, an error or nothing, is an argument.
\<close>

section \<open>Checks in order\<close>

text \<open>A check refuses with a text; the first refusal counts.\<close>

type_synonym check = "string option"

definition require :: "bool \<Rightarrow> string \<Rightarrow> check" where
  "require ok msg = (if ok then None else Some msg)"

fun first_error :: "check list \<Rightarrow> string + unit" where
  "first_error [] = Inr ()"
| "first_error (Some e # cs) = Inl e"
| "first_error (None # cs) = first_error cs"

lemma first_error_Inr [simp]: "first_error cs = Inr () \<longleftrightarrow> (\<forall>c\<in>set cs. c = None)"
  by (induction cs rule: first_error.induct) auto

lemma require_None [simp]: "require ok msg = None \<longleftrightarrow> ok"
  by (simp add: require_def)

section \<open>The parts\<close>

record redis_config =
  rc_Host :: string
  rc_Port :: string
  rc_DB :: int
  rc_Password :: string
  rc_Timeout :: int
  rc_MinIdle :: int
  rc_MaxIdle :: int
  rc_MaxActive :: int
  rc_IdleTimeout :: int

definition Validate_redis :: "redis_config \<Rightarrow> string + unit" where
  "Validate_redis c = first_error
     [require (rc_Host c \<noteq> []) ''redis host is required'',
      require (rc_Port c \<noteq> []) ''redis port is required'',
      require (\<not> rc_DB c < 0) ''redis db must be non-negative'',
      require (\<not> rc_Timeout c \<le> 0) ''redis timeout must be positive'',
      require (\<not> rc_MinIdle c < 0) ''redis min idle connections must be non-negative'',
      require (\<not> rc_MaxIdle c < rc_MinIdle c) ''redis max idle connections must be greater than or equal to min idle'',
      require (\<not> rc_MaxActive c < 0) ''redis max active connections must be non-negative'',
      require (\<not> rc_IdleTimeout c \<le> 0) ''redis idle timeout must be positive'']"

record nats_config =
  nc_URL :: string
  nc_Username :: string
  nc_Password :: string
  nc_MaxAttempts :: int
  nc_Wait :: int
  nc_Buffer :: int
  nc_Connect :: int
  nc_Ping :: int
  nc_TLSEnable :: bool
  nc_TLSCert :: string
  nc_TLSKey :: string
  nc_TLSCA :: string

definition nats_validateReconnect :: "nats_config \<Rightarrow> check list" where
  "nats_validateReconnect c =
     [require (\<not> nc_MaxAttempts c < - 1) (''invalid max reconnect attempts: '' @ show_int (nc_MaxAttempts c)),
      require (\<not> nc_Wait c \<le> 0) ''reconnect wait must be positive'',
      require (\<not> nc_Buffer c < 0) ''reconnect buffer size must be non-negative'']"

definition nats_validateTimeout :: "nats_config \<Rightarrow> check list" where
  "nats_validateTimeout c =
     [require (\<not> nc_Connect c \<le> 0) ''connect timeout must be positive'',
      require (\<not> nc_Ping c \<le> 0) ''ping interval must be positive'']"

definition nats_validateTLS :: "nats_config \<Rightarrow> check list" where
  "nats_validateTLS c =
     (if \<not> nc_TLSEnable c then []
      else [require (nc_TLSCert c \<noteq> []) ''tls cert is required when tls is enabled'',
            require (nc_TLSKey c \<noteq> []) ''tls key is required when tls is enabled''])"

definition nats_validateAuth :: "nats_config \<Rightarrow> check list" where
  "nats_validateAuth c =
     [require ((nc_Username c \<noteq> []) = (nc_Password c \<noteq> [])) ''nats username and password must both be provided or both empty'']"

definition Validate_nats :: "nats_config \<Rightarrow> string + unit" where
  "Validate_nats c = first_error
     ([require (nc_URL c \<noteq> []) ''nats url is required''] @ nats_validateReconnect c @ nats_validateTimeout c
      @ nats_validateTLS c @ nats_validateAuth c)"

record database_config =
  dc_Driver :: string
  dc_Host :: string
  dc_Port :: string
  dc_Name :: string
  dc_User :: string
  dc_Password :: string
  dc_SSLMode :: string
  dc_SSLRootCert :: string
  dc_SSLCert :: string
  dc_SSLKey :: string
  dc_Timezone :: string
  dc_Timeout :: int
  dc_SearchPath :: string
  dc_Retries :: int

definition isValidSSLMode :: "string \<Rightarrow> bool" where
  "isValidSSLMode mode \<longleftrightarrow> mode \<in> {''disable'', ''require'', ''verify-ca'', ''verify-full''}"

definition db_validateRequired :: "database_config \<Rightarrow> check list" where
  "db_validateRequired c =
     [require (dc_Host c \<noteq> []) ''database host is required'',
      require (dc_Port c \<noteq> []) ''database port is required'',
      require (dc_Name c \<noteq> []) ''database name is required'',
      require (dc_User c \<noteq> []) ''database user is required'',
      require (\<not> (dc_Password c = [] \<and> dc_Driver c = ''postgres'')) ''database password is required'',
      require (\<not> (dc_Password c = [] \<and> dc_Driver c = ''cockroach'' \<and> dc_SSLMode c \<noteq> ''disable''))
        ''database password is required for CockroachDB in secure mode'']"

definition db_validateOptions :: "(string \<Rightarrow> string option) \<Rightarrow> database_config \<Rightarrow> check list" where
  "db_validateOptions load_zone c =
     [require (isValidSSLMode (dc_SSLMode c)) (''invalid ssl mode: '' @ dc_SSLMode c),
      require (load_zone (dc_Timezone c) = None) (''invalid timezone: '' @ dc_Timezone c)]"

definition Validate_database :: "(string \<Rightarrow> string option) \<Rightarrow> database_config \<Rightarrow> string + unit" where
  "Validate_database load_zone c = first_error (db_validateRequired c @ db_validateOptions load_zone c)"

record queue_config =
  qc_Driver :: string
  qc_Concurrency :: int
  qc_PollInterval :: int
  qc_VisibilityTimeout :: int
  qc_MaxAttempts :: int
  qc_Retention :: int
  qc_Cleanup :: cleanup_config
  qc_WorkerStaleDisplay :: int

definition Validate_queue_config :: "queue_config \<Rightarrow> string + unit" where
  "Validate_queue_config c = first_error
     [require (\<not> qc_Concurrency c < 1) ''concurrency must be at least 1'',
      require (\<not> qc_MaxAttempts c < 0) ''retry limit cannot be negative'',
      require (\<not> qc_VisibilityTimeout c \<le> 0) ''visibility timeout must be positive'',
      require (qc_Driver c = ''jetstream'') (''unsupported queue driver: '' @ qc_Driver c)]"

record instance_config =
  ic_Interval :: int
  ic_InactivityTimeout :: int

definition Validate_instance_config :: "instance_config \<Rightarrow> string + unit" where
  "Validate_instance_config c = first_error
     [require (\<not> ic_Interval c \<le> 0) ''heartbeat interval must be greater than 0'',
      require (\<not> ic_InactivityTimeout c \<le> 0) ''inactivity timeout must be greater than 0'']"

record time_config =
  tm_Timezone :: string
  tm_ValidateTimezone :: bool

definition Validate_time_config :: "(string \<Rightarrow> string option) \<Rightarrow> time_config \<Rightarrow> string + unit" where
  "Validate_time_config load_zone c =
     (if tm_ValidateTimezone c
      then first_error
        [map_option (\<lambda>err. ''invalid timezone '' @ tm_Timezone c @ '': '' @ err) (load_zone (tm_Timezone c)),
         require (tm_Timezone c = ''UTC'') (''only UTC timezone is supported, got: '' @ tm_Timezone c)]
      else Inr ())"

definition Validate_cors_config :: "cors_config \<Rightarrow> string + unit" where
  "Validate_cors_config c = first_error
     [require (cc_Control c \<noteq> []) ''control cors origins is required'',
      require (cc_Rest c \<noteq> []) ''rest cors origins is required'',
      require (cc_WebSocket c \<noteq> []) ''websocket cors origins is required'']"

record server_config =
  sv_ControlPort :: string
  sv_RestPort :: string
  sv_WebSocketPort :: string

definition Validate_server_config :: "server_config \<Rightarrow> string + unit" where
  "Validate_server_config c = first_error
     [require (sv_ControlPort c \<noteq> []) ''control port is required'',
      require (sv_RestPort c \<noteq> []) ''rest port is required'',
      require (sv_WebSocketPort c \<noteq> []) ''websocket port is required'']"

record logger_config =
  lg_Level :: string
  lg_Dir :: string
  lg_JSON :: bool
  lg_MaxSize :: int
  lg_MaxBackups :: int
  lg_MaxAge :: int
  lg_Compress :: bool

definition isValidLogLevel :: "string \<Rightarrow> bool" where
  "isValidLogLevel level \<longleftrightarrow> level \<in> {''debug'', ''info'', ''warn'', ''error''}"

definition Validate_logger_config :: "logger_config \<Rightarrow> string + unit" where
  "Validate_logger_config c = first_error
     [require (isValidLogLevel (lg_Level c)) (''invalid log level: '' @ lg_Level c),
      require (\<not> lg_MaxSize c \<le> 0) ''max size must be positive'',
      require (\<not> lg_MaxBackups c < 0) ''max backups cannot be negative'',
      require (\<not> lg_MaxAge c < 0) ''max age cannot be negative'']"

record app_config =
  ap_Env :: string
  ap_Debug :: bool
  ap_ControlAPIToken :: string

definition isValidEnvironment :: "string \<Rightarrow> bool" where
  "isValidEnvironment e \<longleftrightarrow> e \<in> {''production'', ''development'', ''testing''}"

definition Validate_app_config :: "app_config \<Rightarrow> string + unit" where
  "Validate_app_config c = first_error [require (isValidEnvironment (ap_Env c)) (''invalid environment: '' @ ap_Env c)]"

record id_config =
  id_HashSalt :: string
  id_HashLength :: int
  id_ULIDLength :: int

definition isValidLength :: "int \<Rightarrow> bool" where
  "isValidLength n \<longleftrightarrow> n > 0 \<and> n \<le> 100"

definition Validate_id_config :: "id_config \<Rightarrow> string + unit" where
  "Validate_id_config c = first_error
     [require (id_HashSalt c \<noteq> []) ''HASHID_SALT is required'',
      require (isValidLength (id_HashLength c)) (''invalid hash length: '' @ show_int (id_HashLength c)),
      require (isValidLength (id_ULIDLength c)) (''invalid ULID length: '' @ show_int (id_ULIDLength c))]"

section \<open>The names of the cluster\<close>

record cluster_config =
  cl_Name :: string
  cl_VMName :: string
  cl_Cluster :: cluster_components
  cl_VM :: vm_components

definition Validate_cluster :: "cluster_config \<Rightarrow> string + unit" where
  "Validate_cluster c = first_error
     [require (cc_Scope (cl_Cluster c) \<noteq> []) ''cluster scope cannot be empty'',
      require (cc_Env (cl_Cluster c) \<noteq> []) ''cluster env cannot be empty'',
      require (cc_Region (cl_Cluster c) \<noteq> []) ''cluster region cannot be empty'',
      require (cc_Zone (cl_Cluster c) \<noteq> []) ''cluster zone cannot be empty'',
      require (cc_Scope (cl_VM c) \<noteq> []) ''VM scope cannot be empty'',
      require (cc_Env (cl_VM c) \<noteq> []) ''VM env cannot be empty'',
      require (cc_Region (cl_VM c) \<noteq> []) ''VM region cannot be empty'',
      require (cc_Zone (cl_VM c) \<noteq> []) ''VM zone cannot be empty'',
      require (vm_Role (cl_VM c) \<noteq> []) ''VM role cannot be empty'',
      require (vm_Seq (cl_VM c) \<noteq> []) ''VM sequence cannot be empty'']"

text \<open>\<open>txt\<close> is the text of an error.\<close>

definition NewCluster :: "(name_format_error \<Rightarrow> string) \<Rightarrow> string \<Rightarrow> string \<Rightarrow> string + cluster_config" where
  "NewCluster txt name vm =
     (case ParseClusterName name of
        Inl e \<Rightarrow> Inl (''failed to parse cluster name: '' @ txt e)
      | Inr cc \<Rightarrow>
          (case ParseVMName vm of
             Inl e \<Rightarrow> Inl (''failed to parse VM name: '' @ txt e)
           | Inr vc \<Rightarrow>
               let cfg = \<lparr>cl_Name = name, cl_VMName = vm, cl_Cluster = cc, cl_VM = vc\<rparr>
               in case Validate_cluster cfg of
                    Inl e \<Rightarrow> Inl (''invalid cluster config: '' @ e)
                  | Inr _ \<Rightarrow> Inr cfg))"

text \<open>What the two parsers accept passes every check, so the last refusal of \<open>NewCluster\<close> does not occur.\<close>

lemma parsed_cluster: "ParseClusterName s = Inr c \<Longrightarrow> cc_Scope c \<noteq> [] \<and> cc_Env c \<noteq> [] \<and> cc_Region c \<noteq> [] \<and> cc_Zone c \<noteq> []"
  by (auto simp: ParseClusterName_def is_word_def split: if_splits list.splits)

lemma parsed_vm: "ParseVMName s = Inr c \<Longrightarrow> cc_Scope c \<noteq> [] \<and> cc_Env c \<noteq> [] \<and> cc_Region c \<noteq> [] \<and> cc_Zone c \<noteq> []
    \<and> vm_Role c \<noteq> [] \<and> vm_Seq c \<noteq> []"
  by (auto simp: ParseVMName_def is_word_def number_word_def split: if_splits list.splits)

lemma NewCluster_exact:
  "NewCluster txt name vm = Inr cfg \<longleftrightarrow>
     (\<exists>cc vc. ParseClusterName name = Inr cc \<and> ParseVMName vm = Inr vc
        \<and> cfg = \<lparr>cl_Name = name, cl_VMName = vm, cl_Cluster = cc, cl_VM = vc\<rparr>)"
proof -
  have v: "Validate_cluster \<lparr>cl_Name = name, cl_VMName = vm, cl_Cluster = cc, cl_VM = vc\<rparr> = Inr ()"
    if "ParseClusterName name = Inr cc" "ParseVMName vm = Inr vc" for cc vc
    using parsed_cluster [OF that(1)] parsed_vm [OF that(2)] by (simp add: Validate_cluster_def)
  show ?thesis using v by (auto simp: NewCluster_def Let_def split: sum.splits)
qed

section \<open>The whole\<close>

record config =
  cf_App :: app_config
  cf_Token :: token_config
  cf_Logger :: logger_config
  cf_Database :: database_config
  cf_Redis :: redis_config
  cf_NATS :: nats_config
  cf_Queue :: queue_config
  cf_Cluster :: cluster_config
  cf_Instance :: instance_config
  cf_Server :: server_config
  cf_CORS :: cors_config
  cf_Time :: time_config
  cf_ID :: id_config

text \<open>The parts as \<open>env.Parse\<close> leaves them, and the texts of the errors of other packages.\<close>

record raw_config =
  rw_App :: "string + app_config"
  rw_Token :: "string + token_config"
  rw_Logger :: "string + logger_config"
  rw_Database :: "string + database_config"
  rw_Redis :: "string + redis_config"
  rw_NATS :: "string + nats_config"
  rw_Queue :: "string + queue_config"
  rw_Cluster :: "string + string \<times> string"
  rw_Instance :: "string + instance_config"
  rw_Server :: "string + server_config"
  rw_CORS :: "string + cors_config"
  rw_Time :: "string + time_config"
  rw_ID :: "string + id_config"

text \<open>A constructor: what it says when parsing fails, and when the check fails.\<close>

definition new_part :: "string \<Rightarrow> string \<Rightarrow> ('a \<Rightarrow> string + unit) \<Rightarrow> string + 'a \<Rightarrow> string + 'a" where
  "new_part bad invalid validate raw =
     (case raw of
        Inl e \<Rightarrow> Inl (bad @ e)
      | Inr c \<Rightarrow> (case validate c of Inl e \<Rightarrow> Inl (invalid @ e) | Inr _ \<Rightarrow> Inr c))"

definition and_then :: "string \<Rightarrow> string + 'a \<Rightarrow> ('a \<Rightarrow> string + 'b) \<Rightarrow> string + 'b" where
  "and_then msg r k = (case r of Inl e \<Rightarrow> Inl (msg @ e) | Inr x \<Rightarrow> k x)"

definition NewApp :: "string + app_config \<Rightarrow> string + app_config" where
  "NewApp raw = new_part ''failed to parse app config: '' ''invalid app config: '' Validate_app_config raw"

definition NewLogger :: "string + logger_config \<Rightarrow> string + logger_config" where
  "NewLogger raw = new_part ''failed to parse logger config: '' ''invalid logger config: '' Validate_logger_config raw"

definition NewDatabase :: "(string \<Rightarrow> string option) \<Rightarrow> string + database_config \<Rightarrow> string + database_config" where
  "NewDatabase load_zone raw = new_part ''failed to parse database config: '' ''invalid database config: '' (Validate_database load_zone) raw"

definition NewRedis :: "string + redis_config \<Rightarrow> string + redis_config" where
  "NewRedis raw = new_part ''failed to parse redis config: '' ''invalid redis config: '' Validate_redis raw"

definition NewNATS :: "string + nats_config \<Rightarrow> string + nats_config" where
  "NewNATS raw = new_part ''failed to parse nats config: '' ''invalid nats config: '' Validate_nats raw"

definition NewQueue_config :: "string + queue_config \<Rightarrow> string + queue_config" where
  "NewQueue_config raw = new_part ''failed to parse queue config: '' ''invalid queue config: '' Validate_queue_config raw"

definition NewInstance_config :: "string + instance_config \<Rightarrow> string + instance_config" where
  "NewInstance_config raw = new_part ''failed to parse instance config: '' ''failed to validate instance config: '' Validate_instance_config raw"

definition NewServer_config :: "string + server_config \<Rightarrow> string + server_config" where
  "NewServer_config raw = new_part ''failed to parse server config: '' ''invalid server config: '' Validate_server_config raw"

definition NewCORS :: "string + cors_config \<Rightarrow> string + cors_config" where
  "NewCORS raw = new_part ''failed to parse cors config: '' ''invalid cors config: '' Validate_cors_config raw"

definition NewTime :: "(string \<Rightarrow> string option) \<Rightarrow> string + time_config \<Rightarrow> string + time_config" where
  "NewTime load_zone raw = new_part ''failed to parse time config: '' ''invalid time config: '' (Validate_time_config load_zone) raw"

definition NewID :: "string + id_config \<Rightarrow> string + id_config" where
  "NewID raw = new_part ''failed to parse ID config: '' ''invalid ID config: '' Validate_id_config raw"

text \<open>\<open>txt\<close> is the text of an error of the token package.\<close>

definition NewToken_config :: "(config_error \<Rightarrow> string) \<Rightarrow> string + token_config \<Rightarrow> string + token_config" where
  "NewToken_config txt raw = new_part ''failed to parse token config: '' ''invalid token config: ''
     (\<lambda>c. case Validate_token_config c of Inl e \<Rightarrow> Inl (txt e) | Inr _ \<Rightarrow> Inr ()) raw"

lemmas part_defs = NewApp_def NewLogger_def NewDatabase_def NewRedis_def NewNATS_def NewQueue_config_def NewInstance_config_def
  NewServer_config_def NewCORS_def NewTime_def NewID_def NewToken_config_def

definition NewConfig ::
    "(string \<Rightarrow> string option) \<Rightarrow> (config_error \<Rightarrow> string) \<Rightarrow> (name_format_error \<Rightarrow> string) \<Rightarrow> raw_config \<Rightarrow> string + config" where
  "NewConfig load_zone ttxt ntxt raw =
     and_then ''failed to parse app config: ''
       (NewApp (rw_App raw)) (\<lambda>a.
     and_then ''failed to parse auth token config: ''
       (NewToken_config ttxt (rw_Token raw)) (\<lambda>tk.
     and_then ''failed to parse logger config: ''
       (NewLogger (rw_Logger raw)) (\<lambda>lg.
     and_then ''failed to parse database config: ''
       (NewDatabase load_zone (rw_Database raw)) (\<lambda>db.
     and_then ''failed to parse redis config: ''
       (NewRedis (rw_Redis raw)) (\<lambda>rd.
     and_then ''failed to parse nats config: ''
       (NewNATS (rw_NATS raw)) (\<lambda>nt.
     and_then ''failed to parse queue config: ''
       (NewQueue_config (rw_Queue raw)) (\<lambda>q.
     and_then ''failed to parse cluster config: ''
       (case rw_Cluster raw of
          Inl e \<Rightarrow> Inl (''failed to parse cluster config: '' @ e)
        | Inr (name, vm) \<Rightarrow> NewCluster ntxt name vm) (\<lambda>cl.
     and_then ''failed to parse instance config: ''
       (NewInstance_config (rw_Instance raw)) (\<lambda>i.
     and_then ''failed to parse server config: ''
       (NewServer_config (rw_Server raw)) (\<lambda>sv.
     and_then ''failed to parse cors config: ''
       (NewCORS (rw_CORS raw)) (\<lambda>co.
     and_then ''failed to parse time config: ''
       (NewTime load_zone (rw_Time raw)) (\<lambda>tm.
     and_then ''failed to parse shared id config: ''
       (NewID (rw_ID raw)) (\<lambda>ids.
     Inr \<lparr>cf_App = a, cf_Token = tk, cf_Logger = lg, cf_Database = db, cf_Redis = rd, cf_NATS = nt, cf_Queue = q,
          cf_Cluster = cl, cf_Instance = i, cf_Server = sv, cf_CORS = co, cf_Time = tm, cf_ID = ids\<rparr>)))))))))))))"

lemma new_part_Inr [simp]: "new_part bad invalid validate raw = Inr c \<longleftrightarrow> raw = Inr c \<and> validate c = Inr ()"
  by (cases raw; cases "validate c") (auto simp: new_part_def split: sum.splits)

lemma and_then_Inr: "and_then msg r k = Inr y \<longleftrightarrow> (\<exists>x. r = Inr x \<and> k x = Inr y)"
  by (cases r) (simp_all add: and_then_def)

text \<open>Every part of a configuration that was put together has passed its check.\<close>

lemma NewConfig_parts:
  assumes "NewConfig load_zone ttxt ntxt raw = Inr c"
  shows "Validate_app_config (cf_App c) = Inr ()" "Validate_logger_config (cf_Logger c) = Inr ()"
    "Validate_database load_zone (cf_Database c) = Inr ()" "Validate_redis (cf_Redis c) = Inr ()"
    "Validate_nats (cf_NATS c) = Inr ()" "Validate_queue_config (cf_Queue c) = Inr ()"
    "Validate_instance_config (cf_Instance c) = Inr ()" "Validate_server_config (cf_Server c) = Inr ()"
    "Validate_cors_config (cf_CORS c) = Inr ()" "Validate_time_config load_zone (cf_Time c) = Inr ()"
    "Validate_id_config (cf_ID c) = Inr ()"
proof -
  have "Validate_app_config (cf_App c) = Inr () \<and> Validate_logger_config (cf_Logger c) = Inr ()
    \<and> Validate_database load_zone (cf_Database c) = Inr () \<and> Validate_redis (cf_Redis c) = Inr ()
    \<and> Validate_nats (cf_NATS c) = Inr () \<and> Validate_queue_config (cf_Queue c) = Inr ()
    \<and> Validate_instance_config (cf_Instance c) = Inr () \<and> Validate_server_config (cf_Server c) = Inr ()
    \<and> Validate_cors_config (cf_CORS c) = Inr () \<and> Validate_time_config load_zone (cf_Time c) = Inr ()
    \<and> Validate_id_config (cf_ID c) = Inr ()"
    using assms unfolding NewConfig_def part_defs and_then_Inr new_part_Inr
    apply (elim exE conjE)
    apply (drule Inr_inject)
    apply hypsubst
    apply (simp only: config.select_convs simp_thms)
    done
  then show "Validate_app_config (cf_App c) = Inr ()" "Validate_logger_config (cf_Logger c) = Inr ()"
    "Validate_database load_zone (cf_Database c) = Inr ()" "Validate_redis (cf_Redis c) = Inr ()"
    "Validate_nats (cf_NATS c) = Inr ()" "Validate_queue_config (cf_Queue c) = Inr ()"
    "Validate_instance_config (cf_Instance c) = Inr ()" "Validate_server_config (cf_Server c) = Inr ()"
    "Validate_cors_config (cf_CORS c) = Inr ()" "Validate_time_config load_zone (cf_Time c) = Inr ()"
    "Validate_id_config (cf_ID c) = Inr ()"
    by blast+
qed

text \<open>The server starts only with positive timeouts and leases, all origins named, known modes and a database password
  where the driver needs one.  The settings of the cleanup are not among the checks: a negative retention is accepted.\<close>

lemma started_config:
  assumes "NewConfig load_zone ttxt ntxt raw = Inr c"
  shows "ic_Interval (cf_Instance c) > 0" "ic_InactivityTimeout (cf_Instance c) > 0"
    "qc_VisibilityTimeout (cf_Queue c) > 0" "qc_MaxAttempts (cf_Queue c) \<ge> 0" "qc_Concurrency (cf_Queue c) \<ge> 1"
    "cc_Control (cf_CORS c) \<noteq> []" "isValidSSLMode (dc_SSLMode (cf_Database c))"
    "dc_Driver (cf_Database c) = ''postgres'' \<Longrightarrow> dc_Password (cf_Database c) \<noteq> []"
    "nc_Wait (cf_NATS c) > 0" "rc_Timeout (cf_Redis c) > 0" "id_HashSalt (cf_ID c) \<noteq> []"
proof -
  note v = NewConfig_parts [OF assms]
  show "ic_Interval (cf_Instance c) > 0" "ic_InactivityTimeout (cf_Instance c) > 0"
    using v(7) by (auto simp: Validate_instance_config_def)
  show "qc_VisibilityTimeout (cf_Queue c) > 0" "qc_MaxAttempts (cf_Queue c) \<ge> 0" "qc_Concurrency (cf_Queue c) \<ge> 1"
    using v(6) by (auto simp: Validate_queue_config_def)
  show "cc_Control (cf_CORS c) \<noteq> []" using v(9) by (simp add: Validate_cors_config_def)
  show "isValidSSLMode (dc_SSLMode (cf_Database c))"
    "dc_Driver (cf_Database c) = ''postgres'' \<Longrightarrow> dc_Password (cf_Database c) \<noteq> []"
    using v(3) by (auto simp: Validate_database_def db_validateRequired_def db_validateOptions_def)
  show "nc_Wait (cf_NATS c) > 0" using v(5) by (simp add: Validate_nats_def nats_validateReconnect_def)
  show "rc_Timeout (cf_Redis c) > 0" using v(4) by (simp add: Validate_redis_def)
  show "id_HashSalt (cf_ID c) \<noteq> []" using v(11) by (simp add: Validate_id_config_def)
qed

end
