(* ===== verification/Wiring.thy ===== *)
theory Wiring
  imports Container Configs Platform
begin

text \<open>
  How the server is put together and taken down: \<open>internal/bootstrap\<close> (\<open>app.go\<close>, \<open>container_integration.go\<close>,
  \<open>handlers.go\<close>, \<open>server.go\<close>, the setup files) and the modules of \<open>internal/bootstrap/modules\<close>.  Every factory
  that a module registers is written out with the services it asks for, in their order.  Connecting to Redis,
  NATS and the database, and what the services do when they are started and stopped, are fields of \<open>boot_env\<close>.
\<close>

section \<open>Services and their types\<close>

text \<open>A service is known by the type its constructor gives it and the types of what it was made from.\<close>

datatype service = Service (sv_type: string) (sv_parts: "string list")

text \<open>The interfaces that a constructed type has besides its own name.\<close>

definition implements :: "(string \<times> string) list" where
  "implements =
     [(''*modules.InstanceServiceManager'', ''instance.Service''),
      (''*sessionService.Service'', ''delivery.Deliverer''),
      (''*realtime.Service'', ''realtime.Service''),
      (''apikey.Service'', ''apikeyApp.ExtendedService'')]"

definition has_type :: "service \<Rightarrow> string \<Rightarrow> bool" where
  "has_type v t \<longleftrightarrow> sv_type v = t \<or> (sv_type v, t) \<in> set implements"

text \<open>The type assertion of \<open>GetTyped\<close>.\<close>

definition typed :: "string \<Rightarrow> di_error + service \<Rightarrow> di_error + service" where
  "typed t r = (case r of Inl e \<Rightarrow> Inl e | Inr v \<Rightarrow> if has_type v t then Inr v else Inl (NotAssignable t))"

definition made :: "string \<Rightarrow> service list \<Rightarrow> service factory" where
  "made name parts = Return (Inr (Service name (List.map sv_type parts)))"

definition build :: "string \<Rightarrow> string list \<Rightarrow> service factory" where
  "build name ts = ask_all has_type ts (made name)"

datatype lock_poll = PollGone | PollHeld | PollError | PollTimeout | PollCancelled

text \<open>What the start depends on outside this code.\<close>

record boot_env =
  be_zone :: "string \<Rightarrow> string option"
  be_config_text :: "config_error \<Rightarrow> string"
  be_name_text :: "name_format_error \<Rightarrow> string"
  be_raw :: raw_config
  be_Logger :: "string + unit"
  be_ULID :: string
  be_Ping :: "string + unit"
  be_Connect :: "string + unit"
  be_Lock :: "string + bool"
  be_Migrate :: "string + unit"
  be_Polls :: "lock_poll list"
  be_NATS :: "string + unit"
  be_RedisClient :: bool
  be_NATSConn :: bool
  be_JetStream :: "string + unit"
  be_ParseChannel :: "string + unit"
  be_Cleanup :: cleanup_config
  be_text :: "qerr \<Rightarrow> string"
  be_RegisterInstance :: "di_error + unit"
  be_StartManager :: "di_error + unit"
  be_StartSchedule :: "di_error + unit"
  be_StartRuntime :: "di_error + unit"
  be_Deregister :: "di_error + unit"
  be_CloseBus :: "di_error + unit"
  be_StopManager :: "di_error + unit"
  be_ShutdownBroker :: "di_error + unit"
  be_StopSchedule :: "di_error + unit"
  be_Close :: "string \<Rightarrow> string + unit"

text \<open>\<open>id.Init\<close>: the generator checks its configuration again.\<close>

definition Init_id :: "id_config \<Rightarrow> string + unit" where
  "Init_id cfg = (case Validate_id_config cfg of
       Inl e \<Rightarrow> Inl (''failed to initialize id service: [id] invalid config: '' @ e) | Inr _ \<Rightarrow> Inr ())"

section \<open>The factories\<close>

text \<open>\<open>NewRepository\<close> of the broker of the queues needs JetStream.\<close>

definition with_broker :: "boot_env \<Rightarrow> (service \<Rightarrow> service factory) \<Rightarrow> service factory" where
  "with_broker e k =
     (case be_JetStream e of
        Inl err \<Rightarrow> Return (Inl (FactoryError (''jetstream unavailable: '' @ err)))
      | Inr _ \<Rightarrow> k (Service ''queueBroker.Repository'' [''nats.Service'', ''logger.Service'']))"

subsection \<open>The clients behind the services of Redis and NATS\<close>

definition new_goredis_Client :: "boot_env \<Rightarrow> service factory" where
  "new_goredis_Client e =
     Resolve ''redis.Service'' (\<lambda>r. case typed ''redis.Service'' r of
         Inl err \<Rightarrow> Resolve ''logger.Service'' (\<lambda>_. Return (Inl err))
       | Inr s \<Rightarrow> if be_RedisClient e then made ''*goredis.Client'' [s]
                 else Resolve ''logger.Service'' (\<lambda>_. Return (Inl (FactoryError ''redis client is nil''))))"

definition new_gonats_Conn :: "boot_env \<Rightarrow> service factory" where
  "new_gonats_Conn e =
     Resolve ''nats.Service'' (\<lambda>r. case typed ''nats.Service'' r of
         Inl err \<Rightarrow> Resolve ''logger.Service'' (\<lambda>_. Return (Inl err))
       | Inr s \<Rightarrow> if be_NATSConn e then made ''*gonats.Conn'' [s]
                 else Resolve ''logger.Service'' (\<lambda>_. Return (Inl (FactoryError ''nats connection is nil''))))"

definition infrastructure_factories :: "boot_env \<Rightarrow> (string \<times> service factory) list" where
  "infrastructure_factories e =
     [(''*goredis.Client'', new_goredis_Client e),
      (''*gonats.Conn'', new_gonats_Conn e)]"

subsection \<open>The rows of the servers\<close>

definition new_instance_Repository :: "service factory" where
  "new_instance_Repository = build ''instance.Repository'' [''*gorm.DB'']"

definition new_instance_Service :: "service factory" where
  "new_instance_Service =
     ask has_type ''*config.Config'' (\<lambda>cfg.
     ask has_type ''logger.Service'' (\<lambda>lg.
     ask has_type ''id.ULID'' (\<lambda>i.
     ask has_type ''instance.Repository'' (\<lambda>rp.
     Resolve ''realtime.Service'' (\<lambda>r. case typed ''realtime.Service'' r of
         Inl _ \<Rightarrow> made ''*modules.InstanceServiceManager'' [cfg, lg, i, rp]
       | Inr stat \<Rightarrow> made ''*modules.InstanceServiceManager'' [cfg, lg, i, rp, stat])))))"

definition instance_factories :: "(string \<times> service factory) list" where
  "instance_factories =
     [(''instance.Repository'', new_instance_Repository),
      (''instance.Service'', new_instance_Service)]"

subsection \<open>API keys\<close>

definition new_apikey_Repository :: "service factory" where
  "new_apikey_Repository = build ''apikey.Repository'' [''*gorm.DB'']"

definition new_apikey_Service :: "service factory" where
  "new_apikey_Service = build ''apikey.Service'' [''logger.Service'', ''apikey.Repository'']"

definition new_apikeyApp_ExtendedService :: "service factory" where
  "new_apikeyApp_ExtendedService =
     ask has_type ''apikey.Service'' (\<lambda>s.
       if has_type s ''apikeyApp.ExtendedService'' then Return (Inr s)
       else Return (Inl (FactoryError ''apikey service does not satisfy ExtendedService'')))"

definition apikey_factories :: "(string \<times> service factory) list" where
  "apikey_factories =
     [(''apikey.Repository'', new_apikey_Repository),
      (''apikey.Service'', new_apikey_Service),
      (''apikeyApp.ExtendedService'', new_apikeyApp_ExtendedService)]"

subsection \<open>The statistics in Redis\<close>

definition new_realtime_Repository :: "service factory" where
  "new_realtime_Repository = build ''realtime.Repository'' [''*goredis.Client'']"

definition new_realtime_Service :: "service factory" where
  "new_realtime_Service = build ''*realtime.Service'' [''realtime.Repository'']"

definition project_stat_factories :: "(string \<times> service factory) list" where
  "project_stat_factories =
     [(''realtime.Repository'', new_realtime_Repository),
      (''realtime.Service'', new_realtime_Service)]"

subsection \<open>Tenants\<close>

definition new_tenant_Repository :: "service factory" where
  "new_tenant_Repository = build ''tenant.Repository'' [''*gorm.DB'']"

definition new_tenant_Service :: "service factory" where
  "new_tenant_Service = build ''tenant.Service'' [''logger.Service'', ''tenant.Repository'']"

definition tenant_factories :: "(string \<times> service factory) list" where
  "tenant_factories =
     [(''tenant.Repository'', new_tenant_Repository),
      (''tenant.Service'', new_tenant_Service)]"

subsection \<open>Channels, clients, sessions and the routing of messages\<close>

definition new_messaging_ChannelConfig :: "boot_env \<Rightarrow> service factory" where
  "new_messaging_ChannelConfig e =
     (case be_ParseChannel e of
        Inl err \<Rightarrow> Return (Inl (FactoryError (''failed to parse messaging channel config: '' @ err)))
      | Inr _ \<Rightarrow> made ''*messaging.ChannelConfig'' [])"

definition new_event_Service :: "service factory" where
  "new_event_Service = build ''event.Service'' [''logger.Service'']"

definition new_EventBusLifecycle :: "service factory" where
  "new_EventBusLifecycle = build ''*modules.EventBusLifecycle'' [''logger.Service'', ''event.Service'']"

definition new_msgTelemetry_Repository :: "service factory" where
  "new_msgTelemetry_Repository = build ''msgTelemetry.Repository'' [''logger.Service'']"

definition new_msgTelemetry_Service :: "service factory" where
  "new_msgTelemetry_Service = build ''msgTelemetry.Service'' [''logger.Service'', ''id.ULID'', ''msgTelemetry.Repository'']"

definition new_telemetrySnapshot_Service :: "service factory" where
  "new_telemetrySnapshot_Service = build ''*telemetrySnapshot.Service''
     [''logger.Service'', ''id.ULID'', ''subscription.Repository'', ''channel.Repository'',
      ''connection.Repository'', ''msgTelemetry.Repository'', ''realtime.Service'']"

definition new_TelemetrySnapshotServiceLifecycle :: "service factory" where
  "new_TelemetrySnapshotServiceLifecycle = build ''*modules.TelemetrySnapshotServiceLifecycle''
     [''logger.Service'', ''*telemetrySnapshot.Service'']"

definition new_broker_Service :: "service factory" where
  "new_broker_Service = build ''broker.Service'' [''logger.Service'', ''id.ULID'', ''*gonats.Conn'']"

definition new_BrokerServiceLifecycle :: "service factory" where
  "new_BrokerServiceLifecycle = build ''*modules.BrokerServiceLifecycle'' [''logger.Service'', ''broker.Service'']"

definition new_connection_Repository :: "service factory" where
  "new_connection_Repository = build ''connection.Repository'' [''logger.Service'']"

definition new_connection_Service :: "service factory" where
  "new_connection_Service = build ''connection.Service'' [''logger.Service'', ''id.ULID'', ''connection.Repository'']"

definition new_client_Repository :: "service factory" where
  "new_client_Repository = build ''client.Repository'' [''logger.Service'']"

definition new_client_Service :: "service factory" where
  "new_client_Service = build ''client.Service''
     [''logger.Service'', ''id.ULID'', ''client.Repository'', ''connection.Service'']"

definition new_channel_Repository :: "service factory" where
  "new_channel_Repository = build ''channel.Repository'' [''logger.Service'']"

definition new_channel_Service :: "service factory" where
  "new_channel_Service = build ''channel.Service''
     [''logger.Service'', ''id.ULID'', ''channel.Repository'', ''broker.Service'', ''event.Service'']"

definition new_lifecycle_Manager :: "service factory" where
  "new_lifecycle_Manager = build ''*lifecycle.Manager''
     [''logger.Service'', ''channel.Service'', ''event.Service'', ''messaging.ChannelConfig'']"

definition new_ChannelLifecycleManagerLifecycle :: "service factory" where
  "new_ChannelLifecycleManagerLifecycle = build ''*modules.ChannelLifecycleManagerLifecycle''
     [''logger.Service'', ''*lifecycle.Manager'']"

definition new_subscription_Repository :: "service factory" where
  "new_subscription_Repository = build ''subscription.Repository'' [''logger.Service'', ''id.ULID'']"

definition new_sessionService_Service :: "service factory" where
  "new_sessionService_Service = build ''*sessionService.Service''
     [''logger.Service'', ''id.ULID'', ''connection.Service'', ''msgTelemetry.Service'']"

definition new_delivery_Deliverer :: "service factory" where
  "new_delivery_Deliverer = ask has_type ''*sessionService.Service'' (\<lambda>s. Return (Inr s))"

definition new_backpressure_LimitsProvider :: "service factory" where
  "new_backpressure_LimitsProvider = build ''backpressure.LimitsProvider'' [''logger.Service'', ''tenant.Service'']"

definition new_backpressure_Gatekeeper :: "service factory" where
  "new_backpressure_Gatekeeper = build ''backpressure.Gatekeeper'' [''logger.Service'', ''backpressure.LimitsProvider'']"

definition new_msgRouter_Service :: "service factory" where
  "new_msgRouter_Service = build ''msgRouter.Service''
     [''logger.Service'', ''id.ULID'', ''broker.Service'', ''channel.Service'', ''subscription.Repository'',
      ''delivery.Deliverer'', ''msgTelemetry.Service'', ''backpressure.Gatekeeper'']"

definition new_subscription_Service :: "service factory" where
  "new_subscription_Service = build ''subscription.Service''
     [''logger.Service'', ''id.ULID'', ''subscription.Repository'', ''channel.Service'', ''msgRouter.Service'',
      ''delivery.Deliverer'', ''event.Service'']"

definition new_publication_Service :: "service factory" where
  "new_publication_Service = build ''publication.Service'' [''logger.Service'', ''client.Service'', ''msgRouter.Service'']"

definition messaging_factories :: "boot_env \<Rightarrow> (string \<times> service factory) list" where
  "messaging_factories e =
     [(''messaging.ChannelConfig'', new_messaging_ChannelConfig e),
      (''event.Service'', new_event_Service),
      (''*modules.EventBusLifecycle'', new_EventBusLifecycle),
      (''msgTelemetry.Repository'', new_msgTelemetry_Repository),
      (''msgTelemetry.Service'', new_msgTelemetry_Service),
      (''*telemetrySnapshot.Service'', new_telemetrySnapshot_Service),
      (''*modules.TelemetrySnapshotServiceLifecycle'', new_TelemetrySnapshotServiceLifecycle),
      (''broker.Service'', new_broker_Service),
      (''*modules.BrokerServiceLifecycle'', new_BrokerServiceLifecycle),
      (''connection.Repository'', new_connection_Repository),
      (''connection.Service'', new_connection_Service),
      (''client.Repository'', new_client_Repository),
      (''client.Service'', new_client_Service),
      (''channel.Repository'', new_channel_Repository),
      (''channel.Service'', new_channel_Service),
      (''lifecycle.Manager'', new_lifecycle_Manager),
      (''*modules.ChannelLifecycleManagerLifecycle'', new_ChannelLifecycleManagerLifecycle),
      (''subscription.Repository'', new_subscription_Repository),
      (''*sessionService.Service'', new_sessionService_Service),
      (''delivery.Deliverer'', new_delivery_Deliverer),
      (''backpressure.LimitsProvider'', new_backpressure_LimitsProvider),
      (''backpressure.Gatekeeper'', new_backpressure_Gatekeeper),
      (''msgRouter.Service'', new_msgRouter_Service),
      (''subscription.Service'', new_subscription_Service),
      (''publication.Service'', new_publication_Service)]"

subsection \<open>Queues, jobs, workers and their runtime\<close>

definition new_queue_Repository :: "service factory" where
  "new_queue_Repository = build ''queue.Repository'' [''*gorm.DB'']"

definition new_job_Repository :: "service factory" where
  "new_job_Repository = build ''job.Repository'' [''*gorm.DB'']"

definition new_worker_Repository :: "service factory" where
  "new_worker_Repository = build ''worker.Repository'' [''*gorm.DB'']"

definition new_queueTelemetry_Repository :: "service factory" where
  "new_queueTelemetry_Repository = build ''queueTelemetry.Repository'' []"

definition new_queueTelemetry_Service :: "service factory" where
  "new_queueTelemetry_Service = build ''queueTelemetry.Service'' [''queueTelemetry.Repository'']"

definition new_queue_Service :: "service factory" where
  "new_queue_Service = build ''queue.Service'' [''queue.Repository'', ''logger.Service'']"

definition new_logBroadcast_Service :: "service factory" where
  "new_logBroadcast_Service = build ''logBroadcast.Service'' [''logger.Service'', ''publication.Service'']"

definition new_job_Service :: "service factory" where
  "new_job_Service = build ''job.Service''
     [''job.Repository'', ''logger.Service'', ''logBroadcast.Service'', ''*lifecycle.Guard'']"

definition new_worker_Service :: "service factory" where
  "new_worker_Service = build ''worker.Service''
     [''worker.Repository'', ''job.Repository'', ''logger.Service'', ''logBroadcast.Service'', ''*lifecycle.Guard'']"

definition new_lifecycle_Guard :: "service factory" where
  "new_lifecycle_Guard = build ''*lifecycle.Guard'' [''tenant.Repository'', ''queue.Repository'']"

definition new_cleanup_Service :: "boot_env \<Rightarrow> service factory" where
  "new_cleanup_Service e =
     ask_all has_type
       [''*config.Config'', ''job.Repository'', ''queue.Repository'', ''worker.Repository'', ''tenant.Repository'',
        ''nats.Service'', ''logger.Service''] (\<lambda>vs.
     with_broker e (\<lambda>b.
     ask has_type ''apikey.Service'' (\<lambda>a. made ''cleanup.Service'' (vs @ [b, a]))))"

definition new_queueMaintenanceApp_Service :: "service factory" where
  "new_queueMaintenanceApp_Service = build ''*queueMaintenanceApp.Service'' [''cleanup.Service'']"

definition new_queueRouter_Service :: "boot_env \<Rightarrow> service factory" where
  "new_queueRouter_Service e =
     ask_all has_type [''job.Repository'', ''queue.Repository'', ''nats.Service'', ''logger.Service''] (\<lambda>vs.
     with_broker e (\<lambda>b.
     ask_all has_type
       [''queueTelemetry.Service'', ''msgTelemetry.Service'', ''logBroadcast.Service'', ''id.ULID'', ''queue.Service'',
        ''worker.Service'', ''*lifecycle.Guard''] (\<lambda>us.
     made ''queueRouter.Service'' (vs @ [b, Service ''queueBackpressure.Gatekeeper'' []] @ us))))"

definition new_platform_Registry :: "boot_env \<Rightarrow> service factory" where
  "new_platform_Registry e =
     ask_all has_type [''cleanup.Service'', ''*queueMaintenanceApp.Service'', ''logger.Service''] (\<lambda>vs.
       case fst (RegisterCleanupTasks (be_Cleanup e) (be_text e) NewRegistry) of
         Inl err \<Rightarrow> Return (Inl (FactoryError err))
       | Inr _ \<Rightarrow> made ''*platform.Registry'' vs)"

definition new_webhook_Service :: "service factory" where
  "new_webhook_Service = build ''*webhook.Service'' []"

definition new_runtime_Service :: "service factory" where
  "new_runtime_Service = build ''runtime.Service''
     [''queueRouter.Service'', ''job.Repository'', ''queue.Repository'', ''*webhook.Service'',
      ''*platform.Registry'', ''logger.Service'', ''id.ULID'']"

definition new_queueScheduleApp_Service :: "service factory" where
  "new_queueScheduleApp_Service = build ''*queueScheduleApp.Service''
     [''redis.Service'', ''queueRouter.Service'', ''*platform.Registry'', ''logger.Service'', ''id.ULID'']"

definition new_QueueRuntimeLifecycle :: "service factory" where
  "new_QueueRuntimeLifecycle = build ''*modules.QueueRuntimeLifecycle''
     [''runtime.Service'', ''*queueScheduleApp.Service'', ''logger.Service'']"

definition queue_factories :: "boot_env \<Rightarrow> (string \<times> service factory) list" where
  "queue_factories e =
     [(''queue.Repository'', new_queue_Repository),
      (''job.Repository'', new_job_Repository),
      (''worker.Repository'', new_worker_Repository),
      (''queueTelemetry.Repository'', new_queueTelemetry_Repository),
      (''queueTelemetry.Service'', new_queueTelemetry_Service),
      (''queue.Service'', new_queue_Service),
      (''logBroadcast.Service'', new_logBroadcast_Service),
      (''job.Service'', new_job_Service),
      (''worker.Service'', new_worker_Service),
      (''*lifecycle.Guard'', new_lifecycle_Guard),
      (''cleanup.Service'', new_cleanup_Service e),
      (''*queueMaintenanceApp.Service'', new_queueMaintenanceApp_Service),
      (''queueRouter.Service'', new_queueRouter_Service e),
      (''*platform.Registry'', new_platform_Registry e),
      (''*webhook.Service'', new_webhook_Service),
      (''runtime.Service'', new_runtime_Service),
      (''*queueScheduleApp.Service'', new_queueScheduleApp_Service),
      (''*modules.QueueRuntimeLifecycle'', new_QueueRuntimeLifecycle)]"

subsection \<open>Authentication\<close>

definition new_authToken_Repository :: "service factory" where
  "new_authToken_Repository = build ''authToken.Repository'' [''*gorm.DB'']"

definition new_authToken_Service :: "service factory" where
  "new_authToken_Service =
     ask_all has_type [''*config.Config'', ''authToken.Repository''] (\<lambda>vs.
     Resolve ''apikey.Service'' (\<lambda>r. case typed ''apikey.Service'' r of
         Inl err \<Rightarrow> Return (Inl (Wrapped ''apikey service is required for token service: '' err))
       | Inr a \<Rightarrow>
           Resolve ''*apikey.Parser'' (\<lambda>r. case typed ''*apikey.Parser'' r of
               Inl err \<Rightarrow> Return (Inl (Wrapped ''API key parser is required for token service: '' err))
             | Inr q \<Rightarrow> made ''authToken.Service'' (vs @ [a, q]))))"

definition new_authAPIKey_Service :: "service factory" where
  "new_authAPIKey_Service = build ''authAPIKey.Service'' [''logger.Service'', ''apikey.Service'', ''*apikey.Parser'']"

definition auth_factories :: "(string \<times> service factory) list" where
  "auth_factories =
     [(''authToken.Repository'', new_authToken_Repository),
      (''authToken.Service'', new_authToken_Service),
      (''authAPIKey.Service'', new_authAPIKey_Service)]"

section \<open>Services with a life of their own\<close>

definition Initialize_InstanceServiceManager :: "boot_env \<Rightarrow> di_error + unit" where
  "Initialize_InstanceServiceManager e = be_RegisterInstance e"

definition Shutdown_InstanceServiceManager :: "boot_env \<Rightarrow> bool \<Rightarrow> di_error + unit" where
  "Shutdown_InstanceServiceManager e stopped = (if stopped then Inr () else be_Deregister e)"

definition Initialize_QueueRuntimeLifecycle :: "boot_env \<Rightarrow> di_error + unit" where
  "Initialize_QueueRuntimeLifecycle e = (case be_StartSchedule e of Inl err \<Rightarrow> Inl err | Inr _ \<Rightarrow> be_StartRuntime e)"

text \<open>The error of stopping the runtime is dropped.\<close>

definition Shutdown_QueueRuntimeLifecycle :: "boot_env \<Rightarrow> di_error + unit" where
  "Shutdown_QueueRuntimeLifecycle e = be_StopSchedule e"

text \<open>The types with the methods \<open>Initialize\<close> and \<open>Shutdown\<close> of \<open>Lifecycle\<close>.\<close>

definition lifecycles :: "boot_env \<Rightarrow> service lifecycle" where
  "lifecycles e =
     \<lparr>lc_Initialize = (\<lambda>v.
        if sv_type v = ''*modules.InstanceServiceManager'' then Some (Initialize_InstanceServiceManager e)
        else if sv_type v = ''*modules.QueueRuntimeLifecycle'' then Some (Initialize_QueueRuntimeLifecycle e)
        else if sv_type v = ''*modules.ChannelLifecycleManagerLifecycle'' then Some (be_StartManager e)
        else if sv_type v \<in> {''*modules.EventBusLifecycle'', ''*modules.BrokerServiceLifecycle'',
                ''*modules.TelemetrySnapshotServiceLifecycle''} then Some (Inr ())
        else None),
      lc_Shutdown = (\<lambda>v.
        if sv_type v = ''*modules.InstanceServiceManager'' then Some (Shutdown_InstanceServiceManager e False)
        else if sv_type v = ''*modules.QueueRuntimeLifecycle'' then Some (Shutdown_QueueRuntimeLifecycle e)
        else if sv_type v = ''*modules.ChannelLifecycleManagerLifecycle'' then Some (be_StopManager e)
        else if sv_type v = ''*modules.EventBusLifecycle'' then Some (be_CloseBus e)
        else if sv_type v = ''*modules.BrokerServiceLifecycle'' then Some (be_ShutdownBroker e)
        else if sv_type v = ''*modules.TelemetrySnapshotServiceLifecycle'' then Some (Inr ())
        else None)\<rparr>"

section \<open>The container of the application\<close>

text \<open>There are fewer factories than \<open>boot_fuel\<close>, so a \<open>Get\<close> never runs out of it (lemma \<open>boot_get_done\<close>).\<close>

definition boot_fuel :: nat where
  "boot_fuel = 80"

definition app_get :: "boot_env \<Rightarrow> string \<Rightarrow> service container \<Rightarrow> (di_error + service) \<times> service container" where
  "app_get e t c =
     (case Get_service boot_fuel (lifecycles e) t c of
        Some rc \<Rightarrow> rc
      | None \<Rightarrow> (Inl (FactoryError ''out of fuel''), c))"

definition app_get_typed :: "boot_env \<Rightarrow> string \<Rightarrow> service container \<Rightarrow> (di_error + service) \<times> service container" where
  "app_get_typed e t c = (case app_get e t c of (r, c) \<Rightarrow> (typed t r, c))"

text \<open>A module registers its factories and then asks for the logger, to say so.\<close>

definition module_Register ::
    "boot_env \<Rightarrow> (string \<times> service factory) list \<Rightarrow> service container \<Rightarrow> (di_error + unit) \<times> service container" where
  "module_Register e fs c = (Inr (), snd (app_get e ''logger.Service'' (fold (\<lambda>(t, f). di_Register t f) fs c)))"

definition service_modules :: "boot_env \<Rightarrow> service container di_module list" where
  "service_modules e =
     [\<lparr>mod_name = ''infrastructure'', mod_order = 1, mod_Register = module_Register e (infrastructure_factories e)\<rparr>,
      \<lparr>mod_name = ''instance'', mod_order = 5, mod_Register = module_Register e instance_factories\<rparr>,
      \<lparr>mod_name = ''apikey'', mod_order = 31, mod_Register = module_Register e apikey_factories\<rparr>,
      \<lparr>mod_name = ''project-stat'', mod_order = 34, mod_Register = module_Register e project_stat_factories\<rparr>,
      \<lparr>mod_name = ''tenant'', mod_order = 39, mod_Register = module_Register e tenant_factories\<rparr>,
      \<lparr>mod_name = ''messaging'', mod_order = 40, mod_Register = module_Register e (messaging_factories e)\<rparr>,
      \<lparr>mod_name = ''queue'', mod_order = 41, mod_Register = module_Register e (queue_factories e)\<rparr>,
      \<lparr>mod_name = ''auth'', mod_order = 60, mod_Register = module_Register e auth_factories\<rparr>]"

definition app_instances :: "(string \<times> service) list" where
  "app_instances = List.map (\<lambda>t. (t, Service t []))
     [''logger.Service'', ''*config.Config'', ''*gorm.DB'', ''*redis.service'', ''redis.Service'', ''*nats.service'',
      ''nats.Service'', ''id.ULID'', ''*apikey.Parser'']"

section \<open>The steps of the start\<close>

datatype boot_error = BootText string | BootDI string di_error | BootWaiting

record app =
  app_config :: "config option"
  app_cleanup :: "string list"
  app_container :: "service container"
  app_handlers :: "service list"

type_synonym boot_step = "app \<Rightarrow> (boot_error + unit) \<times> app"

definition New_app :: app where
  "New_app = \<lparr>app_config = None, app_cleanup = [], app_container = New_container, app_handlers = []\<rparr>"

definition cleanup_Register :: "string \<Rightarrow> app \<Rightarrow> app" where
  "cleanup_Register h a = a\<lparr>app_cleanup := app_cleanup a @ [h]\<rparr>"

definition text_result :: "string \<Rightarrow> string + unit \<Rightarrow> boot_error + unit" where
  "text_result p r = (case r of Inl e \<Rightarrow> Inl (BootText (p @ e)) | Inr _ \<Rightarrow> Inr ())"

definition setupConfig :: "boot_env \<Rightarrow> boot_step" where
  "setupConfig e a =
     (case NewConfig (be_zone e) (be_config_text e) (be_name_text e) (be_raw e) of
        Inl err \<Rightarrow> (Inl (BootText (''failed to initialize config: '' @ err)), a)
      | Inr cfg \<Rightarrow> (Inr (), a\<lparr>app_config := Some cfg\<rparr>))"

definition setupLogger :: "boot_env \<Rightarrow> boot_step" where
  "setupLogger e a =
     (case be_Logger e of
        Inl err \<Rightarrow> (Inl (BootText (''failed to create logger: '' @ err)), a)
      | Inr _ \<Rightarrow> (Inr (), cleanup_Register ''logger'' a))"

definition setupTimezone :: "boot_env \<Rightarrow> boot_step" where
  "setupTimezone e a =
     (case app_config a of
        None \<Rightarrow> (Inr (), a)
      | Some cfg \<Rightarrow> (text_result ''timezone validation failed: '' (Validate_time_config (be_zone e) (cf_Time cfg)), a))"

definition setupID :: boot_step where
  "setupID a =
     (case app_config a of
        None \<Rightarrow> (Inr (), a)
      | Some cfg \<Rightarrow> (text_result ''failed to create id service: '' (Init_id (cf_ID cfg)), a))"

definition setupInstanceID :: "boot_env \<Rightarrow> boot_step" where
  "setupInstanceID e a = (if be_ULID e = [] then Inl (BootText ''failed to generate instance ID'') else Inr (), a)"

definition setupRedis :: "boot_env \<Rightarrow> boot_step" where
  "setupRedis e a =
     (case be_Ping e of
        Inl err \<Rightarrow> (Inl (BootText (''failed to ping redis: '' @ err)), a)
      | Inr _ \<Rightarrow> (Inr (), cleanup_Register ''redis'' a))"

text \<open>Waiting for another instance that migrates; the polls are what the select finds, tick by tick.\<close>

fun waitForMigrations :: "lock_poll list \<Rightarrow> boot_error + unit" where
  "waitForMigrations [] = Inl BootWaiting"
| "waitForMigrations (PollGone # ps) = Inr ()"
| "waitForMigrations (PollTimeout # ps) = Inl (BootText ''timeout waiting for migrations'')"
| "waitForMigrations (PollCancelled # ps) = Inl (BootText ''context canceled'')"
| "waitForMigrations (_ # ps) = waitForMigrations ps"

definition runMigrations :: "boot_env \<Rightarrow> boot_error + unit" where
  "runMigrations e =
     (case be_Lock e of
        Inl err \<Rightarrow> Inl (BootText (''failed to acquire migrate lock: '' @ err))
      | Inr locked \<Rightarrow>
          if \<not> locked then waitForMigrations (be_Polls e)
          else text_result ''failed to run migrations: '' (be_Migrate e))"

fun prefixed :: "string \<Rightarrow> boot_error \<Rightarrow> boot_error" where
  "prefixed p (BootText t) = BootText (p @ t)"
| "prefixed p (BootDI q d) = BootDI (p @ q) d"
| "prefixed p BootWaiting = BootWaiting"

definition setupDatabase :: "boot_env \<Rightarrow> boot_step" where
  "setupDatabase e a =
     (case be_Connect e of
        Inl err \<Rightarrow> (Inl (BootText (''failed to connect to database: '' @ err)), a)
      | Inr _ \<Rightarrow>
          let a = cleanup_Register ''database'' a
          in (case runMigrations e of
                Inl err \<Rightarrow> (Inl (prefixed ''failed to run migrations: '' err), a)
              | Inr _ \<Rightarrow> (Inr (), a)))"

definition setupNATS :: "boot_env \<Rightarrow> boot_step" where
  "setupNATS e a =
     (case be_NATS e of
        Inl err \<Rightarrow> (Inl (BootText (''failed to connect to nats: '' @ err)), a)
      | Inr _ \<Rightarrow> (Inr (), cleanup_Register ''nats'' a))"

definition setupContainer :: boot_step where
  "setupContainer a =
     (Inr (), cleanup_Register ''container''
        (a\<lparr>app_container := fold (\<lambda>(t, v). RegisterInstance t v) app_instances New_container\<rparr>))"

definition di_result :: "di_error + 'a \<Rightarrow> boot_error + unit" where
  "di_result r = (case r of Inl d \<Rightarrow> Inl (BootDI [] d) | Inr _ \<Rightarrow> Inr ())"

definition registerServiceModules :: "boot_env \<Rightarrow> boot_step" where
  "registerServiceModules e a =
     (case RegisterModules (service_modules e) (app_container a) of
        (r, c) \<Rightarrow> (di_result r, a\<lparr>app_container := c\<rparr>))"

fun get_each :: "(string \<Rightarrow> service container \<Rightarrow> (di_error + service) \<times> service container) \<Rightarrow> string list
    \<Rightarrow> service container \<Rightarrow> (di_error + unit) \<times> service container" where
  "get_each get [] c = (Inr (), c)"
| "get_each get (t # ts) c = (case get t c of (Inl err, c) \<Rightarrow> (Inl err, c) | (Inr _, c) \<Rightarrow> get_each get ts c)"

definition lifecycleTypes :: "string list" where
  "lifecycleTypes =
     [''*modules.EventBusLifecycle'', ''*modules.TelemetrySnapshotServiceLifecycle'', ''*modules.QueueRuntimeLifecycle'']"

definition initializeLifecycleServices :: "boot_env \<Rightarrow> boot_step" where
  "initializeLifecycleServices e a =
     (case app_get_typed e ''instance.Service'' (app_container a) of
        (Inl d, c) \<Rightarrow> (Inl (BootDI [] d), a\<lparr>app_container := c\<rparr>)
      | (Inr _, c) \<Rightarrow>
          (case get_each (app_get e) lifecycleTypes c of (r, c) \<Rightarrow> (di_result r, a\<lparr>app_container := c\<rparr>)))"

text \<open>The handlers and what each is given, in the order in which the services are asked for.\<close>

definition handler_types :: "string list" where
  "handler_types =
     [''authToken.Service'', ''publication.Service'', ''connection.Service'', ''client.Service'', ''subscription.Service'',
      ''*sessionService.Service'', ''logBroadcast.Service'', ''queueRouter.Service'', ''queue.Service'', ''job.Service'',
      ''worker.Service'', ''tenant.Service'', ''apikey.Service'', ''cleanup.Service'']"

definition HandlerContainer :: "service list" where
  "HandlerContainer =
     [Service ''AuthTokenHandler'' [''authToken.Service''],
      Service ''PublicationHandler'' [''publication.Service''],
      Service ''WebsocketHandler'' [''connection.Service'', ''client.Service'', ''subscription.Service'',
        ''*sessionService.Service'', ''publication.Service'', ''logBroadcast.Service''],
      Service ''QueueConfigHandler'' [''queue.Service''],
      Service ''QueueJobHandler'' [''queueRouter.Service'', ''job.Service'', ''queue.Service''],
      Service ''QueuePullHandler'' [''queueRouter.Service''],
      Service ''QueueWorkerHandler'' [''worker.Service''],
      Service ''ControlHandler'' [''tenant.Service'', ''apikey.Service'', ''queue.Service'', ''job.Service'',
        ''queueRouter.Service'', ''worker.Service'', ''cleanup.Service'']]"

definition setup_services :: "boot_env \<Rightarrow> string list \<Rightarrow> boot_step" where
  "setup_services e ts a =
     (case get_each (app_get_typed e) ts (app_container a) of (r, c) \<Rightarrow> (di_result r, a\<lparr>app_container := c\<rparr>))"

definition setupHandlers :: "boot_env \<Rightarrow> boot_step" where
  "setupHandlers e a =
     (case setup_services e handler_types a of
        (Inl err, a) \<Rightarrow> (Inl err, a)
      | (Inr _, a) \<Rightarrow> (Inr (), a\<lparr>app_handlers := HandlerContainer\<rparr>))"

definition setupHTTPServers :: "boot_env \<Rightarrow> boot_step" where
  "setupHTTPServers e = setup_services e [''authToken.Service'', ''authAPIKey.Service'', ''apikey.Service'']"

definition setupWebSocketServer :: "boot_env \<Rightarrow> boot_step" where
  "setupWebSocketServer e a =
     (case setup_services e [''connection.Service''] a of
        (Inl err, a) \<Rightarrow> (Inl err, a)
      | (Inr _, a) \<Rightarrow> (Inr (), cleanup_Register ''websocket'' a))"

text \<open>\<open>Start\<close> ends at the first step that fails.\<close>

fun run_setup :: "(string \<times> boot_step) list \<Rightarrow> boot_step" where
  "run_setup [] a = (Inr (), a)"
| "run_setup ((p, f) # fs) a =
     (case f a of (Inl err, a) \<Rightarrow> (Inl (prefixed p err), a) | (Inr _, a) \<Rightarrow> run_setup fs a)"

definition Start_app :: "boot_env \<Rightarrow> boot_step" where
  "Start_app e = run_setup
     [([], setupConfig e), ([], setupLogger e),
      (''failed to setup timezone: '', setupTimezone e), ([], setupID),
      (''failed to setup instance ID: '', setupInstanceID e),
      (''failed to setup redis: '', setupRedis e),
      (''failed to setup database: '', setupDatabase e),
      (''failed to setup nats: '', setupNATS e),
      (''failed to setup dependency container: '', setupContainer),
      (''failed to register service modules: '', registerServiceModules e),
      (''failed to initialize lifecycle services: '', initializeLifecycleServices e),
      ([], setupHandlers e), ([], setupHTTPServers e), ([], setupWebSocketServer e)]"

section \<open>Taking it down\<close>

text \<open>The handlers run in the reverse order of their registration, up to the first that fails.\<close>

fun cleanup_run :: "(string \<Rightarrow> bool) \<Rightarrow> string list \<Rightarrow> string list \<times> bool" where
  "cleanup_run ok [] = ([], True)"
| "cleanup_run ok (h # hs) = (if ok h then (case cleanup_run ok hs of (done_hs, r) \<Rightarrow> (h # done_hs, r)) else ([h], False))"

definition cleanup_ok :: "boot_env \<Rightarrow> app \<Rightarrow> string \<Rightarrow> bool" where
  "cleanup_ok e a h \<longleftrightarrow>
     (if h = ''container'' then Shutdown_container (lifecycles e) (app_container a) = None
      else if h \<in> {''logger'', ''websocket''} then True
      else be_Close e h = Inr ())"

text \<open>\<open>Shutdown\<close> answers no error whatever happened; the result is the handlers that ran.\<close>

definition Shutdown_app :: "boot_env \<Rightarrow> app \<Rightarrow> string list \<times> bool" where
  "Shutdown_app e a = (fst (cleanup_run (cleanup_ok e a) (rev (app_cleanup a))), True)"

end
