(* ===== verification/Inventory.thy ===== *)
theory Inventory
  imports Wiring
begin

text \<open>
  The services of the server by type and what each is made of: the list is checked against the factories of the
  modules once (lemma \<open>inventory_wired\<close>).
\<close>

section \<open>The factories of all modules\<close>

definition all_factories :: "boot_env \<Rightarrow> (string \<times> service factory) list" where
  "all_factories e = infrastructure_factories e @ instance_factories @ apikey_factories @ project_stat_factories
     @ tenant_factories @ messaging_factories e @ queue_factories e @ auth_factories"

lemmas factories_defs = all_factories_def infrastructure_factories_def instance_factories_def apikey_factories_def
  project_stat_factories_def tenant_factories_def messaging_factories_def queue_factories_def auth_factories_def

lemma all_types_distinct: "distinct (List.map fst (all_factories e))"
  by (simp add: factories_defs)

definition inventory :: "(string \<times> service) list" where
  "inventory =
     [(''authAPIKey.Service'', Service ''authAPIKey.Service'' [''logger.Service'', ''apikey.Service'',
        ''*apikey.Parser'']),
      (''authToken.Service'', Service ''authToken.Service'' [''*config.Config'', ''authToken.Repository'',
        ''apikey.Service'', ''*apikey.Parser'']),
      (''authToken.Repository'', Service ''authToken.Repository'' [''*gorm.DB'']),
      (''*queueScheduleApp.Service'', Service ''*queueScheduleApp.Service'' [''redis.Service'',
        ''queueRouter.Service'', ''*platform.Registry'', ''logger.Service'', ''id.ULID'']),
      (''runtime.Service'', Service ''runtime.Service'' [''queueRouter.Service'', ''job.Repository'',
        ''queue.Repository'', ''*webhook.Service'', ''*platform.Registry'', ''logger.Service'', ''id.ULID'']),
      (''*webhook.Service'', Service ''*webhook.Service'' []),
      (''*platform.Registry'', Service ''*platform.Registry'' [''cleanup.Service'', ''*queueMaintenanceApp.Service'',
        ''logger.Service'']),
      (''queueRouter.Service'', Service ''queueRouter.Service'' [''job.Repository'', ''queue.Repository'',
        ''nats.Service'', ''logger.Service'', ''queueBroker.Repository'', ''queueBackpressure.Gatekeeper'',
        ''queueTelemetry.Service'', ''msgTelemetry.Service'', ''logBroadcast.Service'', ''id.ULID'',
        ''queue.Service'', ''worker.Service'', ''*lifecycle.Guard'']),
      (''*queueMaintenanceApp.Service'', Service ''*queueMaintenanceApp.Service'' [''cleanup.Service'']),
      (''cleanup.Service'', Service ''cleanup.Service'' [''*config.Config'', ''job.Repository'', ''queue.Repository'',
        ''worker.Repository'', ''tenant.Repository'', ''nats.Service'', ''logger.Service'',
        ''queueBroker.Repository'', ''apikey.Service'']),
      (''worker.Service'', Service ''worker.Service'' [''worker.Repository'', ''job.Repository'', ''logger.Service'',
        ''logBroadcast.Service'', ''*lifecycle.Guard'']),
      (''job.Service'', Service ''job.Service'' [''job.Repository'', ''logger.Service'', ''logBroadcast.Service'',
        ''*lifecycle.Guard'']),
      (''*lifecycle.Guard'', Service ''*lifecycle.Guard'' [''tenant.Repository'', ''queue.Repository'']),
      (''logBroadcast.Service'', Service ''logBroadcast.Service'' [''logger.Service'', ''publication.Service'']),
      (''queue.Service'', Service ''queue.Service'' [''queue.Repository'', ''logger.Service'']),
      (''queueTelemetry.Service'', Service ''queueTelemetry.Service'' [''queueTelemetry.Repository'']),
      (''queueTelemetry.Repository'', Service ''queueTelemetry.Repository'' []),
      (''worker.Repository'', Service ''worker.Repository'' [''*gorm.DB'']),
      (''job.Repository'', Service ''job.Repository'' [''*gorm.DB'']),
      (''queue.Repository'', Service ''queue.Repository'' [''*gorm.DB'']),
      (''publication.Service'', Service ''publication.Service'' [''logger.Service'', ''client.Service'',
        ''msgRouter.Service'']),
      (''subscription.Service'', Service ''subscription.Service'' [''logger.Service'', ''id.ULID'',
        ''subscription.Repository'', ''channel.Service'', ''msgRouter.Service'', ''*sessionService.Service'',
        ''event.Service'']),
      (''msgRouter.Service'', Service ''msgRouter.Service'' [''logger.Service'', ''id.ULID'', ''broker.Service'',
        ''channel.Service'', ''subscription.Repository'', ''*sessionService.Service'', ''msgTelemetry.Service'',
        ''backpressure.Gatekeeper'']),
      (''backpressure.Gatekeeper'', Service ''backpressure.Gatekeeper'' [''logger.Service'',
        ''backpressure.LimitsProvider'']),
      (''backpressure.LimitsProvider'', Service ''backpressure.LimitsProvider'' [''logger.Service'',
        ''tenant.Service'']),
      (''delivery.Deliverer'', Service ''*sessionService.Service'' [''logger.Service'', ''id.ULID'',
        ''connection.Service'', ''msgTelemetry.Service'']),
      (''*sessionService.Service'', Service ''*sessionService.Service'' [''logger.Service'', ''id.ULID'',
        ''connection.Service'', ''msgTelemetry.Service'']),
      (''channel.Service'', Service ''channel.Service'' [''logger.Service'', ''id.ULID'', ''channel.Repository'',
        ''broker.Service'', ''event.Service'']),
      (''client.Service'', Service ''client.Service'' [''logger.Service'', ''id.ULID'', ''client.Repository'',
        ''connection.Service'']),
      (''client.Repository'', Service ''client.Repository'' [''logger.Service'']),
      (''connection.Service'', Service ''connection.Service'' [''logger.Service'', ''id.ULID'',
        ''connection.Repository'']),
      (''broker.Service'', Service ''broker.Service'' [''logger.Service'', ''id.ULID'', ''*gonats.Conn'']),
      (''*telemetrySnapshot.Service'', Service ''*telemetrySnapshot.Service'' [''logger.Service'', ''id.ULID'',
        ''subscription.Repository'', ''channel.Repository'', ''connection.Repository'',
        ''msgTelemetry.Repository'', ''*realtime.Service'']),
      (''connection.Repository'', Service ''connection.Repository'' [''logger.Service'']),
      (''channel.Repository'', Service ''channel.Repository'' [''logger.Service'']),
      (''subscription.Repository'', Service ''subscription.Repository'' [''logger.Service'', ''id.ULID'']),
      (''msgTelemetry.Service'', Service ''msgTelemetry.Service'' [''logger.Service'', ''id.ULID'',
        ''msgTelemetry.Repository'']),
      (''msgTelemetry.Repository'', Service ''msgTelemetry.Repository'' [''logger.Service'']),
      (''event.Service'', Service ''event.Service'' [''logger.Service'']),
      (''tenant.Service'', Service ''tenant.Service'' [''logger.Service'', ''tenant.Repository'']),
      (''tenant.Repository'', Service ''tenant.Repository'' [''*gorm.DB'']),
      (''realtime.Service'', Service ''*realtime.Service'' [''realtime.Repository'']),
      (''realtime.Repository'', Service ''realtime.Repository'' [''*goredis.Client'']),
      (''apikeyApp.ExtendedService'', Service ''apikey.Service'' [''logger.Service'', ''apikey.Repository'']),
      (''apikey.Service'', Service ''apikey.Service'' [''logger.Service'', ''apikey.Repository'']),
      (''apikey.Repository'', Service ''apikey.Repository'' [''*gorm.DB'']),
      (''instance.Repository'', Service ''instance.Repository'' [''*gorm.DB'']),
      (''*gonats.Conn'', Service ''*gonats.Conn'' [''nats.Service'']),
      (''*goredis.Client'', Service ''*goredis.Client'' [''redis.Service''])]"

text \<open>The definitions of the factories, for evaluating them.\<close>

lemmas new_defs =
  new_BrokerServiceLifecycle_def new_ChannelLifecycleManagerLifecycle_def new_EventBusLifecycle_def
  new_QueueRuntimeLifecycle_def new_TelemetrySnapshotServiceLifecycle_def new_apikeyApp_ExtendedService_def
  new_apikey_Repository_def new_apikey_Service_def new_authAPIKey_Service_def new_authToken_Repository_def
  new_authToken_Service_def new_backpressure_Gatekeeper_def new_backpressure_LimitsProvider_def
  new_broker_Service_def new_channel_Repository_def new_channel_Service_def new_cleanup_Service_def
  new_client_Repository_def new_client_Service_def new_connection_Repository_def new_connection_Service_def
  new_delivery_Deliverer_def new_event_Service_def new_gonats_Conn_def new_goredis_Client_def
  new_instance_Repository_def new_instance_Service_def new_job_Repository_def new_job_Service_def
  new_lifecycle_Guard_def new_lifecycle_Manager_def new_logBroadcast_Service_def new_messaging_ChannelConfig_def
  new_msgRouter_Service_def new_msgTelemetry_Repository_def new_msgTelemetry_Service_def new_platform_Registry_def
  new_publication_Service_def new_queueMaintenanceApp_Service_def new_queueRouter_Service_def
  new_queueScheduleApp_Service_def new_queueTelemetry_Repository_def new_queueTelemetry_Service_def
  new_queue_Repository_def new_queue_Service_def new_realtime_Repository_def new_realtime_Service_def
  new_runtime_Service_def new_sessionService_Service_def new_subscription_Repository_def
  new_subscription_Service_def new_telemetrySnapshot_Service_def new_tenant_Repository_def new_tenant_Service_def
  new_webhook_Service_def new_worker_Repository_def new_worker_Service_def

lemmas factory_defs = new_defs build_def made_def ask_def has_type_def typed_def implements_def with_broker_def

lemma fold_Register:
  "fold (\<lambda>(t, f). di_Register t f) fs c = c\<lparr>di_factories := di_factories c ++ map_of (rev fs)\<rparr>"
  by (induction fs arbitrary: c) (auto simp: di_Register_def map_add_def fun_eq_iff split: option.splits)

lemma app_get_known:
  assumes "di_services c t = Some v"
  shows "app_get e t c = (Inr v, c)"
proof -
  obtain n where n: "boot_fuel = Suc n" by (cases boot_fuel) (simp_all add: boot_fuel_def)
  show ?thesis unfolding app_get_def n using assms by simp
qed

text \<open>The container before the modules: the instances of the application.\<close>

definition first_container :: "service container" where
  "first_container = fold (\<lambda>(t, v). RegisterInstance t v) app_instances New_container"

lemma first_services: "di_services first_container = map_of app_instances"
  by (auto simp: first_container_def app_instances_def RegisterInstance_def New_container_def)

lemma first_rest:
  "di_factories first_container = Map.empty" "di_initializing first_container = {}" "di_lifecycle first_container = []"
  by (simp_all add: first_container_def app_instances_def RegisterInstance_def New_container_def)

lemma module_Register_exact:
  assumes "di_services c ''logger.Service'' = Some v"
  shows "module_Register e fs c = (Inr (), c\<lparr>di_factories := di_factories c ++ map_of (rev fs)\<rparr>)"
  using assms by (simp add: module_Register_def fold_Register app_get_known [of _ _ v])

text \<open>The container after the modules.\<close>

definition ready_container :: "boot_env \<Rightarrow> service container" where
  "ready_container e = first_container\<lparr>di_factories := map_of (rev (all_factories e))\<rparr>"

lemma modules_registered: "RegisterModules (service_modules e) first_container = (Inr (), ready_container e)"
proof -
  have "sorted (List.map mod_order (service_modules e))" by (simp add: service_modules_def)
  then have s: "sort_modules mod_order (service_modules e) = service_modules e"
    by (simp add: sort_modules_sort_key sort_key_id_if_sorted)
  have l: "di_services first_container ''logger.Service'' = Some (Service ''logger.Service'' [])"
    by (simp add: first_services app_instances_def)
  show ?thesis unfolding RegisterModules_def s
    by (simp add: service_modules_def module_Register_exact [of _ "Service ''logger.Service'' []"] l first_rest
        ready_container_def all_factories_def)
qed

lemma factories_map_of: "map_of (rev (all_factories e)) = map_of (all_factories e)"
proof
  fix t show "map_of (rev (all_factories e)) t = map_of (all_factories e) t"
  proof (cases "map_of (all_factories e) t")
    case None then show ?thesis by (metis map_of_eq_None_iff set_rev)
  next
    case (Some f)
    then have "(t, f) \<in> set (rev (all_factories e))" by (simp add: map_of_SomeD)
    moreover have "distinct (List.map fst (rev (all_factories e)))"
      using all_types_distinct [of e] by (simp add: rev_map [symmetric])
    ultimately show ?thesis using Some map_of_is_SomeI by metis
  qed
qed

section \<open>The services\<close>

text \<open>The clients are there and JetStream is available: no factory that the server asks for fails.\<close>

definition clients_ready :: "boot_env \<Rightarrow> bool" where
  "clients_ready e \<longleftrightarrow> be_RedisClient e \<and> be_NATSConn e \<and> be_JetStream e = Inr ()"

lemma cleanup_tasks_register: "fst (RegisterCleanupTasks cfg txt NewRegistry) = Inr ()"
  by (simp add: RegisterCleanupTasks_def cleanup_tasks_def Register_def NewRegistry_def
      TaskQueueWorkerCleanupMinutely_def TaskQueueJobCleanupDaily_def TaskQueueCascadeMinutely_def)

text \<open>A factory asks for its services one by one.\<close>

lemma yields_ask_all:
  "yields m (ask_all has_type ts k) v \<longleftrightarrow>
     (case those (List.map m ts) of None \<Rightarrow> False | Some vs \<Rightarrow> list_all2 has_type vs ts \<and> yields m (k vs) v)"
proof (induction ts arbitrary: k)
  case (Cons t ts)
  show ?case
    by (cases "m t"; cases "those (List.map m ts)") (auto simp: ask_def Cons.IH)
qed simp

lemma yields_build:
  "yields m (build name ts) v \<longleftrightarrow>
     (case those (List.map m ts) of None \<Rightarrow> False
      | Some vs \<Rightarrow> list_all2 has_type vs ts \<and> v = Service name (List.map sv_type vs))"
  by (auto simp: build_def yields_ask_all made_def split: option.splits)

lemma plain_service:
  "lc_Initialize (lifecycles e) v = None \<longleftrightarrow>
     sv_type v \<notin> {''*modules.InstanceServiceManager'', ''*modules.QueueRuntimeLifecycle'',
       ''*modules.ChannelLifecycleManagerLifecycle'', ''*modules.EventBusLifecycle'', ''*modules.BrokerServiceLifecycle'',
       ''*modules.TelemetrySnapshotServiceLifecycle''}"
  by (simp add: lifecycles_def)

text \<open>Looking up a list without repetitions.\<close>

lemma looked_up: "distinct (List.map fst xs) \<Longrightarrow> list_all (\<lambda>(k, x). map_of xs k = Some x) xs"
  by (auto simp: list_all_iff)

definition factory_of :: "boot_env \<Rightarrow> string \<Rightarrow> service factory option" where
  "factory_of e = map_of (all_factories e)"

lemma factory_list: "list_all (\<lambda>(t, f). factory_of e t = Some f) (all_factories e)"
  using looked_up [OF all_types_distinct] by (simp add: factory_of_def)

lemmas factory_at = factory_list [unfolded factories_defs append.simps list.pred_inject prod.case]

text \<open>The services by type: the instances and the inventory.\<close>

definition services_of :: "string \<Rightarrow> service option" where
  "services_of = map_of (inventory @ app_instances)"

lemma services_distinct: "distinct (List.map fst (inventory @ app_instances))"
  by (simp add: inventory_def app_instances_def)

lemma service_list: "list_all (\<lambda>(t, v). services_of t = Some v) (inventory @ app_instances)"
  using looked_up [OF services_distinct] by (simp add: services_of_def)

lemmas service_at = service_list [unfolded inventory_def app_instances_def append.simps list.pred_inject list.map prod.case]

lemma has_own_type: "has_type (Service t ps) t"
  by (simp add: has_type_def)

lemma has_other_type:
  "has_type (Service ''*sessionService.Service'' ps) ''delivery.Deliverer''"
  "has_type (Service ''*realtime.Service'' ps) ''realtime.Service''"
  "has_type (Service ''apikey.Service'' ps) ''apikeyApp.ExtendedService''"
  "has_type (Service ''*modules.InstanceServiceManager'' ps) ''instance.Service''"
  by (simp_all add: has_type_def implements_def)

text \<open>A service is made after those below it in the list.\<close>

fun number :: "nat \<Rightarrow> 'a list \<Rightarrow> ('a \<times> nat) list" where
  "number k [] = []"
| "number k (x # xs) = (x, k) # number (k + 1) xs"

lemma number_fst [simp]: "List.map fst (number k xs) = xs"
  by (induction k xs rule: number.induct) simp_all

lemma number_mem: "x \<in> set xs \<Longrightarrow> \<exists>i. (x, i) \<in> set (number k xs)"
  by (induction k xs rule: number.induct) auto

definition rank_of :: "string \<Rightarrow> nat" where
  "rank_of t = the (map_of (number 0 (List.map fst (rev (inventory @ app_instances)))) t)"

lemma rank_list: "list_all (\<lambda>(t, k). rank_of t = k) (number 0 (List.map fst (rev (inventory @ app_instances))))"
proof -
  have "distinct (List.map fst (rev (inventory @ app_instances)))"
    using services_distinct by (metis distinct_rev rev_map)
  then show ?thesis
    using looked_up [of "number 0 (List.map fst (rev (inventory @ app_instances)))"] by (auto simp: rank_of_def list_all_iff)
qed

lemmas services_eval = yields_build yields_ask_all plain_service new_defs ask_def made_def typed_def has_own_type has_other_type
  with_broker_def cleanup_tasks_register

lemmas rank_at = rank_list [unfolded inventory_def app_instances_def, simplified]

lemma inventory_wired:
  assumes "clients_ready e"
  shows "wired services_of (factory_of e) (lifecycles e) rank_of inventory"
  using assms unfolding wired_def inventory_def
  by (simp add: services_eval clients_ready_def factory_at service_at rank_at)

end
