(* ===== verification/WiringProps.thy ===== *)
theory WiringProps
  imports Inventory
begin

text \<open>
  What the start of the server gives: every service of the inventory, the life of those that are started, and
  the manager of the channels, which nothing can make.
\<close>

section \<open>Asking for the services of the inventory\<close>

abbreviation base_services :: "string \<Rightarrow> service option" where
  "base_services \<equiv> map_of app_instances"

definition well_wired :: "boot_env \<Rightarrow> string set \<Rightarrow> service container \<Rightarrow> bool" where
  "well_wired e T c \<longleftrightarrow> fits base_services (factory_of e) services_of T c \<and> di_initializing c = {}"

lemma services_split:
  assumes "services_of t = Some v"
  shows "base_services t = Some v \<or> base_services t = None \<and> (t, v) \<in> set inventory"
proof (cases "base_services t")
  case None
  then show ?thesis using assms by (auto simp: services_of_def map_add_def map_of_SomeD split: option.splits)
next
  case (Some u)
  have "fst ` set inventory \<inter> fst ` set app_instances = {}" using services_distinct by (auto simp: distinct_append)
  moreover have "t \<in> fst ` set app_instances" using Some by (metis domI dom_map_of_conv_image_fst)
  ultimately have "map_of inventory t = None" by (metis disjoint_iff map_of_eq_None_iff)
  then show ?thesis using Some assms by (simp add: services_of_def map_add_def)
qed

lemma rank_small: "services_of t = Some v \<Longrightarrow> rank_of t < 70"
proof -
  assume "services_of t = Some v"
  then have "(t, v) \<in> set (inventory @ app_instances)" unfolding services_of_def by (rule map_of_SomeD)
  then have "t \<in> set (List.map fst (rev (inventory @ app_instances)))" by force
  then obtain k where k: "(t, k) \<in> set (number 0 (List.map fst (rev (inventory @ app_instances))))" using number_mem by metis
  then have "rank_of t = k" using rank_list by (auto simp: list_all_iff)
  moreover have "list_all (\<lambda>(t, k). k < 70) (number 0 (List.map fst (rev (inventory @ app_instances))))"
    by (simp add: inventory_def app_instances_def)
  ultimately show ?thesis using k by (auto simp: list_all_iff)
qed

lemma inventory_get:
  assumes "clients_ready e" "fits base_services (factory_of e) services_of T c" "\<forall>u\<in>di_initializing c. services_of u = None \<or> rank_of t < rank_of u"
    and "services_of t = Some v" "70 \<le> n" "dom services_of \<subseteq> T"
  shows "\<exists>c'. Get_service n (lifecycles e) t c = Some (Inr v, c') \<and> fits base_services (factory_of e) services_of T c'
    \<and> di_initializing c' = di_initializing c \<and> di_lifecycle c' = di_lifecycle c"
proof -
  have "rank_of t < n" using rank_small [OF assms(4)] assms(5) by linarith
  then show ?thesis using wired_gets [OF inventory_wired [OF assms(1)] services_split assms(6) assms(4) _ assms(2,3)] by blast
qed

lemma app_get_inventory:
  assumes "clients_ready e" "well_wired e T c" "services_of t = Some v" "dom services_of \<subseteq> T"
  shows "\<exists>c'. app_get e t c = (Inr v, c') \<and> well_wired e T c' \<and> di_lifecycle c' = di_lifecycle c"
proof -
  obtain c' where "Get_service boot_fuel (lifecycles e) t c = Some (Inr v, c')" "well_wired e T c'" "di_lifecycle c' = di_lifecycle c"
    using inventory_get [OF assms(1) _ _ assms(3) _ assms(4), of c boot_fuel] assms(2) by (auto simp: well_wired_def boot_fuel_def)
  then show ?thesis by (simp add: app_get_def)
qed

lemma get_each_inventory:
  assumes "clients_ready e" "dom services_of \<subseteq> T"
  shows "well_wired e T c \<Longrightarrow> list_all (\<lambda>t. \<exists>v. services_of t = Some v \<and> has_type v t) ts \<Longrightarrow>
    \<exists>c'. get_each (app_get_typed e) ts c = (Inr (), c') \<and> well_wired e T c' \<and> di_lifecycle c' = di_lifecycle c"
proof (induction ts arbitrary: c)
  case (Cons t ts)
  obtain v where v: "services_of t = Some v" "has_type v t" using Cons.prems(2) by auto
  obtain c1 where c1: "app_get e t c = (Inr v, c1)" "well_wired e T c1" "di_lifecycle c1 = di_lifecycle c"
    using app_get_inventory [OF assms(1) Cons.prems(1) v(1) assms(2)] by blast
  have "app_get_typed e t c = (Inr v, c1)" using c1(1) v(2) by (simp add: app_get_typed_def typed_def)
  then show ?case using Cons.IH [OF c1(2)] Cons.prems(2) c1(3) by simp
qed simp

text \<open>Making a service that is started: it joins the services to be stopped.\<close>

lemma app_get_started:
  assumes e: "clients_ready e" "well_wired e T c" "t \<notin> T" "dom services_of \<subseteq> T"
    and f: "factory_of e t = Some f" "yields services_of f v"
    and ok: "lc_Initialize (lifecycles e) v = Some (Inr ())"
  shows "\<exists>c'. app_get e t c = (Inr v, c') \<and> well_wired e (insert t T) c' \<and> di_lifecycle c' = di_lifecycle c @ [v]"
proof -
  let ?fits = "fits base_services (factory_of e) services_of (insert t T)"
  obtain n where n: "boot_fuel = Suc n" "70 \<le> n" by (cases boot_fuel) (simp_all add: boot_fuel_def)
  have c: "?fits c" "di_initializing c = {}" "di_services c t = None" using e(2,3) by (auto simp: well_wired_def fits_def)
  have new: "services_of t = None" using e(3,4) by auto
  have dom: "dom services_of \<subseteq> insert t T" using e(4) by auto
  have m: "\<exists>c'. Get_service n (lifecycles e) u x = Some (Inr y, c') \<and> ?fits c'
      \<and> di_initializing c' = insert t {} \<and> di_lifecycle c' = di_lifecycle c"
    if "services_of u = Some y" "?fits x" "di_initializing x = insert t {}" "di_lifecycle x = di_lifecycle c" for u y x
  proof -
    have "\<forall>q\<in>di_initializing x. services_of q = None \<or> rank_of u < rank_of q" using that(3) new by simp
    then show ?thesis using inventory_get [OF e(1) that(2) _ that(1) n(2) dom] unfolding that(3,4) by blast
  qed
  have b: "base_services t = None" using new by (simp add: services_of_def map_add_None)
  have i: "services_of t \<in> {None, Some v}" "lc_Initialize (lifecycles e) v \<in> {None, Some (Inr ())}" using new ok by simp_all
  have fresh: "t \<notin> di_initializing c" using c(2) by simp
  obtain c' where c': "Get_service (Suc n) (lifecycles e) t c = Some (Inr v, c')" "?fits c'" "di_initializing c' = {}"
      "di_lifecycle c' = (if lc_Initialize (lifecycles e) v = None then di_lifecycle c else di_lifecycle c @ [v])"
    using get_made [OF f c(1,3) fresh m c(2) refl i(1) b insertI1 i(2)] by blast
  have "app_get e t c = (Inr v, c')" unfolding app_get_def n(1) c'(1) by simp
  then show ?thesis using c'(2-4) ok by (simp add: well_wired_def)
qed

text \<open>The services that are started when they are made; the last is one the start does not ask for.\<close>

definition started_services :: "(string \<times> service) list" where
  "started_services =
     [(''instance.Service'', Service ''*modules.InstanceServiceManager''
         [''*config.Config'', ''logger.Service'', ''id.ULID'', ''instance.Repository'', ''*realtime.Service'']),
      (''*modules.EventBusLifecycle'', Service ''*modules.EventBusLifecycle'' [''logger.Service'', ''event.Service'']),
      (''*modules.TelemetrySnapshotServiceLifecycle'', Service ''*modules.TelemetrySnapshotServiceLifecycle''
         [''logger.Service'', ''*telemetrySnapshot.Service'']),
      (''*modules.QueueRuntimeLifecycle'', Service ''*modules.QueueRuntimeLifecycle''
         [''runtime.Service'', ''*queueScheduleApp.Service'', ''logger.Service'']),
      (''*modules.BrokerServiceLifecycle'', Service ''*modules.BrokerServiceLifecycle'' [''logger.Service'', ''broker.Service''])]"

definition starts_ok :: "boot_env \<Rightarrow> bool" where
  "starts_ok e \<longleftrightarrow> be_RegisterInstance e = Inr () \<and> be_StartSchedule e = Inr () \<and> be_StartRuntime e = Inr ()"

lemma started_new: "list_all (\<lambda>(t, v). t \<notin> set (List.map fst (inventory @ app_instances))) started_services"
  by (simp add: started_services_def inventory_def app_instances_def)

lemma started_factory:
  "list_all (\<lambda>(t, v). case factory_of e t of None \<Rightarrow> False | Some f \<Rightarrow> yields services_of f v) started_services"
  by (simp add: started_services_def services_eval factory_at service_at)

lemma started_start:
  assumes "starts_ok e"
  shows "list_all (\<lambda>(t, v). lc_Initialize (lifecycles e) v = Some (Inr ()) \<and> has_type v t) started_services"
  using assms by (simp add: started_services_def lifecycles_def starts_ok_def Initialize_InstanceServiceManager_def
      Initialize_QueueRuntimeLifecycle_def has_own_type has_other_type)

lemma started_get:
  assumes e: "clients_ready e" "starts_ok e" "well_wired e T c" "t \<notin> T" "dom services_of \<subseteq> T"
    and t: "(t, v) \<in> set started_services"
  shows "\<exists>c'. app_get e t c = (Inr v, c') \<and> well_wired e (insert t T) c' \<and> di_lifecycle c' = di_lifecycle c @ [v]"
    "has_type v t"
proof -
  obtain f where "factory_of e t = Some f" "yields services_of f v"
    using started_factory [of e] t by (auto simp: list_all_iff split: option.splits)
  moreover have "lc_Initialize (lifecycles e) v = Some (Inr ())" "has_type v t"
    using started_start [OF e(2)] t by (auto simp: list_all_iff)
  ultimately show "\<exists>c'. app_get e t c = (Inr v, c') \<and> well_wired e (insert t T) c' \<and> di_lifecycle c' = di_lifecycle c @ [v]"
      "has_type v t"
    using app_get_started [OF e(1,3,4,5)] by blast+
qed

lemma started_not_services: "(t, v) \<in> set started_services \<Longrightarrow> services_of t = None"
  using started_new unfolding services_of_def map_of_eq_None_iff by (auto simp: list_all_iff)

section \<open>The start\<close>

lemma ready_wired: "well_wired e (dom services_of) (ready_container e)" "di_lifecycle (ready_container e) = []"
proof -
  have "services_of t = Some v" if "base_services t = Some v" for t v
    using service_list map_of_SomeD [OF that] by (auto simp: list_all_iff)
  then have "base_services \<subseteq>\<^sub>m services_of" by (fastforce simp: map_le_def)
  then have "dom base_services \<subseteq> dom services_of" "agrees services_of base_services"
    by (auto simp: agrees_def map_le_def dom_def)
  then show "well_wired e (dom services_of) (ready_container e)"
    by (simp add: well_wired_def fits_def ready_container_def first_services first_rest factories_map_of factory_of_def)
  show "di_lifecycle (ready_container e) = []" by (simp add: ready_container_def first_rest)
qed

lemma handlers_known:
  "list_all (\<lambda>t. \<exists>v. services_of t = Some v \<and> has_type v t) handler_types"
  "list_all (\<lambda>t. \<exists>v. services_of t = Some v \<and> has_type v t) [''authToken.Service'', ''authAPIKey.Service'', ''apikey.Service'']"
  "list_all (\<lambda>t. \<exists>v. services_of t = Some v \<and> has_type v t) [''connection.Service'']"
  by (simp_all add: handler_types_def service_at has_own_type)

text \<open>The types of the services that the start starts, in order.\<close>

definition started_types :: "string list" where
  "started_types = [''*modules.InstanceServiceManager'', ''*modules.EventBusLifecycle'',
     ''*modules.TelemetrySnapshotServiceLifecycle'', ''*modules.QueueRuntimeLifecycle'']"

lemma initialize_exact:
  assumes e: "clients_ready e" "starts_ok e" and a: "app_container a = ready_container e"
  shows "\<exists>c T. initializeLifecycleServices e a = (Inr (), a\<lparr>app_container := c\<rparr>) \<and> well_wired e T c \<and> dom services_of \<subseteq> T
    \<and> List.map sv_type (di_lifecycle c) = started_types"
proof -
  let ?D = "dom services_of"
  obtain v1 v2 v3 v4 where v: "(''instance.Service'', v1) \<in> set started_services"
      "(''*modules.EventBusLifecycle'', v2) \<in> set started_services"
      "(''*modules.TelemetrySnapshotServiceLifecycle'', v3) \<in> set started_services"
      "(''*modules.QueueRuntimeLifecycle'', v4) \<in> set started_services"
      and types: "List.map sv_type [v1, v2, v3, v4] = started_types"
    by (simp add: started_services_def started_types_def)
  have new: "''instance.Service'' \<notin> ?D" "''*modules.EventBusLifecycle'' \<notin> ?D"
      "''*modules.TelemetrySnapshotServiceLifecycle'' \<notin> ?D" "''*modules.QueueRuntimeLifecycle'' \<notin> ?D"
    using v [THEN started_not_services] by auto
  obtain c1 where c1: "app_get e ''instance.Service'' (ready_container e) = (Inr v1, c1)"
      "well_wired e (insert ''instance.Service'' ?D) c1" "di_lifecycle c1 = [v1]"
    using started_get(1) [OF e ready_wired(1) new(1) subset_refl v(1)] ready_wired(2) by auto
  have typed1: "has_type v1 ''instance.Service''" using started_get(2) [OF e ready_wired(1) new(1) subset_refl v(1)] .
  obtain c2 where c2: "app_get e ''*modules.EventBusLifecycle'' c1 = (Inr v2, c2)"
      "well_wired e (insert ''*modules.EventBusLifecycle'' (insert ''instance.Service'' ?D)) c2" "di_lifecycle c2 = [v1, v2]"
    using started_get(1) [OF e c1(2) _ _ v(2)] new(2) c1(3) by auto
  obtain c3 where c3: "app_get e ''*modules.TelemetrySnapshotServiceLifecycle'' c2 = (Inr v3, c3)"
      "well_wired e (insert ''*modules.TelemetrySnapshotServiceLifecycle'' (insert ''*modules.EventBusLifecycle''
        (insert ''instance.Service'' ?D))) c3" "di_lifecycle c3 = [v1, v2, v3]"
    using started_get(1) [OF e c2(2) _ _ v(3)] new(3) c2(3) by auto
  obtain c4 T where c4: "app_get e ''*modules.QueueRuntimeLifecycle'' c3 = (Inr v4, c4)"
      "well_wired e T c4" "?D \<subseteq> T" "di_lifecycle c4 = [v1, v2, v3, v4]"
    using started_get(1) [OF e c3(2) _ _ v(4)] new(4) c3(3) by auto
  have "initializeLifecycleServices e a = (Inr (), a\<lparr>app_container := c4\<rparr>)"
    by (simp add: initializeLifecycleServices_def app_get_typed_def typed_def a c1(1) typed1 lifecycleTypes_def c2(1) c3(1) c4(1)
        di_result_def)
  then show ?thesis using c4(2-4) types by (intro exI [of _ c4] exI [of _ T]) simp
qed

lemma setup_services_exact:
  assumes "clients_ready e" "well_wired e T (app_container a)" "dom services_of \<subseteq> T"
    and "list_all (\<lambda>t. \<exists>v. services_of t = Some v \<and> has_type v t) ts"
  shows "\<exists>c. setup_services e ts a = (Inr (), a\<lparr>app_container := c\<rparr>) \<and> well_wired e T c
    \<and> di_lifecycle c = di_lifecycle (app_container a)"
  using get_each_inventory [OF assms(1,3,2,4)] by (auto simp: setup_services_def di_result_def)

text \<open>Everything outside answers.\<close>

definition outside_works :: "boot_env \<Rightarrow> bool" where
  "outside_works e \<longleftrightarrow> be_Logger e = Inr () \<and> be_ULID e \<noteq> [] \<and> be_Ping e = Inr () \<and> be_Connect e = Inr ()
     \<and> runMigrations e = Inr () \<and> be_NATS e = Inr () \<and> clients_ready e \<and> starts_ok e"

text \<open>The application after the steps before the modules.\<close>

definition connected_app :: "config \<Rightarrow> app" where
  "connected_app cfg = \<lparr>app_config = Some cfg, app_cleanup = [''logger'', ''redis'', ''database'', ''nats'', ''container''],
     app_container = first_container, app_handlers = []\<rparr>"

lemma start_from_connected:
  assumes cfg: "NewConfig (be_zone e) (be_config_text e) (be_name_text e) (be_raw e) = Inr cfg" and e: "outside_works e"
  shows "Start_app e New_app = run_setup
     [(''failed to register service modules: '', registerServiceModules e),
      (''failed to initialize lifecycle services: '', initializeLifecycleServices e),
      ([], setupHandlers e), ([], setupHTTPServers e), ([], setupWebSocketServer e)] (connected_app cfg)"
  using e NewConfig_parts(10,11) [OF cfg]
  by (simp add: Start_app_def outside_works_def setupConfig_def cfg setupLogger_def setupTimezone_def text_result_def setupID_def
      Init_id_def setupInstanceID_def setupRedis_def setupDatabase_def setupNATS_def setupContainer_def cleanup_Register_def
      New_app_def connected_app_def first_container_def Let_def)


section \<open>The manager of the channels\<close>

lemma can_return_ask: "can_return P (ask is_a t k) v \<longleftrightarrow> (\<exists>u. P t u \<and> is_a u t \<and> can_return P (k u) v)"
  by (auto simp: ask_def)

lemma can_return_ask_all:
  "can_return P (ask_all is_a ts k) v \<longleftrightarrow> (\<exists>vs. list_all2 (\<lambda>t u. P t u \<and> is_a u t) ts vs \<and> can_return P (k vs) v)"
proof (induction ts arbitrary: k)
  case (Cons t ts)
  show ?case by (auto simp: can_return_ask Cons.IH list_all2_Cons1)
qed simp

lemma can_return_build:
  "can_return P (build name ts) v \<Longrightarrow> sv_type v = name \<and> list_all (\<lambda>t. \<exists>u. P t u \<and> has_type u t) ts"
  by (auto simp: build_def can_return_ask_all made_def list_all_iff in_set_conv_nth list_all2_conv_all_nth) metis

text \<open>No manager of channels, no service to start one, and no configuration of channels by value.\<close>

definition manager_free :: "string \<Rightarrow> service \<Rightarrow> bool" where
  "manager_free t v \<longleftrightarrow> t \<noteq> ''lifecycle.Manager'' \<and> t \<noteq> ''*lifecycle.Manager'' \<and> t \<noteq> ''*modules.ChannelLifecycleManagerLifecycle''
     \<and> (t = ''messaging.ChannelConfig'' \<longrightarrow> sv_type v = ''*messaging.ChannelConfig'')
     \<and> sv_type v \<noteq> ''*modules.ChannelLifecycleManagerLifecycle''"

lemma no_config_by_value: "sv_type u = ''*messaging.ChannelConfig'' \<Longrightarrow> \<not> has_type u ''messaging.ChannelConfig''"
  by (simp add: has_type_def implements_def)

lemma can_return_with_broker:
  "can_return P (with_broker e k) v \<longleftrightarrow>
     be_JetStream e = Inr () \<and> can_return P (k (Service ''queueBroker.Repository'' [''nats.Service'', ''logger.Service''])) v"
  by (cases "be_JetStream e") (simp_all add: with_broker_def)

lemma special_free:
  "can_return manager_free (new_goredis_Client e) v \<Longrightarrow> manager_free ''*goredis.Client'' v"
  "can_return manager_free (new_gonats_Conn e) v \<Longrightarrow> manager_free ''*gonats.Conn'' v"
  "can_return manager_free new_instance_Service v \<Longrightarrow> manager_free ''instance.Service'' v"
  "can_return manager_free (new_apikeyApp_ExtendedService) v \<Longrightarrow> manager_free ''apikeyApp.ExtendedService'' v"
  "can_return manager_free (new_messaging_ChannelConfig e) v \<Longrightarrow> manager_free ''messaging.ChannelConfig'' v"
  "can_return manager_free (new_delivery_Deliverer) v \<Longrightarrow> manager_free ''delivery.Deliverer'' v"
  "can_return manager_free (new_lifecycle_Manager) v \<Longrightarrow> manager_free ''lifecycle.Manager'' v"
  "can_return manager_free (new_ChannelLifecycleManagerLifecycle) v \<Longrightarrow> manager_free ''*modules.ChannelLifecycleManagerLifecycle'' v"
  "can_return manager_free (new_cleanup_Service e) v \<Longrightarrow> manager_free ''cleanup.Service'' v"
  "can_return manager_free (new_queueRouter_Service e) v \<Longrightarrow> manager_free ''queueRouter.Service'' v"
  "can_return manager_free (new_platform_Registry e) v \<Longrightarrow> manager_free ''*platform.Registry'' v"
  "can_return manager_free (new_authToken_Service) v \<Longrightarrow> manager_free ''authToken.Service'' v"
  by (auto simp: new_goredis_Client_def new_gonats_Conn_def new_instance_Service_def new_apikeyApp_ExtendedService_def
      new_messaging_ChannelConfig_def new_delivery_Deliverer_def new_cleanup_Service_def new_queueRouter_Service_def
      new_platform_Registry_def new_authToken_Service_def new_lifecycle_Manager_def new_ChannelLifecycleManagerLifecycle_def
      can_return_ask can_return_ask_all made_def typed_def can_return_with_broker cleanup_tasks_register manager_free_def no_config_by_value
      dest!: can_return_build split: sum.splits if_splits)

lemma build_free:
  assumes "name \<noteq> ''*modules.ChannelLifecycleManagerLifecycle''"
    and "t \<notin> {''lifecycle.Manager'', ''*lifecycle.Manager'', ''*modules.ChannelLifecycleManagerLifecycle'', ''messaging.ChannelConfig''}"
  shows "can_return manager_free (build name ts) v \<Longrightarrow> manager_free t v"
  using assms by (auto simp: manager_free_def dest!: can_return_build)

lemmas plain_defs =
  new_instance_Repository_def new_apikey_Repository_def new_apikey_Service_def new_realtime_Repository_def
  new_realtime_Service_def new_tenant_Repository_def new_tenant_Service_def new_event_Service_def
  new_EventBusLifecycle_def new_msgTelemetry_Repository_def new_msgTelemetry_Service_def
  new_telemetrySnapshot_Service_def new_TelemetrySnapshotServiceLifecycle_def new_broker_Service_def
  new_BrokerServiceLifecycle_def new_connection_Repository_def new_connection_Service_def
  new_client_Repository_def new_client_Service_def new_channel_Repository_def new_channel_Service_def
  new_subscription_Repository_def new_sessionService_Service_def new_backpressure_LimitsProvider_def
  new_backpressure_Gatekeeper_def new_msgRouter_Service_def new_subscription_Service_def
  new_publication_Service_def new_queue_Repository_def new_job_Repository_def new_worker_Repository_def
  new_queueTelemetry_Repository_def new_queueTelemetry_Service_def new_queue_Service_def
  new_logBroadcast_Service_def new_job_Service_def new_worker_Service_def new_lifecycle_Guard_def
  new_queueMaintenanceApp_Service_def new_webhook_Service_def new_runtime_Service_def
  new_queueScheduleApp_Service_def new_QueueRuntimeLifecycle_def new_authToken_Repository_def
  new_authAPIKey_Service_def

lemma factories_manager_free:
  "list_all (\<lambda>(t, f). \<forall>v. can_return manager_free f v \<longrightarrow> manager_free t v) (all_factories e)"
  unfolding factories_defs append.simps list.pred_inject prod.case plain_defs
  apply (intro conjI TrueI allI impI)
  apply ((erule special_free | (erule build_free [rotated 2], (simp; fail), (simp; fail)))+)
  apply simp
  done

text \<open>The containers that the modules and any sequence of requests lead to.\<close>

inductive di_reach :: "boot_env \<Rightarrow> service container \<Rightarrow> bool" where
  registered: "RegisterModules (service_modules e) first_container = (r, c) \<Longrightarrow> di_reach e c"
| asked: "di_reach e c \<Longrightarrow> app_get e t c = (r, c') \<Longrightarrow> di_reach e c'"

lemma get_free:
  assumes "Get_service n (lifecycles e) t c = Some (r, c')" "all_services manager_free c" "di_factories c = factory_of e"
  shows "all_services manager_free c' \<and> di_factories c' = factory_of e \<and> (\<forall>v. r = Inr v \<longrightarrow> manager_free t v)"
proof -
  have F: "manager_free t v" if "factory_of e t = Some f" "can_return manager_free f v" for t f v
    using factories_manager_free [of e] map_of_SomeD [OF that(1) [unfolded factory_of_def]] that(2) by (auto simp: list_all_iff)
  show ?thesis by (rule get_all_services [where F = "factory_of e" and P = manager_free, OF _ assms(1,3,2)]) (rule F)
qed

lemma app_get_free:
  assumes "app_get e t c = (r, c')" "all_services manager_free c" "di_factories c = factory_of e"
  shows "all_services manager_free c' \<and> di_factories c' = factory_of e \<and> (\<forall>v. r = Inr v \<longrightarrow> manager_free t v)"
proof (cases "Get_service boot_fuel (lifecycles e) t c")
  case None then show ?thesis using assms by (auto simp: app_get_def)
next
  case (Some rc)
  then show ?thesis using get_free [OF _ assms(2,3)] assms(1) by (auto simp: app_get_def)
qed

lemma di_reach_free: "di_reach e c \<Longrightarrow> all_services manager_free c \<and> di_factories c = factory_of e"
proof (induction rule: di_reach.induct)
  case (registered e r c)
  have "c = ready_container e" using registered modules_registered [of e] by simp
  moreover have "manager_free t v" if "base_services t = Some v" for t v
    using map_of_SomeD [OF that] by (auto simp: manager_free_def app_instances_def)
  ultimately show ?case
    by (simp add: all_services_def ready_container_def first_services first_rest factories_map_of factory_of_def)
next
  case (asked e c t r c')
  then show ?case using app_get_free by blast
qed

lemma boot_get_done:
  assumes "di_reach e c"
  shows "\<exists>r c'. Get_service boot_fuel (lifecycles e) t c = Some (r, c')"
proof -
  have "card (dom (factory_of e)) \<le> length (all_factories e)"
    unfolding factory_of_def dom_map_of_conv_image_fst by (metis card_image_le card_length finite_set image_set length_map order_trans)
  moreover have "length (all_factories e) < boot_fuel" by (simp add: factories_defs boot_fuel_def)
  moreover have "card (dom (factory_of e) - di_initializing c) \<le> card (dom (factory_of e))"
    by (rule card_mono) (auto simp: factory_of_def finite_dom_map_of)
  ultimately have "card (dom (factory_of e) - di_initializing c) < boot_fuel" by linarith
  then show ?thesis
    using get_returns [of "factory_of e" c boot_fuel "lifecycles e" t] di_reach_free [OF assms] by (auto simp: factory_of_def finite_dom_map_of)
qed

text \<open>C39. Nothing the server does brings the manager of the channels to life, whatever answers it gets from outside and
  whatever is asked of the container: the manager is registered under its struct type and asked for under the type of
  its pointer, and its configuration is registered as a struct and made as a pointer.  So no request for the manager
  or for the service that would start it succeeds, and none of the services started is that service.\<close>

theorem channel_manager_never_started:
  assumes "di_reach e c"
  shows "(\<exists>d. fst (app_get e ''*modules.ChannelLifecycleManagerLifecycle'' c) = Inl d)
    \<and> (\<exists>d. fst (app_get e ''lifecycle.Manager'' c) = Inl d)
    \<and> (\<exists>d. fst (app_get e ''*lifecycle.Manager'' c) = Inl d)
    \<and> ''*modules.ChannelLifecycleManagerLifecycle'' \<notin> set (List.map sv_type (di_lifecycle c))"
proof -
  have c: "all_services manager_free c" "di_factories c = factory_of e" using di_reach_free [OF assms] by auto
  have never: "\<exists>d. fst (app_get e t c) = Inl d" if "\<not> (\<exists>v. manager_free t v)" for t
  proof (cases "fst (app_get e t c)")
    case (Inr v)
    then have "manager_free t v" using app_get_free [OF surjective_pairing c] by simp
    then show ?thesis using that by blast
  qed simp
  have "sv_type v \<noteq> ''*modules.ChannelLifecycleManagerLifecycle''" if "v \<in> set (di_lifecycle c)" for v
    using c(1) that by (auto simp: all_services_def manager_free_def)
  then have "''*modules.ChannelLifecycleManagerLifecycle'' \<notin> set (List.map sv_type (di_lifecycle c))" by force
  moreover have "\<not> (\<exists>v. manager_free ''*modules.ChannelLifecycleManagerLifecycle'' v)"
      "\<not> (\<exists>v. manager_free ''lifecycle.Manager'' v)" "\<not> (\<exists>v. manager_free ''*lifecycle.Manager'' v)"
    by (simp_all add: manager_free_def)
  ultimately show ?thesis using never by simp
qed

text \<open>A service that fails to stop ends the shutdown: the connections to NATS, the database and Redis stay open.\<close>

lemma container_error_leaves_open:
  assumes "app_cleanup a = [''logger'', ''redis'', ''database'', ''nats'', ''container'', ''websocket'']"
    and "Shutdown_container (lifecycles e) (app_container a) = Some d"
  shows "Shutdown_app e a = ([''websocket'', ''container''], True)"
  using assms by (simp add: Shutdown_app_def cleanup_ok_def)

text \<open>A configuration and an environment in which everything answers.\<close>

definition sample_raw :: raw_config where
  "sample_raw = \<lparr>rw_App = Inr \<lparr>ap_Env = ''testing'', ap_Debug = False, ap_ControlAPIToken = []\<rparr>,
     rw_Token = Inr \<lparr>tc_Duration = 3600000000000, tc_MaxDuration = 86400000000000, tc_Method = ''HS256''\<rparr>,
     rw_Logger = Inr \<lparr>lg_Level = ''info'', lg_Dir = ''logs'', lg_JSON = False, lg_MaxSize = 100, lg_MaxBackups = 3, lg_MaxAge = 28, lg_Compress = True\<rparr>,
     rw_Database = Inr \<lparr>dc_Driver = ''postgres'', dc_Host = ''db'', dc_Port = ''5432'', dc_Name = ''qpub'', dc_User = ''q'',
       dc_Password = ''p'', dc_SSLMode = ''disable'', dc_SSLRootCert = [], dc_SSLCert = [],
       dc_SSLKey = [], dc_Timezone = ''UTC'', dc_Timeout = 30, dc_SearchPath = [], dc_Retries = 3\<rparr>,
     rw_Redis = Inr \<lparr>rc_Host = ''r'', rc_Port = ''6379'', rc_DB = 0, rc_Password = [], rc_Timeout = 5, rc_MinIdle = 1, rc_MaxIdle = 2, rc_MaxActive = 9,
       rc_IdleTimeout = 7\<rparr>,
     rw_NATS = Inr \<lparr>nc_URL = ''n'', nc_Username = [], nc_Password = [], nc_MaxAttempts = 10, nc_Wait = 2, nc_Buffer = 5, nc_Connect = 5,
       nc_Ping = 9, nc_TLSEnable = False, nc_TLSCert = [], nc_TLSKey = [], nc_TLSCA = []\<rparr>,
     rw_Queue = Inr \<lparr>qc_Driver = ''jetstream'', qc_Concurrency = 4, qc_PollInterval = 5, qc_VisibilityTimeout = 30, qc_MaxAttempts = 3,
       qc_Retention = 7, qc_Cleanup = \<lparr>cfg_BatchSize = 0, cfg_JobSuccessRetention = 1, cfg_JobFailureRetention = 1, cfg_WorkerStaleDelete = 1\<rparr>,
       qc_WorkerStaleDisplay = 2\<rparr>,
     rw_Cluster = Inr (''core-dev-us-east-1a'', ''core-d-us1a-api-01''),
     rw_Instance = Inr \<lparr>ic_Interval = 10, ic_InactivityTimeout = 30\<rparr>,
     rw_Server = Inr \<lparr>sv_ControlPort = ''1'', sv_RestPort = ''2'', sv_WebSocketPort = ''3''\<rparr>,
     rw_CORS = Inr \<lparr>cc_Control = ''*'', cc_Rest = ''*'', cc_WebSocket = ''*''\<rparr>,
     rw_Time = Inr \<lparr>tm_Timezone = ''UTC'', tm_ValidateTimezone = True\<rparr>,
     rw_ID = Inr \<lparr>id_HashSalt = ''s'', id_HashLength = 12, id_ULIDLength = 22\<rparr>\<rparr>"

definition sample_boot :: boot_env where
  "sample_boot = \<lparr>be_zone = (\<lambda>z. if z = ''UTC'' then None else Some []), be_config_text = (\<lambda>_. []), be_name_text = (\<lambda>_. []), be_raw = sample_raw,
     be_Logger = Inr (), be_ULID = ''i'', be_Ping = Inr (), be_Connect = Inr (), be_Lock = Inr False, be_Migrate = Inr (),
     be_Polls = [PollHeld, PollError, PollGone], be_NATS = Inr (), be_RedisClient = True, be_NATSConn = True, be_JetStream = Inr (),
     be_ParseChannel = Inr (), be_Cleanup = \<lparr>cfg_BatchSize = 0, cfg_JobSuccessRetention = 1, cfg_JobFailureRetention = 1,
       cfg_WorkerStaleDelete = 1\<rparr>, be_text = (\<lambda>_. []), be_RegisterInstance = Inr (), be_StartManager = Inr (),
     be_StartSchedule = Inr (), be_StartRuntime = Inr (), be_Deregister = Inr (), be_CloseBus = Inr (), be_StopManager = Inr (),
     be_ShutdownBroker = Inr (), be_StopSchedule = Inr (), be_Close = (\<lambda>_. Inr ())\<rparr>"

lemma sample_config: "isl (NewConfig (be_zone sample_boot) (be_config_text sample_boot) (be_name_text sample_boot) (be_raw sample_boot)) = False"
  by code_simp

lemma sample_works: "outside_works sample_boot"
  by (simp add: outside_works_def sample_boot_def runMigrations_def clients_ready_def starts_ok_def)


theorem channel_manager_never_started_witness:
  "\<exists>d. fst (app_get sample_boot ''*modules.ChannelLifecycleManagerLifecycle'' (ready_container sample_boot)) = Inl d"
  using channel_manager_never_started [OF di_reach.registered [OF modules_registered]] by blast

end
