(* ===== verification/Database.thy ===== *)
theory Database
  imports Configs JobModel "HOL-Library.Sublist"
begin

text \<open>
  What of \<open>internal/infrastructure/database\<close> is the program's own: the choice of the driver, the texts it connects
  with, the retries of CockroachDB transactions and the migration that dates finished
  jobs.  The driver libraries and the database are outside: a transaction is a function of the state \<open>'w\<close>.
\<close>

section \<open>Connection texts\<close>

datatype db_driver = Postgres | Cockroach

definition New_database :: "database_config \<Rightarrow> string + db_driver" where
  "New_database c =
     (if dc_Driver c = ''postgres'' then Inr Postgres
      else if dc_Driver c = ''cockroach'' then Inr Cockroach
      else Inl (''unsupported database driver: '' @ dc_Driver c))"

definition option_text :: "string \<Rightarrow> string \<Rightarrow> string" where
  "option_text name v = (if v = [] then [] else name @ v)"

definition postgres_dsn :: "database_config \<Rightarrow> string" where
  "postgres_dsn c =
     ''host='' @ dc_Host c @ '' user='' @ dc_User c @ '' password='' @ dc_Password c @ '' dbname='' @ dc_Name c
     @ '' port='' @ dc_Port c @ '' sslmode='' @ dc_SSLMode c @ '' TimeZone='' @ dc_Timezone c
     @ (if dc_SSLMode c = ''disable'' then []
        else option_text '' sslrootcert='' (dc_SSLRootCert c) @ option_text '' sslcert='' (dc_SSLCert c)
          @ option_text '' sslkey='' (dc_SSLKey c))
     @ option_text '' search_path='' (dc_SearchPath c)"

definition cockroach_dsn :: "database_config \<Rightarrow> string" where
  "cockroach_dsn c =
     ''postgresql://'' @ dc_User c @ (if dc_Password c = [] then [] else '':'' @ dc_Password c) @ ''@'' @ dc_Host c @ '':''
     @ dc_Port c @ ''/'' @ dc_Name c @ ''?sslmode='' @ dc_SSLMode c @ ''&timezone='' @ dc_Timezone c
     @ (if dc_SSLMode c = ''disable'' then []
        else option_text ''&sslrootcert='' (dc_SSLRootCert c) @ option_text ''&sslcert='' (dc_SSLCert c)
          @ option_text ''&sslkey='' (dc_SSLKey c))"

text \<open>Nothing is quoted: a password with a blank is read as further settings.\<close>

lemma postgres_dsn_ambiguous:
  assumes "dc_Name c = a @ '' dbname='' @ b" "dc_Password c = p"
  shows "postgres_dsn c = postgres_dsn (c\<lparr>dc_Password := p @ '' dbname='' @ a, dc_Name := b\<rparr>)"
  using assms by (simp add: postgres_dsn_def)

section \<open>Retries\<close>

text \<open>An error of the driver with its code, or any other; both have a text.\<close>

datatype db_error = PqError string string | OtherError string

fun error_text :: "db_error \<Rightarrow> string" where
  "error_text (PqError code msg) = msg"
| "error_text (OtherError msg) = msg"

definition retryable_code :: "db_error \<Rightarrow> bool" where
  "retryable_code e = (case e of
       PqError code _ \<Rightarrow> code = ''40001'' \<or> code = ''40003'' \<or> prefix ''CR'' code
     | OtherError _ \<Rightarrow> False)"

definition isRetryableError :: "db_error option \<Rightarrow> bool" where
  "isRetryableError err = (case err of
       None \<Rightarrow> False
     | Some e \<Rightarrow> retryable_code e
         \<or> sublist ''restart transaction'' (error_text e) \<or> sublist ''retry transaction'' (error_text e)
         \<or> sublist ''TransactionRetryWithProtoRefreshError'' (error_text e) \<or> sublist ''RETRY_SERIALIZABLE'' (error_text e))"

datatype retry_error = NotRetried db_error | Exhausted int "db_error option"

text \<open>The attempts with the pauses between them, in nanoseconds.\<close>

function retry_loop :: "('w \<Rightarrow> (db_error + unit) \<times> 'w) \<Rightarrow> int \<Rightarrow> int \<Rightarrow> db_error option \<Rightarrow> 'w \<Rightarrow> int list
    \<Rightarrow> (retry_error + unit) \<times> 'w \<times> int list" where
  "retry_loop transaction maxRetries attempt err w pauses =
     (if attempt > maxRetries then (Inl (Exhausted maxRetries err), w, pauses)
      else case transaction w of
             (Inr _, w) \<Rightarrow> (Inr (), w, pauses)
           | (Inl e, w) \<Rightarrow>
               if \<not> isRetryableError (Some e) then (Inl (NotRetried e), w, pauses)
               else retry_loop transaction maxRetries (attempt + 1) (Some e) w
                      (if attempt < maxRetries then pauses @ [(attempt + 1) * 100000000] else pauses))"
  by pat_completeness auto
termination by (relation "measure (\<lambda>(_, m, a, _). nat (m + 1 - a))") auto

declare retry_loop.simps [simp del]

definition ExecuteWithRetry :: "('w \<Rightarrow> (db_error + unit) \<times> 'w) \<Rightarrow> int \<Rightarrow> 'w \<Rightarrow> (retry_error + unit) \<times> 'w \<times> int list" where
  "ExecuteWithRetry transaction maxRetries w = retry_loop transaction maxRetries 0 None w []"

text \<open>A transaction that counts how often it was run.\<close>

definition counted_runs :: "('w \<Rightarrow> (db_error + unit) \<times> 'w) \<Rightarrow> 'w \<times> nat \<Rightarrow> (db_error + unit) \<times> ('w \<times> nat)" where
  "counted_runs transaction wn = (case transaction (fst wn) of (r, w) \<Rightarrow> (r, w, snd wn + 1))"

lemma retry_loop_bounded:
  "retry_loop (counted_runs transaction) m a err wn ps = (r, wn', ps') \<Longrightarrow> a \<le> m + 1 \<Longrightarrow>
     int (snd wn') \<le> int (snd wn) + (m + 1 - a) \<and> (\<forall>e k. r = Inl (Exhausted k e) \<longrightarrow> int (snd wn') = int (snd wn) + (m + 1 - a))"
proof (induction "counted_runs transaction" m a err wn ps arbitrary: r wn' ps' rule: retry_loop.induct)
  case (1 m a err wn ps)
  show ?case
  proof (cases "a > m")
    case True then show ?thesis using 1 by (auto simp: retry_loop.simps)
  next
    case False
    obtain q w where q: "counted_runs transaction wn = (q, w)" by (cases "counted_runs transaction wn") auto
    then have n: "snd w = snd wn + 1" by (auto simp: counted_runs_def split: prod.splits)
    show ?thesis
    proof (cases "\<exists>e. q = Inl e \<and> isRetryableError (Some e)")
      case False2: False
      then show ?thesis using False q n 1(2,3) by (subst (asm) retry_loop.simps) (auto split: sum.splits if_splits)
    next
      case True
      then obtain e where e: "q = Inl e" "isRetryableError (Some e)" by blast
      have "retry_loop (counted_runs transaction) m (a + 1) (Some e) w (if a < m then ps @ [(a + 1) * 100000000] else ps) = (r, wn', ps')"
        using 1(2) False q e by (subst (asm) retry_loop.simps) simp
      from 1(1) [OF False q [symmetric] e(1) _ this] show ?thesis using e(2) False n by auto
    qed
  qed
qed

text \<open>A transaction is run at most once more than there are retries, and exactly that often before giving up.\<close>

lemma retries_bounded:
  assumes "ExecuteWithRetry (counted_runs transaction) m (w, 0) = (r, (w', n), ps)" "0 \<le> m"
  shows "int n \<le> m + 1" "r = Inl (Exhausted k e) \<Longrightarrow> int n = m + 1"
  using retry_loop_bounded [OF assms(1) [unfolded ExecuteWithRetry_def]] assms(2) by auto

text \<open>With a negative number of retries the transaction is not run at all, and the answer is an error without a cause.\<close>

lemma negative_retries: "m < 0 \<Longrightarrow> ExecuteWithRetry transaction m w = (Inl (Exhausted m None), w, [])"
  by (simp add: ExecuteWithRetry_def retry_loop.simps)

section \<open>Migrations\<close>

definition terminalAtBackfillBatchSize :: nat where
  "terminalAtBackfillBatchSize = 5000"

text \<open>A finished job without a date.\<close>

definition undated :: "job \<Rightarrow> bool" where
  "undated j \<longleftrightarrow> job_Status j \<in> {StatusCompleted, StatusCancelled, StatusFailed, StatusDLQ} \<and> job_TerminalAt j = None"

definition dated :: "job \<Rightarrow> job" where
  "dated j = j\<lparr>job_TerminalAt := Some (case job_CompletedAt j of Some t \<Rightarrow> t | None \<Rightarrow> job_UpdatedAt j)\<rparr>"

text \<open>One statement: at most \<open>n\<close> such rows, in the order of the table, and how many they were.\<close>

fun backfill_batch :: "nat \<Rightarrow> job list \<Rightarrow> nat \<times> job list" where
  "backfill_batch n [] = (0, [])"
| "backfill_batch n (j # js) =
     (if 0 < n \<and> undated j then (case backfill_batch (n - 1) js of (k, js) \<Rightarrow> (k + 1, dated j # js))
      else (case backfill_batch n js of (k, js) \<Rightarrow> (k, j # js)))"

lemma not_undated_dated [simp]: "\<not> undated (dated j)"
  by (simp add: undated_def dated_def)

lemma backfill_batch_count:
  "backfill_batch n js = (k, js') \<Longrightarrow> k = min n (length (List.filter undated js))
     \<and> length (List.filter undated js') + k = length (List.filter undated js)"
  by (induction n js arbitrary: k js' rule: backfill_batch.induct) (auto split: if_splits prod.splits)

lemma backfill_less:
  assumes "(k, js') = backfill_batch n js" "0 < k"
  shows "length (List.filter undated js') < length (List.filter undated js)"
  using backfill_batch_count [OF assms(1) [symmetric]] assms(2) by linarith

function backfillJobTerminalAt :: "job list \<Rightarrow> job list" where
  "backfillJobTerminalAt js =
     (case backfill_batch terminalAtBackfillBatchSize js of
        (k, js') \<Rightarrow> if k = 0 then js' else backfillJobTerminalAt js')"
  by pat_completeness auto
termination
  by (relation "measure (\<lambda>js. length (List.filter undated js))") (auto intro: backfill_less)

declare backfillJobTerminalAt.simps [simp del]

definition all_dated :: "job list \<Rightarrow> job list" where
  "all_dated js = List.map (\<lambda>j. if undated j then dated j else j) js"

lemma backfill_batch_dates: "all_dated (snd (backfill_batch n js)) = all_dated js"
  by (induction n js rule: backfill_batch.induct) (auto simp: all_dated_def split: prod.splits)

lemma backfill_batch_none: "backfill_batch n js = (0, js') \<Longrightarrow> 0 < n \<Longrightarrow> js' = js \<and> all_dated js = js"
proof (induction n js arbitrary: js' rule: backfill_batch.induct)
  case (2 n j js) then show ?case by (auto simp: all_dated_def split: if_splits prod.splits)
qed (simp add: all_dated_def)


end
