(* ===== verification/WsServer.thy ===== *)
theory WsServer
  imports Connections
begin

text \<open>
  \<open>internal/api/websocket/server.go\<close>: the maintenance of the WebSocket server.  \<^const>\<open>None\<close> is the panic of closing a
  closed channel.  A loop that finds the channel closed ends; the wait of \<open>Close\<close> for it, at most ten seconds, is not
  modelled.
\<close>

record ws_server =
  ws_connectionService :: conn_svc
  ws_shutdown_closed :: bool
  ws_loops :: nat
  ws_maintenanceInterval :: int
  ws_lastMaintenance :: time
  ws_isRunning :: bool

definition NewServer :: "time \<Rightarrow> conn_svc \<Rightarrow> ws_server" where
  "NewServer now svc =
     \<lparr>ws_connectionService = svc, ws_shutdown_closed = False, ws_loops = 0, ws_maintenanceInterval = 300000000000,
      ws_lastMaintenance = now, ws_isRunning = False\<rparr>"

definition Run_ws :: "ws_server \<Rightarrow> ws_server" where
  "Run_ws s =
     (if ws_isRunning s then s
      else s\<lparr>ws_isRunning := True, ws_loops := (if ws_shutdown_closed s then ws_loops s else ws_loops s + 1)\<rparr>)"

definition performMaintenance :: "time \<Rightarrow> conn_ref list \<Rightarrow> ws_server \<Rightarrow> ws_server" where
  "performMaintenance now all s =
     s\<lparr>ws_connectionService := snd (CleanStaleConnections now all (ws_connectionService s)), ws_lastMaintenance := now\<rparr>"

text \<open>One tick of the loop.\<close>

definition maintenanceLoop_tick :: "time \<Rightarrow> conn_ref list \<Rightarrow> ws_server \<Rightarrow> ws_server" where
  "maintenanceLoop_tick now all s = (if ws_loops s = 0 then s else performMaintenance now all s)"

definition Close_ws :: "ws_server \<Rightarrow> ws_server option" where
  "Close_ws s =
     (if \<not> ws_isRunning s then Some s
      else if ws_shutdown_closed s then None
      else Some (s\<lparr>ws_isRunning := False, ws_shutdown_closed := True, ws_loops := 0\<rparr>))"

definition SetMaintenanceInterval :: "int \<Rightarrow> ws_server \<Rightarrow> ws_server" where
  "SetMaintenanceInterval interval s = s\<lparr>ws_maintenanceInterval := interval\<rparr>"

definition IsRunning :: "ws_server \<Rightarrow> bool" where
  "IsRunning s = ws_isRunning s"

text \<open>A server that is run once has one loop until it is closed; closing again does nothing.\<close>

lemma run_once: "ws_loops (Run_ws (Run_ws (NewServer now svc))) = 1"
  by (simp add: Run_ws_def NewServer_def)

lemma close_twice: "Close_ws s = Some s' \<Longrightarrow> Close_ws s' = Some s'"
  by (auto simp: Close_ws_def split: if_splits)

text \<open>A server that was closed cannot be used again: it maintains nothing, and closing it panics.\<close>

lemma run_after_close:
  assumes "ws_isRunning s" "Close_ws s = Some s'"
  shows "maintenanceLoop_tick now all (Run_ws s') = Run_ws s'" "Close_ws (Run_ws s') = None"
  using assms by (auto simp: Close_ws_def Run_ws_def maintenanceLoop_tick_def split: if_splits)

text \<open>A tick of the maintenance keeps the two maps of the connections in step and drops the connections without a recent
  pong and no other.\<close>

lemma maintenance_exact:
  fixes s all now
  defines "svc \<equiv> ws_connectionService s" and "svc' \<equiv> ws_connectionService (performMaintenance now all s)"
  assumes inv: "conn_inv (cs_heap svc) (cs_repo svc)" and all: "set all = ran (connections (cs_repo svc))" "distinct all"
  shows "conn_inv (cs_heap svc') (cs_repo svc')"
    "connections (cs_repo svc') i = Some r \<longleftrightarrow> connections (cs_repo svc) i = Some r \<and> \<not> stale_conn now (cs_heap svc r)"
proof -
  let ?rs = "List.filter (\<lambda>r. stale_conn now (cs_heap svc r)) all"
  obtain R' n where r: "clean_conns ?rs (cs_heap svc) (cs_repo svc) 0 = (R', n)" by fastforce
  have s': "svc' = svc\<lparr>cs_repo := R'\<rparr>"
    using r by (simp add: svc'_def svc_def performMaintenance_def CleanStaleConnections_def CleanStaleConnections_repo_def)
  have "\<forall>r\<in>set ?rs. connections (cs_repo svc) (conn_ID (cs_heap svc r)) = Some r"
    using all(1) conn_inv_ID [OF inv] by (auto simp: ran_def)
  from clean_conns_inv [OF inv _ this r] all(2)
  have k: "conn_inv (cs_heap svc) R'"
    "connections R' = (\<lambda>i. case connections (cs_repo svc) i of None \<Rightarrow> None | Some r \<Rightarrow> if r \<in> set ?rs then None else Some r)"
    by simp_all
  show "conn_inv (cs_heap svc') (cs_repo svc')" using k(1) s' by simp
  have "r \<in> set all" if "connections (cs_repo svc) i = Some r" using all(1) that by (auto simp: ran_def)
  then show "connections (cs_repo svc') i = Some r \<longleftrightarrow> connections (cs_repo svc) i = Some r \<and> \<not> stale_conn now (cs_heap svc r)"
    unfolding s' by (auto simp: k(2) split: option.splits if_splits)
qed

end
