(* ===== verification/Spec2Isabelle.thy ===== *)
theory Spec2Isabelle
  imports Prelude Ids Names RouterProps Permissions Backpressure SubRepo Connections MsgProps MsgDelivery MsgSession AuthProps
    RestProps PublishHandler ControlProps Instance Snapshot ScheduleProps Runtime WiringProps Database WsServer
begin

text \<open>
  Verification development of qpub-server, a Go server for channels (publish and subscribe over WebSocket and REST)
  and job queues, partitioned into projects (tenants) that API keys and tokens open.  Paths below are under
  \<open>src/internal/\<close>.

  \<^bold>\<open>The program and its model.\<close>  One process is one instance of a cluster.  Its parts, with the theories that model
  them:

  \<^item> \<^bold>\<open>Queues.\<close>  Jobs, queues, workers and tenants are rows of a database.  The entities and their transitions are in
    \<open>JobModel\<close> and \<open>QueueModel\<close> (\<open>domain/queue/\<close>, \<open>domain/tenant/\<close>); the statements on the tables in \<open>Tables\<close>,
    \<open>JobStore\<close> and \<open>QueueStore\<close> (\<open>infrastructure/repository/queue/\<close>, \<open>tenant/\<close>), a table being the list of its rows; the
    shared state \<open>world\<close> with the errors and the write barrier in \<open>QueueWorld\<close> (\<open>domain/queue/lifecycle/guard.go\<close>); the
    services, one definition per method from state to result and state, in \<open>QueueServices\<close>, \<open>QueueRouter\<close>, \<open>JobAdmin\<close>,
    \<open>Cleanup\<close> and \<open>TenantService\<close> (\<open>application/service/queue/\<close>, \<open>tenant/\<close>).  \<open>QueueSystem\<close> is the transition system of
    all of them, \<open>RouterProps\<close> what the router promises.
  \<^item> \<^bold>\<open>Recurring tasks.\<close>  \<open>Platform\<close> has the registry of tasks and the keys of their buckets, \<open>Schedule\<close> the election of the
    instance that enqueues them, \<open>Runtime\<close> the pass that claims and executes them and the webhooks it calls;
    \<open>ScheduleProps\<close> what holds of several instances that share Redis and the tables.
  \<^item> \<^bold>\<open>Messaging.\<close>  The in-memory repositories are \<open>SubRepo\<close>, \<open>Connections\<close>, \<open>Channels\<close> and \<open>Clients\<close>
    (\<open>infrastructure/repository/messaging/\<close>): objects behind pointers are addresses into a heap, so that a change shows
    in every index.  \<open>Backpressure\<close> has the bounded queues and the rate limiter, \<open>Telemetry\<close>, \<open>EventBus\<close> and \<open>ProjectLog\<close>
    the services their names say, \<open>Protocol\<close> the messages on the wire.  \<open>MsgWorld\<close> puts the state of one instance
    together; \<open>Broker\<close>, \<open>Egress\<close>, \<open>MsgRouter\<close>, \<open>SubService\<close>, \<open>ClientService\<close> and \<open>WsHandler\<close> are the services and the
    WebSocket handler on it.  A published message goes from the handler through the rate limit and NATS to the
    broker listener of every instance, and from there through a buffer and a pipeline to each subscriber.
  \<^item> \<^bold>\<open>Authentication.\<close>  \<open>Permissions\<close>, \<open>Auth\<close> and \<open>AuthTokens\<close> (\<open>shared/permission/\<close>, \<open>domain/apikey/\<close>, \<open>domain/auth/\<close>,
    \<open>api/http/middleware/auth/\<close>): keys, tokens, revocation, the middleware that fills the context of a request.
  \<^item> \<^bold>\<open>HTTP.\<close>  \<open>Http\<close> has replies, pages and representations, \<open>RestHandlers\<close>, \<open>PublishHandler\<close> and \<open>ControlHandler\<close> the
    handlers behind their routes (\<open>api/http/\<close>); \<open>WsServer\<close> is the maintenance of the WebSocket server.
  \<^item> \<^bold>\<open>Statistics and the cluster.\<close>  \<open>Realtime\<close> has the statistics in Redis, \<open>Snapshot\<close> how the messaging state gets there,
    \<open>Instance\<close> the registration of servers and the removal of stale ones.
  \<^item> \<^bold>\<open>Start.\<close>  \<open>Container\<close> is the dependency container (\<open>bootstrap/container/\<close>), \<open>Configs\<close> the configuration
    (\<open>config/\<close>), \<open>Wiring\<close> every factory of every module and the steps of start and shutdown (\<open>bootstrap/\<close>),
    \<open>Inventory\<close> the services with what each is made of, \<open>Database\<close> the drivers' texts, the retries and the
    migration that dates finished jobs.
  \<^item> \<^bold>\<open>Shared.\<close>  \<open>Prelude\<close> (64-bit integers, texts, collections of lemmas), \<open>Ids\<close>, \<open>Names\<close>, \<open>TextUtils\<close>, \<open>Validation\<close>
    (\<open>shared/\<close>).

  \<^bold>\<open>Conventions.\<close>  A Go string is a byte string.  An \<open>int\<close> is kept within 64 bits where it is computed with: \<open>i64\<close> wraps and
  \<open>in64\<close> states the range.  A time is a number of nanoseconds.  An error is the left of a sum, a panic that nothing
  recovers is \<^const>\<open>None\<close>.  The clock, fresh identifiers and the calls that fail are arguments of an operation
  (\<open>env\<close>, \<open>menv\<close>): every theorem holds for all of them.  Go visits a map in an arbitrary order; the order is an
  argument as well.  One operation is one atomic step on the shared state; operations of several clients interleave in
  any order, and what happens between the calls of one operation is not interleaved, except where a theory says so.

  \<^bold>\<open>Interfaces.\<close>  \<open>refinement\<close> (\<open>Prelude\<close>) states that a step function implements a specification through an abstraction;
  it is interpreted on the subscription index (\<open>SubRepo\<close>) and on the connection registry (\<open>Connections\<close>).  \<open>row_store\<close>
  (\<open>Tables\<close>) states what a lookup returns after a save; it is interpreted on the tables of jobs, queues and tenants.
  \<open>bounded_fifo\<close> (\<open>Backpressure\<close>) is the contract of a bounded queue, interpreted on the outbound queue.

  \<^bold>\<open>What is proved.\<close>  Queues: the tables stay well formed and every job follows the state machine of its statuses,
  whatever calls fail (\<open>QueueSystem\<close>); the barrier of a deletion; idempotent enqueues; exact behaviour of claim,
  acknowledgement, rejection, reclaim, purge and cascade.  Recurring tasks: one leader while the lease holds, two
  after it lapses, one job per bucket.  Messaging: both indexes refine a relation and a map; an invariant of all
  reachable states; a broker message reaches every subscriber once; a pipeline drains; a disconnection leaves nothing
  behind; a message needs a permission.  Authentication: which texts authenticate, and that a token does so as its
  key.  HTTP: a REST request stays in its project, a control request in its tenant; answers tell what was done; pages
  make up the listing.  Start: when everything outside answers, all services are made and exactly four are started;
  the manager of the channels (\<open>Broker\<close>), on which the removal of empty channels rests, is never made.  Lemmas beside
  them record where the code does less than it seems to; each says so.

  \<^bold>\<open>Bounds and termination.\<close>  The batch loops of \<open>Cleanup\<close> and \<open>Database\<close> and the retries are total functions with a
  measure.  The long poll (\<open>dequeue_loop\<close>) runs over the clock readings of its rounds and is \<^const>\<open>None\<close> when they end
  before the deadline; it returns once a reading reaches it.  \<open>Get_service\<close> has fuel for the calls inside calls: more
  than there are factories is enough (\<open>get_returns\<close>), and \<open>boot_fuel\<close> is more than the server has (\<open>boot_get_done\<close>).

  \<^bold>\<open>Parameters.\<close>  Code outside the repository is an argument: Redis (\<open>redis_env\<close>, \<open>lease_env\<close>), the JWT library, HMAC, the
  JSON parser, number, time, URL and duration parsers, the HTTP client, the cron library, Unicode case and rounding of
  floats.  What is assumed of it (\<open>leases_ok\<close>, \<open>redis_ok\<close> and the like) is documented behaviour, and every theorem that
  assumes it is tried on a concrete instance.  The key table of the cascades and the one of the control API are two
  fields; \<open>finish_cascade\<close> in \<open>ControlHandler\<close> is where they meet.

  \<^bold>\<open>Not modelled.\<close>  Opening connections to Redis, NATS and the database, sockets and the web framework (input and output);
  the logger; the statements that create tables; tickers, of which single ticks are modelled; the random generators;
  the brand and the entry point; envelopes of the queue router beyond their identifiers, and the unused protocol types.
\<close>

end
